(* ===== verification/Prelude.thy ===== *)
theory Prelude
  imports Main
begin

text \<open>
  Shared vocabulary of the development: the collections of simplification rules the component
  theories extend, the two loop shapes the Go code uses over and over (skip what a \<open>seen\<close> map
  already holds; append to the slice stored under a key of a map), and the facts about them that
  the component proofs rest on.
\<close>

named_theorems go_simps \<open>unfolding rules of the Go library functions on concrete arguments\<close>
named_theorems model_defs \<open>definitions of the model that a witness unfolds\<close>

section \<open>First occurrence per key\<close>

text \<open>
  The loop
  \<^verbatim>\<open>for _, x := range xs { k := f(x); if _, ok := seen[k]; ok { continue }; seen[k] = struct{}{}; out = append(out, x) }\<close>
  keeps, in order, the elements whose key has not been seen before.
\<close>

fun dedup_by :: "('a \<Rightarrow> 'k) \<Rightarrow> 'k set \<Rightarrow> 'a list \<Rightarrow> 'a list" where
  "dedup_by f S [] = []"
| "dedup_by f S (x # xs) =
     (if f x \<in> S then dedup_by f S xs else x # dedup_by f (insert (f x) S) xs)"

lemma set_dedup_by_subset: "set (dedup_by f S xs) \<subseteq> set xs"
  by (induction xs arbitrary: S) auto

lemma dedup_by_fresh: "y \<in> set (dedup_by f S xs) \<Longrightarrow> f y \<notin> S"
  by (induction xs arbitrary: S) (auto split: if_splits)

lemma distinct_dedup_by: "distinct (map f (dedup_by f S xs))"
  by (induction xs arbitrary: S) (auto dest: dedup_by_fresh)

lemma dedup_by_covers:
  "x \<in> set xs \<Longrightarrow> f x \<notin> S \<Longrightarrow> \<exists>y \<in> set (dedup_by f S xs). f y = f x"
proof (induction xs arbitrary: S)
  case Nil
  then show ?case by simp
next
  case (Cons a xs)
  show ?case
  proof (cases "f a \<in> S \<or> f a = f x")
    case True
    with Cons show ?thesis by (auto split: if_splits)
  next
    case False
    with Cons.prems have "x \<in> set xs" "f x \<notin> insert (f a) S" by auto
    then show ?thesis using Cons.IH [of "insert (f a) S"] False by auto
  qed
qed

lemma keys_dedup_by: "f ` set (dedup_by f {} xs) = f ` set xs"
proof
  show "f ` set (dedup_by f {} xs) \<subseteq> f ` set xs"
    using set_dedup_by_subset by (rule image_mono)
  show "f ` set xs \<subseteq> f ` set (dedup_by f {} xs)"
  proof
    fix k
    assume "k \<in> f ` set xs"
    then obtain x where x: "x \<in> set xs" "k = f x" by blast
    then obtain y where "y \<in> set (dedup_by f {} xs)" "f y = k"
      using dedup_by_covers [of x xs f "{}"] by auto
    then show "k \<in> f ` set (dedup_by f {} xs)" by blast
  qed
qed

lemma set_dedup_by_inj:
  assumes "inj_on f (set xs)"
  shows "set (dedup_by f {} xs) = set xs"
proof
  show "set (dedup_by f {} xs) \<subseteq> set xs" by (rule set_dedup_by_subset)
  show "set xs \<subseteq> set (dedup_by f {} xs)"
  proof
    fix x
    assume x: "x \<in> set xs"
    then obtain y where y: "y \<in> set (dedup_by f {} xs)" "f y = f x"
      using dedup_by_covers [of x xs f "{}"] by auto
    then have "y \<in> set xs" using set_dedup_by_subset by fast
    with assms x y show "x \<in> set (dedup_by f {} xs)" by (metis inj_onD)
  qed
qed

lemma dedup_by_id: "distinct (map f xs) \<Longrightarrow> f ` set xs \<inter> S = {} \<Longrightarrow> dedup_by f S xs = xs"
  by (induction xs arbitrary: S) auto

section \<open>Slices grouped under the keys of a map\<close>

text \<open>
  A Go \<open>map[string][]T\<close> is a partial function; reading an absent key gives the nil slice.
  \<open>grouped[k] = append(grouped[k], x)\<close> is \<open>group_add\<close>, and a loop that does this for every key
  of every element is \<open>group_all\<close>.
\<close>

definition slice_at :: "('k \<rightharpoonup> 'a list) \<Rightarrow> 'k \<Rightarrow> 'a list" where
  "slice_at m k = (case m k of None \<Rightarrow> [] | Some xs \<Rightarrow> xs)"

definition group_add :: "'a \<Rightarrow> 'k \<Rightarrow> ('k \<rightharpoonup> 'a list) \<Rightarrow> ('k \<rightharpoonup> 'a list)" where
  "group_add x k m = m(k \<mapsto> slice_at m k @ [x])"

definition group_all :: "('a \<Rightarrow> 'k list) \<Rightarrow> 'a list \<Rightarrow> ('k \<rightharpoonup> 'a list)" where
  "group_all keys xs = fold (\<lambda>x m. fold (group_add x) (keys x) m) xs Map.empty"

lemma slice_at_empty [simp]: "slice_at Map.empty k = []"
  by (simp add: slice_at_def)

lemma slice_at_group_add:
  "slice_at (group_add x k m) j = (if j = k then slice_at m j @ [x] else slice_at m j)"
  by (simp add: slice_at_def group_add_def)

lemma dom_group_add: "dom (group_add x k m) = insert k (dom m)"
  by (simp add: group_add_def)

lemma slice_at_fold_add:
  "slice_at (fold (group_add x) ks m) j = slice_at m j @ replicate (count_list ks j) x"
  by (induction ks arbitrary: m) (auto simp: slice_at_group_add)

lemma dom_fold_add: "dom (fold (group_add x) ks m) = dom m \<union> set ks"
  by (induction ks arbitrary: m) (auto simp: dom_group_add)

lemma slice_at_group_fold:
  "slice_at (fold (\<lambda>x m. fold (group_add x) (keys x) m) xs m) j =
     slice_at m j @ concat (map (\<lambda>x. replicate (count_list (keys x) j) x) xs)"
  by (induction xs arbitrary: m) (auto simp: slice_at_fold_add)

lemma dom_group_fold:
  "dom (fold (\<lambda>x m. fold (group_add x) (keys x) m) xs m) = dom m \<union> (\<Union>x \<in> set xs. set (keys x))"
  by (induction xs arbitrary: m) (auto simp: dom_fold_add)

lemma slice_at_group_all:
  "slice_at (group_all keys xs) j = concat (map (\<lambda>x. replicate (count_list (keys x) j) x) xs)"
  by (simp add: group_all_def slice_at_group_fold)

lemma dom_group_all: "dom (group_all keys xs) = (\<Union>x \<in> set xs. set (keys x))"
  by (simp add: group_all_def dom_group_fold)

text \<open>With one key per element the stored slice is a filter of the input, in order.\<close>

lemma slice_at_group_single:
  "slice_at (group_all (\<lambda>x. [f x]) xs) j = filter (\<lambda>x. f x = j) xs"
  by (induction xs) (auto simp: slice_at_group_all)

lemma set_slice_at_group_all:
  "set (slice_at (group_all keys xs) j) = {x \<in> set xs. j \<in> set (keys x)}"
  by (auto simp: slice_at_group_all set_replicate_conv_if count_list_0_iff)

section \<open>Small facts on lists\<close>

lemma takeWhile_dropWhile_nonempty:
  "xs \<noteq> [] \<Longrightarrow> P (hd xs) \<Longrightarrow> length (dropWhile P xs) < length xs"
  by (cases xs) (auto simp: le_imp_less_Suc length_dropWhile_le)

lemma last_occurrence_split:
  assumes "c \<in> set s"
  shows "\<exists>a b. s = a @ c # b \<and> c \<notin> set b"
  using split_list_last [OF assms] by blast

section \<open>Results\<close>

lemma not_isl_Inr: "\<not> isl x \<Longrightarrow> \<exists>y. x = Inr y"
  by (cases x) auto

section \<open>Counters\<close>

text \<open>\<open>x++\<close> on an \<open>int32\<close>\<close>

definition inc32 :: "int \<Rightarrow> int" where
  "inc32 x = (if x = 2 ^ 31 - 1 then - (2 ^ 31) else x + 1)"

lemma inc32_small: "0 \<le> x \<Longrightarrow> x < 2 ^ 31 - 1 \<Longrightarrow> inc32 x = x + 1"
  by (simp add: inc32_def)

text \<open>The conversion \<open>int32(n)\<close>\<close>

definition to_int32 :: "int \<Rightarrow> int" where
  "to_int32 n = (n + 2 ^ 31) mod 2 ^ 32 - 2 ^ 31"

lemma to_int32_id: "- (2 ^ 31) \<le> n \<Longrightarrow> n < 2 ^ 31 \<Longrightarrow> to_int32 n = n"
  by (simp add: to_int32_def)

end
