(* ===== verification/Go_Strings.thy ===== *)
theory Go_Strings
  imports Prelude "HOL-Library.Char_ord" "HOL-Library.List_Lexorder"
begin

text \<open>
  The part of Go's \<open>strings\<close>, \<open>strconv\<close> and \<open>unicode\<close> packages that the modelled code calls. A Go
  string is a sequence of bytes, so it is a \<open>string\<close> (a list of 8-bit characters) and \<open><\<close> on
  strings is the bytewise lexicographic order of \<open>HOL-Library.List_Lexorder\<close>. A position is a
  \<open>nat\<close>, and the \<open>-1\<close> of the index functions is \<open>None\<close>; \<open>s[:i]\<close> is \<open>take i s\<close> and \<open>s[i:]\<close> is
  \<open>drop i s\<close>.

  White space is exact: \<open>spaces\<close> lists the UTF-8 encodings of the code points for which
  \<open>unicode.IsSpace\<close> holds. Each of them starts with a byte that occurs nowhere inside another
  encoded rune, so matching the encodings bytewise finds what decoding the runes finds.
  Case folding is exact on ASCII and leaves the other bytes alone.
\<close>

section \<open>Prefixes, suffixes, searching\<close>

definition HasPrefix :: "string \<Rightarrow> string \<Rightarrow> bool" where
  "HasPrefix s p = (take (length p) s = p)"

definition HasSuffix :: "string \<Rightarrow> string \<Rightarrow> bool" where
  "HasSuffix s p = (length p \<le> length s \<and> drop (length s - length p) s = p)"

text \<open>\<open>after, ok := strings.CutPrefix(s, p)\<close>: \<open>None\<close> is \<open>ok = false\<close>.\<close>

definition CutPrefix :: "string \<Rightarrow> string \<Rightarrow> string option" where
  "CutPrefix s p = (if HasPrefix s p then Some (drop (length p) s) else None)"

definition TrimPrefix :: "string \<Rightarrow> string \<Rightarrow> string" where
  "TrimPrefix s p = (if HasPrefix s p then drop (length p) s else s)"

definition TrimSuffix :: "string \<Rightarrow> string \<Rightarrow> string" where
  "TrimSuffix s p = (if HasSuffix s p then take (length s - length p) s else s)"

fun Index :: "string \<Rightarrow> string \<Rightarrow> nat option" where
  "Index [] p = (if p = [] then Some 0 else None)"
| "Index (c # s) p =
     (if HasPrefix (c # s) p then Some 0 else map_option Suc (Index s p))"

fun LastIndex :: "string \<Rightarrow> string \<Rightarrow> nat option" where
  "LastIndex [] p = (if p = [] then Some 0 else None)"
| "LastIndex (c # s) p =
     (case LastIndex s p of
        Some i \<Rightarrow> Some (Suc i)
      | None \<Rightarrow> (if HasPrefix (c # s) p then Some 0 else None))"

definition Contains :: "string \<Rightarrow> string \<Rightarrow> bool" where
  "Contains s p = (Index s p \<noteq> None)"

text \<open>\<open>before, after, ok := strings.Cut(s, sep)\<close>: \<open>None\<close> is \<open>ok = false\<close>.\<close>

definition Cut :: "string \<Rightarrow> string \<Rightarrow> (string \<times> string) option" where
  "Cut s p = map_option (\<lambda>i. (take i s, drop (i + length p) s)) (Index s p)"

lemma HasPrefix_append [simp]: "HasPrefix (p @ s) p"
  by (simp add: HasPrefix_def)

lemma HasPrefix_iff: "HasPrefix s p \<longleftrightarrow> (\<exists>t. s = p @ t)"
  by (metis HasPrefix_append HasPrefix_def append_take_drop_id)

lemma HasPrefix_single [simp]: "HasPrefix (c # s) [d] \<longleftrightarrow> c = d"
  by (auto simp: HasPrefix_def)

lemma HasPrefix_Nil [simp]: "HasPrefix [] p \<longleftrightarrow> p = []"
  by (auto simp: HasPrefix_def)

lemma HasPrefix_empty [simp]: "HasPrefix s []"
  by (simp add: HasPrefix_def)

lemma CutPrefix_append [simp]: "CutPrefix (p @ s) p = Some s"
  by (simp add: CutPrefix_def)

subsection \<open>Searching for one byte\<close>

lemma Index_single_None: "Index s [c] = None \<longleftrightarrow> c \<notin> set s"
  by (induction s) auto

lemma LastIndex_single_None: "LastIndex s [c] = None \<longleftrightarrow> c \<notin> set s"
  by (induction s) (auto split: option.splits)

lemma Index_single_append: "c \<notin> set a \<Longrightarrow> Index (a @ c # b) [c] = Some (length a)"
  by (induction a) auto

lemma LastIndex_single_append: "c \<notin> set b \<Longrightarrow> LastIndex (a @ c # b) [c] = Some (length a)"
proof (induction a)
  case Nil
  then have "LastIndex b [c] = None" by (simp add: LastIndex_single_None)
  then show ?case by simp
next
  case (Cons x a)
  then show ?case by simp
qed

lemma Index_single_SomeD:
  "Index s [c] = Some i \<Longrightarrow> s = take i s @ c # drop (Suc i) s \<and> c \<notin> set (take i s) \<and> i < length s"
proof (induction s arbitrary: i)
  case Nil
  then show ?case by simp
next
  case (Cons a s)
  then show ?case by (cases i) (auto split: if_splits)
qed

lemma LastIndex_single_SomeD:
  "LastIndex s [c] = Some i \<Longrightarrow>
     s = take i s @ c # drop (Suc i) s \<and> c \<notin> set (drop (Suc i) s) \<and> i < length s"
proof (induction s arbitrary: i)
  case Nil
  then show ?case by simp
next
  case (Cons a s)
  show ?case
  proof (cases "LastIndex s [c]")
    case None
    with Cons.prems have "i = 0" "a = c" by (auto split: if_splits)
    moreover from None have "c \<notin> set s" by (simp add: LastIndex_single_None)
    ultimately show ?thesis by simp
  next
    case (Some j)
    with Cons.prems have "i = Suc j" by simp
    with Cons.IH [OF Some] show ?thesis by simp
  qed
qed

lemma Index_less_length: "Index s [c] = Some i \<Longrightarrow> i < length s"
  by (simp add: Index_single_SomeD)

lemma LastIndex_less_length: "LastIndex s [c] = Some i \<Longrightarrow> i < length s"
  by (simp add: LastIndex_single_SomeD)

section \<open>Bytes\<close>

abbreviation byte :: "char \<Rightarrow> int" where
  "byte c \<equiv> of_char c"

lemma byte_nat: "byte c = int (of_char c)"
  by (simp only: of_nat_of_char)

lemma byte_range [simp]: "0 \<le> byte c" "byte c < 256"
  using nat_of_char_less_256 [of c] by (simp_all add: byte_nat)

lemma byte_inject: "byte c = byte d \<longleftrightarrow> c = d"
  by simp

lemma char_less_byte: "c < d \<longleftrightarrow> byte c < byte d"
  by (simp add: less_char_def byte_nat)

text \<open>\<open>unicode.IsDigit(rune(b))\<close> for a byte \<open>b\<close>: the decimal digits are the only Latin-1 code
  points of category Nd.\<close>

definition IsDigit :: "char \<Rightarrow> bool" where
  "IsDigit c = (48 \<le> byte c \<and> byte c \<le> 57)"

text \<open>\<open>unicode.IsLetter(rune(b))\<close> for a byte \<open>b\<close>: ASCII letters and the letters of Latin-1
  (\<open>U+00AA\<close>, \<open>U+00B5\<close>, \<open>U+00BA\<close>, \<open>U+00C0\<close> to \<open>U+00FF\<close> without the two operators).\<close>

definition IsLetter :: "char \<Rightarrow> bool" where
  "IsLetter c =
     (let b = byte c in
       65 \<le> b \<and> b \<le> 90 \<or> 97 \<le> b \<and> b \<le> 122 \<or> b = 170 \<or> b = 181 \<or> b = 186 \<or>
       192 \<le> b \<and> b \<le> 255 \<and> b \<noteq> 215 \<and> b \<noteq> 247)"

lemma IsLetter_not_IsDigit: "IsLetter c \<Longrightarrow> \<not> IsDigit c"
  by (auto simp: IsLetter_def IsDigit_def Let_def)

definition lower_char :: "char \<Rightarrow> char" where
  "lower_char c = (if 65 \<le> byte c \<and> byte c \<le> 90 then char_of (byte c + 32) else c)"

definition ToLower :: "string \<Rightarrow> string" where
  "ToLower s = map lower_char s"

definition EqualFold :: "string \<Rightarrow> string \<Rightarrow> bool" where
  "EqualFold s t = (ToLower s = ToLower t)"

lemma lower_char_idem [simp]: "lower_char (lower_char c) = lower_char c"
  by (simp add: lower_char_def)

lemma ToLower_idem [simp]: "ToLower (ToLower s) = ToLower s"
  by (simp add: ToLower_def)

lemma ToLower_Nil [simp]: "ToLower [] = []" and ToLower_eq_Nil [simp]: "ToLower s = [] \<longleftrightarrow> s = []"
  by (simp_all add: ToLower_def)

section \<open>White space\<close>

definition spaces :: "string list" where
  "spaces =
     [[CHR 0x20], [CHR 0x09], [CHR 0x0A], [CHR 0x0B], [CHR 0x0C], [CHR 0x0D],
      [CHR 0xC2, CHR 0x85], [CHR 0xC2, CHR 0xA0],
      [CHR 0xE1, CHR 0x9A, CHR 0x80],
      [CHR 0xE2, CHR 0x80, CHR 0x80], [CHR 0xE2, CHR 0x80, CHR 0x81], [CHR 0xE2, CHR 0x80, CHR 0x82],
      [CHR 0xE2, CHR 0x80, CHR 0x83], [CHR 0xE2, CHR 0x80, CHR 0x84], [CHR 0xE2, CHR 0x80, CHR 0x85],
      [CHR 0xE2, CHR 0x80, CHR 0x86], [CHR 0xE2, CHR 0x80, CHR 0x87], [CHR 0xE2, CHR 0x80, CHR 0x88],
      [CHR 0xE2, CHR 0x80, CHR 0x89], [CHR 0xE2, CHR 0x80, CHR 0x8A],
      [CHR 0xE2, CHR 0x80, CHR 0xA8], [CHR 0xE2, CHR 0x80, CHR 0xA9], [CHR 0xE2, CHR 0x80, CHR 0xAF],
      [CHR 0xE2, CHR 0x81, CHR 0x9F],
      [CHR 0xE3, CHR 0x80, CHR 0x80]]"

text \<open>The number of bytes of the encoding from \<open>encs\<close> that \<open>s\<close> starts with, 0 if there is none.\<close>

fun enc_len :: "string list \<Rightarrow> string \<Rightarrow> nat" where
  "enc_len [] s = 0"
| "enc_len (p # ps) s = (if HasPrefix s p then length p else enc_len ps s)"

lemma enc_len_le: "enc_len encs s \<le> length s"
  by (induction encs) (auto simp: HasPrefix_iff)

function strip :: "string list \<Rightarrow> string \<Rightarrow> string" where
  "strip encs s = (if enc_len encs s = 0 then s else strip encs (drop (enc_len encs s) s))"
  by pat_completeness auto
termination
proof (relation "measure (\<lambda>(encs, s). length s)")
  fix encs s
  assume "enc_len encs s \<noteq> 0"
  moreover have "enc_len encs s \<le> length s" by (rule enc_len_le)
  ultimately show "((encs, drop (enc_len encs s) s), encs, s) \<in> measure (\<lambda>(encs, s). length s)"
    by simp
qed simp

declare strip.simps [simp del]

definition TrimLeftSpace :: "string \<Rightarrow> string" where
  "TrimLeftSpace s = strip spaces s"

definition TrimRightSpace :: "string \<Rightarrow> string" where
  "TrimRightSpace s = rev (strip (map rev spaces) (rev s))"

definition TrimSpace :: "string \<Rightarrow> string" where
  "TrimSpace s = TrimRightSpace (TrimLeftSpace s)"

text \<open>\<open>strings.Fields\<close>: \<open>cur\<close> is the field being read, reversed.\<close>

function fields_aux :: "string \<Rightarrow> string \<Rightarrow> string list" where
  "fields_aux cur [] = (if cur = [] then [] else [rev cur])"
| "fields_aux cur (c # s) =
     (if enc_len spaces (c # s) = 0 then fields_aux (c # cur) s
      else (if cur = [] then [] else [rev cur]) @
           fields_aux [] (drop (enc_len spaces (c # s)) (c # s)))"
  by pat_completeness auto
termination
proof (relation "measure (\<lambda>(cur, s). length s)")
  fix cur :: string and c s
  assume "enc_len spaces (c # s) \<noteq> 0"
  moreover have "enc_len spaces (c # s) \<le> length (c # s)" by (rule enc_len_le)
  ultimately show
    "(([], drop (enc_len spaces (c # s)) (c # s)), cur, c # s) \<in> measure (\<lambda>(cur, s). length s)"
    by simp
qed auto

definition Fields :: "string \<Rightarrow> string list" where
  "Fields s = fields_aux [] s"

lemma strip_fixed: "enc_len encs (strip encs s) = 0"
proof (induction encs s rule: strip.induct)
  case (1 encs s)
  then show ?case by (cases "enc_len encs s = 0") (simp_all add: strip.simps [of encs s])
qed

lemma strip_id: "enc_len encs s = 0 \<Longrightarrow> strip encs s = s"
  by (simp add: strip.simps)

lemma strip_suffix: "\<exists>t. s = t @ strip encs s"
proof (induction encs s rule: strip.induct)
  case (1 encs s)
  show ?case
  proof (cases "enc_len encs s = 0")
    case True
    then show ?thesis by (simp add: strip.simps)
  next
    case False
    then obtain t where "drop (enc_len encs s) s = t @ strip encs (drop (enc_len encs s) s)"
      using 1 by blast
    then have "s = (take (enc_len encs s) s @ t) @ strip encs s"
      using False by (metis append.assoc append_take_drop_id strip.simps)
    then show ?thesis by blast
  qed
qed

lemma enc_len_0_iff: "[] \<notin> set encs \<Longrightarrow> enc_len encs s = 0 \<longleftrightarrow> (\<forall>p \<in> set encs. \<not> HasPrefix s p)"
  by (induction encs) auto

lemma enc_len_0_prefix: "[] \<notin> set encs \<Longrightarrow> enc_len encs (s @ t) = 0 \<Longrightarrow> enc_len encs s = 0"
  by (auto simp: enc_len_0_iff HasPrefix_iff)

lemma Nil_not_space [simp]: "[] \<notin> set spaces"
  by (simp add: spaces_def)

text \<open>A string is trimmed when no white space starts or ends it; \<open>TrimSpace\<close> is the identity on
  such strings and always yields one.\<close>

definition trimmed :: "string \<Rightarrow> bool" where
  "trimmed s = (enc_len spaces s = 0 \<and> enc_len (map rev spaces) (rev s) = 0)"

lemma TrimSpace_id: "trimmed s \<Longrightarrow> TrimSpace s = s"
  by (simp add: trimmed_def TrimSpace_def TrimLeftSpace_def TrimRightSpace_def strip_id)

lemma trimmed_TrimSpace [simp]: "trimmed (TrimSpace s)"
proof -
  let ?l = "TrimLeftSpace s" and ?t = "TrimSpace s"
  obtain w where "rev ?l = w @ strip (map rev spaces) (rev ?l)"
    using strip_suffix by blast
  then have "?l = ?t @ rev w"
    by (metis TrimRightSpace_def TrimSpace_def rev_append rev_rev_ident)
  moreover have "enc_len spaces ?l = 0"
    by (simp add: TrimLeftSpace_def strip_fixed)
  ultimately have "enc_len spaces ?t = 0"
    by (metis enc_len_0_prefix Nil_not_space)
  moreover have "enc_len (map rev spaces) (rev ?t) = 0"
    by (simp add: TrimSpace_def TrimRightSpace_def strip_fixed)
  ultimately show ?thesis by (simp add: trimmed_def)
qed

lemma TrimSpace_idem [simp]: "TrimSpace (TrimSpace s) = TrimSpace s"
  by (simp add: TrimSpace_id)

lemma trimmed_Nil [simp]: "trimmed []"
  by (simp add: trimmed_def spaces_def HasPrefix_def)

lemma TrimSpace_Nil [simp]: "TrimSpace [] = []"
  by (simp add: TrimSpace_id)

text \<open>Printable ASCII other than the space never belongs to an encoded white space.\<close>

definition plain :: "char \<Rightarrow> bool" where
  "plain c = (33 \<le> byte c \<and> byte c \<le> 126)"

lemma HasPrefix_Cons: "HasPrefix (c # s) (d # p) \<longleftrightarrow> c = d \<and> HasPrefix s p"
  by (auto simp: HasPrefix_def)

lemma enc_len_plain_hd: "plain c \<Longrightarrow> \<forall>p \<in> set encs. p \<noteq> [] \<and> \<not> plain (hd p) \<Longrightarrow> enc_len encs (c # s) = 0"
proof (induction encs)
  case Nil
  then show ?case by simp
next
  case (Cons p ps)
  then show ?case by (cases p) (auto simp: HasPrefix_Cons)
qed

lemma spaces_not_plain: "\<forall>p \<in> set spaces. p \<noteq> [] \<and> \<not> plain (hd p)"
  "\<forall>p \<in> set (map rev spaces). p \<noteq> [] \<and> \<not> plain (hd p)"
  by (simp_all add: spaces_def plain_def)

lemma trimmed_plain: "s \<noteq> [] \<Longrightarrow> plain (hd s) \<Longrightarrow> plain (last s) \<Longrightarrow> trimmed s"
proof -
  assume "s \<noteq> []" "plain (hd s)" "plain (last s)"
  moreover from this obtain c t where "s = c # t" by (cases s) auto
  moreover from \<open>s \<noteq> []\<close> have "rev s = last s # rev (butlast s)"
    by (metis append_butlast_last_id rev_eq_Cons_iff rev_rev_ident)
  ultimately show "trimmed s"
    using spaces_not_plain by (simp only: trimmed_def) (auto simp: enc_len_plain_hd)
qed

lemma IsDigit_plain: "IsDigit c \<Longrightarrow> plain c"
  by (simp add: IsDigit_def plain_def)

lemma trimmed_all_plain: "list_all plain s \<Longrightarrow> trimmed s"
  by (cases "s = []") (auto intro!: trimmed_plain simp: list_all_iff)

subsection \<open>Fields of plain text\<close>

lemma enc_len_plain [simp]: "plain c \<Longrightarrow> enc_len spaces (c # s) = 0"
  by (rule enc_len_plain_hd [OF _ spaces_not_plain(1)])

lemma enc_len_blank [simp]: "enc_len spaces (CHR '' '' # s) = 1"
  by (simp add: spaces_def HasPrefix_Cons)

lemma fields_aux_plain: "list_all plain w \<Longrightarrow> fields_aux cur (w @ s) = fields_aux (rev w @ cur) s"
  by (induction w arbitrary: cur) auto

lemma fields_aux_blank: "fields_aux cur (CHR '' '' # s) = (if cur = [] then [] else [rev cur]) @ fields_aux [] s"
  by simp

lemma Fields_two:
  assumes "list_all plain a" "a \<noteq> []" "list_all plain b" "b \<noteq> []"
  shows "Fields (a @ '' '' @ b) = [a, b]"
proof -
  have "Fields (a @ '' '' @ b) = fields_aux (rev a) (CHR '' '' # b)"
    using assms(1) by (simp add: Fields_def fields_aux_plain)
  also have "\<dots> = a # fields_aux [] (b @ [])" using assms(2) by simp
  also have "\<dots> = [a, b]" using assms(3,4) by (simp only: fields_aux_plain) simp
  finally show ?thesis .
qed

section \<open>Numbers\<close>

fun digits_val :: "int \<Rightarrow> string \<Rightarrow> int option" where
  "digits_val acc [] = Some acc"
| "digits_val acc (c # s) =
     (if IsDigit c then digits_val (10 * acc + (byte c - 48)) s else None)"

text \<open>\<open>strconv.ParseInt(s, 10, bits)\<close>, \<open>None\<close> for either error (syntax or range).\<close>

definition ParseInt :: "nat \<Rightarrow> string \<Rightarrow> int option" where
  "ParseInt bits s =
     (let (neg, body) =
            (case s of
               [] \<Rightarrow> (False, [])
             | c # t \<Rightarrow> if c = CHR ''-'' then (True, t) else if c = CHR ''+'' then (False, t) else (False, s))
      in if body = [] then None
         else (case digits_val 0 body of
                 None \<Rightarrow> None
               | Some n \<Rightarrow>
                   if neg then (if n \<le> 2 ^ (bits - 1) then Some (- n) else None)
                   else (if n < 2 ^ (bits - 1) then Some n else None)))"

lemma digits_val_nonneg: "0 \<le> acc \<Longrightarrow> digits_val acc s = Some n \<Longrightarrow> 0 \<le> n"
proof (induction s arbitrary: acc)
  case (Cons a s)
  then have "0 \<le> 10 * acc + (byte a - 48)" by (auto simp: IsDigit_def split: if_splits)
  with Cons show ?case by (auto split: if_splits)
qed simp

lemma ParseInt_range:
  assumes "ParseInt bits s = Some n"
  shows "- (2 ^ (bits - 1)) \<le> n \<and> n < 2 ^ (bits - 1)"
proof -
  obtain body k where k: "digits_val 0 body = Some k"
    "n = - k \<and> k \<le> 2 ^ (bits - 1) \<or> n = k \<and> k < 2 ^ (bits - 1)"
    using assms unfolding ParseInt_def Let_def
    by (fastforce simp del: digits_val.simps split: list.splits if_splits option.splits)
  then have "0 \<le> k" using digits_val_nonneg by blast
  moreover have "0 < (2::int) ^ (bits - 1)" by simp
  ultimately show ?thesis using k(2) by linarith
qed

text \<open>\<open>strconv.Itoa\<close> and the \<open>%d\<close> verb.\<close>

function digits_of :: "int \<Rightarrow> string" where
  "digits_of n = (if n < 10 then [char_of (48 + n)] else digits_of (n div 10) @ [char_of (48 + n mod 10)])"
  by pat_completeness auto
termination
  by (relation "measure nat") auto

declare digits_of.simps [simp del]

definition Itoa :: "int \<Rightarrow> string" where
  "Itoa n = (if n < 0 then CHR ''-'' # digits_of (- n) else digits_of n)"

lemma byte_char_of_digit [simp]: "0 \<le> d \<Longrightarrow> d < 10 \<Longrightarrow> byte (char_of (48 + d :: int)) = 48 + d"
  by (simp add: of_char_of)

lemma IsDigit_char_of_digit [simp]: "0 \<le> (d::int) \<Longrightarrow> d < 10 \<Longrightarrow> IsDigit (char_of (48 + d))"
  by (simp add: IsDigit_def)

lemma digits_val_append:
  "digits_val acc (s @ t) = (case digits_val acc s of None \<Rightarrow> None | Some a \<Rightarrow> digits_val a t)"
  by (induction s arbitrary: acc) auto

lemma digits_val_digits_of: "0 \<le> n \<Longrightarrow> digits_val 0 (digits_of n) = Some n"
proof (induction n rule: digits_of.induct)
  case (1 n)
  show ?case
  proof (cases "n < 10")
    case True
    with 1 show ?thesis by (simp add: digits_of.simps [of n])
  next
    case False
    with 1 show ?thesis by (simp add: digits_of.simps [of n] digits_val_append)
  qed
qed

lemma digits_of_all_digits: "0 \<le> n \<Longrightarrow> list_all IsDigit (digits_of n)"
proof (induction n rule: digits_of.induct)
  case (1 n)
  then show ?case by (cases "n < 10") (simp_all add: digits_of.simps [of n])
qed

lemma digits_of_nonempty [simp]: "digits_of n \<noteq> []"
  by (subst digits_of.simps) simp

lemma ParseInt_Itoa:
  assumes "- (2 ^ (bits - 1)) \<le> n" "n < 2 ^ (bits - 1)"
  shows "ParseInt bits (Itoa n) = Some n"
proof (cases "n < 0")
  case True
  with assms show ?thesis
    by (simp add: ParseInt_def Itoa_def digits_val_digits_of)
next
  case False
  obtain c t where ct: "digits_of n = c # t"
    by (meson digits_of_nonempty neq_Nil_conv)
  then have "IsDigit c"
    using digits_of_all_digits [of n] False by simp
  then have "c \<noteq> CHR ''-''" "c \<noteq> CHR ''+''" by (auto simp: IsDigit_def)
  then show ?thesis
    using False assms ct digits_val_digits_of [of n] by (simp add: ParseInt_def Itoa_def)
qed

lemma Itoa_chars:
  assumes "c \<in> set (Itoa n)"
  shows "IsDigit c \<or> c = CHR ''-'' \<and> n < 0"
  using assms digits_of_all_digits [of n] digits_of_all_digits [of "- n"]
  by (auto simp: Itoa_def list_all_iff split: if_splits)

lemma Itoa_plain: "list_all plain (Itoa n)"
  by (auto simp: list_all_iff plain_def IsDigit_def dest!: Itoa_chars)

lemma Itoa_no_colon: "CHR '':'' \<notin> set (Itoa n)"
  by (auto simp: IsDigit_def dest!: Itoa_chars)

lemma Itoa_nonempty [simp]: "Itoa n \<noteq> []"
  by (simp add: Itoa_def)

lemma Itoa_no_dash: "0 \<le> n \<Longrightarrow> CHR ''-'' \<notin> set (Itoa n)"
  by (auto simp: IsDigit_def dest!: Itoa_chars)

section \<open>Splitting and joining\<close>

text \<open>\<open>strings.Split(s, sep)\<close> for a separator of one byte.\<close>

fun Split1 :: "string \<Rightarrow> char \<Rightarrow> string list" where
  "Split1 [] d = [[]]"
| "Split1 (c # s) d =
     (if c = d then [] # Split1 s d
      else (case Split1 s d of [] \<Rightarrow> [[c]] | f # fs \<Rightarrow> (c # f) # fs))"

fun Join :: "string list \<Rightarrow> string \<Rightarrow> string" where
  "Join [] sep = []"
| "Join [x] sep = x"
| "Join (x # y # ys) sep = x @ sep @ Join (y # ys) sep"

lemma Split1_nonempty [simp]: "Split1 s d \<noteq> []"
  by (induction s) (auto split: list.splits)

lemma Split1_append: "d \<notin> set a \<Longrightarrow> Split1 (a @ d # s) d = a # Split1 s d"
  by (induction a) auto

lemma Split1_no_sep: "d \<notin> set a \<Longrightarrow> Split1 a d = [a]"
  by (induction a) auto

lemma Join_Split1: "Join (Split1 s d) [d] = s"
proof (induction s)
  case Nil
  then show ?case by simp
next
  case (Cons c s)
  obtain f fs where f: "Split1 s d = f # fs" by (meson Split1_nonempty neq_Nil_conv)
  with Cons show ?case by (cases fs) auto
qed

lemma Split1_Join: "fs \<noteq> [] \<Longrightarrow> \<forall>f \<in> set fs. d \<notin> set f \<Longrightarrow> Split1 (Join fs [d]) d = fs"
  by (induction fs "[d]" rule: Join.induct) (auto simp: Split1_append Split1_no_sep)

end
