(* ===== verification/Data_Model.thy ===== *)
theory Data_Model
  imports Go_Strings
begin

text \<open>
  The data the server works on: the rows of \<open>internal/sql/models.go\<close>, the parameters of the two
  statements the matcher writes with, and the messages of \<open>proto/agent\<close> an agent sends. A field
  keeps its name behind a prefix for its struct. \<open>utils.Option[T]\<close> is \<^typ>\<open>'a option\<close>
  (theory \<open>Go_Option\<close> relates it to the struct), \<open>pgtype.Timestamptz\<close> is an optional number of
  nanoseconds, \<open>int32\<close> and \<open>int64\<close> are \<^typ>\<open>int\<close> with the width written out where a
  computation can leave it. Left out are the protobuf bookkeeping fields, install times and the
  CVSS score, which no modelled operation reads.
\<close>

section \<open>Options\<close>

definition IsNoneOrDefault :: "string option \<Rightarrow> bool" where
  "IsNoneOrDefault o1 = (case o1 of None \<Rightarrow> True | Some v \<Rightarrow> v = [])"

definition UnwrapOr :: "'a option \<Rightarrow> 'a \<Rightarrow> 'a" where
  "UnwrapOr o1 d = (case o1 of None \<Rightarrow> d | Some v \<Rightarrow> v)"

lemma UnwrapOr_simps [simp]: "UnwrapOr (Some v) d = v" "UnwrapOr None d = d"
  by (simp_all add: UnwrapOr_def)

lemma IsNoneOrDefault_UnwrapOr: "IsNoneOrDefault v \<longleftrightarrow> UnwrapOr v [] = []"
  by (cases v) (simp_all add: IsNoneOrDefault_def)

section \<open>Agent messages\<close>

record Package =
  pkg_Name :: string
  pkg_Epoch :: int
  pkg_Version :: string
  pkg_Release :: string
  pkg_Arch :: string
  pkg_SourceRpm :: string
  pkg_Vendor :: string
  pkg_RepoOrigin :: string
  pkg_Nevra :: string

record Repo =
  repo_RepoId :: string
  repo_Enabled :: bool
  repo_RepoLabel :: string
  repo_Baseurl :: string
  repo_Metalink :: string
  repo_Mirrorlist :: string

datatype OsFamily = OS_FAMILY_UNSPECIFIED | OS_FAMILY_RPM | OS_FAMILY_APT

datatype Architecture = ARCHITECTURE_UNSPECIFIED | ARCHITECTURE_X86_64 | ARCHITECTURE_AARCH64 | ARCHITECTURE_RISCV64

datatype VirtualizationRole =
    VIRTUALIZATION_ROLE_UNSPECIFIED
  | VIRTUALIZATION_ROLE_BARE_METAL
  | VIRTUALIZATION_ROLE_VM
  | VIRTUALIZATION_ROLE_CONTAINER
  | VIRTUALIZATION_ROLE_UNKNOWN

record AgentHost =
  ah_MachineId :: string
  ah_Hostname :: string
  ah_OsFamily :: OsFamily
  ah_OsName :: string
  ah_OsVersion :: string
  ah_OsMajor :: int
  ah_Architecture :: Architecture
  ah_AvailablePackageUpdateCount :: int
  ah_AgentVersion :: string
  ah_BootTime :: "int option"
  ah_UptimeSeconds :: int
  ah_VirtualizationRole :: VirtualizationRole
  ah_EnvironmentTags :: "string list"
  ah_IpAddresses :: "string list"

record Process =
  proc_Pid :: int
  proc_ProcessName :: string
  proc_ServiceName :: string
  proc_Exe :: string
  proc_PackageNames :: "string list"
  proc_LibraryPackages :: "string list"

record Runtime =
  rt_KernelRunning :: string
  rt_Processes :: "Process list"

record AgentSnapshot =
  as_SchemaVersion :: string
  as_SentAt :: "int option"
  as_Host :: "AgentHost option"
  as_Repos :: "Repo list"
  as_Packages :: "Package list"
  as_Runtime :: "Runtime option"
  as_UpgradablePackages :: "Package list"

section \<open>Database rows\<close>

record Host =
  host_ID :: string
  host_OnboardingMode :: string
  host_ApprovalStatus :: string
  host_ApprovedAt :: "int option"
  host_DisplayName :: "string option"
  host_MachineID :: "string option"
  host_Hostname :: "string option"
  host_IpAddress :: "string option"
  host_OsFamily :: string
  host_OsName :: string
  host_OsMajor :: int
  host_OsVersion :: string
  host_Architecture :: string
  host_Status :: string
  host_LastSeenAt :: "int option"
  host_LastAdvisoryCheckAt :: "int option"
  host_FirstSeenAt :: "int option"
  host_LastSnapshotID :: "string option"
  host_CreatedAt :: "int option"
  host_UpdatedAt :: "int option"
  host_AdvisoryScopeKey :: "string option"
  host_Notes :: "string option"

record ProductStream =
  ps_ID :: string
  ps_Vendor :: string
  ps_DistroFamily :: string
  ps_DistroName :: string
  ps_MajorVersion :: int
  ps_MinorVersion :: "string option"
  ps_Architecture :: "string option"
  ps_RepoFamily :: string
  ps_RepoIDPattern :: "string option"
  ps_Cpe :: "string option"
  ps_Status :: string

record Advisory =
  adv_ID :: string
  adv_SourceSystem :: string
  adv_RawSourceID :: string
  adv_SourceUrl :: "string option"
  adv_Vendor :: string
  adv_AdvisoryType :: string
  adv_Severity :: "string option"
  adv_Summary :: "string option"
  adv_Description :: "string option"
  adv_PublishedAt :: "string option"
  adv_UpdatedAt :: "string option"
  adv_EvidenceTier :: string
  adv_IsSecurity :: bool

record AdvisoryProductStream =
  aps_AdvisoryID :: string
  aps_ProductStreamID :: string

record AdvisoryReference =
  ref_ID :: string
  ref_AdvisoryID :: string
  ref_RefType :: string
  ref_RefValue :: string
  ref_SeverityVendor :: "string option"
  ref_Title :: "string option"
  ref_Url :: "string option"

record AffectedPackageRule =
  rule_ID :: string
  rule_AdvisoryID :: string
  rule_ProductStreamID :: string
  rule_PackageName :: string
  rule_SourceRpm :: "string option"
  rule_Arch :: "string option"
  rule_EpochConstraint :: "string option"
  rule_VersionConstraint :: "string option"
  rule_ReleaseConstraint :: "string option"
  rule_RpmEvrRule :: "string option"
  rule_Context :: string
  rule_EvidenceTier :: string

record FixedPackage =
  fix_ID :: string
  fix_AdvisoryID :: string
  fix_ProductStreamID :: string
  fix_PackageName :: string
  fix_Epoch :: int
  fix_Version :: string
  fix_Release :: string
  fix_Arch :: "string option"
  fix_Nevra :: string
  fix_SourceRpm :: "string option"
  fix_RepoFamily :: "string option"
  fix_EvidenceTier :: string

record HostSnapshot =
  snap_ID :: string
  snap_HostID :: string
  snap_CollectedAt :: "int option"
  snap_ReceivedAt :: "int option"
  snap_Payload :: string
  snap_RunningKernelNevra :: string
  snap_BootTime :: "int option"
  snap_HasProcessData :: bool
  snap_CreatedAt :: "int option"

section \<open>Statement parameters\<close>

record InsertDecisionRecordParams =
  dec_ID :: string
  dec_HostID :: string
  dec_SnapshotID :: string
  dec_AdvisoryID :: string
  dec_InstalledPackageID :: "string option"
  dec_ProductStreamID :: "string option"
  dec_PackageName :: string
  dec_InstalledNevra :: "string option"
  dec_FixedNevra :: "string option"
  dec_Status :: string
  dec_Action :: string
  dec_Severity :: "string option"
  dec_EvidenceTier :: string
  dec_ReasonCode :: string
  dec_ReasonText :: "string option"
  dec_ComputedAt :: string

record UpsertHostCurrentStateParams =
  hcs_HostID :: string
  hcs_SnapshotID :: string
  hcs_OverallAction :: string
  hcs_CriticalCount :: int
  hcs_ImportantCount :: int
  hcs_ModerateCount :: int
  hcs_ActionableCount :: int
  hcs_AvailableUpdates :: int
  hcs_NeedsReboot :: int
  hcs_NeedsRestart :: int
  hcs_NoFix :: int
  hcs_Unknown :: int

section \<open>Zero values\<close>

text \<open>The zero value of each struct.\<close>

definition zero_Package :: Package where
  "zero_Package =
    \<lparr>pkg_Name = [], pkg_Epoch = 0, pkg_Version = [], pkg_Release = [], pkg_Arch = [],
     pkg_SourceRpm = [], pkg_Vendor = [], pkg_RepoOrigin = [], pkg_Nevra = []\<rparr>"

definition zero_Repo :: Repo where
  "zero_Repo =
    \<lparr>repo_RepoId = [], repo_Enabled = False, repo_RepoLabel = [], repo_Baseurl = [],
     repo_Metalink = [], repo_Mirrorlist = []\<rparr>"

definition zero_Host :: Host where
  "zero_Host =
    \<lparr>host_ID = [], host_OnboardingMode = [], host_ApprovalStatus = [],
     host_ApprovedAt = None, host_DisplayName = None, host_MachineID = None,
     host_Hostname = None, host_IpAddress = None, host_OsFamily = [], host_OsName = [],
     host_OsMajor = 0, host_OsVersion = [], host_Architecture = [], host_Status = [],
     host_LastSeenAt = None, host_LastAdvisoryCheckAt = None, host_FirstSeenAt = None,
     host_LastSnapshotID = None, host_CreatedAt = None, host_UpdatedAt = None,
     host_AdvisoryScopeKey = None, host_Notes = None\<rparr>"

definition zero_ProductStream :: ProductStream where
  "zero_ProductStream =
    \<lparr>ps_ID = [], ps_Vendor = [], ps_DistroFamily = [], ps_DistroName = [],
     ps_MajorVersion = 0, ps_MinorVersion = None, ps_Architecture = None, ps_RepoFamily = [],
     ps_RepoIDPattern = None, ps_Cpe = None, ps_Status = []\<rparr>"

definition zero_Advisory :: Advisory where
  "zero_Advisory =
    \<lparr>adv_ID = [], adv_SourceSystem = [], adv_RawSourceID = [], adv_SourceUrl = None,
     adv_Vendor = [], adv_AdvisoryType = [], adv_Severity = None, adv_Summary = None,
     adv_Description = None, adv_PublishedAt = None, adv_UpdatedAt = None, adv_EvidenceTier = [],
     adv_IsSecurity = False\<rparr>"

definition zero_AdvisoryProductStream :: AdvisoryProductStream where
  "zero_AdvisoryProductStream =
    \<lparr>aps_AdvisoryID = [], aps_ProductStreamID = []\<rparr>"

definition zero_AdvisoryReference :: AdvisoryReference where
  "zero_AdvisoryReference =
    \<lparr>ref_ID = [], ref_AdvisoryID = [], ref_RefType = [], ref_RefValue = [],
     ref_SeverityVendor = None, ref_Title = None, ref_Url = None\<rparr>"

definition zero_AffectedPackageRule :: AffectedPackageRule where
  "zero_AffectedPackageRule =
    \<lparr>rule_ID = [], rule_AdvisoryID = [], rule_ProductStreamID = [], rule_PackageName = [],
     rule_SourceRpm = None, rule_Arch = None, rule_EpochConstraint = None,
     rule_VersionConstraint = None, rule_ReleaseConstraint = None, rule_RpmEvrRule = None,
     rule_Context = [], rule_EvidenceTier = []\<rparr>"

definition zero_FixedPackage :: FixedPackage where
  "zero_FixedPackage =
    \<lparr>fix_ID = [], fix_AdvisoryID = [], fix_ProductStreamID = [], fix_PackageName = [],
     fix_Epoch = 0, fix_Version = [], fix_Release = [], fix_Arch = None, fix_Nevra = [],
     fix_SourceRpm = None, fix_RepoFamily = None, fix_EvidenceTier = []\<rparr>"

definition zero_HostSnapshot :: HostSnapshot where
  "zero_HostSnapshot =
    \<lparr>snap_ID = [], snap_HostID = [], snap_CollectedAt = None, snap_ReceivedAt = None,
     snap_Payload = [], snap_RunningKernelNevra = [], snap_BootTime = None,
     snap_HasProcessData = False, snap_CreatedAt = None\<rparr>"

definition zero_InsertDecisionRecordParams :: InsertDecisionRecordParams where
  "zero_InsertDecisionRecordParams =
    \<lparr>dec_ID = [], dec_HostID = [], dec_SnapshotID = [], dec_AdvisoryID = [],
     dec_InstalledPackageID = None, dec_ProductStreamID = None, dec_PackageName = [],
     dec_InstalledNevra = None, dec_FixedNevra = None, dec_Status = [], dec_Action = [],
     dec_Severity = None, dec_EvidenceTier = [], dec_ReasonCode = [], dec_ReasonText = None,
     dec_ComputedAt = []\<rparr>"

definition zero_UpsertHostCurrentStateParams :: UpsertHostCurrentStateParams where
  "zero_UpsertHostCurrentStateParams =
    \<lparr>hcs_HostID = [], hcs_SnapshotID = [], hcs_OverallAction = [], hcs_CriticalCount = 0,
     hcs_ImportantCount = 0, hcs_ModerateCount = 0, hcs_ActionableCount = 0,
     hcs_AvailableUpdates = 0, hcs_NeedsReboot = 0, hcs_NeedsRestart = 0, hcs_NoFix = 0,
     hcs_Unknown = 0\<rparr>"

end
