(* ===== verification/Product_Streams.thy ===== *)
theory Product_Streams
  imports Data_Model
begin

text \<open>
  \<open>internal/services/matchers/matcher_streams.go\<close>: which vendor product streams apply to a host, by
  distribution, architecture and enabled repositories.
\<close>

section \<open>Operations\<close>

fun enabledRepoMatchFields :: "Repo list \<Rightarrow> string list" where
  "enabledRepoMatchFields [] = []"
| "enabledRepoMatchFields (repo # repos) =
     (if repo_Enabled repo
      then (if repo_RepoId repo \<noteq> [] then [ToLower (repo_RepoId repo)] else []) @
           (if repo_RepoLabel repo \<noteq> [] then [ToLower (repo_RepoLabel repo)] else []) @
           (if repo_Baseurl repo \<noteq> [] then [ToLower (repo_Baseurl repo)] else [])
      else []) @ enabledRepoMatchFields repos"

definition matchesHostDistro :: "Host \<Rightarrow> ProductStream \<Rightarrow> bool" where
  "matchesHostDistro host stream =
     (if host_OsMajor host \<noteq> ps_MajorVersion stream then False
      else
        let hostName = ToLower (host_OsName host);
            hostFamily = ToLower (host_OsFamily host);
            vendor = ps_Vendor stream
        in if vendor = ''rocky'' then Contains hostName ''rocky'' \<or> Contains hostFamily ''rocky''
           else if vendor = ''alma'' then Contains hostName ''alma'' \<or> Contains hostFamily ''alma''
           else if vendor = ''redhat'' then
             (if Contains hostName ''rocky'' \<or> Contains hostName ''alma'' then False
              else if Contains hostName ''red hat'' \<or> Contains hostName ''rhel'' then True
              else hostName = [] \<and> Contains hostFamily ''rhel'')
           else if vendor = ''ubuntu'' then Contains hostName ''ubuntu'' \<or> Contains hostFamily ''ubuntu''
           else if vendor = ''debian'' then Contains hostName ''debian'' \<or> Contains hostFamily ''debian''
           else False)"

fun matches_any_field :: "string list \<Rightarrow> string \<Rightarrow> bool" where
  "matches_any_field [] repoFamily = False"
| "matches_any_field (field # flds) repoFamily =
     (if Contains field repoFamily then True else matches_any_field flds repoFamily)"

definition matchesRepoFamily :: "string list \<Rightarrow> string \<Rightarrow> bool" where
  "matchesRepoFamily matchFields repoFamily =
     matches_any_field matchFields (ToLower (TrimSpace repoFamily))"

definition matchesStreamArchitecture :: "string \<Rightarrow> string \<Rightarrow> string \<Rightarrow> bool" where
  "matchesStreamArchitecture osFamily hostArch streamArch0 =
     (let streamArch = ToLower (TrimSpace streamArch0) in
      if streamArch = [] then True
      else if EqualFold osFamily ''apt'' \<and> (streamArch = ''source'' \<or> streamArch = ''binary'') then True
      else streamArch = ToLower (TrimSpace hostArch))"

fun resolve_loop :: "Host \<Rightarrow> string list \<Rightarrow> string set \<Rightarrow> ProductStream list \<Rightarrow> ProductStream list" where
  "resolve_loop host repoMatchFields seen [] = []"
| "resolve_loop host repoMatchFields seen (stream # streams) =
     (if \<not> matchesHostDistro host stream then resolve_loop host repoMatchFields seen streams
      else if \<not> matchesStreamArchitecture (host_OsFamily host) (host_Architecture host)
                 (UnwrapOr (ps_Architecture stream) [])
      then resolve_loop host repoMatchFields seen streams
      else if ps_RepoFamily stream \<noteq> [] \<and> ps_RepoFamily stream \<noteq> ''all'' \<and>
              \<not> matchesRepoFamily repoMatchFields (ps_RepoFamily stream)
      then resolve_loop host repoMatchFields seen streams
      else if ps_ID stream \<in> seen then resolve_loop host repoMatchFields seen streams
      else stream # resolve_loop host repoMatchFields (insert (ps_ID stream) seen) streams)"

definition resolveProductStreams :: "Host \<Rightarrow> Repo list \<Rightarrow> ProductStream list \<Rightarrow> ProductStream list" where
  "resolveProductStreams host repos streams =
     resolve_loop host (enabledRepoMatchFields repos) {} streams"

section \<open>What it computes\<close>

text \<open>The condition for a stream to apply, and the loop as a filter with duplicates removed by ID.\<close>

definition stream_applies :: "Host \<Rightarrow> Repo list \<Rightarrow> ProductStream \<Rightarrow> bool" where
  "stream_applies host repos stream \<longleftrightarrow>
     matchesHostDistro host stream \<and>
     matchesStreamArchitecture (host_OsFamily host) (host_Architecture host) (UnwrapOr (ps_Architecture stream) []) \<and>
     (ps_RepoFamily stream = [] \<or> ps_RepoFamily stream = ''all'' \<or>
      matchesRepoFamily (enabledRepoMatchFields repos) (ps_RepoFamily stream))"

lemma resolve_loop_dedup:
  "resolve_loop host (enabledRepoMatchFields repos) seen streams =
     dedup_by ps_ID seen (filter (stream_applies host repos) streams)"
  by (induction streams arbitrary: seen) (simp_all add: stream_applies_def)

lemma matches_any_field_iff: "matches_any_field flds f \<longleftrightarrow> (\<exists>x \<in> set flds. Contains x f)"
  by (induction flds) auto

lemma set_enabledRepoMatchFields:
  "x \<in> set (enabledRepoMatchFields repos) \<longleftrightarrow>
     (\<exists>r \<in> set repos. repo_Enabled r \<and>
        x \<in> ToLower ` ({repo_RepoId r, repo_RepoLabel r, repo_Baseurl r} - {[]}))"
  by (induction repos) auto

lemma matchesRepoFamily_iff:
  "matchesRepoFamily (enabledRepoMatchFields repos) f \<longleftrightarrow>
     (\<exists>r \<in> set repos. repo_Enabled r \<and>
        (\<exists>v \<in> {repo_RepoId r, repo_RepoLabel r, repo_Baseurl r} - {[]}.
           Contains (ToLower v) (ToLower (TrimSpace f))))"
  unfolding matchesRepoFamily_def matches_any_field_iff
  by (auto simp: set_enabledRepoMatchFields Bex_def)

section \<open>Properties\<close>

text \<open>\<open>resolveProductStreams\<close> returns each applicable stream once: the result is the subsequence of
  the streams that match the host's distribution, architecture and enabled repositories, with
  distinct IDs, and no applicable stream's ID is missing.\<close>

theorem resolveProductStreams_spec:
  "set (resolveProductStreams host repos streams) \<subseteq> {s \<in> set streams. stream_applies host repos s} \<and>
   distinct (map ps_ID (resolveProductStreams host repos streams)) \<and>
   ps_ID ` set (resolveProductStreams host repos streams) = ps_ID ` {s \<in> set streams. stream_applies host repos s}"
proof -
  have eq: "resolveProductStreams host repos streams = dedup_by ps_ID {} (filter (stream_applies host repos) streams)"
    by (simp add: resolveProductStreams_def resolve_loop_dedup)
  have "set (dedup_by ps_ID {} (filter (stream_applies host repos) streams)) \<subseteq> set (filter (stream_applies host repos) streams)"
    by (rule set_dedup_by_subset)
  moreover have "ps_ID ` set (dedup_by ps_ID {} (filter (stream_applies host repos) streams)) =
      ps_ID ` set (filter (stream_applies host repos) streams)"
    by (rule keys_dedup_by)
  ultimately show ?thesis unfolding eq using distinct_dedup_by by auto
qed

text \<open>Advisories of a rebuild's parent do not leak into the rebuild: a host whose system name says
  Rocky or Alma resolves no Red Hat stream, every resolved stream has the host's major version, and a
  stream with a repository family of its own is resolved only if an enabled repository mentions that
  family in its id, label or base URL.\<close>

theorem resolveProductStreams_isolation:
  assumes "s \<in> set (resolveProductStreams host repos streams)"
  shows "ps_MajorVersion s = host_OsMajor host \<and>
    (Contains (ToLower (host_OsName host)) ''rocky'' \<or> Contains (ToLower (host_OsName host)) ''alma'' \<longrightarrow>
       ps_Vendor s \<noteq> ''redhat'') \<and>
    (ps_RepoFamily s \<noteq> [] \<and> ps_RepoFamily s \<noteq> ''all'' \<longrightarrow>
       (\<exists>r \<in> set repos. repo_Enabled r \<and>
          (\<exists>v \<in> {repo_RepoId r, repo_RepoLabel r, repo_Baseurl r} - {[]}.
             Contains (ToLower v) (ToLower (TrimSpace (ps_RepoFamily s))))))"
proof -
  have "stream_applies host repos s"
    using assms set_dedup_by_subset [of ps_ID "{}" "filter (stream_applies host repos) streams"]
    by (auto simp: resolveProductStreams_def resolve_loop_dedup)
  then have "matchesHostDistro host s"
    and fam: "ps_RepoFamily s = [] \<or> ps_RepoFamily s = ''all'' \<or>
      matchesRepoFamily (enabledRepoMatchFields repos) (ps_RepoFamily s)"
    by (simp_all add: stream_applies_def)
  then have "ps_MajorVersion s = host_OsMajor host"
    "Contains (ToLower (host_OsName host)) ''rocky'' \<or> Contains (ToLower (host_OsName host)) ''alma'' \<longrightarrow>
       ps_Vendor s \<noteq> ''redhat''"
    by (auto simp: matchesHostDistro_def Let_def split: if_splits)
  with fam show ?thesis unfolding matchesRepoFamily_iff by blast
qed

theorem resolveProductStreams_isolation_witness:
  "ps_MajorVersion (zero_ProductStream\<lparr>ps_ID := ''s1'', ps_Vendor := ''rocky'', ps_MajorVersion := 9, ps_RepoFamily := ''BaseOS ''\<rparr>)
     = host_OsMajor (zero_Host\<lparr>host_OsName := ''Rocky Linux'', host_OsMajor := 9\<rparr>)"
proof -
  let ?h = "zero_Host\<lparr>host_OsName := ''Rocky Linux'', host_OsMajor := 9\<rparr>"
  let ?r = "zero_Repo\<lparr>repo_RepoId := ''baseos'', repo_Enabled := True\<rparr>"
  let ?s = "zero_ProductStream\<lparr>ps_ID := ''s1'', ps_Vendor := ''rocky'', ps_MajorVersion := 9, ps_RepoFamily := ''BaseOS ''\<rparr>"
  have "resolveProductStreams ?h [?r] [?s] = [?s]" by code_simp
  then have "?s \<in> set (resolveProductStreams ?h [?r] [?s])" by simp
  from resolveProductStreams_isolation [OF this] show ?thesis by blast
qed

end
