(* ===== verification/Go_Compare.thy ===== *)
theory Go_Compare
  imports Prelude
begin

text \<open>
  Three-way comparison functions. The code compares versions, decisions and names with functions
  that return \<open>-1\<close>, \<open>0\<close> or \<open>1\<close>; what its clients (the search for the best fix, for the latest
  kernel, for the decision to keep) rely on is that such a function is a total preorder. The locale
  \<open>go_compare\<close> states that contract and proves, once, what follows from it: substitution under
  equivalence, the maximum search loop, and closure under keys, lexicographic combination and
  padded lexicographic comparison of sequences.
\<close>

section \<open>Comparison by a linear order, combinations\<close>

definition cmp_ord :: "'a::linorder \<Rightarrow> 'a \<Rightarrow> int" where
  "cmp_ord x y = (if x < y then -1 else if x > y then 1 else 0)"

definition cmp_then :: "int \<Rightarrow> int \<Rightarrow> int" where
  "cmp_then a b = (if a \<noteq> 0 then a else b)"

text \<open>Lexicographic comparison of two sequences, the shorter one continued with copies of \<open>d\<close>.\<close>

fun cmp_pad :: "'a \<Rightarrow> ('a \<Rightarrow> 'a \<Rightarrow> int) \<Rightarrow> 'a list \<Rightarrow> 'a list \<Rightarrow> int" where
  "cmp_pad d c [] [] = 0"
| "cmp_pad d c (x # xs) [] = cmp_then (c x d) (cmp_pad d c xs [])"
| "cmp_pad d c [] (y # ys) = cmp_then (c d y) (cmp_pad d c [] ys)"
| "cmp_pad d c (x # xs) (y # ys) = cmp_then (c x y) (cmp_pad d c xs ys)"

text \<open>The loop \<^verbatim>\<open>for _, x := range xs { if cmp(x, best) > 0 { best = x } }\<close>.\<close>

fun best_of :: "('a \<Rightarrow> 'a \<Rightarrow> int) \<Rightarrow> 'a \<Rightarrow> 'a list \<Rightarrow> 'a" where
  "best_of c b [] = b"
| "best_of c b (x # xs) = best_of c (if c x b > 0 then x else b) xs"

section \<open>The contract\<close>

locale go_compare =
  fixes cmp :: "'a \<Rightarrow> 'a \<Rightarrow> int"
  assumes cmp_range: "cmp x y = -1 \<or> cmp x y = 0 \<or> cmp x y = 1"
    and cmp_swap: "cmp y x = - cmp x y"
    and cmp_trans: "cmp x y \<le> 0 \<Longrightarrow> cmp y z \<le> 0 \<Longrightarrow> cmp x z \<le> 0"
begin

lemma cmp_refl [simp]: "cmp x x = 0"
  using cmp_swap [of x x] by simp

lemma cmp_total: "cmp x y \<le> 0 \<or> cmp y x \<le> 0"
  using cmp_swap [of x y] by linarith

lemma cmp_ge_le: "0 \<le> cmp x y \<longleftrightarrow> cmp y x \<le> 0"
  using cmp_swap [of x y] by linarith

lemma cmp_not_gt: "\<not> 0 < cmp x y \<longleftrightarrow> cmp x y \<le> 0"
  by linarith

lemma cmp_less_le_trans:
  assumes "cmp x y < 0" "cmp y z \<le> 0"
  shows "cmp x z < 0"
proof (rule ccontr)
  assume "\<not> cmp x z < 0"
  then have "cmp z x \<le> 0" using cmp_swap [of x z] by simp
  with assms(2) have "cmp y x \<le> 0" by (rule cmp_trans)
  with assms(1) show False using cmp_swap [of x y] by simp
qed

lemma cmp_le_less_trans:
  assumes "cmp x y \<le> 0" "cmp y z < 0"
  shows "cmp x z < 0"
proof (rule ccontr)
  assume "\<not> cmp x z < 0"
  then have "cmp z x \<le> 0" using cmp_swap [of x z] by simp
  then have "cmp z y \<le> 0" using assms(1) by (rule cmp_trans)
  with assms(2) show False using cmp_swap [of y z] by simp
qed

lemma cmp_cong_left: "cmp x y = 0 \<Longrightarrow> cmp x z = cmp y z"
proof -
  assume eq: "cmp x y = 0"
  then have eq': "cmp y x = 0" using cmp_swap [of x y] by simp
  have "cmp x z < 0 \<longleftrightarrow> cmp y z < 0"
    using cmp_le_less_trans [of x y z] cmp_le_less_trans [of y x z] eq eq' by auto
  moreover have "cmp x z > 0 \<longleftrightarrow> cmp y z > 0"
    using cmp_less_le_trans [of z x y] cmp_less_le_trans [of z y x] eq eq'
      cmp_swap [of z x] cmp_swap [of z y] by auto
  ultimately show "cmp x z = cmp y z"
    using cmp_range [of x z] cmp_range [of y z] by auto
qed

lemma cmp_cong_right: "cmp x y = 0 \<Longrightarrow> cmp z x = cmp z y"
  using cmp_cong_left [of x y z] cmp_swap [of z x] cmp_swap [of z y] by simp

text \<open>The search loop returns an element of the input that no element exceeds.\<close>

lemma best_of_in: "best_of cmp b xs \<in> set (b # xs)"
proof (induction xs arbitrary: b)
  case Nil
  then show ?case by simp
next
  case (Cons x xs)
  from Cons.IH [of "if cmp x b > 0 then x else b"] show ?case by (auto split: if_splits)
qed

lemma best_of_ge_start: "cmp b (best_of cmp b xs) \<le> 0"
proof (induction xs arbitrary: b)
  case Nil
  then show ?case by simp
next
  case (Cons x xs)
  let ?b = "if cmp x b > 0 then x else b"
  have "cmp b ?b \<le> 0" using cmp_swap [of b x] by auto
  moreover have "cmp ?b (best_of cmp ?b xs) \<le> 0" by (rule Cons.IH)
  ultimately have "cmp b (best_of cmp ?b xs) \<le> 0" by (rule cmp_trans)
  then show ?case by simp
qed

lemma best_of_max: "y \<in> set (b # xs) \<Longrightarrow> cmp y (best_of cmp b xs) \<le> 0"
proof (induction xs arbitrary: b)
  case Nil
  then show ?case by simp
next
  case (Cons x xs)
  let ?b = "if cmp x b > 0 then x else b"
  show ?case
  proof (cases "y \<in> set xs")
    case True
    then show ?thesis using Cons.IH [of ?b] by simp
  next
    case False
    with Cons.prems have "cmp y ?b \<le> 0" using cmp_swap [of b x] by auto
    then have "cmp y (best_of cmp ?b xs) \<le> 0"
      using best_of_ge_start [of ?b xs] by (rule cmp_trans)
    then show ?thesis by simp
  qed
qed

text \<open>The result does not depend on the order of the input, up to equivalence.\<close>

lemma best_of_order_indep:
  assumes "set (a # xs) = set (b # ys)"
  shows "cmp (best_of cmp a xs) (best_of cmp b ys) = 0"
proof -
  have "best_of cmp a xs \<in> set (b # ys)" "best_of cmp b ys \<in> set (a # xs)"
    using best_of_in [of a xs] best_of_in [of b ys] assms by blast+
  then have "cmp (best_of cmp a xs) (best_of cmp b ys) \<le> 0"
    "cmp (best_of cmp b ys) (best_of cmp a xs) \<le> 0"
    by (simp_all only: best_of_max)
  then show ?thesis using cmp_swap [of "best_of cmp a xs" "best_of cmp b ys"] by simp
qed

lemma cmp_by_key: "go_compare (\<lambda>x y. cmp (f x) (f y))"
proof
  fix x y z
  show "cmp (f x) (f y) = -1 \<or> cmp (f x) (f y) = 0 \<or> cmp (f x) (f y) = 1" by (rule cmp_range)
  show "cmp (f y) (f x) = - cmp (f x) (f y)" by (rule cmp_swap)
  show "cmp (f x) (f y) \<le> 0 \<Longrightarrow> cmp (f y) (f z) \<le> 0 \<Longrightarrow> cmp (f x) (f z) \<le> 0" by (rule cmp_trans)
qed

lemma cmp_lex:
  assumes "go_compare c2"
  shows "go_compare (\<lambda>x y. cmp_then (cmp (f x) (f y)) (c2 (g x) (g y)))"
proof
  fix x y z
  show "cmp_then (cmp (f x) (f y)) (c2 (g x) (g y)) = -1 \<or>
    cmp_then (cmp (f x) (f y)) (c2 (g x) (g y)) = 0 \<or>
    cmp_then (cmp (f x) (f y)) (c2 (g x) (g y)) = 1"
    using cmp_range [of "f x" "f y"] go_compare.cmp_range [OF assms, of "g x" "g y"]
    by (auto simp: cmp_then_def)
  show "cmp_then (cmp (f y) (f x)) (c2 (g y) (g x)) = - cmp_then (cmp (f x) (f y)) (c2 (g x) (g y))"
    using cmp_swap [of "f x" "f y"] go_compare.cmp_swap [OF assms, of "g x" "g y"]
    by (auto simp: cmp_then_def)
  assume xy: "cmp_then (cmp (f x) (f y)) (c2 (g x) (g y)) \<le> 0"
    and yz: "cmp_then (cmp (f y) (f z)) (c2 (g y) (g z)) \<le> 0"
  show "cmp_then (cmp (f x) (f z)) (c2 (g x) (g z)) \<le> 0"
  proof (cases "cmp (f x) (f y) = 0 \<and> cmp (f y) (f z) = 0")
    case True
    then have "cmp (f x) (f z) = 0" using cmp_cong_left by metis
    moreover have "c2 (g x) (g z) \<le> 0"
      using True xy yz go_compare.cmp_trans [OF assms] by (auto simp: cmp_then_def)
    ultimately show ?thesis by (simp add: cmp_then_def)
  next
    case False
    have "cmp (f x) (f y) \<le> 0" "cmp (f y) (f z) \<le> 0"
      using xy yz by (auto simp: cmp_then_def split: if_splits)
    with False have "cmp (f x) (f z) < 0"
      using cmp_less_le_trans cmp_le_less_trans by (metis order_le_less)
    then show ?thesis by (simp add: cmp_then_def)
  qed
qed

end

section \<open>Padded lexicographic comparison\<close>

definition pad_hd :: "'a \<Rightarrow> 'a list \<Rightarrow> 'a" where
  "pad_hd d xs = (case xs of [] \<Rightarrow> d | x # _ \<Rightarrow> x)"

context go_compare
begin

lemma cmp_pad_unfold:
  "cmp_pad d cmp xs ys = cmp_then (cmp (pad_hd d xs) (pad_hd d ys)) (cmp_pad d cmp (tl xs) (tl ys))"
  by (cases xs; cases ys) (simp_all add: pad_hd_def cmp_then_def)

lemma cmp_pad_range: "cmp_pad d cmp xs ys = -1 \<or> cmp_pad d cmp xs ys = 0 \<or> cmp_pad d cmp xs ys = 1"
proof (induction xs arbitrary: ys)
  case Nil
  show ?case
  proof (induction ys)
    case (Cons y ys)
    then show ?case using cmp_range [of d y] by (auto simp: cmp_then_def)
  qed simp
next
  case (Cons x xs)
  then show ?case
    using cmp_range [of x d] cmp_range [of x "hd ys"] by (cases ys) (auto simp: cmp_then_def)
qed

lemma cmp_pad_swap: "cmp_pad d cmp ys xs = - cmp_pad d cmp xs ys"
proof (induction xs arbitrary: ys)
  case Nil
  show ?case
  proof (induction ys)
    case (Cons y ys)
    then show ?case using cmp_swap [of d y] by (simp add: cmp_then_def)
  qed simp
next
  case (Cons x xs)
  then show ?case using cmp_swap [of x] Cons.IH [of "[]"] by (cases ys) (simp_all add: cmp_then_def)
qed

lemma cmp_pad_trans:
  "cmp_pad d cmp xs ys \<le> 0 \<Longrightarrow> cmp_pad d cmp ys zs \<le> 0 \<Longrightarrow> cmp_pad d cmp xs zs \<le> 0"
proof (induction "length xs + length ys + length zs" arbitrary: xs ys zs rule: less_induct)
  case less
  show ?case
  proof (cases "xs = [] \<and> ys = [] \<and> zs = []")
    case True
    then show ?thesis by simp
  next
    case False
    let ?x = "pad_hd d xs" and ?y = "pad_hd d ys" and ?z = "pad_hd d zs"
    from False have smaller: "length (tl xs) + length (tl ys) + length (tl zs)
        < length xs + length ys + length zs"
      by (cases xs; cases ys; cases zs) auto
    have le: "cmp ?x ?y \<le> 0" "cmp ?y ?z \<le> 0"
      using less.prems cmp_pad_unfold [of d xs ys] cmp_pad_unfold [of d ys zs]
      by (auto simp: cmp_then_def split: if_splits)
    show ?thesis
    proof (cases "cmp ?x ?y = 0 \<and> cmp ?y ?z = 0")
      case True
      then have "cmp ?x ?z = 0" using cmp_cong_left by metis
      moreover have "cmp_pad d cmp (tl xs) (tl zs) \<le> 0"
        using less.hyps [OF smaller] less.prems True cmp_pad_unfold [of d xs ys]
          cmp_pad_unfold [of d ys zs] by (simp add: cmp_then_def)
      ultimately show ?thesis
        using cmp_pad_unfold [of d xs zs] by (simp add: cmp_then_def)
    next
      case neq: False
      then have "cmp ?x ?z < 0"
        using le cmp_less_le_trans cmp_le_less_trans by (metis order_le_less)
      then show ?thesis using cmp_pad_unfold [of d xs zs] by (simp add: cmp_then_def)
    qed
  qed
qed

lemma cmp_pad_compare: "go_compare (cmp_pad d cmp)"
  by (rule go_compare.intro) (rule cmp_pad_range, rule cmp_pad_swap, rule cmp_pad_trans)

end

interpretation ord_cmp: go_compare cmp_ord
  by unfold_locales (auto simp: cmp_ord_def split: if_splits)

lemma cmp_ord_sgn: "cmp_ord x y = sgn (x - y)" for x y :: int
  by (simp add: cmp_ord_def)

lemma cmp_ord_iff:
  "cmp_ord x y = 0 \<longleftrightarrow> x = y" "cmp_ord x y < 0 \<longleftrightarrow> x < y" "cmp_ord x y > 0 \<longleftrightarrow> x > y"
  by (auto simp: cmp_ord_def)

end
