(* ===== verification/Rpm_Version.thy ===== *)
theory Rpm_Version
  imports Go_Strings Go_Compare "HOL-Library.Product_Lexorder"
begin

text \<open>
  \<open>internal/services/matchers/matcher_rpmver.go\<close>: the comparison of RPM versions, the parsers for
  EVR and NEVR strings and the evaluation of version rules. The comparison is shown to be the
  padded lexicographic order of the sequences of version segments (\<open>rpm_segments\<close>), hence a total
  preorder.
\<close>

section \<open>Data\<close>

record evr =
  evr_epoch :: int
  evr_version :: string
  evr_release :: string

text \<open>One constructor per error the two version files return.\<close>

datatype evr_error =
    MissingReleaseSeparator string
  | ParseEpoch string
  | MissingKernelArch string
  | InvalidKernelEvr string
  | MissingVersionSeparator string
  | MissingEpochSeparator string
  | InvalidRule string
  | TargetEvr string evr_error
  | UnsupportedOperator string
  | EmptyVersion
  | MissingVersionAfterEpoch
  | MissingUpstreamVersion
  | NoVersionStart string
  | EmptyRunningKernel

section \<open>Comparison\<close>

fun trimNonAlnum :: "string \<Rightarrow> string" where
  "trimNonAlnum [] = []"
| "trimNonAlnum (c # s) = (if IsLetter c \<or> IsDigit c then c # s else trimNonAlnum s)"

definition in_segment :: "bool \<Rightarrow> char \<Rightarrow> bool" where
  "in_segment numeric c = (IsDigit c = numeric \<and> (IsLetter c \<or> IsDigit c))"

definition nextSegment :: "string \<Rightarrow> string \<times> bool \<times> string" where
  "nextSegment value =
     (case value of
        [] \<Rightarrow> ([], False, [])
      | c # _ \<Rightarrow>
          let numeric = IsDigit c
          in (takeWhile (in_segment numeric) value, numeric, dropWhile (in_segment numeric) value))"

text \<open>\<open>strings.TrimLeft(s, "0")\<close>\<close>

definition TrimLeft0 :: "string \<Rightarrow> string" where
  "TrimLeft0 s = dropWhile (\<lambda>c. c = CHR ''0'') s"

definition compareSegment :: "string \<Rightarrow> string \<Rightarrow> bool \<Rightarrow> int" where
  "compareSegment left right numeric =
     (let l = (if numeric then TrimLeft0 left else left);
          r = (if numeric then TrimLeft0 right else right)
      in if numeric \<and> length l < length r then -1
         else if numeric \<and> length l > length r then 1
         else if l < r then -1
         else if l > r then 1
         else 0)"

lemma length_trimNonAlnum: "length (trimNonAlnum s) \<le> length s"
  by (induction s) auto

lemma trimNonAlnum_hd: "trimNonAlnum s = c # t \<Longrightarrow> IsLetter c \<or> IsDigit c"
  by (induction s) (auto split: if_splits)

lemma nextSegment_shorter:
  assumes "trimNonAlnum s \<noteq> []"
  shows "length (snd (snd (nextSegment (trimNonAlnum s)))) < length s"
proof -
  obtain c t where ct: "trimNonAlnum s = c # t" using assms by (cases "trimNonAlnum s") auto
  then have "in_segment (IsDigit c) c"
    using trimNonAlnum_hd [OF ct] by (auto simp: in_segment_def)
  then have "length (snd (snd (nextSegment (trimNonAlnum s)))) < length (trimNonAlnum s)"
    using takeWhile_dropWhile_nonempty [of "c # t" "in_segment (IsDigit c)"]
    by (simp add: nextSegment_def ct Let_def)
  also have "\<dots> \<le> length s" by (rule length_trimNonAlnum)
  finally show ?thesis .
qed

text \<open>The loop of \<open>compareRPMVersion\<close>; each round consumes a segment of both sides.\<close>

function rpm_loop :: "string \<Rightarrow> string \<Rightarrow> int" where
  "rpm_loop left right =
     (if left = [] \<and> right = [] then 0
      else let l = trimNonAlnum left; r = trimNonAlnum right in
        if l = [] \<and> r = [] then 0
        else if l = [] then -1
        else if r = [] then 1
        else let (leftSegment, leftNumeric, nextLeft) = nextSegment l;
                 (rightSegment, rightNumeric, nextRight) = nextSegment r
             in if leftNumeric \<noteq> rightNumeric then (if leftNumeric then 1 else -1)
                else let compared = compareSegment leftSegment rightSegment leftNumeric
                     in if compared \<noteq> 0 then compared else rpm_loop nextLeft nextRight)"
  by pat_completeness auto
termination
proof (relation "measure (\<lambda>(l, r). length l)", goal_cases)
  case 1
  then show ?case by simp
next
  case (2 left right l r x xa y xb xc ya)
  then show ?case using nextSegment_shorter [of left] by (metis case_prodI2 in_measure split_conv snd_conv)
qed

declare rpm_loop.simps [simp del]

definition compareRPMVersion :: "string \<Rightarrow> string \<Rightarrow> int" where
  "compareRPMVersion left right = rpm_loop (TrimSpace left) (TrimSpace right)"

definition compareEVR :: "evr \<Rightarrow> evr \<Rightarrow> int" where
  "compareEVR left right =
     (if evr_epoch left < evr_epoch right then -1
      else if evr_epoch left > evr_epoch right then 1
      else let compared = compareRPMVersion (evr_version left) (evr_version right)
           in if compared \<noteq> 0 then compared
              else compareRPMVersion (evr_release left) (evr_release right))"

section \<open>Strings of digits compare by value\<close>

fun dval :: "string \<Rightarrow> nat" where
  "dval [] = 0"
| "dval (c # s) = (of_char c - 48) * 10 ^ length s + dval s"

lemma IsDigit_nat: "IsDigit c \<longleftrightarrow> 48 \<le> (of_char c :: nat) \<and> (of_char c :: nat) \<le> 57"
  by (simp add: IsDigit_def byte_nat)

lemma dval_less: "list_all IsDigit s \<Longrightarrow> dval s < 10 ^ length s"
proof (induction s)
  case Nil
  then show ?case by simp
next
  case (Cons c s)
  then have "of_char c - 48 \<le> (9::nat)" "dval s < 10 ^ length s" by (auto simp: IsDigit_nat)
  then have "(of_char c - 48) * 10 ^ length s + dval s < 9 * 10 ^ length s + 10 ^ length s"
    by (meson add_le_less_mono mult_le_mono1)
  then show ?case by simp
qed

lemma dval_TrimLeft0 [simp]: "dval (TrimLeft0 s) = dval s"
  by (induction s) (auto simp: TrimLeft0_def)

lemma TrimLeft0_digits: "list_all IsDigit s \<Longrightarrow> list_all IsDigit (TrimLeft0 s)"
  by (auto simp: TrimLeft0_def list_all_iff dest: set_dropWhileD)

lemma dval_lower: "list_all IsDigit (c # s) \<Longrightarrow> c \<noteq> CHR ''0'' \<Longrightarrow> 10 ^ length s \<le> dval (c # s)"
proof -
  assume "list_all IsDigit (c # s)" and nz: "c \<noteq> CHR ''0''"
  then have "48 \<le> (of_char c :: nat)" by (simp add: IsDigit_nat)
  moreover have "(of_char c :: nat) \<noteq> 48"
  proof
    assume "(of_char c :: nat) = 48"
    then have "(of_char c :: nat) = of_char (CHR ''0'')" by simp
    with nz show False by (metis char_of_char)
  qed
  ultimately have "1 \<le> (of_char c - 48 :: nat)" by simp
  then have "1 * 10 ^ length s \<le> (of_char c - 48) * (10::nat) ^ length s" by (rule mult_le_mono1)
  then show ?thesis by (simp only: dval.simps mult_1 trans_le_add1)
qed

lemma dval_length_less:
  assumes "list_all IsDigit l" "list_all IsDigit r"
    and "length (TrimLeft0 l) < length (TrimLeft0 r)"
  shows "dval l < dval r"
proof -
  obtain c t where ct: "TrimLeft0 r = c # t" using assms(3) by (cases "TrimLeft0 r") auto
  then have "c \<noteq> CHR ''0''"
    using hd_dropWhile [of "\<lambda>c. c = CHR ''0''" r] by (simp add: TrimLeft0_def)
  have "dval (TrimLeft0 l) < 10 ^ length (TrimLeft0 l)"
    using assms(1) by (intro dval_less TrimLeft0_digits)
  also have "\<dots> \<le> 10 ^ length t" using assms(3) ct by (simp add: power_increasing)
  also have "\<dots> \<le> dval (TrimLeft0 r)"
    using dval_lower [of c t] TrimLeft0_digits [OF assms(2)] ct \<open>c \<noteq> CHR ''0''\<close> by simp
  finally show ?thesis by simp
qed

lemma dval_lex:
  "length l = length r \<Longrightarrow> list_all IsDigit l \<Longrightarrow> list_all IsDigit r \<Longrightarrow> cmp_ord (dval l) (dval r) = cmp_ord l r"
proof (induction l r rule: list_induct2)
  case Nil
  then show ?case by (simp add: cmp_ord_def)
next
  case (Cons c l d r)
  then have b: "dval l < 10 ^ length r" "dval r < 10 ^ length r"
    using dval_less [of l] dval_less [of r] by auto
  have less: "dval (x # u) < dval (y # v)"
    if "x < y" "IsDigit x" "dval u < 10 ^ length v" "length u = length v" for x y u v
  proof -
    have "Suc (of_char x - 48) \<le> of_char y - 48" using that by (auto simp: less_char_def IsDigit_nat)
    then have "Suc (of_char x - 48) * 10 ^ length v \<le> (of_char y - 48) * 10 ^ length v"
      by (rule mult_le_mono1)
    with that show ?thesis by simp
  qed
  consider "c < d" | "d < c" | "c = d" by (meson linorder_less_linear)
  then show ?case
  proof cases
    case 1
    then have "dval (c # l) < dval (d # r)" using Cons b by (intro less) simp_all
    with 1 show ?thesis by (simp add: cmp_ord_def del: dval.simps)
  next
    case 2
    then have "dval (d # r) < dval (c # l)" using Cons b by (intro less) simp_all
    with 2 show ?thesis by (auto simp: cmp_ord_def simp del: dval.simps)
  next
    case 3
    with Cons show ?thesis by (simp add: cmp_ord_def split: if_splits)
  qed
qed

text \<open>Trimming leading zeros, then comparing lengths, then bytes, compares the numeric values.\<close>

lemma digits_compare:
  assumes "list_all IsDigit l" "list_all IsDigit r"
  shows "(if length (TrimLeft0 l) < length (TrimLeft0 r) then -1
          else if length (TrimLeft0 l) > length (TrimLeft0 r) then 1
          else cmp_ord (TrimLeft0 l) (TrimLeft0 r)) = cmp_ord (dval l) (dval r)"
  using dval_length_less [OF assms] dval_length_less [OF assms(2,1)]
    dval_lex [of "TrimLeft0 l" "TrimLeft0 r"] TrimLeft0_digits [OF assms(1)] TrimLeft0_digits [OF assms(2)]
  by (auto simp: cmp_ord_def split: if_splits)

section \<open>The reference order on segments\<close>

text \<open>
  A version is a sequence of segments: a run of letters or the value of a run of digits. A letter
  run is older than a number, and a version that ends is older than one that goes on.
\<close>

datatype rpm_seg = Missing | Alpha string | Num nat

fun seg_key :: "rpm_seg \<Rightarrow> nat \<times> string \<times> nat" where
  "seg_key Missing = (0, [], 0)"
| "seg_key (Alpha s) = (1, s, 0)"
| "seg_key (Num n) = (2, [], n)"

lemma seg_key_inj: "seg_key a = seg_key b \<longleftrightarrow> a = b"
  by (cases a; cases b) auto

instantiation rpm_seg :: linorder
begin
definition less_eq_rpm_seg :: "rpm_seg \<Rightarrow> rpm_seg \<Rightarrow> bool" where
  "less_eq_rpm_seg a b = (seg_key a \<le> seg_key b)"
definition less_rpm_seg :: "rpm_seg \<Rightarrow> rpm_seg \<Rightarrow> bool" where
  "less_rpm_seg a b = (seg_key a < seg_key b)"
instance
  by standard (auto simp: less_eq_rpm_seg_def less_rpm_seg_def seg_key_inj
      simp flip: seg_key_inj less_le_not_le intro: order_trans)
end

function rpm_segments :: "string \<Rightarrow> rpm_seg list" where
  "rpm_segments s =
     (if trimNonAlnum s = [] then []
      else (case nextSegment (trimNonAlnum s) of
              (seg, numeric, rest) \<Rightarrow>
                (if numeric then Num (dval seg) else Alpha seg) # rpm_segments rest))"
  by pat_completeness auto
termination
  by (relation "measure length", simp) (metis in_measure nextSegment_shorter snd_conv)

declare rpm_segments.simps [simp del]

lemma nextSegment_digits:
  assumes "nextSegment v = (seg, True, rest)"
  shows "list_all IsDigit seg"
proof -
  from assms have "seg = takeWhile (in_segment True) v"
    by (cases v) (auto simp: nextSegment_def Let_def)
  then show ?thesis
    using set_takeWhileD [of _ "in_segment True" v] by (auto simp: list_all_iff in_segment_def)
qed

lemma less_seg_simps [simp]:
  "Num m < Num n \<longleftrightarrow> m < n" "Alpha a < Alpha b \<longleftrightarrow> a < b"
  "Missing < Num n" "Missing < Alpha b" "Alpha b < Num n"
  "\<not> Num n < Missing" "\<not> Alpha b < Missing" "\<not> Num n < Alpha b"
  by (simp_all add: less_rpm_seg_def)

lemma compareSegment_numeric:
  assumes "list_all IsDigit l" "list_all IsDigit r"
  shows "compareSegment l r True = cmp_ord (Num (dval l)) (Num (dval r))"
proof -
  have "compareSegment l r True =
    (if length (TrimLeft0 l) < length (TrimLeft0 r) then -1
     else if length (TrimLeft0 l) > length (TrimLeft0 r) then 1
     else cmp_ord (TrimLeft0 l) (TrimLeft0 r))"
    by (simp add: compareSegment_def cmp_ord_def)
  also have "\<dots> = cmp_ord (dval l) (dval r)" using assms by (rule digits_compare)
  finally show ?thesis by (simp add: cmp_ord_def)
qed

lemma compareSegment_alpha: "compareSegment l r False = cmp_ord (Alpha l) (Alpha r)"
  by (simp add: compareSegment_def cmp_ord_def)

lemma cmp_seg_simps:
  "cmp_ord Missing (Alpha s) = -1" "cmp_ord Missing (Num n) = -1"
  "cmp_ord (Alpha s) Missing = 1" "cmp_ord (Num n) Missing = 1"
  "cmp_ord (Alpha s) (Num n) = -1" "cmp_ord (Num n) (Alpha s) = 1"
  by (simp_all add: cmp_ord_def)

text \<open>The loop compares the two sequences of segments.\<close>

lemma rpm_loop_segments:
  "rpm_loop left right = cmp_pad Missing cmp_ord (rpm_segments left) (rpm_segments right)"
proof (induction left right rule: rpm_loop.induct)
  case (1 left right)
  let ?l = "trimNonAlnum left" and ?r = "trimNonAlnum right"
  obtain ls ln nl where L: "nextSegment ?l = (ls, ln, nl)" by (metis prod_cases3)
  obtain rs rn nr where R: "nextSegment ?r = (rs, rn, nr)" by (metis prod_cases3)
  have segs: "rpm_segments left = (if ?l = [] then [] else (if ln then Num (dval ls) else Alpha ls) # rpm_segments nl)"
    "rpm_segments right = (if ?r = [] then [] else (if rn then Num (dval rs) else Alpha rs) # rpm_segments nr)"
    by (simp_all add: rpm_segments.simps [of left] rpm_segments.simps [of right] L R)
  show ?case
  proof (cases "?l = [] \<or> ?r = []")
    case True
    then show ?thesis
      by (auto simp: rpm_loop.simps [of left right] segs cmp_seg_simps cmp_then_def)
  next
    case False
    then have ne: "left \<noteq> [] \<and> right \<noteq> []" by auto
    show ?thesis
    proof (cases "ln = rn")
      case eq: True
      have cs: "compareSegment ls rs ln =
          cmp_ord (if ln then Num (dval ls) else Alpha ls) (if rn then Num (dval rs) else Alpha rs)"
        using L R eq nextSegment_digits [of ?l ls nl] nextSegment_digits [of ?r rs nr]
        by (auto simp: compareSegment_numeric compareSegment_alpha)
      have "rpm_loop left right =
          cmp_then (compareSegment ls rs ln) (rpm_loop nl nr)"
        using False ne eq by (simp add: rpm_loop.simps [of left right] L R Let_def cmp_then_def)
      moreover have "compareSegment ls rs ln = 0 \<Longrightarrow>
          rpm_loop nl nr = cmp_pad Missing cmp_ord (rpm_segments nl) (rpm_segments nr)"
        using "1.IH" [OF _ refl refl _ _ _ refl L [symmetric] refl refl R [symmetric] refl _ refl]
          False ne eq by blast
      ultimately show ?thesis using False cs by (simp add: segs cmp_then_def)
    next
      case neq: False
      then have "rpm_loop left right = (if ln then 1 else -1)"
        using False ne by (simp add: rpm_loop.simps [of left right] L R Let_def)
      with False neq show ?thesis by (cases ln) (simp_all add: segs cmp_seg_simps cmp_then_def)
    qed
  qed
qed

lemma compareRPMVersion_segments:
  "compareRPMVersion left right =
     cmp_pad Missing cmp_ord (rpm_segments (TrimSpace left)) (rpm_segments (TrimSpace right))"
  by (simp add: compareRPMVersion_def rpm_loop_segments)

lemma compareRPMVersion_contract: "go_compare compareRPMVersion"
proof -
  have "compareRPMVersion =
      (\<lambda>l r. cmp_pad Missing cmp_ord (rpm_segments (TrimSpace l)) (rpm_segments (TrimSpace r)))"
    by (intro ext) (rule compareRPMVersion_segments)
  moreover have "go_compare
      (\<lambda>l r. cmp_pad Missing cmp_ord (rpm_segments (TrimSpace l)) (rpm_segments (TrimSpace r)))"
    by (rule go_compare.cmp_by_key [OF ord_cmp.cmp_pad_compare])
  ultimately show ?thesis by (simp only:)
qed

interpretation rpm_cmp: go_compare compareRPMVersion
  by (rule compareRPMVersion_contract)

lemma compareEVR_lex:
  "compareEVR l r = cmp_then (cmp_ord (evr_epoch l) (evr_epoch r))
     (cmp_then (compareRPMVersion (evr_version l) (evr_version r))
       (compareRPMVersion (evr_release l) (evr_release r)))"
  by (simp add: compareEVR_def cmp_then_def cmp_ord_def Let_def)

lemma compareEVR_contract: "go_compare compareEVR"
proof -
  have "compareEVR = (\<lambda>l r. cmp_then (cmp_ord (evr_epoch l) (evr_epoch r))
     (cmp_then (compareRPMVersion (evr_version l) (evr_version r))
       (compareRPMVersion (evr_release l) (evr_release r))))"
    by (intro ext) (rule compareEVR_lex)
  moreover have "go_compare (\<lambda>(l::evr) r. cmp_then (cmp_ord (evr_epoch l) (evr_epoch r))
     (cmp_then (compareRPMVersion (evr_version l) (evr_version r))
       (compareRPMVersion (evr_release l) (evr_release r))))"
    by (rule ord_cmp.cmp_lex [where g = id, simplified])
       (rule rpm_cmp.cmp_lex [OF compareRPMVersion_contract])
  ultimately show ?thesis by (simp only:)
qed

interpretation evr_cmp: go_compare compareEVR
  by (rule compareEVR_contract)

section \<open>Parsing\<close>

definition parseEVR :: "string \<Rightarrow> evr_error + evr" where
  "parseEVR value =
     (let trimmed = TrimSpace value in
      case LastIndex trimmed ''-'' of
        None \<Rightarrow> Inl (MissingReleaseSeparator value)
      | Some dashIndex \<Rightarrow>
          (case Index trimmed '':'' of
             None \<Rightarrow>
               Inr \<lparr>evr_epoch = 0, evr_version = take dashIndex trimmed,
                    evr_release = drop (dashIndex + 1) trimmed\<rparr>
           | Some colonIndex \<Rightarrow>
               if dashIndex < colonIndex then Inl (MissingReleaseSeparator value)
               else (case ParseInt 64 (take colonIndex trimmed) of
                       None \<Rightarrow> Inl (ParseEpoch value)
                     | Some parsedEpoch \<Rightarrow>
                         Inr \<lparr>evr_epoch = parsedEpoch,
                              evr_version = drop (colonIndex + 1) (take dashIndex trimmed),
                              evr_release = drop (dashIndex + 1) trimmed\<rparr>)))"

definition parseEVRFromNEVR :: "string \<Rightarrow> evr_error + evr" where
  "parseEVRFromNEVR value =
     (let trimmed = TrimSpace value in
      case LastIndex trimmed ''-'' of
        None \<Rightarrow> Inl (MissingReleaseSeparator value)
      | Some lastDash \<Rightarrow>
          let release = drop (lastDash + 1) trimmed; body = take lastDash trimmed in
          if release = [] \<or> body = [] then Inl (MissingReleaseSeparator value)
          else (case Index body '':'' of
                  None \<Rightarrow>
                    (case LastIndex body ''-'' of
                       None \<Rightarrow> Inl (MissingVersionSeparator value)
                     | Some versionDash \<Rightarrow>
                         let version = drop (versionDash + 1) body in
                         if version = [] then Inl (MissingVersionSeparator value)
                         else Inr \<lparr>evr_epoch = 0, evr_version = version, evr_release = release\<rparr>)
                | Some colonIndex \<Rightarrow>
                    (case LastIndex (take colonIndex body) ''-'' of
                       None \<Rightarrow> Inl (MissingEpochSeparator value)
                     | Some epochDash \<Rightarrow>
                         (case ParseInt 64 (drop (epochDash + 1) (take colonIndex body)) of
                            None \<Rightarrow> Inl (ParseEpoch value)
                          | Some epoch \<Rightarrow>
                              let version = drop (colonIndex + 1) body in
                              if version = [] then Inl (MissingVersionSeparator value)
                              else Inr \<lparr>evr_epoch = epoch, evr_version = version,
                                        evr_release = release\<rparr>))))"

definition parseRunningKernelEVR :: "string \<Rightarrow> evr_error + evr" where
  "parseRunningKernelEVR value =
     (let trimmed = TrimSpace value in
      case LastIndex trimmed ''.'' of
        None \<Rightarrow> Inl (MissingKernelArch value)
      | Some lastDot \<Rightarrow>
          let body = take lastDot trimmed;
              third = (case parseEVR body of
                         Inr parsed \<Rightarrow> Inr parsed
                       | Inl _ \<Rightarrow> Inl (InvalidKernelEvr value));
              second = (case parseEVRFromNEVR body of Inr parsed \<Rightarrow> Inr parsed | Inl _ \<Rightarrow> third)
          in if Contains body '':''
             then (case parseEVR body of Inr parsed \<Rightarrow> Inr parsed | Inl _ \<Rightarrow> second)
             else second)"

definition evaluateEVRRule :: "evr \<Rightarrow> string \<Rightarrow> evr_error + bool" where
  "evaluateEVRRule installed rule =
     (case Fields (TrimSpace rule) of
        [operator, targetText] \<Rightarrow>
          (case parseEVR targetText of
             Inl err \<Rightarrow> Inl (TargetEvr rule err)
           | Inr target \<Rightarrow>
               let compared = compareEVR installed target in
               if operator = ''<'' then Inr (compared < 0)
               else if operator = ''<='' then Inr (compared \<le> 0)
               else if operator = ''='' then Inr (compared = 0)
               else if operator = ''>='' then Inr (compared \<ge> 0)
               else if operator = ''>'' then Inr (compared > 0)
               else Inl (UnsupportedOperator operator))
      | _ \<Rightarrow> Inl (InvalidRule rule))"

section \<open>The contract of a rule evaluator\<close>

text \<open>
  The RPM and the Debian evaluator have the same shape: two fields, an operator and a target version,
  the target parsed by the scheme's parser and compared by the scheme's comparison. The locale states
  that shape and proves what both have in common.
\<close>

lemma rule_fields:
  assumes "list_all plain oper" "oper \<noteq> []" "list_all plain t" "t \<noteq> []"
  shows "Fields (TrimSpace (oper @ '' '' @ t)) = [oper, t]"
proof -
  have "plain (last t)" using assms(3,4) by (simp add: list_all_iff)
  then have "trimmed (oper @ '' '' @ t)"
    using assms by (intro trimmed_plain) (auto simp: list_all_iff)
  then have "TrimSpace (oper @ '' '' @ t) = oper @ '' '' @ t" by (rule TrimSpace_id)
  then show ?thesis using Fields_two [OF assms(1,2,3,4)] by (simp only:)
qed

locale version_rules = go_compare compare for compare :: "evr \<Rightarrow> evr \<Rightarrow> int" +
  fixes parse :: "string \<Rightarrow> evr_error + evr"
    and eval_rule :: "evr \<Rightarrow> string \<Rightarrow> evr_error + bool"
  assumes eval_parsed: "Fields (TrimSpace rule) = [oper, t] \<Longrightarrow> parse t = Inr target \<Longrightarrow>
      eval_rule i rule =
        (if oper = ''<'' then Inr (compare i target < 0)
         else if oper = ''<='' then Inr (compare i target \<le> 0)
         else if oper = ''='' then Inr (compare i target = 0)
         else if oper = ''>='' then Inr (compare i target \<ge> 0)
         else if oper = ''>'' then Inr (compare i target > 0)
         else Inl (UnsupportedOperator oper))"
    and eval_target_error: "Fields (TrimSpace rule) = [oper, t] \<Longrightarrow> parse t = Inl e \<Longrightarrow>
      eval_rule i rule = Inl (TargetEvr rule e)"
    and eval_shape: "length (Fields (TrimSpace rule)) \<noteq> 2 \<Longrightarrow> eval_rule i rule = Inl (InvalidRule rule)"
begin

lemma eval_operators:
  assumes "list_all plain t" "t \<noteq> []" "parse t = Inr target"
  shows "eval_rule i (''< '' @ t) = Inr (compare i target < 0)"
    and "eval_rule i (''= '' @ t) = Inr (compare i target = 0)"
    and "eval_rule i (''> '' @ t) = Inr (compare i target > 0)"
    and "eval_rule i (''<= '' @ t) = Inr (compare i target \<le> 0)"
    and "eval_rule i (''>= '' @ t) = Inr (compare i target \<ge> 0)"
proof -
  have plain_ops: "list_all plain ''<''" "list_all plain ''=''" "list_all plain ''>''"
    "list_all plain ''<=''" "list_all plain ''>=''" by (simp_all add: plain_def)
  note ev = eval_parsed [OF rule_fields [OF _ _ assms(1,2)] assms(3)]
  show "eval_rule i (''< '' @ t) = Inr (compare i target < 0)" using ev [OF plain_ops(1)] by simp
  show "eval_rule i (''= '' @ t) = Inr (compare i target = 0)" using ev [OF plain_ops(2)] by simp
  show "eval_rule i (''> '' @ t) = Inr (compare i target > 0)" using ev [OF plain_ops(3)] by simp
  show "eval_rule i (''<= '' @ t) = Inr (compare i target \<le> 0)" using ev [OF plain_ops(4)] by simp
  show "eval_rule i (''>= '' @ t) = Inr (compare i target \<ge> 0)" using ev [OF plain_ops(5)] by simp
qed

text \<open>Exactly one of the three strict operators holds, the others are disjunctions.\<close>

lemma operators_consistent:
  assumes "list_all plain t" "t \<noteq> []" "parse t = Inr target"
  shows "\<exists>lt eq gt.
     eval_rule i (''< '' @ t) = Inr lt \<and> eval_rule i (''= '' @ t) = Inr eq \<and>
     eval_rule i (''> '' @ t) = Inr gt \<and>
     eval_rule i (''<= '' @ t) = Inr (lt \<or> eq) \<and> eval_rule i (''>= '' @ t) = Inr (gt \<or> eq) \<and>
     (lt \<or> eq \<or> gt) \<and> \<not> (lt \<and> eq) \<and> \<not> (lt \<and> gt) \<and> \<not> (eq \<and> gt)"
  unfolding eval_operators [OF assms] by auto

text \<open>A version older than one that a rule \<open>< t\<close> selects is selected too.\<close>

lemma less_rule_downward:
  assumes "list_all plain t" "t \<noteq> []" "parse t = Inr target"
    and "eval_rule j (''< '' @ t) = Inr True" "compare i j \<le> 0"
  shows "eval_rule i (''< '' @ t) = Inr True"
  using assms(4,5) cmp_le_less_trans [of i j target] unfolding eval_operators [OF assms(1-3)] by simp

lemma eval_total_or_error:
  "(\<exists>b. eval_rule i rule = Inr b) \<or> (\<exists>oper. eval_rule i rule = Inl (UnsupportedOperator oper)) \<or>
   (\<exists>e. eval_rule i rule = Inl (TargetEvr rule e)) \<or> eval_rule i rule = Inl (InvalidRule rule)"
proof (cases "length (Fields (TrimSpace rule)) = 2")
  case True
  then obtain oper t where f: "Fields (TrimSpace rule) = [oper, t]"
    by (metis length_0_conv length_Suc_conv numeral_2_eq_2)
  show ?thesis using eval_target_error [OF f, of _ i] eval_parsed [OF f, of _ i] by (cases "parse t") auto
qed (simp add: eval_shape)

end

interpretation rpm_rules: version_rules compareEVR parseEVR evaluateEVRRule
  by unfold_locales (auto simp: evaluateEVRRule_def Let_def split: list.splits)

section \<open>Properties\<close>


text \<open>\<open>compareEVR\<close> is a three-way comparison by a total preorder: it returns \<open>-1\<close>, \<open>0\<close> or \<open>1\<close>,
  swapping the arguments negates it, it is transitive, and versions that compare equal are
  interchangeable.\<close>

theorem compareEVR_total_preorder:
  "compareEVR x y \<in> {-1, 0, 1} \<and> compareEVR y x = - compareEVR x y \<and>
   (compareEVR x y \<le> 0 \<and> compareEVR y z \<le> 0 \<longrightarrow> compareEVR x z \<le> 0) \<and>
   (compareEVR x y = 0 \<longrightarrow> compareEVR x z = compareEVR y z)"
  using evr_cmp.cmp_range [of x y] evr_cmp.cmp_swap [of y x] evr_cmp.cmp_trans [of x y z]
    evr_cmp.cmp_cong_left [of x y z] by blast

theorem compareEVR_total_preorder_witness:
  "compareEVR \<lparr>evr_epoch = 0, evr_version = ''5.14.0'', evr_release = ''70.el9''\<rparr>
     \<lparr>evr_epoch = 0, evr_version = ''5.14.0'', evr_release = ''284.el9''\<rparr> \<le> 0 \<and>
   compareEVR \<lparr>evr_epoch = 0, evr_version = ''5.14.0'', evr_release = ''284.el9''\<rparr>
     \<lparr>evr_epoch = 1, evr_version = ''1'', evr_release = ''1''\<rparr> \<le> 0 \<and>
   compareEVR \<lparr>evr_epoch = 0, evr_version = ''5.14.0'', evr_release = ''70.el9''\<rparr>
     \<lparr>evr_epoch = 1, evr_version = ''1'', evr_release = ''1''\<rparr> \<le> 0"
proof -
  let ?x = "\<lparr>evr_epoch = 0, evr_version = ''5.14.0'', evr_release = ''70.el9''\<rparr>"
  let ?y = "\<lparr>evr_epoch = 0, evr_version = ''5.14.0'', evr_release = ''284.el9''\<rparr>"
  let ?z = "\<lparr>evr_epoch = 1, evr_version = ''1'', evr_release = ''1''\<rparr>"
  have "compareEVR ?x ?y \<le> 0" "compareEVR ?y ?z \<le> 0" by code_simp+
  then show ?thesis using compareEVR_total_preorder [of ?x ?y ?z] by blast
qed

text \<open>The five operators of a version rule are consistent. For a target that parses, exactly one of
  \<open><\<close>, \<open>=\<close>, \<open>>\<close> holds of an installed version, \<open><=\<close> and \<open>>=\<close> are the disjunctions, and a version
  older than one that \<open>< t\<close> selects is selected too.\<close>

theorem evaluateEVRRule_operators:
  assumes "list_all plain t" and "parseEVR t = Inr target"
  shows "(\<exists>lt eq gt.
     evaluateEVRRule i (''< '' @ t) = Inr lt \<and> evaluateEVRRule i (''= '' @ t) = Inr eq \<and>
     evaluateEVRRule i (''> '' @ t) = Inr gt \<and>
     evaluateEVRRule i (''<= '' @ t) = Inr (lt \<or> eq) \<and>
     evaluateEVRRule i (''>= '' @ t) = Inr (gt \<or> eq) \<and>
     (lt \<or> eq \<or> gt) \<and> \<not> (lt \<and> eq) \<and> \<not> (lt \<and> gt) \<and> \<not> (eq \<and> gt)) \<and>
   (evaluateEVRRule j (''< '' @ t) = Inr True \<and> compareEVR i j \<le> 0 \<longrightarrow>
     evaluateEVRRule i (''< '' @ t) = Inr True)"
proof -
  have "t \<noteq> []" using assms(2) by (auto simp: parseEVR_def)
  note hyps = assms(1) this assms(2)
  show ?thesis
    by (intro conjI impI rpm_rules.operators_consistent [OF hyps])
       (elim conjE, rule rpm_rules.less_rule_downward [OF hyps])
qed

theorem evaluateEVRRule_operators_witness:
  "evaluateEVRRule \<lparr>evr_epoch = 0, evr_version = ''1.2'', evr_release = ''3''\<rparr> ''< 0:1.10-1'' = Inr True \<and>
   evaluateEVRRule \<lparr>evr_epoch = 0, evr_version = ''1.1'', evr_release = ''9''\<rparr> ''< 0:1.10-1'' = Inr True"
proof -
  let ?j = "\<lparr>evr_epoch = 0, evr_version = ''1.2'', evr_release = ''3''\<rparr>"
  let ?i = "\<lparr>evr_epoch = 0, evr_version = ''1.1'', evr_release = ''9''\<rparr>"
  let ?t = "\<lparr>evr_epoch = 0, evr_version = ''1.10'', evr_release = ''1''\<rparr>"
  have "list_all plain ''0:1.10-1''" "parseEVR ''0:1.10-1'' = Inr ?t" "compareEVR ?i ?j \<le> 0"
    "evaluateEVRRule ?j ''< 0:1.10-1'' = Inr True"
    by code_simp+
  then show ?thesis using evaluateEVRRule_operators [of "''0:1.10-1''" ?t ?i ?j] by simp
qed

text \<open>\<open>parseEVR\<close> inverts the \<open>epoch:version-release\<close> notation: for every 64-bit epoch, any version
  and any release without a dash, parsing the printed form gives back the three parts.\<close>

theorem parseEVR_roundtrip:
  assumes "- (2 ^ 63) \<le> e" "e < 2 ^ 63"
    and "list_all plain v" "list_all plain r" "CHR ''-'' \<notin> set r"
  shows "parseEVR (Itoa e @ '':'' @ v @ ''-'' @ r) =
     Inr \<lparr>evr_epoch = e, evr_version = v, evr_release = r\<rparr>"
proof -
  let ?s = "Itoa e @ '':'' @ v @ ''-'' @ r"
  have "list_all plain ?s" using assms Itoa_plain by (simp add: plain_def)
  then have trim: "TrimSpace ?s = ?s" by (intro TrimSpace_id trimmed_all_plain)
  have dash: "LastIndex ?s ''-'' = Some (length (Itoa e @ '':'' @ v))"
    using LastIndex_single_append [of "CHR ''-''" r "Itoa e @ '':'' @ v"] assms(5) by simp
  have colon: "Index ?s '':'' = Some (length (Itoa e))"
    using Index_single_append [OF Itoa_no_colon] by simp
  have "ParseInt 64 (Itoa e) = Some e" using assms(1,2) by (intro ParseInt_Itoa) simp_all
  then show ?thesis unfolding parseEVR_def Let_def trim dash colon by simp
qed

theorem parseEVR_roundtrip_witness:
  "parseEVR ''2:1.0-rc1:x-7.el9'' = Inr \<lparr>evr_epoch = 2, evr_version = ''1.0-rc1:x'', evr_release = ''7.el9''\<rparr>"
proof -
  have "Itoa 2 @ '':'' @ ''1.0-rc1:x'' @ ''-'' @ ''7.el9'' = ''2:1.0-rc1:x-7.el9''" by code_simp
  moreover have "list_all plain ''1.0-rc1:x''" "list_all plain ''7.el9''" by code_simp+
  ultimately show ?thesis using parseEVR_roundtrip [of 2 "''1.0-rc1:x''" "''7.el9''"] by simp
qed

section \<open>The loop ends\<close>

text \<open>The loop of \<open>compareRPMVersion\<close> run for a number of rounds; \<open>None\<close> says that it has not returned yet.\<close>

fun rpm_rounds :: "nat \<Rightarrow> string \<Rightarrow> string \<Rightarrow> int option" where
  "rpm_rounds 0 left right = None"
| "rpm_rounds (Suc n) left right =
     (if left = [] \<and> right = [] then Some 0
      else let l = trimNonAlnum left; r = trimNonAlnum right in
        if l = [] \<and> r = [] then Some 0
        else if l = [] then Some (-1)
        else if r = [] then Some 1
        else let (leftSegment, leftNumeric, nextLeft) = nextSegment l;
                 (rightSegment, rightNumeric, nextRight) = nextSegment r
             in if leftNumeric \<noteq> rightNumeric then Some (if leftNumeric then 1 else -1)
                else let compared = compareSegment leftSegment rightSegment leftNumeric
                     in if compared \<noteq> 0 then Some compared else rpm_rounds n nextLeft nextRight)"

lemma rpm_rounds_enough:
  "length left < n \<or> length right < n \<Longrightarrow> rpm_rounds n left right = Some (rpm_loop left right)"
proof (induction n arbitrary: left right)
  case 0
  then show ?case by simp
next
  case (Suc n)
  obtain ls ln nl where L: "nextSegment (trimNonAlnum left) = (ls, ln, nl)" by (cases "nextSegment (trimNonAlnum left)") auto
  obtain rs rn nr where R: "nextSegment (trimNonAlnum right) = (rs, rn, nr)" by (cases "nextSegment (trimNonAlnum right)") auto
  have "length nl < length left" if "trimNonAlnum left \<noteq> []" using nextSegment_shorter [of left] that L by simp
  moreover have "length nr < length right" if "trimNonAlnum right \<noteq> []" using nextSegment_shorter [of right] that R by simp
  ultimately have "rpm_rounds n nl nr = Some (rpm_loop nl nr)" if "trimNonAlnum left \<noteq> []" "trimNonAlnum right \<noteq> []"
    using Suc that by fastforce
  then show ?case by (simp add: rpm_loop.simps [of left right] L R Let_def)
qed

text \<open>C34: The loop of \<open>compareRPMVersion\<close> always returns, for any two strings, and it does so within one round more than the
  shorter of the two trimmed versions has characters.\<close>

theorem compareRPMVersion_terminates:
  "rpm_rounds (Suc (min (length (TrimSpace left)) (length (TrimSpace right)))) (TrimSpace left) (TrimSpace right) = Some (compareRPMVersion left right)"
  by (simp only: compareRPMVersion_def) (rule rpm_rounds_enough, linarith)

end
