(* ===== verification/Debian_Version.thy ===== *)
theory Debian_Version
  imports Rpm_Version Data_Model
begin

text \<open>
  \<open>internal/services/matchers/matcher_debianver.go\<close>: the comparison of Debian versions, the parsers
  for Debian version and package strings, and the evaluation of Debian version rules. The comparison
  is shown to be the lexicographic order of alternating non-digit and digit pieces, with the
  characters weighted as the Debian policy asks (tilde before the end, letters before the rest).
\<close>

section \<open>Comparison\<close>

definition isDigit :: "char \<Rightarrow> bool" where
  "isDigit c = (byte c \<ge> 48 \<and> byte c \<le> 57)"

definition isLetter :: "char \<Rightarrow> bool" where
  "isLetter c = ((byte c \<ge> 97 \<and> byte c \<le> 122) \<or> (byte c \<ge> 65 \<and> byte c \<le> 90))"

definition compareDebianChars :: "char \<Rightarrow> char \<Rightarrow> int" where
  "compareDebianChars c1 c2 =
     (if c1 = c2 then 0
      else if c1 = CHR ''~'' then -1
      else if c2 = CHR ''~'' then 1
      else let isL1 = isLetter c1; isL2 = isLetter c2 in
        if isL1 \<and> \<not> isL2 then -1
        else if \<not> isL1 \<and> isL2 then 1
        else if byte c1 < byte c2 then -1
        else 1)"

fun compareDebianNonDigit :: "string \<Rightarrow> string \<Rightarrow> int" where
  "compareDebianNonDigit [] [] = 0"
| "compareDebianNonDigit [] (r # _) = (if r = CHR ''~'' then 1 else -1)"
| "compareDebianNonDigit (l # _) [] = (if l = CHR ''~'' then -1 else 1)"
| "compareDebianNonDigit (l # left) (r # right) =
     (let compared = compareDebianChars l r
      in if compared \<noteq> 0 then compared else compareDebianNonDigit left right)"

definition compareDebianDigit :: "string \<Rightarrow> string \<Rightarrow> int" where
  "compareDebianDigit left right =
     (let leftTrimmed = TrimLeft0 left; rightTrimmed = TrimLeft0 right in
      if length leftTrimmed < length rightTrimmed then -1
      else if length leftTrimmed > length rightTrimmed then 1
      else if leftTrimmed < rightTrimmed then -1
      else if leftTrimmed > rightTrimmed then 1
      else 0)"

text \<open>
  The loop of \<open>compareDebianVersionStrings\<close>: an index into a string is the rest of the string from
  there, and a slice between two positions of the index is the prefix the inner loop has passed.
\<close>

function compareDebianVersionStrings :: "string \<Rightarrow> string \<Rightarrow> int" where
  "compareDebianVersionStrings left right =
     (if left = [] \<and> right = [] then 0
      else
        let lNonDigit = takeWhile (\<lambda>c. \<not> isDigit c) left;
            left1 = dropWhile (\<lambda>c. \<not> isDigit c) left;
            rNonDigit = takeWhile (\<lambda>c. \<not> isDigit c) right;
            right1 = dropWhile (\<lambda>c. \<not> isDigit c) right;
            compared1 = (if lNonDigit \<noteq> rNonDigit then compareDebianNonDigit lNonDigit rNonDigit else 0)
        in if compared1 \<noteq> 0 then compared1
           else
             let lDigit = takeWhile isDigit left1; left2 = dropWhile isDigit left1;
                 rDigit = takeWhile isDigit right1; right2 = dropWhile isDigit right1;
                 compared2 = (if lDigit \<noteq> rDigit then compareDebianDigit lDigit rDigit else 0)
             in if compared2 \<noteq> 0 then compared2 else compareDebianVersionStrings left2 right2)"
  by pat_completeness auto

lemma deb_rest_le: "length (dropWhile isDigit (dropWhile (\<lambda>c. \<not> isDigit c) s)) \<le> length s"
  by (meson length_dropWhile_le order_trans)

lemma deb_rest_less: "s \<noteq> [] \<Longrightarrow> length (dropWhile isDigit (dropWhile (\<lambda>c. \<not> isDigit c) s)) < length s"
proof -
  assume "s \<noteq> []"
  then obtain c t where s: "s = c # t" by (cases s) auto
  show ?thesis
  proof (cases "isDigit c")
    case True
    then show ?thesis using length_dropWhile_le [of isDigit t] by (simp add: s)
  next
    case False
    then show ?thesis using deb_rest_le [of t] by (simp add: s)
  qed
qed

termination compareDebianVersionStrings
proof (relation "measure (\<lambda>(l, r). length l + length r)", goal_cases)
  case 1
  then show ?case by simp
next
  case (2 left right)
  then have "left \<noteq> [] \<or> right \<noteq> []" by simp
  then have "length (dropWhile isDigit (dropWhile (\<lambda>c. \<not> isDigit c) left))
      + length (dropWhile isDigit (dropWhile (\<lambda>c. \<not> isDigit c) right)) < length left + length right"
    using deb_rest_le [of left] deb_rest_le [of right] deb_rest_less [of left] deb_rest_less [of right]
    by fastforce
  with 2 show ?case by simp
qed

declare compareDebianVersionStrings.simps [simp del]

definition compareDebianEVR :: "evr \<Rightarrow> evr \<Rightarrow> int" where
  "compareDebianEVR left right =
     (if evr_epoch left < evr_epoch right then -1
      else if evr_epoch left > evr_epoch right then 1
      else let compared = compareDebianVersionStrings (evr_version left) (evr_version right)
           in if compared \<noteq> 0 then compared
              else compareDebianVersionStrings (evr_release left) (evr_release right))"

section \<open>The reference order\<close>

text \<open>
  The weight of a character: the tilde is below the end of a piece (weight 0), letters are next in
  byte order, and every other character comes after all letters.
\<close>

definition deb_weight :: "char \<Rightarrow> int" where
  "deb_weight c = (if c = CHR ''~'' then -1 else if isLetter c then byte c else byte c + 256)"

function deb_pieces :: "string \<Rightarrow> (int list \<times> nat) list" where
  "deb_pieces s =
     (if s = [] then []
      else (map deb_weight (takeWhile (\<lambda>c. \<not> isDigit c) s),
            dval (takeWhile isDigit (dropWhile (\<lambda>c. \<not> isDigit c) s)))
           # deb_pieces (dropWhile isDigit (dropWhile (\<lambda>c. \<not> isDigit c) s)))"
  by pat_completeness auto
termination
  by (relation "measure length") (simp_all add: deb_rest_less)

declare deb_pieces.simps [simp del]

definition piece_cmp :: "int list \<times> nat \<Rightarrow> int list \<times> nat \<Rightarrow> int" where
  "piece_cmp x y = cmp_then (cmp_pad 0 cmp_ord (fst x) (fst y)) (cmp_ord (snd x) (snd y))"

lemma deb_weight_letter: "isLetter c \<Longrightarrow> c \<noteq> CHR ''~''"
  by (auto simp: isLetter_def)

lemma compareDebianChars_weight: "compareDebianChars c1 c2 = cmp_ord (deb_weight c1) (deb_weight c2)"
proof -
  have "byte c1 = byte c2 \<longleftrightarrow> c1 = c2" by (rule byte_inject)
  moreover have "0 \<le> byte c1" "byte c1 < 256" "0 \<le> byte c2" "byte c2 < 256" by (rule byte_range)+
  ultimately show ?thesis
    unfolding compareDebianChars_def deb_weight_def cmp_ord_def Let_def by (smt (verit))
qed

lemma deb_weight_end: "deb_weight c < 0 \<longleftrightarrow> c = CHR ''~''" "deb_weight c > 0 \<longleftrightarrow> c \<noteq> CHR ''~''"
proof -
  have "isLetter c \<Longrightarrow> 0 < byte c" by (auto simp: isLetter_def)
  moreover have "0 \<le> byte c" by (rule byte_range)
  ultimately show "deb_weight c < 0 \<longleftrightarrow> c = CHR ''~''" "deb_weight c > 0 \<longleftrightarrow> c \<noteq> CHR ''~''"
    unfolding deb_weight_def by (smt (verit))+
qed

lemma compareDebianNonDigit_weight:
  "compareDebianNonDigit l r = cmp_pad 0 cmp_ord (map deb_weight l) (map deb_weight r)"
proof (induction l r rule: compareDebianNonDigit.induct)
  case (2 r right)
  then show ?case using deb_weight_end [of r] by (auto simp: cmp_then_def cmp_ord_def)
next
  case (3 l left)
  then show ?case using deb_weight_end [of l] by (auto simp: cmp_then_def cmp_ord_def)
next
  case (4 l left r right)
  then show ?case by (simp add: compareDebianChars_weight cmp_then_def Let_def)
qed simp

lemma compareDebianDigit_value:
  assumes "list_all IsDigit l" "list_all IsDigit r"
  shows "compareDebianDigit l r = cmp_ord (dval l) (dval r)"
proof -
  have "compareDebianDigit l r =
    (if length (TrimLeft0 l) < length (TrimLeft0 r) then -1
     else if length (TrimLeft0 l) > length (TrimLeft0 r) then 1
     else cmp_ord (TrimLeft0 l) (TrimLeft0 r))"
    by (simp add: compareDebianDigit_def cmp_ord_def)
  also have "\<dots> = cmp_ord (dval l) (dval r)" using assms by (rule digits_compare)
  finally show ?thesis .
qed

lemma isDigit_IsDigit: "isDigit c = IsDigit c"
  by (simp add: isDigit_def IsDigit_def)

lemma digits_takeWhile: "list_all IsDigit (takeWhile isDigit s)"
  using set_takeWhileD [of _ isDigit s] by (auto simp: list_all_iff isDigit_IsDigit)

interpretation piece_order: go_compare piece_cmp
proof -
  have "go_compare (\<lambda>(x :: int list \<times> nat) y. cmp_then (cmp_pad 0 cmp_ord (fst x) (fst y)) (cmp_ord (snd x) (snd y)))"
    by (rule go_compare.cmp_lex [OF ord_cmp.cmp_pad_compare ord_cmp.go_compare_axioms])
  moreover have "piece_cmp =
      (\<lambda>x y. cmp_then (cmp_pad 0 cmp_ord (fst x) (fst y)) (cmp_ord (snd x) (snd y)))"
    by (intro ext) (rule piece_cmp_def)
  ultimately show "go_compare piece_cmp" by (simp only:)
qed

lemma debian_parts_refl [simp]: "compareDebianNonDigit s s = 0" "compareDebianDigit s s = 0"
  by (simp_all add: compareDebianNonDigit_weight compareDebianDigit_def
      go_compare.cmp_refl [OF ord_cmp.cmp_pad_compare])

text \<open>One round of the loop.\<close>

lemma compareDebianVersionStrings_step:
  assumes "\<not> (left = [] \<and> right = [])"
  shows "compareDebianVersionStrings left right =
     cmp_then (compareDebianNonDigit (takeWhile (\<lambda>c. \<not> isDigit c) left) (takeWhile (\<lambda>c. \<not> isDigit c) right))
       (cmp_then (compareDebianDigit (takeWhile isDigit (dropWhile (\<lambda>c. \<not> isDigit c) left))
                    (takeWhile isDigit (dropWhile (\<lambda>c. \<not> isDigit c) right)))
         (compareDebianVersionStrings (dropWhile isDigit (dropWhile (\<lambda>c. \<not> isDigit c) left))
            (dropWhile isDigit (dropWhile (\<lambda>c. \<not> isDigit c) right))))"
  by (subst compareDebianVersionStrings.simps) (simp add: if_not_P [OF assms] Let_def cmp_then_def)

lemma compareDebianVersionStrings_pieces:
  "compareDebianVersionStrings left right = cmp_pad ([], 0) piece_cmp (deb_pieces left) (deb_pieces right)"
proof (induction left right rule: compareDebianVersionStrings.induct)
  case (1 left right)
  let ?nd = "\<lambda>s. takeWhile (\<lambda>c. \<not> isDigit c) s"
  let ?d = "\<lambda>s. takeWhile isDigit (dropWhile (\<lambda>c. \<not> isDigit c) s)"
  let ?rest = "\<lambda>s. dropWhile isDigit (dropWhile (\<lambda>c. \<not> isDigit c) s)"
  let ?hd = "\<lambda>s. (map deb_weight (?nd s), dval (?d s))"
  show ?case
  proof (cases "left = [] \<and> right = []")
    case True
    then show ?thesis by (simp add: compareDebianVersionStrings.simps deb_pieces.simps)
  next
    case False
    have hd: "pad_hd ([], 0) (deb_pieces s) = ?hd s" "tl (deb_pieces s) = deb_pieces (?rest s)" for s
      by (simp_all add: deb_pieces.simps [of s] deb_pieces.simps [of "[]"] pad_hd_def)
    let ?c1 = "compareDebianNonDigit (?nd left) (?nd right)"
    let ?c2 = "compareDebianDigit (?d left) (?d right)"
    have step: "compareDebianVersionStrings left right =
        cmp_then ?c1 (cmp_then ?c2 (compareDebianVersionStrings (?rest left) (?rest right)))"
      using False by (rule compareDebianVersionStrings_step)
    have piece: "cmp_then ?c1 ?c2 = piece_cmp (?hd left) (?hd right)"
      by (simp add: piece_cmp_def compareDebianNonDigit_weight compareDebianDigit_value digits_takeWhile)
    have ih: "?c1 = 0 \<Longrightarrow> ?c2 = 0 \<Longrightarrow> compareDebianVersionStrings (?rest left) (?rest right) =
        cmp_pad ([], 0) piece_cmp (deb_pieces (?rest left)) (deb_pieces (?rest right))"
      using "1.IH" [OF False refl refl refl refl refl _ refl refl refl refl refl] by simp
    have "cmp_pad ([], 0) piece_cmp (deb_pieces left) (deb_pieces right) =
        cmp_then (piece_cmp (?hd left) (?hd right))
          (cmp_pad ([], 0) piece_cmp (deb_pieces (?rest left)) (deb_pieces (?rest right)))"
      using piece_order.cmp_pad_unfold [of "([], 0)" "deb_pieces left" "deb_pieces right"]
      by (simp only: hd)
    with step piece [symmetric] ih show ?thesis by (simp add: cmp_then_def split: if_splits)
  qed
qed

lemma compareDebianVersionStrings_contract: "go_compare compareDebianVersionStrings"
proof -
  have "compareDebianVersionStrings =
      (\<lambda>l r. cmp_pad ([], 0) piece_cmp (deb_pieces l) (deb_pieces r))"
    by (intro ext) (rule compareDebianVersionStrings_pieces)
  moreover have "go_compare (\<lambda>l r. cmp_pad ([], 0) piece_cmp (deb_pieces l) (deb_pieces r))"
    by (rule go_compare.cmp_by_key [OF piece_order.cmp_pad_compare])
  ultimately show ?thesis by (simp only:)
qed

interpretation deb_cmp: go_compare compareDebianVersionStrings
  by (rule compareDebianVersionStrings_contract)

lemma compareDebianEVR_lex:
  "compareDebianEVR l r = cmp_then (cmp_ord (evr_epoch l) (evr_epoch r))
     (cmp_then (compareDebianVersionStrings (evr_version l) (evr_version r))
       (compareDebianVersionStrings (evr_release l) (evr_release r)))"
  by (simp add: compareDebianEVR_def cmp_then_def cmp_ord_def Let_def)

lemma compareDebianEVR_contract: "go_compare compareDebianEVR"
proof -
  have "compareDebianEVR = (\<lambda>l r. cmp_then (cmp_ord (evr_epoch l) (evr_epoch r))
     (cmp_then (compareDebianVersionStrings (evr_version l) (evr_version r))
       (compareDebianVersionStrings (evr_release l) (evr_release r))))"
    by (intro ext) (rule compareDebianEVR_lex)
  moreover have "go_compare (\<lambda>(l::evr) r. cmp_then (cmp_ord (evr_epoch l) (evr_epoch r))
     (cmp_then (compareDebianVersionStrings (evr_version l) (evr_version r))
       (compareDebianVersionStrings (evr_release l) (evr_release r))))"
    by (rule ord_cmp.cmp_lex [where g = id, simplified])
       (rule deb_cmp.cmp_lex [OF compareDebianVersionStrings_contract])
  ultimately show ?thesis by (simp only:)
qed

interpretation deb_evr_cmp: go_compare compareDebianEVR
  by (rule compareDebianEVR_contract)

section \<open>Parsing\<close>

definition parseDebianEpoch :: "string \<Rightarrow> evr_error + int" where
  "parseDebianEpoch value =
     (let trimmed = TrimSpace value in
      if trimmed = [] \<or> trimmed = ''(none)'' then Inr 0
      else (case ParseInt 32 trimmed of
              None \<Rightarrow> Inl (ParseEpoch trimmed)
            | Some n \<Rightarrow> Inr n))"

definition parseDebianVersionParts :: "string \<Rightarrow> evr_error + int \<times> string \<times> string" where
  "parseDebianVersionParts value =
     (let version = TrimSpace value in
      if version = [] then Inl EmptyVersion
      else
        (case (case Index version '':'' of
                 None \<Rightarrow> Inr (0, version)
               | Some idx \<Rightarrow>
                   (case parseDebianEpoch (take idx version) of
                      Inl err \<Rightarrow> Inl err
                    | Inr parsed \<Rightarrow> Inr (parsed, drop (idx + 1) version))) of
           Inl err \<Rightarrow> Inl err
         | Inr (epoch, version1) \<Rightarrow>
             if version1 = [] then Inl MissingVersionAfterEpoch
             else
               let (upstream, release) =
                     (case LastIndex version1 ''-'' of
                        None \<Rightarrow> (version1, [])
                      | Some idx \<Rightarrow> (take idx version1, drop (idx + 1) version1))
               in if upstream = [] then Inl MissingUpstreamVersion
                  else Inr (epoch, upstream, release)))"

definition parseDebianEVR :: "string \<Rightarrow> evr_error + evr" where
  "parseDebianEVR value =
     (case parseDebianVersionParts value of
        Inl err \<Rightarrow> Inl err
      | Inr (epoch, version, release) \<Rightarrow>
          Inr \<lparr>evr_epoch = epoch, evr_version = version, evr_release = release\<rparr>)"

definition debian_archs :: "string list" where
  "debian_archs = [''amd64'', ''arm64'', ''armel'', ''armhf'', ''i386'', ''mips64el'', ''mipsel'',
     ''powerpc'', ''ppc64el'', ''riscv64'', ''s390x'', ''all'', ''any'', ''loong64'', ''alpha'',
     ''hppa'', ''ia64'', ''m68k'', ''sh4'', ''sparc64'', ''x32'', ''sparc'', ''ppc64'', ''mips'',
     ''mips64'']"

definition isDebianArch :: "string \<Rightarrow> bool" where
  "isDebianArch s = (s \<in> set debian_archs)"

text \<open>The two searches for the start of a version: a digit after a dash, then any digit.\<close>

fun dash_digit_rest :: "string \<Rightarrow> string option" where
  "dash_digit_rest [] = None"
| "dash_digit_rest [c] = None"
| "dash_digit_rest (c # d # s) =
     (if c = CHR ''-'' \<and> isDigit d then Some (d # s) else dash_digit_rest (d # s))"

fun digit_rest :: "string \<Rightarrow> string option" where
  "digit_rest [] = None"
| "digit_rest (c # s) = (if isDigit c then Some (c # s) else digit_rest s)"

definition parseDebianEVRFromNEVR :: "string \<Rightarrow> evr_error + evr" where
  "parseDebianEVRFromNEVR value =
     (let trimmed = TrimSpace value;
          body = (case LastIndex trimmed ''.'' of
                    None \<Rightarrow> trimmed
                  | Some lastDot \<Rightarrow>
                      if lastDot + 1 < length trimmed \<and> isDebianArch (drop (lastDot + 1) trimmed)
                      then take lastDot trimmed else trimmed);
          parts = (case Cut body '':'' of
                     Some (before, after) \<Rightarrow>
                       let epochStr = (case LastIndex before ''-'' of
                                         None \<Rightarrow> before
                                       | Some lastDash \<Rightarrow> drop (lastDash + 1) before)
                       in Inr (case ParseInt 64 epochStr of None \<Rightarrow> 0 | Some ep \<Rightarrow> ep, after)
                   | None \<Rightarrow>
                       (case dash_digit_rest body of
                          Some rest \<Rightarrow> Inr (0, rest)
                        | None \<Rightarrow>
                            (case digit_rest body of
                               Some rest \<Rightarrow> Inr (0, rest)
                             | None \<Rightarrow> Inl (NoVersionStart value))))
      in case parts of
           Inl err \<Rightarrow> Inl err
         | Inr (epoch, versionReleasePart) \<Rightarrow>
             (case LastIndex versionReleasePart ''-'' of
                None \<Rightarrow> Inr \<lparr>evr_epoch = epoch, evr_version = versionReleasePart, evr_release = []\<rparr>
              | Some lastDash \<Rightarrow>
                  Inr \<lparr>evr_epoch = epoch, evr_version = take lastDash versionReleasePart,
                       evr_release = drop (lastDash + 1) versionReleasePart\<rparr>))"

definition parseRunningKernelDebianEVR :: "string \<Rightarrow> evr_error + evr" where
  "parseRunningKernelDebianEVR value =
     (let trimmed = TrimSpace value in
      if trimmed = [] then Inl EmptyRunningKernel
      else (case Cut trimmed ''-'' of
              None \<Rightarrow> Inr \<lparr>evr_epoch = 0, evr_version = trimmed, evr_release = []\<rparr>
            | Some (before, after) \<Rightarrow>
                Inr \<lparr>evr_epoch = 0, evr_version = before, evr_release = after\<rparr>))"

definition evaluateDebianEVRRule :: "evr \<Rightarrow> string \<Rightarrow> evr_error + bool" where
  "evaluateDebianEVRRule installed rule =
     (case Fields (TrimSpace rule) of
        [operator, targetText] \<Rightarrow>
          (case parseDebianEVR targetText of
             Inl err \<Rightarrow> Inl (TargetEvr rule err)
           | Inr target \<Rightarrow>
               let compared = compareDebianEVR installed target in
               if operator = ''<'' then Inr (compared < 0)
               else if operator = ''<='' then Inr (compared \<le> 0)
               else if operator = ''='' then Inr (compared = 0)
               else if operator = ''>='' then Inr (compared \<ge> 0)
               else if operator = ''>'' then Inr (compared > 0)
               else Inl (UnsupportedOperator operator))
      | _ \<Rightarrow> Inl (InvalidRule rule))"

interpretation deb_rules: version_rules compareDebianEVR parseDebianEVR evaluateDebianEVRRule
  by unfold_locales (auto simp: evaluateDebianEVRRule_def Let_def split: list.splits)

text \<open>The version triple of an installed package, as every comparison in the matcher builds it.\<close>

definition pkg_evr :: "Package \<Rightarrow> evr" where
  "pkg_evr pkg = \<lparr>evr_epoch = pkg_Epoch pkg, evr_version = pkg_Version pkg, evr_release = pkg_Release pkg\<rparr>"

fun getRunningKernelPackageEVR_loop :: "Package list \<Rightarrow> string \<Rightarrow> evr option" where
  "getRunningKernelPackageEVR_loop [] target = None"
| "getRunningKernelPackageEVR_loop (pkg # packages) target =
     (if pkg_Name pkg = target then Some (pkg_evr pkg) else getRunningKernelPackageEVR_loop packages target)"

definition getRunningKernelPackageEVR :: "Package list \<Rightarrow> string \<Rightarrow> evr option" where
  "getRunningKernelPackageEVR packages runningKernelNevra =
     getRunningKernelPackageEVR_loop packages (''linux-image-'' @ TrimSpace runningKernelNevra)"

section \<open>Properties\<close>

text \<open>C24: \<open>compareDebianVersionStrings\<close> is the order the Debian policy defines: versions are cut into
  alternating non-digit and digit pieces, the non-digit pieces compare character by character with
  the tilde before the end, letters before all other characters, and the digit pieces by value.\<close>

theorem compareDebianVersionStrings_spec:
  "compareDebianVersionStrings left right =
     cmp_pad ([], 0) piece_cmp (deb_pieces left) (deb_pieces right)"
  by (rule compareDebianVersionStrings_pieces)

text \<open>\<open>compareDebianEVR\<close> is a three-way comparison by a total preorder: it returns \<open>-1\<close>, \<open>0\<close> or
  \<open>1\<close>, swapping the arguments negates it, it is transitive, and versions that compare equal are
  interchangeable.\<close>

theorem compareDebianEVR_total_preorder:
  "compareDebianEVR x y \<in> {-1, 0, 1} \<and> compareDebianEVR y x = - compareDebianEVR x y \<and>
   (compareDebianEVR x y \<le> 0 \<and> compareDebianEVR y z \<le> 0 \<longrightarrow> compareDebianEVR x z \<le> 0) \<and>
   (compareDebianEVR x y = 0 \<longrightarrow> compareDebianEVR x z = compareDebianEVR y z)"
  using deb_evr_cmp.cmp_range [of x y] deb_evr_cmp.cmp_swap [of y x] deb_evr_cmp.cmp_trans [of x y z]
    deb_evr_cmp.cmp_cong_left [of x y z] by blast

theorem compareDebianEVR_total_preorder_witness:
  "compareDebianEVR \<lparr>evr_epoch = 0, evr_version = ''1.0~rc1'', evr_release = ''1''\<rparr>
     \<lparr>evr_epoch = 0, evr_version = ''1.0'', evr_release = ''1''\<rparr> \<le> 0 \<and>
   compareDebianEVR \<lparr>evr_epoch = 0, evr_version = ''1.0~rc1'', evr_release = ''1''\<rparr>
     \<lparr>evr_epoch = 0, evr_version = ''1.0'', evr_release = ''1ubuntu2''\<rparr> \<le> 0"
proof -
  let ?x = "\<lparr>evr_epoch = 0, evr_version = ''1.0~rc1'', evr_release = ''1''\<rparr>"
  let ?y = "\<lparr>evr_epoch = 0, evr_version = ''1.0'', evr_release = ''1''\<rparr>"
  let ?z = "\<lparr>evr_epoch = 0, evr_version = ''1.0'', evr_release = ''1ubuntu2''\<rparr>"
  have "compareDebianEVR ?x ?y \<le> 0" "compareDebianEVR ?y ?z \<le> 0" by code_simp+
  then show ?thesis using compareDebianEVR_total_preorder [of ?x ?y ?z] by blast
qed

lemma compareDebianNonDigit_tilde:
  "compareDebianNonDigit (xs @ CHR ''~'' # s) xs = -1"
  by (induction xs) (simp_all add: compareDebianChars_def)

text \<open>A pre-release marked with a tilde is older than the release itself: appending a tilde and any
  suffix to a version makes it strictly older.\<close>

theorem compareDebianVersionStrings_tilde:
  "compareDebianVersionStrings (v @ ''~'' @ s) v = -1"
proof (induction "length v" arbitrary: v rule: less_induct)
  case less
  have nt: "\<not> isDigit (CHR ''~'')" by (simp add: isDigit_def)
  show ?case
  proof (cases "v = [] \<or> list_all (\<lambda>c. \<not> isDigit c) v")
    case True
    then have all: "list_all (\<lambda>c. \<not> isDigit c) v" by auto
    have nd: "takeWhile (\<lambda>c. \<not> isDigit c) (v @ ''~'' @ s) =
        v @ CHR ''~'' # takeWhile (\<lambda>c. \<not> isDigit c) s"
      "takeWhile (\<lambda>c. \<not> isDigit c) v = v"
      using all nt by (simp_all add: takeWhile_append2 list_all_iff)
    have ne: "\<not> (v @ ''~'' @ s = [] \<and> v = [])" by simp
    show ?thesis
      unfolding compareDebianVersionStrings_step [OF ne] nd compareDebianNonDigit_tilde
      by (simp add: cmp_then_def)
  next
    case False
    let ?nd = "\<lambda>s. dropWhile (\<lambda>c. \<not> isDigit c) s"
    from False obtain c where c: "c \<in> set v" "isDigit c" by (auto simp: list_all_iff)
    then have nd: "takeWhile (\<lambda>c. \<not> isDigit c) (v @ CHR ''~'' # s) = takeWhile (\<lambda>c. \<not> isDigit c) v"
      "?nd (v @ CHR ''~'' # s) = ?nd v @ CHR ''~'' # s"
      by (auto intro: takeWhile_append1 dropWhile_append1)
    have dg: "takeWhile isDigit (w @ CHR ''~'' # s) = takeWhile isDigit w"
      "dropWhile isDigit (w @ CHR ''~'' # s) = dropWhile isDigit w @ CHR ''~'' # s" for w
      using nt by (induction w) simp_all
    have "compareDebianVersionStrings (v @ ''~'' @ s) v =
        compareDebianVersionStrings (dropWhile isDigit (?nd v) @ ''~'' @ s) (dropWhile isDigit (?nd v))"
      using compareDebianVersionStrings_step [of "v @ ''~'' @ s" v] by (simp add: nd dg cmp_then_def)
    also have "\<dots> = -1" using False by (intro less.hyps deb_rest_less) simp
    finally show ?thesis .
  qed
qed

text \<open>The five operators of a Debian version rule are consistent. For a target that parses, exactly
  one of \<open><\<close>, \<open>=\<close>, \<open>>\<close> holds of an installed version, \<open><=\<close> and \<open>>=\<close> are the disjunctions, and a
  version older than one that \<open>< t\<close> selects is selected too.\<close>

theorem evaluateDebianEVRRule_operators:
  assumes "list_all plain t" and "parseDebianEVR t = Inr target"
  shows "(\<exists>lt eq gt.
     evaluateDebianEVRRule i (''< '' @ t) = Inr lt \<and> evaluateDebianEVRRule i (''= '' @ t) = Inr eq \<and>
     evaluateDebianEVRRule i (''> '' @ t) = Inr gt \<and>
     evaluateDebianEVRRule i (''<= '' @ t) = Inr (lt \<or> eq) \<and>
     evaluateDebianEVRRule i (''>= '' @ t) = Inr (gt \<or> eq) \<and>
     (lt \<or> eq \<or> gt) \<and> \<not> (lt \<and> eq) \<and> \<not> (lt \<and> gt) \<and> \<not> (eq \<and> gt)) \<and>
   (evaluateDebianEVRRule j (''< '' @ t) = Inr True \<and> compareDebianEVR i j \<le> 0 \<longrightarrow>
     evaluateDebianEVRRule i (''< '' @ t) = Inr True)"
proof -
  have "t \<noteq> []" using assms(2) by (auto simp: parseDebianEVR_def parseDebianVersionParts_def)
  note hyps = assms(1) this assms(2)
  show ?thesis
    by (intro conjI impI deb_rules.operators_consistent [OF hyps])
       (elim conjE, rule deb_rules.less_rule_downward [OF hyps])
qed

theorem evaluateDebianEVRRule_operators_witness:
  "evaluateDebianEVRRule \<lparr>evr_epoch = 1, evr_version = ''2.36'', evr_release = ''9+deb12u3''\<rparr>
     ''< 1:2.36-9+deb12u4'' = Inr True \<and>
   evaluateDebianEVRRule \<lparr>evr_epoch = 1, evr_version = ''2.36~rc1'', evr_release = ''12''\<rparr>
     ''< 1:2.36-9+deb12u4'' = Inr True"
proof -
  let ?j = "\<lparr>evr_epoch = 1, evr_version = ''2.36'', evr_release = ''9+deb12u3''\<rparr>"
  let ?i = "\<lparr>evr_epoch = 1, evr_version = ''2.36~rc1'', evr_release = ''12''\<rparr>"
  let ?t = "\<lparr>evr_epoch = 1, evr_version = ''2.36'', evr_release = ''9+deb12u4''\<rparr>"
  have "list_all plain ''1:2.36-9+deb12u4''" "parseDebianEVR ''1:2.36-9+deb12u4'' = Inr ?t"
    "compareDebianEVR ?i ?j \<le> 0" "evaluateDebianEVRRule ?j ''< 1:2.36-9+deb12u4'' = Inr True"
    by code_simp+
  then show ?thesis using evaluateDebianEVRRule_operators [of "''1:2.36-9+deb12u4''" ?t ?i ?j] by simp
qed

text \<open>\<open>parseDebianEVR\<close> inverts the \<open>epoch:upstream-revision\<close> notation: for every 32-bit epoch, any
  non-empty upstream version (which may hold dashes and colons) and any revision without a dash,
  parsing the printed form gives back the three parts.\<close>

theorem parseDebianEVR_roundtrip:
  assumes "- (2 ^ 31) \<le> e" "e < 2 ^ 31"
    and "list_all plain v" "v \<noteq> []" "list_all plain r" "CHR ''-'' \<notin> set r"
  shows "parseDebianEVR (Itoa e @ '':'' @ v @ ''-'' @ r) =
     Inr \<lparr>evr_epoch = e, evr_version = v, evr_release = r\<rparr>"
proof -
  let ?s = "Itoa e @ '':'' @ v @ ''-'' @ r"
  have "list_all plain ?s" using assms Itoa_plain by (simp add: plain_def)
  then have trim: "TrimSpace ?s = ?s" by (intro TrimSpace_id trimmed_all_plain)
  have colon: "Index ?s '':'' = Some (length (Itoa e))"
    using Index_single_append [OF Itoa_no_colon] by simp
  have dash: "LastIndex (v @ ''-'' @ r) ''-'' = Some (length v)"
    using LastIndex_single_append [of "CHR ''-''" r v] assms(6) by simp
  have "TrimSpace (Itoa e) = Itoa e" by (intro TrimSpace_id trimmed_all_plain Itoa_plain)
  moreover have "Itoa e \<noteq> ''(none)''" using Itoa_chars [of "CHR ''(''" e] by (auto simp: IsDigit_def)
  moreover have "ParseInt 32 (Itoa e) = Some e" using assms(1,2) by (intro ParseInt_Itoa) simp_all
  ultimately have epoch: "parseDebianEpoch (Itoa e) = Inr e" by (simp add: parseDebianEpoch_def)
  have "parseDebianVersionParts ?s = Inr (e, v, r)"
    unfolding parseDebianVersionParts_def Let_def trim colon
    using epoch dash assms(4) by simp
  then show ?thesis by (simp add: parseDebianEVR_def)
qed

theorem parseDebianEVR_roundtrip_witness:
  "parseDebianEVR ''1:2.36-x:y-9+deb12u4'' = Inr \<lparr>evr_epoch = 1, evr_version = ''2.36-x:y'', evr_release = ''9+deb12u4''\<rparr>"
proof -
  have "Itoa 1 @ '':'' @ ''2.36-x:y'' @ ''-'' @ ''9+deb12u4'' = ''1:2.36-x:y-9+deb12u4''" by code_simp
  moreover have "list_all plain ''2.36-x:y''" "list_all plain ''9+deb12u4''" by code_simp+
  ultimately show ?thesis using parseDebianEVR_roundtrip [of 1 "''2.36-x:y''" "''9+deb12u4''"] by simp
qed

end
