(* ===== verification/Package_Keys.thy ===== *)
theory Package_Keys
  imports Data_Model
begin

text \<open>
  The part of \<open>internal/services/matchers/matcher.go\<close> that relates installed packages to advisory data:
  the indexes by advisory and by package key, the keys of a package, and the candidate packages of
  an advisory. A \<open>range\<close> over a Go map visits the keys in any order; the order is the parameter
  \<open>range_keys\<close>, which permutes the list of keys (\<open>range_ok\<close>).
\<close>

section \<open>Map iteration order\<close>

definition range_ok :: "('k list \<Rightarrow> 'k list) \<Rightarrow> bool" where
  "range_ok r \<longleftrightarrow> (\<forall>ks. distinct ks \<longrightarrow> distinct (r ks) \<and> set (r ks) = set ks)"

lemma range_ok_set: "range_ok r \<Longrightarrow> distinct ks \<Longrightarrow> set (r ks) = set ks"
  by (simp add: range_ok_def)

lemma range_ok_id: "range_ok (\<lambda>ks. ks)" and range_ok_rev: "range_ok rev"
  by (simp_all add: range_ok_def)

section \<open>Indexes\<close>

definition indexAdvisoryStreams :: "AdvisoryProductStream list \<Rightarrow> (string \<rightharpoonup> string list)" where
  "indexAdvisoryStreams links =
     fold (\<lambda>link grouped. group_add (aps_ProductStreamID link) (aps_AdvisoryID link) grouped) links Map.empty"

definition indexRulesByAdvisory :: "AffectedPackageRule list \<Rightarrow> (string \<rightharpoonup> AffectedPackageRule list)" where
  "indexRulesByAdvisory rules = group_all (\<lambda>rule. [rule_AdvisoryID rule]) rules"

definition indexFixesByAdvisory :: "FixedPackage list \<Rightarrow> (string \<rightharpoonup> FixedPackage list)" where
  "indexFixesByAdvisory fixes = group_all (\<lambda>fx. [fix_AdvisoryID fx]) fixes"

definition indexReferencesByAdvisory :: "AdvisoryReference list \<Rightarrow> (string \<rightharpoonup> AdvisoryReference list)" where
  "indexReferencesByAdvisory refs = group_all (\<lambda>ref. [ref_AdvisoryID ref]) refs"

definition streamIDs :: "ProductStream list \<Rightarrow> string list" where
  "streamIDs streams = map ps_ID streams"

definition streamIDSet :: "ProductStream list \<Rightarrow> string set" where
  "streamIDSet streams = fold (\<lambda>stream ids. insert (ps_ID stream) ids) streams {}"

fun any_resolved :: "string set \<Rightarrow> string list \<Rightarrow> bool" where
  "any_resolved resolvedStreamIDs [] = False"
| "any_resolved resolvedStreamIDs (streamID # ids) =
     (if streamID \<in> resolvedStreamIDs then True else any_resolved resolvedStreamIDs ids)"

definition appliesToResolvedStream :: "string \<Rightarrow> string set \<Rightarrow> (string \<rightharpoonup> string list) \<Rightarrow> bool" where
  "appliesToResolvedStream advisoryID resolvedStreamIDs advisoryStreams =
     any_resolved resolvedStreamIDs (slice_at advisoryStreams advisoryID)"

section \<open>Keys of a package\<close>

definition keysForPackageMatch :: "string \<Rightarrow> string \<Rightarrow> string list" where
  "keysForPackageMatch name source =
     dedup_by (\<lambda>key. key) {} (filter (\<lambda>key. key \<noteq> []) (map TrimSpace [name, source]))"

text \<open>The loop over a list of prefixes that stops at the first one the string starts with.\<close>

fun cut_first_prefix :: "string \<Rightarrow> string list \<Rightarrow> string option" where
  "cut_first_prefix s [] = None"
| "cut_first_prefix s (p # ps) = (case CutPrefix s p of Some after \<Rightarrow> Some after | None \<Rightarrow> cut_first_prefix s ps)"

definition source_prefixes :: "string list" where
  "source_prefixes = [''linux-image-'', ''linux-headers-'', ''linux-modules-'', ''linux-modules-extra-'',
     ''linux-tools-'']"

definition flavor_sources :: "(string \<times> string) list" where
  "flavor_sources =
    [(''generic'', ''linux''), (''amd64'', ''linux''), (''arm64'', ''linux''), (''armhf'', ''linux''),
     (''i386'', ''linux''), (''powerpc'', ''linux''), (''ppc64el'', ''linux''), (''s390x'', ''linux''),
     (''cloud-amd64'', ''linux''), (''cloud-arm64'', ''linux''), (''rt-amd64'', ''linux''),
     (''rt-arm64'', ''linux''), (''lowlatency'', ''linux-lowlatency''), (''aws'', ''linux-aws''),
     (''azure'', ''linux-azure''), (''gcp'', ''linux-gcp''), (''gke'', ''linux-gke''),
     (''kvm'', ''linux-kvm''), (''ibm'', ''linux-ibm''), (''oracle'', ''linux-oracle''),
     (''nvidia'', ''linux-nvidia''), (''raspi'', ''linux-raspi'')]"

definition derivedAPTSourceKeysFromBinary :: "string \<Rightarrow> string list" where
  "derivedAPTSourceKeysFromBinary name =
     (let trimmed = ToLower (TrimSpace name) in
      if trimmed = [] then []
      else if trimmed = ''linux-libc-dev'' \<or> trimmed = ''linux-tools-common'' then [''linux'']
      else
        let rest = (case cut_first_prefix trimmed source_prefixes of None \<Rightarrow> [] | Some after \<Rightarrow> after) in
        if rest = [] then []
        else
          let flavor =
                (case LastIndex rest ''-'' of
                   None \<Rightarrow> Some rest
                 | Some lastDash \<Rightarrow>
                     if lastDash = 0 \<or> lastDash = length rest - 1 then None
                     else Some (drop (lastDash + 1) rest))
          in case flavor of
               None \<Rightarrow> []
             | Some f \<Rightarrow> (case map_of flavor_sources f of None \<Rightarrow> [] | Some src \<Rightarrow> [src]))"

definition packageMatchKeys :: "Package \<Rightarrow> string list" where
  "packageMatchKeys pkg =
     fold (\<lambda>derived keys. if derived \<in> set keys then keys else keys @ [derived])
       (derivedAPTSourceKeysFromBinary (pkg_Name pkg))
       (keysForPackageMatch (pkg_Name pkg) (pkg_SourceRpm pkg))"

definition packageInstanceKey :: "Package \<Rightarrow> string" where
  "packageInstanceKey pkg =
     (let nevra = TrimSpace (pkg_Nevra pkg) in
      if nevra \<noteq> [] then nevra
      else TrimSpace (pkg_Name pkg) @ ''|'' @ TrimSpace (pkg_Version pkg) @ ''|'' @
           TrimSpace (pkg_Release pkg) @ ''|'' @ TrimSpace (pkg_Arch pkg))"

section \<open>Rules, fixes and candidates by key\<close>

definition indexPackagesByName :: "Package list \<Rightarrow> (string \<rightharpoonup> Package list)" where
  "indexPackagesByName packages = group_all packageMatchKeys packages"

definition filterRulesByPackage ::
  "AffectedPackageRule list \<Rightarrow> string set \<Rightarrow> (string \<rightharpoonup> AffectedPackageRule list)" where
  "filterRulesByPackage rules resolvedStreams =
     group_all (\<lambda>rule. keysForPackageMatch (rule_PackageName rule) (UnwrapOr (rule_SourceRpm rule) []))
       (filter (\<lambda>rule. rule_ProductStreamID rule \<in> resolvedStreams) rules)"

definition filterFixesByPackage ::
  "FixedPackage list \<Rightarrow> string set \<Rightarrow> (string \<rightharpoonup> FixedPackage list)" where
  "filterFixesByPackage fixes resolvedStreams =
     group_all (\<lambda>fx. keysForPackageMatch (fix_PackageName fx) (UnwrapOr (fix_SourceRpm fx) []))
       (filter (\<lambda>fx. fix_ProductStreamID fx \<in> resolvedStreams) fixes)"

text \<open>The keys of \<open>indexPackagesByName\<close> in the order of insertion.\<close>

definition package_names :: "Package list \<Rightarrow> string list" where
  "package_names packages = remdups (concat (map packageMatchKeys packages))"

definition candidatePackages ::
  "string list \<Rightarrow> (string \<rightharpoonup> Package list) \<Rightarrow> (string \<rightharpoonup> AffectedPackageRule list) \<Rightarrow>
   (string \<rightharpoonup> FixedPackage list) \<Rightarrow> Package list" where
  "candidatePackages range_names packagesByName rulesByPackage fixesByPackage =
     dedup_by packageInstanceKey {}
       (concat (map (\<lambda>packageName.
          if slice_at rulesByPackage packageName = [] \<and> slice_at fixesByPackage packageName = [] then []
          else slice_at packagesByName packageName) range_names))"

definition matchingRulesForPackageKeys ::
  "Package \<Rightarrow> (string \<rightharpoonup> AffectedPackageRule list) \<Rightarrow> AffectedPackageRule list" where
  "matchingRulesForPackageKeys pkg rulesByPackage =
     dedup_by rule_ID {} (concat (map (\<lambda>key. slice_at rulesByPackage key) (packageMatchKeys pkg)))"

definition matchingFixesForPackageKeys ::
  "Package \<Rightarrow> (string \<rightharpoonup> FixedPackage list) \<Rightarrow> FixedPackage list" where
  "matchingFixesForPackageKeys pkg fixesByPackage =
     dedup_by fix_ID {} (concat (map (\<lambda>key. slice_at fixesByPackage key) (packageMatchKeys pkg)))"

section \<open>Lemmas\<close>

lemma slice_at_indexAdvisoryStreams:
  "slice_at (indexAdvisoryStreams links) a = map aps_ProductStreamID (filter (\<lambda>l. aps_AdvisoryID l = a) links)"
proof -
  have "slice_at (fold (\<lambda>link grouped. group_add (aps_ProductStreamID link) (aps_AdvisoryID link) grouped) links m) a =
     slice_at m a @ map aps_ProductStreamID (filter (\<lambda>l. aps_AdvisoryID l = a) links)" for m
    by (induction links arbitrary: m) (auto simp: slice_at_group_add)
  then show ?thesis by (simp add: indexAdvisoryStreams_def)
qed

lemma any_resolved_iff: "any_resolved R ids \<longleftrightarrow> (\<exists>i \<in> set ids. i \<in> R)"
  by (induction ids) auto

lemma streamIDSet_eq: "streamIDSet streams = ps_ID ` set streams"
proof -
  have "fold (\<lambda>stream ids. insert (ps_ID stream) ids) streams S = S \<union> ps_ID ` set streams" for S
    by (induction streams arbitrary: S) auto
  then show ?thesis by (simp add: streamIDSet_def)
qed

lemma appliesToResolvedStream_iff:
  "appliesToResolvedStream a R (indexAdvisoryStreams links) \<longleftrightarrow>
     (\<exists>l \<in> set links. aps_AdvisoryID l = a \<and> aps_ProductStreamID l \<in> R)"
  by (auto simp: appliesToResolvedStream_def any_resolved_iff slice_at_indexAdvisoryStreams)

lemma keysForPackageMatch_set:
  "set (keysForPackageMatch n s) = {TrimSpace n, TrimSpace s} - {[]}"
  by (auto simp: keysForPackageMatch_def split: if_splits)

lemma keysForPackageMatch_distinct: "distinct (keysForPackageMatch n s)"
  using distinct_dedup_by [of "\<lambda>k. k"] by (simp add: keysForPackageMatch_def)

lemma append_missing_props:
  assumes "distinct ks"
  shows "distinct (fold (\<lambda>d ks. if d \<in> set ks then ks else ks @ [d]) ds ks) \<and>
    set (fold (\<lambda>d ks. if d \<in> set ks then ks else ks @ [d]) ds ks) = set ks \<union> set ds"
  using assms by (induction ds arbitrary: ks) auto

lemma packageMatchKeys_distinct: "distinct (packageMatchKeys p)"
  and set_packageMatchKeys:
    "set (packageMatchKeys p) = set (keysForPackageMatch (pkg_Name p) (pkg_SourceRpm p)) \<union>
       set (derivedAPTSourceKeysFromBinary (pkg_Name p))"
  using append_missing_props [OF keysForPackageMatch_distinct]
  by (simp_all add: packageMatchKeys_def)

lemma derived_keys_range: "set (derivedAPTSourceKeysFromBinary n) \<subseteq> set (map snd flavor_sources)"
proof -
  have "map_of flavor_sources f = Some src \<Longrightarrow> src \<in> set (map snd flavor_sources)" for f src
    by (force dest: map_of_SomeD simp: image_iff)
  moreover have "''linux'' \<in> set (map snd flavor_sources)" by (simp add: flavor_sources_def)
  ultimately show ?thesis
    by (auto simp: derivedAPTSourceKeysFromBinary_def Let_def split: option.splits if_splits)
qed

lemma distinct_package_names: "distinct (package_names ps)"
  and set_package_names: "set (package_names ps) = dom (indexPackagesByName ps)"
  by (simp_all add: package_names_def indexPackagesByName_def dom_group_all)

lemma set_indexPackagesByName: "set (slice_at (indexPackagesByName ps) k) = {p \<in> set ps. k \<in> set (packageMatchKeys p)}"
  by (simp add: indexPackagesByName_def set_slice_at_group_all)

lemma set_filterRulesByPackage:
  "set (slice_at (filterRulesByPackage rules R) k) =
     {r \<in> set rules. rule_ProductStreamID r \<in> R \<and>
        k \<in> set (keysForPackageMatch (rule_PackageName r) (UnwrapOr (rule_SourceRpm r) []))}"
  by (auto simp: filterRulesByPackage_def set_slice_at_group_all)

lemma set_filterFixesByPackage:
  "set (slice_at (filterFixesByPackage fixes R) k) =
     {f \<in> set fixes. fix_ProductStreamID f \<in> R \<and>
        k \<in> set (keysForPackageMatch (fix_PackageName f) (UnwrapOr (fix_SourceRpm f) []))}"
  by (auto simp: filterFixesByPackage_def set_slice_at_group_all)

text \<open>A rule or fix concerns a package when a resolved stream carries it under one of the package's keys.\<close>

definition rule_concerns :: "string set \<Rightarrow> Package \<Rightarrow> AffectedPackageRule \<Rightarrow> bool" where
  "rule_concerns R p r \<longleftrightarrow> rule_ProductStreamID r \<in> R \<and>
     (\<exists>k \<in> set (packageMatchKeys p). k \<in> set (keysForPackageMatch (rule_PackageName r) (UnwrapOr (rule_SourceRpm r) [])))"

definition fix_concerns :: "string set \<Rightarrow> Package \<Rightarrow> FixedPackage \<Rightarrow> bool" where
  "fix_concerns R p f \<longleftrightarrow> fix_ProductStreamID f \<in> R \<and>
     (\<exists>k \<in> set (packageMatchKeys p). k \<in> set (keysForPackageMatch (fix_PackageName f) (UnwrapOr (fix_SourceRpm f) [])))"

lemma set_rules_over_keys:
  "set (concat (map (\<lambda>key. slice_at (filterRulesByPackage rules R) key) (packageMatchKeys p))) =
     {r \<in> set rules. rule_concerns R p r}"
  by (auto simp: set_filterRulesByPackage rule_concerns_def)

lemma set_fixes_over_keys:
  "set (concat (map (\<lambda>key. slice_at (filterFixesByPackage fixes R) key) (packageMatchKeys p))) =
     {f \<in> set fixes. fix_concerns R p f}"
  by (auto simp: set_filterFixesByPackage fix_concerns_def)

lemma candidate_pool:
  assumes "range_ok r"
  shows "set (concat (map (\<lambda>packageName.
          if slice_at (filterRulesByPackage rules R) packageName = [] \<and>
             slice_at (filterFixesByPackage fixes R) packageName = [] then []
          else slice_at (indexPackagesByName ps) packageName) (r (package_names ps)))) =
     {p \<in> set ps. (\<exists>rl \<in> set rules. rule_concerns R p rl) \<or> (\<exists>f \<in> set fixes. fix_concerns R p f)}"
    (is "?L = ?R")
proof -
  have names: "set (r (package_names ps)) = (\<Union>p \<in> set ps. set (packageMatchKeys p))"
    using range_ok_set [OF assms distinct_package_names]
    by (simp add: set_package_names indexPackagesByName_def dom_group_all)
  have ne: "slice_at m k = [] \<longleftrightarrow> set (slice_at m k) = {}" for m :: "string \<rightharpoonup> 'a list" and k by simp
  have "p \<in> ?L \<longleftrightarrow> p \<in> set ps \<and> (\<exists>k \<in> set (packageMatchKeys p).
      set (slice_at (filterRulesByPackage rules R) k) \<noteq> {} \<or> set (slice_at (filterFixesByPackage fixes R) k) \<noteq> {})" for p
    by (auto simp: names set_indexPackagesByName)
  then show ?thesis
    unfolding set_filterRulesByPackage set_filterFixesByPackage rule_concerns_def fix_concerns_def by blast
qed

section \<open>Properties\<close>

text \<open>Whatever order Go visits the package index in, the candidates of an advisory are the installed
  packages that a rule or a fix of a resolved stream concerns, exactly one for each package instance.\<close>

theorem candidatePackages_spec:
  assumes "range_ok r"
  shows "let C = candidatePackages (r (package_names ps)) (indexPackagesByName ps)
                   (filterRulesByPackage rules R) (filterFixesByPackage fixes R);
             P = {p \<in> set ps. (\<exists>rl \<in> set rules. rule_concerns R p rl) \<or> (\<exists>f \<in> set fixes. fix_concerns R p f)}
         in set C \<subseteq> P \<and> distinct (map packageInstanceKey C) \<and>
            packageInstanceKey ` set C = packageInstanceKey ` P"
  unfolding Let_def candidatePackages_def candidate_pool [OF assms(1), symmetric]
  by (intro conjI set_dedup_by_subset distinct_dedup_by keys_dedup_by)

theorem candidatePackages_spec_witness:
  "let p = zero_Package\<lparr>pkg_Name := ''linux-image-6.1.0-13-amd64'', pkg_Nevra := ''linux-image-6.1.0-13-amd64-6.1.55-1.amd64''\<rparr>;
       q = zero_Package\<lparr>pkg_Name := ''bash'', pkg_Nevra := ''bash-5.2-1.amd64''\<rparr>;
       rl = zero_AffectedPackageRule\<lparr>rule_ID := ''r1'', rule_ProductStreamID := ''s1'', rule_PackageName := ''linux''\<rparr>
   in set (candidatePackages (rev (package_names [p, q])) (indexPackagesByName [p, q])
        (filterRulesByPackage [rl] {''s1''}) (filterFixesByPackage [] {''s1''})) = {p}"
proof -
  let ?p = "zero_Package\<lparr>pkg_Name := ''linux-image-6.1.0-13-amd64'', pkg_Nevra := ''linux-image-6.1.0-13-amd64-6.1.55-1.amd64''\<rparr>"
  let ?q = "zero_Package\<lparr>pkg_Name := ''bash'', pkg_Nevra := ''bash-5.2-1.amd64''\<rparr>"
  let ?rl = "zero_AffectedPackageRule\<lparr>rule_ID := ''r1'', rule_ProductStreamID := ''s1'', rule_PackageName := ''linux''\<rparr>"
  let ?C = "candidatePackages (rev (package_names [?p, ?q])) (indexPackagesByName [?p, ?q])
        (filterRulesByPackage [?rl] {''s1''}) (filterFixesByPackage [] {''s1''})"
  have "rule_concerns {''s1''} ?p ?rl" "\<not> rule_concerns {''s1''} ?q ?rl" by code_simp+
  then have "{p \<in> set [?p, ?q]. (\<exists>rl \<in> set [?rl]. rule_concerns {''s1''} p rl) \<or> (\<exists>f \<in> set []. fix_concerns {''s1''} p f)} = {?p}"
    by auto
  with candidatePackages_spec [OF range_ok_rev, of "[?p, ?q]" "[?rl]" "{''s1''}" "[]"]
  have "set ?C \<subseteq> {?p}" "packageInstanceKey ` set ?C = packageInstanceKey ` {?p}"
    unfolding Let_def by simp_all
  then show ?thesis unfolding Let_def by auto
qed

text \<open>The rules and fixes looked up for a package are complete and free of duplicates: they are the
  rules and fixes of the advisory that concern the package, one for each ID.\<close>

theorem matchingForPackageKeys_spec:
  "let L = matchingRulesForPackageKeys p (filterRulesByPackage rules R);
       F = matchingFixesForPackageKeys p (filterFixesByPackage fixes R)
   in set L \<subseteq> {r \<in> set rules. rule_concerns R p r} \<and> distinct (map rule_ID L) \<and>
      rule_ID ` set L = rule_ID ` {r \<in> set rules. rule_concerns R p r} \<and>
      set F \<subseteq> {f \<in> set fixes. fix_concerns R p f} \<and> distinct (map fix_ID F) \<and>
      fix_ID ` set F = fix_ID ` {f \<in> set fixes. fix_concerns R p f}"
  unfolding Let_def matchingRulesForPackageKeys_def matchingFixesForPackageKeys_def
    set_rules_over_keys [symmetric] set_fixes_over_keys [symmetric]
  by (intro conjI set_dedup_by_subset distinct_dedup_by keys_dedup_by)

end
