(* ===== verification/Kernel_Packages.thy ===== *)
theory Kernel_Packages
  imports Debian_Version Package_Keys
begin

text \<open>
  The kernel rules of \<open>internal/services/matchers/matcher.go\<close>: which packages belong to the kernel,
  the newest installed kernel, which of several installed kernels an advisory is evaluated for, and
  whether the running kernel already has a fix.
\<close>

section \<open>Comparison by package family\<close>

text \<open>The choice \<^verbatim>\<open>if osFamily == "apt" { compareDebianEVR } else { compareEVR }\<close> the matcher repeats.\<close>

definition family_compare :: "string \<Rightarrow> evr \<Rightarrow> evr \<Rightarrow> int" where
  "family_compare osFamily l r = (if osFamily = ''apt'' then compareDebianEVR l r else compareEVR l r)"

lemma family_compare_contract: "go_compare (family_compare os)"
proof (cases "os = ''apt''")
  case True
  then have "family_compare os = compareDebianEVR" by (intro ext) (simp add: family_compare_def)
  then show ?thesis using compareDebianEVR_contract by simp
next
  case False
  then have "family_compare os = compareEVR" by (intro ext) (simp add: family_compare_def)
  then show ?thesis using compareEVR_contract by simp
qed

interpretation family_cmp: go_compare "family_compare os" for os
  by (rule family_compare_contract)

section \<open>Kernel packages\<close>

definition kernel_prefixes :: "string list" where
  "kernel_prefixes = [''linux-image-unsigned-'', ''linux-image-'', ''linux-modules-extra-'',
     ''linux-modules-'', ''linux-headers-'', ''linux-tools-'', ''linux-cloud-tools-'', ''linux-buildinfo-'']"

fun has_any_prefix :: "string \<Rightarrow> string list \<Rightarrow> bool" where
  "has_any_prefix name [] = False"
| "has_any_prefix name (p # ps) = (if HasPrefix name p then True else has_any_prefix name ps)"

definition isKernelPackageAPT :: "string \<Rightarrow> bool" where
  "isKernelPackageAPT name = has_any_prefix name kernel_prefixes"

definition trimKernelPackagePrefixAPT :: "string \<Rightarrow> string \<times> bool" where
  "trimKernelPackagePrefixAPT name =
     (case cut_first_prefix name kernel_prefixes of
        Some after \<Rightarrow> (after, True)
      | None \<Rightarrow> (name, False))"

definition isKernelPackage :: "string \<Rightarrow> string \<Rightarrow> bool" where
  "isKernelPackage name osFamily =
     (if osFamily = ''apt'' then isKernelPackageAPT name
      else name = ''kernel'' \<or> HasPrefix name ''kernel-'')"

definition isVersionedKernelPackageAPT :: "string \<Rightarrow> bool" where
  "isVersionedKernelPackageAPT name =
     (let (trimmed, ok) = trimKernelPackagePrefixAPT name in
      if \<not> ok then False
      else (case trimmed of [] \<Rightarrow> False | c # _ \<Rightarrow> isDigit c))"

text \<open>The flavor of a kernel package name: what follows the last dash.\<close>

definition kernel_flavor :: "string \<Rightarrow> string" where
  "kernel_flavor name =
     (case LastIndex name ''-'' of None \<Rightarrow> ''generic'' | Some idx \<Rightarrow> drop (idx + 1) name)"

text \<open>The variables \<open>maxEVR\<close> and \<open>found\<close> of the two searches are an optional version.\<close>

fun latest_loop_apt :: "evr option \<Rightarrow> Package list \<Rightarrow> string \<Rightarrow> evr option" where
  "latest_loop_apt best [] flavor = best"
| "latest_loop_apt best (p # ps) flavor =
     (if isVersionedKernelPackageAPT (pkg_Name p) \<and> kernel_flavor (pkg_Name p) = flavor
      then latest_loop_apt
             (case best of
                None \<Rightarrow> Some (pkg_evr p)
              | Some maxEVR \<Rightarrow> if compareDebianEVR (pkg_evr p) maxEVR > 0 then Some (pkg_evr p) else best)
             ps flavor
      else latest_loop_apt best ps flavor)"

definition latestInstalledKernelEVRAPT :: "Package list \<Rightarrow> string \<Rightarrow> evr option" where
  "latestInstalledKernelEVRAPT packages flavor = latest_loop_apt None packages flavor"

fun latest_loop_rpm :: "evr option \<Rightarrow> Package list \<Rightarrow> string \<Rightarrow> evr option" where
  "latest_loop_rpm best [] packageName = best"
| "latest_loop_rpm best (p # ps) packageName =
     (if pkg_Name p = packageName
      then latest_loop_rpm
             (case best of
                None \<Rightarrow> Some (pkg_evr p)
              | Some maxEVR \<Rightarrow> if compareEVR (pkg_evr p) maxEVR > 0 then Some (pkg_evr p) else best)
             ps packageName
      else latest_loop_rpm best ps packageName)"

definition latestInstalledKernelEVRRPM :: "Package list \<Rightarrow> string \<Rightarrow> evr option" where
  "latestInstalledKernelEVRRPM packages packageName = latest_loop_rpm None packages packageName"

definition isRelevantKernelPackage :: "Package \<Rightarrow> string \<Rightarrow> HostSnapshot \<Rightarrow> Package list \<Rightarrow> bool" where
  "isRelevantKernelPackage pkg osFamily snapshot packages =
     (if \<not> isKernelPackage (pkg_Name pkg) osFamily then True
      else if osFamily = ''apt'' then
        (let runningAbi = TrimSpace (snap_RunningKernelNevra snapshot) in
         if runningAbi \<noteq> [] \<and> Contains (pkg_Name pkg) runningAbi then True
         else if isVersionedKernelPackageAPT (pkg_Name pkg) then
           (case latestInstalledKernelEVRAPT packages (kernel_flavor (pkg_Name pkg)) of
              Some latest \<Rightarrow> compareDebianEVR (pkg_evr pkg) latest \<ge> 0
            | None \<Rightarrow> False)
         else True)
      else if snap_RunningKernelNevra snapshot \<noteq> [] \<and>
              (case parseRunningKernelEVR (snap_RunningKernelNevra snapshot) of
                 Inr runningKernel \<Rightarrow> compareEVR (pkg_evr pkg) runningKernel = 0
               | Inl _ \<Rightarrow> False)
      then True
      else (case latestInstalledKernelEVRRPM packages (pkg_Name pkg) of
              Some latest \<Rightarrow> compareEVR (pkg_evr pkg) latest \<ge> 0
            | None \<Rightarrow> False))"

definition starts_with_digit :: "string \<Rightarrow> bool" where
  "starts_with_digit s = (case s of [] \<Rightarrow> False | c # _ \<Rightarrow> isDigit c)"

definition kernelRunningSatisfiesFixedBuild ::
  "HostSnapshot \<Rightarrow> Package list \<Rightarrow> string \<Rightarrow> evr \<Rightarrow> string \<Rightarrow> bool" where
  "kernelRunningSatisfiesFixedBuild snapshot packages packageName fixed osFamily =
     (if \<not> isKernelPackage packageName osFamily then False
      else if osFamily = ''apt'' then
        (let runningAbi = TrimSpace (snap_RunningKernelNevra snapshot);
             fixedAbi = fst (trimKernelPackagePrefixAPT packageName);
             by_version =
               (case getRunningKernelPackageEVR packages runningAbi of
                  Some runningKernel \<Rightarrow> compareDebianEVR runningKernel fixed \<ge> 0
                | None \<Rightarrow>
                    (case parseRunningKernelDebianEVR runningAbi of
                       Inl _ \<Rightarrow> False
                     | Inr runningKernelDebian \<Rightarrow> compareDebianEVR runningKernelDebian fixed \<ge> 0))
         in if starts_with_digit fixedAbi \<and> starts_with_digit runningAbi
            then (case (parseRunningKernelDebianEVR runningAbi, parseRunningKernelDebianEVR fixedAbi) of
                    (Inr runningAbiEVR, Inr fixedAbiEVR) \<Rightarrow>
                      (let abiCompared = compareDebianEVR runningAbiEVR fixedAbiEVR in
                       if abiCompared \<noteq> 0 then abiCompared > 0
                       else (case getRunningKernelPackageEVR packages runningAbi of
                               Some runningKernel \<Rightarrow> compareDebianEVR runningKernel fixed \<ge> 0
                             | None \<Rightarrow> False))
                  | _ \<Rightarrow> by_version)
            else by_version)
      else (case parseRunningKernelEVR (snap_RunningKernelNevra snapshot) of
              Inl _ \<Rightarrow> False
            | Inr runningKernel \<Rightarrow> compareEVR runningKernel fixed \<ge> 0))"

section \<open>Lemmas\<close>

text \<open>Both searches are the generic maximum search over the selected packages.\<close>

lemma latest_loop_apt_best_of:
  "latest_loop_apt best ps flavor =
     (case (best, map pkg_evr (filter (\<lambda>p. isVersionedKernelPackageAPT (pkg_Name p) \<and> kernel_flavor (pkg_Name p) = flavor) ps)) of
        (None, []) \<Rightarrow> None
      | (None, x # xs) \<Rightarrow> Some (best_of compareDebianEVR x xs)
      | (Some b, xs) \<Rightarrow> Some (best_of compareDebianEVR b xs))"
  by (induction ps arbitrary: best) (auto split: option.split)

lemma latest_loop_rpm_best_of:
  "latest_loop_rpm best ps name =
     (case (best, map pkg_evr (filter (\<lambda>p. pkg_Name p = name) ps)) of
        (None, []) \<Rightarrow> None
      | (None, x # xs) \<Rightarrow> Some (best_of compareEVR x xs)
      | (Some b, xs) \<Rightarrow> Some (best_of compareEVR b xs))"
  by (induction ps arbitrary: best) (auto split: option.split)

context go_compare
begin

lemma best_of_list_max:
  assumes "(case xs of [] \<Rightarrow> None | x # ys \<Rightarrow> Some (best_of cmp x ys)) = Some m"
  shows "m \<in> set xs \<and> (\<forall>y \<in> set xs. cmp m y \<ge> 0)"
proof (cases xs)
  case Nil
  with assms show ?thesis by simp
next
  case (Cons x ys)
  with assms have m: "m = best_of cmp x ys" by simp
  have "cmp m y \<ge> 0" if "y \<in> set xs" for y
    using best_of_max [of y x ys] cmp_swap [of m y] that Cons m by simp
  then show ?thesis using best_of_in [of x ys] Cons m by blast
qed

end

definition kernel_pool :: "string \<Rightarrow> Package list \<Rightarrow> Package list" where
  "kernel_pool flavor ps =
     filter (\<lambda>p. isVersionedKernelPackageAPT (pkg_Name p) \<and> kernel_flavor (pkg_Name p) = flavor) ps"

lemma latest_apt_max:
  assumes "latestInstalledKernelEVRAPT ps flavor = Some m"
  shows "m \<in> pkg_evr ` set (kernel_pool flavor ps)
    \<and> (\<forall>p \<in> set (kernel_pool flavor ps). compareDebianEVR m (pkg_evr p) \<ge> 0)"
proof -
  have "(case map pkg_evr (kernel_pool flavor ps) of [] \<Rightarrow> None
      | x # ys \<Rightarrow> Some (best_of compareDebianEVR x ys)) = Some m"
    using assms by (simp add: latestInstalledKernelEVRAPT_def latest_loop_apt_best_of kernel_pool_def)
  from deb_evr_cmp.best_of_list_max [OF this] show ?thesis by auto
qed

lemma latest_rpm_max:
  assumes "latestInstalledKernelEVRRPM ps name = Some m"
  shows "m \<in> pkg_evr ` {p \<in> set ps. pkg_Name p = name}
    \<and> (\<forall>p \<in> {p \<in> set ps. pkg_Name p = name}. compareEVR m (pkg_evr p) \<ge> 0)"
proof -
  have "(case map pkg_evr (filter (\<lambda>p. pkg_Name p = name) ps) of [] \<Rightarrow> None
      | x # ys \<Rightarrow> Some (best_of compareEVR x ys)) = Some m"
    using assms by (simp add: latestInstalledKernelEVRRPM_def latest_loop_rpm_best_of)
  from evr_cmp.best_of_list_max [OF this] show ?thesis by auto
qed

lemma latest_apt_None: "latestInstalledKernelEVRAPT ps flavor = None \<longleftrightarrow> kernel_pool flavor ps = []"
  by (auto simp: latestInstalledKernelEVRAPT_def latest_loop_apt_best_of kernel_pool_def split: list.split)

lemma latest_rpm_None: "latestInstalledKernelEVRRPM ps name = None \<longleftrightarrow> (\<forall>p \<in> set ps. pkg_Name p \<noteq> name)"
proof -
  have "latestInstalledKernelEVRRPM ps name = None \<longleftrightarrow> filter (\<lambda>p. pkg_Name p = name) ps = []"
    by (auto simp: latestInstalledKernelEVRRPM_def latest_loop_rpm_best_of split: list.split)
  then show ?thesis by (simp add: filter_empty_conv)
qed

text \<open>Being at least the maximum of a pool is being at least every member of it.\<close>

context go_compare
begin

lemma ge_max_iff:
  assumes "m \<in> f ` S" "\<forall>p \<in> S. cmp m (f p) \<ge> 0"
  shows "cmp x m \<ge> 0 \<longleftrightarrow> (\<forall>p \<in> S. cmp x (f p) \<ge> 0)"
proof
  assume x: "cmp x m \<ge> 0"
  show "\<forall>p \<in> S. cmp x (f p) \<ge> 0"
  proof
    fix p assume "p \<in> S"
    with assms(2) have "cmp (f p) m \<le> 0" using cmp_swap [of "f p" m] by simp
    moreover have "cmp m x \<le> 0" using x cmp_swap [of x m] by simp
    ultimately have "cmp (f p) x \<le> 0" by (rule cmp_trans)
    then show "cmp x (f p) \<ge> 0" using cmp_swap [of "f p" x] by simp
  qed
next
  assume "\<forall>p \<in> S. cmp x (f p) \<ge> 0"
  with assms(1) show "cmp x m \<ge> 0" by auto
qed

lemma ge_older:
  assumes "cmp b' b \<le> 0" "cmp x b \<ge> 0"
  shows "cmp x b' \<ge> 0"
proof -
  have "cmp b x \<le> 0" using assms(2) cmp_swap [of x b] by simp
  with assms(1) have "cmp b' x \<le> 0" by (rule cmp_trans)
  then show ?thesis using cmp_swap [of b' x] by simp
qed

end

section \<open>Properties\<close>

text \<open>Of several installed kernels an advisory is evaluated for exactly the running one and the newest
  ones. An installed RPM kernel package is relevant if and only if it has the running kernel's version
  or no package of its name is newer; a versioned Debian kernel package if and only if its name holds
  the running kernel's release or no versioned kernel package of its flavor is newer.\<close>

theorem isRelevantKernelPackage_iff:
  assumes "p \<in> set packages" "isKernelPackage (pkg_Name p) os" "os = ''apt'' \<Longrightarrow> isVersionedKernelPackageAPT (pkg_Name p)"
  shows "isRelevantKernelPackage p os snapshot packages \<longleftrightarrow>
    (if os = ''apt''
     then TrimSpace (snap_RunningKernelNevra snapshot) \<noteq> [] \<and>
            Contains (pkg_Name p) (TrimSpace (snap_RunningKernelNevra snapshot)) \<or>
          (\<forall>q \<in> set packages. isVersionedKernelPackageAPT (pkg_Name q) \<and>
             kernel_flavor (pkg_Name q) = kernel_flavor (pkg_Name p) \<longrightarrow> compareDebianEVR (pkg_evr p) (pkg_evr q) \<ge> 0)
     else snap_RunningKernelNevra snapshot \<noteq> [] \<and>
            (\<exists>e. parseRunningKernelEVR (snap_RunningKernelNevra snapshot) = Inr e \<and> compareEVR (pkg_evr p) e = 0) \<or>
          (\<forall>q \<in> set packages. pkg_Name q = pkg_Name p \<longrightarrow> compareEVR (pkg_evr p) (pkg_evr q) \<ge> 0))"
proof (cases "os = ''apt''")
  case True
  let ?S = "set (kernel_pool (kernel_flavor (pkg_Name p)) packages)"
  have "p \<in> ?S" using assms True by (simp add: kernel_pool_def)
  then obtain m where m: "latestInstalledKernelEVRAPT packages (kernel_flavor (pkg_Name p)) = Some m"
    using latest_apt_None [of packages "kernel_flavor (pkg_Name p)"] by (cases "latestInstalledKernelEVRAPT packages (kernel_flavor (pkg_Name p))") auto
  from latest_apt_max [OF m] have "compareDebianEVR (pkg_evr p) m \<ge> 0 \<longleftrightarrow> (\<forall>q \<in> ?S. compareDebianEVR (pkg_evr p) (pkg_evr q) \<ge> 0)"
    by (intro deb_evr_cmp.ge_max_iff) auto
  then show ?thesis
    using assms(2,3) True m by (auto simp: isRelevantKernelPackage_def Let_def kernel_pool_def)
next
  case False
  let ?S = "{q \<in> set packages. pkg_Name q = pkg_Name p}"
  obtain m where m: "latestInstalledKernelEVRRPM packages (pkg_Name p) = Some m"
    using latest_rpm_None [of packages "pkg_Name p"] assms(1) by (cases "latestInstalledKernelEVRRPM packages (pkg_Name p)") auto
  from latest_rpm_max [OF m] have "compareEVR (pkg_evr p) m \<ge> 0 \<longleftrightarrow> (\<forall>q \<in> ?S. compareEVR (pkg_evr p) (pkg_evr q) \<ge> 0)"
    by (intro evr_cmp.ge_max_iff) auto
  then show ?thesis
    using assms(2) False m by (auto simp: isRelevantKernelPackage_def split: sum.splits)
qed

theorem isRelevantKernelPackage_iff_witness:
  "let k1 = zero_Package\<lparr>pkg_Name := ''kernel'', pkg_Version := ''5.14.0'', pkg_Release := ''70.el9''\<rparr>;
       k2 = zero_Package\<lparr>pkg_Name := ''kernel'', pkg_Version := ''5.14.0'', pkg_Release := ''284.el9''\<rparr>;
       snapshot = zero_HostSnapshot\<lparr>snap_RunningKernelNevra := ''kernel-5.14.0-284.el9.x86_64''\<rparr>
   in \<not> isRelevantKernelPackage k1 ''rpm'' snapshot [k1, k2]"
proof -
  let ?k1 = "zero_Package\<lparr>pkg_Name := ''kernel'', pkg_Version := ''5.14.0'', pkg_Release := ''70.el9''\<rparr>"
  let ?k2 = "zero_Package\<lparr>pkg_Name := ''kernel'', pkg_Version := ''5.14.0'', pkg_Release := ''284.el9''\<rparr>"
  let ?s = "zero_HostSnapshot\<lparr>snap_RunningKernelNevra := ''kernel-5.14.0-284.el9.x86_64''\<rparr>"
  let ?e = "\<lparr>evr_epoch = 0, evr_version = ''5.14.0'', evr_release = ''284.el9''\<rparr>"
  have "isKernelPackage (pkg_Name ?k1) ''rpm''" by code_simp
  moreover have "parseRunningKernelEVR (snap_RunningKernelNevra ?s) = Inr ?e" by code_simp
  moreover have "compareEVR (pkg_evr ?k1) ?e \<noteq> 0" by code_simp
  moreover have "\<not> compareEVR (pkg_evr ?k1) (pkg_evr ?k2) \<ge> 0" by code_simp
  ultimately show ?thesis
    using isRelevantKernelPackage_iff [of ?k1 "[?k1, ?k2]" "''rpm''" ?s] unfolding Let_def by simp
qed

text \<open>The check of the running kernel is monotone in the fix: a running kernel that has a fixed build
  has every older fixed build of the same package too, for both package families.\<close>

theorem kernelRunningSatisfiesFixedBuild_antimono:
  assumes "kernelRunningSatisfiesFixedBuild snapshot packages name fixed os"
    and "family_compare os older fixed \<le> 0"
  shows "kernelRunningSatisfiesFixedBuild snapshot packages name older os"
proof (cases "os = ''apt''")
  case True
  then have "compareDebianEVR older fixed \<le> 0" using assms(2) by (simp add: family_compare_def)
  note step = deb_evr_cmp.ge_older [OF this]
  show ?thesis
    using assms(1) True step
    by (auto simp: kernelRunningSatisfiesFixedBuild_def Let_def split: if_splits sum.splits option.splits)
next
  case False
  then have "compareEVR older fixed \<le> 0" using assms(2) by (simp add: family_compare_def)
  note step = evr_cmp.ge_older [OF this]
  show ?thesis
    using assms(1) False step
    by (auto simp: kernelRunningSatisfiesFixedBuild_def split: if_splits sum.splits)
qed

theorem kernelRunningSatisfiesFixedBuild_antimono_witness:
  "kernelRunningSatisfiesFixedBuild (zero_HostSnapshot\<lparr>snap_RunningKernelNevra := ''kernel-5.14.0-284.el9.x86_64''\<rparr>) []
     ''kernel-core'' \<lparr>evr_epoch = 0, evr_version = ''5.14.0'', evr_release = ''70.el9''\<rparr> ''rpm''"
proof -
  let ?s = "zero_HostSnapshot\<lparr>snap_RunningKernelNevra := ''kernel-5.14.0-284.el9.x86_64''\<rparr>"
  let ?f = "\<lparr>evr_epoch = 0, evr_version = ''5.14.0'', evr_release = ''162.el9''\<rparr>"
  let ?o = "\<lparr>evr_epoch = 0, evr_version = ''5.14.0'', evr_release = ''70.el9''\<rparr>"
  have "kernelRunningSatisfiesFixedBuild ?s [] ''kernel-core'' ?f ''rpm''" "family_compare ''rpm'' ?o ?f \<le> 0"
    by code_simp+
  then show ?thesis by (rule kernelRunningSatisfiesFixedBuild_antimono)
qed

end
