(* ===== verification/Decisions.thy ===== *)
theory Decisions
  imports Kernel_Packages
begin

text \<open>
  Decision records in \<open>internal/services/matchers/matcher.go\<close>: severities, evidence tiers, the choice
  of the best fixed package, the preference between two decisions for the same installed package, the
  collapse of superseded decisions and the summary of a host's state.
\<close>

section \<open>Data\<close>

record decision =
  d_record :: InsertDecisionRecordParams
  d_severity :: string

record decisionKey =
  key_installedPackageID :: string
  key_packageName :: string
  key_installedNevra :: string

datatype match_error =
    NoFixedPackage
  | SelectBestFixFailed string match_error
  | EvaluateRuleFailed string string evr_error

text \<open>\<open>id.New("dec")\<close> is the parameter \<open>newID\<close>.\<close>

definition newDecisionRecord ::
  "string \<Rightarrow> string \<Rightarrow> string \<Rightarrow> Advisory \<Rightarrow> Package \<Rightarrow> string option \<Rightarrow> string \<Rightarrow> string \<Rightarrow> string \<Rightarrow> string \<Rightarrow>
   string \<Rightarrow> string \<Rightarrow> string \<Rightarrow> InsertDecisionRecordParams" where
  "newDecisionRecord newID hostID snapshotID advisory pkg productStreamID status action severity
     evidenceTier reasonCode reasonText computedAt =
     \<lparr>dec_ID = newID, dec_HostID = hostID, dec_SnapshotID = snapshotID, dec_AdvisoryID = adv_ID advisory,
      dec_InstalledPackageID = None, dec_ProductStreamID = productStreamID,
      dec_PackageName = pkg_Name pkg, dec_InstalledNevra = Some (pkg_Nevra pkg), dec_FixedNevra = None,
      dec_Status = status, dec_Action = action, dec_Severity = Some severity,
      dec_EvidenceTier = evidenceTier, dec_ReasonCode = reasonCode, dec_ReasonText = Some reasonText,
      dec_ComputedAt = computedAt\<rparr>"

section \<open>Severity and evidence\<close>

definition normalizeSeverity :: "string \<Rightarrow> string" where
  "normalizeSeverity severity =
     (let normalized = ToLower (TrimSpace severity) in
      if normalized = ''high'' then ''important''
      else if normalized = ''medium'' then ''moderate''
      else normalized)"

definition severityPriority :: "string \<Rightarrow> int" where
  "severityPriority severity =
     (let s = normalizeSeverity severity in
      if s = ''critical'' then 4
      else if s = ''important'' then 3
      else if s = ''moderate'' then 2
      else if s = ''low'' then 1
      else 0)"

fun highest_severity :: "string \<Rightarrow> int \<Rightarrow> AdvisoryReference list \<Rightarrow> string" where
  "highest_severity highest highestPriority [] = highest"
| "highest_severity highest highestPriority (ref # refs) =
     (if \<not> IsNoneOrDefault (map_option TrimSpace (ref_SeverityVendor ref))
      then let sv = ToLower (TrimSpace (UnwrapOr (ref_SeverityVendor ref) []));
               prio = severityPriority sv
           in if prio > highestPriority then highest_severity sv prio refs
              else highest_severity highest highestPriority refs
      else highest_severity highest highestPriority refs)"

definition effectiveSeverity :: "Advisory \<Rightarrow> AdvisoryReference list \<Rightarrow> string" where
  "effectiveSeverity advisory refs =
     (if \<not> IsNoneOrDefault (map_option TrimSpace (adv_Severity advisory))
      then ToLower (TrimSpace (UnwrapOr (adv_Severity advisory) []))
      else highest_severity [] (-1) refs)"

fun evidence_loop :: "bool \<Rightarrow> string list \<Rightarrow> string" where
  "evidence_loop hasDerived [] = (if hasDerived then ''derived'' else ''authoritative'')"
| "evidence_loop hasDerived (tier # tiers) =
     (if TrimSpace tier = ''unknown'' then ''unknown''
      else if TrimSpace tier = ''derived'' then evidence_loop True tiers
      else evidence_loop hasDerived tiers)"

definition decisionEvidenceTier :: "string list \<Rightarrow> string" where
  "decisionEvidenceTier tiers = evidence_loop False tiers"

section \<open>Architecture and best fix\<close>

definition matchesPackageArch :: "string \<Rightarrow> string \<Rightarrow> string \<Rightarrow> bool" where
  "matchesPackageArch pkgArch ruleArch osFamily =
     (let normalizedRuleArch = ToLower (TrimSpace ruleArch) in
      if normalizedRuleArch = [] then True
      else if EqualFold osFamily ''apt'' \<and>
              normalizedRuleArch \<in> set [''binary'', ''source'', ''all'', ''any''] then True
      else normalizedRuleArch = ToLower (TrimSpace pkgArch))"

definition fix_evr :: "FixedPackage \<Rightarrow> evr" where
  "fix_evr fx = \<lparr>evr_epoch = fix_Epoch fx, evr_version = fix_Version fx, evr_release = fix_Release fx\<rparr>"

fun best_fix_loop :: "string \<Rightarrow> FixedPackage \<Rightarrow> FixedPackage list \<Rightarrow> FixedPackage" where
  "best_fix_loop osFamily best [] = best"
| "best_fix_loop osFamily best (candidate # fixes) =
     (if family_compare osFamily (fix_evr candidate) (fix_evr best) > 0
      then best_fix_loop osFamily candidate fixes
      else best_fix_loop osFamily best fixes)"

definition selectBestFix :: "FixedPackage list \<Rightarrow> string \<Rightarrow> match_error + FixedPackage" where
  "selectBestFix fixes osFamily =
     (case fixes of
        [] \<Rightarrow> Inl NoFixedPackage
      | best # rest \<Rightarrow> Inr (best_fix_loop osFamily best rest))"

section \<open>Preference and collapse\<close>

definition decisionPriority :: "InsertDecisionRecordParams \<Rightarrow> int" where
  "decisionPriority record1 =
     (let a = dec_Action record1 in
      if a = ''reboot_host'' then 5
      else if a = ''restart_service'' then 4
      else if a = ''update_package'' then 3
      else if a = ''investigate'' then 2
      else if a = ''none'' then 1
      else 0)"

definition parseDecisionFixedEVR :: "InsertDecisionRecordParams \<Rightarrow> string \<Rightarrow> evr option" where
  "parseDecisionFixedEVR record1 osFamily =
     (if IsNoneOrDefault (map_option TrimSpace (dec_FixedNevra record1)) then None
      else
        let value = TrimSpace (UnwrapOr (dec_FixedNevra record1) []) in
        if osFamily = ''apt''
        then (case parseDebianEVRFromNEVR value of Inl _ \<Rightarrow> None | Inr parsed \<Rightarrow> Some parsed)
        else (case LastIndex value ''.'' of
                None \<Rightarrow> None
              | Some lastDot \<Rightarrow>
                  (case parseEVRFromNEVR (take lastDot value) of Inl _ \<Rightarrow> None | Inr parsed \<Rightarrow> Some parsed)))"

definition preferDecision :: "decision \<Rightarrow> decision \<Rightarrow> string \<Rightarrow> bool" where
  "preferDecision candidate current osFamily =
     (let candidatePriority = decisionPriority (d_record candidate);
          currentPriority = decisionPriority (d_record current)
      in if candidatePriority \<noteq> currentPriority then candidatePriority > currentPriority
         else
           let by_severity =
                 (let candidateSeverity = severityPriority (d_severity candidate);
                      currentSeverity = severityPriority (d_severity current)
                  in if candidateSeverity \<noteq> currentSeverity then candidateSeverity > currentSeverity
                     else dec_AdvisoryID (d_record candidate) > dec_AdvisoryID (d_record current))
           in case (parseDecisionFixedEVR (d_record candidate) osFamily,
                    parseDecisionFixedEVR (d_record current) osFamily) of
                (Some candidateFixed, Some currentFixed) \<Rightarrow>
                  (let compared = family_compare osFamily candidateFixed currentFixed
                   in if compared \<noteq> 0 then compared > 0 else by_severity)
              | (Some _, None) \<Rightarrow> True
              | (None, Some _) \<Rightarrow> False
              | (None, None) \<Rightarrow> by_severity)"

definition newDecisionKey :: "InsertDecisionRecordParams \<Rightarrow> decisionKey" where
  "newDecisionKey record1 =
     \<lparr>key_installedPackageID = UnwrapOr (dec_InstalledPackageID record1) [],
      key_packageName = dec_PackageName record1,
      key_installedNevra = UnwrapOr (dec_InstalledNevra record1) []\<rparr>"

definition zero_decision :: decision where
  "zero_decision = \<lparr>d_record = zero_InsertDecisionRecordParams, d_severity = []\<rparr>"

fun collapse_loop ::
  "string \<Rightarrow> (decisionKey \<rightharpoonup> decision) \<Rightarrow> decisionKey list \<Rightarrow> decision list \<Rightarrow>
   (decisionKey \<rightharpoonup> decision) \<times> decisionKey list" where
  "collapse_loop osFamily selected order [] = (selected, order)"
| "collapse_loop osFamily selected order (candidate # decisions) =
     (let key = newDecisionKey (d_record candidate) in
      case selected key of
        None \<Rightarrow> collapse_loop osFamily (selected(key \<mapsto> candidate)) (order @ [key]) decisions
      | Some current \<Rightarrow>
          if preferDecision candidate current osFamily
          then collapse_loop osFamily (selected(key \<mapsto> candidate)) order decisions
          else collapse_loop osFamily selected order decisions)"

definition collapseSupersededDecisions :: "decision list \<Rightarrow> string \<Rightarrow> decision list" where
  "collapseSupersededDecisions decisions osFamily =
     (if length decisions \<le> 1 then decisions
      else let (selected, order) = collapse_loop osFamily Map.empty [] decisions
           in map (\<lambda>key. UnwrapOr (selected key) zero_decision) order)"

section \<open>Summary of a host\<close>

text \<open>A read of the priority map with a key it does not hold gives 0.\<close>

definition action_priority :: "string \<Rightarrow> int" where
  "action_priority a =
     UnwrapOr (map_of [(''none'', 0), (''investigate'', 1), (''update_package'', 2),
                       (''restart_service'', 3), (''reboot_host'', 4)] a) 0"

fun overall_loop :: "string \<Rightarrow> decision list \<Rightarrow> string" where
  "overall_loop selected [] = selected"
| "overall_loop selected (dec # decisions) =
     (if action_priority (dec_Action (d_record dec)) > action_priority selected
      then overall_loop (dec_Action (d_record dec)) decisions
      else overall_loop selected decisions)"

definition overallAction :: "decision list \<Rightarrow> string" where
  "overallAction decisions = overall_loop ''none'' decisions"

definition count_decision :: "decision \<Rightarrow> UpsertHostCurrentStateParams \<Rightarrow> UpsertHostCurrentStateParams" where
  "count_decision dec state =
     (if dec_Status (d_record dec) = ''resolved'' then state
      else
        let severity = normalizeSeverity (d_severity dec);
            state1 =
              (if severity = ''critical'' then state\<lparr>hcs_CriticalCount := inc32 (hcs_CriticalCount state)\<rparr>
               else if severity = ''important'' then state\<lparr>hcs_ImportantCount := inc32 (hcs_ImportantCount state)\<rparr>
               else if severity = ''moderate'' then state\<lparr>hcs_ModerateCount := inc32 (hcs_ModerateCount state)\<rparr>
               else state);
            status = dec_Status (d_record dec)
        in if status = ''affected_fix_available''
           then state1\<lparr>hcs_ActionableCount := inc32 (hcs_ActionableCount state1)\<rparr>
           else if status = ''fixed_package_installed_pending_activation''
           then let state2 = state1\<lparr>hcs_ActionableCount := inc32 (hcs_ActionableCount state1)\<rparr>;
                    action = dec_Action (d_record dec)
                in if action = ''reboot_host'' then state2\<lparr>hcs_NeedsReboot := inc32 (hcs_NeedsReboot state2)\<rparr>
                   else if action = ''restart_service'' then state2\<lparr>hcs_NeedsRestart := inc32 (hcs_NeedsRestart state2)\<rparr>
                   else state2
           else if status = ''affected_no_fix'' then state1\<lparr>hcs_NoFix := inc32 (hcs_NoFix state1)\<rparr>
           else if status = ''unknown'' then state1\<lparr>hcs_Unknown := inc32 (hcs_Unknown state1)\<rparr>
           else state1)"

definition aggregateHostCurrentState ::
  "HostSnapshot \<Rightarrow> decision list \<Rightarrow> int \<Rightarrow> UpsertHostCurrentStateParams" where
  "aggregateHostCurrentState snapshot decisions availableUpdates =
     (let state =
        \<lparr>hcs_HostID = snap_HostID snapshot, hcs_SnapshotID = snap_ID snapshot, hcs_OverallAction = ''none'',
         hcs_CriticalCount = 0, hcs_ImportantCount = 0, hcs_ModerateCount = 0, hcs_ActionableCount = 0,
         hcs_AvailableUpdates = availableUpdates, hcs_NeedsReboot = 0, hcs_NeedsRestart = 0,
         hcs_NoFix = 0, hcs_Unknown = 0\<rparr>
      in (fold count_decision decisions state)\<lparr>hcs_OverallAction := overallAction decisions\<rparr>)"

section \<open>Best fix\<close>

interpretation fix_cmp: go_compare "\<lambda>x y. family_compare os (fix_evr x) (fix_evr y)" for os
  by (rule family_cmp.cmp_by_key)

lemma best_fix_loop_best_of:
  "best_fix_loop os b xs = best_of (\<lambda>x y. family_compare os (fix_evr x) (fix_evr y)) b xs"
  by (induction xs arbitrary: b) simp_all

lemma selectBestFix_Inr:
  assumes "selectBestFix fixes os = Inr best"
  shows "best \<in> set fixes \<and> (\<forall>f \<in> set fixes. family_compare os (fix_evr best) (fix_evr f) \<ge> 0)"
proof -
  have "(case fixes of [] \<Rightarrow> None | x # ys \<Rightarrow> Some (best_of (\<lambda>x y. family_compare os (fix_evr x) (fix_evr y)) x ys)) = Some best"
    using assms by (cases "fixes") (simp_all add: selectBestFix_def best_fix_loop_best_of)
  then show ?thesis by (rule fix_cmp.best_of_list_max)
qed

lemma selectBestFix_Inl: "selectBestFix fixes os = Inl e \<longleftrightarrow> fixes = [] \<and> e = NoFixedPackage"
  by (cases "fixes") (auto simp: selectBestFix_def)

section \<open>Preference as a lexicographic order\<close>

definition zero_evr :: evr where
  "zero_evr = \<lparr>evr_epoch = 0, evr_version = [], evr_release = []\<rparr>"

definition decision_cmp :: "string \<Rightarrow> decision \<Rightarrow> decision \<Rightarrow> int" where
  "decision_cmp os x y =
     cmp_then (cmp_ord (decisionPriority (d_record x)) (decisionPriority (d_record y)))
    (cmp_then (cmp_ord (parseDecisionFixedEVR (d_record x) os \<noteq> None) (parseDecisionFixedEVR (d_record y) os \<noteq> None))
    (cmp_then (family_compare os (UnwrapOr (parseDecisionFixedEVR (d_record x) os) zero_evr)
                 (UnwrapOr (parseDecisionFixedEVR (d_record y) os) zero_evr))
    (cmp_then (cmp_ord (severityPriority (d_severity x)) (severityPriority (d_severity y)))
       (cmp_ord (dec_AdvisoryID (d_record x)) (dec_AdvisoryID (d_record y))))))"

lemma decision_cmp_contract: "go_compare (decision_cmp os)"
proof -
  have "decision_cmp os = (\<lambda>x y.
     cmp_then (cmp_ord (decisionPriority (d_record x)) (decisionPriority (d_record y)))
    (cmp_then (cmp_ord (parseDecisionFixedEVR (d_record x) os \<noteq> None) (parseDecisionFixedEVR (d_record y) os \<noteq> None))
    (cmp_then (family_compare os (UnwrapOr (parseDecisionFixedEVR (d_record x) os) zero_evr)
                 (UnwrapOr (parseDecisionFixedEVR (d_record y) os) zero_evr))
    (cmp_then (cmp_ord (severityPriority (d_severity x)) (severityPriority (d_severity y)))
       (cmp_ord (dec_AdvisoryID (d_record x)) (dec_AdvisoryID (d_record y)))))))"
    by (intro ext) (rule decision_cmp_def)
  moreover have "go_compare (\<lambda>(x :: decision) y.
     cmp_then (cmp_ord (decisionPriority (d_record x)) (decisionPriority (d_record y)))
    (cmp_then (cmp_ord (parseDecisionFixedEVR (d_record x) os \<noteq> None) (parseDecisionFixedEVR (d_record y) os \<noteq> None))
    (cmp_then (family_compare os (UnwrapOr (parseDecisionFixedEVR (d_record x) os) zero_evr)
                 (UnwrapOr (parseDecisionFixedEVR (d_record y) os) zero_evr))
    (cmp_then (cmp_ord (severityPriority (d_severity x)) (severityPriority (d_severity y)))
       (cmp_ord (dec_AdvisoryID (d_record x)) (dec_AdvisoryID (d_record y)))))))"
    by (rule ord_cmp.cmp_lex [where g = id, simplified], rule ord_cmp.cmp_lex [where g = id, simplified],
        rule family_cmp.cmp_lex [where g = id, simplified], rule ord_cmp.cmp_lex [OF ord_cmp.go_compare_axioms])
  ultimately show ?thesis by (simp only:)
qed

interpretation dec_cmp: go_compare "decision_cmp os" for os
  by (rule decision_cmp_contract)

lemma preferDecision_cmp: "preferDecision x y os \<longleftrightarrow> decision_cmp os x y > 0"
  by (cases "parseDecisionFixedEVR (d_record x) os"; cases "parseDecisionFixedEVR (d_record y) os")
     (auto simp: preferDecision_def decision_cmp_def cmp_then_def cmp_ord_def Let_def)

lemma decision_cmp_eq_advisory: "decision_cmp os x y = 0 \<Longrightarrow> dec_AdvisoryID (d_record x) = dec_AdvisoryID (d_record y)"
  by (auto simp: decision_cmp_def cmp_then_def cmp_ord_def split: if_splits)

section \<open>Collapse\<close>

abbreviation dkey :: "decision \<Rightarrow> decisionKey" where
  "dkey d \<equiv> newDecisionKey (d_record d)"

definition best_for :: "string \<Rightarrow> decision list \<Rightarrow> decisionKey \<Rightarrow> decision option" where
  "best_for os ds k =
     (case filter (\<lambda>d. dkey d = k) ds of [] \<Rightarrow> None | x # xs \<Rightarrow> Some (best_of (decision_cmp os) x xs))"

lemma collapse_loop_selected:
  "fst (collapse_loop os sel ord ds) k =
     (case sel k of
        None \<Rightarrow> best_for os ds k
      | Some b \<Rightarrow> Some (best_of (decision_cmp os) b (filter (\<lambda>d. dkey d = k) ds)))"
proof (induction ds arbitrary: sel ord)
  case Nil
  then show ?case by (simp add: best_for_def split: option.split)
next
  case (Cons d ds)
  then show ?case
    by (cases "sel (dkey d)") (auto simp: Let_def preferDecision_cmp best_for_def split: option.split)
qed

lemma collapse_loop_order:
  "snd (collapse_loop os sel ord ds) = ord @ dedup_by (\<lambda>k. k) (dom sel) (map dkey ds)"
proof (induction ds arbitrary: sel ord)
  case Nil
  then show ?case by simp
next
  case (Cons d ds)
  have "sel (dkey d) = Some b \<Longrightarrow> insert (dkey d) (dom sel) = dom sel" for b by auto
  moreover have "dom (\<lambda>a. if a = dkey d then Some d else sel a) = insert (dkey d) (dom sel)"
    by (auto simp: domIff)
  ultimately show ?case
    using Cons by (cases "sel (dkey d)") (simp_all add: Let_def domIff)
qed

lemma best_for_key: "best_for os ds k = Some b \<Longrightarrow> dkey b = k \<and> b \<in> set ds \<and> (\<forall>d \<in> set ds. dkey d = k \<longrightarrow> decision_cmp os b d \<ge> 0)"
  unfolding best_for_def using dec_cmp.best_of_list_max [of os "filter (\<lambda>d. dkey d = k) ds" b] by auto

lemma best_for_Some: "k \<in> dkey ` set ds \<Longrightarrow> \<exists>b. best_for os ds k = Some b"
  by (auto simp: best_for_def filter_empty_conv split: list.split)

lemma collapse_eq:
  "collapseSupersededDecisions ds os =
     map (\<lambda>k. UnwrapOr (best_for os ds k) zero_decision) (dedup_by (\<lambda>k. k) {} (map dkey ds))"
proof (cases "length ds \<le> 1")
  case True
  then consider "ds = []" | d where "ds = [d]"
    by (metis One_nat_def Suc_length_conv le_Suc_eq le_zero_eq length_0_conv)
  then show ?thesis by cases (simp_all add: collapseSupersededDecisions_def best_for_def)
next
  case False
  then show ?thesis
    using collapse_loop_selected [of os Map.empty "[]" ds] collapse_loop_order [of os Map.empty "[]" ds]
    by (simp add: collapseSupersededDecisions_def split_beta Let_def)
qed

lemma collapse_mem:
  "b \<in> set (collapseSupersededDecisions ds os) \<longleftrightarrow> (\<exists>k \<in> dkey ` set ds. best_for os ds k = Some b)"
proof -
  have "set (dedup_by (\<lambda>k. k) {} (map dkey ds)) = dkey ` set ds"
    using keys_dedup_by [of "\<lambda>k. k" "map dkey ds"] by simp
  then show ?thesis
    unfolding collapse_eq using best_for_Some [of _ ds os] by (force simp: image_iff)
qed

lemma collapse_keys: "map dkey (collapseSupersededDecisions ds os) = dedup_by (\<lambda>k. k) {} (map dkey ds)"
proof -
  have "\<forall>k \<in> set (dedup_by (\<lambda>k. k) {} (map dkey ds)). dkey (UnwrapOr (best_for os ds k) zero_decision) = k"
    using set_dedup_by_subset [of "\<lambda>k. k" "{}" "map dkey ds"] best_for_Some [of _ ds os] best_for_key [of os ds]
    by fastforce
  then show ?thesis unfolding collapse_eq by (simp add: map_idI)
qed

section \<open>Counters\<close>

text \<open>
  A counter is a field that \<open>count_decision\<close> either leaves alone or increments; over a list shorter
  than \<open>2 ^ 31\<close> it counts the decisions that increment it.
\<close>

lemma fold_counter:
  assumes step: "\<And>d s. c (count_decision d s) = (if P d then inc32 (c s) else c s)"
    and "0 \<le> c s" "c s + int (length ds) < 2 ^ 31"
  shows "c (fold count_decision ds s) = c s + int (length (filter P ds))"
  using assms(2,3)
proof (induction ds arbitrary: s)
  case Nil
  then show ?case by simp
next
  case (Cons d ds)
  then have "c (count_decision d s) = (if P d then c s + 1 else c s)"
    by (simp add: step inc32_small)
  then show ?case using Cons.prems Cons.IH [of "count_decision d s"] by (auto split: if_splits)
qed

definition open_decision :: "decision \<Rightarrow> bool" where
  "open_decision d \<longleftrightarrow> dec_Status (d_record d) \<noteq> ''resolved''"

lemma count_decision_fields:
  "hcs_CriticalCount (count_decision d s) =
     (if open_decision d \<and> normalizeSeverity (d_severity d) = ''critical'' then inc32 (hcs_CriticalCount s) else hcs_CriticalCount s)"
  "hcs_ImportantCount (count_decision d s) =
     (if open_decision d \<and> normalizeSeverity (d_severity d) = ''important'' then inc32 (hcs_ImportantCount s) else hcs_ImportantCount s)"
  "hcs_ModerateCount (count_decision d s) =
     (if open_decision d \<and> normalizeSeverity (d_severity d) = ''moderate'' then inc32 (hcs_ModerateCount s) else hcs_ModerateCount s)"
  "hcs_ActionableCount (count_decision d s) =
     (if dec_Status (d_record d) = ''affected_fix_available'' \<or> dec_Status (d_record d) = ''fixed_package_installed_pending_activation''
      then inc32 (hcs_ActionableCount s) else hcs_ActionableCount s)"
  "hcs_NeedsReboot (count_decision d s) =
     (if dec_Status (d_record d) = ''fixed_package_installed_pending_activation'' \<and> dec_Action (d_record d) = ''reboot_host''
      then inc32 (hcs_NeedsReboot s) else hcs_NeedsReboot s)"
  "hcs_NeedsRestart (count_decision d s) =
     (if dec_Status (d_record d) = ''fixed_package_installed_pending_activation'' \<and> dec_Action (d_record d) = ''restart_service''
      then inc32 (hcs_NeedsRestart s) else hcs_NeedsRestart s)"
  "hcs_NoFix (count_decision d s) =
     (if dec_Status (d_record d) = ''affected_no_fix'' then inc32 (hcs_NoFix s) else hcs_NoFix s)"
  "hcs_Unknown (count_decision d s) =
     (if dec_Status (d_record d) = ''unknown'' then inc32 (hcs_Unknown s) else hcs_Unknown s)"
  by (auto simp: count_decision_def open_decision_def Let_def)

interpretation action_cmp: go_compare "\<lambda>x y. cmp_ord (action_priority x) (action_priority y)"
  by (rule ord_cmp.cmp_by_key)

lemma overall_loop_best_of:
  "overall_loop a ds = best_of (\<lambda>x y. cmp_ord (action_priority x) (action_priority y)) a (map (\<lambda>d. dec_Action (d_record d)) ds)"
  by (induction ds arbitrary: a) (simp_all add: cmp_ord_iff)

lemma overall_loop_max:
  "overall_loop a ds \<in> set (a # map (\<lambda>d. dec_Action (d_record d)) ds) \<and>
   (\<forall>d \<in> set ds. action_priority (dec_Action (d_record d)) \<le> action_priority (overall_loop a ds))"
proof -
  let ?acts = "map (\<lambda>d. dec_Action (d_record d)) ds"
  have "action_priority x \<le> action_priority (overall_loop a ds)" if "x \<in> set (a # ?acts)" for x
    using action_cmp.best_of_max [OF that] unfolding overall_loop_best_of by (meson cmp_ord_iff(3) not_le)
  then show ?thesis using action_cmp.best_of_in [of a ?acts] unfolding overall_loop_best_of by auto
qed

lemma highest_severity_max:
  defines "present \<equiv> \<lambda>r. \<not> IsNoneOrDefault (map_option TrimSpace (ref_SeverityVendor r))"
    and "vendor \<equiv> \<lambda>r. ToLower (TrimSpace (UnwrapOr (ref_SeverityVendor r) []))"
  assumes "hp = -1 \<and> h = [] \<or> hp = severityPriority h"
  shows "(highest_severity h hp refs = h \<or> (\<exists>r \<in> set refs. present r \<and> highest_severity h hp refs = vendor r)) \<and>
    hp \<le> severityPriority (highest_severity h hp refs) \<and>
    (\<forall>r \<in> set refs. present r \<longrightarrow> severityPriority (vendor r) \<le> severityPriority (highest_severity h hp refs))"
  using assms(3)
proof (induction refs arbitrary: h hp)
  case Nil
  then show ?case by (auto simp: severityPriority_def Let_def)
next
  case (Cons r refs)
  show ?case
  proof (cases "present r \<and> severityPriority (vendor r) > hp")
    case True
    then have eq: "highest_severity h hp (r # refs) = highest_severity (vendor r) (severityPriority (vendor r)) refs"
      by (simp add: present_def vendor_def Let_def)
    from True show ?thesis unfolding eq using Cons.IH [of "severityPriority (vendor r)" "vendor r"] by auto
  next
    case False
    then have eq: "highest_severity h hp (r # refs) = highest_severity h hp refs"
      by (auto simp: present_def vendor_def Let_def)
    from False show ?thesis unfolding eq using Cons.IH [OF Cons.prems] by auto
  qed
qed

section \<open>Properties\<close>

text \<open>\<open>selectBestFix\<close> fails only on an empty list, and otherwise returns a member of the list that is at
  least as new as every other member in the order of the package family.\<close>

theorem selectBestFix_maximal:
  "(selectBestFix fixes os = Inl NoFixedPackage \<longleftrightarrow> fixes = []) \<and>
   (\<forall>best. selectBestFix fixes os = Inr best \<longrightarrow>
      best \<in> set fixes \<and> (\<forall>f \<in> set fixes. family_compare os (fix_evr f) (fix_evr best) \<le> 0))"
  using selectBestFix_Inl [of "fixes" os] selectBestFix_Inr [of "fixes" os]
  by (simp add: family_cmp.cmp_ge_le)

theorem selectBestFix_maximal_witness:
  "let f1 = zero_FixedPackage\<lparr>fix_ID := ''a'', fix_Version := ''1.9''\<rparr>; f2 = zero_FixedPackage\<lparr>fix_ID := ''b'', fix_Version := ''1.10''\<rparr>
   in selectBestFix [f1, f2] ''rpm'' = Inr f2 \<and> family_compare ''rpm'' (fix_evr f1) (fix_evr f2) \<le> 0"
proof -
  let ?f1 = "zero_FixedPackage\<lparr>fix_ID := ''a'', fix_Version := ''1.9''\<rparr>"
  let ?f2 = "zero_FixedPackage\<lparr>fix_ID := ''b'', fix_Version := ''1.10''\<rparr>"
  have sel: "selectBestFix [?f1, ?f2] ''rpm'' = Inr ?f2" by code_simp
  then have "family_compare ''rpm'' (fix_evr ?f1) (fix_evr ?f2) \<le> 0"
    using selectBestFix_maximal [of "[?f1, ?f2]" "''rpm''"] by simp
  with sel show ?thesis unfolding Let_def by simp
qed

text \<open>\<open>preferDecision\<close> is a strict order on decisions that leaves no tie between different advisories:
  it is irreflexive, asymmetric and transitive, and of two decisions with different advisory IDs one is
  preferred to the other.\<close>

theorem preferDecision_strict_order:
  "\<not> preferDecision x x os \<and>
   (preferDecision x y os \<longrightarrow> \<not> preferDecision y x os) \<and>
   (preferDecision x y os \<and> preferDecision y z os \<longrightarrow> preferDecision x z os) \<and>
   (dec_AdvisoryID (d_record x) \<noteq> dec_AdvisoryID (d_record y) \<longrightarrow> preferDecision x y os \<or> preferDecision y x os)"
proof -
  have "decision_cmp os y x = - decision_cmp os x y" "decision_cmp os z y = - decision_cmp os y z"
    "decision_cmp os z x = - decision_cmp os x z"
    by (rule dec_cmp.cmp_swap)+
  moreover have "decision_cmp os z y < 0 \<Longrightarrow> decision_cmp os y x < 0 \<Longrightarrow> decision_cmp os z x < 0"
    using dec_cmp.cmp_less_le_trans [of os z y x] by simp
  moreover have "decision_cmp os x y = 0 \<Longrightarrow> dec_AdvisoryID (d_record x) = dec_AdvisoryID (d_record y)"
    by (rule decision_cmp_eq_advisory)
  moreover have "decision_cmp os x x = 0" by (rule dec_cmp.cmp_refl)
  ultimately show ?thesis unfolding preferDecision_cmp by linarith
qed

theorem preferDecision_strict_order_witness:
  "let x = zero_decision\<lparr>d_record := zero_InsertDecisionRecordParams\<lparr>dec_Action := ''reboot_host'', dec_AdvisoryID := ''A1''\<rparr>\<rparr>;
       y = zero_decision\<lparr>d_record := zero_InsertDecisionRecordParams\<lparr>dec_Action := ''update_package'', dec_AdvisoryID := ''A2''\<rparr>\<rparr>
   in preferDecision x y ''rpm'' \<and> \<not> preferDecision y x ''rpm''"
proof -
  let ?x = "zero_decision\<lparr>d_record := zero_InsertDecisionRecordParams\<lparr>dec_Action := ''reboot_host'', dec_AdvisoryID := ''A1''\<rparr>\<rparr>"
  let ?y = "zero_decision\<lparr>d_record := zero_InsertDecisionRecordParams\<lparr>dec_Action := ''update_package'', dec_AdvisoryID := ''A2''\<rparr>\<rparr>"
  have "preferDecision ?x ?y ''rpm''" by code_simp
  then show ?thesis using preferDecision_strict_order [of ?x "''rpm''" ?y] unfolding Let_def by blast
qed

text \<open>\<open>collapseSupersededDecisions\<close> keeps, for every installed package that has a decision, exactly one
  of its decisions, and no other decision for that package is preferred to the one kept.\<close>

theorem collapseSupersededDecisions_spec:
  "let out = collapseSupersededDecisions ds os; key = (\<lambda>d. newDecisionKey (d_record d))
   in set out \<subseteq> set ds \<and> distinct (map key out) \<and> key ` set out = key ` set ds \<and>
      (\<forall>b \<in> set out. \<forall>d \<in> set ds. key d = key b \<longrightarrow> \<not> preferDecision d b os)"
proof -
  let ?out = "collapseSupersededDecisions ds os"
  have mem: "b \<in> set ds \<and> (\<forall>d \<in> set ds. dkey d = dkey b \<longrightarrow> decision_cmp os b d \<ge> 0)" if "b \<in> set ?out" for b
  proof -
    from that obtain k where "best_for os ds k = Some b" unfolding collapse_mem by blast
    from best_for_key [OF this] show ?thesis by blast
  qed
  have "distinct (map dkey ?out)" "dkey ` set ?out = dkey ` set ds"
    using collapse_keys [of ds os] distinct_dedup_by [of "\<lambda>k. k" "{}" "map dkey ds"]
      keys_dedup_by [of "\<lambda>k. k" "map dkey ds"] by (simp_all flip: set_map)
  then show ?thesis
    unfolding Let_def preferDecision_cmp dec_cmp.cmp_not_gt using mem by (auto simp: dec_cmp.cmp_ge_le)
qed

theorem collapseSupersededDecisions_spec_witness:
  "let x = zero_decision\<lparr>d_record := zero_InsertDecisionRecordParams\<lparr>dec_Action := ''none'', dec_AdvisoryID := ''A1''\<rparr>\<rparr>;
       y = zero_decision\<lparr>d_record := zero_InsertDecisionRecordParams\<lparr>dec_Action := ''update_package'', dec_AdvisoryID := ''A2''\<rparr>\<rparr>
   in collapseSupersededDecisions [x, y] ''apt'' = [y] \<and> \<not> preferDecision x y ''apt''"
proof -
  let ?x = "zero_decision\<lparr>d_record := zero_InsertDecisionRecordParams\<lparr>dec_Action := ''none'', dec_AdvisoryID := ''A1''\<rparr>\<rparr>"
  let ?y = "zero_decision\<lparr>d_record := zero_InsertDecisionRecordParams\<lparr>dec_Action := ''update_package'', dec_AdvisoryID := ''A2''\<rparr>\<rparr>"
  have out: "collapseSupersededDecisions [?x, ?y] ''apt'' = [?y]" by code_simp
  have "newDecisionKey (d_record ?x) = newDecisionKey (d_record ?y)" by code_simp
  with out have "\<not> preferDecision ?x ?y ''apt''"
    using collapseSupersededDecisions_spec [of "[?x, ?y]" "''apt''"] unfolding Let_def by simp
  with out show ?thesis unfolding Let_def by simp
qed

text \<open>The counters of a host's state count what they say. For fewer than \<open>2 ^ 31\<close> decisions the severity
  counters count the unresolved decisions of that severity (with \<open>high\<close> and \<open>medium\<close> read as important
  and moderate), the actionable counter those with a fix available or installed but not active, and the
  reboots and restarts are among the actionable ones.\<close>

theorem aggregateHostCurrentState_counts:
  assumes "length ds < 2 ^ 31"
  shows "let s = aggregateHostCurrentState snapshot ds updates;
             count = (\<lambda>P. int (length (filter P ds)));
             sev = (\<lambda>d. normalizeSeverity (d_severity d));
             status = (\<lambda>d. dec_Status (d_record d))
         in hcs_CriticalCount s = count (\<lambda>d. open_decision d \<and> sev d = ''critical'') \<and>
            hcs_ImportantCount s = count (\<lambda>d. open_decision d \<and> sev d = ''important'') \<and>
            hcs_ModerateCount s = count (\<lambda>d. open_decision d \<and> sev d = ''moderate'') \<and>
            hcs_ActionableCount s = count (\<lambda>d. status d = ''affected_fix_available'' \<or>
                                             status d = ''fixed_package_installed_pending_activation'') \<and>
            hcs_NoFix s = count (\<lambda>d. status d = ''affected_no_fix'') \<and>
            hcs_Unknown s = count (\<lambda>d. status d = ''unknown'') \<and>
            hcs_NeedsReboot s + hcs_NeedsRestart s \<le> hcs_ActionableCount s \<and>
            hcs_AvailableUpdates s = updates"
proof -
  let ?pend = "\<lambda>d. dec_Status (d_record d) = ''fixed_package_installed_pending_activation''"
  let ?reboot = "\<lambda>d. ?pend d \<and> dec_Action (d_record d) = ''reboot_host''"
  let ?restart = "\<lambda>d. ?pend d \<and> dec_Action (d_record d) = ''restart_service''"
  let ?act = "\<lambda>d. dec_Status (d_record d) = ''affected_fix_available'' \<or> ?pend d"
  have bound: "int (length ds) < 2 ^ 31" using assms by simp
  have split: "length (filter ?reboot ds) + length (filter ?restart ds) \<le> length (filter ?act ds)"
    by (induction ds) auto
  have updates: "hcs_AvailableUpdates (fold count_decision ds s) = hcs_AvailableUpdates s" for s
    by (induction ds arbitrary: s) (simp_all add: count_decision_def Let_def)
  note c = fold_counter [where c = hcs_CriticalCount, OF count_decision_fields(1)]
    fold_counter [where c = hcs_ImportantCount, OF count_decision_fields(2)]
    fold_counter [where c = hcs_ModerateCount, OF count_decision_fields(3)]
    fold_counter [where c = hcs_ActionableCount, OF count_decision_fields(4)]
    fold_counter [where c = hcs_NeedsReboot, OF count_decision_fields(5)]
    fold_counter [where c = hcs_NeedsRestart, OF count_decision_fields(6)]
    fold_counter [where c = hcs_NoFix, OF count_decision_fields(7)]
    fold_counter [where c = hcs_Unknown, OF count_decision_fields(8)]
  show ?thesis
    unfolding Let_def aggregateHostCurrentState_def using bound split by (simp add: c updates)
qed

theorem aggregateHostCurrentState_counts_witness:
  "hcs_ImportantCount (aggregateHostCurrentState zero_HostSnapshot
     [zero_decision\<lparr>d_severity := '' HIGH''\<rparr>, zero_decision\<lparr>d_severity := ''low''\<rparr>] 7) = 1"
proof -
  let ?ds = "[zero_decision\<lparr>d_severity := '' HIGH''\<rparr>, zero_decision\<lparr>d_severity := ''low''\<rparr>]"
  have "map (\<lambda>d. open_decision d \<and> normalizeSeverity (d_severity d) = ''important'') ?ds = [True, False]" by code_simp
  then have "filter (\<lambda>d. open_decision d \<and> normalizeSeverity (d_severity d) = ''important'') ?ds = [zero_decision\<lparr>d_severity := '' HIGH''\<rparr>]"
    by simp
  then show ?thesis
    using aggregateHostCurrentState_counts [of ?ds zero_HostSnapshot 7] unfolding Let_def by simp
qed

text \<open>The overall action of a host is the most urgent action of its decisions: it is \<open>none\<close> or the
  action of one of them, and no decision has a more urgent one.\<close>

theorem overallAction_most_urgent:
  "(overallAction ds = ''none'' \<or> (\<exists>d \<in> set ds. dec_Action (d_record d) = overallAction ds)) \<and>
   (\<forall>d \<in> set ds. action_priority (dec_Action (d_record d)) \<le> action_priority (overallAction ds))"
  using overall_loop_max [of "''none''" ds] unfolding overallAction_def by force

theorem overallAction_most_urgent_witness:
  "let d = zero_decision\<lparr>d_record := zero_InsertDecisionRecordParams\<lparr>dec_Action := ''reboot_host''\<rparr>\<rparr>
   in action_priority (dec_Action (d_record d)) \<le> action_priority (overallAction [zero_decision, d])"
proof -
  let ?d = "zero_decision\<lparr>d_record := zero_InsertDecisionRecordParams\<lparr>dec_Action := ''reboot_host''\<rparr>\<rparr>"
  have "?d \<in> set [zero_decision, ?d]" by simp
  then show ?thesis using overallAction_most_urgent [of "[zero_decision, ?d]"] unfolding Let_def by blast
qed

text \<open>Without a severity of its own an advisory gets the highest severity its references give: the
  result is empty or one of the references' severities, and no reference has a higher one.\<close>

theorem effectiveSeverity_highest:
  assumes "IsNoneOrDefault (map_option TrimSpace (adv_Severity a))"
  shows "(effectiveSeverity a refs = [] \<or> (\<exists>r \<in> set refs. effectiveSeverity a refs = ToLower (TrimSpace (UnwrapOr (ref_SeverityVendor r) [])))) \<and>
    (\<forall>r \<in> set refs. \<not> IsNoneOrDefault (map_option TrimSpace (ref_SeverityVendor r)) \<longrightarrow>
       severityPriority (ToLower (TrimSpace (UnwrapOr (ref_SeverityVendor r) []))) \<le> severityPriority (effectiveSeverity a refs))"
  using highest_severity_max [of "-1" "[]" refs] assms unfolding effectiveSeverity_def by auto

theorem effectiveSeverity_highest_witness:
  "effectiveSeverity zero_Advisory [zero_AdvisoryReference\<lparr>ref_SeverityVendor := Some ''Low''\<rparr>,
     zero_AdvisoryReference\<lparr>ref_SeverityVendor := Some ''HIGH''\<rparr>] = ''high'' \<and>
   severityPriority ''low'' \<le> severityPriority ''high''"
proof -
  let ?r1 = "zero_AdvisoryReference\<lparr>ref_SeverityVendor := Some ''Low''\<rparr>"
  let ?r2 = "zero_AdvisoryReference\<lparr>ref_SeverityVendor := Some ''HIGH''\<rparr>"
  have eff: "effectiveSeverity zero_Advisory [?r1, ?r2] = ''high''" by code_simp
  have "IsNoneOrDefault (map_option TrimSpace (adv_Severity zero_Advisory))"
    "\<not> IsNoneOrDefault (map_option TrimSpace (ref_SeverityVendor ?r1))"
    "ToLower (TrimSpace (UnwrapOr (ref_SeverityVendor ?r1) [])) = ''low''" by code_simp+
  then show ?thesis using effectiveSeverity_highest [of zero_Advisory "[?r1, ?r2]"] eff by auto
qed

end
