(* ===== verification/Build_Decisions.thy ===== *)
theory Build_Decisions
  imports Decisions "HOL-Library.AList" "HOL-Library.Multiset"
begin

text \<open>
  \<open>buildDecisions\<close> of \<open>internal/services/matchers/matcher.go\<close>: for every advisory of a resolved stream
  and every installed package it concerns, at most one decision, and the collapse of superseded
  decisions at the end. Two inputs of the loop come from the runtime and are parameters: the order in
  which Go ranges over a map (\<open>ranges\<close>, one permutation for each range statement and iteration) and
  the identifiers \<open>id.New\<close> draws (\<open>ids n\<close> is the \<open>n\<close>-th one; every record built is appended, so its
  position is the number of identifiers drawn before).
\<close>

section \<open>Rules and fixes of a package\<close>

definition matchingRulesForPackage ::
  "Package \<Rightarrow> AffectedPackageRule list \<Rightarrow> string \<Rightarrow> AffectedPackageRule list" where
  "matchingRulesForPackage pkg rules osFamily =
     filter (\<lambda>rule. matchesPackageArch (pkg_Arch pkg) (UnwrapOr (rule_Arch rule) []) osFamily) rules"

definition matchesRule :: "Package \<Rightarrow> AffectedPackageRule \<Rightarrow> string \<Rightarrow> evr_error + bool" where
  "matchesRule pkg rule osFamily =
     (if \<not> IsNoneOrDefault (rule_RpmEvrRule rule)
      then if osFamily = ''apt''
           then evaluateDebianEVRRule (pkg_evr pkg) (UnwrapOr (rule_RpmEvrRule rule) [])
           else evaluateEVRRule (pkg_evr pkg) (UnwrapOr (rule_RpmEvrRule rule) [])
      else Inr True)"

definition matchingFixedPackagesForStream ::
  "Package \<Rightarrow> string \<Rightarrow> FixedPackage list \<Rightarrow> string \<Rightarrow> FixedPackage list" where
  "matchingFixedPackagesForStream pkg productStreamID fixes osFamily =
     filter (\<lambda>fx. fix_ProductStreamID fx = productStreamID \<and>
                  matchesPackageArch (pkg_Arch pkg) (UnwrapOr (fix_Arch fx) []) osFamily) fixes"

definition matchingFixedPackagesForPackage ::
  "Package \<Rightarrow> FixedPackage list \<Rightarrow> string \<Rightarrow> FixedPackage list" where
  "matchingFixedPackagesForPackage pkg fixes osFamily =
     filter (\<lambda>fx. matchesPackageArch (pkg_Arch pkg) (UnwrapOr (fix_Arch fx) []) osFamily) fixes"

definition ruleVersionPart :: "string \<Rightarrow> string" where
  "ruleVersionPart rule = (case Fields (TrimSpace rule) of [_, v] \<Rightarrow> v | _ \<Rightarrow> [])"

text \<open>The loop that evaluates the rules of a package, with its early return on an error.\<close>

fun matched_rules :: "Package \<Rightarrow> string \<Rightarrow> AffectedPackageRule list \<Rightarrow> match_error + AffectedPackageRule list" where
  "matched_rules pkg osFamily [] = Inr []"
| "matched_rules pkg osFamily (rule # rules) =
     (case matchesRule pkg rule osFamily of
        Inl err \<Rightarrow> Inl (EvaluateRuleFailed (rule_ID rule) (pkg_Nevra pkg) err)
      | Inr matched \<Rightarrow>
          (case matched_rules pkg osFamily rules of
             Inl err \<Rightarrow> Inl err
           | Inr rest \<Rightarrow> Inr (if matched then rule # rest else rest)))"

text \<open>The map \<open>streamRules\<close>, kept with its keys in the order of insertion.\<close>

definition stream_rules_step ::
  "AffectedPackageRule \<Rightarrow> (string \<times> AffectedPackageRule) list \<Rightarrow> (string \<times> AffectedPackageRule) list" where
  "stream_rules_step rule streamRules =
     (case map_of streamRules (rule_ProductStreamID rule) of
        None \<Rightarrow> AList.update (rule_ProductStreamID rule) rule streamRules
      | Some existing \<Rightarrow>
          if UnwrapOr (rule_Arch existing) [] = ''source'' \<and> UnwrapOr (rule_Arch rule) [] = ''binary''
          then AList.update (rule_ProductStreamID rule) rule streamRules
          else if UnwrapOr (rule_Arch existing) [] = UnwrapOr (rule_Arch rule) []
          then let v1 = ruleVersionPart (UnwrapOr (rule_RpmEvrRule existing) []);
                   v2 = ruleVersionPart (UnwrapOr (rule_RpmEvrRule rule) [])
               in case (parseDebianEVR v1, parseDebianEVR v2) of
                    (Inr evr1, Inr evr2) \<Rightarrow>
                      if compareDebianEVR evr2 evr1 > 0
                      then AList.update (rule_ProductStreamID rule) rule streamRules
                      else streamRules
                  | _ \<Rightarrow> streamRules
          else streamRules)"

definition stream_rules :: "AffectedPackageRule list \<Rightarrow> (string \<times> AffectedPackageRule) list" where
  "stream_rules rules = fold stream_rules_step rules []"

text \<open>Debian rules narrowed to one for each product stream.\<close>

definition narrow_rules ::
  "(string list \<Rightarrow> string list) \<Rightarrow> string \<Rightarrow> AffectedPackageRule list \<Rightarrow> AffectedPackageRule list" where
  "narrow_rules range_streams osFamily matchedRules =
     (if osFamily = ''apt'' \<and> length matchedRules > 1
      then let streamRules = stream_rules matchedRules
           in map (\<lambda>k. UnwrapOr (map_of streamRules k) zero_AffectedPackageRule)
                (range_streams (map fst streamRules))
      else matchedRules)"

section \<open>Decision against a fixed package\<close>

text \<open>Whether a newer kernel of the same flavor or name, with the fix, is already installed.\<close>

definition newer_kernel_has_fix :: "string \<Rightarrow> Package list \<Rightarrow> string \<Rightarrow> evr \<Rightarrow> bool" where
  "newer_kernel_has_fix osFamily packages name fixed =
     (isKernelPackage name osFamily \<and>
      (if osFamily = ''apt''
       then isVersionedKernelPackageAPT name \<and>
            (case latestInstalledKernelEVRAPT packages (kernel_flavor name) of
               Some latest \<Rightarrow> compareDebianEVR latest fixed \<ge> 0
             | None \<Rightarrow> False)
       else (case latestInstalledKernelEVRRPM packages name of
               Some latest \<Rightarrow> compareEVR latest fixed \<ge> 0
             | None \<Rightarrow> False)))"

text \<open>Status, action, reason code and reason text.\<close>

type_synonym verdict = "string \<times> string \<times> string \<times> string"

definition pending_verdict :: "HostSnapshot \<Rightarrow> verdict" where
  "pending_verdict snapshot =
     (''fixed_package_installed_pending_activation'', ''reboot_host'',
      ''fixed_package_installed_kernel_not_running'',
      ''fixed kernel package is installed, but the running kernel ('' @ snap_RunningKernelNevra snapshot @
      '') requires a reboot to activate the fix'')"

definition fix_verdict ::
  "string \<Rightarrow> HostSnapshot \<Rightarrow> Package list \<Rightarrow> Package \<Rightarrow> FixedPackage \<Rightarrow> verdict" where
  "fix_verdict osFamily snapshot packages pkg bestFix =
     (let installed = pkg_evr pkg; fixed = fix_evr bestFix;
          compared = family_compare osFamily installed fixed
      in if compared < 0
         then if newer_kernel_has_fix osFamily packages (pkg_Name pkg) fixed
              then pending_verdict snapshot
              else (''affected_fix_available'', ''update_package'', ''vendor_fix_available_not_installed'',
                    ''a vendor fixed package ('' @ fix_Nevra bestFix @ '') is available but not installed'')
         else if isKernelPackage (pkg_Name pkg) osFamily \<and>
                 \<not> kernelRunningSatisfiesFixedBuild snapshot packages (pkg_Name pkg) fixed osFamily
              then pending_verdict snapshot
              else (''resolved'', ''none'', ''installed_package_at_or_above_fixed_build'',
                    ''installed package is at or above the vendor fixed build''))"

definition decisionFromFixedPackageOnly ::
  "string \<Rightarrow> string \<Rightarrow> string \<Rightarrow> HostSnapshot \<Rightarrow> Package list \<Rightarrow> Advisory \<Rightarrow> Package \<Rightarrow> FixedPackage \<Rightarrow>
   string \<Rightarrow> string \<Rightarrow> InsertDecisionRecordParams option" where
  "decisionFromFixedPackageOnly newID hostID osFamily snapshot packages advisory pkg bestFix severity computedAt =
     (let fixed = fix_evr bestFix;
          evidenceTier = decisionEvidenceTier [adv_EvidenceTier advisory, fix_EvidenceTier bestFix]
      in if kernelRunningSatisfiesFixedBuild snapshot packages (pkg_Name pkg) fixed osFamily then None
         else
           let (status, action, reasonCode, reasonText) = fix_verdict osFamily snapshot packages pkg bestFix
           in Some ((newDecisionRecord newID hostID (snap_ID snapshot) advisory pkg
                      (Some (fix_ProductStreamID bestFix)) status action severity evidenceTier
                      reasonCode reasonText computedAt)\<lparr>dec_FixedNevra := Some (fix_Nevra bestFix)\<rparr>))"

section \<open>One package of one advisory\<close>

definition fixed_only ::
  "string \<Rightarrow> string \<Rightarrow> string \<Rightarrow> HostSnapshot \<Rightarrow> Package list \<Rightarrow> Advisory \<Rightarrow> Package \<Rightarrow> FixedPackage list \<Rightarrow>
   string \<Rightarrow> string \<Rightarrow> match_error + InsertDecisionRecordParams option" where
  "fixed_only newID hostID osFamily snapshot packages advisory pkg relevantFixes effectiveSev computedAt =
     (if relevantFixes = [] then Inr None
      else (case selectBestFix relevantFixes osFamily of
              Inl err \<Rightarrow> Inl (SelectBestFixFailed (pkg_Nevra pkg) err)
            | Inr bestFix \<Rightarrow>
                Inr (decisionFromFixedPackageOnly newID hostID osFamily snapshot packages advisory pkg
                       bestFix effectiveSev computedAt)))"

definition ruled_decision ::
  "string \<Rightarrow> string \<Rightarrow> string \<Rightarrow> HostSnapshot \<Rightarrow> Package list \<Rightarrow> Advisory \<Rightarrow> Package \<Rightarrow> FixedPackage list \<Rightarrow>
   AffectedPackageRule \<Rightarrow> string \<Rightarrow> string \<Rightarrow> match_error + InsertDecisionRecordParams option" where
  "ruled_decision newID hostID osFamily snapshot packages advisory pkg fixesForPackage rule effectiveSev computedAt =
     (let fixedPackages = matchingFixedPackagesForStream pkg (rule_ProductStreamID rule) fixesForPackage osFamily in
      if fixedPackages = []
      then Inr (Some (newDecisionRecord newID hostID (snap_ID snapshot) advisory pkg
             (Some (rule_ProductStreamID rule)) ''affected_no_fix'' ''investigate'' effectiveSev
             (rule_EvidenceTier rule) ''vendor_fix_not_available''
             ''vendor advisory marks package affected but no fixed package is available'' computedAt))
      else (case selectBestFix fixedPackages osFamily of
              Inl err \<Rightarrow> Inl (SelectBestFixFailed (pkg_Nevra pkg) err)
            | Inr bestFix \<Rightarrow>
                let evidenceTier = decisionEvidenceTier
                      [adv_EvidenceTier advisory, rule_EvidenceTier rule, fix_EvidenceTier bestFix]
                in if kernelRunningSatisfiesFixedBuild snapshot packages (pkg_Name pkg) (fix_evr bestFix) osFamily
                   then Inr None
                   else
                     let (status, action, reasonCode, reasonText) = fix_verdict osFamily snapshot packages pkg bestFix
                     in Inr (Some ((newDecisionRecord newID hostID (snap_ID snapshot) advisory pkg
                          (Some (rule_ProductStreamID rule)) status action effectiveSev evidenceTier
                          reasonCode reasonText computedAt)\<lparr>dec_FixedNevra := Some (fix_Nevra bestFix)\<rparr>))))"

definition decide_package ::
  "string \<Rightarrow> (string list \<Rightarrow> string list) \<Rightarrow> string \<Rightarrow> string \<Rightarrow> HostSnapshot \<Rightarrow> Package list \<Rightarrow> Advisory \<Rightarrow>
   (string \<rightharpoonup> AffectedPackageRule list) \<Rightarrow> (string \<rightharpoonup> FixedPackage list) \<Rightarrow> string \<Rightarrow> string \<Rightarrow> Package \<Rightarrow>
   match_error + InsertDecisionRecordParams option" where
  "decide_package newID range_streams hostID osFamily snapshot packages advisory filteredRulesByPackage
     filteredFixesByPackage effectiveSev computedAt pkg =
     (let fixesForPackage = matchingFixesForPackageKeys pkg filteredFixesByPackage;
          rulesForPackage = matchingRulesForPackageKeys pkg filteredRulesByPackage;
          relevantFixes = matchingFixedPackagesForPackage pkg fixesForPackage osFamily;
          relevantRules = matchingRulesForPackage pkg rulesForPackage osFamily
      in if relevantRules = []
         then fixed_only newID hostID osFamily snapshot packages advisory pkg relevantFixes effectiveSev computedAt
         else
           (case matched_rules pkg osFamily relevantRules of
              Inl err \<Rightarrow> Inl err
            | Inr evaluated \<Rightarrow>
                (case narrow_rules range_streams osFamily evaluated of
                   [] \<Rightarrow> fixed_only newID hostID osFamily snapshot packages advisory pkg relevantFixes effectiveSev computedAt
                 | [rule] \<Rightarrow>
                     ruled_decision newID hostID osFamily snapshot packages advisory pkg fixesForPackage rule effectiveSev computedAt
                 | _ \<Rightarrow>
                     Inr (Some (newDecisionRecord newID hostID (snap_ID snapshot) advisory pkg None
                       ''unknown'' ''investigate'' effectiveSev ''unknown'' ''package_mapping_incomplete''
                       ''multiple affected package rules matched'' computedAt)))))"

section \<open>The two loops\<close>

record map_ranges =
  range_packages :: "Advisory \<Rightarrow> string list \<Rightarrow> string list"
  range_rules :: "Advisory \<Rightarrow> Package \<Rightarrow> string list \<Rightarrow> string list"

definition ranges_ok :: "map_ranges \<Rightarrow> bool" where
  "ranges_ok ranges \<longleftrightarrow>
     (\<forall>a. range_ok (range_packages ranges a)) \<and> (\<forall>a p. range_ok (range_rules ranges a p))"

definition insertion_order :: map_ranges where
  "insertion_order = \<lparr>range_packages = (\<lambda>_ ks. ks), range_rules = (\<lambda>_ _ ks. ks)\<rparr>"

definition reverse_order :: map_ranges where
  "reverse_order = \<lparr>range_packages = (\<lambda>_ ks. rev ks), range_rules = (\<lambda>_ _ ks. rev ks)\<rparr>"

fun candidates_loop ::
  "(string \<Rightarrow> Package \<Rightarrow> match_error + InsertDecisionRecordParams option) \<Rightarrow> (Package \<Rightarrow> bool) \<Rightarrow> string \<Rightarrow>
   (nat \<Rightarrow> string) \<Rightarrow> Package list \<Rightarrow> decision list \<Rightarrow> match_error + decision list" where
  "candidates_loop decide relevant effectiveSev ids [] decisions = Inr decisions"
| "candidates_loop decide relevant effectiveSev ids (pkg # pkgs) decisions =
     (if \<not> relevant pkg then candidates_loop decide relevant effectiveSev ids pkgs decisions
      else (case decide (ids (length decisions)) pkg of
              Inl err \<Rightarrow> Inl err
            | Inr None \<Rightarrow> candidates_loop decide relevant effectiveSev ids pkgs decisions
            | Inr (Some r) \<Rightarrow>
                candidates_loop decide relevant effectiveSev ids pkgs
                  (decisions @ [\<lparr>d_record = r, d_severity = effectiveSev\<rparr>])))"

definition advisory_step ::
  "map_ranges \<Rightarrow> (nat \<Rightarrow> string) \<Rightarrow> string \<Rightarrow> string \<Rightarrow> HostSnapshot \<Rightarrow> Package list \<Rightarrow> string set \<Rightarrow>
   (string \<rightharpoonup> string list) \<Rightarrow> (string \<rightharpoonup> AffectedPackageRule list) \<Rightarrow> (string \<rightharpoonup> FixedPackage list) \<Rightarrow>
   (string \<rightharpoonup> AdvisoryReference list) \<Rightarrow> string \<Rightarrow> Advisory \<Rightarrow> decision list \<Rightarrow> match_error + decision list" where
  "advisory_step ranges ids hostID osFamily snapshot packages resolvedStreamIDs advisoryStreams
     rulesByAdvisory fixesByAdvisory referencesByAdvisory computedAt advisory decisions =
     (if \<not> appliesToResolvedStream (adv_ID advisory) resolvedStreamIDs advisoryStreams then Inr decisions
      else
        let effectiveSev = effectiveSeverity advisory (slice_at referencesByAdvisory (adv_ID advisory));
            filteredRules = filterRulesByPackage (slice_at rulesByAdvisory (adv_ID advisory)) resolvedStreamIDs;
            filteredFixes = filterFixesByPackage (slice_at fixesByAdvisory (adv_ID advisory)) resolvedStreamIDs
        in candidates_loop
             (\<lambda>newID pkg. decide_package newID (range_rules ranges advisory pkg) hostID osFamily snapshot packages
                advisory filteredRules filteredFixes effectiveSev computedAt pkg)
             (\<lambda>pkg. isRelevantKernelPackage pkg osFamily snapshot packages)
             effectiveSev ids
             (candidatePackages (range_packages ranges advisory (package_names packages))
                (indexPackagesByName packages) filteredRules filteredFixes)
             decisions)"

fun advisories_loop ::
  "(Advisory \<Rightarrow> decision list \<Rightarrow> match_error + decision list) \<Rightarrow> Advisory list \<Rightarrow> decision list \<Rightarrow>
   match_error + decision list" where
  "advisories_loop step [] decisions = Inr decisions"
| "advisories_loop step (advisory # advisories) decisions =
     (case step advisory decisions of
        Inl err \<Rightarrow> Inl err
      | Inr decisions1 \<Rightarrow> advisories_loop step advisories decisions1)"

definition buildDecisions ::
  "map_ranges \<Rightarrow> (nat \<Rightarrow> string) \<Rightarrow> string \<Rightarrow> string \<Rightarrow> HostSnapshot \<Rightarrow> Package list \<Rightarrow> ProductStream list \<Rightarrow>
   Advisory list \<Rightarrow> (string \<rightharpoonup> string list) \<Rightarrow> (string \<rightharpoonup> AffectedPackageRule list) \<Rightarrow>
   (string \<rightharpoonup> FixedPackage list) \<Rightarrow> (string \<rightharpoonup> AdvisoryReference list) \<Rightarrow> string \<Rightarrow>
   match_error + decision list" where
  "buildDecisions ranges ids hostID osFamily snapshot packages streams advisories advisoryStreams
     rulesByAdvisory fixesByAdvisory referencesByAdvisory computedAt =
     (case advisories_loop
             (advisory_step ranges ids hostID osFamily snapshot packages (streamIDSet streams) advisoryStreams
                rulesByAdvisory fixesByAdvisory referencesByAdvisory computedAt)
             advisories [] of
        Inl err \<Rightarrow> Inl err
      | Inr decisions \<Rightarrow> Inr (collapseSupersededDecisions decisions osFamily))"

section \<open>Identifiers and map order do not matter to a single decision\<close>

text \<open>A record, a decision and an outcome without the identifier drawn for it.\<close>

definition strip_id :: "InsertDecisionRecordParams \<Rightarrow> InsertDecisionRecordParams" where
  "strip_id r = r\<lparr>dec_ID := []\<rparr>"

definition strip :: "decision \<Rightarrow> decision" where
  "strip d = d\<lparr>d_record := strip_id (d_record d)\<rparr>"

definition strip_out ::
  "match_error + InsertDecisionRecordParams option \<Rightarrow> match_error + InsertDecisionRecordParams option" where
  "strip_out res = map_sum id (map_option strip_id) res"

lemma strip_id_new [simp]:
  "strip_id (newDecisionRecord newID h s a p ps st ac sv et rc rt ca) = newDecisionRecord [] h s a p ps st ac sv et rc rt ca"
  "strip_id ((newDecisionRecord newID h s a p ps st ac sv et rc rt ca)\<lparr>dec_FixedNevra := fn\<rparr>) =
     (newDecisionRecord [] h s a p ps st ac sv et rc rt ca)\<lparr>dec_FixedNevra := fn\<rparr>"
  by (simp_all add: strip_id_def newDecisionRecord_def)

lemma strip_id_fields [simp]:
  "dec_HostID (strip_id r) = dec_HostID r" "dec_SnapshotID (strip_id r) = dec_SnapshotID r"
  "dec_AdvisoryID (strip_id r) = dec_AdvisoryID r" "dec_InstalledPackageID (strip_id r) = dec_InstalledPackageID r"
  "dec_ProductStreamID (strip_id r) = dec_ProductStreamID r" "dec_PackageName (strip_id r) = dec_PackageName r"
  "dec_InstalledNevra (strip_id r) = dec_InstalledNevra r" "dec_FixedNevra (strip_id r) = dec_FixedNevra r"
  "dec_Status (strip_id r) = dec_Status r" "dec_Action (strip_id r) = dec_Action r"
  "dec_ReasonCode (strip_id r) = dec_ReasonCode r"
  by (simp_all add: strip_id_def)

lemma strip_fields [simp]: "d_severity (strip d) = d_severity d" "d_record (strip d) = strip_id (d_record d)"
  by (simp_all add: strip_def)

lemma dkey_strip [simp]: "newDecisionKey (strip_id r) = newDecisionKey r"
  by (simp add: newDecisionKey_def)

lemma decision_cmp_strip: "decision_cmp os (strip x) (strip y) = decision_cmp os x y"
  by (simp add: decision_cmp_def decisionPriority_def parseDecisionFixedEVR_def)

lemma stream_rules_step_distinct: "distinct (map fst m) \<Longrightarrow> distinct (map fst (stream_rules_step r m))"
  by (auto simp: stream_rules_step_def Let_def distinct_update split: option.split sum.split)

lemma stream_rules_distinct: "distinct (map fst (stream_rules rules))"
proof -
  have "distinct (map fst m) \<Longrightarrow> distinct (map fst (fold stream_rules_step rules m))" for m
    by (induction rules arbitrary: m) (simp_all add: stream_rules_step_distinct)
  then show ?thesis by (simp add: stream_rules_def)
qed

text \<open>A permutation of a list of at most one element is that list.\<close>

lemma range_ok_short:
  assumes "range_ok r" "distinct ks" "length ks \<le> 1"
  shows "r ks = ks"
proof -
  have "distinct (r ks)" "set (r ks) = set ks" using assms by (simp_all add: range_ok_def)
  then have "length (r ks) = length ks" using assms(2) by (metis distinct_card)
  with assms(3) \<open>set (r ks) = set ks\<close> show ?thesis
    by (cases ks; cases "r ks") (auto simp: length_Suc_conv)
qed

lemma range_ok_length: "range_ok r \<Longrightarrow> distinct ks \<Longrightarrow> length (r ks) = length ks"
  by (metis range_ok_def distinct_card)

lemma narrow_rules_cases:
  assumes "range_ok rs"
  shows "narrow_rules rs os ms = narrow_rules (\<lambda>ks. ks) os ms \<or>
    length (narrow_rules rs os ms) > 1 \<and> length (narrow_rules (\<lambda>ks. ks) os ms) > 1"
proof (cases "length (map fst (stream_rules ms)) \<le> 1")
  case True
  then show ?thesis using range_ok_short [OF assms stream_rules_distinct] by (simp add: narrow_rules_def Let_def)
next
  case False
  then show ?thesis
    using range_ok_length [OF assms stream_rules_distinct, of ms] by (auto simp: narrow_rules_def Let_def)
qed

lemma strip_out_simps [simp]:
  "strip_out (Inl e) = Inl e" "strip_out (Inr None) = Inr None" "strip_out (Inr (Some r)) = Inr (Some (strip_id r))"
  by (simp_all add: strip_out_def)

lemma fixed_only_strip:
  "strip_out (fixed_only newID h os snap ps a p fs sv ca) = fixed_only [] h os snap ps a p fs sv ca"
  by (auto simp: fixed_only_def decisionFromFixedPackageOnly_def Let_def split: sum.split prod.split)

lemma ruled_decision_strip:
  "strip_out (ruled_decision newID h os snap ps a p fs rl sv ca) = ruled_decision [] h os snap ps a p fs rl sv ca"
  by (auto simp: ruled_decision_def Let_def split: sum.split prod.split)

lemma decide_package_strip:
  assumes "range_ok rs"
  shows "strip_out (decide_package newID rs h os snap ps a FR FF sv ca p) =
    decide_package [] (\<lambda>ks. ks) h os snap ps a FR FF sv ca p"
proof -
  have two: "length xs > 1 \<Longrightarrow> \<exists>x y zs. xs = x # y # zs" for xs :: "AffectedPackageRule list"
    by (cases xs; cases "tl xs") auto
  show ?thesis
  proof (cases "matched_rules p os (matchingRulesForPackage p (matchingRulesForPackageKeys p FR) os)")
    case (Inl e)
    then show ?thesis by (simp add: decide_package_def Let_def fixed_only_strip)
  next
    case (Inr ms)
    from narrow_rules_cases [OF assms, of os ms] show ?thesis
    proof
      assume "narrow_rules rs os ms = narrow_rules (\<lambda>ks. ks) os ms"
      with Inr show ?thesis
        by (auto simp: decide_package_def Let_def fixed_only_strip ruled_decision_strip split: list.split)
    next
      assume "length (narrow_rules rs os ms) > 1 \<and> length (narrow_rules (\<lambda>ks. ks) os ms) > 1"
      then obtain x y zs x' y' zs' where "narrow_rules rs os ms = x # y # zs"
        "narrow_rules (\<lambda>ks. ks) os ms = x' # y' # zs'" using two by metis
      with Inr show ?thesis by (simp add: decide_package_def Let_def fixed_only_strip)
    qed
  qed
qed

section \<open>What the loops collect\<close>

definition loop_result :: "'e + decision list \<Rightarrow> bool \<Rightarrow> decision set \<Rightarrow> bool" where
  "loop_result res bad S = (case res of Inl _ \<Rightarrow> bad | Inr out \<Rightarrow> \<not> bad \<and> strip ` set out = S)"

lemma candidates_loop_result:
  assumes "\<And>n pkg. strip_out (decide n pkg) = D pkg"
  shows "loop_result (candidates_loop decide rel sev ids pkgs ds)
    (\<exists>pkg \<in> set pkgs. rel pkg \<and> isl (D pkg))
    (strip ` set ds \<union> {d. \<exists>pkg \<in> set pkgs. rel pkg \<and> D pkg = Inr (Some (d_record d)) \<and> d_severity d = sev})"
proof (induction pkgs arbitrary: ds)
  case Nil
  then show ?case by (simp add: loop_result_def)
next
  case (Cons p pkgs)
  show ?case
  proof (cases "rel p")
    case False
    then show ?thesis using Cons.IH [of ds] by (simp add: loop_result_def split: sum.split)
  next
    case True
    have D: "strip_out (decide (ids (length ds)) p) = D p" by (rule assms)
    consider e where "decide (ids (length ds)) p = Inl e" | "decide (ids (length ds)) p = Inr None"
      | r where "decide (ids (length ds)) p = Inr (Some r)" by (metis not_Some_eq obj_sumE)
    then show ?thesis
    proof cases
      case 1
      then show ?thesis using True D [symmetric] by (simp add: loop_result_def)
    next
      case 2
      then show ?thesis using True D [symmetric] Cons.IH [of ds] by (simp add: loop_result_def split: sum.split)
    next
      case 3
      let ?d = "\<lparr>d_record = r, d_severity = sev\<rparr>"
      have new: "strip ?d = \<lparr>d_record = strip_id r, d_severity = sev\<rparr>" by (simp add: strip_def)
      have "{d. D p = Inr (Some (d_record d)) \<and> d_severity d = sev} = {strip ?d}"
        using D 3 new by (auto simp: eq_commute)
      then have "{d. \<exists>pkg \<in> set (p # pkgs). rel pkg \<and> D pkg = Inr (Some (d_record d)) \<and> d_severity d = sev} =
          {strip ?d} \<union> {d. \<exists>pkg \<in> set pkgs. rel pkg \<and> D pkg = Inr (Some (d_record d)) \<and> d_severity d = sev}"
        using True by auto
      then show ?thesis
        using 3 True D [symmetric] Cons.IH [of "ds @ [?d]"] by (simp add: loop_result_def split: sum.split)
    qed
  qed
qed

lemma advisories_loop_result:
  assumes "\<And>adv ds. loop_result (step adv ds) (B adv) (strip ` set ds \<union> S adv)"
  shows "loop_result (advisories_loop step advs ds) (\<exists>adv \<in> set advs. B adv)
    (strip ` set ds \<union> (\<Union>adv \<in> set advs. S adv))"
proof (induction advs arbitrary: ds)
  case Nil
  then show ?case by (simp add: loop_result_def)
next
  case (Cons a advs)
  show ?case
  proof (cases "step a ds")
    case (Inl e)
    then show ?thesis using assms [of a ds] by (simp add: loop_result_def)
  next
    case (Inr ds1)
    then have "\<not> B a" "strip ` set ds1 = strip ` set ds \<union> S a"
      using assms [of a ds] by (simp_all add: loop_result_def)
    then show ?thesis using Inr Cons.IH [of ds1] by (simp add: loop_result_def Un_assoc split: sum.split)
  qed
qed

section \<open>Runs of \<open>buildDecisions\<close>\<close>

text \<open>The arguments of a call, and what it collects before the collapse.\<close>

record match_input =
  in_hostID :: string
  in_osFamily :: string
  in_snapshot :: HostSnapshot
  in_packages :: "Package list"
  in_streams :: "ProductStream list"
  in_advisories :: "Advisory list"
  in_advisoryStreams :: "string \<rightharpoonup> string list"
  in_rules :: "string \<rightharpoonup> AffectedPackageRule list"
  in_fixes :: "string \<rightharpoonup> FixedPackage list"
  in_refs :: "string \<rightharpoonup> AdvisoryReference list"
  in_computedAt :: string

abbreviation run_build :: "map_ranges \<Rightarrow> (nat \<Rightarrow> string) \<Rightarrow> match_input \<Rightarrow> match_error + decision list" where
  "run_build ranges ids i \<equiv>
     buildDecisions ranges ids (in_hostID i) (in_osFamily i) (in_snapshot i) (in_packages i) (in_streams i)
       (in_advisories i) (in_advisoryStreams i) (in_rules i) (in_fixes i) (in_refs i) (in_computedAt i)"

definition in_resolved :: "match_input \<Rightarrow> string set" where
  "in_resolved i = streamIDSet (in_streams i)"

definition in_severity :: "match_input \<Rightarrow> Advisory \<Rightarrow> string" where
  "in_severity i adv = effectiveSeverity adv (slice_at (in_refs i) (adv_ID adv))"

definition in_candidates :: "map_ranges \<Rightarrow> match_input \<Rightarrow> Advisory \<Rightarrow> Package list" where
  "in_candidates ranges i adv =
     candidatePackages (range_packages ranges adv (package_names (in_packages i))) (indexPackagesByName (in_packages i))
       (filterRulesByPackage (slice_at (in_rules i) (adv_ID adv)) (in_resolved i))
       (filterFixesByPackage (slice_at (in_fixes i) (adv_ID adv)) (in_resolved i))"

definition in_outcome :: "match_input \<Rightarrow> Advisory \<Rightarrow> Package \<Rightarrow> match_error + InsertDecisionRecordParams option" where
  "in_outcome i adv pkg =
     decide_package [] (\<lambda>ks. ks) (in_hostID i) (in_osFamily i) (in_snapshot i) (in_packages i) adv
       (filterRulesByPackage (slice_at (in_rules i) (adv_ID adv)) (in_resolved i))
       (filterFixesByPackage (slice_at (in_fixes i) (adv_ID adv)) (in_resolved i))
       (in_severity i adv) (in_computedAt i) pkg"

definition considered :: "map_ranges \<Rightarrow> match_input \<Rightarrow> (Advisory \<times> Package) set" where
  "considered ranges i =
     {(adv, pkg). adv \<in> set (in_advisories i) \<and>
        appliesToResolvedStream (adv_ID adv) (in_resolved i) (in_advisoryStreams i) \<and>
        pkg \<in> set (in_candidates ranges i adv) \<and>
        isRelevantKernelPackage pkg (in_osFamily i) (in_snapshot i) (in_packages i)}"

definition collected :: "map_ranges \<Rightarrow> match_input \<Rightarrow> decision set" where
  "collected ranges i =
     {d. \<exists>(adv, pkg) \<in> considered ranges i. in_outcome i adv pkg = Inr (Some (d_record d)) \<and> d_severity d = in_severity i adv}"

lemma advisory_step_result:
  assumes "ranges_ok ranges"
  shows "loop_result
     (advisory_step ranges ids (in_hostID i) (in_osFamily i) (in_snapshot i) (in_packages i) (in_resolved i)
        (in_advisoryStreams i) (in_rules i) (in_fixes i) (in_refs i) (in_computedAt i) adv ds)
     (appliesToResolvedStream (adv_ID adv) (in_resolved i) (in_advisoryStreams i) \<and>
      (\<exists>pkg \<in> set (in_candidates ranges i adv).
         isRelevantKernelPackage pkg (in_osFamily i) (in_snapshot i) (in_packages i) \<and> isl (in_outcome i adv pkg)))
     (strip ` set ds \<union>
      {d. appliesToResolvedStream (adv_ID adv) (in_resolved i) (in_advisoryStreams i) \<and>
          (\<exists>pkg \<in> set (in_candidates ranges i adv).
             isRelevantKernelPackage pkg (in_osFamily i) (in_snapshot i) (in_packages i) \<and>
             in_outcome i adv pkg = Inr (Some (d_record d)) \<and> d_severity d = in_severity i adv)})"
proof (cases "appliesToResolvedStream (adv_ID adv) (in_resolved i) (in_advisoryStreams i)")
  case False
  then show ?thesis by (simp add: advisory_step_def loop_result_def)
next
  case True
  have dec: "strip_out (decide_package n (range_rules ranges adv pkg) (in_hostID i) (in_osFamily i) (in_snapshot i)
       (in_packages i) adv
       (filterRulesByPackage (slice_at (in_rules i) (adv_ID adv)) (in_resolved i))
       (filterFixesByPackage (slice_at (in_fixes i) (adv_ID adv)) (in_resolved i))
       (in_severity i adv) (in_computedAt i) pkg) = in_outcome i adv pkg" for n pkg
    unfolding in_outcome_def using assms by (intro decide_package_strip) (simp add: ranges_ok_def)
  note loop = candidates_loop_result [where decide = "\<lambda>n pkg. decide_package n (range_rules ranges adv pkg) (in_hostID i)
       (in_osFamily i) (in_snapshot i) (in_packages i) adv
       (filterRulesByPackage (slice_at (in_rules i) (adv_ID adv)) (in_resolved i))
       (filterFixesByPackage (slice_at (in_fixes i) (adv_ID adv)) (in_resolved i))
       (in_severity i adv) (in_computedAt i) pkg", OF dec]
  show ?thesis
    using True loop [of "\<lambda>pkg. isRelevantKernelPackage pkg (in_osFamily i) (in_snapshot i) (in_packages i)"
        "in_severity i adv" ids "in_candidates ranges i adv" ds]
    by (simp add: advisory_step_def Let_def in_candidates_def in_severity_def)
qed

lemma build_raw:
  assumes "ranges_ok ranges"
  shows "loop_result
     (advisories_loop
       (advisory_step ranges ids (in_hostID i) (in_osFamily i) (in_snapshot i) (in_packages i) (in_resolved i)
          (in_advisoryStreams i) (in_rules i) (in_fixes i) (in_refs i) (in_computedAt i)) (in_advisories i) [])
     (\<exists>(adv, pkg) \<in> considered ranges i. isl (in_outcome i adv pkg)) (collected ranges i)"
    (is "loop_result ?loop _ _")
proof -
  let ?B = "\<lambda>adv. appliesToResolvedStream (adv_ID adv) (in_resolved i) (in_advisoryStreams i) \<and>
      (\<exists>pkg \<in> set (in_candidates ranges i adv).
         isRelevantKernelPackage pkg (in_osFamily i) (in_snapshot i) (in_packages i) \<and> isl (in_outcome i adv pkg))"
  let ?S = "\<lambda>adv. {d. appliesToResolvedStream (adv_ID adv) (in_resolved i) (in_advisoryStreams i) \<and>
          (\<exists>pkg \<in> set (in_candidates ranges i adv).
             isRelevantKernelPackage pkg (in_osFamily i) (in_snapshot i) (in_packages i) \<and>
             in_outcome i adv pkg = Inr (Some (d_record d)) \<and> d_severity d = in_severity i adv)}"
  have "loop_result ?loop (\<exists>adv \<in> set (in_advisories i). ?B adv)
      (strip ` set [] \<union> (\<Union>adv \<in> set (in_advisories i). ?S adv))"
    by (rule advisories_loop_result) (rule advisory_step_result [OF assms])
  moreover have "strip ` set [] \<union> (\<Union>adv \<in> set (in_advisories i). ?S adv) = collected ranges i"
    unfolding collected_def considered_def by auto
  moreover have "(\<exists>adv \<in> set (in_advisories i). ?B adv) \<longleftrightarrow> (\<exists>(adv, pkg) \<in> considered ranges i. isl (in_outcome i adv pkg))"
    unfolding considered_def by blast
  ultimately show ?thesis by (simp only:)
qed

lemma build_Inr:
  assumes "ranges_ok ranges" "run_build ranges ids i = Inr out"
  obtains raw where "out = collapseSupersededDecisions raw (in_osFamily i)" "strip ` set raw = collected ranges i"
    "\<not> (\<exists>(adv, pkg) \<in> considered ranges i. isl (in_outcome i adv pkg))"
  using build_raw [OF assms(1), of ids i] assms(2) that
  by (auto simp: buildDecisions_def loop_result_def in_resolved_def split: sum.splits)

lemma build_Inl:
  assumes "ranges_ok ranges"
  shows "isl (run_build ranges ids i) \<longleftrightarrow> (\<exists>(adv, pkg) \<in> considered ranges i. isl (in_outcome i adv pkg))"
  using build_raw [OF assms(1), of ids i]
  by (auto simp: buildDecisions_def loop_result_def in_resolved_def split: sum.splits)

lemma candidatePackages_subset:
  assumes "range_ok r"
  shows "set (candidatePackages (r (package_names ps)) (indexPackagesByName ps)
      (filterRulesByPackage rules R) (filterFixesByPackage fxs R)) \<subseteq>
    {p \<in> set ps. (\<exists>rl \<in> set rules. rule_concerns R p rl) \<or> (\<exists>f \<in> set fxs. fix_concerns R p f)}"
  unfolding candidatePackages_def candidate_pool [OF assms, symmetric] by (rule set_dedup_by_subset)

lemma considered_installed:
  assumes "ranges_ok ranges" "(adv, pkg) \<in> considered ranges i"
  shows "adv \<in> set (in_advisories i) \<and> pkg \<in> set (in_packages i)"
proof -
  have "range_ok (range_packages ranges adv)" using assms(1) by (simp add: ranges_ok_def)
  from candidatePackages_subset [OF this] assms(2) show ?thesis
    unfolding considered_def in_candidates_def by blast
qed

text \<open>Every decision of the result was made for one advisory and one package.\<close>

lemma build_provenance:
  assumes "ranges_ok ranges" "run_build ranges ids i = Inr out" "d \<in> set out"
  obtains adv pkg where "(adv, pkg) \<in> considered ranges i" "in_outcome i adv pkg = Inr (Some (strip_id (d_record d)))"
    "d_severity d = in_severity i adv"
proof -
  from assms(1,2) obtain raw where raw: "out = collapseSupersededDecisions raw (in_osFamily i)" "strip ` set raw = collected ranges i"
    by (rule build_Inr)
  from assms(3) obtain k where "best_for (in_osFamily i) raw k = Some d"
    unfolding raw(1) collapse_mem by blast
  then have "d \<in> set raw" by (blast dest: best_for_key)
  then have "strip d \<in> collected ranges i" using raw(2) by blast
  then show ?thesis using that unfolding collected_def by auto
qed

section \<open>The meaning of a decision\<close>

text \<open>The three verdicts on a fix, for a package whose running kernel does not already satisfy it.\<close>

definition verdict_meaning ::
  "string \<Rightarrow> HostSnapshot \<Rightarrow> Package list \<Rightarrow> Package \<Rightarrow> FixedPackage \<Rightarrow> InsertDecisionRecordParams \<Rightarrow> bool" where
  "verdict_meaning os snap ps p f r \<longleftrightarrow>
     (dec_Status r = ''affected_fix_available'' \<and> dec_Action r = ''update_package'' \<and>
        dec_ReasonCode r = ''vendor_fix_available_not_installed'' \<and>
        family_compare os (pkg_evr p) (fix_evr f) < 0 \<and> \<not> newer_kernel_has_fix os ps (pkg_Name p) (fix_evr f)) \<or>
     (dec_Status r = ''fixed_package_installed_pending_activation'' \<and> dec_Action r = ''reboot_host'' \<and>
        dec_ReasonCode r = ''fixed_package_installed_kernel_not_running'' \<and>
        isKernelPackage (pkg_Name p) os \<and> \<not> kernelRunningSatisfiesFixedBuild snap ps (pkg_Name p) (fix_evr f) os \<and>
        (family_compare os (pkg_evr p) (fix_evr f) \<ge> 0 \<or> newer_kernel_has_fix os ps (pkg_Name p) (fix_evr f))) \<or>
     (dec_Status r = ''resolved'' \<and> dec_Action r = ''none'' \<and>
        dec_ReasonCode r = ''installed_package_at_or_above_fixed_build'' \<and>
        \<not> isKernelPackage (pkg_Name p) os \<and> family_compare os (pkg_evr p) (fix_evr f) \<ge> 0)"

lemma fix_verdict_meaning:
  assumes "fix_verdict os snap ps p f = (dec_Status r, dec_Action r, dec_ReasonCode r, rt)"
    and "\<not> kernelRunningSatisfiesFixedBuild snap ps (pkg_Name p) (fix_evr f) os"
  shows "verdict_meaning os snap ps p f r"
proof -
  have "newer_kernel_has_fix os ps (pkg_Name p) (fix_evr f) \<Longrightarrow> isKernelPackage (pkg_Name p) os"
    by (simp add: newer_kernel_has_fix_def)
  with assms show ?thesis
    unfolding fix_verdict_def pending_verdict_def verdict_meaning_def Let_def
    by (auto split: if_splits)
qed

definition grounded_in_fix ::
  "string \<Rightarrow> HostSnapshot \<Rightarrow> Package list \<Rightarrow> Package \<Rightarrow> FixedPackage list \<Rightarrow> InsertDecisionRecordParams \<Rightarrow> bool" where
  "grounded_in_fix os snap ps p fs r \<longleftrightarrow>
     (\<exists>f \<in> set fs. matchesPackageArch (pkg_Arch p) (UnwrapOr (fix_Arch f) []) os \<and>
        dec_FixedNevra r = Some (fix_Nevra f) \<and> dec_ProductStreamID r = Some (fix_ProductStreamID f) \<and>
        verdict_meaning os snap ps p f r)"

definition decision_header :: "string \<Rightarrow> HostSnapshot \<Rightarrow> Advisory \<Rightarrow> Package \<Rightarrow> InsertDecisionRecordParams \<Rightarrow> bool" where
  "decision_header h snap a p r \<longleftrightarrow> dec_HostID r = h \<and> dec_SnapshotID r = snap_ID snap \<and>
     dec_AdvisoryID r = adv_ID a \<and> dec_PackageName r = pkg_Name p \<and> dec_InstalledNevra r = Some (pkg_Nevra p) \<and>
     dec_InstalledPackageID r = None"

lemma decisionFromFixedPackageOnly_Some:
  assumes "decisionFromFixedPackageOnly newID h os snap ps a p f sv ca = Some r"
  shows "decision_header h snap a p r \<and> dec_FixedNevra r = Some (fix_Nevra f) \<and>
    dec_ProductStreamID r = Some (fix_ProductStreamID f) \<and> verdict_meaning os snap ps p f r"
proof -
  obtain st ac rc rt where v: "fix_verdict os snap ps p f = (st, ac, rc, rt)" by (metis prod_cases4)
  with assms have sat: "\<not> kernelRunningSatisfiesFixedBuild snap ps (pkg_Name p) (fix_evr f) os"
    and r: "dec_Status r = st" "dec_Action r = ac" "dec_ReasonCode r = rc"
      "decision_header h snap a p r" "dec_FixedNevra r = Some (fix_Nevra f)"
      "dec_ProductStreamID r = Some (fix_ProductStreamID f)"
    by (auto simp: decisionFromFixedPackageOnly_def newDecisionRecord_def decision_header_def Let_def split: if_splits)
  with v show ?thesis using fix_verdict_meaning [of os snap ps p f r rt] by simp
qed

lemma fixed_only_Some:
  assumes "fixed_only newID h os snap ps a p (matchingFixedPackagesForPackage p fs os) sv ca = Inr (Some r)"
  shows "decision_header h snap a p r \<and> grounded_in_fix os snap ps p fs r"
proof -
  from assms obtain f where "selectBestFix (matchingFixedPackagesForPackage p fs os) os = Inr f"
    "decisionFromFixedPackageOnly newID h os snap ps a p f sv ca = Some r"
    by (auto simp: fixed_only_def split: if_splits sum.splits)
  moreover from this(1) have "f \<in> set fs \<and> matchesPackageArch (pkg_Arch p) (UnwrapOr (fix_Arch f) []) os"
    using selectBestFix_Inr by (fastforce simp: matchingFixedPackagesForPackage_def)
  ultimately show ?thesis
    using decisionFromFixedPackageOnly_Some [of newID h os snap ps a p f sv ca r] unfolding grounded_in_fix_def by blast
qed

lemma ruled_decision_Some:
  assumes "ruled_decision newID h os snap ps a p fs rl sv ca = Inr (Some r)"
  shows "decision_header h snap a p r \<and>
    (grounded_in_fix os snap ps p fs r \<or>
     dec_Status r = ''affected_no_fix'' \<and> dec_Action r = ''investigate'' \<and> dec_ReasonCode r = ''vendor_fix_not_available'' \<and>
     dec_FixedNevra r = None \<and>
     (\<forall>f \<in> set fs. fix_ProductStreamID f = rule_ProductStreamID rl \<longrightarrow> \<not> matchesPackageArch (pkg_Arch p) (UnwrapOr (fix_Arch f) []) os))"
proof (cases "matchingFixedPackagesForStream p (rule_ProductStreamID rl) fs os = []")
  case True
  then show ?thesis
    using assms by (auto simp: ruled_decision_def newDecisionRecord_def decision_header_def
        matchingFixedPackagesForStream_def filter_empty_conv)
next
  case False
  with assms obtain f where sel: "selectBestFix (matchingFixedPackagesForStream p (rule_ProductStreamID rl) fs os) os = Inr f"
    by (auto simp: ruled_decision_def Let_def split: sum.splits)
  from selectBestFix_Inr [OF this] have f: "f \<in> set fs" "fix_ProductStreamID f = rule_ProductStreamID rl"
    "matchesPackageArch (pkg_Arch p) (UnwrapOr (fix_Arch f) []) os"
    by (auto simp: matchingFixedPackagesForStream_def)
  obtain st ac rc rt where v: "fix_verdict os snap ps p f = (st, ac, rc, rt)" by (metis prod_cases4)
  with assms sel False f(2) have sat: "\<not> kernelRunningSatisfiesFixedBuild snap ps (pkg_Name p) (fix_evr f) os"
    and r: "dec_Status r = st" "dec_Action r = ac" "dec_ReasonCode r = rc"
      "decision_header h snap a p r" "dec_FixedNevra r = Some (fix_Nevra f)"
      "dec_ProductStreamID r = Some (fix_ProductStreamID f)"
    by (auto simp: ruled_decision_def newDecisionRecord_def decision_header_def Let_def split: if_splits)
  with v f show ?thesis using fix_verdict_meaning [of os snap ps p f r rt] unfolding grounded_in_fix_def by auto
qed

lemma decide_package_branches:
  fixes newID h os snap ps a FF sv ca p
  defines "fx \<equiv> matchingFixesForPackageKeys p FF"
  defines "F \<equiv> fixed_only newID h os snap ps a p (matchingFixedPackagesForPackage p fx os) sv ca"
    and "L \<equiv> (\<lambda>rl. ruled_decision newID h os snap ps a p fx rl sv ca)"
    and "U \<equiv> newDecisionRecord newID h (snap_ID snap) a p None ''unknown'' ''investigate'' sv ''unknown''
         ''package_mapping_incomplete'' ''multiple affected package rules matched'' ca"
  assumes res: "decide_package newID rs h os snap ps a FR FF sv ca p = Inr (Some r)"
  shows "F = Inr (Some r) \<or> (\<exists>rl. L rl = Inr (Some r)) \<or> r = U"
proof -
  let ?ms = "matched_rules p os (matchingRulesForPackage p (matchingRulesForPackageKeys p FR) os)"
  have eq: "decide_package newID rs h os snap ps a FR FF sv ca p =
     (if matchingRulesForPackage p (matchingRulesForPackageKeys p FR) os = [] then F
      else case ?ms of Inl e \<Rightarrow> Inl e
        | Inr ms \<Rightarrow> (case narrow_rules rs os ms of [] \<Rightarrow> F | [rule] \<Rightarrow> L rule | _ \<Rightarrow> Inr (Some U)))"
    unfolding decide_package_def F_def L_def U_def fx_def Let_def by (rule refl)
  show ?thesis using res unfolding eq by (auto split: if_splits sum.splits list.splits)
qed

lemma decide_package_Some:
  assumes "decide_package newID rs h os snap ps a FR FF sv ca p = Inr (Some r)"
  shows "decision_header h snap a p r \<and>
    (grounded_in_fix os snap ps p (matchingFixesForPackageKeys p FF) r \<or>
     dec_FixedNevra r = None \<and>
      ((dec_Status r, dec_Action r, dec_ReasonCode r) = (''affected_no_fix'', ''investigate'', ''vendor_fix_not_available'') \<or>
       (dec_Status r, dec_Action r, dec_ReasonCode r) = (''unknown'', ''investigate'', ''package_mapping_incomplete'')))"
proof -
  let ?fs = "matchingFixesForPackageKeys p FF"
  from decide_package_branches [OF assms] consider "fixed_only newID h os snap ps a p (matchingFixedPackagesForPackage p ?fs os) sv ca = Inr (Some r)"
    | rl where "ruled_decision newID h os snap ps a p ?fs rl sv ca = Inr (Some r)"
    | "r = newDecisionRecord newID h (snap_ID snap) a p None ''unknown'' ''investigate'' sv ''unknown''
         ''package_mapping_incomplete'' ''multiple affected package rules matched'' ca"
    by blast
  then show ?thesis
  proof cases
    case 1
    then show ?thesis by (blast dest: fixed_only_Some)
  next
    case 2
    from ruled_decision_Some [OF this] show ?thesis by auto
  next
    case 3
    then show ?thesis by (simp add: newDecisionRecord_def decision_header_def)
  qed
qed

section \<open>Absence of errors\<close>

lemma matched_rules_Inl:
  "matched_rules p os rules = Inl e \<Longrightarrow> \<exists>rl \<in> set rules. isl (matchesRule p rl os)"
  by (induction rules) (auto split: sum.splits)

lemma fixed_only_not_Inl: "\<not> isl (fixed_only newID h os snap ps a p fs sv ca)"
  by (auto simp: fixed_only_def selectBestFix_Inl split: sum.split)

lemma ruled_decision_not_Inl: "\<not> isl (ruled_decision newID h os snap ps a p fs rl sv ca)"
  by (auto simp: ruled_decision_def Let_def selectBestFix_Inl split: sum.split prod.split)

lemma decide_package_Inl:
  assumes "isl (decide_package newID rs h os snap ps a FR FF sv ca p)"
  shows "\<exists>rl \<in> set (matchingRulesForPackageKeys p FR). isl (matchesRule p rl os)"
proof -
  let ?rules = "matchingRulesForPackage p (matchingRulesForPackageKeys p FR) os"
  have "\<exists>e. matched_rules p os ?rules = Inl e"
    using assms
    by (auto simp: decide_package_def Let_def fixed_only_not_Inl ruled_decision_not_Inl
        split: if_splits sum.splits list.splits)
  then show ?thesis using matched_rules_Inl [of p os ?rules] by (auto simp: matchingRulesForPackage_def)
qed

lemma matchingRulesForPackageKeys_subset:
  "set (matchingRulesForPackageKeys p (filterRulesByPackage rules R)) \<subseteq> {r \<in> set rules. rule_concerns R p r}"
  unfolding matchingRulesForPackageKeys_def set_rules_over_keys [symmetric] by (rule set_dedup_by_subset)

lemma matchingFixesForPackageKeys_subset:
  "set (matchingFixesForPackageKeys p (filterFixesByPackage fxs R)) \<subseteq> {f \<in> set fxs. fix_concerns R p f}"
  unfolding matchingFixesForPackageKeys_def set_fixes_over_keys [symmetric] by (rule set_dedup_by_subset)

section \<open>Independence of map order\<close>

lemma considered_order_indep:
  assumes "ranges_ok r1" "ranges_ok r2" "inj_on packageInstanceKey (set (in_packages i))"
  shows "considered r1 i = considered r2 i"
proof -
  have "set (in_candidates r i adv) =
     {p \<in> set (in_packages i). (\<exists>rl \<in> set (slice_at (in_rules i) (adv_ID adv)). rule_concerns (in_resolved i) p rl) \<or>
        (\<exists>f \<in> set (slice_at (in_fixes i) (adv_ID adv)). fix_concerns (in_resolved i) p f)}"
    (is "_ = ?P") if "ranges_ok r" for r adv
  proof -
    have ok: "range_ok (range_packages r adv)" using that by (simp add: ranges_ok_def)
    have "inj_on packageInstanceKey ?P" using assms(3) by (rule inj_on_subset) auto
    then show ?thesis
      unfolding in_candidates_def candidatePackages_def candidate_pool [OF ok, symmetric]
      by (rule set_dedup_by_inj)
  qed
  then show ?thesis using assms(1,2) unfolding considered_def by simp
qed

text \<open>
  Two lists that hold the same decisions up to identifiers, in which one package and one advisory
  determine a decision, collapse to the same decisions up to identifiers.
\<close>

lemma collapse_order_indep:
  assumes "strip ` set xs = strip ` set ys"
    and unique: "\<And>x y. x \<in> strip ` set xs \<Longrightarrow> y \<in> strip ` set xs \<Longrightarrow> dkey x = dkey y \<Longrightarrow>
      dec_AdvisoryID (d_record x) = dec_AdvisoryID (d_record y) \<Longrightarrow> x = y"
  shows "strip ` set (collapseSupersededDecisions xs os) \<subseteq> strip ` set (collapseSupersededDecisions ys os)"
proof
  fix s
  assume "s \<in> strip ` set (collapseSupersededDecisions xs os)"
  then obtain b k where s: "s = strip b" and b: "best_for os xs k = Some b" unfolding collapse_mem by (auto simp: collapse_mem)
  note bk = best_for_key [OF b]
  then have "strip b \<in> strip ` set ys" using assms(1) by blast
  then obtain b' where b': "b' \<in> set ys" "strip b' = strip b" by (metis imageE)
  then have kb': "dkey b' = k" using bk by (metis dkey_strip strip_fields(2))
  obtain c where c: "best_for os ys k = Some c" using best_for_Some [of k ys os] b' kb' by blast
  note ck = best_for_key [OF c]
  then have "strip c \<in> strip ` set xs" using assms(1) by blast
  then obtain c' where c': "c' \<in> set xs" "strip c' = strip c" by (metis imageE)
  then have kc': "dkey c' = k" using ck by (metis dkey_strip strip_fields(2))
  have "decision_cmp os c b' \<ge> 0" "decision_cmp os b c' \<ge> 0" using bk ck b' c' kb' kc' by blast+
  moreover have "decision_cmp os c b' = decision_cmp os c b"
    using decision_cmp_strip [of os c b'] decision_cmp_strip [of os c b] b'(2) by simp
  moreover have "decision_cmp os b c' = decision_cmp os b c"
    using decision_cmp_strip [of os b c'] decision_cmp_strip [of os b c] c'(2) by simp
  ultimately have "decision_cmp os b c = 0" using dec_cmp.cmp_swap [of os b c] by simp
  then have "dec_AdvisoryID (d_record b) = dec_AdvisoryID (d_record c)" by (rule decision_cmp_eq_advisory)
  moreover have "strip b \<in> strip ` set xs" using bk by blast
  ultimately have "strip b = strip c"
    using \<open>strip c \<in> strip ` set xs\<close> bk ck by (intro unique) (simp_all add: strip_fields)
  moreover have "c \<in> set (collapseSupersededDecisions ys os)" using c ck unfolding collapse_mem by blast
  ultimately show "s \<in> strip ` set (collapseSupersededDecisions ys os)" using s by blast
qed

lemma collected_unique:
  assumes "ranges_ok r" "distinct (map adv_ID (in_advisories i))"
    and "inj_on packageInstanceKey (set (in_packages i))"
    and "\<forall>p \<in> set (in_packages i). TrimSpace (pkg_Nevra p) \<noteq> []"
    and "x \<in> collected r i" "y \<in> collected r i" "dkey x = dkey y"
    and "dec_AdvisoryID (d_record x) = dec_AdvisoryID (d_record y)"
  shows "x = y"
proof -
  from assms(5) obtain a p where x: "(a, p) \<in> considered r i" "in_outcome i a p = Inr (Some (d_record x))" "d_severity x = in_severity i a"
    unfolding collected_def by auto
  from assms(6) obtain b q where y: "(b, q) \<in> considered r i" "in_outcome i b q = Inr (Some (d_record y))" "d_severity y = in_severity i b"
    unfolding collected_def by auto
  have hx: "dec_AdvisoryID (d_record x) = adv_ID a" "dec_InstalledNevra (d_record x) = Some (pkg_Nevra p)"
    using decide_package_Some [OF x(2) [unfolded in_outcome_def]] by (simp_all add: decision_header_def)
  have hy: "dec_AdvisoryID (d_record y) = adv_ID b" "dec_InstalledNevra (d_record y) = Some (pkg_Nevra q)"
    using decide_package_Some [OF y(2) [unfolded in_outcome_def]] by (simp_all add: decision_header_def)
  have mem: "a \<in> set (in_advisories i)" "p \<in> set (in_packages i)" "b \<in> set (in_advisories i)" "q \<in> set (in_packages i)"
    using considered_installed [OF assms(1)] x(1) y(1) by blast+
  have "pkg_Nevra p = pkg_Nevra q" using assms(7) hx(2) hy(2) by (simp add: newDecisionKey_def)
  then have "packageInstanceKey p = packageInstanceKey q"
    using assms(4) mem by (simp add: packageInstanceKey_def Let_def)
  then have "p = q" using assms(3) mem by (simp add: inj_on_def)
  moreover have "a = b" using assms(2,8) hx(1) hy(1) mem by (simp add: distinct_map inj_on_def)
  ultimately show ?thesis using x y by (cases x; cases y) simp
qed

section \<open>Properties\<close>

lemma build_decision_header:
  assumes "ranges_ok ranges" "run_build ranges ids i = Inr out" "d \<in> set out"
  obtains adv pkg where "adv \<in> set (in_advisories i)" "pkg \<in> set (in_packages i)"
    "decision_header (in_hostID i) (in_snapshot i) adv pkg (d_record d)"
    "grounded_in_fix (in_osFamily i) (in_snapshot i) (in_packages i) pkg
       (matchingFixesForPackageKeys pkg (filterFixesByPackage (slice_at (in_fixes i) (adv_ID adv)) (in_resolved i))) (d_record d) \<or>
     dec_FixedNevra (d_record d) = None \<and>
      ((dec_Status (d_record d), dec_Action (d_record d), dec_ReasonCode (d_record d)) =
         (''affected_no_fix'', ''investigate'', ''vendor_fix_not_available'') \<or>
       (dec_Status (d_record d), dec_Action (d_record d), dec_ReasonCode (d_record d)) =
         (''unknown'', ''investigate'', ''package_mapping_incomplete''))"
proof -
  from assms obtain adv pkg where c: "(adv, pkg) \<in> considered ranges i"
    and o: "in_outcome i adv pkg = Inr (Some (strip_id (d_record d)))" by (rule build_provenance)
  have "decision_header h s a p (strip_id r) = decision_header h s a p r"
    "grounded_in_fix os s ps p fs (strip_id r) = grounded_in_fix os s ps p fs r" for h s a p r os ps fs
    by (simp_all add: decision_header_def grounded_in_fix_def verdict_meaning_def)
  note strip = this
  show ?thesis
    using considered_installed [OF assms(1) c]
      decide_package_Some [OF o [unfolded in_outcome_def], unfolded strip strip_id_fields]
    by (elim conjE) (rule that)
qed


text \<open>A concrete input: one package, one advisory, one fix.\<close>

definition sample_package :: Package where
  "sample_package = zero_Package\<lparr>pkg_Name := ''openssl'', pkg_Version := ''3.0.7'', pkg_Release := ''1.el9'',
     pkg_Arch := ''x86_64'', pkg_Nevra := ''openssl-0:3.0.7-1.el9.x86_64''\<rparr>"

definition sample_fix :: FixedPackage where
  "sample_fix = zero_FixedPackage\<lparr>fix_ID := ''f1'', fix_AdvisoryID := ''A1'', fix_ProductStreamID := ''s1'',
     fix_PackageName := ''openssl'', fix_Version := ''3.0.7'', fix_Release := ''18.el9'',
     fix_Nevra := ''openssl-0:3.0.7-18.el9.x86_64''\<rparr>"

definition sample_input :: match_input where
  "sample_input =
    \<lparr>in_hostID = ''h1'', in_osFamily = ''rpm'', in_snapshot = zero_HostSnapshot, in_packages = [sample_package],
     in_streams = [zero_ProductStream\<lparr>ps_ID := ''s1''\<rparr>], in_advisories = [zero_Advisory\<lparr>adv_ID := ''A1''\<rparr>],
     in_advisoryStreams = [''A1'' \<mapsto> [''s1'']], in_rules = Map.empty, in_fixes = [''A1'' \<mapsto> [sample_fix]],
     in_refs = Map.empty, in_computedAt = ''now''\<rparr>"

definition sample_decision :: "string \<Rightarrow> decision" where
  "sample_decision n =
    \<lparr>d_record = (newDecisionRecord n ''h1'' [] (zero_Advisory\<lparr>adv_ID := ''A1''\<rparr>) sample_package (Some ''s1'')
       ''affected_fix_available'' ''update_package'' [] ''authoritative'' ''vendor_fix_available_not_installed''
       ''a vendor fixed package (openssl-0:3.0.7-18.el9.x86_64) is available but not installed'' ''now'')
       \<lparr>dec_FixedNevra := Some ''openssl-0:3.0.7-18.el9.x86_64''\<rparr>, d_severity = []\<rparr>"

lemma ranges_ok_orders: "ranges_ok insertion_order" "ranges_ok reverse_order"
  by (simp_all add: ranges_ok_def insertion_order_def reverse_order_def range_ok_def)

lemma sample_run: "run_build insertion_order (\<lambda>_. ''id'') sample_input = Inr [sample_decision ''id'']"
  by code_simp


text \<open>C21: a decision about a kernel package is never resolved: as long as the running kernel does not have
  the fix it stays open, and if it has it there is no decision. Only kernel packages wait for a reboot.\<close>

theorem buildDecisions_kernel:
  assumes "ranges_ok ranges" "run_build ranges ids i = Inr out" "d \<in> set out"
  shows "(dec_Status (d_record d) = ''resolved'' \<longrightarrow> \<not> isKernelPackage (dec_PackageName (d_record d)) (in_osFamily i)) \<and>
    (dec_Action (d_record d) = ''reboot_host'' \<longrightarrow> isKernelPackage (dec_PackageName (d_record d)) (in_osFamily i))"
proof -
  from assms obtain adv p where "decision_header (in_hostID i) (in_snapshot i) adv p (d_record d)"
    and "grounded_in_fix (in_osFamily i) (in_snapshot i) (in_packages i) p
       (matchingFixesForPackageKeys p (filterFixesByPackage (slice_at (in_fixes i) (adv_ID adv)) (in_resolved i))) (d_record d) \<or>
      dec_FixedNevra (d_record d) = None \<and>
      ((dec_Status (d_record d), dec_Action (d_record d), dec_ReasonCode (d_record d)) =
         (''affected_no_fix'', ''investigate'', ''vendor_fix_not_available'') \<or>
       (dec_Status (d_record d), dec_Action (d_record d), dec_ReasonCode (d_record d)) =
         (''unknown'', ''investigate'', ''package_mapping_incomplete''))"
    by (rule build_decision_header)
  then show ?thesis by (auto simp: grounded_in_fix_def verdict_meaning_def decision_header_def)
qed

theorem buildDecisions_kernel_witness:
  "\<exists>d. run_build insertion_order (\<lambda>_. ''id'') (sample_input\<lparr>in_packages := [sample_package\<lparr>pkg_Release := ''20.el9''\<rparr>]\<rparr>) = Inr [d] \<and>
       dec_Status (d_record d) = ''resolved'' \<and> \<not> isKernelPackage (dec_PackageName (d_record d)) ''rpm''"
proof -
  let ?i = "sample_input\<lparr>in_packages := [sample_package\<lparr>pkg_Release := ''20.el9''\<rparr>]\<rparr>"
  have "map_sum (\<lambda>e. e) (map (\<lambda>d. dec_Status (d_record d))) (run_build insertion_order (\<lambda>_. ''id'') ?i) = Inr [''resolved'']"
    by code_simp
  then obtain d where d: "run_build insertion_order (\<lambda>_. ''id'') ?i = Inr [d]" "dec_Status (d_record d) = ''resolved''"
    by (cases "run_build insertion_order (\<lambda>_. ''id'') ?i") auto
  have "in_osFamily ?i = ''rpm''" by (simp add: sample_input_def)
  then have "\<not> isKernelPackage (dec_PackageName (d_record d)) ''rpm''"
    using buildDecisions_kernel [OF ranges_ok_orders(1) d(1)] d(2) by simp
  with d show ?thesis by blast
qed

text \<open>C22: the vocabulary of decisions is closed: status, action and reason of every decision are one of five
  combinations. In particular no decision asks for a service restart, so the summary of a match never
  counts one.\<close>

theorem buildDecisions_vocabulary:
  assumes "ranges_ok ranges" "run_build ranges ids i = Inr out"
  shows "(\<forall>d \<in> set out. (dec_Status (d_record d), dec_Action (d_record d), dec_ReasonCode (d_record d)) \<in>
      {(''affected_fix_available'', ''update_package'', ''vendor_fix_available_not_installed''),
       (''fixed_package_installed_pending_activation'', ''reboot_host'', ''fixed_package_installed_kernel_not_running''),
       (''resolved'', ''none'', ''installed_package_at_or_above_fixed_build''),
       (''affected_no_fix'', ''investigate'', ''vendor_fix_not_available''),
       (''unknown'', ''investigate'', ''package_mapping_incomplete'')}) \<and>
    hcs_NeedsRestart (aggregateHostCurrentState snapshot out updates) = 0"
proof -
  let ?V = "{(''affected_fix_available'', ''update_package'', ''vendor_fix_available_not_installed''),
       (''fixed_package_installed_pending_activation'', ''reboot_host'', ''fixed_package_installed_kernel_not_running''),
       (''resolved'', ''none'', ''installed_package_at_or_above_fixed_build''),
       (''affected_no_fix'', ''investigate'', ''vendor_fix_not_available''),
       (''unknown'', ''investigate'', ''package_mapping_incomplete'')}"
  have voc: "(dec_Status (d_record d), dec_Action (d_record d), dec_ReasonCode (d_record d)) \<in> ?V" if "d \<in> set out" for d
  proof -
    from build_decision_header [OF assms that] show ?thesis
      by cases (auto simp: grounded_in_fix_def verdict_meaning_def)
  qed
  have "hcs_NeedsRestart (fold count_decision ds s) = hcs_NeedsRestart s"
    if "\<forall>d \<in> set ds. dec_Action (d_record d) \<noteq> ''restart_service''" for ds s
    using that by (induction ds arbitrary: s) (simp_all add: count_decision_fields)
  moreover have "\<forall>d \<in> set out. dec_Action (d_record d) \<noteq> ''restart_service''" using voc by fastforce
  ultimately have "hcs_NeedsRestart (aggregateHostCurrentState snapshot out updates) = 0"
    by (simp add: aggregateHostCurrentState_def)
  with voc show ?thesis by blast
qed

theorem buildDecisions_vocabulary_witness:
  "hcs_NeedsRestart (aggregateHostCurrentState zero_HostSnapshot [sample_decision ''id''] 3) = 0"
  using buildDecisions_vocabulary [OF ranges_ok_orders(1) sample_run] by blast

text \<open>C8: the result does not depend on the order in which Go ranges over its maps, nor on the identifiers
  drawn. If advisory IDs are distinct and every package has a NEVRA of its own, two runs on the same
  input either both fail or return the same decisions up to order and identifiers.\<close>

theorem buildDecisions_deterministic:
  assumes "ranges_ok r1" "ranges_ok r2" "distinct (map adv_ID (in_advisories i))"
    and "inj_on packageInstanceKey (set (in_packages i))"
    and "\<forall>p \<in> set (in_packages i). TrimSpace (pkg_Nevra p) \<noteq> []"
  shows "isl (run_build r1 ids1 i) = isl (run_build r2 ids2 i) \<and>
    (\<forall>o1 o2. run_build r1 ids1 i = Inr o1 \<and> run_build r2 ids2 i = Inr o2 \<longrightarrow>
       mset (map strip o1) = mset (map strip o2))"
proof (intro conjI allI impI)
  have same: "considered r1 i = considered r2 i" using assms(1,2,4) by (rule considered_order_indep)
  then have coll: "collected r1 i = collected r2 i" by (simp add: collected_def)
  show "isl (run_build r1 ids1 i) = isl (run_build r2 ids2 i)"
    unfolding build_Inl [OF assms(1)] build_Inl [OF assms(2)] same by (rule refl)
  fix o1 o2
  assume o: "run_build r1 ids1 i = Inr o1 \<and> run_build r2 ids2 i = Inr o2"
  obtain x where x: "o1 = collapseSupersededDecisions x (in_osFamily i)" "strip ` set x = collected r1 i"
    using build_Inr [OF assms(1)] o by metis
  obtain y where y: "o2 = collapseSupersededDecisions y (in_osFamily i)" "strip ` set y = collected r2 i"
    using build_Inr [OF assms(2)] o by metis
  note unique = collected_unique [OF assms(1,3,4,5)]
  have "strip ` set o1 \<subseteq> strip ` set o2"
    unfolding x(1) y(1) by (rule collapse_order_indep) (use x y coll unique in auto)
  moreover have "strip ` set o2 \<subseteq> strip ` set o1"
    unfolding x(1) y(1) by (rule collapse_order_indep) (use x y coll unique in auto)
  moreover have "distinct (map strip (collapseSupersededDecisions ds os))" for ds os
  proof -
    have "distinct (map dkey (map strip (collapseSupersededDecisions ds os)))"
      using collapse_keys [of ds os] distinct_dedup_by [of "\<lambda>k. k" "{}" "map dkey ds"] by (simp add: comp_def)
    then show ?thesis by (simp only: distinct_map)
  qed
  ultimately show "mset (map strip o1) = mset (map strip o2)"
    unfolding x(1) y(1) by (intro set_eq_iff_mset_eq_distinct [THEN iffD1]) auto
qed

theorem buildDecisions_deterministic_witness:
  "\<exists>o2. run_build reverse_order (\<lambda>_. ''other'') sample_input = Inr o2 \<and>
        mset (map strip o2) = {# strip (sample_decision ''id'') #}"
proof -
  have hyps: "distinct (map adv_ID (in_advisories sample_input))"
    "inj_on packageInstanceKey (set (in_packages sample_input))"
    "\<forall>p \<in> set (in_packages sample_input). TrimSpace (pkg_Nevra p) \<noteq> []"
    by (simp_all add: sample_input_def) code_simp
  note det = buildDecisions_deterministic [OF ranges_ok_orders(2,1) hyps, of "\<lambda>_. ''other''" "\<lambda>_. ''id''"]
  have "\<not> isl (run_build reverse_order (\<lambda>_. ''other'') sample_input)" using det sample_run by simp
  then obtain o2 where "run_build reverse_order (\<lambda>_. ''other'') sample_input = Inr o2" by (blast dest: not_isl_Inr)
  with det sample_run show ?thesis by auto
qed

text \<open>Building decisions fails only on a version rule that cannot be evaluated: if every rule of the
  input's advisories evaluates for every installed package, the call returns decisions.\<close>

theorem buildDecisions_total:
  assumes "ranges_ok ranges"
    and "\<forall>a \<in> set (in_advisories i). \<forall>rl \<in> set (slice_at (in_rules i) (adv_ID a)). \<forall>p \<in> set (in_packages i).
           \<exists>b. matchesRule p rl (in_osFamily i) = Inr b"
  shows "\<exists>out. run_build ranges ids i = Inr out"
proof -
  have "\<not> isl (run_build ranges ids i)"
  proof
    assume "isl (run_build ranges ids i)"
    then obtain a p where ap: "(a, p) \<in> considered ranges i" "isl (in_outcome i a p)"
      using build_Inl [OF assms(1)] by blast
    from decide_package_Inl [OF ap(2) [unfolded in_outcome_def]] matchingRulesForPackageKeys_subset
    obtain rl where "rl \<in> set (slice_at (in_rules i) (adv_ID a))" "isl (matchesRule p rl (in_osFamily i))" by blast
    with considered_installed [OF assms(1) ap(1)] assms(2) show False by (metis sum.disc(2))
  qed
  then show ?thesis by (rule not_isl_Inr)
qed

theorem buildDecisions_total_witness:
  "\<exists>out. run_build reverse_order (\<lambda>_. ''id'') (sample_input\<lparr>in_rules := [''A1'' \<mapsto>
     [zero_AffectedPackageRule\<lparr>rule_ID := ''r1'', rule_ProductStreamID := ''s1'', rule_PackageName := ''openssl'',
        rule_RpmEvrRule := Some ''< 0:3.0.7-18.el9''\<rparr>]]\<rparr>) = Inr out"
proof -
  let ?rl = "zero_AffectedPackageRule\<lparr>rule_ID := ''r1'', rule_ProductStreamID := ''s1'', rule_PackageName := ''openssl'',
        rule_RpmEvrRule := Some ''< 0:3.0.7-18.el9''\<rparr>"
  have "matchesRule sample_package ?rl ''rpm'' = Inr True" by code_simp
  then show ?thesis
    by (intro buildDecisions_total ranges_ok_orders) (auto simp: sample_input_def slice_at_def)
qed

end
