(* ===== verification/Event_Bus.thy ===== *)
theory Event_Bus
  imports Package_Keys "HOL-Library.AList"
begin

text \<open>
  \<open>internal/events/bus.go\<close> and \<open>events.go\<close>: the in-memory broker. Channels live in a heap (a list, an
  address is an index) because the same channel is reachable from the topic maps, from the map
  \<open>channels\<close> and from the \<open>Subscriber\<close>; a send on or a close of a closed channel is a panic. The two
  Go maps are association lists in the order of insertion. Every method runs under the broker's mutex,
  so a concurrent execution is a sequence of method calls: the step relation \<open>bus_step\<close>.
\<close>

section \<open>Events\<close>

record Event =
  ev_Topic :: string
  ev_Type :: string
  ev_Data :: "string option"

definition hostTopic :: "string \<Rightarrow> string" where
  "hostTopic hostID = ''host:'' @ hostID"

definition NewHostsUpdatedEvent :: Event where
  "NewHostsUpdatedEvent = \<lparr>ev_Topic = ''hosts'', ev_Type = ''updated'', ev_Data = None\<rparr>"

definition NewHostSnapshotEvent :: "string \<Rightarrow> Event" where
  "NewHostSnapshotEvent hostID = \<lparr>ev_Topic = hostTopic hostID, ev_Type = ''snapshot'', ev_Data = None\<rparr>"

definition NewHostMatchedEvent :: "string \<Rightarrow> Event" where
  "NewHostMatchedEvent hostID = \<lparr>ev_Topic = hostTopic hostID, ev_Type = ''matched'', ev_Data = None\<rparr>"

definition NewHostDeletedEvent :: "string \<Rightarrow> Event" where
  "NewHostDeletedEvent hostID = \<lparr>ev_Topic = hostTopic hostID, ev_Type = ''deleted'', ev_Data = None\<rparr>"

definition NewAdvisoriesUpdatedEvent :: Event where
  "NewAdvisoriesUpdatedEvent = \<lparr>ev_Topic = ''advisories'', ev_Type = ''updated'', ev_Data = None\<rparr>"

definition NewAuditLogCreatedEvent :: Event where
  "NewAuditLogCreatedEvent = \<lparr>ev_Topic = ''audit_log'', ev_Type = ''created'', ev_Data = None\<rparr>"

section \<open>State\<close>

record channel =
  ch_buffer :: "Event list"
  ch_closed :: bool

record Subscriber =
  sub_ID :: nat
  sub_Topics :: "string list"
  sub_Events :: nat

type_synonym topic_map = "(string \<times> (nat \<times> nat) list) list"

record localBroker =
  br_subscribers :: topic_map
  br_channels :: "(nat \<times> nat) list"
  br_nextID :: nat
  br_heap :: "channel list"

datatype bus_panic = SendOnClosedChannel | CloseOfClosedChannel

definition subscriberBufferSize :: nat where
  "subscriberBufferSize = 16"

definition NewBroker :: localBroker where
  "NewBroker = \<lparr>br_subscribers = [], br_channels = [], br_nextID = 0, br_heap = []\<rparr>"

section \<open>The topic maps\<close>

text \<open>The channel registered for a topic and a subscriber.\<close>

definition registered :: "topic_map \<Rightarrow> string \<Rightarrow> nat \<Rightarrow> nat option" where
  "registered subs t i = (case map_of subs t of None \<Rightarrow> None | Some m \<Rightarrow> map_of m i)"

definition register :: "nat \<Rightarrow> nat \<Rightarrow> string \<Rightarrow> topic_map \<Rightarrow> topic_map" where
  "register i ch topic subs =
     AList.update topic (AList.update i ch (case map_of subs topic of None \<Rightarrow> [] | Some m \<Rightarrow> m)) subs"

definition unregister :: "nat \<Rightarrow> string \<Rightarrow> topic_map \<Rightarrow> topic_map" where
  "unregister i topic subs =
     (case map_of subs topic of
        None \<Rightarrow> subs
      | Some m \<Rightarrow>
          let m1 = AList.delete i m
          in if m1 = [] then AList.delete topic subs else AList.update topic m1 subs)"

section \<open>Methods\<close>

definition Subscribe :: "string list \<Rightarrow> localBroker \<Rightarrow> localBroker \<times> Subscriber" where
  "Subscribe topics b =
     (let i = (br_nextID b + 1) mod 2 ^ 64;
          ch = length (br_heap b)
      in (b\<lparr>br_nextID := i,
            br_heap := br_heap b @ [\<lparr>ch_buffer = [], ch_closed = False\<rparr>],
            br_channels := AList.update i ch (br_channels b),
            br_subscribers := fold (register i ch) topics (br_subscribers b)\<rparr>,
          \<lparr>sub_ID = i, sub_Topics = topics, sub_Events = ch\<rparr>))"

definition close_channel :: "nat \<Rightarrow> channel list \<Rightarrow> bus_panic + channel list" where
  "close_channel ch heap =
     (if ch_closed (heap ! ch) then Inl CloseOfClosedChannel
      else Inr (heap[ch := (heap ! ch)\<lparr>ch_closed := True\<rparr>]))"

definition Unsubscribe :: "Subscriber \<Rightarrow> localBroker \<Rightarrow> bus_panic + localBroker" where
  "Unsubscribe sub b =
     (case (case map_of (br_channels b) (sub_ID sub) of
              None \<Rightarrow> Inr b
            | Some ch \<Rightarrow>
                (case close_channel ch (br_heap b) of
                   Inl p \<Rightarrow> Inl p
                 | Inr heap \<Rightarrow> Inr (b\<lparr>br_heap := heap, br_channels := AList.delete (sub_ID sub) (br_channels b)\<rparr>))) of
        Inl p \<Rightarrow> Inl p
      | Inr b1 \<Rightarrow> Inr (b1\<lparr>br_subscribers := fold (unregister (sub_ID sub)) (sub_Topics sub) (br_subscribers b1)\<rparr>))"

text \<open>\<open>Update\<close> (the name of a constant of HOL's records is avoided) also changes the subscriber.\<close>

definition UpdateTopics :: "Subscriber \<Rightarrow> string list \<Rightarrow> localBroker \<Rightarrow> localBroker \<times> Subscriber" where
  "UpdateTopics sub topics b =
     (let removed = fold (unregister (sub_ID sub)) (sub_Topics sub) (br_subscribers b)
      in (b\<lparr>br_subscribers := fold (register (sub_ID sub) (sub_Events sub)) topics removed\<rparr>,
          sub\<lparr>sub_Topics := topics\<rparr>))"

definition send :: "Event \<Rightarrow> nat \<Rightarrow> channel list \<Rightarrow> bus_panic + channel list" where
  "send e ch heap =
     (if ch_closed (heap ! ch) then Inl SendOnClosedChannel
      else if length (ch_buffer (heap ! ch)) < subscriberBufferSize
      then Inr (heap[ch := (heap ! ch)\<lparr>ch_buffer := ch_buffer (heap ! ch) @ [e]\<rparr>])
      else Inr heap)"

fun send_all :: "Event \<Rightarrow> nat list \<Rightarrow> channel list \<Rightarrow> bus_panic + channel list" where
  "send_all e [] heap = Inr heap"
| "send_all e (ch # chs) heap =
     (case send e ch heap of Inl p \<Rightarrow> Inl p | Inr heap1 \<Rightarrow> send_all e chs heap1)"

text \<open>\<open>range_subs\<close> is the order in which Go visits the subscribers of the topic.\<close>

definition Publish :: "((nat \<times> nat) list \<Rightarrow> (nat \<times> nat) list) \<Rightarrow> Event \<Rightarrow> localBroker \<Rightarrow> bus_panic + localBroker" where
  "Publish range_subs e b =
     (case map_of (br_subscribers b) (ev_Topic e) of
        None \<Rightarrow> Inr b
      | Some subs \<Rightarrow>
          (case send_all e (map snd (range_subs subs)) (br_heap b) of
             Inl p \<Rightarrow> Inl p
           | Inr heap \<Rightarrow> Inr (b\<lparr>br_heap := heap\<rparr>)))"

text \<open>A receive \<^verbatim>\<open>ev := <-sub.Events\<close> of a subscriber whose buffer is not empty.\<close>

definition Receive :: "Subscriber \<Rightarrow> localBroker \<Rightarrow> (Event \<times> localBroker) option" where
  "Receive sub b =
     (case ch_buffer (br_heap b ! sub_Events sub) of
        [] \<Rightarrow> None
      | e # rest \<Rightarrow>
          Some (e, b\<lparr>br_heap := (br_heap b)[sub_Events sub := (br_heap b ! sub_Events sub)\<lparr>ch_buffer := rest\<rparr>]\<rparr>))"

section \<open>Laws of the topic maps\<close>

locale topic_registry =
  fixes look :: "'m \<Rightarrow> string \<Rightarrow> nat \<Rightarrow> nat option"
    and reg :: "nat \<Rightarrow> nat \<Rightarrow> string \<Rightarrow> 'm \<Rightarrow> 'm"
    and unreg :: "nat \<Rightarrow> string \<Rightarrow> 'm \<Rightarrow> 'm"
    and wf :: "'m \<Rightarrow> bool"
  assumes look_reg: "wf m \<Longrightarrow> look (reg i ch t m) t' i' = (if t' = t \<and> i' = i then Some ch else look m t' i')"
    and look_unreg: "wf m \<Longrightarrow> look (unreg i t m) t' i' = (if t' = t \<and> i' = i then None else look m t' i')"
    and wf_reg: "wf m \<Longrightarrow> wf (reg i ch t m)"
    and wf_unreg: "wf m \<Longrightarrow> wf (unreg i t m)"
begin

lemma wf_reg_all: "wf m \<Longrightarrow> wf (fold (reg i ch) ts m)"
  by (induction ts arbitrary: m) (simp_all add: wf_reg)

lemma wf_unreg_all: "wf m \<Longrightarrow> wf (fold (unreg i) ts m)"
  by (induction ts arbitrary: m) (simp_all add: wf_unreg)

lemma look_reg_all:
  "wf m \<Longrightarrow> look (fold (reg i ch) ts m) t' i' = (if t' \<in> set ts \<and> i' = i then Some ch else look m t' i')"
  by (induction ts arbitrary: m) (auto simp: wf_reg look_reg)

lemma look_unreg_all:
  "wf m \<Longrightarrow> look (fold (unreg i) ts m) t' i' = (if t' \<in> set ts \<and> i' = i then None else look m t' i')"
  by (induction ts arbitrary: m) (auto simp: wf_unreg look_unreg)

end

text \<open>Topic maps have distinct keys and hold no empty inner map: an unused topic leaves nothing behind.\<close>

definition topics_wf :: "topic_map \<Rightarrow> bool" where
  "topics_wf subs \<longleftrightarrow> distinct (map fst subs) \<and> (\<forall>(t, m) \<in> set subs. m \<noteq> [] \<and> distinct (map fst m))"

lemma topics_wf_lookup: "topics_wf subs \<Longrightarrow> map_of subs t = Some m \<Longrightarrow> m \<noteq> [] \<and> distinct (map fst m)"
  unfolding topics_wf_def by (auto dest: map_of_SomeD)

lemma set_AList_update:
  assumes "distinct (map fst al)" "p \<in> set (AList.update k v al)"
  shows "p = (k, v) \<or> p \<in> set al"
  using assms by (induction al) (auto split: if_splits)

lemma update_nonempty: "AList.update k v al \<noteq> []"
  by (cases al) auto

interpretation topic_maps: topic_registry registered register unregister topics_wf
proof
  fix m :: topic_map and i ch t t' i'
  assume wf: "topics_wf m"
  have dist: "distinct (map fst m)" using wf by (simp add: topics_wf_def)
  show "registered (register i ch t m) t' i' = (if t' = t \<and> i' = i then Some ch else registered m t' i')"
    by (simp add: registered_def register_def update_conv' split: option.split)
  show "registered (unregister i t m) t' i' = (if t' = t \<and> i' = i then None else registered m t' i')"
  proof (cases "map_of m t")
    case None
    then show ?thesis by (simp add: registered_def unregister_def)
  next
    case (Some mm)
    have "AList.delete i mm = [] \<Longrightarrow> i' \<noteq> i \<Longrightarrow> map_of mm i' = None"
      by (metis delete_conv' fun_upd_apply map_of.simps(1))
    with Some show ?thesis
      by (auto simp: registered_def unregister_def Let_def update_conv' delete_conv' split: option.split)
  qed
  show "topics_wf (register i ch t m)"
    unfolding topics_wf_def register_def
    using wf dist topics_wf_lookup [OF wf, of t] set_AList_update [OF dist]
    by (auto simp: distinct_update update_nonempty topics_wf_def split: option.splits dest!: set_AList_update [OF dist])
  show "topics_wf (unregister i t m)"
  proof (cases "map_of m t")
    case None
    then show ?thesis using wf by (simp add: unregister_def)
  next
    case (Some mm)
    then have mm: "distinct (map fst (AList.delete i mm))"
      using topics_wf_lookup [OF wf Some] by (simp add: distinct_delete)
    have del: "p \<in> set (AList.delete t m) \<Longrightarrow> p \<in> set m" for p by (simp add: AList.delete_eq)
    show ?thesis
      using Some wf mm dist del
      by (auto simp: unregister_def Let_def topics_wf_def distinct_update distinct_delete dest!: set_AList_update [OF dist])
  qed
qed

section \<open>Executions\<close>

text \<open>
  The state of the system: the broker and the subscribers handed out and not yet unsubscribed. The
  owner of a subscriber calls \<open>Update\<close> and receives only before it calls \<open>Unsubscribe\<close>, once, as the
  websocket hub does (it waits for its two loops before the deferred \<open>Unsubscribe\<close>). The guard of a
  subscription is that fewer than \<open>2 ^ 64\<close> have been made.
\<close>

record bus =
  bus_broker :: localBroker
  bus_live :: "nat \<rightharpoonup> Subscriber"

definition bus_init :: bus where
  "bus_init = \<lparr>bus_broker = NewBroker, bus_live = Map.empty\<rparr>"

inductive bus_step :: "bus \<Rightarrow> bus \<Rightarrow> bool" where
  subscribe: "br_nextID (bus_broker s) + 1 < 2 ^ 64 \<Longrightarrow> Subscribe topics (bus_broker s) = (b, sub) \<Longrightarrow>
    bus_step s \<lparr>bus_broker = b, bus_live = (bus_live s)(sub_ID sub \<mapsto> sub)\<rparr>"
| update: "bus_live s i = Some sub \<Longrightarrow> UpdateTopics sub topics (bus_broker s) = (b, sub1) \<Longrightarrow>
    bus_step s \<lparr>bus_broker = b, bus_live = (bus_live s)(i \<mapsto> sub1)\<rparr>"
| unsubscribe: "bus_live s i = Some sub \<Longrightarrow> Unsubscribe sub (bus_broker s) = Inr b \<Longrightarrow>
    bus_step s \<lparr>bus_broker = b, bus_live = (bus_live s)(i := None)\<rparr>"
| publish: "range_ok r \<Longrightarrow> Publish r e (bus_broker s) = Inr b \<Longrightarrow> bus_step s (s\<lparr>bus_broker := b\<rparr>)"
| receive: "bus_live s i = Some sub \<Longrightarrow> Receive sub (bus_broker s) = Some (e, b) \<Longrightarrow>
    bus_step s (s\<lparr>bus_broker := b\<rparr>)"

inductive_cases bus_stepE: "bus_step s s'"

inductive bus_reachable :: "bus \<Rightarrow> bool" where
  initial: "bus_reachable bus_init"
| step: "bus_reachable s \<Longrightarrow> bus_step s s' \<Longrightarrow> bus_reachable s'"

section \<open>Invariant\<close>

definition buffers_ok :: "channel list \<Rightarrow> bool" where
  "buffers_ok heap \<longleftrightarrow> (\<forall>c \<in> set heap. length (ch_buffer c) \<le> subscriberBufferSize)"

definition live_ok :: "localBroker \<Rightarrow> nat \<Rightarrow> Subscriber \<Rightarrow> bool" where
  "live_ok b i sub \<longleftrightarrow> sub_ID sub = i \<and> i \<le> br_nextID b \<and> map_of (br_channels b) i = Some (sub_Events sub) \<and>
     sub_Events sub < length (br_heap b) \<and> \<not> ch_closed (br_heap b ! sub_Events sub)"

definition bus_inv :: "bus \<Rightarrow> bool" where
  "bus_inv s \<longleftrightarrow>
     topics_wf (br_subscribers (bus_broker s)) \<and>
     (\<forall>t i. registered (br_subscribers (bus_broker s)) t i =
        (case bus_live s i of Some sub \<Rightarrow> if t \<in> set (sub_Topics sub) then Some (sub_Events sub) else None | None \<Rightarrow> None)) \<and>
     (\<forall>i sub. bus_live s i = Some sub \<longrightarrow> live_ok (bus_broker s) i sub) \<and>
     (\<forall>i j si sj. bus_live s i = Some si \<and> bus_live s j = Some sj \<and> sub_Events si = sub_Events sj \<longrightarrow> i = j) \<and>
     dom (map_of (br_channels (bus_broker s))) = dom (bus_live s) \<and>
     buffers_ok (br_heap (bus_broker s))"

lemma bus_invI:
  assumes "topics_wf (br_subscribers (bus_broker s))"
    and "\<And>t i. registered (br_subscribers (bus_broker s)) t i =
        (case bus_live s i of Some sub \<Rightarrow> if t \<in> set (sub_Topics sub) then Some (sub_Events sub) else None | None \<Rightarrow> None)"
    and "\<And>i sub. bus_live s i = Some sub \<Longrightarrow> live_ok (bus_broker s) i sub"
    and "\<And>i j si sj. bus_live s i = Some si \<Longrightarrow> bus_live s j = Some sj \<Longrightarrow> sub_Events si = sub_Events sj \<Longrightarrow> i = j"
    and "dom (map_of (br_channels (bus_broker s))) = dom (bus_live s)"
    and "buffers_ok (br_heap (bus_broker s))"
  shows "bus_inv s"
  unfolding bus_inv_def using assms by blast

lemma bus_invD:
  assumes "bus_inv s"
  shows "topics_wf (br_subscribers (bus_broker s))"
    and "registered (br_subscribers (bus_broker s)) t i =
        (case bus_live s i of Some sub \<Rightarrow> if t \<in> set (sub_Topics sub) then Some (sub_Events sub) else None | None \<Rightarrow> None)"
    and "bus_live s i = Some sub \<Longrightarrow> live_ok (bus_broker s) i sub"
    and "bus_live s i = Some si \<Longrightarrow> bus_live s j = Some sj \<Longrightarrow> sub_Events si = sub_Events sj \<Longrightarrow> i = j"
    and "dom (map_of (br_channels (bus_broker s))) = dom (bus_live s)"
    and "buffers_ok (br_heap (bus_broker s))"
  using assms unfolding bus_inv_def by blast+

lemma bus_inv_init: "bus_inv bus_init"
  by (intro bus_invI) (simp_all add: bus_init_def NewBroker_def topics_wf_def registered_def buffers_ok_def)

text \<open>Changing buffers only, within the bound and without closing anything, keeps the invariant.\<close>

lemma bus_inv_heap:
  assumes "bus_inv s" "length heap = length (br_heap (bus_broker s))" "buffers_ok heap"
    and "\<And>ch. ch < length heap \<Longrightarrow> ch_closed (heap ! ch) = ch_closed (br_heap (bus_broker s) ! ch)"
  shows "bus_inv (s\<lparr>bus_broker := (bus_broker s)\<lparr>br_heap := heap\<rparr>\<rparr>)"
proof (intro bus_invI)
  fix i sub
  assume "bus_live (s\<lparr>bus_broker := (bus_broker s)\<lparr>br_heap := heap\<rparr>\<rparr>) i = Some sub"
  then have "live_ok (bus_broker s) i sub" using bus_invD(3) [OF assms(1)] by simp
  then show "live_ok (bus_broker (s\<lparr>bus_broker := (bus_broker s)\<lparr>br_heap := heap\<rparr>\<rparr>)) i sub"
    using assms(2,4) by (simp add: live_ok_def)
next
  fix i j si sj
  assume "bus_live (s\<lparr>bus_broker := (bus_broker s)\<lparr>br_heap := heap\<rparr>\<rparr>) i = Some si"
    "bus_live (s\<lparr>bus_broker := (bus_broker s)\<lparr>br_heap := heap\<rparr>\<rparr>) j = Some sj" "sub_Events si = sub_Events sj"
  then show "i = j" using bus_invD(4) [OF assms(1)] by simp
qed (use assms(3) bus_invD [OF assms(1)] in simp_all)

lemma closed_update:
  "c < length heap \<Longrightarrow> ch_closed x = ch_closed (heap ! ch) \<Longrightarrow> ch_closed (heap[ch := x] ! c) = ch_closed (heap ! c)"
  by (cases "c = ch") simp_all

lemma send_ok:
  assumes "send e ch heap = Inr heap1" "buffers_ok heap"
  shows "length heap1 = length heap \<and> buffers_ok heap1 \<and>
    (\<forall>c. c < length heap \<longrightarrow> ch_closed (heap1 ! c) = ch_closed (heap ! c))"
proof -
  have "buffers_ok (heap[ch := x])" if "length (ch_buffer x) \<le> subscriberBufferSize" for x
    using assms(2) that set_update_subset_insert [of heap ch x] by (auto simp: buffers_ok_def)
  with assms(1) show ?thesis
    using assms(2) by (auto simp: send_def closed_update split: if_splits)
qed

lemma send_all_ok:
  "send_all e chs heap = Inr heap1 \<Longrightarrow> buffers_ok heap \<Longrightarrow>
   length heap1 = length heap \<and> buffers_ok heap1 \<and> (\<forall>c. c < length heap \<longrightarrow> ch_closed (heap1 ! c) = ch_closed (heap ! c))"
proof (induction chs arbitrary: heap)
  case Nil
  then show ?case by simp
next
  case (Cons ch chs)
  then obtain h where "send e ch heap = Inr h" "send_all e chs h = Inr heap1" by (auto split: sum.splits)
  with send_ok [OF this(1) Cons.prems(2)] Cons.IH [of h] show ?case by auto
qed

lemma bus_inv_publish:
  assumes inv: "bus_inv s" and pub: "Publish r e (bus_broker s) = Inr b"
  shows "bus_inv (s\<lparr>bus_broker := b\<rparr>)"
proof (cases "map_of (br_subscribers (bus_broker s)) (ev_Topic e)")
  case None
  then show ?thesis using inv pub by (cases s) (simp add: Publish_def)
next
  case (Some subs)
  with pub obtain heap where h: "send_all e (map snd (r subs)) (br_heap (bus_broker s)) = Inr heap"
    and b: "b = (bus_broker s)\<lparr>br_heap := heap\<rparr>"
    by (auto simp: Publish_def split: sum.splits)
  from send_all_ok [OF h bus_invD(6) [OF inv]] show ?thesis
    unfolding b using inv by (intro bus_inv_heap) simp_all
qed

lemma bus_inv_receive:
  assumes "bus_inv s" "Receive sub (bus_broker s) = Some (e, b)"
  shows "bus_inv (s\<lparr>bus_broker := b\<rparr>)"
proof -
  let ?h = "br_heap (bus_broker s)" and ?ch = "sub_Events sub"
  from assms(2) obtain rest where buf: "ch_buffer (?h ! ?ch) = e # rest"
    and b: "b = (bus_broker s)\<lparr>br_heap := ?h[?ch := (?h ! ?ch)\<lparr>ch_buffer := rest\<rparr>]\<rparr>"
    by (auto simp: Receive_def split: list.splits)
  have bufs: "buffers_ok ?h" using bus_invD(6) [OF assms(1)] .
  have "buffers_ok (?h[?ch := (?h ! ?ch)\<lparr>ch_buffer := rest\<rparr>])"
  proof (cases "?ch < length ?h")
    case True
    then have "length (e # rest) \<le> subscriberBufferSize" using bufs buf unfolding buffers_ok_def by (metis nth_mem)
    then show ?thesis
      using bufs set_update_subset_insert [of ?h ?ch "(?h ! ?ch)\<lparr>ch_buffer := rest\<rparr>"] by (auto simp: buffers_ok_def)
  next
    case False
    then have "?h[?ch := (?h ! ?ch)\<lparr>ch_buffer := rest\<rparr>] = ?h" by (intro list_update_beyond) simp
    then show ?thesis using bufs by (simp only:)
  qed
  then show ?thesis unfolding b using assms(1) by (intro bus_inv_heap) (simp_all add: closed_update)
qed

lemma bus_inv_subscribe:
  assumes inv: "bus_inv s" and fresh: "br_nextID (bus_broker s) + 1 < 2 ^ 64"
    and sub: "Subscribe topics (bus_broker s) = (b, sub)"
  shows "bus_inv \<lparr>bus_broker = b, bus_live = (bus_live s)(sub_ID sub \<mapsto> sub)\<rparr>"
proof -
  let ?i = "br_nextID (bus_broker s) + 1" and ?ch = "length (br_heap (bus_broker s))"
  have i: "?i mod 2 ^ 64 = ?i" using fresh by (rule mod_less)
  then have b: "b = (bus_broker s)\<lparr>br_nextID := ?i, br_heap := br_heap (bus_broker s) @ [\<lparr>ch_buffer = [], ch_closed = False\<rparr>],
        br_channels := AList.update ?i ?ch (br_channels (bus_broker s)),
        br_subscribers := fold (register ?i ?ch) topics (br_subscribers (bus_broker s))\<rparr>"
    and s: "sub = \<lparr>sub_ID = ?i, sub_Topics = topics, sub_Events = ?ch\<rparr>"
    using sub by (simp_all add: Subscribe_def Let_def)
  note wf = bus_invD(1) [OF inv]
  have new: "bus_live s ?i = None"
    using bus_invD(3) [OF inv, of ?i] by (cases "bus_live s ?i") (auto simp: live_ok_def)
  show ?thesis
  proof (intro bus_invI)
    show "topics_wf (br_subscribers (bus_broker \<lparr>bus_broker = b, bus_live = (bus_live s)(sub_ID sub \<mapsto> sub)\<rparr>))"
      using topic_maps.wf_reg_all [OF wf] by (simp add: b)
    show "registered (br_subscribers (bus_broker \<lparr>bus_broker = b, bus_live = (bus_live s)(sub_ID sub \<mapsto> sub)\<rparr>)) t i =
      (case bus_live \<lparr>bus_broker = b, bus_live = (bus_live s)(sub_ID sub \<mapsto> sub)\<rparr> i of
         Some sub \<Rightarrow> if t \<in> set (sub_Topics sub) then Some (sub_Events sub) else None | None \<Rightarrow> None)" for t i
      using bus_invD(2) [OF inv, of t i] new by (simp add: b s topic_maps.look_reg_all [OF wf] split: option.split)
    show "live_ok (bus_broker \<lparr>bus_broker = b, bus_live = (bus_live s)(sub_ID sub \<mapsto> sub)\<rparr>) i sub'"
      if "bus_live \<lparr>bus_broker = b, bus_live = (bus_live s)(sub_ID sub \<mapsto> sub)\<rparr> i = Some sub'" for i sub'
    proof (cases "i = ?i")
      case True
      with that show ?thesis by (auto simp: b s live_ok_def update_conv')
    next
      case False
      with that have "live_ok (bus_broker s) i sub'" using bus_invD(3) [OF inv, of i sub'] by (simp add: s)
      with False show ?thesis by (simp add: b live_ok_def update_conv' nth_append)
    qed
    show "i = j" if "bus_live \<lparr>bus_broker = b, bus_live = (bus_live s)(sub_ID sub \<mapsto> sub)\<rparr> i = Some si"
      "bus_live \<lparr>bus_broker = b, bus_live = (bus_live s)(sub_ID sub \<mapsto> sub)\<rparr> j = Some sj" "sub_Events si = sub_Events sj" for i j si sj
    proof -
      have eqs: "((bus_live s)(?i \<mapsto> sub)) i = Some si" "((bus_live s)(?i \<mapsto> sub)) j = Some sj"
        using that(1,2) by (simp_all add: s)
      have new_ch: "k = ?i \<Longrightarrow> sub_Events sk = ?ch" and old: "k \<noteq> ?i \<Longrightarrow> bus_live s k = Some sk"
        if "((bus_live s)(?i \<mapsto> sub)) k = Some sk" for k sk
        using that by (auto simp: s)
      have old_ch: "sub_Events sk < ?ch" if "bus_live s k = Some sk" for k sk
        using bus_invD(3) [OF inv that] by (simp add: live_ok_def)
      show ?thesis
      proof (cases "i = ?i")
        case True
        then have "sub_Events sj = ?ch" using new_ch [OF eqs(1)] that(3) by simp
        then show ?thesis using old [OF eqs(2)] old_ch [of j sj] True by force
      next
        case False
        note oi = old [OF eqs(1) this]
        then have "sub_Events sj < ?ch" using old_ch [OF oi] that(3) by simp
        then have "j \<noteq> ?i" using new_ch [OF eqs(2)] by force
        from bus_invD(4) [OF inv oi old [OF eqs(2) this] that(3)] show ?thesis .
      qed
    qed
    show "dom (map_of (br_channels (bus_broker \<lparr>bus_broker = b, bus_live = (bus_live s)(sub_ID sub \<mapsto> sub)\<rparr>))) =
      dom (bus_live \<lparr>bus_broker = b, bus_live = (bus_live s)(sub_ID sub \<mapsto> sub)\<rparr>)"
      using bus_invD(5) [OF inv] by (simp add: b s update_conv')
    show "buffers_ok (br_heap (bus_broker \<lparr>bus_broker = b, bus_live = (bus_live s)(sub_ID sub \<mapsto> sub)\<rparr>))"
      using bus_invD(6) [OF inv] by (simp add: b buffers_ok_def subscriberBufferSize_def)
  qed
qed

lemma bus_inv_update:
  assumes inv: "bus_inv s" and live: "bus_live s i = Some sub"
    and upd: "UpdateTopics sub topics (bus_broker s) = (b, sub1)"
  shows "bus_inv \<lparr>bus_broker = b, bus_live = (bus_live s)(i \<mapsto> sub1)\<rparr>" (is "bus_inv ?s")
proof -
  note wf = bus_invD(1) [OF inv]
  have id: "sub_ID sub = i" using bus_invD(3) [OF inv live] by (simp add: live_ok_def)
  let ?removed = "fold (unregister i) (sub_Topics sub) (br_subscribers (bus_broker s))"
  have b: "b = (bus_broker s)\<lparr>br_subscribers := fold (register i (sub_Events sub)) topics ?removed\<rparr>"
    and s1: "sub1 = sub\<lparr>sub_Topics := topics\<rparr>"
    using upd by (simp_all add: UpdateTopics_def Let_def id)
  have wfr: "topics_wf ?removed" using wf by (rule topic_maps.wf_unreg_all)
  show ?thesis
  proof (intro bus_invI)
    show "topics_wf (br_subscribers (bus_broker ?s))" using topic_maps.wf_reg_all [OF wfr] by (simp add: b)
    show "registered (br_subscribers (bus_broker ?s)) t j =
      (case bus_live ?s j of Some sub \<Rightarrow> if t \<in> set (sub_Topics sub) then Some (sub_Events sub) else None | None \<Rightarrow> None)" for t j
      using bus_invD(2) [OF inv, of t j] live
      by (auto simp: b s1 topic_maps.look_reg_all [OF wfr] topic_maps.look_unreg_all [OF wf] split: option.split)
    show "live_ok (bus_broker ?s) j sub'" if "bus_live ?s j = Some sub'" for j sub'
      using that bus_invD(3) [OF inv, of j sub'] bus_invD(3) [OF inv live]
      by (auto simp: b s1 live_ok_def split: if_splits)
    show "j = k" if "bus_live ?s j = Some sj" "bus_live ?s k = Some sk" "sub_Events sj = sub_Events sk" for j k sj sk
    proof -
      note eqs = that
      obtain sj' sk' where "bus_live s j = Some sj'" "sub_Events sj' = sub_Events sj"
        "bus_live s k = Some sk'" "sub_Events sk' = sub_Events sk"
        using eqs(1,2) live by (cases "j = i"; cases "k = i") (auto simp: s1)
      then show ?thesis using eqs(3) bus_invD(4) [OF inv, of j sj' k sk'] by simp
    qed
    show "dom (map_of (br_channels (bus_broker ?s))) = dom (bus_live ?s)"
      using bus_invD(5) [OF inv] live by (auto simp: b)
    show "buffers_ok (br_heap (bus_broker ?s))" using bus_invD(6) [OF inv] by (simp add: b)
  qed
qed

lemma Unsubscribe_live:
  assumes inv: "bus_inv s" and live: "bus_live s i = Some sub"
  shows "Unsubscribe sub (bus_broker s) =
    Inr ((bus_broker s)\<lparr>br_heap := (br_heap (bus_broker s))[sub_Events sub := (br_heap (bus_broker s) ! sub_Events sub)\<lparr>ch_closed := True\<rparr>],
          br_channels := AList.delete i (br_channels (bus_broker s)),
          br_subscribers := fold (unregister i) (sub_Topics sub) (br_subscribers (bus_broker s))\<rparr>)"
  using bus_invD(3) [OF inv live] by (simp add: Unsubscribe_def close_channel_def live_ok_def)

lemma bus_inv_unsubscribe:
  assumes inv: "bus_inv s" and live: "bus_live s i = Some sub" and uns: "Unsubscribe sub (bus_broker s) = Inr b"
  shows "bus_inv \<lparr>bus_broker = b, bus_live = (bus_live s)(i := None)\<rparr>" (is "bus_inv ?s")
proof -
  note wf = bus_invD(1) [OF inv]
  let ?h = "br_heap (bus_broker s)"
  have b: "b = (bus_broker s)\<lparr>br_heap := ?h[sub_Events sub := (?h ! sub_Events sub)\<lparr>ch_closed := True\<rparr>],
          br_channels := AList.delete i (br_channels (bus_broker s)),
          br_subscribers := fold (unregister i) (sub_Topics sub) (br_subscribers (bus_broker s))\<rparr>"
    using uns Unsubscribe_live [OF inv live] by simp
  show ?thesis
  proof (intro bus_invI)
    show "topics_wf (br_subscribers (bus_broker ?s))" using topic_maps.wf_unreg_all [OF wf] by (simp add: b)
    show "registered (br_subscribers (bus_broker ?s)) t j =
      (case bus_live ?s j of Some sub \<Rightarrow> if t \<in> set (sub_Topics sub) then Some (sub_Events sub) else None | None \<Rightarrow> None)" for t j
      using bus_invD(2) [OF inv, of t j] live by (auto simp: b topic_maps.look_unreg_all [OF wf] split: option.split)
    show "live_ok (bus_broker ?s) j sub'" if "bus_live ?s j = Some sub'" for j sub'
    proof -
      have j: "j \<noteq> i" "bus_live s j = Some sub'" using that by (auto split: if_splits)
      then have "sub_Events sub' \<noteq> sub_Events sub" using bus_invD(4) [OF inv j(2) live] by auto
      then show ?thesis using bus_invD(3) [OF inv j(2)] j(1) by (simp add: b live_ok_def delete_conv')
    qed
    show "j = k" if "bus_live ?s j = Some sj" "bus_live ?s k = Some sk" "sub_Events sj = sub_Events sk" for j k sj sk
      using that bus_invD(4) [OF inv, of j sj k sk] by (auto split: if_splits)
    show "dom (map_of (br_channels (bus_broker ?s))) = dom (bus_live ?s)"
      using bus_invD(5) [OF inv] by (simp add: b delete_conv')
    show "buffers_ok (br_heap (bus_broker ?s))"
    proof -
      have live_ch: "sub_Events sub < length ?h" using bus_invD(3) [OF inv live] by (simp add: live_ok_def)
      then have "length (ch_buffer (?h ! sub_Events sub)) \<le> subscriberBufferSize"
        using bus_invD(6) [OF inv] by (simp add: buffers_ok_def)
      then show ?thesis
        using bus_invD(6) [OF inv] set_update_subset_insert [of ?h "sub_Events sub" "(?h ! sub_Events sub)\<lparr>ch_closed := True\<rparr>"]
        by (auto simp: b buffers_ok_def)
    qed
  qed
qed

lemma bus_inv_step: "bus_inv s \<Longrightarrow> bus_step s s' \<Longrightarrow> bus_inv s'"
  by (erule bus_stepE)
     (auto intro: bus_inv_subscribe bus_inv_update bus_inv_unsubscribe bus_inv_publish bus_inv_receive)

lemma bus_reachable_inv: "bus_reachable s \<Longrightarrow> bus_inv s"
  by (induction rule: bus_reachable.induct) (auto intro: bus_inv_init bus_inv_step)

section \<open>Delivery\<close>

definition delivered :: "Event \<Rightarrow> channel \<Rightarrow> Event list" where
  "delivered e c = (if length (ch_buffer c) < subscriberBufferSize then ch_buffer c @ [e] else ch_buffer c)"

lemma send_open:
  assumes "ch < length heap" "\<not> ch_closed (heap ! ch)"
  shows "\<exists>heap1. send e ch heap = Inr heap1 \<and> length heap1 = length heap \<and>
    (\<forall>c < length heap. ch_closed (heap1 ! c) = ch_closed (heap ! c) \<and>
       ch_buffer (heap1 ! c) = (if c = ch then delivered e (heap ! c) else ch_buffer (heap ! c)))"
  using assms by (auto simp: send_def delivered_def nth_list_update)

lemma send_all_open:
  "distinct chs \<Longrightarrow> \<forall>ch \<in> set chs. ch < length heap \<and> \<not> ch_closed (heap ! ch) \<Longrightarrow>
   \<exists>heap1. send_all e chs heap = Inr heap1 \<and>
     (\<forall>c < length heap. ch_buffer (heap1 ! c) = (if c \<in> set chs then delivered e (heap ! c) else ch_buffer (heap ! c)))"
proof (induction chs arbitrary: heap)
  case Nil
  then show ?case by simp
next
  case (Cons ch chs)
  then obtain h where h: "send e ch heap = Inr h" "length h = length heap"
    "\<forall>c < length heap. ch_closed (h ! c) = ch_closed (heap ! c) \<and>
       ch_buffer (h ! c) = (if c = ch then delivered e (heap ! c) else ch_buffer (heap ! c))"
    using send_open [of ch heap e] by auto
  have "\<forall>ch \<in> set chs. ch < length h \<and> \<not> ch_closed (h ! ch)" using Cons.prems(2) h by auto
  then obtain h1 where h1: "send_all e chs h = Inr h1"
    "\<forall>c < length h. ch_buffer (h1 ! c) = (if c \<in> set chs then delivered e (h ! c) else ch_buffer (h ! c))"
    using Cons.IH [of h] Cons.prems(1) by auto
  have "delivered e (h ! c) = delivered e (heap ! c)" if "c < length heap" "c \<noteq> ch" for c
    using h(3) that by (simp add: delivered_def)
  with h h1 Cons.prems(1) show ?case by (auto simp: delivered_def)
qed

lemma topic_channels:
  assumes inv: "bus_inv s" and m: "map_of (br_subscribers (bus_broker s)) t = Some m"
  shows "distinct (map snd m)" "(i, ch) \<in> set m \<longleftrightarrow> (\<exists>sub. bus_live s i = Some sub \<and> t \<in> set (sub_Topics sub) \<and> ch = sub_Events sub)"
proof -
  have dist: "distinct (map fst m)" using topics_wf_lookup [OF bus_invD(1) [OF inv] m] by simp
  have entry: "(j, c) \<in> set m \<longleftrightarrow> (\<exists>sub. bus_live s j = Some sub \<and> t \<in> set (sub_Topics sub) \<and> c = sub_Events sub)" for j c
  proof -
    have "(j, c) \<in> set m \<longleftrightarrow> registered (br_subscribers (bus_broker s)) t j = Some c"
      using m dist by (simp add: registered_def)
    also have "\<dots> \<longleftrightarrow> (\<exists>sub. bus_live s j = Some sub \<and> t \<in> set (sub_Topics sub) \<and> c = sub_Events sub)"
      using bus_invD(2) [OF inv, of t j] by (auto split: option.splits)
    finally show ?thesis .
  qed
  then show "(i, ch) \<in> set m \<longleftrightarrow> (\<exists>sub. bus_live s i = Some sub \<and> t \<in> set (sub_Topics sub) \<and> ch = sub_Events sub)" .
  have "inj_on snd (set m)"
  proof (rule inj_onI)
    fix x y
    assume xy: "x \<in> set m" "y \<in> set m" "snd x = snd y"
    obtain sx where sx: "bus_live s (fst x) = Some sx" "snd x = sub_Events sx"
      using entry [of "fst x" "snd x"] xy(1) by auto
    obtain sy where sy: "bus_live s (fst y) = Some sy" "snd y = sub_Events sy"
      using entry [of "fst y" "snd y"] xy(2) by auto
    have "fst x = fst y" using sx sy xy(3) by (intro bus_invD(4) [OF inv sx(1) sy(1)]) simp
    with xy(3) show "x = y" by (simp add: prod_eq_iff)
  qed
  then show "distinct (map snd m)" using dist by (simp add: distinct_map)
qed

lemma publish_delivery:
  assumes inv: "bus_inv s" and r: "range_ok r"
  shows "\<exists>b. Publish r e (bus_broker s) = Inr b \<and>
    (\<forall>i sub. bus_live s i = Some sub \<longrightarrow> ch_buffer (br_heap b ! sub_Events sub) =
       (if ev_Topic e \<in> set (sub_Topics sub) then delivered e (br_heap (bus_broker s) ! sub_Events sub)
        else ch_buffer (br_heap (bus_broker s) ! sub_Events sub)))"
proof (cases "map_of (br_subscribers (bus_broker s)) (ev_Topic e)")
  case None
  then have "ev_Topic e \<notin> set (sub_Topics sub)" if "bus_live s i = Some sub" for i sub
    using bus_invD(2) [OF inv, of "ev_Topic e" i] that by (auto simp: registered_def)
  with None show ?thesis by (auto simp: Publish_def)
next
  case (Some m)
  note ch = topic_channels [OF inv Some]
  have "distinct m" using topics_wf_lookup [OF bus_invD(1) [OF inv] Some] by (simp add: distinct_map)
  then have set_r: "set (r m) = set m" and dist_r: "distinct (r m)" using r by (simp_all add: range_ok_def)
  have "distinct (map snd (r m))" using ch(1) dist_r set_r by (simp add: distinct_map)
  moreover have "\<forall>c \<in> set (map snd (r m)). c < length (br_heap (bus_broker s)) \<and> \<not> ch_closed (br_heap (bus_broker s) ! c)"
    using ch(2) bus_invD(3) [OF inv] set_r by (fastforce simp: live_ok_def)
  ultimately obtain h where h: "send_all e (map snd (r m)) (br_heap (bus_broker s)) = Inr h"
    "\<forall>c < length (br_heap (bus_broker s)). ch_buffer (h ! c) =
       (if c \<in> set (map snd (r m)) then delivered e (br_heap (bus_broker s) ! c) else ch_buffer (br_heap (bus_broker s) ! c))"
    using send_all_open by blast
  have "sub_Events sub \<in> set (map snd (r m)) \<longleftrightarrow> ev_Topic e \<in> set (sub_Topics sub)"
    "sub_Events sub < length (br_heap (bus_broker s))" if live: "bus_live s i = Some sub" for i sub
  proof -
    show "sub_Events sub < length (br_heap (bus_broker s))" using bus_invD(3) [OF inv live] by (simp add: live_ok_def)
    have "sub_Events sub \<in> snd ` set m \<longleftrightarrow> (\<exists>j. (j, sub_Events sub) \<in> set m)" by (force simp: image_iff)
    also have "\<dots> \<longleftrightarrow> (i, sub_Events sub) \<in> set m"
    proof -
      have "j = i" if "(j, sub_Events sub) \<in> set m" for j
      proof -
        from that obtain sj where "bus_live s j = Some sj" "sub_Events sub = sub_Events sj" unfolding ch(2) by blast
        with bus_invD(4) [OF inv this(1) live] show ?thesis by simp
      qed
      then show ?thesis by blast
    qed
    also have "\<dots> \<longleftrightarrow> ev_Topic e \<in> set (sub_Topics sub)" unfolding ch(2) using live by simp
    finally show "sub_Events sub \<in> set (map snd (r m)) \<longleftrightarrow> ev_Topic e \<in> set (sub_Topics sub)" using set_r by simp
  qed
  with Some h show ?thesis by (auto simp: Publish_def)
qed

section \<open>Properties\<close>

text \<open>C26: in every reachable state \<open>Publish\<close> does not panic, whatever order it visits the subscribers in,
  and appends the event to the buffer of exactly the subscribers of its topic that have room (16 events);
  all other buffers stay as they are.\<close>

theorem Publish_delivers:
  assumes "bus_reachable s" "range_ok r"
  shows "\<exists>b. Publish r e (bus_broker s) = Inr b \<and>
    (\<forall>i sub. bus_live s i = Some sub \<longrightarrow>
       (let before = ch_buffer (br_heap (bus_broker s) ! sub_Events sub); after = ch_buffer (br_heap b ! sub_Events sub)
        in after = (if ev_Topic e \<in> set (sub_Topics sub) \<and> length before < 16 then before @ [e] else before)))"
proof -
  have "(if c then delivered e ch else ch_buffer ch) =
      (if c \<and> length (ch_buffer ch) < 16 then ch_buffer ch @ [e] else ch_buffer ch)" for c ch
    by (simp add: delivered_def subscriberBufferSize_def)
  then show ?thesis
    using publish_delivery [OF bus_reachable_inv [OF assms(1)] assms(2), of e] unfolding Let_def by (simp only:)
qed

definition sample_bus :: bus where
  "sample_bus =
     (let (b, sub) = Subscribe [''hosts'', ''host:h1''] NewBroker in \<lparr>bus_broker = b, bus_live = [1 \<mapsto> sub]\<rparr>)"

lemma sample_bus_step: "bus_step bus_init sample_bus"
proof -
  obtain b sub where sub: "Subscribe [''hosts'', ''host:h1''] NewBroker = (b, sub)" by (metis prod.exhaust)
  then have "sub_ID sub = 1" by (auto simp: Subscribe_def NewBroker_def Let_def)
  with sub bus_step.subscribe [of bus_init "[''hosts'', ''host:h1'']" b sub] show ?thesis
    by (simp add: sample_bus_def bus_init_def NewBroker_def)
qed

lemma sample_bus_reachable: "bus_reachable sample_bus"
  using bus_reachable.step [OF bus_reachable.initial sample_bus_step] .

theorem Publish_delivers_witness:
  "\<exists>b. Publish rev NewHostsUpdatedEvent (bus_broker sample_bus) = Inr b \<and> ch_buffer (br_heap b ! 0) = [NewHostsUpdatedEvent]"
proof -
  have "bus_live sample_bus 1 = Some \<lparr>sub_ID = 1, sub_Topics = [''hosts'', ''host:h1''], sub_Events = 0\<rparr>"
    "ch_buffer (br_heap (bus_broker sample_bus) ! 0) = []" "ev_Topic NewHostsUpdatedEvent = ''hosts''"
    by (simp_all add: sample_bus_def Subscribe_def NewBroker_def NewHostsUpdatedEvent_def Let_def)
  with Publish_delivers [OF sample_bus_reachable range_ok_rev, of NewHostsUpdatedEvent] show ?thesis
    unfolding Let_def by force
qed

text \<open>C27: the broker never leaks and never closes a channel twice. In every reachable state the channels of
  all subscribers are open and hold at most 16 events, unsubscribing one does not panic, and once the
  last subscriber has left, no topic and no channel is left in the broker's maps.\<close>

theorem broker_clean:
  assumes "bus_reachable s"
  shows "(\<forall>i sub. bus_live s i = Some sub \<longrightarrow>
       \<not> ch_closed (br_heap (bus_broker s) ! sub_Events sub) \<and>
       length (ch_buffer (br_heap (bus_broker s) ! sub_Events sub)) \<le> 16 \<and>
       (\<exists>b. Unsubscribe sub (bus_broker s) = Inr b)) \<and>
     (bus_live s = Map.empty \<longrightarrow> br_subscribers (bus_broker s) = [] \<and> br_channels (bus_broker s) = [])"
proof (intro conjI allI impI)
  note inv = bus_reachable_inv [OF assms]
  fix i sub
  assume live: "bus_live s i = Some sub"
  have ok: "live_ok (bus_broker s) i sub" using inv live by (rule bus_invD(3))
  then show "\<not> ch_closed (br_heap (bus_broker s) ! sub_Events sub)" by (simp add: live_ok_def)
  show "length (ch_buffer (br_heap (bus_broker s) ! sub_Events sub)) \<le> 16"
    using bus_invD(6) [OF inv] ok by (simp add: buffers_ok_def live_ok_def subscriberBufferSize_def)
  show "\<exists>b. Unsubscribe sub (bus_broker s) = Inr b" using Unsubscribe_live [OF inv live] by blast
next
  note inv = bus_reachable_inv [OF assms]
  assume none: "bus_live s = Map.empty"
  show "br_channels (bus_broker s) = []"
    using bus_invD(5) [OF inv] none by (cases "br_channels (bus_broker s)") (auto simp: dom_map_of_conv_image_fst)
  show "br_subscribers (bus_broker s) = []"
  proof (cases "br_subscribers (bus_broker s)")
    case (Cons e rest)
    then have m: "map_of (br_subscribers (bus_broker s)) (fst e) = Some (snd e)" by (cases e) simp
    then obtain j c where "(j, c) \<in> set (snd e)"
      using topics_wf_lookup [OF bus_invD(1) [OF inv] m] by (cases "snd e") auto
    then show ?thesis using topic_channels(2) [OF inv m] none by simp
  qed simp
qed

theorem broker_clean_witness:
  "length (ch_buffer (br_heap (bus_broker sample_bus) ! 0)) \<le> 16"
proof -
  have "bus_live sample_bus 1 = Some \<lparr>sub_ID = 1, sub_Topics = [''hosts'', ''host:h1''], sub_Events = 0\<rparr>"
    by (simp add: sample_bus_def Subscribe_def NewBroker_def Let_def)
  with broker_clean [OF sample_bus_reachable] show ?thesis by fastforce
qed

end
