(* ===== verification/Matcher.thy ===== *)
theory Matcher
  imports Product_Streams Build_Decisions Event_Bus
begin

text \<open>
  \<open>MatchSnapshot\<close> and \<open>MatchHostsForScope\<close> of \<open>internal/services/matchers/matcher.go\<close>, with the SQL
  statements they run (\<open>internal/sql/*.sql.go\<close>) on a record of tables. What the surroundings decide is
  in the record \<open>match_env\<close>: which database call fails, which advisories another transaction has deleted
  meanwhile, the decoding of the stored payload (\<open>proto.Unmarshal\<close>), the identifiers drawn, the map
  orders and the clock. An error is the name of the call that failed. A transaction works on a copy of
  the tables that \<open>Commit\<close> makes current and the deferred \<open>Rollback\<close> drops.
\<close>

section \<open>Tables\<close>

record tables =
  db_hosts :: "Host list"
  db_snapshots :: "HostSnapshot list"
  db_streams :: "ProductStream list"
  db_advisories :: "Advisory list"
  db_links :: "AdvisoryProductStream list"
  db_rules :: "AffectedPackageRule list"
  db_fixes :: "FixedPackage list"
  db_refs :: "AdvisoryReference list"
  db_decisions :: "InsertDecisionRecordParams list"
  db_states :: "UpsertHostCurrentStateParams list"

datatype db_call =
    CallGetHostSnapshot
  | CallGetHostByID
  | CallUnmarshal
  | CallListProductStreams
  | CallBeginTx
  | CallLockHost
  | CallDeleteDecisionRecords
  | CallListAdvisories
  | CallListAdvisoryProductStreams
  | CallListAffectedPackageRules
  | CallListFixedPackages
  | CallListAdvisoryReferences
  | CallSavepoint nat
  | CallInsertDecisionRecord nat
  | CallRollbackToSavepoint nat
  | CallReleaseSavepoint nat
  | CallUpsertHostCurrentState
  | CallCommit

datatype snapshot_error = CallFailed db_call | BuildDecisionsFailed match_error

record match_env =
  env_fault :: "db_call \<Rightarrow> bool"
  env_deleted :: "string \<Rightarrow> bool"
  env_unmarshal :: "string \<Rightarrow> AgentSnapshot option"
  env_ids :: "nat \<Rightarrow> string"
  env_ranges :: map_ranges
  env_now :: string

record MatchResult =
  mr_HostID :: string
  mr_SnapshotID :: string
  mr_DecisionCount :: nat
  mr_OverallAction :: string
  mr_ResolvedStreamIDs :: "string list"

section \<open>Statements\<close>

fun first_row :: "('a \<Rightarrow> bool) \<Rightarrow> 'a list \<Rightarrow> 'a option" where
  "first_row P [] = None"
| "first_row P (x # xs) = (if P x then Some x else first_row P xs)"

definition GetHostSnapshot :: "string \<Rightarrow> tables \<Rightarrow> HostSnapshot option" where
  "GetHostSnapshot i db = first_row (\<lambda>s. snap_ID s = i) (db_snapshots db)"

definition GetHostByID :: "string \<Rightarrow> tables \<Rightarrow> Host option" where
  "GetHostByID i db = first_row (\<lambda>h. host_ID h = i) (db_hosts db)"

definition DeleteDecisionRecordsBySnapshot :: "string \<Rightarrow> tables \<Rightarrow> tables" where
  "DeleteDecisionRecordsBySnapshot snapshotID db =
     db\<lparr>db_decisions := filter (\<lambda>r. dec_SnapshotID r \<noteq> snapshotID) (db_decisions db)\<rparr>"

definition ListAdvisoriesByStreamIDs :: "string list \<Rightarrow> tables \<Rightarrow> Advisory list" where
  "ListAdvisoriesByStreamIDs ids db =
     remdups (concat (map (\<lambda>a. map (\<lambda>_. a)
       (filter (\<lambda>l. aps_AdvisoryID l = adv_ID a \<and> aps_ProductStreamID l \<in> set ids) (db_links db))) (db_advisories db)))"

definition ListAdvisoryProductStreamsByStreamIDs :: "string list \<Rightarrow> tables \<Rightarrow> AdvisoryProductStream list" where
  "ListAdvisoryProductStreamsByStreamIDs ids db = filter (\<lambda>l. aps_ProductStreamID l \<in> set ids) (db_links db)"

definition ListAffectedPackageRulesByStreamIDs :: "string list \<Rightarrow> tables \<Rightarrow> AffectedPackageRule list" where
  "ListAffectedPackageRulesByStreamIDs ids db = filter (\<lambda>r. rule_ProductStreamID r \<in> set ids) (db_rules db)"

definition ListFixedPackagesByStreamIDs :: "string list \<Rightarrow> tables \<Rightarrow> FixedPackage list" where
  "ListFixedPackagesByStreamIDs ids db = filter (\<lambda>f. fix_ProductStreamID f \<in> set ids) (db_fixes db)"

definition ListAdvisoryReferencesByStreamIDs :: "string list \<Rightarrow> tables \<Rightarrow> AdvisoryReference list" where
  "ListAdvisoryReferencesByStreamIDs ids db =
     concat (map (\<lambda>r. map (\<lambda>_. r)
       (filter (\<lambda>l. aps_AdvisoryID l = ref_AdvisoryID r \<and> aps_ProductStreamID l \<in> set ids) (db_links db))) (db_refs db))"

definition InsertDecisionRecord :: "InsertDecisionRecordParams \<Rightarrow> tables \<Rightarrow> tables" where
  "InsertDecisionRecord r db = db\<lparr>db_decisions := db_decisions db @ [r]\<rparr>"

text \<open>\<open>INSERT ... ON CONFLICT (host_id) DO UPDATE\<close>\<close>

definition UpsertHostCurrentState :: "UpsertHostCurrentStateParams \<Rightarrow> tables \<Rightarrow> tables" where
  "UpsertHostCurrentState s db =
     db\<lparr>db_states :=
        (if \<exists>x \<in> set (db_states db). hcs_HostID x = hcs_HostID s
         then map (\<lambda>x. if hcs_HostID x = hcs_HostID s then s else x) (db_states db)
         else db_states db @ [s])\<rparr>"

section \<open>\<open>MatchSnapshot\<close>\<close>

record advisoryData =
  ad_advisories :: "Advisory list"
  ad_advisoryStreamLinks :: "AdvisoryProductStream list"
  ad_rules :: "AffectedPackageRule list"
  ad_fixes :: "FixedPackage list"
  ad_references :: "AdvisoryReference list"

definition loadAdvisoryDataForStreams :: "match_env \<Rightarrow> string list \<Rightarrow> tables \<Rightarrow> snapshot_error + advisoryData" where
  "loadAdvisoryDataForStreams env ids db =
     (if env_fault env CallListAdvisories then Inl (CallFailed CallListAdvisories)
      else if env_fault env CallListAdvisoryProductStreams then Inl (CallFailed CallListAdvisoryProductStreams)
      else if env_fault env CallListAffectedPackageRules then Inl (CallFailed CallListAffectedPackageRules)
      else if env_fault env CallListFixedPackages then Inl (CallFailed CallListFixedPackages)
      else if env_fault env CallListAdvisoryReferences then Inl (CallFailed CallListAdvisoryReferences)
      else Inr \<lparr>ad_advisories = ListAdvisoriesByStreamIDs ids db,
                ad_advisoryStreamLinks = ListAdvisoryProductStreamsByStreamIDs ids db,
                ad_rules = ListAffectedPackageRulesByStreamIDs ids db,
                ad_fixes = ListFixedPackagesByStreamIDs ids db,
                ad_references = ListAdvisoryReferencesByStreamIDs ids db\<rparr>)"

text \<open>
  The loop that inserts the decisions, each behind a savepoint. An insertion whose advisory has been
  deleted concurrently violates the foreign key; the loop rolls back to the savepoint and skips it.
\<close>

fun insert_loop :: "match_env \<Rightarrow> nat \<Rightarrow> decision list \<Rightarrow> tables \<Rightarrow> snapshot_error + tables" where
  "insert_loop env n [] tx = Inr tx"
| "insert_loop env n (dec # decisions) tx =
     (if env_fault env (CallSavepoint n) then Inl (CallFailed (CallSavepoint n))
      else if env_fault env (CallInsertDecisionRecord n) then Inl (CallFailed (CallInsertDecisionRecord n))
      else if env_deleted env (dec_AdvisoryID (d_record dec))
      then if env_fault env (CallRollbackToSavepoint n) then Inl (CallFailed (CallRollbackToSavepoint n))
           else if env_fault env (CallReleaseSavepoint n) then Inl (CallFailed (CallReleaseSavepoint n))
           else insert_loop env (Suc n) decisions tx
      else if env_fault env (CallReleaseSavepoint n) then Inl (CallFailed (CallReleaseSavepoint n))
      else insert_loop env (Suc n) decisions (InsertDecisionRecord (d_record dec) tx))"

text \<open>The part of \<open>MatchSnapshot\<close> between \<open>BeginTx\<close> and \<open>Commit\<close>.\<close>

definition match_in_tx ::
  "match_env \<Rightarrow> string \<Rightarrow> string \<Rightarrow> HostSnapshot \<Rightarrow> Host \<Rightarrow> AgentSnapshot \<Rightarrow> ProductStream list \<Rightarrow> tables \<Rightarrow>
   snapshot_error + tables \<times> MatchResult" where
  "match_in_tx env hostID snapshotID snapshot host agentSnap resolvedStreams tx =
     (let resolvedStreamIDs = streamIDs resolvedStreams in
      if env_fault env CallLockHost then Inl (CallFailed CallLockHost)
      else if env_fault env CallDeleteDecisionRecords then Inl (CallFailed CallDeleteDecisionRecords)
      else
        let tx1 = DeleteDecisionRecordsBySnapshot snapshotID tx;
            computedAt = env_now env;
            availablePackageUpdateCount =
              (case as_Host agentSnap of None \<Rightarrow> 0 | Some h \<Rightarrow> ah_AvailablePackageUpdateCount h)
        in if resolvedStreams = []
           then let state = (aggregateHostCurrentState snapshot [] availablePackageUpdateCount)
                              \<lparr>hcs_OverallAction := ''investigate''\<rparr>
                in if env_fault env CallUpsertHostCurrentState then Inl (CallFailed CallUpsertHostCurrentState)
                   else if env_fault env CallCommit then Inl (CallFailed CallCommit)
                   else Inr (UpsertHostCurrentState state tx1,
                          \<lparr>mr_HostID = hostID, mr_SnapshotID = snapshotID, mr_DecisionCount = 0,
                           mr_OverallAction = hcs_OverallAction state, mr_ResolvedStreamIDs = []\<rparr>)
           else
             (case loadAdvisoryDataForStreams env resolvedStreamIDs tx1 of
                Inl err \<Rightarrow> Inl err
              | Inr data \<Rightarrow>
                  (case buildDecisions (env_ranges env) (env_ids env) (host_ID host) (host_OsFamily host) snapshot
                          (as_Packages agentSnap) resolvedStreams (ad_advisories data)
                          (indexAdvisoryStreams (ad_advisoryStreamLinks data)) (indexRulesByAdvisory (ad_rules data))
                          (indexFixesByAdvisory (ad_fixes data)) (indexReferencesByAdvisory (ad_references data))
                          computedAt of
                     Inl err \<Rightarrow> Inl (BuildDecisionsFailed err)
                   | Inr decisions \<Rightarrow>
                       (case insert_loop env 0 decisions tx1 of
                          Inl err \<Rightarrow> Inl err
                        | Inr tx2 \<Rightarrow>
                            let state = aggregateHostCurrentState snapshot decisions availablePackageUpdateCount
                            in if env_fault env CallUpsertHostCurrentState then Inl (CallFailed CallUpsertHostCurrentState)
                               else if env_fault env CallCommit then Inl (CallFailed CallCommit)
                               else Inr (UpsertHostCurrentState state tx2,
                                      \<lparr>mr_HostID = hostID, mr_SnapshotID = snapshotID,
                                       mr_DecisionCount = length decisions,
                                       mr_OverallAction = hcs_OverallAction state,
                                       mr_ResolvedStreamIDs = resolvedStreamIDs\<rparr>)))))"

text \<open>The whole call: the tables, the events published so far and the result.\<close>

definition MatchSnapshot ::
  "match_env \<Rightarrow> string \<Rightarrow> string \<Rightarrow> tables \<times> Event list \<Rightarrow> (tables \<times> Event list) \<times> (snapshot_error + MatchResult)" where
  "MatchSnapshot env hostID snapshotID s =
     (let (db, published) = s in
      case (if env_fault env CallGetHostSnapshot then None else GetHostSnapshot snapshotID db) of
        None \<Rightarrow> (s, Inl (CallFailed CallGetHostSnapshot))
      | Some snapshot \<Rightarrow>
          (case (if env_fault env CallGetHostByID then None else GetHostByID hostID db) of
             None \<Rightarrow> (s, Inl (CallFailed CallGetHostByID))
           | Some host \<Rightarrow>
               (case env_unmarshal env (snap_Payload snapshot) of
                  None \<Rightarrow> (s, Inl (CallFailed CallUnmarshal))
                | Some agentSnap \<Rightarrow>
                    if env_fault env CallListProductStreams then (s, Inl (CallFailed CallListProductStreams))
                    else
                      let resolvedStreams = resolveProductStreams host (as_Repos agentSnap) (db_streams db)
                      in if env_fault env CallBeginTx then (s, Inl (CallFailed CallBeginTx))
                         else (case match_in_tx env hostID snapshotID snapshot host agentSnap resolvedStreams db of
                                 Inl err \<Rightarrow> (s, Inl err)
                               | Inr (db1, result) \<Rightarrow>
                                   ((db1, published @ [NewHostMatchedEvent hostID]), Inr result)))))"

section \<open>\<open>MatchHostsForScope\<close>\<close>

definition ListHostsByAdvisoryScopeKey :: "string \<Rightarrow> tables \<Rightarrow> Host list" where
  "ListHostsByAdvisoryScopeKey scopeKey db = filter (\<lambda>h. host_AdvisoryScopeKey h = Some scopeKey) (db_hosts db)"

text \<open>\<open>env h\<close> is what the surroundings decide during the call for host \<open>h\<close>; a failure is only logged.\<close>

fun rematch_loop :: "(Host \<Rightarrow> match_env) \<Rightarrow> Host list \<Rightarrow> tables \<times> Event list \<Rightarrow> tables \<times> Event list" where
  "rematch_loop env [] s = s"
| "rematch_loop env (host # hosts) s =
     (if IsNoneOrDefault (host_LastSnapshotID host) then rematch_loop env hosts s
      else rematch_loop env hosts
             (fst (MatchSnapshot (env host) (host_ID host) (UnwrapOr (host_LastSnapshotID host) []) s)))"

definition MatchHostsForScope ::
  "(Host \<Rightarrow> match_env) \<Rightarrow> bool \<Rightarrow> string \<Rightarrow> tables \<times> Event list \<Rightarrow> (tables \<times> Event list) \<times> bool" where
  "MatchHostsForScope env listFails scopeKey s =
     (if listFails then (s, False)
      else let (db, published) = rematch_loop env (ListHostsByAdvisoryScopeKey scopeKey (fst s)) s
           in ((db, published @ [NewHostsUpdatedEvent]), True))"

section \<open>Lemmas\<close>

lemma first_row_Some: "first_row P xs = Some x \<Longrightarrow> x \<in> set xs \<and> P x"
  by (induction xs) (auto split: if_splits)

lemma insert_loop_Inr:
  "insert_loop env n ds tx = Inr tx1 \<Longrightarrow>
   tx1 = tx\<lparr>db_decisions := db_decisions tx @ map d_record (filter (\<lambda>d. \<not> env_deleted env (dec_AdvisoryID (d_record d))) ds)\<rparr>"
proof (induction ds arbitrary: n tx)
  case Nil
  then show ?case by simp
next
  case (Cons d ds)
  then show ?case by (fastforce simp: InsertDecisionRecord_def split: if_splits)
qed

lemma UpsertHostCurrentState_lookup:
  "\<exists>x \<in> set (db_states (UpsertHostCurrentState s db)). hcs_HostID x = hcs_HostID s"
  "x \<in> set (db_states (UpsertHostCurrentState s db)) \<Longrightarrow> hcs_HostID x = hcs_HostID s \<Longrightarrow> x = s"
  "hcs_HostID x \<noteq> hcs_HostID s \<Longrightarrow>
     x \<in> set (db_states (UpsertHostCurrentState s db)) \<longleftrightarrow> x \<in> set (db_states db)"
  by (auto simp: UpsertHostCurrentState_def split: if_splits)

lemma build_snapshot_ids:
  assumes "ranges_ok ranges"
    and "buildDecisions ranges ids h os snap ps streams advs aps rules fxs refs ca = Inr ds" "d \<in> set ds"
  shows "dec_SnapshotID (d_record d) = snap_ID snap \<and> dec_HostID (d_record d) = h"
proof -
  let ?i = "\<lparr>in_hostID = h, in_osFamily = os, in_snapshot = snap, in_packages = ps, in_streams = streams,
     in_advisories = advs, in_advisoryStreams = aps, in_rules = rules, in_fixes = fxs, in_refs = refs, in_computedAt = ca\<rparr>"
  have "run_build ranges ids ?i = Inr ds" using assms(2) by simp
  from assms(1) this assms(3) show ?thesis
    by (rule build_decision_header) (simp add: decision_header_def)
qed

text \<open>The effect of the transaction on the tables.\<close>

definition rematched :: "match_env \<Rightarrow> string \<Rightarrow> decision list \<Rightarrow> UpsertHostCurrentStateParams \<Rightarrow> tables \<Rightarrow> tables" where
  "rematched env snapshotID ds state db =
     UpsertHostCurrentState state
       (db\<lparr>db_decisions := filter (\<lambda>r. dec_SnapshotID r \<noteq> snapshotID) (db_decisions db) @
             map d_record (filter (\<lambda>d. \<not> env_deleted env (dec_AdvisoryID (d_record d))) ds)\<rparr>)"

lemma match_in_tx_Inr:
  assumes "ranges_ok (env_ranges env)" "match_in_tx env h sid snap host ag streams db = Inr (db1, res)"
  obtains ds state where "db1 = rematched env sid ds state db" "\<forall>d \<in> set ds. dec_SnapshotID (d_record d) = snap_ID snap"
    "mr_DecisionCount res = length ds" "mr_OverallAction res = hcs_OverallAction state" "hcs_HostID state = snap_HostID snap"
    "hcs_SnapshotID state = snap_ID snap" "\<forall>d \<in> set ds. dec_HostID (d_record d) = host_ID host"
proof (cases "streams = []")
  case True
  let ?state = "(aggregateHostCurrentState snap [] (case as_Host ag of None \<Rightarrow> 0 | Some h \<Rightarrow> ah_AvailablePackageUpdateCount h))
      \<lparr>hcs_OverallAction := ''investigate''\<rparr>"
  have "db1 = rematched env sid [] ?state db" "mr_DecisionCount res = 0" "mr_OverallAction res = hcs_OverallAction ?state"
    using assms(2) True by (auto simp: match_in_tx_def rematched_def DeleteDecisionRecordsBySnapshot_def Let_def split: if_splits)
  moreover have "hcs_HostID ?state = snap_HostID snap" "hcs_SnapshotID ?state = snap_ID snap" by (simp_all add: aggregateHostCurrentState_def)
  ultimately show ?thesis using that [of "[]" ?state] by simp
next
  case False
  let ?n = "case as_Host ag of None \<Rightarrow> 0 | Some h \<Rightarrow> ah_AvailablePackageUpdateCount h"
  let ?tx = "DeleteDecisionRecordsBySnapshot sid db"
  from assms(2) False obtain data where l: "loadAdvisoryDataForStreams env (streamIDs streams) ?tx = Inr data"
    by (cases "loadAdvisoryDataForStreams env (streamIDs streams) ?tx") (auto simp: match_in_tx_def Let_def split: if_splits)
  let ?build = "buildDecisions (env_ranges env) (env_ids env) (host_ID host) (host_OsFamily host) snap (as_Packages ag) streams
          (ad_advisories data) (indexAdvisoryStreams (ad_advisoryStreamLinks data)) (indexRulesByAdvisory (ad_rules data))
          (indexFixesByAdvisory (ad_fixes data)) (indexReferencesByAdvisory (ad_references data)) (env_now env)"
  from assms(2) False l obtain ds where b: "?build = Inr ds"
    by (cases ?build) (auto simp: match_in_tx_def Let_def split: if_splits)
  from assms(2) False l b obtain tx where t: "insert_loop env 0 ds ?tx = Inr tx"
    by (cases "insert_loop env 0 ds ?tx") (auto simp: match_in_tx_def Let_def split: if_splits)
  from assms(2) False l b t
  have r: "db1 = UpsertHostCurrentState (aggregateHostCurrentState snap ds ?n) tx" "mr_DecisionCount res = length ds"
      "mr_OverallAction res = hcs_OverallAction (aggregateHostCurrentState snap ds ?n)"
    by (auto simp: match_in_tx_def Let_def split: if_splits)
  have "db1 = rematched env sid ds (aggregateHostCurrentState snap ds ?n) db"
    using r(1) insert_loop_Inr [OF t] by (simp add: rematched_def DeleteDecisionRecordsBySnapshot_def)
  moreover have "hcs_HostID (fold count_decision ds s) = hcs_HostID s \<and> hcs_SnapshotID (fold count_decision ds s) = hcs_SnapshotID s" for s
    by (induction ds arbitrary: s) (simp_all add: count_decision_def Let_def)
  then have "hcs_HostID (aggregateHostCurrentState snap ds ?n) = snap_HostID snap"
      "hcs_SnapshotID (aggregateHostCurrentState snap ds ?n) = snap_ID snap"
    by (simp_all add: aggregateHostCurrentState_def)
  ultimately show ?thesis using that r(2,3) build_snapshot_ids [OF assms(1) b] by blast
qed

lemma MatchSnapshot_cases:
  obtains (fail) e where "MatchSnapshot env h sid s = (s, Inl e)"
  | (ok) snap host ag db1 res where "MatchSnapshot env h sid s = ((db1, snd s @ [NewHostMatchedEvent h]), Inr res)"
      "GetHostSnapshot sid (fst s) = Some snap"
      "match_in_tx env h sid snap host ag (resolveProductStreams host (as_Repos ag) (db_streams (fst s))) (fst s) = Inr (db1, res)"
      "GetHostByID h (fst s) = Some host"
proof (cases "MatchSnapshot env h sid s")
  case (Pair s1 r)
  show ?thesis
  proof (cases r)
    case (Inl e)
    with Pair have "s1 = s" by (auto simp: MatchSnapshot_def Let_def split: prod.splits option.splits if_splits sum.splits)
    with Pair Inl show ?thesis using fail by simp
  next
    case (Inr res)
    with Pair obtain snap host ag db1 where "GetHostSnapshot sid (fst s) = Some snap"
      "match_in_tx env h sid snap host ag (resolveProductStreams host (as_Repos ag) (db_streams (fst s))) (fst s) = Inr (db1, res)"
      "GetHostByID h (fst s) = Some host" "s1 = (db1, snd s @ [NewHostMatchedEvent h])"
      by (cases s) (auto simp: MatchSnapshot_def Let_def split: option.splits if_splits sum.splits)
    with Pair Inr show ?thesis using ok by simp
  qed
qed

lemma rematched_tables:
  "db_hosts (rematched env sid ds st db) = db_hosts db" "db_snapshots (rematched env sid ds st db) = db_snapshots db"
  "db_streams (rematched env sid ds st db) = db_streams db" "db_advisories (rematched env sid ds st db) = db_advisories db"
  "db_links (rematched env sid ds st db) = db_links db" "db_rules (rematched env sid ds st db) = db_rules db"
  "db_fixes (rematched env sid ds st db) = db_fixes db" "db_refs (rematched env sid ds st db) = db_refs db"
  "db_decisions (rematched env sid ds st db) = filter (\<lambda>r. dec_SnapshotID r \<noteq> sid) (db_decisions db) @
     map d_record (filter (\<lambda>d. \<not> env_deleted env (dec_AdvisoryID (d_record d))) ds)"
  by (simp_all add: rematched_def UpsertHostCurrentState_def)

lemma rematched_other_snapshots:
  assumes "\<forall>d \<in> set ds. dec_SnapshotID (d_record d) = sid" "\<forall>r. P r \<longrightarrow> dec_SnapshotID r \<noteq> sid"
  shows "filter P (db_decisions (rematched env sid ds st db)) = filter P (db_decisions db)"
proof -
  have "filter P (map d_record (filter (\<lambda>d. \<not> env_deleted env (dec_AdvisoryID (d_record d))) ds)) = []"
    using assms by (auto simp: filter_empty_conv)
  moreover have "filter (\<lambda>r. dec_SnapshotID r \<noteq> sid \<and> P r) (db_decisions db) = filter P (db_decisions db)"
    using assms(2) by (intro filter_cong) auto
  ultimately show ?thesis by (simp add: rematched_tables)
qed

section \<open>Properties\<close>

text \<open>C28: a match is all or nothing. If \<open>MatchSnapshot\<close> returns an error, whichever call failed, the tables
  are unchanged and no event has been published; otherwise exactly one event, for the host, has.\<close>

theorem MatchSnapshot_atomic:
  "(\<forall>e. snd (MatchSnapshot env h sid s) = Inl e \<longrightarrow> fst (MatchSnapshot env h sid s) = s) \<and>
   (\<forall>res. snd (MatchSnapshot env h sid s) = Inr res \<longrightarrow>
      snd (fst (MatchSnapshot env h sid s)) = snd s @ [NewHostMatchedEvent h])"
  by (cases rule: MatchSnapshot_cases [of env h sid s]) simp_all

definition empty_tables :: tables where
  "empty_tables = \<lparr>db_hosts = [], db_snapshots = [], db_streams = [], db_advisories = [], db_links = [], db_rules = [],
     db_fixes = [], db_refs = [], db_decisions = [], db_states = []\<rparr>"

definition sample_tables :: tables where
  "sample_tables = empty_tables\<lparr>db_hosts := [zero_Host\<lparr>host_ID := ''h1'', host_OsName := ''Rocky Linux'', host_OsMajor := 9,
       host_OsFamily := ''rpm'', host_LastSnapshotID := Some ''s1'', host_AdvisoryScopeKey := Some ''rocky-9''\<rparr>],
     db_snapshots := [zero_HostSnapshot\<lparr>snap_ID := ''s1'', snap_HostID := ''h1''\<rparr>],
     db_streams := [zero_ProductStream\<lparr>ps_ID := ''p1'', ps_Vendor := ''rocky'', ps_MajorVersion := 9\<rparr>],
     db_advisories := [zero_Advisory\<lparr>adv_ID := ''A1''\<rparr>], db_links := [\<lparr>aps_AdvisoryID = ''A1'', aps_ProductStreamID = ''p1''\<rparr>],
     db_fixes := [sample_fix\<lparr>fix_ProductStreamID := ''p1''\<rparr>],
     db_decisions := [zero_InsertDecisionRecordParams\<lparr>dec_ID := ''old'', dec_SnapshotID := ''s1''\<rparr>,
       zero_InsertDecisionRecordParams\<lparr>dec_ID := ''other'', dec_SnapshotID := ''s0''\<rparr>]\<rparr>"

definition sample_env :: match_env where
  "sample_env = \<lparr>env_fault = (\<lambda>_. False), env_deleted = (\<lambda>_. False),
     env_unmarshal = (\<lambda>_. Some \<lparr>as_SchemaVersion = [], as_SentAt = None, as_Host = None, as_Repos = [], as_Packages = [sample_package], as_Runtime = None, as_UpgradablePackages = []\<rparr>),
     env_ids = (\<lambda>_. ''id''), env_ranges = insertion_order, env_now = ''now''\<rparr>"

theorem MatchSnapshot_atomic_witness:
  "fst (MatchSnapshot (sample_env\<lparr>env_fault := (\<lambda>c. c = CallReleaseSavepoint 0)\<rparr>) ''h1'' ''s1'' (sample_tables, [])) = (sample_tables, [])"
proof -
  have "snd (MatchSnapshot (sample_env\<lparr>env_fault := (\<lambda>c. c = CallReleaseSavepoint 0)\<rparr>) ''h1'' ''s1'' (sample_tables, [])) =
      Inl (CallFailed (CallReleaseSavepoint 0))" by code_simp
  then show ?thesis using MatchSnapshot_atomic by blast
qed



lemma MatchSnapshot_frame:
  assumes "ranges_ok (env_ranges env)" "\<forall>r. P r \<longrightarrow> dec_SnapshotID r \<noteq> sid"
  shows "filter P (db_decisions (fst (fst (MatchSnapshot env h sid s)))) = filter P (db_decisions (fst s)) \<and>
    db_hosts (fst (fst (MatchSnapshot env h sid s))) = db_hosts (fst s)"
proof (cases rule: MatchSnapshot_cases [of env h sid s])
  case (fail e)
  then show ?thesis by simp
next
  case (ok snap host ag db1 res)
  have "snap_ID snap = sid" using ok(2) first_row_Some by (fastforce simp: GetHostSnapshot_def)
  then obtain ds state where "db1 = rematched env sid ds state (fst s)" "\<forall>d \<in> set ds. dec_SnapshotID (d_record d) = sid"
    using match_in_tx_Inr [OF assms(1) ok(3)] by blast
  then show ?thesis using ok(1) rematched_other_snapshots [OF _ assms(2)] by (simp add: rematched_tables)
qed

lemma rematch_loop_frame:
  assumes "\<forall>h. ranges_ok (env_ranges (env h))"
    and "\<forall>r. P r \<longrightarrow> (\<forall>h \<in> set hosts. dec_SnapshotID r \<noteq> UnwrapOr (host_LastSnapshotID h) [])"
  shows "filter P (db_decisions (fst (rematch_loop env hosts s))) = filter P (db_decisions (fst s))"
  using assms(2)
proof (induction hosts arbitrary: s)
  case Nil
  then show ?case by simp
next
  case (Cons h hosts)
  have "filter P (db_decisions (fst (fst (MatchSnapshot (env h) (host_ID h) (UnwrapOr (host_LastSnapshotID h) []) s)))) =
      filter P (db_decisions (fst s))"
    using MatchSnapshot_frame [of "env h" P "UnwrapOr (host_LastSnapshotID h) []"] assms(1) Cons.prems by simp
  with Cons show ?case by simp
qed

lemma rematch_loop_events:
  "\<exists>hs. snd (rematch_loop env hosts s) = snd s @ map (\<lambda>h. NewHostMatchedEvent (host_ID h)) hs \<and> set hs \<subseteq> set hosts"
proof (induction hosts arbitrary: s)
  case Nil
  then show ?case by (auto intro: exI [of _ "[]"])
next
  case (Cons h hosts)
  let ?s = "if IsNoneOrDefault (host_LastSnapshotID h) then s
      else fst (MatchSnapshot (env h) (host_ID h) (UnwrapOr (host_LastSnapshotID h) []) s)"
  obtain hs where hs: "snd (rematch_loop env hosts ?s) = snd ?s @ map (\<lambda>h. NewHostMatchedEvent (host_ID h)) hs" "set hs \<subseteq> set hosts"
    using Cons.IH [of ?s] by blast
  have "snd ?s = snd s \<or> snd ?s = snd s @ [NewHostMatchedEvent (host_ID h)]"
    by (cases rule: MatchSnapshot_cases [of "env h" "host_ID h" "UnwrapOr (host_LastSnapshotID h) []" s]) simp_all
  then have "snd (rematch_loop env hosts ?s) = snd s @ map (\<lambda>h. NewHostMatchedEvent (host_ID h)) hs \<or>
      snd (rematch_loop env hosts ?s) = snd s @ map (\<lambda>h. NewHostMatchedEvent (host_ID h)) (h # hs)"
    unfolding hs(1) by auto
  moreover have "rematch_loop env (h # hosts) s = rematch_loop env hosts ?s" by simp
  moreover have "set hs \<subseteq> set (h # hosts)" "set (h # hs) \<subseteq> set (h # hosts)" using hs(2) by auto
  ultimately show ?case by metis
qed

text \<open>Rematching a scope touches only its own hosts. The decisions of any snapshot that is not the last
  snapshot of a host in the scope are unchanged, every event before the last is for a host of the
  scope, and the last one announces the change of the host list; a failure for one host does not stop
  the others.\<close>

theorem MatchHostsForScope_frame:
  assumes "\<forall>h. ranges_ok (env_ranges (env h))"
    and "MatchHostsForScope env False scopeKey (db, ev) = ((db', ev'), ok)"
  shows "ok \<and>
    (\<forall>r. (\<forall>h \<in> set (db_hosts db). host_AdvisoryScopeKey h = Some scopeKey \<longrightarrow>
            dec_SnapshotID r \<noteq> UnwrapOr (host_LastSnapshotID h) []) \<longrightarrow>
         (r \<in> set (db_decisions db') \<longleftrightarrow> r \<in> set (db_decisions db))) \<and>
    (\<exists>hs. ev' = ev @ map (\<lambda>h. NewHostMatchedEvent (host_ID h)) hs @ [NewHostsUpdatedEvent] \<and>
       (\<forall>h \<in> set hs. h \<in> set (db_hosts db) \<and> host_AdvisoryScopeKey h = Some scopeKey))"
proof -
  let ?hosts = "ListHostsByAdvisoryScopeKey scopeKey db"
  have eq: "db' = fst (rematch_loop env ?hosts (db, ev))" "ev' = snd (rematch_loop env ?hosts (db, ev)) @ [NewHostsUpdatedEvent]" "ok"
    using assms(2) by (auto simp: MatchHostsForScope_def split: prod.splits)
  obtain hs where hs: "snd (rematch_loop env ?hosts (db, ev)) = ev @ map (\<lambda>h. NewHostMatchedEvent (host_ID h)) hs" "set hs \<subseteq> set ?hosts"
    using rematch_loop_events [of env ?hosts "(db, ev)"] by auto
  have "r \<in> set (db_decisions db') \<longleftrightarrow> r \<in> set (db_decisions db)"
    if "\<forall>h \<in> set (db_hosts db). host_AdvisoryScopeKey h = Some scopeKey \<longrightarrow> dec_SnapshotID r \<noteq> UnwrapOr (host_LastSnapshotID h) []" for r
  proof -
    have "filter (\<lambda>x. x = r) (db_decisions db') = filter (\<lambda>x. x = r) (db_decisions db)"
      unfolding eq(1) using rematch_loop_frame [OF assms(1), of "\<lambda>x. x = r" ?hosts "(db, ev)"] that
      by (simp add: ListHostsByAdvisoryScopeKey_def)
    moreover have "r \<in> set xs \<longleftrightarrow> filter (\<lambda>x. x = r) xs \<noteq> []" for xs by (auto simp: filter_empty_conv)
    ultimately show ?thesis by metis
  qed
  moreover have "\<forall>h \<in> set hs. h \<in> set (db_hosts db) \<and> host_AdvisoryScopeKey h = Some scopeKey"
    using hs(2) by (auto simp: ListHostsByAdvisoryScopeKey_def)
  ultimately show ?thesis using eq hs(1) by auto
qed

theorem MatchHostsForScope_frame_witness:
  "zero_InsertDecisionRecordParams\<lparr>dec_ID := ''other'', dec_SnapshotID := ''s0''\<rparr>
     \<in> set (db_decisions (fst (fst (MatchHostsForScope (\<lambda>_. sample_env) False ''rocky-9'' (sample_tables, [])))))"
proof -
  obtain db' ev' ok where run: "MatchHostsForScope (\<lambda>_. sample_env) False ''rocky-9'' (sample_tables, []) = ((db', ev'), ok)"
    by (metis prod.collapse)
  let ?r = "zero_InsertDecisionRecordParams\<lparr>dec_ID := ''other'', dec_SnapshotID := ''s0''\<rparr>"
  have "\<forall>h. ranges_ok (env_ranges ((\<lambda>_. sample_env) h))" by (simp add: sample_env_def ranges_ok_orders)
  from MatchHostsForScope_frame [OF this run] have "?r \<in> set (db_decisions db') \<longleftrightarrow> ?r \<in> set (db_decisions sample_tables)"
    by (simp add: sample_tables_def empty_tables_def zero_Host_def)
  moreover have "?r \<in> set (db_decisions sample_tables)" by (simp add: sample_tables_def empty_tables_def)
  ultimately show ?thesis unfolding run by simp
qed

end
