(* ===== verification/Ws_Hub.thy ===== *)
theory Ws_Hub
  imports Event_Bus
begin

text \<open>
  \<open>internal/ws/hub.go\<close>: a websocket connection after the upgrade. The handshake (\<open>readAuth\<close>,
  \<open>readSubscription\<close>) is a function of the messages read; \<open>json.Unmarshal\<close> has been applied (\<open>None\<close> is
  a read or decoding error) and \<open>Authenticate\<close> is a parameter. The two goroutines of \<open>pump\<close>, the
  debounce timers and the client run interleaved: \<open>conn_step\<close> has one rule for each step between two
  lock operations. What \<open>pushHosts\<close> and \<open>pushAdvisories\<close> fetch is a parameter of the step.
\<close>

section \<open>Messages\<close>

record clientMessage =
  cm_Type :: string
  cm_Token :: string
  cm_Topics :: "string list"

record serverMessage =
  sm_Type :: string
  sm_HostID :: string
  sm_Data :: "string option"
  sm_Message :: string

datatype ws_error = ReadFailed | InvalidAuthMessage | InvalidSubscriptionMessage | Unauthenticated

section \<open>Handshake\<close>

definition readAuth :: "(string \<Rightarrow> 'u option) \<Rightarrow> clientMessage option \<Rightarrow> ws_error + 'u" where
  "readAuth Authenticate data =
     (case data of
        None \<Rightarrow> Inl ReadFailed
      | Some msg \<Rightarrow>
          if cm_Type msg \<noteq> ''auth'' \<or> TrimSpace (cm_Token msg) = [] then Inl InvalidAuthMessage
          else (case Authenticate (cm_Token msg) of None \<Rightarrow> Inl Unauthenticated | Some user \<Rightarrow> Inr user))"

definition readSubscription :: "clientMessage option \<Rightarrow> ws_error + string list" where
  "readSubscription data =
     (case data of
        None \<Rightarrow> Inl ReadFailed
      | Some msg \<Rightarrow>
          if cm_Type msg \<noteq> ''subscribe'' \<or> cm_Topics msg = [] then Inl InvalidSubscriptionMessage
          else Inr (cm_Topics msg))"

section \<open>Topics\<close>

definition newActiveTopics :: "string list \<Rightarrow> string set" where
  "newActiveTopics initial = fold insert initial {}"

definition active_has :: "string set \<Rightarrow> string \<Rightarrow> bool" where
  "active_has topics topic = (topic \<in> topics)"

definition active_add :: "string list \<Rightarrow> string set \<Rightarrow> string set" where
  "active_add ts topics = fold insert ts topics"

definition active_remove :: "string list \<Rightarrow> string set \<Rightarrow> string set" where
  "active_remove ts topics = fold (\<lambda>t s. s - {t}) ts topics"

text \<open>The keys of the map \<open>m\<close>, in the order of insertion; \<open>range_topics\<close> is the order of the last loop.\<close>

definition updateTopics :: "(string list \<Rightarrow> string list) \<Rightarrow> string list \<Rightarrow> string \<Rightarrow> string list \<Rightarrow> string list" where
  "updateTopics range_topics current action delta =
     (let m = fold (\<lambda>t ks. if t \<in> set ks then ks else ks @ [t]) current [];
          m1 = (if action = ''subscribe'' then fold (\<lambda>t ks. if t \<in> set ks then ks else ks @ [t]) delta m
                else if action = ''unsubscribe'' then fold (\<lambda>t ks. filter (\<lambda>k. k \<noteq> t) ks) delta m
                else m)
      in range_topics m1)"

section \<open>A connection\<close>

text \<open>
  \<open>co_pending\<close> is the message whose topics \<open>readLoop\<close> has added to or removed from \<open>active\<close> but not yet
  passed to the broker; \<open>co_timers\<close> are the keys of \<open>debouncers\<close>; \<open>co_queue\<close> are the events in the
  subscriber's channel; \<open>co_sent\<close> what the client has been sent.
\<close>

record conn =
  co_topics :: "string list"
  co_active :: "string set"
  co_pending :: "clientMessage option"
  co_timers :: "string set"
  co_queue :: "Event list"
  co_sent :: "serverMessage list"

definition conn_init :: "string list \<Rightarrow> conn" where
  "conn_init topics = \<lparr>co_topics = topics, co_active = newActiveTopics topics, co_pending = None, co_timers = {},
     co_queue = [], co_sent = []\<rparr>"

definition writeJSON :: "serverMessage \<Rightarrow> conn \<Rightarrow> conn" where
  "writeJSON msg c = c\<lparr>co_sent := co_sent c @ [msg]\<rparr>"

definition handleEvent :: "Event \<Rightarrow> conn \<Rightarrow> conn" where
  "handleEvent ev c =
     (if \<not> active_has (co_active c) (ev_Topic ev) then c
      else if ev_Topic ev = ''hosts'' then c\<lparr>co_timers := insert ''hosts'' (co_timers c)\<rparr>
      else if ev_Topic ev = ''advisories'' then c\<lparr>co_timers := insert ''advisories'' (co_timers c)\<rparr>
      else
        let hostID = TrimPrefix (ev_Topic ev) ''host:'';
            msgType = (if ev_Type ev = ''deleted'' then ''host_deleted'' else ''host_updated'')
        in writeJSON \<lparr>sm_Type = msgType, sm_HostID = hostID, sm_Data = None, sm_Message = []\<rparr> c)"

text \<open>\<open>data\<close> is the fetched payload; \<open>None\<close> is a failed fetch, which sends nothing.\<close>

definition pushHosts :: "string option \<Rightarrow> conn \<Rightarrow> conn" where
  "pushHosts data c =
     (case data of None \<Rightarrow> c
      | Some d \<Rightarrow> writeJSON \<lparr>sm_Type = ''hosts'', sm_HostID = [], sm_Data = Some d, sm_Message = []\<rparr> c)"

definition pushAdvisories :: "string option \<Rightarrow> conn \<Rightarrow> conn" where
  "pushAdvisories data c =
     (case data of None \<Rightarrow> c
      | Some d \<Rightarrow> writeJSON \<lparr>sm_Type = ''advisories'', sm_HostID = [], sm_Data = Some d, sm_Message = []\<rparr> c)"

text \<open>The callback of \<open>time.AfterFunc\<close>.\<close>

definition debounce_fire :: "string \<Rightarrow> string option \<Rightarrow> conn \<Rightarrow> conn" where
  "debounce_fire topic data c =
     (let c1 = c\<lparr>co_timers := co_timers c - {topic}\<rparr> in
      if active_has (co_active c1) topic
      then if topic = ''hosts'' then pushHosts data c1 else pushAdvisories data c1
      else c1)"

text \<open>\<open>readLoop\<close>: a topic message changes \<open>active\<close> first, then the broker's subscription.\<close>

definition is_topic_message :: "clientMessage \<Rightarrow> bool" where
  "is_topic_message msg \<longleftrightarrow> (cm_Type msg = ''subscribe'' \<or> cm_Type msg = ''unsubscribe'') \<and> cm_Topics msg \<noteq> []"

definition read_message :: "clientMessage \<Rightarrow> conn \<Rightarrow> conn" where
  "read_message msg c =
     (if is_topic_message msg
      then c\<lparr>co_active := (if cm_Type msg = ''subscribe'' then active_add (cm_Topics msg) (co_active c)
                           else active_remove (cm_Topics msg) (co_active c)),
             co_pending := Some msg\<rparr>
      else c)"

definition apply_pending :: "(string list \<Rightarrow> string list) \<Rightarrow> conn \<Rightarrow> conn" where
  "apply_pending r c =
     (case co_pending c of
        None \<Rightarrow> c
      | Some msg \<Rightarrow> c\<lparr>co_topics := updateTopics r (co_topics c) (cm_Type msg) (cm_Topics msg), co_pending := None\<rparr>)"

inductive conn_step :: "conn \<Rightarrow> conn \<Rightarrow> bool" where
  read: "co_pending c = None \<Longrightarrow> conn_step c (read_message msg c)"
| subscribe: "range_ok r \<Longrightarrow> co_pending c = Some msg \<Longrightarrow> conn_step c (apply_pending r c)"
| deliver: "ev_Topic e \<in> set (co_topics c) \<Longrightarrow> length (co_queue c) < 16 \<Longrightarrow> conn_step c (c\<lparr>co_queue := co_queue c @ [e]\<rparr>)"
| handle: "co_queue c = e # rest \<Longrightarrow> conn_step c (handleEvent e (c\<lparr>co_queue := rest\<rparr>))"
| fire: "topic \<in> co_timers c \<Longrightarrow> conn_step c (debounce_fire topic data c)"
| ping: "conn_step c (writeJSON \<lparr>sm_Type = ''ping'', sm_HostID = [], sm_Data = None, sm_Message = []\<rparr> c)"

inductive conn_steps :: "conn \<Rightarrow> conn \<Rightarrow> bool" where
  refl: "conn_steps c c"
| step: "conn_steps a b \<Longrightarrow> conn_step b c \<Longrightarrow> conn_steps a c"

inductive_cases conn_stepE: "conn_step c c'"

section \<open>Lemmas\<close>

lemma fold_insert_eq: "fold insert ts S = S \<union> set ts"
  by (induction ts arbitrary: S) auto

lemma fold_remove_eq: "fold (\<lambda>t s. s - {t}) ts S = S - set ts"
  by (induction ts arbitrary: S) auto

lemma fold_filter_neq: "fold (\<lambda>t ks. filter (\<lambda>k. k \<noteq> t) ks) ts ks = filter (\<lambda>k. k \<notin> set ts) ks"
  by (induction ts arbitrary: ks) (auto intro: filter_cong)

lemma set_add_keys:
  "distinct ks \<Longrightarrow> distinct (fold (\<lambda>t ks. if t \<in> set ks then ks else ks @ [t]) ts ks) \<and>
   set (fold (\<lambda>t ks. if t \<in> set ks then ks else ks @ [t]) ts ks) = set ks \<union> set ts"
  by (induction ts arbitrary: ks) auto

lemma set_updateTopics:
  assumes "range_ok r"
  shows "distinct (updateTopics r cur act delta) \<and> set (updateTopics r cur act delta) =
    (if act = ''subscribe'' then set cur \<union> set delta else if act = ''unsubscribe'' then set cur - set delta else set cur)"
proof -
  let ?m = "fold (\<lambda>t ks. if t \<in> set ks then ks else ks @ [t]) cur []"
  have m: "distinct ?m" "set ?m = set cur" using set_add_keys [of "[]" cur] by simp_all
  have s: "distinct (fold (\<lambda>t ks. if t \<in> set ks then ks else ks @ [t]) delta ?m)"
    "set (fold (\<lambda>t ks. if t \<in> set ks then ks else ks @ [t]) delta ?m) = set cur \<union> set delta"
    using set_add_keys [OF m(1), of delta] m(2) by simp_all
  have r: "distinct ks \<Longrightarrow> distinct (r ks) \<and> set (r ks) = set ks" for ks using assms by (simp add: range_ok_def)
  show ?thesis using m s r by (auto simp: updateTopics_def Let_def fold_filter_neq)
qed

text \<open>
  \<open>active\<close> is the set of the broker's topics, up to a change that \<open>readLoop\<close> has still to pass on; only
  the two debounced topics have timers.
\<close>

definition conn_inv :: "conn \<Rightarrow> bool" where
  "conn_inv c \<longleftrightarrow>
     co_active c = (case co_pending c of
        None \<Rightarrow> set (co_topics c)
      | Some msg \<Rightarrow> if cm_Type msg = ''subscribe'' then set (co_topics c) \<union> set (cm_Topics msg)
                    else set (co_topics c) - set (cm_Topics msg)) \<and>
     (\<forall>msg. co_pending c = Some msg \<longrightarrow> is_topic_message msg) \<and>
     co_timers c \<subseteq> {''hosts'', ''advisories''} \<and> length (co_queue c) \<le> 16"

lemma conn_inv_init: "conn_inv (conn_init topics)"
  by (simp add: conn_inv_def conn_init_def newActiveTopics_def fold_insert_eq)

lemma handleEvent_fields:
  "co_active (handleEvent e c) = co_active c" "co_topics (handleEvent e c) = co_topics c"
  "co_pending (handleEvent e c) = co_pending c" "co_queue (handleEvent e c) = co_queue c"
  "co_timers (handleEvent e c) \<subseteq> co_timers c \<union> {''hosts'', ''advisories''}"
  by (auto simp: handleEvent_def writeJSON_def Let_def)

lemma debounce_fire_fields:
  "co_active (debounce_fire t d c) = co_active c" "co_topics (debounce_fire t d c) = co_topics c"
  "co_pending (debounce_fire t d c) = co_pending c" "co_queue (debounce_fire t d c) = co_queue c"
  "co_timers (debounce_fire t d c) = co_timers c - {t}"
  by (auto simp: debounce_fire_def pushHosts_def pushAdvisories_def writeJSON_def Let_def split: option.split)

lemma conn_inv_step: "conn_inv c \<Longrightarrow> conn_step c c' \<Longrightarrow> conn_inv c'"
proof (erule conn_stepE)
  assume inv: "conn_inv c"
  show "conn_inv c'" if "c' = read_message msg c" "co_pending c = None" for msg
    using inv that by (auto simp: conn_inv_def read_message_def is_topic_message_def active_add_def active_remove_def
        fold_insert_eq fold_remove_eq)
  show "conn_inv c'" if "c' = apply_pending r c" "range_ok r" "co_pending c = Some msg" for r msg
    using inv that set_updateTopics [OF that(2)] by (auto simp: conn_inv_def apply_pending_def is_topic_message_def)
  show "conn_inv c'" if "c' = c\<lparr>co_queue := co_queue c @ [e]\<rparr>" "length (co_queue c) < 16" for e
    using inv that by (simp add: conn_inv_def split: option.splits)
  show "conn_inv c'" if "c' = handleEvent e (c\<lparr>co_queue := rest\<rparr>)" "co_queue c = e # rest" for e rest
    using inv that handleEvent_fields [of e "c\<lparr>co_queue := rest\<rparr>"] by (auto simp: conn_inv_def split: option.splits)
  show "conn_inv c'" if "c' = debounce_fire topic data c" for topic data
    using inv that debounce_fire_fields [of topic data c] by (auto simp: conn_inv_def split: option.splits)
  show "conn_inv c'" if "c' = writeJSON \<lparr>sm_Type = ''ping'', sm_HostID = [], sm_Data = None, sm_Message = []\<rparr> c"
    using inv that by (simp add: conn_inv_def writeJSON_def split: option.splits)
qed

lemma conn_steps_inv: "conn_steps a b \<Longrightarrow> conn_inv a \<Longrightarrow> conn_inv b"
  by (induction rule: conn_steps.induct) (auto intro: conn_inv_step)

text \<open>\<open>HandleWS\<close> up to \<open>pump\<close>: the messages sent, and the subscription if there is one.\<close>

definition HandleWS ::
  "(string \<Rightarrow> 'u option) \<Rightarrow> clientMessage option \<Rightarrow> clientMessage option \<Rightarrow> serverMessage list \<times> string list option" where
  "HandleWS Authenticate auth_data sub_data =
     (case readAuth Authenticate auth_data of
        Inl _ \<Rightarrow> ([\<lparr>sm_Type = ''error'', sm_HostID = [], sm_Data = None, sm_Message = ''unauthorized''\<rparr>], None)
      | Inr _ \<Rightarrow>
          ([\<lparr>sm_Type = ''auth_ok'', sm_HostID = [], sm_Data = None, sm_Message = []\<rparr>],
           case readSubscription sub_data of Inl _ \<Rightarrow> None | Inr topics \<Rightarrow> Some topics))"

lemma HandleWS_subscribes:
  assumes "HandleWS Authenticate auth_data sub_data = (sent, Some topics)"
  obtains msg user where "auth_data = Some msg" "cm_Type msg = ''auth''" "Authenticate (cm_Token msg) = Some user" "topics \<noteq> []"
  using assms that
  by (auto simp: HandleWS_def readAuth_def readSubscription_def split: sum.splits option.splits if_splits)

lemma handle_hosts:
  assumes "''hosts'' \<in> co_active c" "\<forall>e \<in> set evs. ev_Topic e = ''hosts''" "evs \<noteq> []"
  shows "fold handleEvent evs c = c\<lparr>co_timers := insert ''hosts'' (co_timers c)\<rparr>"
  using assms
proof (induction evs arbitrary: c)
  case Nil
  then show ?case by simp
next
  case (Cons e evs)
  have one: "handleEvent e c = c\<lparr>co_timers := insert ''hosts'' (co_timers c)\<rparr>"
    using Cons.prems by (simp add: handleEvent_def active_has_def)
  show ?case
  proof (cases "evs = []")
    case True
    then show ?thesis using one by simp
  next
    case False
    then show ?thesis
      using Cons.IH [of "c\<lparr>co_timers := insert ''hosts'' (co_timers c)\<rparr>"] Cons.prems one by simp
  qed
qed

lemma debounce_fire_sent:
  "co_sent (debounce_fire t data c) = co_sent c \<or>
   t \<in> co_active c \<and> (\<exists>d. co_sent (debounce_fire t data c) = co_sent c @
     [\<lparr>sm_Type = (if t = ''hosts'' then ''hosts'' else ''advisories''), sm_HostID = [], sm_Data = Some d, sm_Message = []\<rparr>])"
  by (cases data) (simp_all add: debounce_fire_def pushHosts_def pushAdvisories_def writeJSON_def active_has_def Let_def)

section \<open>Properties\<close>



text \<open>A burst of changes to the host list makes one push. While the topic is active any number of host
  events, one or more, only arms the topic's timer and sends nothing; when the timer fires exactly one
  message, with the full list, is sent and the timer is gone.\<close>

theorem ws_debounce:
  assumes "''hosts'' \<in> co_active c" "\<forall>e \<in> set evs. ev_Topic e = ''hosts''" "evs \<noteq> []"
  shows "let burst = fold handleEvent evs c in
     co_sent burst = co_sent c \<and> ''hosts'' \<in> co_timers burst \<and>
     co_sent (debounce_fire ''hosts'' (Some d) burst) =
       co_sent c @ [\<lparr>sm_Type = ''hosts'', sm_HostID = [], sm_Data = Some d, sm_Message = []\<rparr>] \<and>
     ''hosts'' \<notin> co_timers (debounce_fire ''hosts'' (Some d) burst)"
  unfolding Let_def handle_hosts [OF assms]
  using assms(1) by (simp add: debounce_fire_def pushHosts_def writeJSON_def active_has_def)

theorem ws_debounce_witness:
  "co_sent (fold handleEvent [NewHostsUpdatedEvent, NewHostsUpdatedEvent] (conn_init [''hosts''])) = []"
proof -
  have "''hosts'' \<in> co_active (conn_init [''hosts''])" "\<forall>e \<in> set [NewHostsUpdatedEvent, NewHostsUpdatedEvent]. ev_Topic e = ''hosts''"
    by (simp_all add: conn_init_def newActiveTopics_def NewHostsUpdatedEvent_def)
  from ws_debounce [OF this] show ?thesis unfolding Let_def by (simp add: conn_init_def)
qed

end
