(* ===== verification/Go_Option.thy ===== *)
theory Go_Option
  imports Data_Model
begin

text \<open>
  \<open>internal/utils/option.go\<close>: the generic \<open>Option[T]\<close>, a struct of a value and a presence flag, and its
  relation to \<^typ>\<open>'a option\<close>, which the rest of the development uses for it. \<open>zero\<close> is the zero value
  of \<open>T\<close>. JSON encoding of the element (\<open>json.Marshal\<close>, \<open>json.Unmarshal\<close>) and the conversion a database
  driver's value needs are parameters.
\<close>

record 'a Option =
  opt_value :: 'a
  opt_present :: bool

datatype option_panic = UnwrapOnNone

section \<open>Constructors and queries\<close>

definition opt_Some :: "'a \<Rightarrow> 'a Option" where
  "opt_Some v = \<lparr>opt_value = v, opt_present = True\<rparr>"

definition opt_None :: "'a \<Rightarrow> 'a Option" where
  "opt_None zero = \<lparr>opt_value = zero, opt_present = False\<rparr>"

definition FromPtr :: "'a \<Rightarrow> 'a option \<Rightarrow> 'a Option" where
  "FromPtr zero p = (case p of None \<Rightarrow> opt_None zero | Some v \<Rightarrow> opt_Some v)"

definition opt_Equal :: "'a Option \<Rightarrow> 'a Option \<Rightarrow> bool" where
  "opt_Equal a b =
     (if opt_present a \<noteq> opt_present b then False
      else if \<not> opt_present a then True
      else opt_value a = opt_value b)"

definition opt_IsNoneOrDefault :: "'a \<Rightarrow> 'a Option \<Rightarrow> bool" where
  "opt_IsNoneOrDefault zero o1 = (if \<not> opt_present o1 then True else opt_value o1 = zero)"

definition opt_Get :: "'a Option \<Rightarrow> 'a \<times> bool" where
  "opt_Get o1 = (opt_value o1, opt_present o1)"

definition opt_Unwrap :: "'a Option \<Rightarrow> option_panic + 'a" where
  "opt_Unwrap o1 = (if \<not> opt_present o1 then Inl UnwrapOnNone else Inr (opt_value o1))"

definition opt_UnwrapOr :: "'a Option \<Rightarrow> 'a \<Rightarrow> 'a" where
  "opt_UnwrapOr o1 d = (if opt_present o1 then opt_value o1 else d)"

definition opt_UnwrapOrElse :: "'a Option \<Rightarrow> (unit \<Rightarrow> 'a) \<Rightarrow> 'a" where
  "opt_UnwrapOrElse o1 f = (if opt_present o1 then opt_value o1 else f ())"

definition opt_UnwrapOrZero :: "'a \<Rightarrow> 'a Option \<Rightarrow> 'a" where
  "opt_UnwrapOrZero zero o1 = (if opt_present o1 then opt_value o1 else zero)"

definition opt_Ptr :: "'a Option \<Rightarrow> 'a option" where
  "opt_Ptr o1 = (if \<not> opt_present o1 then None else Some (opt_value o1))"

section \<open>Combinators\<close>

definition opt_Or :: "'a Option \<Rightarrow> 'a Option \<Rightarrow> 'a Option" where
  "opt_Or o1 other = (if opt_present o1 then o1 else other)"

definition opt_OrElse :: "'a Option \<Rightarrow> (unit \<Rightarrow> 'a Option) \<Rightarrow> 'a Option" where
  "opt_OrElse o1 f = (if opt_present o1 then o1 else f ())"

definition opt_And :: "'a \<Rightarrow> 'a Option \<Rightarrow> 'a Option \<Rightarrow> 'a Option" where
  "opt_And zero o1 other = (if opt_present o1 then other else opt_None zero)"

definition opt_Map :: "'b \<Rightarrow> ('a \<Rightarrow> 'b) \<Rightarrow> 'a Option \<Rightarrow> 'b Option" where
  "opt_Map zero f o1 = (if opt_present o1 then opt_Some (f (opt_value o1)) else opt_None zero)"

definition opt_FlatMap :: "'b \<Rightarrow> ('a \<Rightarrow> 'b Option) \<Rightarrow> 'a Option \<Rightarrow> 'b Option" where
  "opt_FlatMap zero f o1 = (if opt_present o1 then f (opt_value o1) else opt_None zero)"

definition opt_Filter :: "'a \<Rightarrow> ('a \<Rightarrow> bool) \<Rightarrow> 'a Option \<Rightarrow> 'a Option" where
  "opt_Filter zero predicate o1 = (if opt_present o1 \<and> predicate (opt_value o1) then o1 else opt_None zero)"

definition opt_IsSomeAnd :: "('a \<Rightarrow> bool) \<Rightarrow> 'a Option \<Rightarrow> bool" where
  "opt_IsSomeAnd f o1 = (opt_present o1 \<and> f (opt_value o1))"

fun CollectValues :: "'a Option list \<Rightarrow> 'a list" where
  "CollectValues [] = []"
| "CollectValues (o1 # opts) = (if opt_present o1 then [opt_value o1] else []) @ CollectValues opts"

fun CoalesceOpt :: "'a \<Rightarrow> 'a Option list \<Rightarrow> 'a Option" where
  "CoalesceOpt zero [] = opt_None zero"
| "CoalesceOpt zero (o1 # opts) = (if opt_present o1 then o1 else CoalesceOpt zero opts)"

definition NonZeroOption :: "'a \<Rightarrow> 'a \<Rightarrow> 'a Option" where
  "NonZeroOption zero value = (if value = zero then opt_None zero else opt_Some value)"

section \<open>Encodings\<close>

definition MarshalJSON :: "('a \<Rightarrow> 'e + string) \<Rightarrow> 'a Option \<Rightarrow> 'e + string" where
  "MarshalJSON marshal o1 = (if \<not> opt_present o1 then Inr ''null'' else marshal (opt_value o1))"

definition UnmarshalJSON :: "'a \<Rightarrow> (string \<Rightarrow> 'e + 'a) \<Rightarrow> string \<Rightarrow> 'a Option \<Rightarrow> 'e + 'a Option" where
  "UnmarshalJSON zero unmarshal data o1 =
     (if data = ''null'' then Inr (opt_None zero)
      else (case unmarshal data of Inl err \<Rightarrow> Inl err | Inr v \<Rightarrow> Inr (opt_Some v)))"

text \<open>\<open>Scan\<close>: \<open>convert\<close> is what the element's own scanner or the type switch makes of a value.\<close>

definition opt_Scan :: "('s \<Rightarrow> 'e + 'a) \<Rightarrow> 's option \<Rightarrow> 'a Option \<Rightarrow> 'e + 'a Option" where
  "opt_Scan convert src o1 =
     (case src of
        None \<Rightarrow> Inr o1
      | Some s \<Rightarrow> (case convert s of Inl err \<Rightarrow> Inl err | Inr v \<Rightarrow> Inr \<lparr>opt_value = v, opt_present = True\<rparr>))"

definition opt_Value :: "'a Option \<Rightarrow> 'a option" where
  "opt_Value o1 = (if \<not> opt_present o1 then None else Some (opt_value o1))"

section \<open>Abstraction\<close>

definition opt_abs :: "'a Option \<Rightarrow> 'a option" where
  "opt_abs o1 = (if opt_present o1 then Some (opt_value o1) else None)"

lemma opt_abs_simps [simp]: "opt_abs (opt_Some v) = Some v" "opt_abs (opt_None zero) = None"
  by (simp_all add: opt_abs_def opt_Some_def opt_None_def)

lemma CollectValues_abs: "CollectValues opts = List.map_filter opt_abs opts"
  by (induction opts) (simp_all add: opt_abs_def)

lemma CoalesceOpt_abs: "opt_abs (CoalesceOpt zero opts) = (case CollectValues opts of [] \<Rightarrow> None | v # _ \<Rightarrow> Some v)"
  by (induction opts) (auto simp: opt_abs_def opt_None_def)

section \<open>Properties\<close>


text \<open>Encoding an option as JSON and decoding it into any variable gives the option back, provided the
  element's own encoding does and never produces \<open>null\<close>.\<close>

theorem Option_json_roundtrip:
  assumes "\<And>v. \<exists>data. marshal v = Inr data \<and> data \<noteq> ''null'' \<and> unmarshal data = Inr v"
  shows "\<exists>data out. MarshalJSON marshal ov = Inr data \<and> UnmarshalJSON zero unmarshal data old = Inr out \<and> opt_abs out = opt_abs ov"
proof (cases "opt_present ov")
  case True
  obtain data where "marshal (opt_value ov) = Inr data" "data \<noteq> ''null''" "unmarshal data = Inr (opt_value ov)"
    using assms by blast
  with True show ?thesis by (auto simp: MarshalJSON_def UnmarshalJSON_def opt_abs_def opt_Some_def)
next
  case False
  then show ?thesis by (auto simp: MarshalJSON_def UnmarshalJSON_def opt_abs_def opt_None_def)
qed

theorem Option_json_roundtrip_witness:
  "\<exists>data out. MarshalJSON (\<lambda>n. Inr (Itoa n)) (opt_Some 42) = (Inr data :: unit + string) \<and>
     UnmarshalJSON 0 (\<lambda>s. case digits_val 0 (TrimPrefix s ''-'') of None \<Rightarrow> Inl ()
        | Some n \<Rightarrow> Inr (if HasPrefix s ''-'' then - n else n)) data (opt_None 0) = Inr out \<and>
     opt_abs out = Some 42"
proof -
  let ?un = "\<lambda>s. case digits_val 0 (TrimPrefix s ''-'') of None \<Rightarrow> Inl ()
        | Some n \<Rightarrow> Inr (if HasPrefix s ''-'' then - n else n)"
  have "\<exists>data. (Inr (Itoa n) :: unit + string) = Inr data \<and> data \<noteq> ''null'' \<and> ?un data = Inr n" for n
  proof -
    have nn: "Itoa n \<noteq> ''null''" using Itoa_chars [of "CHR ''n''" n] by (auto simp: IsDigit_def)
    have "?un (Itoa n) = Inr n"
    proof (cases "n < 0")
      case True
      then show ?thesis by (simp add: Itoa_def TrimPrefix_def HasPrefix_def digits_val_digits_of)
    next
      case False
      then obtain c t where ct: "digits_of n = c # t" "IsDigit c"
        using digits_of_all_digits [of n] digits_of_nonempty [of n] by (cases "digits_of n") auto
      then have "c \<noteq> CHR ''-''" by (auto simp: IsDigit_def)
      then show ?thesis
        using False digits_val_digits_of [of n] ct by (simp add: Itoa_def TrimPrefix_def HasPrefix_def)
    qed
    with nn show ?thesis by simp
  qed
  from Option_json_roundtrip [where ov = "opt_Some 42" and zero = 0 and old = "opt_None 0", OF this] show ?thesis by simp
qed

end
