(* ===== verification/Lifecycle_Catalog.thy ===== *)
theory Lifecycle_Catalog
  imports Go_Strings
begin

text \<open>
  The operating system lifecycle catalog, \<open>internal/lifecycle/lifecycle.go\<close>: validation and indexing
  of the embedded catalog, the lookups by product key, alias and release cycle, and the support status
  of a host on a given day. A pointer to a product is its position in \<open>Products\<close>; a \<open>nil\<close> index is
  \<open>None\<close>. An instant is the number of nanoseconds since 1970-01-01 UTC, and a \<open>time.Duration\<close> is a
  64-bit number of nanoseconds, at which \<open>Time.Sub\<close> saturates.
\<close>

section \<open>Days and instants\<close>

definition day_ns :: int where
  "day_ns = 24 * 60 * 60 * 1000000000"

definition is_leap :: "int \<Rightarrow> bool" where
  "is_leap y \<longleftrightarrow> y mod 4 = 0 \<and> (y mod 100 \<noteq> 0 \<or> y mod 400 = 0)"

definition daysIn :: "int \<Rightarrow> int \<Rightarrow> int" where
  "daysIn m y = (if m = 2 then if is_leap y then 29 else 28 else if m \<in> {4, 6, 9, 11} then 30 else 31)"

text \<open>Days from 1970-01-01 to a date of the proleptic Gregorian calendar, as \<open>time.Date\<close> counts them.\<close>

definition days_before_year :: "int \<Rightarrow> int" where
  "days_before_year y = 365 * y + (y + 3) div 4 - (y + 99) div 100 + (y + 399) div 400 - 719528"

definition days_before_month :: "int \<Rightarrow> int \<Rightarrow> int" where
  "days_before_month m y = sum_list (map (\<lambda>k. daysIn k y) [1..m - 1])"

definition date_days :: "int \<Rightarrow> int \<Rightarrow> int \<Rightarrow> int" where
  "date_days y m d = days_before_year y + days_before_month m y + (d - 1)"

text \<open>\<open>time.Parse\<close> on the layout 2006-01-02: four, two and two digits, separated by dashes, a month of the
  year and a day of that month, and nothing after it.\<close>

fun parse_layout :: "string \<Rightarrow> (int \<times> int \<times> int) option" where
  "parse_layout [y1, y2, y3, y4, s1, m1, m2, s2, d1, d2] =
     (case (digits_val 0 [y1, y2, y3, y4], digits_val 0 [m1, m2], digits_val 0 [d1, d2]) of
        (Some y, Some m, Some d) \<Rightarrow>
          if s1 = CHR ''-'' \<and> s2 = CHR ''-'' \<and> 1 \<le> m \<and> m \<le> 12 \<and> 1 \<le> d \<and> d \<le> daysIn m y then Some (y, m, d) else None
      | _ \<Rightarrow> None)"
| "parse_layout _ = None"

definition parseDate :: "string \<Rightarrow> int option" where
  "parseDate value = map_option (\<lambda>(y, m, d). date_days y m d * day_ns) (parse_layout (TrimSpace value))"

definition truncateToDay :: "int \<Rightarrow> int" where
  "truncateToDay t = t div day_ns * day_ns"

definition time_Sub :: "int \<Rightarrow> int \<Rightarrow> int" where
  "time_Sub t u = max (- (2 ^ 63)) (min (2 ^ 63 - 1) (t - u))"

text \<open>\<open>int(d.Hours() / 24)\<close>: the quotient truncated towards zero. The floating-point division is exact
  on whole days, and a saturated difference is not near a whole number of days.\<close>

definition whole_days :: "int \<Rightarrow> int" where
  "whole_days d = (if d < 0 then - (- d div day_ns) else d div day_ns)"

section \<open>The catalog\<close>

record Release =
  rel_Cycle :: string
  rel_StandardSupportEnd :: string
  rel_EOL :: string
  rel_ExtendedCoverageEnd :: string
  rel_ExtendedCoverageNote :: string
  rel_SourceURL :: string

record Product =
  prod_ProductKey :: string
  prod_DisplayName :: string
  prod_Aliases :: "string list"
  prod_SourceURL :: string
  prod_Releases :: "Release list"
  prod_byCycle :: "string \<rightharpoonup> Release"

record Catalog =
  cat_GeneratedAt :: string
  cat_SourceURLs :: "string list"
  cat_Products :: "Product list"
  cat_once :: bool
  cat_byID :: "(string \<rightharpoonup> nat) option"
  cat_byAlias :: "(string \<rightharpoonup> nat) option"

datatype catalog_error =
    NoProducts
  | MissingProductKey nat
  | NoAliases string
  | NoReleases string
  | DuplicateProductKey string
  | EmptyCycle string
  | DuplicateCycle string string
  | MissingStandardSupportEnd string string
  | InvalidStandardSupportEnd string string
  | InvalidEOL string string
  | InvalidExtendedCoverageEnd string string
  | AliasClaimedTwice string

definition normalizeAlias :: "string \<Rightarrow> string" where
  "normalizeAlias alias = ToLower (TrimSpace alias)"

definition normalizeCycle :: "string \<Rightarrow> string" where
  "normalizeCycle cycle = TrimSpace cycle"

fun releases_loop :: "string \<Rightarrow> Release list \<Rightarrow> (string \<rightharpoonup> Release) \<Rightarrow> catalog_error + (string \<rightharpoonup> Release)" where
  "releases_loop key [] byCycle = Inr byCycle"
| "releases_loop key (r # rs) byCycle =
     (if rel_Cycle r = [] then Inl (EmptyCycle key)
      else if byCycle (rel_Cycle r) \<noteq> None then Inl (DuplicateCycle key (rel_Cycle r))
      else if rel_StandardSupportEnd r = [] then Inl (MissingStandardSupportEnd key (rel_Cycle r))
      else if parseDate (rel_StandardSupportEnd r) = None then Inl (InvalidStandardSupportEnd key (rel_Cycle r))
      else if rel_EOL r \<noteq> [] \<and> parseDate (rel_EOL r) = None then Inl (InvalidEOL key (rel_Cycle r))
      else if rel_ExtendedCoverageEnd r \<noteq> [] \<and> parseDate (rel_ExtendedCoverageEnd r) = None
        then Inl (InvalidExtendedCoverageEnd key (rel_Cycle r))
      else releases_loop key rs (byCycle(rel_Cycle r \<mapsto> r)))"

fun aliases_loop :: "nat \<Rightarrow> string list \<Rightarrow> (string \<rightharpoonup> nat) \<Rightarrow> catalog_error + (string \<rightharpoonup> nat)" where
  "aliases_loop p [] byAlias = Inr byAlias"
| "aliases_loop p (alias # as) byAlias =
     (let key = normalizeAlias alias in
      if key = [] then aliases_loop p as byAlias
      else case byAlias key of
          Some owner \<Rightarrow> if owner \<noteq> p then Inl (AliasClaimedTwice key) else aliases_loop p as (byAlias(key \<mapsto> p))
        | None \<Rightarrow> aliases_loop p as (byAlias(key \<mapsto> p)))"

text \<open>The loop over \<open>Products\<close>, which stores \<open>byCycle\<close> in each product it reaches: the result is the
  error, the products as the loop leaves them, and the two indexes.\<close>

fun products_loop ::
  "nat \<Rightarrow> Product list \<Rightarrow> (string \<rightharpoonup> nat) \<Rightarrow> (string \<rightharpoonup> nat) \<Rightarrow>
   catalog_error option \<times> Product list \<times> (string \<rightharpoonup> nat) \<times> (string \<rightharpoonup> nat)" where
  "products_loop i [] byID byAlias = (None, [], byID, byAlias)"
| "products_loop i (p # ps) byID byAlias =
     (if prod_ProductKey p = [] then (Some (MissingProductKey i), p # ps, byID, byAlias)
      else if prod_Aliases p = [] then (Some (NoAliases (prod_ProductKey p)), p # ps, byID, byAlias)
      else if prod_Releases p = [] then (Some (NoReleases (prod_ProductKey p)), p # ps, byID, byAlias)
      else if byID (prod_ProductKey p) \<noteq> None then (Some (DuplicateProductKey (prod_ProductKey p)), p # ps, byID, byAlias)
      else
        let byID' = byID(prod_ProductKey p \<mapsto> i) in
        case releases_loop (prod_ProductKey p) (prod_Releases p) Map.empty of
          Inl e \<Rightarrow> (Some e, p # ps, byID', byAlias)
        | Inr byCycle \<Rightarrow>
            let p' = p\<lparr>prod_byCycle := byCycle\<rparr> in
            case aliases_loop i (prod_Aliases p) byAlias of
              Inl e \<Rightarrow> (Some e, p' # ps, byID', byAlias)
            | Inr byAlias' \<Rightarrow>
                let (e, ps', ids, als) = products_loop (Suc i) ps byID' byAlias' in (e, p' # ps', ids, als))"

definition validate :: "Catalog \<Rightarrow> catalog_error option \<times> Catalog" where
  "validate c =
     (if cat_Products c = [] then (Some NoProducts, c)
      else case products_loop 0 (cat_Products c) Map.empty Map.empty of
          (Some e, ps, ids, als) \<Rightarrow> (Some e, c\<lparr>cat_Products := ps\<rparr>)
        | (None, ps, ids, als) \<Rightarrow> (None, c\<lparr>cat_Products := ps, cat_byID := Some ids, cat_byAlias := Some als\<rparr>))"

text \<open>\<open>Load\<close> on the catalog that the embedded file decodes to; \<open>None\<close> when it does not decode.\<close>

datatype load_error = ParseCatalogFailed | InvalidCatalog catalog_error

definition Load :: "Catalog option \<Rightarrow> load_error + Catalog" where
  "Load decoded =
     (case decoded of
        None \<Rightarrow> Inl ParseCatalogFailed
      | Some c \<Rightarrow> (case validate c of (Some e, _) \<Rightarrow> Inl (InvalidCatalog e) | (None, c') \<Rightarrow> Inr c'))"

definition ensureIndex :: "Catalog \<Rightarrow> Catalog" where
  "ensureIndex c =
     (if cat_once c then c
      else if cat_byID c \<noteq> None \<and> cat_byAlias c \<noteq> None then c\<lparr>cat_once := True\<rparr>
      else (snd (validate c))\<lparr>cat_once := True\<rparr>)"

text \<open>A lookup in an index; a \<open>nil\<close> map has no keys.\<close>

definition index_lookup :: "(string \<rightharpoonup> nat) option \<Rightarrow> string \<Rightarrow> Catalog \<Rightarrow> Product option" where
  "index_lookup idx key c = map_option (\<lambda>i. cat_Products c ! i) (Option.bind idx (\<lambda>m. m key))"

definition catalog_Product :: "string \<Rightarrow> Catalog \<Rightarrow> Product option \<times> Catalog" where
  "catalog_Product productKey c = (let c' = ensureIndex c in (index_lookup (cat_byID c') productKey c', c'))"

definition catalog_ProductByAlias :: "string \<Rightarrow> Catalog \<Rightarrow> Product option \<times> Catalog" where
  "catalog_ProductByAlias osName c =
     (let c' = ensureIndex c in (index_lookup (cat_byAlias c') (normalizeAlias osName) c', c'))"

definition product_Release :: "string \<Rightarrow> Product \<Rightarrow> Release option" where
  "product_Release cycle p = prod_byCycle p (normalizeCycle cycle)"

definition matchRelease :: "string \<Rightarrow> int \<Rightarrow> Product \<Rightarrow> Release option" where
  "matchRelease osVersion osMajor p =
     (let v = TrimSpace osVersion;
          by_major = (if 0 < osMajor then product_Release (Itoa osMajor) p else None);
          by_part = (case Index v ''.'' of
               None \<Rightarrow> by_major
             | Some idx \<Rightarrow>
                 if 0 < idx then case product_Release (take idx v) p of Some r \<Rightarrow> Some r | None \<Rightarrow> by_major
                 else by_major)
      in if v \<noteq> [] then case product_Release v p of Some r \<Rightarrow> Some r | None \<Rightarrow> by_part else by_major)"

section \<open>The status of a host\<close>

record StatusInput =
  si_OSName :: string
  si_OSVersion :: string
  si_OSMajor :: int

definition NewStatusInput :: "string \<Rightarrow> string \<Rightarrow> int \<Rightarrow> StatusInput" where
  "NewStatusInput osName osVersion osMajor = \<lparr>si_OSName = osName, si_OSVersion = osVersion, si_OSMajor = osMajor\<rparr>"

record Status =
  st_State :: string
  st_Product :: "Product option"
  st_Release :: "Release option"
  st_ProductKey :: string
  st_ProductDisplayName :: string
  st_Cycle :: string
  st_StandardSupportEnd :: string
  st_EOL :: string
  st_ExtendedCoverageEnd :: string
  st_ExtendedCoverageNote :: string
  st_SourceURL :: string
  st_DaysRemaining :: "int option"

definition unknown_status :: Status where
  "unknown_status = \<lparr>st_State = ''unknown'', st_Product = None, st_Release = None, st_ProductKey = [],
     st_ProductDisplayName = [], st_Cycle = [], st_StandardSupportEnd = [], st_EOL = [], st_ExtendedCoverageEnd = [],
     st_ExtendedCoverageNote = [], st_SourceURL = [], st_DaysRemaining = None\<rparr>"

definition DefaultApproachingThreshold :: int where
  "DefaultApproachingThreshold = 365 * day_ns"

definition release_state :: "int \<Rightarrow> int \<Rightarrow> int \<Rightarrow> Release \<Rightarrow> string" where
  "release_state today endDay approaching release =
     (if today \<le> endDay
      then if time_Sub endDay today \<le> approaching then ''approaching-end-of-support'' else ''supported''
      else if rel_ExtendedCoverageEnd release \<noteq> [] then
        (case parseDate (rel_ExtendedCoverageEnd release) of
           Some extEnd \<Rightarrow> if today < truncateToDay extEnd then ''extended-coverage-available'' else ''standard-support-ended''
         | None \<Rightarrow> ''standard-support-ended'')
      else ''standard-support-ended'')"

definition matched_status :: "int \<Rightarrow> int \<Rightarrow> Product \<Rightarrow> Release \<Rightarrow> Status" where
  "matched_status now approaching product release =
     (case parseDate (rel_StandardSupportEnd release) of
        None \<Rightarrow> unknown_status
      | Some standardEnd \<Rightarrow>
          let today = truncateToDay now; endDay = truncateToDay standardEnd in
          \<lparr>st_State = release_state today endDay approaching release,
           st_Product = Some product, st_Release = Some release, st_ProductKey = prod_ProductKey product,
           st_ProductDisplayName = prod_DisplayName product, st_Cycle = rel_Cycle release,
           st_StandardSupportEnd = rel_StandardSupportEnd release, st_EOL = rel_EOL release,
           st_ExtendedCoverageEnd = rel_ExtendedCoverageEnd release,
           st_ExtendedCoverageNote = rel_ExtendedCoverageNote release, st_SourceURL = rel_SourceURL release,
           st_DaysRemaining = Some (whole_days (time_Sub endDay today))\<rparr>)"

definition catalog_Status :: "int \<Rightarrow> int \<Rightarrow> StatusInput \<Rightarrow> Catalog \<Rightarrow> Status \<times> Catalog" where
  "catalog_Status now approaching inp c =
     (let approaching' = (if approaching \<le> 0 then DefaultApproachingThreshold else approaching);
          (product, c') = catalog_ProductByAlias (si_OSName inp) c
      in case product of
          None \<Rightarrow> (unknown_status, c')
        | Some p \<Rightarrow>
            (case matchRelease (si_OSVersion inp) (si_OSMajor inp) p of
               None \<Rightarrow> (unknown_status, c')
             | Some release \<Rightarrow> (matched_status now approaching' p release, c')))"

record CatalogSource =
  cs_GeneratedAt :: string
  cs_SourceURLs :: "string list"

definition catalog_Source :: "Catalog \<Rightarrow> CatalogSource" where
  "catalog_Source c = \<lparr>cs_GeneratedAt = cat_GeneratedAt c, cs_SourceURLs = cat_SourceURLs c\<rparr>"

section \<open>What validation accepts\<close>

definition date_or_empty :: "string \<Rightarrow> bool" where
  "date_or_empty s \<longleftrightarrow> s = [] \<or> parseDate s \<noteq> None"

definition release_wf :: "Release \<Rightarrow> bool" where
  "release_wf r \<longleftrightarrow> rel_Cycle r \<noteq> [] \<and> rel_StandardSupportEnd r \<noteq> [] \<and> parseDate (rel_StandardSupportEnd r) \<noteq> None \<and>
     date_or_empty (rel_EOL r) \<and> date_or_empty (rel_ExtendedCoverageEnd r)"

definition alias_keys :: "string list \<Rightarrow> string set" where
  "alias_keys as = normalizeAlias ` set as - {[]}"

definition product_wf :: "Product \<Rightarrow> bool" where
  "product_wf p \<longleftrightarrow> prod_ProductKey p \<noteq> [] \<and> prod_Aliases p \<noteq> [] \<and> prod_Releases p \<noteq> [] \<and>
     distinct (map rel_Cycle (prod_Releases p)) \<and> list_all release_wf (prod_Releases p)"

definition share_no_alias :: "Product \<Rightarrow> Product \<Rightarrow> bool" where
  "share_no_alias p q \<longleftrightarrow> alias_keys (prod_Aliases p) \<inter> alias_keys (prod_Aliases q) = {}"

definition catalog_wf :: "Catalog \<Rightarrow> bool" where
  "catalog_wf c \<longleftrightarrow> cat_Products c \<noteq> [] \<and> list_all product_wf (cat_Products c) \<and>
     distinct (map prod_ProductKey (cat_Products c)) \<and> sorted_wrt share_no_alias (cat_Products c)"

definition cycle_map :: "Release list \<Rightarrow> string \<rightharpoonup> Release" where
  "cycle_map rs = map_of (map (\<lambda>r. (rel_Cycle r, r)) rs)"

definition indexed :: "Product \<Rightarrow> Product" where
  "indexed p = p\<lparr>prod_byCycle := cycle_map (prod_Releases p)\<rparr>"

lemma indexed_fields [simp]:
  "prod_ProductKey (indexed p) = prod_ProductKey p" "prod_DisplayName (indexed p) = prod_DisplayName p"
  "prod_Aliases (indexed p) = prod_Aliases p" "prod_Releases (indexed p) = prod_Releases p"
  "prod_byCycle (indexed p) = cycle_map (prod_Releases p)"
  by (simp_all add: indexed_def)

lemma cycle_map_Some:
  "distinct (map rel_Cycle rs) \<Longrightarrow> cycle_map rs k = Some r \<longleftrightarrow> r \<in> set rs \<and> rel_Cycle r = k"
  by (auto simp: cycle_map_def comp_def)

lemma releases_loop_Cons:
  "release_wf r \<Longrightarrow> m (rel_Cycle r) = None \<Longrightarrow>
     releases_loop key (r # rs) m = releases_loop key rs (m(rel_Cycle r \<mapsto> r))"
  "\<not> (release_wf r \<and> m (rel_Cycle r) = None) \<Longrightarrow> \<exists>e. releases_loop key (r # rs) m = Inl e"
  by (auto simp: release_wf_def date_or_empty_def)

lemma releases_loop_iff:
  "(\<exists>m'. releases_loop key rs m = Inr m') \<longleftrightarrow>
     list_all release_wf rs \<and> distinct (map rel_Cycle rs) \<and> rel_Cycle ` set rs \<inter> dom m = {}"
proof (induction rs arbitrary: m)
  case (Cons r rs)
  show ?case
  proof (cases "release_wf r \<and> m (rel_Cycle r) = None")
    case True
    have "(\<exists>m'. releases_loop key (r # rs) m = Inr m') \<longleftrightarrow>
        (\<exists>m'. releases_loop key rs (m(rel_Cycle r \<mapsto> r)) = Inr m')"
      using True by (simp only: releases_loop_Cons(1))
    also have "\<dots> \<longleftrightarrow> list_all release_wf rs \<and> distinct (map rel_Cycle rs) \<and>
        rel_Cycle ` set rs \<inter> dom (m(rel_Cycle r \<mapsto> r)) = {}"
      by (rule Cons)
    also have "rel_Cycle ` set rs \<inter> dom (m(rel_Cycle r \<mapsto> r)) = {} \<longleftrightarrow>
        rel_Cycle r \<notin> rel_Cycle ` set rs \<and> rel_Cycle ` set rs \<inter> dom m = {}"
      by (simp add: Int_insert_right)
    finally show ?thesis using True by (auto simp del: releases_loop.simps simp: domIff)
  next
    case False
    then show ?thesis using releases_loop_Cons(2) [of r m key rs] by (fastforce simp del: releases_loop.simps)
  qed
qed simp

lemma releases_loop_result:
  "releases_loop key rs m = Inr m' \<Longrightarrow> m' = m ++ map_of (rev (map (\<lambda>r. (rel_Cycle r, r)) rs))"
proof (induction rs arbitrary: m)
  case (Cons r rs)
  then have "release_wf r \<and> m (rel_Cycle r) = None"
    using releases_loop_Cons(2) [of r m key rs] by (metis Inl_Inr_False)
  with Cons show ?case by (auto simp: releases_loop_Cons(1) simp del: releases_loop.simps)
qed simp

lemma releases_loop_empty:
  "releases_loop key rs Map.empty = Inr m \<longleftrightarrow>
     list_all release_wf rs \<and> distinct (map rel_Cycle rs) \<and> m = cycle_map rs"
proof -
  have rev: "map_of (rev (map (\<lambda>r. (rel_Cycle r, r)) rs)) = cycle_map rs" if "distinct (map rel_Cycle rs)"
    unfolding cycle_map_def using that by (subst map_of_inject_set) (auto simp: comp_def rev_map[symmetric])
  show ?thesis using releases_loop_iff [of key rs Map.empty] releases_loop_result [of key rs Map.empty] rev
    by auto
qed

lemma alias_keys_Cons: "alias_keys (a # as) = ({normalizeAlias a} - {[]}) \<union> alias_keys as"
  by (auto simp: alias_keys_def)

lemma aliases_loop_Cons:
  "aliases_loop p (a # as) m =
     (if normalizeAlias a = [] then aliases_loop p as m
      else if m (normalizeAlias a) = None \<or> m (normalizeAlias a) = Some p
        then aliases_loop p as (m(normalizeAlias a \<mapsto> p))
      else Inl (AliasClaimedTwice (normalizeAlias a)))"
  by (simp add: Let_def split: option.splits)

lemma aliases_loop_iff:
  "(\<exists>m'. aliases_loop p as m = Inr m') \<longleftrightarrow> (\<forall>k \<in> alias_keys as. m k = None \<or> m k = Some p)"
proof (induction as arbitrary: m)
  case (Cons a as)
  let ?k = "normalizeAlias a"
  have upd: "(\<forall>k \<in> alias_keys as. (m(?k \<mapsto> p)) k = None \<or> (m(?k \<mapsto> p)) k = Some p) \<longleftrightarrow>
      (\<forall>k \<in> alias_keys as. m k = None \<or> m k = Some p)" if "m ?k = None \<or> m ?k = Some p"
    using that by (intro ball_cong refl) auto
  show ?case
    using upd by (simp add: aliases_loop_Cons Cons alias_keys_Cons ball_Un del: aliases_loop.simps fun_upd_apply)
qed (simp add: alias_keys_def)

lemma aliases_loop_result:
  "aliases_loop p as m = Inr m' \<Longrightarrow> m' k = (if k \<in> alias_keys as then Some p else m k)"
proof (induction as arbitrary: m)
  case (Cons a as)
  then show ?case
    by (auto simp: aliases_loop_Cons alias_keys_Cons simp del: aliases_loop.simps split: if_splits)
qed (simp add: alias_keys_def)

text \<open>The position of the first product with a property, counted from \<open>i\<close>.\<close>

fun find_pos :: "('a \<Rightarrow> bool) \<Rightarrow> nat \<Rightarrow> 'a list \<Rightarrow> nat option" where
  "find_pos P i [] = None"
| "find_pos P i (x # xs) = (if P x then Some i else find_pos P (Suc i) xs)"

lemma find_pos_None: "find_pos P i xs = None \<longleftrightarrow> (\<forall>x \<in> set xs. \<not> P x)"
  by (induction xs arbitrary: i) auto

lemma find_pos_Some: "find_pos P i xs = Some j \<Longrightarrow> i \<le> j \<and> j - i < length xs \<and> P (xs ! (j - i))"
  by (induction xs arbitrary: i) (fastforce split: if_splits simp: nth_Cons' Suc_diff_le)+

definition index_after :: "(Product \<Rightarrow> string \<Rightarrow> bool) \<Rightarrow> nat \<Rightarrow> Product list \<Rightarrow> (string \<rightharpoonup> nat) \<Rightarrow> (string \<rightharpoonup> nat)" where
  "index_after P i ps m k = (case find_pos (\<lambda>p. P p k) i ps of Some j \<Rightarrow> Some j | None \<Rightarrow> m k)"

abbreviation has_key :: "Product \<Rightarrow> string \<Rightarrow> bool" where
  "has_key p k \<equiv> prod_ProductKey p = k"

abbreviation has_alias :: "Product \<Rightarrow> string \<Rightarrow> bool" where
  "has_alias p k \<equiv> k \<in> alias_keys (prod_Aliases p)"

definition fresh :: "Product \<Rightarrow> (string \<rightharpoonup> nat) \<Rightarrow> (string \<rightharpoonup> nat) \<Rightarrow> bool" where
  "fresh p ids als \<longleftrightarrow> product_wf p \<and> ids (prod_ProductKey p) = None \<and> (\<forall>k \<in> alias_keys (prod_Aliases p). als k = None)"

definition claim :: "Product \<Rightarrow> nat \<Rightarrow> (string \<rightharpoonup> nat) \<Rightarrow> (string \<rightharpoonup> nat)" where
  "claim p i als k = (if has_alias p k then Some i else als k)"

lemma products_loop_fresh:
  assumes "fresh p ids als"
  shows "products_loop i (p # ps) ids als =
     (let (e, ps', ids', als') = products_loop (Suc i) ps (ids(prod_ProductKey p \<mapsto> i)) (claim p i als)
      in (e, indexed p # ps', ids', als'))"
proof -
  have p: "prod_ProductKey p \<noteq> []" "prod_Aliases p \<noteq> []" "prod_Releases p \<noteq> []" "ids (prod_ProductKey p) = None"
    using assms by (auto simp: fresh_def product_wf_def)
  have r: "releases_loop (prod_ProductKey p) (prod_Releases p) Map.empty = Inr (cycle_map (prod_Releases p))"
    using assms by (simp add: releases_loop_empty fresh_def product_wf_def)
  obtain m where m: "aliases_loop i (prod_Aliases p) als = Inr m"
    using assms aliases_loop_iff [of i "prod_Aliases p" als] by (auto simp: fresh_def)
  have "m = claim p i als" by (rule ext) (simp add: aliases_loop_result [OF m] claim_def)
  with p r m show ?thesis by (simp add: indexed_def)
qed

lemma products_loop_not_fresh:
  assumes "\<forall>k l. als k = Some l \<longrightarrow> l < i" and "\<not> fresh p ids als"
  shows "fst (products_loop i (p # ps) ids als) \<noteq> None"
proof (cases "product_wf p \<and> ids (prod_ProductKey p) = None")
  case True
  then have "\<not> (\<forall>k \<in> alias_keys (prod_Aliases p). als k = None \<or> als k = Some i)"
    using assms unfolding fresh_def by (metis less_irrefl)
  then obtain e where "aliases_loop i (prod_Aliases p) als = Inl e"
    using aliases_loop_iff [of i "prod_Aliases p" als] by (metis sum.exhaust)
  then show ?thesis by (simp add: Let_def split: sum.split)
next
  case False
  show ?thesis
  proof (cases "list_all release_wf (prod_Releases p) \<and> distinct (map rel_Cycle (prod_Releases p))")
    case True
    with False show ?thesis by (auto simp: product_wf_def)
  next
    case bad: False
    obtain e where "releases_loop (prod_ProductKey p) (prod_Releases p) Map.empty = Inl e"
      using bad releases_loop_empty by (metis sum.exhaust)
    then show ?thesis by simp
  qed
qed

definition products_ok :: "Product list \<Rightarrow> (string \<rightharpoonup> nat) \<Rightarrow> (string \<rightharpoonup> nat) \<Rightarrow> bool" where
  "products_ok ps ids als \<longleftrightarrow> list_all (\<lambda>p. fresh p ids als) ps \<and> distinct (map prod_ProductKey ps) \<and> sorted_wrt share_no_alias ps"

lemma products_ok_Cons:
  assumes "fresh p ids als"
  shows "products_ok (p # ps) ids als \<longleftrightarrow> products_ok ps (ids(prod_ProductKey p \<mapsto> i)) (claim p i als)"
proof -
  have "fresh q (ids(prod_ProductKey p \<mapsto> i)) (claim p i als) \<longleftrightarrow>
      fresh q ids als \<and> prod_ProductKey q \<noteq> prod_ProductKey p \<and> share_no_alias p q" for q
    by (auto simp: fresh_def claim_def share_no_alias_def)
  with assms show ?thesis by (auto simp: products_ok_def list_all_iff image_iff)
qed

lemma index_after_key:
  assumes "prod_ProductKey p \<notin> prod_ProductKey ` set ps"
  shows "index_after has_key (Suc i) ps (ids(prod_ProductKey p \<mapsto> i)) = index_after has_key i (p # ps) ids"
proof (rule ext)
  fix k
  have "has_key p k \<Longrightarrow> find_pos (\<lambda>q. has_key q k) (Suc i) ps = None"
    using assms by (auto simp: find_pos_None image_iff)
  then show "index_after has_key (Suc i) ps (ids(prod_ProductKey p \<mapsto> i)) k = index_after has_key i (p # ps) ids k"
    by (auto simp: index_after_def split: option.splits)
qed

lemma index_after_alias:
  "\<forall>q \<in> set ps. share_no_alias p q \<Longrightarrow>
     index_after has_alias (Suc i) ps (claim p i als) = index_after has_alias i (p # ps) als"
proof (rule ext)
  fix k
  assume *: "\<forall>q \<in> set ps. share_no_alias p q"
  have "has_alias p k \<Longrightarrow> find_pos (\<lambda>q. has_alias q k) (Suc i) ps = None"
    using * by (auto simp: find_pos_None share_no_alias_def)
  then show "index_after has_alias (Suc i) ps (claim p i als) k = index_after has_alias i (p # ps) als k"
    by (auto simp: index_after_def claim_def split: option.splits)
qed

lemma products_loop_ok:
  "products_ok ps ids als \<Longrightarrow>
     products_loop i ps ids als = (None, map indexed ps, index_after has_key i ps ids, index_after has_alias i ps als)"
proof (induction ps arbitrary: i ids als)
  case Nil
  then show ?case by (auto simp: index_after_def fun_eq_iff)
next
  case (Cons p ps)
  then have f: "fresh p ids als" by (simp add: products_ok_def)
  have ok: "products_ok ps (ids(prod_ProductKey p \<mapsto> i)) (claim p i als)"
    using Cons.prems products_ok_Cons [OF f] by blast
  have "prod_ProductKey p \<notin> prod_ProductKey ` set ps" "\<forall>q \<in> set ps. share_no_alias p q"
    using Cons.prems by (auto simp: products_ok_def)
  then show ?case
    by (simp add: products_loop_fresh [OF f] Cons.IH [OF ok] index_after_key index_after_alias
        del: products_loop.simps fun_upd_apply)
qed

lemma products_loop_bad:
  "\<forall>k l. als k = Some l \<longrightarrow> l < i \<Longrightarrow> \<not> products_ok ps ids als \<Longrightarrow> fst (products_loop i ps ids als) \<noteq> None"
proof (induction ps arbitrary: i ids als)
  case Nil
  then show ?case by (simp add: products_ok_def)
next
  case (Cons p ps)
  show ?case
  proof (cases "fresh p ids als")
    case True
    have "\<forall>k l. claim p i als k = Some l \<longrightarrow> l < Suc i" using Cons.prems(1) by (auto simp: claim_def less_SucI)
    then have "fst (products_loop (Suc i) ps (ids(prod_ProductKey p \<mapsto> i)) (claim p i als)) \<noteq> None"
      using Cons.IH Cons.prems(2) products_ok_Cons [OF True] by blast
    then show ?thesis by (simp add: products_loop_fresh [OF True] split_beta Let_def del: products_loop.simps)
  next
    case False
    with Cons.prems(1) show ?thesis by (rule products_loop_not_fresh)
  qed
qed

lemma catalog_wf_products_ok:
  "catalog_wf c \<longleftrightarrow> cat_Products c \<noteq> [] \<and> products_ok (cat_Products c) Map.empty Map.empty"
  by (auto simp: catalog_wf_def products_ok_def fresh_def list_all_iff)

definition indexed_catalog :: "Catalog \<Rightarrow> Catalog" where
  "indexed_catalog c = c\<lparr>cat_Products := map indexed (cat_Products c),
     cat_byID := Some (index_after has_key 0 (cat_Products c) Map.empty),
     cat_byAlias := Some (index_after has_alias 0 (cat_Products c) Map.empty)\<rparr>"

lemma validate_wf: "catalog_wf c \<Longrightarrow> validate c = (None, indexed_catalog c)"
  by (simp add: catalog_wf_products_ok validate_def products_loop_ok indexed_catalog_def)

lemma validate_not_wf: "\<not> catalog_wf c \<Longrightarrow> fst (validate c) \<noteq> None"
  using products_loop_bad [of Map.empty 0 "cat_Products c" Map.empty]
  by (auto simp: catalog_wf_products_ok validate_def split: prod.splits option.splits)

lemma Load_Inr: "Load (Some c) = Inr c' \<longleftrightarrow> catalog_wf c \<and> c' = indexed_catalog c"
proof (cases "catalog_wf c")
  case False
  then obtain e d where "validate c = (Some e, d)" using validate_not_wf by (metis not_Some_eq prod.collapse)
  with False show ?thesis by (simp add: Load_def)
qed (auto simp: Load_def validate_wf)

section \<open>Lookups\<close>

lemma index_lookup_found:
  assumes "sorted_wrt (\<lambda>p q. \<forall>k. \<not> (P p k \<and> P q k)) (cat_Products c)"
  shows "index_lookup (Some (index_after P 0 (cat_Products c) Map.empty)) key (indexed_catalog c) = Some p \<longleftrightarrow>
     (\<exists>q \<in> set (cat_Products c). p = indexed q \<and> P q key)"
proof -
  let ?ps = "cat_Products c"
  have unique: "i = j" if "i < length ?ps" "j < length ?ps" "P (?ps ! i) key" "P (?ps ! j) key" for i j
  proof (rule ccontr)
    assume "i \<noteq> j"
    moreover have "\<not> (P (?ps ! a) k \<and> P (?ps ! b) k)" if "a < b" "b < length ?ps" for a b k
      using sorted_wrt_nth_less [OF assms that] by blast
    ultimately show False using that by (metis linorder_neqE_nat)
  qed
  show ?thesis
  proof (cases "find_pos (\<lambda>p. P p key) 0 ?ps")
    case None
    then have "\<forall>q \<in> set ?ps. \<not> P q key" by (simp add: find_pos_None)
    with None show ?thesis by (auto simp: index_lookup_def index_after_def)
  next
    case (Some j)
    then have j: "j < length ?ps" "P (?ps ! j) key" using find_pos_Some by fastforce+
    have "index_lookup (Some (index_after P 0 ?ps Map.empty)) key (indexed_catalog c) = Some (indexed (?ps ! j))"
      using Some j(1) by (simp add: index_lookup_def index_after_def indexed_catalog_def)
    moreover have "q = ?ps ! j" if "q \<in> set ?ps" "P q key" for q
      using that unique j by (metis in_set_conv_nth)
    ultimately show ?thesis using j by (auto intro: nth_mem)
  qed
qed

lemma loaded_ensureIndex: "ensureIndex (indexed_catalog c) = (indexed_catalog c)\<lparr>cat_once := True\<rparr>"
  by (auto simp: ensureIndex_def indexed_catalog_def)

lemma indexed_catalog_simps [simp]:
  "cat_Products (indexed_catalog c) = map indexed (cat_Products c)"
  "cat_byID (indexed_catalog c) = Some (index_after has_key 0 (cat_Products c) Map.empty)"
  "cat_byAlias (indexed_catalog c) = Some (index_after has_alias 0 (cat_Products c) Map.empty)"
  by (simp_all add: indexed_catalog_def)

lemma index_lookup_once [simp]: "index_lookup idx k (c\<lparr>cat_once := b\<rparr>) = index_lookup idx k c"
  by (simp add: index_lookup_def)

lemma loaded_Product:
  assumes "catalog_wf c"
  shows "fst (catalog_Product k (indexed_catalog c)) = Some p \<longleftrightarrow>
     p \<in> set (cat_Products (indexed_catalog c)) \<and> prod_ProductKey p = k"
proof -
  have "distinct (map prod_ProductKey (cat_Products c))" using assms by (simp add: catalog_wf_def)
  then have "sorted_wrt (\<lambda>p q. \<forall>k. \<not> (has_key p k \<and> has_key q k)) (cat_Products c)"
    by (auto simp: sorted_wrt_iff_nth_less distinct_conv_nth)
  from index_lookup_found [OF this, of k p] show ?thesis
    by (auto simp: catalog_Product_def loaded_ensureIndex Let_def)
qed

lemma loaded_ProductByAlias:
  assumes "catalog_wf c"
  shows "fst (catalog_ProductByAlias n (indexed_catalog c)) = Some p \<longleftrightarrow>
     p \<in> set (cat_Products (indexed_catalog c)) \<and> has_alias p (normalizeAlias n)"
proof -
  have "sorted_wrt share_no_alias (cat_Products c)" using assms by (simp add: catalog_wf_def)
  then have "sorted_wrt (\<lambda>p q. \<forall>k. \<not> (has_alias p k \<and> has_alias q k)) (cat_Products c)"
    by (rule sorted_wrt_mono_rel [rotated]) (auto simp: share_no_alias_def)
  from index_lookup_found [OF this, of "normalizeAlias n" p] show ?thesis
    by (auto simp: catalog_ProductByAlias_def loaded_ensureIndex Let_def)
qed

lemma loaded_Release:
  assumes "catalog_wf c" and "p \<in> set (cat_Products (indexed_catalog c))"
  shows "product_Release cycle p = Some r \<longleftrightarrow> r \<in> set (prod_Releases p) \<and> rel_Cycle r = normalizeCycle cycle"
proof -
  obtain q where "p = indexed q" "distinct (map rel_Cycle (prod_Releases q))"
    using assms by (auto simp: catalog_wf_def list_all_iff product_wf_def)
  then show ?thesis by (simp add: product_Release_def cycle_map_Some)
qed

text \<open>C31: \<open>Load\<close> accepts a catalog exactly when it has a product, every product has a key of its own, an
  alias and a release, the cycles of a product are distinct and not empty, every date that is given is a
  valid one, the standard support end is given, and no alias is claimed by two products. In the catalog it
  returns, a product is found by its key, by each of its aliases whatever their case and surrounding
  blanks, and by nothing else, and a release of a product by its cycle.\<close>

theorem Load_lookup:
  "case Load (Some c) of
     Inl e \<Rightarrow> \<not> catalog_wf c
   | Inr c' \<Rightarrow> catalog_wf c \<and> map prod_ProductKey (cat_Products c') = map prod_ProductKey (cat_Products c) \<and>
       (\<forall>k p. fst (catalog_Product k c') = Some p \<longleftrightarrow> p \<in> set (cat_Products c') \<and> prod_ProductKey p = k) \<and>
       (\<forall>n p. fst (catalog_ProductByAlias n c') = Some p \<longleftrightarrow>
          p \<in> set (cat_Products c') \<and> normalizeAlias n \<in> alias_keys (prod_Aliases p)) \<and>
       (\<forall>p \<in> set (cat_Products c'). \<forall>cycle r. product_Release cycle p = Some r \<longleftrightarrow>
          r \<in> set (prod_Releases p) \<and> rel_Cycle r = normalizeCycle cycle)"
proof (cases "Load (Some c)")
  case (Inl e)
  then show ?thesis using Load_Inr [of c "indexed_catalog c"] by auto
next
  case (Inr c')
  then have c: "catalog_wf c" "c' = indexed_catalog c" using Load_Inr by blast+
  have keys: "map prod_ProductKey (cat_Products c') = map prod_ProductKey (cat_Products c)"
    by (simp add: c comp_def)
  show ?thesis
    unfolding Inr sum.case keys unfolding c(2)
    using c(1) loaded_Product [OF c(1)] loaded_ProductByAlias [OF c(1)] loaded_Release [OF c(1)] by blast
qed

definition sample_release :: "string \<Rightarrow> string \<Rightarrow> string \<Rightarrow> Release" where
  "sample_release cycle std ext = \<lparr>rel_Cycle = cycle, rel_StandardSupportEnd = std, rel_EOL = [],
     rel_ExtendedCoverageEnd = ext, rel_ExtendedCoverageNote = [], rel_SourceURL = []\<rparr>"

definition sample_catalog :: Catalog where
  "sample_catalog = \<lparr>cat_GeneratedAt = ''2026-01-01'', cat_SourceURLs = [], cat_Products =
     [\<lparr>prod_ProductKey = ''ubuntu'', prod_DisplayName = ''Ubuntu'', prod_Aliases = [''Ubuntu''], prod_SourceURL = [],
       prod_Releases = [sample_release ''20.04'' ''2025-05-31'' ''2030-04-30''], prod_byCycle = Map.empty\<rparr>,
      \<lparr>prod_ProductKey = ''rocky'', prod_DisplayName = ''Rocky Linux'', prod_Aliases = [''Rocky''], prod_SourceURL = [],
       prod_Releases = [sample_release ''9'' ''2027-05-31'' []], prod_byCycle = Map.empty\<rparr>],
     cat_once = False, cat_byID = None, cat_byAlias = None\<rparr>"

lemma sample_catalog_wf: "catalog_wf sample_catalog"
  by code_simp

theorem Load_lookup_witness:
  "\<exists>c' p r. Load (Some sample_catalog) = Inr c' \<and> fst (catalog_ProductByAlias '' UBUNTU'' c') = Some p \<and>
     prod_ProductKey p = ''ubuntu'' \<and> product_Release '' 20.04'' p = Some r \<and> rel_StandardSupportEnd r = ''2025-05-31''"
proof -
  let ?c' = "indexed_catalog sample_catalog"
  let ?p = "cat_Products ?c' ! 0"
  let ?r = "prod_Releases ?p ! 0"
  have L: "Load (Some sample_catalog) = Inr ?c'" by (simp add: Load_Inr sample_catalog_wf)
  have p: "?p \<in> set (cat_Products ?c')" "normalizeAlias '' UBUNTU'' \<in> alias_keys (prod_Aliases ?p)"
    by (simp add: sample_catalog_def) code_simp
  have "fst (catalog_ProductByAlias '' UBUNTU'' ?c') = Some ?p"
    using Load_lookup [of sample_catalog] p unfolding L sum.case by blast
  moreover have "?r \<in> set (prod_Releases ?p)" "rel_Cycle ?r = normalizeCycle '' 20.04''"
    by (simp add: sample_catalog_def) code_simp
  then have "product_Release '' 20.04'' ?p = Some ?r"
    using Load_lookup [of sample_catalog] p unfolding L sum.case by blast
  moreover have "prod_ProductKey ?p = ''ubuntu''" "rel_StandardSupportEnd ?r = ''2025-05-31''"
    by (simp_all add: sample_catalog_def sample_release_def)
  ultimately show ?thesis using L by blast
qed

section \<open>The status over time\<close>

definition stage :: "string \<Rightarrow> nat" where
  "stage state = (if state = ''supported'' then 1 else if state = ''approaching-end-of-support'' then 2
     else if state = ''extended-coverage-available'' then 3 else if state = ''standard-support-ended'' then 4 else 0)"

lemma day_ns_pos: "0 < day_ns"
  by (simp add: day_ns_def)

lemma truncateToDay_mono: "t \<le> u \<Longrightarrow> truncateToDay t \<le> truncateToDay u"
  unfolding truncateToDay_def using day_ns_pos by (intro mult_right_mono zdiv_mono1) auto

lemma truncateToDay_gap: "truncateToDay t < truncateToDay u \<Longrightarrow> truncateToDay t + day_ns \<le> truncateToDay u"
proof -
  assume "truncateToDay t < truncateToDay u"
  then have "t div day_ns + 1 \<le> u div day_ns"
    unfolding truncateToDay_def using day_ns_pos by (simp add: mult_less_cancel_right_disj)
  then have "(t div day_ns + 1) * day_ns \<le> u div day_ns * day_ns"
    using day_ns_pos by (intro mult_right_mono) auto
  then show ?thesis by (simp add: truncateToDay_def algebra_simps)
qed

lemma time_Sub_antimono: "u \<le> u' \<Longrightarrow> time_Sub t u' \<le> time_Sub t u"
  by (auto simp: time_Sub_def)

lemma whole_days_mono: "d \<le> e \<Longrightarrow> whole_days d \<le> whole_days e"
proof -
  assume "d \<le> e"
  then have "d div day_ns \<le> e div day_ns" "- e div day_ns \<le> - d div day_ns"
    using day_ns_pos by (auto intro: zdiv_mono1)
  moreover have "d < 0 \<Longrightarrow> 0 \<le> - d div day_ns" "0 \<le> e \<Longrightarrow> 0 \<le> e div day_ns"
    using day_ns_pos by (simp_all add: pos_imp_zdiv_nonneg_iff)
  ultimately show ?thesis using \<open>d \<le> e\<close> by (auto simp: whole_days_def)
qed

lemma whole_days_negative: "whole_days d < 0 \<longleftrightarrow> d \<le> - day_ns"
proof -
  have "0 < - d div day_ns \<longleftrightarrow> day_ns \<le> - d" if "d < 0"
    using day_ns_pos by (simp add: pos_imp_zdiv_pos_iff)
  moreover have "0 \<le> d \<Longrightarrow> 0 \<le> d div day_ns" using day_ns_pos by (simp add: pos_imp_zdiv_nonneg_iff)
  ultimately show ?thesis using day_ns_pos by (auto simp: whole_days_def)
qed

lemma days_negative_iff:
  "whole_days (time_Sub (truncateToDay e) (truncateToDay t)) < 0 \<longleftrightarrow> truncateToDay e < truncateToDay t"
proof -
  have "time_Sub (truncateToDay e) (truncateToDay t) \<le> - day_ns \<longleftrightarrow> truncateToDay e - truncateToDay t \<le> - day_ns"
    by (auto simp: time_Sub_def day_ns_def)
  also have "\<dots> \<longleftrightarrow> truncateToDay e < truncateToDay t"
    using truncateToDay_gap [of e t] day_ns_pos by linarith
  finally show ?thesis by (simp add: whole_days_negative)
qed

lemma release_state_mono:
  assumes "t \<le> u"
  shows "stage (release_state t e a r) \<le> stage (release_state u e a r)"
proof -
  have "time_Sub e u \<le> time_Sub e t" using assms by (rule time_Sub_antimono)
  with assms show ?thesis by (auto simp: release_state_def stage_def split: option.splits)
qed

lemma release_state_ended: "3 \<le> stage (release_state t e a r) \<longleftrightarrow> e < t"
  by (auto simp: release_state_def stage_def split: option.splits)

lemma release_state_known: "release_state t e a r \<noteq> ''unknown''" "0 < stage (release_state t e a r)"
  by (auto simp: release_state_def stage_def split: option.splits)

text \<open>In a loaded catalog, a matched release has a valid end of support.\<close>

lemma loaded_release_date:
  assumes "catalog_wf c" and "p \<in> set (cat_Products (indexed_catalog c))" and "matchRelease v m p = Some r"
  shows "parseDate (rel_StandardSupportEnd r) \<noteq> None"
proof -
  have "\<exists>cycle. product_Release cycle p = Some r"
    using assms(3) by (auto simp: matchRelease_def Let_def split: if_splits option.splits)
  then have "r \<in> set (prod_Releases p)" using loaded_Release [OF assms(1,2)] by blast
  with assms(1,2) show ?thesis by (auto simp: catalog_wf_def list_all_iff product_wf_def release_wf_def)
qed

lemma loaded_status_cases:
  assumes "Load (Some c) = Inr c'"
  obtains (unknown) "\<And>now a. fst (catalog_Status now a inp c') = unknown_status"
      "\<nexists>p r. p \<in> set (cat_Products c') \<and> has_alias p (normalizeAlias (si_OSName inp)) \<and>
         matchRelease (si_OSVersion inp) (si_OSMajor inp) p = Some r"
    | (known) p r endDate where "p \<in> set (cat_Products c')" "has_alias p (normalizeAlias (si_OSName inp))"
      "matchRelease (si_OSVersion inp) (si_OSMajor inp) p = Some r"
      "parseDate (rel_StandardSupportEnd r) = Some endDate"
      "\<And>now a. fst (catalog_Status now a inp c') =
         matched_status now (if a \<le> 0 then DefaultApproachingThreshold else a) p r"
proof -
  have c: "catalog_wf c" "c' = indexed_catalog c" using assms Load_Inr by blast+
  note found = loaded_ProductByAlias [OF c(1), of "si_OSName inp", folded c(2)]
  show ?thesis
  proof (cases "fst (catalog_ProductByAlias (si_OSName inp) c')")
    case None
    have "fst (catalog_Status now a inp c') = unknown_status" for now a
      using None by (simp add: catalog_Status_def split_beta)
    then show ?thesis using unknown None found by (metis option.distinct(1))
  next
    case (Some p)
    then have p: "p \<in> set (cat_Products c')" "has_alias p (normalizeAlias (si_OSName inp))" using found by auto
    show ?thesis
    proof (cases "matchRelease (si_OSVersion inp) (si_OSMajor inp) p")
      case None
      have "fst (catalog_Status now a inp c') = unknown_status" for now a
        using Some None by (simp add: catalog_Status_def split_beta)
      then show ?thesis using unknown Some None found by (metis option.distinct(1) option.inject)
    next
      case r: (Some r)
      have "fst (catalog_Status now a inp c') = matched_status now (if a \<le> 0 then DefaultApproachingThreshold else a) p r"
        for now a using Some r by (simp add: catalog_Status_def split_beta)
      then show ?thesis using known p r loaded_release_date [OF c(1) _ r] c(2) by blast
    qed
  qed
qed

text \<open>C32: in a loaded catalog the status of a host is unknown exactly when no product has its name among its
  aliases or no release of that product matches its version. Otherwise, as time passes, the status only moves
  forward from supported to approaching the end of support, to extended coverage and to ended (stages may be
  skipped), the days remaining never increase, and they are negative exactly once standard support has
  ended.\<close>

theorem Status_timeline:
  assumes "Load (Some c) = Inr c'" and "now \<le> later"
  shows "let s = fst (catalog_Status now a inp c'); t = fst (catalog_Status later a inp c') in
    (st_State s = ''unknown'' \<longleftrightarrow>
       (\<nexists>p r. p \<in> set (cat_Products c') \<and> normalizeAlias (si_OSName inp) \<in> alias_keys (prod_Aliases p) \<and>
          matchRelease (si_OSVersion inp) (si_OSMajor inp) p = Some r)) \<and>
    (st_DaysRemaining s = None \<longleftrightarrow> st_State s = ''unknown'') \<and>
    stage (st_State s) \<le> stage (st_State t) \<and>
    (\<forall>d d'. st_DaysRemaining s = Some d \<longrightarrow> st_DaysRemaining t = Some d' \<longrightarrow> d' \<le> d \<and> (d < 0 \<longleftrightarrow> 3 \<le> stage (st_State s)))"
  using assms(1)
proof (cases rule: loaded_status_cases [where inp = inp])
  case unknown
  then show ?thesis by (auto simp: unknown_status_def)
next
  case (known p r endDate)
  have tr: "truncateToDay now \<le> truncateToDay later" using assms(2) by (rule truncateToDay_mono)
  have "whole_days (time_Sub (truncateToDay endDate) (truncateToDay later))
      \<le> whole_days (time_Sub (truncateToDay endDate) (truncateToDay now))"
    using tr by (intro whole_days_mono time_Sub_antimono)
  then show ?thesis
    using known(1-3) release_state_mono [OF tr]
    by (auto simp: Let_def known(4,5) matched_status_def days_negative_iff release_state_ended release_state_known)
qed

theorem Status_timeline_witness:
  "\<exists>c'. Load (Some sample_catalog) = Inr c' \<and>
     stage (st_State (fst (catalog_Status (20000 * day_ns) 0 (NewStatusInput ''Ubuntu'' ''20.04'' 20) c'))) \<le>
     stage (st_State (fst (catalog_Status (22000 * day_ns) 0 (NewStatusInput ''Ubuntu'' ''20.04'' 20) c')))"
proof -
  have L: "Load (Some sample_catalog) = Inr (indexed_catalog sample_catalog)" by (simp add: Load_Inr sample_catalog_wf)
  have "20000 * day_ns \<le> 22000 * day_ns" by (simp add: day_ns_def)
  from Status_timeline [OF L this] L show ?thesis by (auto simp: Let_def)
qed

end
