(* ===== verification/Go_Slices.thy ===== *)
theory Go_Slices
  imports Go_Strings "HOL-Library.Multiset" "HOL-Library.Product_Lexorder"
begin

text \<open>
  Two library routines the agent and the API handlers are written with. \<open>sort.Slice\<close> is not stable: on a
  comparison that is a strict weak order it returns some ordered permutation of its argument, and nothing
  more is promised. It is therefore a parameter of the operations that call it, with the contract
  \<open>slice_sorts\<close>; insertion sort meets the contract, and where the keys are distinct the result is unique.
  \<open>bufio.Scanner\<close> cuts its input into lines and stops at a line that does not fit its buffer.
\<close>

section \<open>Sorting\<close>

definition less_sorted :: "('a \<Rightarrow> 'a \<Rightarrow> bool) \<Rightarrow> 'a list \<Rightarrow> bool" where
  "less_sorted lt xs \<longleftrightarrow> sorted_wrt (\<lambda>a b. \<not> lt b a) xs"

definition slice_sorts :: "('a \<Rightarrow> 'a \<Rightarrow> bool) \<Rightarrow> ('a list \<Rightarrow> 'a list) \<Rightarrow> bool" where
  "slice_sorts lt srt \<longleftrightarrow> (\<forall>xs. mset (srt xs) = mset xs \<and> less_sorted lt (srt xs))"

lemma slice_sortsD:
  assumes "slice_sorts lt srt"
  shows "mset (srt xs) = mset xs" "less_sorted lt (srt xs)" "set (srt xs) = set xs" "length (srt xs) = length xs"
  using assms by (auto simp: slice_sorts_def dest: mset_eq_setD mset_eq_length)

fun insert_slice :: "('a \<Rightarrow> 'a \<Rightarrow> bool) \<Rightarrow> 'a \<Rightarrow> 'a list \<Rightarrow> 'a list" where
  "insert_slice lt x [] = [x]"
| "insert_slice lt x (y # ys) = (if lt y x then y # insert_slice lt x ys else x # y # ys)"

definition insertion_sort :: "('a \<Rightarrow> 'a \<Rightarrow> bool) \<Rightarrow> 'a list \<Rightarrow> 'a list" where
  "insertion_sort lt xs = foldr (insert_slice lt) xs []"

text \<open>The contract of a comparison function given to \<open>sort.Slice\<close>.\<close>

locale slice_less =
  fixes lt :: "'a \<Rightarrow> 'a \<Rightarrow> bool"
  assumes asym: "lt x y \<Longrightarrow> \<not> lt y x"
    and negatively_transitive: "\<not> lt y x \<Longrightarrow> \<not> lt z y \<Longrightarrow> \<not> lt z x"
begin

lemma mset_insert_slice: "mset (insert_slice lt x xs) = add_mset x (mset xs)"
  by (induction xs) auto

lemma sorted_insert_slice: "less_sorted lt xs \<Longrightarrow> less_sorted lt (insert_slice lt x xs)"
proof (induction xs)
  case (Cons y ys)
  have set: "set (insert_slice lt x ys) = insert x (set ys)"
    using mset_insert_slice [of x ys] by (metis set_mset_mset set_mset_add_mset_insert)
  show ?case
  proof (cases "lt y x")
    case True
    with Cons set show ?thesis by (auto simp: less_sorted_def dest: asym)
  next
    case False
    with Cons.prems show ?thesis by (auto simp: less_sorted_def dest: negatively_transitive)
  qed
qed (simp add: less_sorted_def)

lemma insertion_sort_sorts: "slice_sorts lt (insertion_sort lt)"
proof -
  have "mset (insertion_sort lt xs) = mset xs \<and> less_sorted lt (insertion_sort lt xs)" for xs
    by (induction xs) (simp_all add: insertion_sort_def mset_insert_slice sorted_insert_slice, simp add: less_sorted_def)
  then show ?thesis by (simp add: slice_sorts_def)
qed

end

text \<open>A comparison by a key in a linear order is such a comparison, whichever the key.\<close>

lemma slice_less_key: "(\<And>x y. lt x y \<longleftrightarrow> f x < f y) \<Longrightarrow> slice_less lt"
  for f :: "'a \<Rightarrow> 'k :: linorder"
  by unfold_locales auto

lemma less_sorted_key:
  "(\<And>x y. lt x y \<longleftrightarrow> f x < f y) \<Longrightarrow> less_sorted lt xs \<longleftrightarrow> sorted (map f xs)"
  for f :: "'a \<Rightarrow> 'k :: linorder"
  by (simp add: less_sorted_def sorted_map linorder_not_less sorted_wrt_map)

text \<open>The keys come out the same whatever the sorting routine does with equal keys, and so does the slice
  when its keys are distinct.\<close>

lemma sorted_keys_unique:
  fixes f :: "'a \<Rightarrow> 'k :: linorder"
  assumes "\<And>x y. lt x y \<longleftrightarrow> f x < f y" and "mset xs = mset ys" and "less_sorted lt xs" and "less_sorted lt ys"
  shows "map f xs = map f ys"
proof -
  have "sorted (map f xs)" "sorted (map f ys)" using assms less_sorted_key [of lt f] by auto
  moreover have "mset (map f xs) = mset (map f ys)" using assms(2) by simp
  ultimately show ?thesis by (metis properties_for_sort)
qed

lemma sorted_slice_unique:
  fixes f :: "'a \<Rightarrow> 'k :: linorder"
  assumes "\<And>x y. lt x y \<longleftrightarrow> f x < f y" and "mset xs = mset ys" and "less_sorted lt xs" and "less_sorted lt ys"
    and "distinct (map f xs)"
  shows "xs = ys"
proof -
  have "inj_on f (set xs \<union> set ys)" using assms(2,5) by (metis distinct_map mset_eq_setD sup.idem)
  with sorted_keys_unique [OF assms(1-4)] show ?thesis by (simp add: inj_on_map_eq_map)
qed

section \<open>Lines\<close>

definition dropCR :: "string \<Rightarrow> string" where
  "dropCR line = (if line \<noteq> [] \<and> byte (last line) = 13 then butlast line else line)"

definition scan_lines :: "string \<Rightarrow> string list" where
  "scan_lines s =
     (let raw = Split1 s (CHR 0x0A);
          tokens = (if last raw = [] then butlast raw else raw)
      in map dropCR (takeWhile (\<lambda>line. length line < 65536) tokens))"

text \<open>The loop over the lines that every parser of the agent starts with: blank lines are skipped.\<close>

definition scan_trimmed :: "string \<Rightarrow> string list" where
  "scan_trimmed s = filter (\<lambda>line. line \<noteq> []) (map TrimSpace (scan_lines s))"

section \<open>A slice with an index\<close>

text \<open>
  The loop body \<^verbatim>\<open>i, ok := index[key]; if !ok { xs = append(xs, new); i = len(xs)-1; index[key] = i }; x := &xs[i]; ...\<close>
  finds or creates the entry of a key and changes it in place. Over a list of elements it is a grouping by
  key, in the order in which the keys first occur.
\<close>

definition upsert :: "('d \<Rightarrow> 'k) \<Rightarrow> ('d \<Rightarrow> 'g) \<Rightarrow> ('d \<Rightarrow> 'g \<Rightarrow> 'g) \<Rightarrow> 'd \<Rightarrow> 'g list \<times> ('k \<rightharpoonup> nat) \<Rightarrow> 'g list \<times> ('k \<rightharpoonup> nat)" where
  "upsert key new upd d st =
     (let (xs, index) = st;
          (xs1, index1, i) = (case index (key d) of
             None \<Rightarrow> (xs @ [new d], index(key d \<mapsto> length xs), length xs)
           | Some i \<Rightarrow> (xs, index, i))
      in (xs1[i := upd d (xs1 ! i)], index1))"

definition group_keys :: "('d \<Rightarrow> 'k) \<Rightarrow> 'd list \<Rightarrow> 'k list" where
  "group_keys key ds = rev (remdups (rev (map key ds)))"

definition group_entry :: "('d \<Rightarrow> 'k) \<Rightarrow> ('d \<Rightarrow> 'g) \<Rightarrow> ('d \<Rightarrow> 'g \<Rightarrow> 'g) \<Rightarrow> 'd list \<Rightarrow> 'k \<Rightarrow> 'g" where
  "group_entry key new upd ds k =
     (let es = filter (\<lambda>d. key d = k) ds in fold upd es (new (hd es)))"

lemma set_group_keys [simp]: "set (group_keys key ds) = key ` set ds" and distinct_group_keys [simp]: "distinct (group_keys key ds)"
  by (simp_all add: group_keys_def)

lemma group_keys_snoc:
  "group_keys key (ds @ [d]) = (if key d \<in> key ` set ds then group_keys key ds else group_keys key ds @ [key d])"
  by (auto simp: group_keys_def)

lemma group_entry_snoc:
  "group_entry key new upd (ds @ [d]) k =
     (if key d = k then upd d (if k \<in> key ` set ds then group_entry key new upd ds k else new d) else group_entry key new upd ds k)"
proof (cases "k \<in> key ` set ds")
  case True
  then have "filter (\<lambda>d. key d = k) ds \<noteq> []" by (auto simp: filter_empty_conv)
  with True show ?thesis by (simp add: group_entry_def Let_def)
next
  case False
  then have "filter (\<lambda>d. key d = k) ds = []" by (auto simp: filter_empty_conv)
  with False show ?thesis by (simp add: group_entry_def Let_def)
qed

definition indexes :: "('k \<rightharpoonup> nat) \<Rightarrow> 'k list \<Rightarrow> bool" where
  "indexes m ks \<longleftrightarrow> (\<forall>k i. m k = Some i \<longleftrightarrow> i < length ks \<and> ks ! i = k)"

lemma indexes_None: "indexes m ks \<Longrightarrow> m k = None \<longleftrightarrow> k \<notin> set ks"
  unfolding indexes_def in_set_conv_nth by (metis option.distinct(1) option.exhaust)

lemma indexes_snoc: "indexes m ks \<Longrightarrow> k \<notin> set ks \<Longrightarrow> indexes (m(k \<mapsto> length ks)) (ks @ [k])"
  unfolding indexes_def
proof (intro allI)
  fix l i
  assume *: "\<forall>k i. m k = Some i \<longleftrightarrow> i < length ks \<and> ks ! i = k" "k \<notin> set ks"
  then have "i < length ks \<Longrightarrow> ks ! i \<noteq> k" by auto
  with * show "(m(k \<mapsto> length ks)) l = Some i \<longleftrightarrow> i < length (ks @ [k]) \<and> (ks @ [k]) ! i = l"
    by (cases "l = k"; cases "i = length ks") (auto simp: nth_append less_Suc_eq)
qed

lemma upsert_new:
  "index (key d) = None \<Longrightarrow>
     upsert key new upd d (xs, index) = (xs @ [upd d (new d)], index(key d \<mapsto> length xs))"
  by (simp add: upsert_def)

lemma upsert_old: "index (key d) = Some i \<Longrightarrow> upsert key new upd d (xs, index) = (xs[i := upd d (xs ! i)], index)"
  by (simp add: upsert_def)

lemma upsert_groups:
  "\<exists>m. fold (upsert key new upd) ds ([], Map.empty) = (map (group_entry key new upd ds) (group_keys key ds), m) \<and>
     indexes m (group_keys key ds)"
proof (induction ds rule: rev_induct)
  case Nil
  show ?case by (simp add: group_keys_def indexes_def)
next
  case (snoc d ds)
  let ?e = "group_entry key new upd" and ?ks = "group_keys key ds"
  obtain m where m: "fold (upsert key new upd) ds ([], Map.empty) = (map (?e ds) ?ks, m)" "indexes m ?ks"
    using snoc by blast
  have other: "?e (ds @ [d]) k = ?e ds k" if "k \<noteq> key d" for k using that by (simp add: group_entry_snoc)
  show ?case
  proof (cases "m (key d)")
    case None
    then have new: "key d \<notin> key ` set ds" using indexes_None [OF m(2)] by auto
    then have "map (?e (ds @ [d])) ?ks = map (?e ds) ?ks" using other by (intro map_cong refl) (metis set_group_keys)
    moreover have "?e (ds @ [d]) (key d) = upd d (new d)" using new by (simp add: group_entry_snoc)
    ultimately show ?thesis
      using None new m indexes_snoc [OF m(2), of "key d"] by (auto simp: upsert_new group_keys_snoc)
  next
    case (Some i)
    then have i: "i < length ?ks" "?ks ! i = key d" using m(2) by (auto simp: indexes_def)
    then have old: "key d \<in> key ` set ds" by (metis nth_mem set_group_keys)
    have "(map (?e ds) ?ks)[i := upd d (map (?e ds) ?ks ! i)] = map (?e (ds @ [d])) ?ks"
    proof (rule nth_equalityI)
      fix j assume "j < length ((map (?e ds) ?ks)[i := upd d (map (?e ds) ?ks ! i)])"
      then have j: "j < length ?ks" by simp
      have "j \<noteq> i \<Longrightarrow> ?ks ! j \<noteq> key d" using i j by (metis distinct_group_keys nth_eq_iff_index_eq)
      with i j old show "(map (?e ds) ?ks)[i := upd d (map (?e ds) ?ks ! i)] ! j = map (?e (ds @ [d])) ?ks ! j"
        by (cases "j = i") (simp_all add: other group_entry_snoc [of key new upd ds d "key d"])
    qed simp
    with Some old m show ?thesis by (auto simp: upsert_old group_keys_snoc)
  qed
qed

end
