(* ===== verification/Agent_Packages.thy ===== *)
theory Agent_Packages
  imports Go_Slices Debian_Version
begin

text \<open>
  The package collector of the agent, \<open>agent/internal/collector/packages.go\<close>: the output of rpm, dpkg-query,
  dnf and apt is parsed into the package list of a snapshot. A command's result is a parameter, \<open>None\<close> when
  the command failed; so is the sorting routine (theory \<open>Go_Slices\<close>). Where the code ignores the error of
  a command, what it had written is used.
\<close>

section \<open>Parsing a line\<close>

datatype agent_error =
    UnsupportedOsFamily OsFamily
  | CommandFailed
  | WrongFieldCount nat
  | EmptyPackageName
  | BadEpoch string
  | EmptyDebianVersion
  | NothingAfterEpoch
  | NoUpstreamVersion

definition parseEpoch :: "string \<Rightarrow> agent_error + int" where
  "parseEpoch value =
     (let trimmed = TrimSpace value in
      if trimmed = [] \<or> trimmed = ''(none)'' then Inr 0
      else case ParseInt 32 trimmed of None \<Rightarrow> Inl (BadEpoch trimmed) | Some n \<Rightarrow> Inr n)"

definition optionalStr :: "string \<Rightarrow> string" where
  "optionalStr value = (let trimmed = TrimSpace value in if trimmed = [] \<or> trimmed = ''(none)'' then [] else trimmed)"

definition parsePackageLine :: "string \<Rightarrow> agent_error + Package" where
  "parsePackageLine line =
     (case Split1 line (CHR ''|'') of
        [name, epochField, version, release, arch, source, vendor] \<Rightarrow>
          (case parseEpoch epochField of
             Inl err \<Rightarrow> Inl err
           | Inr epoch \<Rightarrow>
               Inr \<lparr>pkg_Name = name, pkg_Epoch = epoch, pkg_Version = version, pkg_Release = release, pkg_Arch = arch,
                    pkg_SourceRpm = optionalStr source, pkg_Vendor = optionalStr vendor, pkg_RepoOrigin = [],
                    pkg_Nevra = name @ ''-'' @ Itoa epoch @ '':'' @ version @ ''-'' @ release @ ''.'' @ arch\<rparr>)
      | parts \<Rightarrow> Inl (WrongFieldCount (length parts)))"

definition formatPackageIdentifier :: "string \<Rightarrow> int \<Rightarrow> string \<Rightarrow> string \<Rightarrow> string \<Rightarrow> string" where
  "formatPackageIdentifier name epoch version release arch =
     (if release = [] \<and> arch = [] then name @ ''-'' @ Itoa epoch @ '':'' @ version
      else if release = [] then name @ ''-'' @ Itoa epoch @ '':'' @ version @ ''.'' @ arch
      else if arch = [] then name @ ''-'' @ Itoa epoch @ '':'' @ version @ ''-'' @ release
      else name @ ''-'' @ Itoa epoch @ '':'' @ version @ ''-'' @ release @ ''.'' @ arch)"

definition parseDebianVersion :: "string \<Rightarrow> agent_error + int \<times> string \<times> string" where
  "parseDebianVersion value =
     (let version = TrimSpace value in
      if version = [] then Inl EmptyDebianVersion
      else
        (case (case Index version '':'' of
                 None \<Rightarrow> Inr (0, version)
               | Some idx \<Rightarrow>
                   (case parseEpoch (take idx version) of
                      Inl err \<Rightarrow> Inl err
                    | Inr parsed \<Rightarrow> Inr (parsed, drop (idx + 1) version))) of
           Inl err \<Rightarrow> Inl err
         | Inr (epoch, rest) \<Rightarrow>
             if rest = [] then Inl NothingAfterEpoch
             else
               let (upstream, release) =
                     (case LastIndex rest ''-'' of
                        None \<Rightarrow> (rest, [])
                      | Some idx \<Rightarrow> (take idx rest, drop (idx + 1) rest))
               in if upstream = [] then Inl NoUpstreamVersion else Inr (epoch, upstream, release)))"

definition parseAptPackageLine :: "string \<Rightarrow> agent_error + Package" where
  "parseAptPackageLine line =
     (case Split1 line (CHR ''|'') of
        [nameField, versionField, archField, maintainer, source] \<Rightarrow>
          let name = TrimSpace nameField in
          if name = [] then Inl EmptyPackageName
          else (case parseDebianVersion (TrimSpace versionField) of
              Inl err \<Rightarrow> Inl err
            | Inr (epoch, version, release) \<Rightarrow>
                let arch = TrimSpace archField in
                Inr \<lparr>pkg_Name = name, pkg_Epoch = epoch, pkg_Version = version, pkg_Release = release, pkg_Arch = arch,
                     pkg_SourceRpm = optionalStr source, pkg_Vendor = optionalStr maintainer, pkg_RepoOrigin = [],
                     pkg_Nevra = formatPackageIdentifier name epoch version release arch\<rparr>)
      | parts \<Rightarrow> Inl (WrongFieldCount (length parts)))"

definition is_apt_notice :: "string \<Rightarrow> bool" where
  "is_apt_notice line \<longleftrightarrow> HasPrefix line ''Listing...'' \<or> HasPrefix line ''WARNING:'' \<or> HasPrefix line ''N:''"

definition is_rpm_notice :: "string \<Rightarrow> bool" where
  "is_rpm_notice line \<longleftrightarrow> HasPrefix line ''Last metadata expiration check:'' \<or> line = ''Obsoleting Packages'' \<or> line = ''Obsoleted Packages''"

definition upgradable :: "string \<Rightarrow> int \<Rightarrow> string \<Rightarrow> string \<Rightarrow> string \<Rightarrow> string \<Rightarrow> Package" where
  "upgradable name epoch version release arch repoOrigin =
     \<lparr>pkg_Name = name, pkg_Epoch = epoch, pkg_Version = version, pkg_Release = release, pkg_Arch = arch, pkg_SourceRpm = [],
      pkg_Vendor = [], pkg_RepoOrigin = repoOrigin, pkg_Nevra = formatPackageIdentifier name epoch version release arch\<rparr>"

definition parseAptUpgradableLine :: "string \<Rightarrow> Package option" where
  "parseAptUpgradableLine line =
     (if is_apt_notice line then None
      else if \<not> Contains line ''[upgradable from:'' then None
      else case Fields line of
          nameField # versionField # archField # _ \<Rightarrow>
            (case Cut nameField ''/'' of
               None \<Rightarrow> None
             | Some (name, repoOrigin) \<Rightarrow>
                 if TrimSpace name = [] then None
                 else (case parseDebianVersion (TrimSpace versionField) of
                     Inl _ \<Rightarrow> None
                   | Inr (epoch, version, release) \<Rightarrow>
                       Some (upgradable name epoch version release (TrimSpace archField) repoOrigin)))
        | _ \<Rightarrow> None)"

definition parseRpmUpgradableLine :: "string \<Rightarrow> Package option" where
  "parseRpmUpgradableLine line =
     (if is_rpm_notice line then None
      else case Fields line of
          nameArch # targetVersion # repoOrigin # _ \<Rightarrow>
            (case LastIndex nameArch ''.'' of
               None \<Rightarrow> None
             | Some dot \<Rightarrow>
                 if dot = 0 \<or> length nameArch \<le> dot + 1 then None
                 else
                   (case (case Cut targetVersion '':'' of
                            None \<Rightarrow> Some (0, targetVersion)
                          | Some (epochPart, rest) \<Rightarrow>
                              (case parseEpoch epochPart of Inl _ \<Rightarrow> None | Inr e \<Rightarrow> Some (e, rest))) of
                      None \<Rightarrow> None
                    | Some (epoch, versionRelease) \<Rightarrow>
                        let (version, release) =
                              (case LastIndex versionRelease ''-'' of
                                 None \<Rightarrow> (versionRelease, [])
                               | Some dash \<Rightarrow>
                                   if 0 < dash \<and> dash + 1 < length versionRelease
                                   then (take dash versionRelease, drop (dash + 1) versionRelease)
                                   else (versionRelease, []))
                        in Some (upgradable (take dot nameArch) epoch version release (drop (dot + 1) nameArch) repoOrigin)))
        | _ \<Rightarrow> None)"

section \<open>Counting\<close>

definition counts_rpm :: "string \<Rightarrow> bool" where
  "counts_rpm line \<longleftrightarrow> \<not> is_rpm_notice line \<and>
     (case Fields line of
        first # second # _ # _ \<Rightarrow> Contains first ''.'' \<and> list_ex (\<lambda>c. c \<in> set ''0123456789'') second
      | _ \<Rightarrow> False)"

definition counts_apt :: "string \<Rightarrow> bool" where
  "counts_apt line \<longleftrightarrow> \<not> is_apt_notice line \<and> Contains line ''/'' \<and> Contains line ''[upgradable from:''"

fun count_lines :: "(string \<Rightarrow> bool) \<Rightarrow> int \<Rightarrow> string list \<Rightarrow> int" where
  "count_lines P n [] = n"
| "count_lines P n (line # ls) = count_lines P (if P line then inc32 n else n) ls"

definition countPackageUpdates :: "string \<Rightarrow> int" where
  "countPackageUpdates output = count_lines counts_rpm 0 (scan_trimmed output)"

definition countAptPackageUpdates :: "string \<Rightarrow> int" where
  "countAptPackageUpdates output = count_lines counts_apt 0 (scan_trimmed output)"

section \<open>Collecting\<close>

text \<open>The comparison both collectors sort by.\<close>

definition package_less :: "Package \<Rightarrow> Package \<Rightarrow> bool" where
  "package_less a b =
     (if pkg_Name a \<noteq> pkg_Name b then pkg_Name a < pkg_Name b
      else if pkg_Arch a \<noteq> pkg_Arch b then pkg_Arch a < pkg_Arch b
      else if pkg_Version a \<noteq> pkg_Version b then pkg_Version a < pkg_Version b
      else if pkg_Release a \<noteq> pkg_Release b then pkg_Release a < pkg_Release b
      else if pkg_Nevra a \<noteq> pkg_Nevra b then pkg_Nevra a < pkg_Nevra b
      else pkg_Epoch a < pkg_Epoch b)"

definition rights :: "('e + 'a) list \<Rightarrow> 'a list" where
  "rights xs = List.map_filter (\<lambda>x. case x of Inl _ \<Rightarrow> None | Inr v \<Rightarrow> Some v) xs"

type_synonym sorter = "Package list \<Rightarrow> Package list"

definition collectInstalledRPMPackages :: "sorter \<Rightarrow> string option \<Rightarrow> agent_error + Package list" where
  "collectInstalledRPMPackages srt output =
     (case output of
        None \<Rightarrow> Inl CommandFailed
      | Some out \<Rightarrow> Inr (srt (rights (map parsePackageLine (scan_trimmed out)))))"

definition collectInstalledAPTPackages :: "sorter \<Rightarrow> string option \<Rightarrow> agent_error + Package list" where
  "collectInstalledAPTPackages srt output =
     (case output of
        None \<Rightarrow> Inl CommandFailed
      | Some out \<Rightarrow> Inr (srt (rights (map parseAptPackageLine (scan_trimmed out)))))"

definition CollectInstalledPackages :: "sorter \<Rightarrow> string option \<Rightarrow> OsFamily \<Rightarrow> agent_error + Package list" where
  "CollectInstalledPackages srt output osFamily =
     (case osFamily of
        OS_FAMILY_RPM \<Rightarrow> collectInstalledRPMPackages srt output
      | OS_FAMILY_APT \<Rightarrow> collectInstalledAPTPackages srt output
      | OS_FAMILY_UNSPECIFIED \<Rightarrow> Inl (UnsupportedOsFamily osFamily))"

text \<open>dnf exits with an error status when updates are available, so its result is only what it wrote.\<close>

definition collectUpgradableRPMPackages :: "string \<Rightarrow> Package list" where
  "collectUpgradableRPMPackages out = List.map_filter parseRpmUpgradableLine (scan_trimmed out)"

definition collectUpgradableAPTPackages :: "string option \<Rightarrow> Package list" where
  "collectUpgradableAPTPackages output =
     (case output of None \<Rightarrow> [] | Some out \<Rightarrow> List.map_filter parseAptUpgradableLine (scan_trimmed out))"

definition CollectUpgradablePackages :: "string \<Rightarrow> string option \<Rightarrow> OsFamily \<Rightarrow> agent_error + Package list" where
  "CollectUpgradablePackages dnf apt osFamily =
     (case osFamily of
        OS_FAMILY_RPM \<Rightarrow> Inr (collectUpgradableRPMPackages dnf)
      | OS_FAMILY_APT \<Rightarrow> Inr (collectUpgradableAPTPackages apt)
      | OS_FAMILY_UNSPECIFIED \<Rightarrow> Inl (UnsupportedOsFamily osFamily))"

definition collectAvailableRPMPackageUpdateCount :: "string \<Rightarrow> int" where
  "collectAvailableRPMPackageUpdateCount out = countPackageUpdates out"

definition collectAvailableAPTPackageUpdateCount :: "string option \<Rightarrow> int" where
  "collectAvailableAPTPackageUpdateCount output = (case output of None \<Rightarrow> 0 | Some out \<Rightarrow> countAptPackageUpdates out)"

definition CollectAvailablePackageUpdateCount :: "string \<Rightarrow> string option \<Rightarrow> OsFamily \<Rightarrow> agent_error + int" where
  "CollectAvailablePackageUpdateCount dnf apt osFamily =
     (case osFamily of
        OS_FAMILY_RPM \<Rightarrow> Inr (collectAvailableRPMPackageUpdateCount dnf)
      | OS_FAMILY_APT \<Rightarrow> Inr (collectAvailableAPTPackageUpdateCount apt)
      | OS_FAMILY_UNSPECIFIED \<Rightarrow> Inl (UnsupportedOsFamily osFamily))"

section \<open>The identifiers the server reads back\<close>

text \<open>The agent's parser of Debian versions is the server's.\<close>

lemma parseEpoch_server: "parseEpoch v = Inr n \<longleftrightarrow> parseDebianEpoch v = Inr n"
  by (auto simp: parseEpoch_def parseDebianEpoch_def Let_def split: option.splits)

lemma parseDebianVersion_server: "parseDebianVersion v = Inr r \<longleftrightarrow> parseDebianVersionParts v = Inr r"
proof -
  have "parseEpoch u = Inr n \<longleftrightarrow> parseDebianEpoch u = Inr n" for u n by (rule parseEpoch_server)
  then have ep: "(\<exists>e. parseEpoch u = Inl e \<and> (\<exists>e'. parseDebianEpoch u = Inl e')) \<or>
      (\<exists>n. parseEpoch u = Inr n \<and> parseDebianEpoch u = Inr n)" for u
    by (metis sum.exhaust)
  show ?thesis
  proof (cases "Index (TrimSpace v) '':''")
    case None
    then show ?thesis
      by (auto simp: parseDebianVersion_def parseDebianVersionParts_def Let_def split: option.splits if_splits)
  next
    case (Some i)
    show ?thesis
      using ep [of "take i (TrimSpace v)"] Some
      by (auto simp: parseDebianVersion_def parseDebianVersionParts_def Let_def split: option.splits if_splits)
  qed
qed

lemma parseEpoch_bounds: "parseEpoch v = Inr n \<Longrightarrow> - (2 ^ 31) \<le> n \<and> n < 2 ^ 31"
  using ParseInt_range [of 32] by (auto simp: parseEpoch_def Let_def split: if_splits option.splits)

lemma parseDebianVersion_bounds:
  "parseDebianVersion v = Inr (e, u, r) \<Longrightarrow> - (2 ^ 31) \<le> e \<and> e < 2 ^ 31"
  using parseEpoch_bounds
  by (fastforce simp: parseDebianVersion_def Let_def split: if_splits option.splits sum.splits prod.splits)

lemma parseDebianVersion_release: "parseDebianVersion v = Inr (e, u, r) \<Longrightarrow> CHR ''-'' \<notin> set r"
  by (fastforce simp: parseDebianVersion_def Let_def split: if_splits option.splits sum.splits prod.splits
      dest: LastIndex_single_SomeD)

lemma isDebianArchD: "isDebianArch a \<Longrightarrow> a \<noteq> [] \<and> CHR ''.'' \<notin> set a \<and> plain (last a)"
proof -
  have "list_all (\<lambda>a. a \<noteq> [] \<and> CHR ''.'' \<notin> set a \<and> plain (last a)) debian_archs" by code_simp
  then show "isDebianArch a \<Longrightarrow> ?thesis" by (simp add: list_all_iff isDebianArch_def)
qed

lemma Cut_single_append: "c \<notin> set a \<Longrightarrow> Cut (a @ c # b) [c] = Some (a, b)"
  by (simp add: Cut_def Index_single_append)

lemma epoch_of_prefix:
  assumes "0 \<le> e" "e < 2 ^ 31"
  shows "LastIndex (name @ ''-'' @ Itoa e) ''-'' = Some (length name)" "ParseInt 64 (Itoa e) = Some e"
  using assms LastIndex_single_append [of "CHR ''-''" "Itoa e" name] Itoa_no_dash ParseInt_Itoa [of 64 e] by auto

lemma split_at_last_dash:
  assumes "CHR ''-'' \<notin> set r" and "r \<noteq> [] \<or> CHR ''-'' \<notin> set v"
  shows "(case LastIndex (if r = [] then v else v @ ''-'' @ r) ''-'' of
      None \<Rightarrow> Inr \<lparr>evr_epoch = e, evr_version = if r = [] then v else v @ ''-'' @ r, evr_release = []\<rparr>
    | Some lastDash \<Rightarrow>
        Inr \<lparr>evr_epoch = e, evr_version = take lastDash (if r = [] then v else v @ ''-'' @ r),
             evr_release = drop (lastDash + 1) (if r = [] then v else v @ ''-'' @ r)\<rparr>) =
    Inr \<lparr>evr_epoch = e, evr_version = v, evr_release = r\<rparr>"
proof (cases "r = []")
  case True
  with assms have "LastIndex v ''-'' = None" by (simp add: LastIndex_single_None)
  with True show ?thesis by simp
next
  case False
  have "LastIndex (v @ ''-'' @ r) ''-'' = Some (length v)"
    using LastIndex_single_append [OF assms(1), of v] by simp
  with False show ?thesis by simp
qed

lemma parseDebianEVRFromNEVR_known_arch:
  assumes "TrimSpace s = body @ CHR ''.'' # arch" "isDebianArch arch" "Cut body '':'' = Some (before, vr)"
    "LastIndex before ''-'' = Some d" "ParseInt 64 (drop (Suc d) before) = Some e"
  shows "parseDebianEVRFromNEVR s =
     (case LastIndex vr ''-'' of
        None \<Rightarrow> Inr \<lparr>evr_epoch = e, evr_version = vr, evr_release = []\<rparr>
      | Some lastDash \<Rightarrow> Inr \<lparr>evr_epoch = e, evr_version = take lastDash vr, evr_release = drop (lastDash + 1) vr\<rparr>)"
proof -
  have "LastIndex (body @ CHR ''.'' # arch) ''.'' = Some (length body)"
    using isDebianArchD [OF assms(2)] by (intro LastIndex_single_append) simp
  with assms isDebianArchD [OF assms(2)] show ?thesis by (simp add: parseDebianEVRFromNEVR_def Let_def)
qed

lemma deb_identifier:
  assumes "name \<noteq> []" "plain (hd name)" "CHR '':'' \<notin> set name" "0 \<le> e" "e < 2 ^ 31" "isDebianArch arch"
    "CHR ''-'' \<notin> set r" "r \<noteq> [] \<or> CHR ''-'' \<notin> set v"
  shows "parseDebianEVRFromNEVR (formatPackageIdentifier name e v r arch) =
     Inr \<lparr>evr_epoch = e, evr_version = v, evr_release = r\<rparr>"
proof -
  note arch = isDebianArchD [OF assms(6)]
  let ?vr = "if r = [] then v else v @ ''-'' @ r"
  let ?before = "name @ ''-'' @ Itoa e"
  let ?body = "?before @ '':'' @ ?vr"
  have fmt: "formatPackageIdentifier name e v r arch = ?body @ CHR ''.'' # arch"
    using arch by (simp add: formatPackageIdentifier_def)
  have trim: "TrimSpace (?body @ CHR ''.'' # arch) = ?body @ CHR ''.'' # arch"
    using assms(1,2) arch by (intro TrimSpace_id trimmed_plain) auto
  have "CHR '':'' \<notin> set ?before" using assms(3) Itoa_no_colon by auto
  then have cut: "Cut ?body '':'' = Some (?before, ?vr)"
    using Cut_single_append [of "CHR '':''" ?before ?vr] by simp
  have "ParseInt 64 (drop (Suc (length name)) ?before) = Some e"
    using epoch_of_prefix(2) [OF assms(4,5)] by simp
  from parseDebianEVRFromNEVR_known_arch [OF trim assms(6) cut epoch_of_prefix(1) [OF assms(4,5)] this]
  show ?thesis unfolding fmt split_at_last_dash [OF assms(7,8)] .
qed

lemma rpm_identifier:
  assumes "name \<noteq> []" "plain (hd name)" "CHR '':'' \<notin> set name" "0 \<le> e" "e < 2 ^ 31" "v \<noteq> []"
    "CHR ''-'' \<notin> set ra" "ra \<noteq> []" "plain (last ra)"
  shows "parseEVRFromNEVR (name @ ''-'' @ Itoa e @ '':'' @ v @ ''-'' @ ra) =
     Inr \<lparr>evr_epoch = e, evr_version = v, evr_release = ra\<rparr>"
proof -
  let ?before = "name @ ''-'' @ Itoa e"
  define body where "body = ?before @ CHR '':'' # v"
  have s: "name @ ''-'' @ Itoa e @ '':'' @ v @ ''-'' @ ra = body @ CHR ''-'' # ra" by (simp add: body_def)
  have trim: "TrimSpace (body @ CHR ''-'' # ra) = body @ CHR ''-'' # ra"
    using assms(1,2,8,9) by (intro TrimSpace_id trimmed_plain) (auto simp: body_def)
  have dash: "LastIndex (body @ CHR ''-'' # ra) ''-'' = Some (length body)"
    using assms(7) by (rule LastIndex_single_append)
  have "CHR '':'' \<notin> set ?before" using assms(3) Itoa_no_colon by auto
  then have colon: "Index body '':'' = Some (length ?before)" unfolding body_def by (rule Index_single_append)
  have parts: "take (length ?before) body = ?before" "drop (Suc (length ?before)) body = v" "body \<noteq> []"
    by (simp_all add: body_def)
  have "ParseInt 64 (drop (Suc (length name)) ?before) = Some e" using epoch_of_prefix(2) [OF assms(4,5)] by simp
  then show ?thesis
    unfolding s using trim dash colon parts epoch_of_prefix(1) [OF assms(4,5), of name] assms(6,8)
    by (simp add: parseEVRFromNEVR_def Let_def del: length_append append_Cons append_assoc append.simps)
qed

lemma parsePackageLine_Inr:
  assumes "parsePackageLine line = Inr p"
  shows "pkg_Nevra p = pkg_Name p @ ''-'' @ Itoa (pkg_Epoch p) @ '':'' @ pkg_Version p @ ''-'' @ pkg_Release p @ ''.'' @ pkg_Arch p"
    and "- (2 ^ 31) \<le> pkg_Epoch p \<and> pkg_Epoch p < 2 ^ 31"
  using assms parseEpoch_bounds by (auto simp: parsePackageLine_def split: list.splits sum.splits)

lemma parseAptPackageLine_Inr:
  assumes "parseAptPackageLine line = Inr p"
  obtains field where "field \<in> set (Split1 line (CHR ''|''))"
    "parseDebianVersion (TrimSpace field) = Inr (pkg_Epoch p, pkg_Version p, pkg_Release p)"
    "pkg_Name p \<noteq> []" "trimmed (pkg_Name p)"
    "pkg_Nevra p = formatPackageIdentifier (pkg_Name p) (pkg_Epoch p) (pkg_Version p) (pkg_Release p) (pkg_Arch p)"
proof -
  obtain a b c d e where f: "Split1 line (CHR ''|'') = [a, b, c, d, e]"
    using assms by (auto simp: parseAptPackageLine_def split: list.splits)
  then have a: "TrimSpace a \<noteq> []" using assms by (auto simp: parseAptPackageLine_def Let_def)
  then obtain ep v r where v: "parseDebianVersion (TrimSpace b) = Inr (ep, v, r)"
    using assms f by (cases "parseDebianVersion (TrimSpace b)") (auto simp: parseAptPackageLine_def Let_def)
  show thesis using that [of b] assms a v f by (auto simp: parseAptPackageLine_def Let_def)
qed

text \<open>The identifier the agent composes for an installed RPM package is read back by the server: from the
  name-epoch:version-release.arch form \<open>parseEVRFromNEVR\<close> recovers the epoch, the version and, with the
  architecture attached, the release, whatever dashes the name has, provided that the name has no colon, the
  release and architecture no dash and the epoch is not negative.\<close>

theorem parsePackageLine_nevra:
  assumes "parsePackageLine line = Inr p"
    and "pkg_Name p \<noteq> []" "plain (hd (pkg_Name p))" "CHR '':'' \<notin> set (pkg_Name p)"
    and "0 \<le> pkg_Epoch p" "pkg_Version p \<noteq> []" "CHR ''-'' \<notin> set (pkg_Release p @ pkg_Arch p)"
    and "pkg_Arch p \<noteq> []" "plain (last (pkg_Arch p))"
  shows "parseEVRFromNEVR (pkg_Nevra p) =
     Inr \<lparr>evr_epoch = pkg_Epoch p, evr_version = pkg_Version p, evr_release = pkg_Release p @ ''.'' @ pkg_Arch p\<rparr>"
  using rpm_identifier [of "pkg_Name p" "pkg_Epoch p" "pkg_Version p" "pkg_Release p @ ''.'' @ pkg_Arch p"]
    parsePackageLine_Inr [OF assms(1)] assms(2-9) by simp

theorem parsePackageLine_nevra_witness:
  "\<exists>p. parsePackageLine ''openssl-libs|1|3.0.7|27.el9|x86_64|openssl-3.0.7-27.el9.src.rpm|Rocky'' = Inr p \<and>
     parseEVRFromNEVR (pkg_Nevra p) = Inr \<lparr>evr_epoch = 1, evr_version = ''3.0.7'', evr_release = ''27.el9.x86_64''\<rparr>"
proof -
  let ?line = "''openssl-libs|1|3.0.7|27.el9|x86_64|openssl-3.0.7-27.el9.src.rpm|Rocky''"
  let ?p = "\<lparr>pkg_Name = ''openssl-libs'', pkg_Epoch = 1, pkg_Version = ''3.0.7'', pkg_Release = ''27.el9'', pkg_Arch = ''x86_64'',
    pkg_SourceRpm = ''openssl-3.0.7-27.el9.src.rpm'', pkg_Vendor = ''Rocky'', pkg_RepoOrigin = [],
    pkg_Nevra = ''openssl-libs-1:3.0.7-27.el9.x86_64''\<rparr>"
  have p: "parsePackageLine ?line = Inr ?p" by code_simp
  have "plain (CHR ''o'')" "plain (CHR ''4'')" by code_simp+
  then have "parseEVRFromNEVR (pkg_Nevra ?p) =
     Inr \<lparr>evr_epoch = pkg_Epoch ?p, evr_version = pkg_Version ?p, evr_release = pkg_Release ?p @ ''.'' @ pkg_Arch ?p\<rparr>"
    by (intro parsePackageLine_nevra [OF p]) simp_all
  with p show ?thesis by (intro exI [of _ ?p]) simp
qed



section \<open>The collected lists\<close>

definition package_key :: "Package \<Rightarrow> string \<times> string \<times> string \<times> string \<times> string \<times> int" where
  "package_key p = (pkg_Name p, pkg_Arch p, pkg_Version p, pkg_Release p, pkg_Nevra p, pkg_Epoch p)"

lemma package_less_key: "package_less a b \<longleftrightarrow> package_key a < package_key b"
  by (auto simp: package_less_def package_key_def)

interpretation package_order: slice_less package_less
  by (rule slice_less_key [OF package_less_key])

definition installed_lines :: "OsFamily \<Rightarrow> string \<Rightarrow> Package list" where
  "installed_lines fam out =
     rights (map (if fam = OS_FAMILY_RPM then parsePackageLine else parseAptPackageLine) (scan_trimmed out))"

lemma set_rights: "v \<in> set (rights xs) \<longleftrightarrow> Inr v \<in> set xs"
  by (force simp: rights_def List.map_filter_def split: sum.splits)

lemma CollectInstalledPackages_Some:
  "CollectInstalledPackages srt (Some out) fam =
     (if fam = OS_FAMILY_UNSPECIFIED then Inl (UnsupportedOsFamily fam) else Inr (srt (installed_lines fam out)))"
  by (cases fam) (simp_all add: CollectInstalledPackages_def collectInstalledRPMPackages_def
      collectInstalledAPTPackages_def installed_lines_def)

text \<open>The installed packages of a snapshot are exactly the packages of the lines that parse, a line that does
  not parse costs no other line, and they are ordered by name, architecture, version, release, identifier and
  epoch; two sorting routines that only agree on the comparison give lists that agree in all of these.\<close>

theorem CollectInstalledPackages_spec:
  assumes "slice_sorts package_less srt" and "slice_sorts package_less srt'" and "fam \<noteq> OS_FAMILY_UNSPECIFIED"
  shows "\<exists>ps qs. CollectInstalledPackages srt (Some out) fam = Inr ps \<and> CollectInstalledPackages srt' (Some out) fam = Inr qs \<and>
     map package_key ps = map package_key qs \<and> sorted (map package_key ps) \<and>
     mset ps = mset (installed_lines fam out) \<and>
     (\<forall>p. p \<in> set ps \<longleftrightarrow> (\<exists>line \<in> set (scan_trimmed out).
        (if fam = OS_FAMILY_RPM then parsePackageLine else parseAptPackageLine) line = Inr p))"
proof -
  let ?ps = "srt (installed_lines fam out)" and ?qs = "srt' (installed_lines fam out)"
  have "map package_key ?ps = map package_key ?qs"
    by (rule sorted_keys_unique [OF package_less_key]) (simp_all add: slice_sortsD [OF assms(1)] slice_sortsD [OF assms(2)])
  moreover have "sorted (map package_key ?ps)"
    using slice_sortsD(2) [OF assms(1)] less_sorted_key [of package_less package_key] package_less_key by blast
  moreover have "p \<in> set ?ps \<longleftrightarrow> (\<exists>line \<in> set (scan_trimmed out).
      (if fam = OS_FAMILY_RPM then parsePackageLine else parseAptPackageLine) line = Inr p)" for p
    unfolding slice_sortsD(3) [OF assms(1)] installed_lines_def set_rights by (metis image_iff set_map)
  ultimately show ?thesis
    using assms(3) slice_sortsD(1) [OF assms(1)] by (simp add: CollectInstalledPackages_Some)
qed

theorem CollectInstalledPackages_spec_witness:
  "\<exists>ps. CollectInstalledPackages (insertion_sort package_less) (Some ''zlib|1.3-1|amd64||'') OS_FAMILY_APT = Inr ps \<and>
     sorted (map package_key ps)"
  using CollectInstalledPackages_spec [OF package_order.insertion_sort_sorts package_order.insertion_sort_sorts,
      of OS_FAMILY_APT "''zlib|1.3-1|amd64||''"] by auto

lemma length_scan_trimmed: "length (scan_trimmed s) \<le> Suc (length s)"
proof -
  have "length (Split1 s d) \<le> Suc (length s)" for d by (induction s d rule: Split1.induct) (auto split: list.splits)
  moreover have "length (scan_lines s) \<le> length (Split1 s (CHR 0x0A))"
    unfolding scan_lines_def Let_def by (auto intro: le_trans [OF length_takeWhile_le])
  moreover have "length (scan_trimmed s) \<le> length (scan_lines s)"
    unfolding scan_trimmed_def by (metis length_filter_le length_map)
  ultimately show ?thesis by (meson le_trans)
qed

lemma count_lines_filter:
  "0 \<le> n \<Longrightarrow> n + int (length ls) < 2 ^ 31 \<Longrightarrow> count_lines P n ls = n + int (length (filter P ls))"
  by (induction ls arbitrary: n) (auto simp: inc32_small)

lemma Contains_single: "Contains s [c] \<longleftrightarrow> c \<in> set s"
  by (simp add: Contains_def Index_single_None)

lemma length_map_filter_le:
  "(\<And>x. f x \<noteq> None \<Longrightarrow> P x) \<Longrightarrow> length (List.map_filter f xs) \<le> length (filter P xs)"
  by (induction xs) (auto simp: List.map_filter_def)

lemma set_fields_aux: "f \<in> set (fields_aux cur s) \<Longrightarrow> set f \<subseteq> set cur \<union> set s"
proof (induction cur s arbitrary: f rule: fields_aux.induct)
  case (2 cur c s)
  show ?case
  proof (cases "enc_len spaces (c # s) = 0")
    case True
    with 2 show ?thesis by fastforce
  next
    case False
    have "set (drop (enc_len spaces (c # s)) (c # s)) \<subseteq> set (c # s)" by (rule set_drop_subset)
    moreover have "f = rev cur \<or> f \<in> set (fields_aux [] (drop (enc_len spaces (c # s)) (c # s)))"
      using False 2(3) by (simp only: fields_aux.simps if_False) (auto split: if_splits)
    ultimately show ?thesis using 2(2) [OF False] by auto
  qed
qed (auto split: if_splits)

lemma set_Fields: "f \<in> set (Fields s) \<Longrightarrow> set f \<subseteq> set s"
  using set_fields_aux [of f "[]" s] by (simp add: Fields_def)

lemma parseAptUpgradableLine_counted: "parseAptUpgradableLine line \<noteq> None \<Longrightarrow> counts_apt line"
proof -
  assume "parseAptUpgradableLine line \<noteq> None"
  then have *: "\<not> is_apt_notice line" "Contains line ''[upgradable from:''"
    and "\<exists>nameField name repoOrigin. nameField \<in> set (Fields line) \<and> Cut nameField ''/'' = Some (name, repoOrigin)"
    by (auto simp: parseAptUpgradableLine_def split: if_splits list.splits option.splits)
  then obtain f where "f \<in> set (Fields line)" "Index f ''/'' \<noteq> None" by (auto simp: Cut_def)
  then have "CHR ''/'' \<in> set f" "set f \<subseteq> set line" using set_Fields by (auto simp: Index_single_None)
  then have "CHR ''/'' \<in> set line" by blast
  with * show ?thesis by (simp add: counts_apt_def Contains_single)
qed

text \<open>The two ways the agent has of counting available updates on a Debian host agree in one direction: it
  never lists more upgradable packages than \<open>countAptPackageUpdates\<close> counts in the same output, as long as
  the output has fewer than \<open>2 ^ 31\<close> lines and the counter cannot wrap.\<close>

theorem upgradable_counted:
  assumes "length (scan_trimmed out) < 2 ^ 31"
  shows "int (length (collectUpgradableAPTPackages (Some out))) \<le> countAptPackageUpdates out \<and>
    countAptPackageUpdates out \<le> int (length (scan_trimmed out))"
proof -
  have "countAptPackageUpdates out = int (length (filter counts_apt (scan_trimmed out)))"
    using assms count_lines_filter [of 0 "scan_trimmed out" counts_apt] by (simp add: countAptPackageUpdates_def)
  then show ?thesis
    using length_map_filter_le [of parseAptUpgradableLine counts_apt "scan_trimmed out"] parseAptUpgradableLine_counted
    by (simp add: collectUpgradableAPTPackages_def)
qed

theorem upgradable_counted_witness:
  "int (length (collectUpgradableAPTPackages (Some ''curl/stable 7.88-2 amd64 [upgradable from: 7.88-1]''))) \<le>
     countAptPackageUpdates ''curl/stable 7.88-2 amd64 [upgradable from: 7.88-1]''"
proof -
  have "length (scan_trimmed ''curl/stable 7.88-2 amd64 [upgradable from: 7.88-1]'') < 2 ^ 31"
    by (rule le_less_trans [OF length_scan_trimmed]) simp
  then show ?thesis using upgradable_counted by blast
qed

end
