(* ===== verification/Agent_Repos.thy ===== *)
theory Agent_Repos
  imports Agent_Packages Package_Keys
begin

text \<open>
  The repository collector of the agent, \<open>agent/internal/collector/repos.go\<close>: the .repo files of dnf and yum and
  the one-line and deb822 source files of apt are read into the repository list of a snapshot. The file system
  is a parameter with the two operations the code uses, listing a directory and reading a file, each
  \<open>None\<close> when it fails; the order of a range over a map and the sorting routine are parameters too.
\<close>

section \<open>The dnf and yum files\<close>

record file_system =
  fs_names :: "string \<Rightarrow> string list option"
  fs_read :: "string \<Rightarrow> string option"

record repoDraft =
  draft_repoID :: string
  draft_enabled :: bool
  draft_repoLabel :: string
  draft_baseurl :: string
  draft_metalink :: string
  draft_mirrorlist :: string

definition new_draft :: "string \<Rightarrow> repoDraft" where
  "new_draft repoID = \<lparr>draft_repoID = repoID, draft_enabled = False, draft_repoLabel = [], draft_baseurl = [],
     draft_metalink = [], draft_mirrorlist = []\<rparr>"

definition toProto :: "repoDraft \<Rightarrow> Repo" where
  "toProto d = \<lparr>repo_RepoId = draft_repoID d, repo_Enabled = draft_enabled d, repo_RepoLabel = draft_repoLabel d,
     repo_Baseurl = draft_baseurl d, repo_Metalink = draft_metalink d, repo_Mirrorlist = draft_mirrorlist d\<rparr>"

definition containsRepoID :: "Repo list \<Rightarrow> string \<Rightarrow> bool" where
  "containsRepoID repos repoID \<longleftrightarrow> list_ex (\<lambda>r. repo_RepoId r = repoID) repos"

definition isTruthy :: "string \<Rightarrow> bool" where
  "isTruthy value \<longleftrightarrow> ToLower value \<in> {''1'', ''true'', ''yes''}"

definition trim_commas :: "string \<Rightarrow> string" where
  "trim_commas s = rev (dropWhile (\<lambda>c. c = CHR '','') (rev (dropWhile (\<lambda>c. c = CHR '','') s)))"

fun first_url :: "string list \<Rightarrow> string" where
  "first_url [] = []"
| "first_url (piece # ps) =
     (let p = trim_commas piece in
      if HasPrefix p ''http://'' \<or> HasPrefix p ''https://'' then p else first_url ps)"

definition firstLiteralURL :: "string \<Rightarrow> string" where
  "firstLiteralURL value = (if Contains value ''$'' then [] else first_url (Fields value))"

definition stripQuotes :: "string \<Rightarrow> string" where
  "stripQuotes value =
     (if 2 \<le> length value \<and> (hd value = CHR 0x22 \<and> last value = CHR 0x22 \<or> hd value = CHR 0x27 \<and> last value = CHR 0x27)
      then butlast (tl value) else value)"

text \<open>The end of a section: its draft is kept when it is enabled, named, and new in this file.\<close>

definition close_section :: "repoDraft option \<Rightarrow> Repo list \<Rightarrow> Repo list" where
  "close_section current repos =
     (case current of
        None \<Rightarrow> repos
      | Some d \<Rightarrow>
          if draft_enabled d \<and> draft_repoID d \<noteq> [] \<and> \<not> containsRepoID repos (draft_repoID d) then repos @ [toProto d] else repos)"

definition set_option :: "string \<Rightarrow> string \<Rightarrow> repoDraft \<Rightarrow> repoDraft" where
  "set_option key value d =
     (if key = ''enabled'' then d\<lparr>draft_enabled := isTruthy value\<rparr>
      else if key = ''name'' then d\<lparr>draft_repoLabel := value\<rparr>
      else if key = ''baseurl'' then d\<lparr>draft_baseurl := firstLiteralURL value\<rparr>
      else if key = ''metalink'' then d\<lparr>draft_metalink := firstLiteralURL value\<rparr>
      else if key = ''mirrorlist'' then d\<lparr>draft_mirrorlist := firstLiteralURL value\<rparr>
      else d)"

definition repo_line :: "string \<Rightarrow> Repo list \<times> repoDraft option \<Rightarrow> Repo list \<times> repoDraft option" where
  "repo_line line st =
     (let (repos, current) = st in
      if hd line = CHR ''#'' \<or> hd line = CHR '';'' then (repos, current)
      else if hd line = CHR ''['' \<and> last line = CHR '']''
        then (close_section current repos, Some (new_draft (butlast (tl line))))
      else case current of
          None \<Rightarrow> (repos, None)
        | Some d \<Rightarrow>
            (case Index line ''='' of
               None \<Rightarrow> (repos, Some d)
             | Some idx \<Rightarrow>
                 (repos, Some (set_option (TrimSpace (take idx line)) (stripQuotes (TrimSpace (drop (idx + 1) line))) d))))"

definition parseRepoFile :: "string \<Rightarrow> Repo list" where
  "parseRepoFile contents =
     (let (repos, current) = fold repo_line (scan_trimmed contents) ([], None) in close_section current repos)"

definition repo_less :: "Repo \<Rightarrow> Repo \<Rightarrow> bool" where
  "repo_less a b \<longleftrightarrow> repo_RepoId a < repo_RepoId b"

definition directory_repos :: "file_system \<Rightarrow> string \<Rightarrow> Repo list" where
  "directory_repos fs dirPath =
     (case fs_names fs dirPath of
        None \<Rightarrow> []
      | Some entries \<Rightarrow>
          concat (map (\<lambda>name. if HasSuffix name ''.repo''
                     then case fs_read fs (dirPath @ ''/'' @ name) of None \<Rightarrow> [] | Some data \<Rightarrow> parseRepoFile data
                     else []) entries))"

definition collectEnabledRPMRepos :: "(Repo list \<Rightarrow> Repo list) \<Rightarrow> file_system \<Rightarrow> Repo list" where
  "collectEnabledRPMRepos srt fs = srt (concat (map (directory_repos fs) [''/etc/yum.repos.d'', ''/etc/dnf/repos.d'']))"

section \<open>The apt files\<close>

definition parseAptListLine :: "string \<Rightarrow> (string \<times> string \<times> string list) option" where
  "parseAptListLine line =
     (let line' = TrimSpace line in
      if \<not> HasPrefix line' ''deb '' then None
      else
        let remainder = TrimSpace (TrimPrefix line' ''deb '');
            after = (if HasPrefix remainder ''[''
                     then case Index remainder '']'' of
                         None \<Rightarrow> None
                       | Some closing \<Rightarrow>
                           if length remainder \<le> closing + 1 then None else Some (TrimSpace (drop (closing + 1) remainder))
                     else Some remainder)
        in case after of
            None \<Rightarrow> None
          | Some rest \<Rightarrow>
              (case Fields rest of uri # suite # components \<Rightarrow> Some (uri, suite, components) | _ \<Rightarrow> None))"

definition apt_repo :: "string \<Rightarrow> string \<Rightarrow> string \<Rightarrow> string list \<Rightarrow> Repo" where
  "apt_repo repoID uri suite components =
     \<lparr>repo_RepoId = repoID, repo_Enabled = True,
      repo_RepoLabel = (if components \<noteq> [] then suite @ '' '' @ Join components '' '' else suite),
      repo_Baseurl = uri, repo_Metalink = [], repo_Mirrorlist = []\<rparr>"

fun apt_list_lines :: "string \<Rightarrow> int \<Rightarrow> string list \<Rightarrow> Repo list" where
  "apt_list_lines source lineNo [] = []"
| "apt_list_lines source lineNo (raw # ls) =
     (let n = lineNo + 1; line = TrimSpace raw; rest = apt_list_lines source n ls in
      if line = [] \<or> HasPrefix line ''#'' then rest
      else if HasPrefix line ''deb-src '' then rest
      else if \<not> HasPrefix line ''deb '' then rest
      else case parseAptListLine line of
          None \<Rightarrow> rest
        | Some (uri, suite, components) \<Rightarrow> apt_repo (source @ '':'' @ Itoa n) uri suite components # rest)"

definition parseAptListFile :: "string \<Rightarrow> string \<Rightarrow> Repo list" where
  "parseAptListFile contents source = apt_list_lines source 0 (scan_lines contents)"

definition isAptSourcesBlockEnabled :: "(string \<rightharpoonup> string) \<Rightarrow> bool" where
  "isAptSourcesBlockEnabled values =
     (case values ''enabled'' of
        None \<Rightarrow> True
      | Some value \<Rightarrow> ToLower (TrimSpace value) \<in> {''1'', ''yes'', ''true''})"

definition containsToken :: "string list \<Rightarrow> string \<Rightarrow> bool" where
  "containsToken tokens needle \<longleftrightarrow> list_ex (\<lambda>t. t = needle) tokens"

definition block_value :: "(string \<rightharpoonup> string) \<Rightarrow> string \<Rightarrow> string" where
  "block_value block key = (case block key of None \<Rightarrow> [] | Some v \<Rightarrow> v)"

fun number_repos :: "string \<Rightarrow> int \<Rightarrow> int \<Rightarrow> string list \<Rightarrow> (string \<times> string) list \<Rightarrow> Repo list" where
  "number_repos source start i components [] = []"
| "number_repos source start i components ((uri, suite) # ps) =
     apt_repo (source @ '':'' @ Itoa start @ '':'' @ Itoa i) uri suite components #
     number_repos source start (i + 1) components ps"

text \<open>\<open>flush\<close>: the repositories of the block read so far.\<close>

definition flush_block :: "string \<Rightarrow> int \<Rightarrow> (string \<rightharpoonup> string) option \<Rightarrow> Repo list" where
  "flush_block source blockStartLine block =
     (case block of
        None \<Rightarrow> []
      | Some b \<Rightarrow>
          if \<not> isAptSourcesBlockEnabled b then []
          else
            let types = Fields (ToLower (block_value b ''types'')) in
            if types = [] \<or> \<not> containsToken types ''deb'' then []
            else
              let uris = Fields (block_value b ''uris''); suites = Fields (block_value b ''suites'');
                  components = Fields (block_value b ''components'')
              in if uris = [] \<or> suites = [] then []
                 else number_repos source blockStartLine 0 components
                        (concat (map (\<lambda>uri. map (\<lambda>suite. (uri, suite)) suites) uris)))"

fun apt_sources_lines :: "string \<Rightarrow> int \<Rightarrow> int \<Rightarrow> (string \<rightharpoonup> string) option \<Rightarrow> string list \<Rightarrow> Repo list" where
  "apt_sources_lines source lineNo start block [] = flush_block source start block"
| "apt_sources_lines source lineNo start block (raw # ls) =
     (let n = lineNo + 1; line = TrimSpace raw in
      if line = [] then flush_block source start block @ apt_sources_lines source n start None ls
      else if HasPrefix line ''#'' then apt_sources_lines source n start block ls
      else
        let start' = (if block = None then n else start);
            b = (case block of None \<Rightarrow> Map.empty | Some b \<Rightarrow> b)
        in case Index line '':'' of
            None \<Rightarrow> apt_sources_lines source n start' (Some b) ls
          | Some idx \<Rightarrow>
              apt_sources_lines source n start'
                (Some (b(ToLower (TrimSpace (take idx line)) \<mapsto> TrimSpace (drop (idx + 1) line)))) ls)"

definition parseAptSourcesFile :: "string \<Rightarrow> string \<Rightarrow> Repo list" where
  "parseAptSourcesFile contents source = apt_sources_lines source 0 0 None (scan_lines contents)"

definition mustReadFile :: "file_system \<Rightarrow> string \<Rightarrow> string" where
  "mustReadFile fs path = (case fs_read fs path of None \<Rightarrow> [] | Some data \<Rightarrow> data)"

definition apt_source_repos :: "file_system \<Rightarrow> string \<Rightarrow> Repo list" where
  "apt_source_repos fs name =
     (let path = ''/etc/apt/sources.list.d/'' @ name; data = mustReadFile fs path in
      if data = [] then []
      else if HasSuffix name ''.list'' then parseAptListFile data path
      else if HasSuffix name ''.sources'' then parseAptSourcesFile data path
      else [])"

definition apt_repos :: "(string list \<Rightarrow> string list) \<Rightarrow> file_system \<Rightarrow> Repo list" where
  "apt_repos srt_strings fs =
     parseAptListFile (mustReadFile fs ''/etc/apt/sources.list'') ''/etc/apt/sources.list'' @
     (case fs_names fs ''/etc/apt/sources.list.d'' of
        None \<Rightarrow> []
      | Some entries \<Rightarrow> concat (map (apt_source_repos fs) (srt_strings entries)))"

text \<open>\<open>repoByID\<close> keeps the first enabled repository of each identifier, and the range over it visits the
  identifiers in the order \<open>r\<close>.\<close>

definition repoByID :: "Repo list \<Rightarrow> string \<rightharpoonup> Repo" where
  "repoByID repos = fold (\<lambda>repo m.
     if repo_RepoId repo = [] \<or> \<not> repo_Enabled repo then m
     else if m (repo_RepoId repo) \<noteq> None then m else m(repo_RepoId repo \<mapsto> repo)) repos Map.empty"

definition repo_ids :: "Repo list \<Rightarrow> string list" where
  "repo_ids repos = remdups (map repo_RepoId (filter (\<lambda>repo. repo_RepoId repo \<noteq> [] \<and> repo_Enabled repo) repos))"

definition collectEnabledAPTRepos ::
  "(string list \<Rightarrow> string list) \<Rightarrow> (string list \<Rightarrow> string list) \<Rightarrow> (Repo list \<Rightarrow> Repo list) \<Rightarrow> file_system \<Rightarrow> Repo list" where
  "collectEnabledAPTRepos srt_strings r srt fs =
     (let repos = apt_repos srt_strings fs in
      srt (map (\<lambda>repoID. the (repoByID repos repoID)) (r (repo_ids repos))))"

definition CollectEnabledRepos ::
  "(string list \<Rightarrow> string list) \<Rightarrow> (string list \<Rightarrow> string list) \<Rightarrow> (Repo list \<Rightarrow> Repo list) \<Rightarrow> file_system \<Rightarrow> OsFamily \<Rightarrow>
   agent_error + Repo list" where
  "CollectEnabledRepos srt_strings r srt fs osFamily =
     (case osFamily of
        OS_FAMILY_RPM \<Rightarrow> Inr (collectEnabledRPMRepos srt fs)
      | OS_FAMILY_APT \<Rightarrow> Inr (collectEnabledAPTRepos srt_strings r srt fs)
      | OS_FAMILY_UNSPECIFIED \<Rightarrow> Inl (UnsupportedOsFamily osFamily))"

section \<open>Sections of a .repo file\<close>

interpretation repo_order: slice_less repo_less
  by (rule slice_less_key [of _ repo_RepoId]) (simp add: repo_less_def)

text \<open>What every list of repositories of one file satisfies.\<close>

definition repos_inv :: "Repo list \<Rightarrow> bool" where
  "repos_inv repos \<longleftrightarrow> distinct (map repo_RepoId repos) \<and> (\<forall>repo \<in> set repos. repo_Enabled repo \<and> repo_RepoId repo \<noteq> [])"

lemma close_section_inv: "repos_inv repos \<Longrightarrow> repos_inv (close_section current repos)"
  by (auto simp: close_section_def repos_inv_def toProto_def containsRepoID_def list_ex_iff split: option.splits)

lemma repo_line_inv: "repos_inv (fst st) \<Longrightarrow> repos_inv (fst (repo_line line st))"
  using close_section_inv by (auto simp: repo_line_def Let_def split: prod.splits option.splits if_splits)

lemma parseRepoFile_inv: "repos_inv (parseRepoFile contents)"
proof -
  have "repos_inv (fst (fold repo_line ls st))" if "repos_inv (fst st)" for ls st
    using that by (induction ls arbitrary: st) (auto simp: repo_line_inv)
  moreover have "repos_inv (fst ([], None :: repoDraft option))" by (simp add: repos_inv_def)
  ultimately have "repos_inv (fst (fold repo_line (scan_trimmed contents) ([], None)))" by blast
  then show ?thesis by (simp add: parseRepoFile_def split_beta close_section_inv)
qed

section \<open>Identifiers of apt repositories\<close>

lemma Itoa_inj: "Itoa m = Itoa n \<Longrightarrow> m = n"
proof -
  assume eq: "Itoa m = Itoa n"
  let ?b = "Suc (nat \<bar>m\<bar> + nat \<bar>n\<bar>)"
  have big: "int (nat \<bar>m\<bar> + nat \<bar>n\<bar>) < 2 ^ (?b - 1)" using less_exp [of "nat \<bar>m\<bar> + nat \<bar>n\<bar>"] by (metis diff_Suc_1 of_nat_less_iff of_nat_numeral of_nat_power)
  have "ParseInt ?b (Itoa m) = Some m" "ParseInt ?b (Itoa n) = Some n"
    using big by (intro ParseInt_Itoa; linarith)+
  with eq show "m = n" by (metis option.inject)
qed

lemma apt_repo_simps [simp]:
  "repo_RepoId (apt_repo i u s c) = i" "repo_Enabled (apt_repo i u s c)"
  by (simp_all add: apt_repo_def)

lemma apt_list_ids:
  "\<exists>ns. map repo_RepoId (apt_list_lines source k ls) = map (\<lambda>n. source @ '':'' @ Itoa n) ns \<and> sorted_wrt (<) ns \<and> (\<forall>n \<in> set ns. k < n)"
proof (induction ls arbitrary: k)
  case (Cons raw ls)
  from Cons [of "k + 1"] obtain ns where
    ns: "map repo_RepoId (apt_list_lines source (k + 1) ls) = map (\<lambda>n. source @ '':'' @ Itoa n) ns"
      "sorted_wrt (<) ns" "\<forall>n \<in> set ns. k + 1 < n"
    by blast
  have "map repo_RepoId (apt_list_lines source k (raw # ls)) \<in>
      {map (\<lambda>n. source @ '':'' @ Itoa n) ns, map (\<lambda>n. source @ '':'' @ Itoa n) ((k + 1) # ns)}"
    using ns(1) by (auto simp: Let_def split: option.splits)
  moreover have "sorted_wrt (<) ((k + 1) # ns)" "\<forall>n \<in> set ((k + 1) # ns). k < n" using ns by auto
  moreover have "\<forall>n \<in> set ns. k < n" using ns(3) by auto
  ultimately show ?case using ns(2) by blast
qed auto

lemma number_repos_ids:
  "map repo_RepoId (number_repos source start i components ps) =
     map (\<lambda>j. source @ '':'' @ Itoa start @ '':'' @ Itoa (i + int j)) [0..<length ps]"
proof (induction source start i components ps rule: number_repos.induct)
  case (2 source start i components uri suite ps)
  have "[0..<length ((uri, suite) # ps)] = 0 # map Suc [0..<length ps]"
    by (simp add: map_Suc_upt upt_conv_Cons del: upt_Suc)
  with 2 show ?case by (simp add: comp_def algebra_simps)
qed simp

definition source_id :: "string \<Rightarrow> int \<times> int \<Rightarrow> string" where
  "source_id source p = source @ '':'' @ Itoa (fst p) @ '':'' @ Itoa (snd p)"

lemma source_id_inj: "source_id source p = source_id source q \<Longrightarrow> p = q"
proof -
  assume "source_id source p = source_id source q"
  then have "Itoa (fst p) @ CHR '':'' # Itoa (snd p) = Itoa (fst q) @ CHR '':'' # Itoa (snd q)"
    by (simp add: source_id_def)
  then have "Split1 (Itoa (fst p) @ CHR '':'' # Itoa (snd p)) (CHR '':'') = Split1 (Itoa (fst q) @ CHR '':'' # Itoa (snd q)) (CHR '':'')"
    by simp
  then have "Itoa (fst p) = Itoa (fst q)" "Itoa (snd p) = Itoa (snd q)"
    by (simp_all add: Split1_append Split1_no_sep Itoa_no_colon)
  then show "p = q" by (simp add: Itoa_inj prod_eq_iff)
qed

lemma flush_block_ids:
  "\<exists>n. map repo_RepoId (flush_block source start block) = map (\<lambda>j. source_id source (start, int j)) [0..<n]"
proof -
  have "\<exists>comps ps. flush_block source start block = number_repos source start 0 comps ps"
    unfolding flush_block_def Let_def by (cases block) (auto intro: exI [of _ "[]"] number_repos.simps(1) [symmetric])
  then show ?thesis by (auto simp: number_repos_ids source_id_def)
qed

lemma flush_block_pairs:
  "\<exists>ps. map repo_RepoId (flush_block source start block) = map (source_id source) ps \<and> distinct ps \<and> (\<forall>p \<in> set ps. fst p = start)"
proof -
  obtain n where "map repo_RepoId (flush_block source start block) = map (\<lambda>j. source_id source (start, int j)) [0..<n]"
    using flush_block_ids by blast
  then have "map repo_RepoId (flush_block source start block) = map (source_id source) (map (\<lambda>j. (start, int j)) [0..<n])"
    by (simp add: comp_def)
  moreover have "distinct (map (\<lambda>j. (start, int j)) [0..<n])" by (simp add: distinct_map inj_on_def)
  ultimately show ?thesis by (metis (no_types, lifting) ex_map_conv fst_conv)
qed

definition fresh_pairs :: "int \<Rightarrow> int \<Rightarrow> (string \<rightharpoonup> string) option \<Rightarrow> (int \<times> int) list \<Rightarrow> bool" where
  "fresh_pairs k start block ps \<longleftrightarrow> distinct ps \<and> (\<forall>p \<in> set ps. k < fst p \<or> block \<noteq> None \<and> fst p = start)"

lemma apt_sources_ids:
  "block \<noteq> None \<longrightarrow> start \<le> k \<Longrightarrow>
     \<exists>ps. map repo_RepoId (apt_sources_lines source k start block ls) = map (source_id source) ps \<and> fresh_pairs k start block ps"
proof (induction ls arbitrary: k start block)
  case Nil
  show ?case
  proof (cases block)
    case None
    then show ?thesis by (auto simp: flush_block_def fresh_pairs_def intro: exI [of _ "[]"])
  next
    case (Some b)
    with flush_block_pairs [of source start block] show ?thesis by (auto simp: fresh_pairs_def)
  qed
next
  case (Cons raw ls)
  let ?line = "TrimSpace raw" and ?n = "k + 1"
  consider (blank) "?line = []" | (comment) "?line \<noteq> []" "HasPrefix ?line ''#''"
    | (data) "?line \<noteq> []" "\<not> HasPrefix ?line ''#''" by blast
  then show ?case
  proof cases
    case blank
    obtain ps where ps: "map repo_RepoId (flush_block source start block) = map (source_id source) ps" "distinct ps"
        "\<forall>p \<in> set ps. fst p = start" using flush_block_pairs by blast
    obtain qs where qs: "map repo_RepoId (apt_sources_lines source ?n start None ls) = map (source_id source) qs"
        "fresh_pairs ?n start None qs" using Cons.IH [of None start ?n] by auto
    have "block = None \<Longrightarrow> ps = []" using ps(1) by (simp add: flush_block_def)
    then have "fresh_pairs k start block (ps @ qs)"
      using ps(2,3) qs(2) Cons.prems by (fastforce simp: fresh_pairs_def)
    then show ?thesis using blank ps(1) qs(1) by (intro exI [of _ "ps @ qs"]) simp
  next
    case comment
    obtain qs where "map repo_RepoId (apt_sources_lines source ?n start block ls) = map (source_id source) qs"
        "fresh_pairs ?n start block qs" using Cons.IH [of block start ?n] Cons.prems by force
    then show ?thesis using comment by (intro exI [of _ qs]) (auto simp: fresh_pairs_def Let_def)
  next
    case data
    let ?start = "if block = None then ?n else start"
    obtain b where b: "apt_sources_lines source k start block (raw # ls) = apt_sources_lines source ?n ?start (Some b) ls"
      using data by (cases "Index ?line '':''") (auto simp: Let_def)
    have "?start \<le> ?n" using Cons.prems by auto
    then obtain qs where qs: "map repo_RepoId (apt_sources_lines source ?n ?start (Some b) ls) = map (source_id source) qs"
        "fresh_pairs ?n ?start (Some b) qs" using Cons.IH [of "Some b" ?start ?n] by blast
    then have "fresh_pairs k start block qs" by (auto simp: fresh_pairs_def split: if_splits)
    then show ?thesis unfolding b using qs(1) by blast
  qed
qed

text \<open>Within one apt source file, in the one-line or in the deb822 format, no two repositories get the same
  identifier, so the merge by identifier drops none of them; all of them are enabled.\<close>

theorem apt_file_ids_distinct:
  "distinct (map repo_RepoId (parseAptListFile contents source)) \<and>
   distinct (map repo_RepoId (parseAptSourcesFile contents source))"
proof
  obtain ns where ns: "map repo_RepoId (parseAptListFile contents source) = map (\<lambda>n. source @ '':'' @ Itoa n) ns" "sorted_wrt (<) ns"
    using apt_list_ids unfolding parseAptListFile_def by meson
  have "distinct ns" using ns(2) by (simp add: strict_sorted_iff)
  then show "distinct (map repo_RepoId (parseAptListFile contents source))"
    unfolding ns(1) by (auto simp: distinct_map inj_on_def dest: Itoa_inj)
  obtain ps where ps: "map repo_RepoId (parseAptSourcesFile contents source) = map (source_id source) ps" "distinct ps"
    using apt_sources_ids [of None 0 0 source "scan_lines contents"] by (auto simp: parseAptSourcesFile_def fresh_pairs_def)
  show "distinct (map repo_RepoId (parseAptSourcesFile contents source))"
    unfolding ps(1) using ps(2) by (auto simp: distinct_map inj_on_def dest: source_id_inj)
qed

section \<open>The collected repositories\<close>

definition listed :: "Repo \<Rightarrow> bool" where
  "listed repo \<longleftrightarrow> repo_RepoId repo \<noteq> [] \<and> repo_Enabled repo"

definition keep_first :: "Repo \<Rightarrow> (string \<rightharpoonup> Repo) \<Rightarrow> (string \<rightharpoonup> Repo)" where
  "keep_first repo m =
     (if repo_RepoId repo = [] \<or> \<not> repo_Enabled repo then m
      else if m (repo_RepoId repo) \<noteq> None then m else m(repo_RepoId repo \<mapsto> repo))"

lemma repoByID_fold: "repoByID repos = fold keep_first repos Map.empty"
  by (simp add: repoByID_def keep_first_def [abs_def])

lemma keep_first_lookup:
  "fold keep_first repos m k = Some repo \<Longrightarrow> m k = Some repo \<or> repo \<in> set repos \<and> listed repo \<and> repo_RepoId repo = k"
  by (induction repos arbitrary: m) (fastforce simp: keep_first_def listed_def split: if_splits)+

lemma keep_first_dom: "dom (fold keep_first repos m) = dom m \<union> repo_RepoId ` {repo \<in> set repos. listed repo}"
proof (induction repos arbitrary: m)
  case (Cons repo repos)
  have "dom (keep_first repo m) = dom m \<union> (if listed repo then {repo_RepoId repo} else {})"
    by (auto simp: keep_first_def listed_def dom_def)
  with Cons [of "keep_first repo m"] show ?case by auto
qed simp

lemma set_repo_ids: "set (repo_ids repos) = repo_RepoId ` {repo \<in> set repos. listed repo}" "distinct (repo_ids repos)"
  by (auto simp: repo_ids_def listed_def)

lemma repoByID_Some:
  assumes "k \<in> set (repo_ids repos)"
  obtains repo where "repoByID repos k = Some repo" "repo \<in> set repos" "listed repo" "repo_RepoId repo = k"
proof -
  have "k \<in> dom (repoByID repos)" using assms by (simp add: set_repo_ids repoByID_fold keep_first_dom)
  then obtain repo where "repoByID repos k = Some repo" by blast
  then show thesis using that keep_first_lookup [of repos Map.empty k repo] by (auto simp: repoByID_fold)
qed

definition merged :: "Repo list \<Rightarrow> (string list \<Rightarrow> string list) \<Rightarrow> Repo list" where
  "merged repos r = map (\<lambda>repoID. the (repoByID repos repoID)) (r (repo_ids repos))"

lemma merged_props:
  assumes "range_ok r"
  shows "map repo_RepoId (merged repos r) = r (repo_ids repos)"
    and "repo \<in> set (merged repos r) \<Longrightarrow> repo \<in> set repos \<and> listed repo"
    and "set (merged repos r) = (\<lambda>k. the (repoByID repos k)) ` set (repo_ids repos)"
proof -
  have r: "set (r (repo_ids repos)) = set (repo_ids repos)" using range_ok_set [OF assms set_repo_ids(2)] .
  have one: "repo_RepoId (the (repoByID repos k)) = k \<and> the (repoByID repos k) \<in> set repos \<and> listed (the (repoByID repos k))"
    if "k \<in> set (repo_ids repos)" for k
    using that by (rule repoByID_Some) simp
  show "map repo_RepoId (merged repos r) = r (repo_ids repos)"
    unfolding merged_def map_map by (rule map_idI) (use one r in simp)
  show "repo \<in> set (merged repos r) \<Longrightarrow> repo \<in> set repos \<and> listed repo"
    using one r by (auto simp: merged_def)
  show "set (merged repos r) = (\<lambda>k. the (repoByID repos k)) ` set (repo_ids repos)"
    using r by (simp add: merged_def)
qed

lemma merged_order:
  assumes "range_ok r" "range_ok r'" "slice_sorts repo_less srt" "slice_sorts repo_less srt'"
  shows "srt (merged repos r) = srt' (merged repos r')"
proof -
  have d: "distinct (map repo_RepoId (merged repos q))" if "range_ok q" for q
    using that set_repo_ids(2) by (simp add: merged_props(1) range_ok_def)
  have "distinct (merged repos r)" "distinct (merged repos r')" using d assms(1,2) distinct_map by blast+
  then have "mset (merged repos r) = mset (merged repos r')"
    using merged_props(3) [OF assms(1), of repos] merged_props(3) [OF assms(2), of repos] by (metis set_eq_iff_mset_eq_distinct)
  then have perm: "mset (srt (merged repos r)) = mset (srt' (merged repos r'))"
    by (simp add: slice_sortsD(1) [OF assms(3)] slice_sortsD(1) [OF assms(4)])
  have "mset (map repo_RepoId (srt (merged repos r))) = mset (map repo_RepoId (merged repos r))"
    by (simp add: slice_sortsD(1) [OF assms(3)])
  then have "distinct (map repo_RepoId (srt (merged repos r)))" using d [OF assms(1)] by (metis mset_eq_imp_distinct_iff)
  then show ?thesis
    by (intro sorted_slice_unique [OF repo_less_def perm slice_sortsD(2) [OF assms(3)] slice_sortsD(2) [OF assms(4)]])
qed

lemma sort_strings_unique:
  fixes xs :: "string list"
  assumes "slice_sorts (<) srt" "slice_sorts (<) srt'"
  shows "srt xs = srt' xs"
proof -
  have "map id (srt xs) = map id (srt' xs)"
    by (rule sorted_keys_unique [of "(<)"]) (simp_all add: slice_sortsD [OF assms(1)] slice_sortsD [OF assms(2)])
  then show ?thesis by simp
qed

lemma collectEnabledAPTRepos_merged:
  "collectEnabledAPTRepos ss r srt fs = srt (merged (apt_repos ss fs) r)"
  by (simp add: collectEnabledAPTRepos_def merged_def Let_def)

text \<open>The apt repositories of a snapshot do not depend on the order in which Go ranges over the map that
  merges them nor on the sorting routines; they are in strictly increasing order of their identifiers, each of
  them enabled, named and read from a source file, and every identifier of an enabled repository that was read
  is among them.\<close>

theorem collectEnabledAPTRepos_spec:
  assumes "range_ok r" "range_ok r'" "slice_sorts repo_less srt" "slice_sorts repo_less srt'"
    and "slice_sorts (<) ss" "slice_sorts (<) ss'"
  shows "collectEnabledAPTRepos ss r srt fs = collectEnabledAPTRepos ss' r' srt' fs \<and>
    sorted_wrt (<) (map repo_RepoId (collectEnabledAPTRepos ss r srt fs)) \<and>
    (\<forall>repo \<in> set (collectEnabledAPTRepos ss r srt fs).
       repo \<in> set (apt_repos ss fs) \<and> repo_Enabled repo \<and> repo_RepoId repo \<noteq> []) \<and>
    (\<forall>repo \<in> set (apt_repos ss fs). repo_Enabled repo \<longrightarrow> repo_RepoId repo \<noteq> [] \<longrightarrow>
       repo_RepoId repo \<in> repo_RepoId ` set (collectEnabledAPTRepos ss r srt fs))"
proof -
  let ?m = "merged (apt_repos ss fs) r"
  have "ss = ss'" using sort_strings_unique [OF assms(5,6)] by blast
  then have same: "collectEnabledAPTRepos ss r srt fs = collectEnabledAPTRepos ss' r' srt' fs"
    using merged_order [OF assms(1-4)] by (simp add: collectEnabledAPTRepos_merged)
  have set: "set (srt ?m) = set ?m" by (rule slice_sortsD(3) [OF assms(3)])
  have ids: "repo_RepoId ` set ?m = set (repo_ids (apt_repos ss fs))"
    using merged_props(1) [OF assms(1)] range_ok_set [OF assms(1) set_repo_ids(2)] by (metis set_map)
  have "mset (map repo_RepoId (srt ?m)) = mset (r (repo_ids (apt_repos ss fs)))"
    using merged_props(1) [OF assms(1)] slice_sortsD(1) [OF assms(3)] by (metis mset_map)
  then have "distinct (map repo_RepoId (srt ?m))"
    using assms(1) set_repo_ids(2) by (metis mset_eq_imp_distinct_iff range_ok_def)
  moreover have "sorted (map repo_RepoId (srt ?m))"
    using slice_sortsD(2) [OF assms(3)] less_sorted_key [of repo_less repo_RepoId] repo_less_def by blast
  ultimately have "sorted_wrt (<) (map repo_RepoId (srt ?m))" by (simp add: strict_sorted_iff)
  moreover have "\<forall>repo \<in> set (srt ?m). repo \<in> set (apt_repos ss fs) \<and> repo_Enabled repo \<and> repo_RepoId repo \<noteq> []"
    using merged_props(2) [OF assms(1)] set by (auto simp: listed_def)
  moreover have "\<forall>repo \<in> set (apt_repos ss fs). repo_Enabled repo \<longrightarrow> repo_RepoId repo \<noteq> [] \<longrightarrow>
      repo_RepoId repo \<in> repo_RepoId ` set (srt ?m)"
    unfolding set ids by (auto simp: set_repo_ids listed_def)
  ultimately show ?thesis using same unfolding collectEnabledAPTRepos_merged by blast
qed

definition sample_fs :: file_system where
  "sample_fs = \<lparr>fs_names = Map.empty, fs_read = [''/etc/apt/sources.list'' \<mapsto> ''deb http://deb.debian.org/debian bookworm main'']\<rparr>"

lemma string_sort_sorts: "slice_sorts (<) (insertion_sort ((<) :: string \<Rightarrow> string \<Rightarrow> bool))"
  by (rule slice_less.insertion_sort_sorts, rule slice_less_key [of _ id]) simp

theorem collectEnabledAPTRepos_spec_witness:
  "sorted_wrt (<) (map repo_RepoId (collectEnabledAPTRepos (insertion_sort (<)) rev (insertion_sort repo_less) sample_fs))"
  using collectEnabledAPTRepos_spec [OF range_ok_rev range_ok_id repo_order.insertion_sort_sorts
      repo_order.insertion_sort_sorts string_sort_sorts string_sort_sorts] by blast

text \<open>The dnf and yum repositories are sorted, enabled and named; a file contributes an identifier once.\<close>

lemma collectEnabledRPMRepos_props:
  assumes "slice_sorts repo_less srt"
  shows "sorted (map repo_RepoId (collectEnabledRPMRepos srt fs))"
    and "repo \<in> set (collectEnabledRPMRepos srt fs) \<Longrightarrow> repo_Enabled repo \<and> repo_RepoId repo \<noteq> []"
proof -
  show "sorted (map repo_RepoId (collectEnabledRPMRepos srt fs))"
    unfolding collectEnabledRPMRepos_def
    using slice_sortsD(2) [OF assms] less_sorted_key [of repo_less repo_RepoId] repo_less_def by blast
  have "repo_Enabled repo \<and> repo_RepoId repo \<noteq> []" if "repo \<in> set (directory_repos fs d)" for d
    using that parseRepoFile_inv by (auto simp: directory_repos_def repos_inv_def split: option.splits if_splits)
  then show "repo \<in> set (collectEnabledRPMRepos srt fs) \<Longrightarrow> repo_Enabled repo \<and> repo_RepoId repo \<noteq> []"
    by (auto simp: collectEnabledRPMRepos_def slice_sortsD(3) [OF assms])
qed

end
