(* ===== verification/Decision_Items.thy ===== *)
theory Decision_Items
  imports Data_Model
begin

text \<open>
  The view of a decision that the API returns, \<open>internal/api/v1/entities/packages_helper.go\<close>: a row of
  \<open>ListDecisionPageRowsBySnapshot\<close> becomes a \<open>DecisionItem\<close> with labels, tones and readable builds. A column
  that the driver returns as an interface value is a \<open>sql_value\<close>; decoding the JSON of the CVE column is a
  parameter. The CVSS score, a floating-point number, is left out, and case mapping is exact on ASCII text.
\<close>

section \<open>Rows and items\<close>

datatype sql_value = SqlString string | SqlBytes string | SqlOption "string option" | SqlOther string

record decision_row =
  row_AdvisoryID :: string
  row_PackageName :: string
  row_InstalledNevra :: "string option"
  row_FixedNevra :: "string option"
  row_Status :: string
  row_Action :: string
  row_Severity :: sql_value
  row_EvidenceTier :: string
  row_ReasonCode :: string
  row_ReasonText :: "string option"
  row_ComputedAt :: string
  row_AdvisorySummary :: "string option"
  row_AdvisoryIsSecurity :: bool
  row_AdvisorySourceUrl :: "string option"
  row_AdvisorySourceSystem :: string
  row_AdvisoryUpdatedAt :: "string option"
  row_Cves :: "sql_value option"

record CVEInfo =
  cve_ID :: string
  cve_URL :: string

record DecisionItem =
  di_AdvisoryID :: string
  di_Title :: string
  di_FamilyLabel :: string
  di_PackageName :: string
  di_InstalledNevra :: string
  di_FixedNevra :: string
  di_PackageStateLabel :: string
  di_PackageStateTone :: string
  di_PackageStateIcon :: string
  di_SeverityLabel :: string
  di_SeverityTone :: string
  di_StatusLabel :: string
  di_ActionLabel :: string
  di_ActionTone :: string
  di_EvidenceTier :: string
  di_ReasonText :: string
  di_ComputedAt :: string
  di_AdvisorySourceSystem :: string
  di_AdvisoryURL :: string
  di_AdvisoryUpdatedAt :: string
  di_CVEs :: "CVEInfo list"

section \<open>Text helpers\<close>

definition upper_char :: "char \<Rightarrow> char" where
  "upper_char c = (if 97 \<le> byte c \<and> byte c \<le> 122 then char_of (byte c - 32) else c)"

definition ToUpper :: "string \<Rightarrow> string" where
  "ToUpper s = map upper_char s"

definition underscores_to_blanks :: "string \<Rightarrow> string" where
  "underscores_to_blanks s = map (\<lambda>c. if c = CHR ''_'' then CHR '' '' else c) s"

definition fallback :: "string \<Rightarrow> string \<Rightarrow> string" where
  "fallback value fallbackValue = (if TrimSpace value = [] then fallbackValue else value)"

definition displayTimestampPriority :: "string \<Rightarrow> string \<Rightarrow> string" where
  "displayTimestampPriority primary fallbackValue = (if TrimSpace primary \<noteq> [] then primary else fallbackValue)"

definition startsWithDigit :: "string \<Rightarrow> bool" where
  "startsWithDigit value \<longleftrightarrow> (case value of [] \<Rightarrow> False | first # _ \<Rightarrow> 48 \<le> byte first \<and> byte first \<le> 57)"

section \<open>Families and builds\<close>

definition isKernelPackageName :: "string \<Rightarrow> bool" where
  "isKernelPackageName name \<longleftrightarrow>
     (let t = TrimSpace name in
      t \<noteq> [] \<and> (HasPrefix t ''linux-'' \<or> t = ''kernel'' \<or> HasPrefix t ''kernel-''))"

text \<open>The part before the first dash-separated piece, other than the first, that starts with a digit.\<close>

fun version_index :: "nat \<Rightarrow> string list \<Rightarrow> nat option" where
  "version_index index [] = None"
| "version_index index (part # parts) =
     (if index \<noteq> 0 \<and> startsWithDigit part then Some index else version_index (Suc index) parts)"

definition sourceRPMName :: "string \<Rightarrow> string" where
  "sourceRPMName value =
     (let t = TrimSuffix (TrimSuffix (TrimSpace value) ''.src.rpm'') ''.nosrc.rpm'' in
      if t = [] then []
      else let parts = Split1 t (CHR ''-'') in
        case version_index 0 parts of Some index \<Rightarrow> Join (take index parts) ''-'' | None \<Rightarrow> t)"

definition packageFamilyLabel :: "string \<Rightarrow> string \<Rightarrow> string" where
  "packageFamilyLabel packageName sourceRPM =
     (let name = TrimSpace packageName; sourcePackage = sourceRPMName sourceRPM in
      if isKernelPackageName name then ''kernel''
      else if sourcePackage \<noteq> [] then if isKernelPackageName sourcePackage then ''kernel'' else sourcePackage
      else if name = [] then ''packages''
      else hd (Split1 name (CHR ''-'')))"

definition displayRPMIdentifier :: "string \<Rightarrow> string" where
  "displayRPMIdentifier value =
     (let t = TrimSpace value in
      if t = [] then ''unknown''
      else case CutPrefix t ''0:'' of
          Some after \<Rightarrow> after
        | None \<Rightarrow>
            (case Index t ''-0:'' of
               None \<Rightarrow> t
             | Some index \<Rightarrow> if index = 0 then t else take (index + 1) t @ drop (index + 3) t))"

definition known_archs :: "string list" where
  "known_archs = [''x86_64'', ''aarch64'', ''noarch'', ''ppc64le'', ''s390x'', ''armv7hl'', ''i686'', ''amd64'', ''arm64'',
     ''armel'', ''armhf'', ''i386'', ''mips64el'', ''mipsel'', ''powerpc'', ''ppc64el'', ''riscv64'', ''loong64'', ''alpha'',
     ''hppa'', ''ia64'', ''m68k'', ''sh4'', ''sparc64'', ''x32'', ''sparc'', ''ppc64'', ''mips'', ''mips64'', ''all'', ''any'',
     ''binary'', ''source'']"

definition isKnownArch :: "string \<Rightarrow> bool" where
  "isKnownArch value \<longleftrightarrow> ToLower value \<in> set known_archs"

definition displayPackageBuild :: "string \<Rightarrow> string \<Rightarrow> string" where
  "displayPackageBuild packageName value =
     (let t = displayRPMIdentifier value in
      if t = ''unknown'' then t
      else
        let name = TrimSpace packageName;
            u = (if name \<noteq> [] \<and> HasPrefix t (name @ ''-'') then TrimPrefix t (name @ ''-'') else t)
        in case LastIndex u ''.'' of
            None \<Rightarrow> u
          | Some lastDot \<Rightarrow>
              if lastDot = 0 then u
              else if \<not> isKnownArch (drop (lastDot + 1) u) then u
              else take lastDot u)"

definition displayNullablePackageBuild :: "string \<Rightarrow> string option \<Rightarrow> string \<Rightarrow> string" where
  "displayNullablePackageBuild packageName value fallbackValue =
     (case value of None \<Rightarrow> fallbackValue | Some v \<Rightarrow> displayPackageBuild packageName v)"

section \<open>Labels\<close>

definition view_normalizeSeverity :: "string \<Rightarrow> string" where
  "view_normalizeSeverity value =
     (let n = ToLower (TrimSpace value) in
      if n = ''high'' then ''important'' else if n = ''medium'' then ''moderate'' else n)"

definition severityLabel :: "string \<Rightarrow> string" where
  "severityLabel severity =
     (let n = view_normalizeSeverity severity in
      if n = [] then ''Unknown'' else ToUpper (take 1 n) @ ToLower (drop 1 n))"

definition severityTone :: "string \<Rightarrow> string" where
  "severityTone severity =
     (let n = view_normalizeSeverity severity in
      if n = ''critical'' then ''danger'' else if n = ''important'' then ''warn''
      else if n = ''moderate'' then ''info'' else if n = ''low'' then ''ok'' else ''muted'')"

definition severityPriorityLabel :: "string \<Rightarrow> int" where
  "severityPriorityLabel label =
     (let n = view_normalizeSeverity label in
      if n = ''critical'' then 4 else if n = ''important'' then 3
      else if n = ''moderate'' then 2 else if n = ''low'' then 1 else 0)"

definition actionLabel :: "string \<Rightarrow> bool \<Rightarrow> string" where
  "actionLabel action found =
     (if \<not> found then ''Investigate''
      else if action = ''reboot_host'' then ''Reboot required''
      else if action = ''restart_service'' then ''Service restart''
      else if action = ''update_package'' then ''Update available''
      else if action = ''investigate'' then ''Investigate''
      else if action = ''none'' then ''Clear''
      else underscores_to_blanks action)"

definition actionPriorityLabel :: "string \<Rightarrow> int" where
  "actionPriorityLabel label =
     (if label = ''Reboot required'' then 4 else if label = ''Service restart'' then 3
      else if label = ''Update available'' then 2 else if label = ''Investigate'' then 1 else 0)"

definition actionTone :: "string \<Rightarrow> bool \<Rightarrow> string" where
  "actionTone action found =
     (if \<not> found then ''muted''
      else if action = ''reboot_host'' then ''danger'' else if action = ''restart_service'' then ''warn''
      else if action = ''update_package'' then ''info'' else if action = ''none'' then ''ok'' else ''muted'')"

definition packageStateLabel :: "string \<Rightarrow> string \<Rightarrow> string" where
  "packageStateLabel status action =
     (if action = ''reboot_host'' then ''Reboot required'' else if action = ''restart_service'' then ''Service restart''
      else if action = ''investigate'' then ''Investigate''
      else if status = ''affected_fix_available'' then ''Fix available''
      else if status = ''affected_no_fix'' then ''No fix available'' else ''Update available'')"

definition packageStateTone :: "string \<Rightarrow> string \<Rightarrow> string" where
  "packageStateTone status action =
     (if action = ''reboot_host'' then ''danger'' else if action = ''restart_service'' then ''warn''
      else if action = ''investigate'' then ''muted''
      else if status = ''affected_no_fix'' then ''warn'' else ''info'')"

definition packageStateIcon :: "string \<Rightarrow> string \<Rightarrow> string" where
  "packageStateIcon status action =
     (if action = ''reboot_host'' then ''fa-solid fa-power-off'' else if action = ''restart_service'' then ''fa-solid fa-rotate''
      else if action = ''investigate'' then ''fa-solid fa-circle-question''
      else if status = ''affected_no_fix'' then ''fa-solid fa-ban''
      else if status = ''affected_fix_available'' then ''fa-solid fa-wrench'' else ''fa-solid fa-bolt'')"

definition evidenceTierLabel :: "string \<Rightarrow> string" where
  "evidenceTierLabel value =
     (let n = TrimSpace (underscores_to_blanks value) in if n = [] then [] else ToUpper (take 1 n) @ drop 1 n)"

definition advisorySourceLabel :: "string \<Rightarrow> string" where
  "advisorySourceLabel value =
     (let t = TrimSpace value in
      if t = ''alma_errata_json'' then ''AlmaLinux'' else if t = ''rocky_errata_api'' then ''Rocky''
      else if t = ''redhat_csaf'' then ''Red Hat''
      else let n = TrimSpace (underscores_to_blanks value) in if n = [] then [] else ToUpper (take 1 n) @ drop 1 n)"

definition statusLabel :: "string \<Rightarrow> string" where
  "statusLabel status = underscores_to_blanks status"

text \<open>\<open>unmarshal data\<close> is what decoding \<open>data\<close> leaves in the slice of CVEs; a value of another type is first
  marshalled, and \<open>SqlOther\<close> holds the result.\<close>

definition row_severity :: "decision_row \<Rightarrow> string" where
  "row_severity row =
     (case row_Severity row of SqlString s \<Rightarrow> s | SqlBytes s \<Rightarrow> s | SqlOption v \<Rightarrow> UnwrapOr v [] | SqlOther _ \<Rightarrow> [])"

definition row_cves :: "(string \<Rightarrow> CVEInfo list) \<Rightarrow> (string option \<Rightarrow> string) \<Rightarrow> decision_row \<Rightarrow> CVEInfo list" where
  "row_cves unmarshal marshal row =
     (case row_Cves row of
        None \<Rightarrow> []
      | Some v \<Rightarrow>
          let data = (case v of SqlBytes s \<Rightarrow> s | SqlString s \<Rightarrow> s | SqlOther s \<Rightarrow> s | SqlOption w \<Rightarrow> marshal w)
          in if data \<noteq> [] then unmarshal data else [])"

definition MapDecisionRow ::
  "(string \<Rightarrow> CVEInfo list) \<Rightarrow> (string option \<Rightarrow> string) \<Rightarrow> decision_row \<Rightarrow> (string \<rightharpoonup> string) \<Rightarrow> DecisionItem" where
  "MapDecisionRow unmarshal marshal row sourceRPMs =
     (let severity = row_severity row; sourceRPM = UnwrapOr (sourceRPMs (row_PackageName row)) [] in
      \<lparr>di_AdvisoryID = row_AdvisoryID row,
       di_Title = fallback (UnwrapOr (row_AdvisorySummary row) []) (row_AdvisoryID row),
       di_FamilyLabel = packageFamilyLabel (row_PackageName row) sourceRPM,
       di_PackageName = row_PackageName row,
       di_InstalledNevra = displayNullablePackageBuild (row_PackageName row) (row_InstalledNevra row) ''not captured'',
       di_FixedNevra = displayNullablePackageBuild (row_PackageName row) (row_FixedNevra row) ''no fixed package recorded'',
       di_PackageStateLabel = packageStateLabel (row_Status row) (row_Action row),
       di_PackageStateTone = packageStateTone (row_Status row) (row_Action row),
       di_PackageStateIcon = packageStateIcon (row_Status row) (row_Action row),
       di_SeverityLabel = severityLabel severity, di_SeverityTone = severityTone severity,
       di_StatusLabel = statusLabel (row_Status row),
       di_ActionLabel = actionLabel (row_Action row) True, di_ActionTone = actionTone (row_Action row) True,
       di_EvidenceTier = evidenceTierLabel (row_EvidenceTier row),
       di_ReasonText = fallback (UnwrapOr (row_ReasonText row) []) (row_ReasonCode row),
       di_ComputedAt = row_ComputedAt row,
       di_AdvisorySourceSystem = advisorySourceLabel (row_AdvisorySourceSystem row),
       di_AdvisoryURL = UnwrapOr (row_AdvisorySourceUrl row) [],
       di_AdvisoryUpdatedAt = UnwrapOr (row_AdvisoryUpdatedAt row) [],
       di_CVEs = row_cves unmarshal marshal row\<rparr>)"

end
