(* ===== verification/Decision_Groups.thy ===== *)
theory Decision_Groups
  imports Decision_Items Go_Slices
begin

text \<open>
  Grouping of the decisions shown for a host (\<open>GroupDecisionsByRemediation\<close> of
  \<open>internal/api/v1/entities/packages_helper.go\<close>) and the risk of a kernel (\<open>BuildKernelRiskView\<close> of
  \<open>kernel.go\<close>). A group belongs to a package family, and has a group of items for each advisory; the index of
  a family's advisories is kept beside its group. The three uses of \<open>sort.Slice\<close> are parameters.
\<close>

section \<open>Groups\<close>

record DecisionAdvisoryGroup =
  dag_AdvisoryID :: string
  dag_Title :: string
  dag_SeverityLabel :: string
  dag_SeverityTone :: string
  dag_ActionLabel :: string
  dag_ActionTone :: string
  dag_EvidenceTier :: string
  dag_ComputedAt :: string
  dag_AdvisorySourceSystem :: string
  dag_AdvisoryURL :: string
  dag_AdvisoryUpdatedAt :: string
  dag_CVEs :: "CVEInfo list"
  dag_PackageCount :: int
  dag_Items :: "DecisionItem list"

record DecisionGroup =
  dg_FamilyLabel :: string
  dg_SeverityLabel :: string
  dg_SeverityTone :: string
  dg_ActionLabel :: string
  dg_ActionTone :: string
  dg_LatestUpdatedAt :: string
  dg_AdvisoryCount :: int
  dg_PackageCount :: int
  dg_Advisories :: "DecisionAdvisoryGroup list"

definition new_group :: "DecisionItem \<Rightarrow> DecisionGroup" where
  "new_group item = \<lparr>dg_FamilyLabel = di_FamilyLabel item, dg_SeverityLabel = di_SeverityLabel item,
     dg_SeverityTone = di_SeverityTone item, dg_ActionLabel = di_ActionLabel item, dg_ActionTone = di_ActionTone item,
     dg_LatestUpdatedAt = fallback (di_AdvisoryUpdatedAt item) (di_ComputedAt item), dg_AdvisoryCount = 0,
     dg_PackageCount = 0, dg_Advisories = []\<rparr>"

definition new_advisory :: "DecisionItem \<Rightarrow> DecisionAdvisoryGroup" where
  "new_advisory item = \<lparr>dag_AdvisoryID = di_AdvisoryID item, dag_Title = di_Title item,
     dag_SeverityLabel = di_SeverityLabel item, dag_SeverityTone = di_SeverityTone item,
     dag_ActionLabel = di_ActionLabel item, dag_ActionTone = di_ActionTone item, dag_EvidenceTier = di_EvidenceTier item,
     dag_ComputedAt = di_ComputedAt item, dag_AdvisorySourceSystem = di_AdvisorySourceSystem item,
     dag_AdvisoryURL = di_AdvisoryURL item, dag_AdvisoryUpdatedAt = di_AdvisoryUpdatedAt item, dag_CVEs = di_CVEs item,
     dag_PackageCount = 0, dag_Items = []\<rparr>"

definition raise_group :: "DecisionItem \<Rightarrow> DecisionGroup \<Rightarrow> DecisionGroup" where
  "raise_group item g0 =
     (let g1 = g0\<lparr>dg_PackageCount := dg_PackageCount g0 + 1\<rparr>;
          g2 = (if actionPriorityLabel (di_ActionLabel item) > actionPriorityLabel (dg_ActionLabel g1)
                then g1\<lparr>dg_ActionLabel := di_ActionLabel item, dg_ActionTone := di_ActionTone item\<rparr> else g1);
          g3 = (if severityPriorityLabel (di_SeverityLabel item) > severityPriorityLabel (dg_SeverityLabel g2)
                then g2\<lparr>dg_SeverityLabel := di_SeverityLabel item, dg_SeverityTone := di_SeverityTone item\<rparr> else g2)
      in if displayTimestampPriority (di_AdvisoryUpdatedAt item) (di_ComputedAt item) > displayTimestampPriority (dg_LatestUpdatedAt g3) []
         then g3\<lparr>dg_LatestUpdatedAt := fallback (di_AdvisoryUpdatedAt item) (di_ComputedAt item)\<rparr> else g3)"

definition raise_advisory :: "DecisionItem \<Rightarrow> DecisionAdvisoryGroup \<Rightarrow> DecisionAdvisoryGroup" where
  "raise_advisory item a0 =
     (let a1 = a0\<lparr>dag_Items := dag_Items a0 @ [item], dag_PackageCount := dag_PackageCount a0 + 1\<rparr>;
          a2 = (if actionPriorityLabel (di_ActionLabel item) > actionPriorityLabel (dag_ActionLabel a1)
                then a1\<lparr>dag_ActionLabel := di_ActionLabel item, dag_ActionTone := di_ActionTone item\<rparr> else a1)
      in if severityPriorityLabel (di_SeverityLabel item) > severityPriorityLabel (dag_SeverityLabel a2)
         then a2\<lparr>dag_SeverityLabel := di_SeverityLabel item, dag_SeverityTone := di_SeverityTone item\<rparr> else a2)"

definition group_item :: "DecisionItem \<Rightarrow> DecisionGroup \<times> (string \<rightharpoonup> nat) \<Rightarrow> DecisionGroup \<times> (string \<rightharpoonup> nat)" where
  "group_item item st =
     (let (g, index) = st;
          g1 = raise_group item g;
          (advs, index') = upsert di_AdvisoryID new_advisory raise_advisory item (dg_Advisories g1, index);
          n = (if index (di_AdvisoryID item) = None then dg_AdvisoryCount g1 + 1 else dg_AdvisoryCount g1)
      in (g1\<lparr>dg_Advisories := advs, dg_AdvisoryCount := n\<rparr>, index'))"

definition advisory_less :: "DecisionAdvisoryGroup \<Rightarrow> DecisionAdvisoryGroup \<Rightarrow> bool" where
  "advisory_less left right =
     (let leftSeverity = severityPriorityLabel (dag_SeverityLabel left); rightSeverity = severityPriorityLabel (dag_SeverityLabel right) in
      if leftSeverity \<noteq> rightSeverity then leftSeverity > rightSeverity
      else
        let leftUpdated = displayTimestampPriority (dag_AdvisoryUpdatedAt left) (dag_ComputedAt left);
            rightUpdated = displayTimestampPriority (dag_AdvisoryUpdatedAt right) (dag_ComputedAt right)
        in if leftUpdated \<noteq> rightUpdated then leftUpdated > rightUpdated
           else dag_AdvisoryID left < dag_AdvisoryID right)"

definition item_less :: "DecisionItem \<Rightarrow> DecisionItem \<Rightarrow> bool" where
  "item_less left right =
     (if di_PackageName left \<noteq> di_PackageName right then di_PackageName left < di_PackageName right
      else di_InstalledNevra left < di_InstalledNevra right)"

definition group_less :: "DecisionGroup \<Rightarrow> DecisionGroup \<Rightarrow> bool" where
  "group_less left right =
     (let leftAction = actionPriorityLabel (dg_ActionLabel left); rightAction = actionPriorityLabel (dg_ActionLabel right) in
      if leftAction \<noteq> rightAction then leftAction > rightAction
      else
        let leftSeverity = severityPriorityLabel (dg_SeverityLabel left); rightSeverity = severityPriorityLabel (dg_SeverityLabel right)
        in if leftSeverity \<noteq> rightSeverity then leftSeverity > rightSeverity
           else ToLower (dg_FamilyLabel left) < ToLower (dg_FamilyLabel right))"

record sorters =
  sort_advisories :: "DecisionAdvisoryGroup list \<Rightarrow> DecisionAdvisoryGroup list"
  sort_items :: "DecisionItem list \<Rightarrow> DecisionItem list"
  sort_groups :: "DecisionGroup list \<Rightarrow> DecisionGroup list"

definition sort_group :: "sorters \<Rightarrow> DecisionGroup \<Rightarrow> DecisionGroup" where
  "sort_group ss g = g\<lparr>dg_Advisories :=
     map (\<lambda>a. a\<lparr>dag_Items := sort_items ss (dag_Items a)\<rparr>) (sort_advisories ss (dg_Advisories g))\<rparr>"

definition GroupDecisionsByRemediation :: "sorters \<Rightarrow> DecisionItem list \<Rightarrow> DecisionGroup list" where
  "GroupDecisionsByRemediation ss decisions =
     (if decisions = [] then []
      else
        let (grouped, indexByFamily) =
              fold (upsert di_FamilyLabel (\<lambda>item. (new_group item, Map.empty)) group_item) decisions ([], Map.empty)
        in sort_groups ss (map (sort_group ss) (map fst grouped)))"

section \<open>The risk of a kernel\<close>

record KernelSeverityCounts =
  ksc_Critical :: int
  ksc_Important :: int
  ksc_Moderate :: int
  ksc_Low :: int
  ksc_Unknown :: int

record KernelRiskView =
  krv_AdvisoryCount :: int
  krv_PackageCount :: int
  krv_CVECount :: int
  krv_SeverityCounts :: KernelSeverityCounts
  krv_LatestUpdatedAt :: string
  krv_Advisories :: "DecisionAdvisoryGroup list"

definition zero_counts :: KernelSeverityCounts where
  "zero_counts = \<lparr>ksc_Critical = 0, ksc_Important = 0, ksc_Moderate = 0, ksc_Low = 0, ksc_Unknown = 0\<rparr>"

definition count_severity :: "string \<Rightarrow> KernelSeverityCounts \<Rightarrow> KernelSeverityCounts" where
  "count_severity label c =
     (let n = view_normalizeSeverity label in
      if n = ''critical'' then c\<lparr>ksc_Critical := ksc_Critical c + 1\<rparr>
      else if n = ''important'' then c\<lparr>ksc_Important := ksc_Important c + 1\<rparr>
      else if n = ''moderate'' then c\<lparr>ksc_Moderate := ksc_Moderate c + 1\<rparr>
      else if n = ''low'' then c\<lparr>ksc_Low := ksc_Low c + 1\<rparr>
      else c\<lparr>ksc_Unknown := ksc_Unknown c + 1\<rparr>)"

record risk_acc =
  acc_latest :: string
  acc_packages :: int
  acc_cves :: "string set"
  acc_counts :: KernelSeverityCounts

definition risk_step :: "DecisionAdvisoryGroup \<Rightarrow> risk_acc \<Rightarrow> risk_acc" where
  "risk_step a acc =
     (let updated = displayTimestampPriority (dag_AdvisoryUpdatedAt a) (dag_ComputedAt a) in
      \<lparr>acc_latest = (if updated > acc_latest acc then updated else acc_latest acc),
       acc_packages = acc_packages acc + dag_PackageCount a,
       acc_cves = acc_cves acc \<union> set (map cve_ID (filter (\<lambda>cve. TrimSpace (cve_ID cve) \<noteq> []) (dag_CVEs a))),
       acc_counts = count_severity (dag_SeverityLabel a) (acc_counts acc)\<rparr>)"

definition BuildKernelRiskView :: "sorters \<Rightarrow> DecisionItem list \<Rightarrow> KernelRiskView" where
  "BuildKernelRiskView ss decisions =
     (if decisions = []
      then \<lparr>krv_AdvisoryCount = 0, krv_PackageCount = 0, krv_CVECount = 0, krv_SeverityCounts = zero_counts,
            krv_LatestUpdatedAt = [], krv_Advisories = []\<rparr>
      else
        let advisories = concat (map dg_Advisories (GroupDecisionsByRemediation ss decisions));
            acc = fold risk_step advisories \<lparr>acc_latest = [], acc_packages = 0, acc_cves = {}, acc_counts = zero_counts\<rparr>
        in \<lparr>krv_AdvisoryCount = int (length advisories), krv_PackageCount = acc_packages acc,
            krv_CVECount = int (card (acc_cves acc)), krv_SeverityCounts = acc_counts acc,
            krv_LatestUpdatedAt = acc_latest acc, krv_Advisories = advisories\<rparr>)"

section \<open>What a group holds\<close>

lemma raise_group_fields [simp]:
  "dg_FamilyLabel (raise_group e g) = dg_FamilyLabel g" "dg_AdvisoryCount (raise_group e g) = dg_AdvisoryCount g"
  "dg_Advisories (raise_group e g) = dg_Advisories g" "dg_PackageCount (raise_group e g) = dg_PackageCount g + 1"
  by (simp_all add: raise_group_def Let_def)

lemma raise_group_labels:
  "severityPriorityLabel (dg_SeverityLabel (raise_group e g)) =
     max (severityPriorityLabel (di_SeverityLabel e)) (severityPriorityLabel (dg_SeverityLabel g))"
  "actionPriorityLabel (dg_ActionLabel (raise_group e g)) =
     max (actionPriorityLabel (di_ActionLabel e)) (actionPriorityLabel (dg_ActionLabel g))"
  by (simp_all add: raise_group_def Let_def)

lemma raise_advisory_fields [simp]:
  "dag_AdvisoryID (raise_advisory e a) = dag_AdvisoryID a" "dag_CVEs (raise_advisory e a) = dag_CVEs a"
  "dag_Items (raise_advisory e a) = dag_Items a @ [e]" "dag_PackageCount (raise_advisory e a) = dag_PackageCount a + 1"
  "dag_AdvisoryUpdatedAt (raise_advisory e a) = dag_AdvisoryUpdatedAt a" "dag_ComputedAt (raise_advisory e a) = dag_ComputedAt a"
  by (simp_all add: raise_advisory_def Let_def)

lemma raise_advisory_labels:
  "severityPriorityLabel (dag_SeverityLabel (raise_advisory e a)) =
     max (severityPriorityLabel (di_SeverityLabel e)) (severityPriorityLabel (dag_SeverityLabel a))"
  "actionPriorityLabel (dag_ActionLabel (raise_advisory e a)) =
     max (actionPriorityLabel (di_ActionLabel e)) (actionPriorityLabel (dag_ActionLabel a))"
  by (simp_all add: raise_advisory_def Let_def)

abbreviation item_severity :: "DecisionItem \<Rightarrow> int" where
  "item_severity e \<equiv> severityPriorityLabel (di_SeverityLabel e)"

abbreviation item_action :: "DecisionItem \<Rightarrow> int" where
  "item_action e \<equiv> actionPriorityLabel (di_ActionLabel e)"

abbreviation by_advisory :: "DecisionItem list \<Rightarrow> DecisionAdvisoryGroup list \<times> (string \<rightharpoonup> nat)" where
  "by_advisory es \<equiv> fold (upsert di_AdvisoryID new_advisory raise_advisory) es ([], Map.empty)"

lemma fold_max: "fold (\<lambda>e m. max (f e) m) es m0 = (if es = [] then m0 else max m0 (Max (f ` set es)))"
  for f :: "'a \<Rightarrow> int"
  by (induction es arbitrary: m0) (auto simp: max.left_commute max.commute)

lemma fold_raise_advisory:
  "dag_AdvisoryID (fold raise_advisory es a) = dag_AdvisoryID a \<and> dag_CVEs (fold raise_advisory es a) = dag_CVEs a \<and>
   dag_Items (fold raise_advisory es a) = dag_Items a @ es \<and>
   dag_PackageCount (fold raise_advisory es a) = dag_PackageCount a + int (length es) \<and>
   severityPriorityLabel (dag_SeverityLabel (fold raise_advisory es a)) =
     fold (\<lambda>e m. max (item_severity e) m) es (severityPriorityLabel (dag_SeverityLabel a)) \<and>
   actionPriorityLabel (dag_ActionLabel (fold raise_advisory es a)) =
     fold (\<lambda>e m. max (item_action e) m) es (actionPriorityLabel (dag_ActionLabel a))"
  by (induction es arbitrary: a) (simp_all add: raise_advisory_labels)

lemma group_item_Pair:
  "group_item e (g, m) =
     (let r = upsert di_AdvisoryID new_advisory raise_advisory e (dg_Advisories g, m) in
      ((raise_group e g)\<lparr>dg_Advisories := fst r,
         dg_AdvisoryCount := dg_AdvisoryCount g + (if m (di_AdvisoryID e) = None then 1 else 0)\<rparr>, snd r))"
  by (simp add: group_item_def Let_def split_beta)

lemma upsert_length:
  "length (fst (upsert key new upd e (xs, m))) = length xs + (if m (key e) = None then 1 else 0)"
  by (simp add: upsert_def split: option.split)

lemma fold_group_item:
  "let st = fold group_item es (g, m) in
   dg_FamilyLabel (fst st) = dg_FamilyLabel g \<and> dg_PackageCount (fst st) = dg_PackageCount g + int (length es) \<and>
   (dg_Advisories (fst st), snd st) = fold (upsert di_AdvisoryID new_advisory raise_advisory) es (dg_Advisories g, m) \<and>
   dg_AdvisoryCount (fst st) - int (length (dg_Advisories (fst st))) = dg_AdvisoryCount g - int (length (dg_Advisories g)) \<and>
   severityPriorityLabel (dg_SeverityLabel (fst st)) = fold (\<lambda>e n. max (item_severity e) n) es (severityPriorityLabel (dg_SeverityLabel g)) \<and>
   actionPriorityLabel (dg_ActionLabel (fst st)) = fold (\<lambda>e n. max (item_action e) n) es (actionPriorityLabel (dg_ActionLabel g))"
proof (induction es arbitrary: g m)
  case (Cons e es)
  let ?r = "upsert di_AdvisoryID new_advisory raise_advisory e (dg_Advisories g, m)"
  let ?g = "(raise_group e g)\<lparr>dg_Advisories := fst ?r,
       dg_AdvisoryCount := dg_AdvisoryCount g + (if m (di_AdvisoryID e) = None then 1 else 0)\<rparr>"
  have step: "fold group_item (e # es) (g, m) = fold group_item es (?g, snd ?r)" by (simp add: group_item_Pair Let_def)
  show ?case
    unfolding step using Cons [of ?g "snd ?r"] upsert_length [of di_AdvisoryID new_advisory raise_advisory e "dg_Advisories g" m]
    by (simp add: Let_def raise_group_labels split_beta)
qed simp

definition sorters_ok :: "sorters \<Rightarrow> bool" where
  "sorters_ok ss \<longleftrightarrow> slice_sorts advisory_less (sort_advisories ss) \<and> slice_sorts item_less (sort_items ss) \<and>
     slice_sorts group_less (sort_groups ss)"

definition of_family :: "string \<Rightarrow> DecisionItem list \<Rightarrow> DecisionItem list" where
  "of_family f ds = filter (\<lambda>e. di_FamilyLabel e = f) ds"

definition of_advisory :: "string \<Rightarrow> DecisionItem list \<Rightarrow> DecisionItem list" where
  "of_advisory a es = filter (\<lambda>e. di_AdvisoryID e = a) es"

definition advisory_ok :: "DecisionItem list \<Rightarrow> DecisionAdvisoryGroup \<Rightarrow> bool" where
  "advisory_ok es a \<longleftrightarrow>
     (let fs = of_advisory (dag_AdvisoryID a) es in
      fs \<noteq> [] \<and> mset (dag_Items a) = mset fs \<and> dag_PackageCount a = int (length fs) \<and> dag_CVEs a = di_CVEs (hd fs) \<and>
      severityPriorityLabel (dag_SeverityLabel a) = Max (item_severity ` set fs) \<and>
      actionPriorityLabel (dag_ActionLabel a) = Max (item_action ` set fs))"

definition group_ok :: "DecisionItem list \<Rightarrow> DecisionGroup \<Rightarrow> bool" where
  "group_ok ds g \<longleftrightarrow>
     (let es = of_family (dg_FamilyLabel g) ds in
      dg_PackageCount g = int (length es) \<and> dg_AdvisoryCount g = int (length (dg_Advisories g)) \<and>
      severityPriorityLabel (dg_SeverityLabel g) = Max (item_severity ` set es) \<and>
      actionPriorityLabel (dg_ActionLabel g) = Max (item_action ` set es) \<and>
      distinct (map dag_AdvisoryID (dg_Advisories g)) \<and>
      dag_AdvisoryID ` set (dg_Advisories g) = di_AdvisoryID ` set es \<and>
      (\<forall>a \<in> set (dg_Advisories g). advisory_ok es a))"

lemma fold_max_all: "es \<noteq> [] \<Longrightarrow> fold (\<lambda>e m. max (f e) m) es (f (hd es)) = Max (f ` set es)"
  for f :: "'a \<Rightarrow> int"
proof -
  assume "es \<noteq> []"
  then have "f (hd es) \<le> Max (f ` set es)" by simp
  with \<open>es \<noteq> []\<close> show ?thesis by (simp add: fold_max)
qed

lemma advisory_entry:
  assumes "a \<in> di_AdvisoryID ` set es"
  shows "dag_AdvisoryID (group_entry di_AdvisoryID new_advisory raise_advisory es a) = a"
    and "advisory_ok es (group_entry di_AdvisoryID new_advisory raise_advisory es a)"
proof -
  let ?fs = "of_advisory a es"
  have fs: "?fs \<noteq> []" using assms by (auto simp: of_advisory_def filter_empty_conv)
  have e: "group_entry di_AdvisoryID new_advisory raise_advisory es a = fold raise_advisory ?fs (new_advisory (hd ?fs))"
    by (simp add: group_entry_def of_advisory_def Let_def)
  have "di_AdvisoryID (hd ?fs) = a" using fs hd_in_set [of ?fs] by (auto simp: of_advisory_def)
  then show id: "dag_AdvisoryID (group_entry di_AdvisoryID new_advisory raise_advisory es a) = a"
    unfolding e using fold_raise_advisory [of ?fs "new_advisory (hd ?fs)"] by (simp add: new_advisory_def)
  show "advisory_ok es (group_entry di_AdvisoryID new_advisory raise_advisory es a)"
    unfolding advisory_ok_def Let_def id unfolding e
    using fs fold_raise_advisory [of ?fs "new_advisory (hd ?fs)"] fold_max_all [OF fs, of item_severity] fold_max_all [OF fs, of item_action]
    by (simp add: new_advisory_def)
qed

lemma by_advisory_ok:
  "distinct (map dag_AdvisoryID (fst (by_advisory es)))" "dag_AdvisoryID ` set (fst (by_advisory es)) = di_AdvisoryID ` set es"
  "a \<in> set (fst (by_advisory es)) \<Longrightarrow> advisory_ok es a"
proof -
  have e: "fst (by_advisory es) = map (group_entry di_AdvisoryID new_advisory raise_advisory es) (group_keys di_AdvisoryID es)"
    using upsert_groups [of di_AdvisoryID new_advisory raise_advisory es] by auto
  have "map dag_AdvisoryID (fst (by_advisory es)) = group_keys di_AdvisoryID es"
    unfolding e map_map by (rule map_idI) (simp add: advisory_entry(1))
  then show "distinct (map dag_AdvisoryID (fst (by_advisory es)))"
    and "dag_AdvisoryID ` set (fst (by_advisory es)) = di_AdvisoryID ` set es"
    by (simp, metis set_group_keys set_map)
  show "a \<in> set (fst (by_advisory es)) \<Longrightarrow> advisory_ok es a"
    unfolding e using advisory_entry(2) by auto
qed

lemma new_group_fields [simp]:
  "dg_FamilyLabel (new_group e) = di_FamilyLabel e" "dg_SeverityLabel (new_group e) = di_SeverityLabel e"
  "dg_ActionLabel (new_group e) = di_ActionLabel e" "dg_AdvisoryCount (new_group e) = 0" "dg_PackageCount (new_group e) = 0"
  "dg_Advisories (new_group e) = []"
  by (simp_all add: new_group_def)

lemma family_entry:
  assumes "f \<in> di_FamilyLabel ` set ds"
  shows "dg_FamilyLabel (fst (group_entry di_FamilyLabel (\<lambda>item. (new_group item, Map.empty)) group_item ds f)) = f"
    and "group_ok ds (fst (group_entry di_FamilyLabel (\<lambda>item. (new_group item, Map.empty)) group_item ds f))"
proof -
  let ?es = "of_family f ds"
  let ?st = "fold group_item ?es (new_group (hd ?es), Map.empty)"
  have es: "?es \<noteq> []" using assms by (auto simp: of_family_def filter_empty_conv)
  have e: "group_entry di_FamilyLabel (\<lambda>item. (new_group item, Map.empty)) group_item ds f = ?st"
    by (simp add: group_entry_def of_family_def Let_def)
  note fg = fold_group_item [of ?es "new_group (hd ?es)" Map.empty, unfolded Let_def]
  have "di_FamilyLabel (hd ?es) = f" using es hd_in_set [of ?es] by (auto simp: of_family_def)
  then show id: "dg_FamilyLabel (fst (group_entry di_FamilyLabel (\<lambda>item. (new_group item, Map.empty)) group_item ds f)) = f"
    unfolding e using fg by simp
  have adv: "dg_Advisories (fst ?st) = fst (by_advisory ?es)" using fg by simp (metis fst_conv)
  show "group_ok ds (fst (group_entry di_FamilyLabel (\<lambda>item. (new_group item, Map.empty)) group_item ds f))"
    unfolding group_ok_def Let_def id unfolding e adv
    using fg by_advisory_ok(1,2) [of ?es] by_advisory_ok(3) [of _ ?es] fold_max_all [OF es, of item_severity] fold_max_all [OF es, of item_action]
    by (simp add: adv)
qed

lemma sort_group_ok:
  assumes "sorters_ok ss" "group_ok ds g"
  shows "group_ok ds (sort_group ss g)" "dg_FamilyLabel (sort_group ss g) = dg_FamilyLabel g"
proof -
  let ?si = "\<lambda>a. a\<lparr>dag_Items := sort_items ss (dag_Items a)\<rparr>"
  have adv: "set (sort_advisories ss (dg_Advisories g)) = set (dg_Advisories g)"
    "mset (sort_advisories ss (dg_Advisories g)) = mset (dg_Advisories g)"
    "length (sort_advisories ss (dg_Advisories g)) = length (dg_Advisories g)"
    using assms(1) by (simp_all add: sorters_ok_def slice_sortsD [of advisory_less])
  have items: "mset (sort_items ss xs) = mset xs" for xs using assms(1) by (simp add: sorters_ok_def slice_sortsD(1) [of item_less])
  have ids: "map dag_AdvisoryID (map ?si xs) = map dag_AdvisoryID xs" for xs by simp
  have "mset (map dag_AdvisoryID (sort_advisories ss (dg_Advisories g))) = mset (map dag_AdvisoryID (dg_Advisories g))"
    by (simp add: adv)
  then have d: "distinct (map dag_AdvisoryID (map ?si (sort_advisories ss (dg_Advisories g)))) = distinct (map dag_AdvisoryID (dg_Advisories g))"
    unfolding ids by (metis mset_eq_imp_distinct_iff)
  have "advisory_ok es a \<Longrightarrow> advisory_ok es (?si a)" for es a
    using items by (simp add: advisory_ok_def Let_def)
  then show "group_ok ds (sort_group ss g)"
    using assms(2) d by (auto simp: group_ok_def sort_group_def Let_def adv image_image)
  show "dg_FamilyLabel (sort_group ss g) = dg_FamilyLabel g" by (simp add: sort_group_def)
qed

lemma Group_unsorted:
  assumes "ds \<noteq> []"
  shows "GroupDecisionsByRemediation ss ds = sort_groups ss (map (\<lambda>f. sort_group ss (fst
      (group_entry di_FamilyLabel (\<lambda>item. (new_group item, Map.empty)) group_item ds f))) (group_keys di_FamilyLabel ds))"
  using assms upsert_groups [of di_FamilyLabel "\<lambda>item. (new_group item, Map.empty)" group_item ds]
  by (auto simp: GroupDecisionsByRemediation_def comp_def)

lemma GroupDecisions_groups:
  assumes "sorters_ok ss"
  shows "let gs = GroupDecisionsByRemediation ss ds in
    distinct (map dg_FamilyLabel gs) \<and> set (map dg_FamilyLabel gs) = di_FamilyLabel ` set ds \<and>
    less_sorted group_less gs \<and> (\<forall>g \<in> set gs. group_ok ds g)"
proof (cases "ds = []")
  case True
  then show ?thesis by (simp add: GroupDecisionsByRemediation_def less_sorted_def)
next
  case False
  let ?e = "\<lambda>f. sort_group ss (fst (group_entry di_FamilyLabel (\<lambda>item. (new_group item, Map.empty)) group_item ds f))"
  let ?gs = "map ?e (group_keys di_FamilyLabel ds)"
  note srt = slice_sortsD [of group_less "sort_groups ss"]
  have ok: "slice_sorts group_less (sort_groups ss)" using assms by (simp add: sorters_ok_def)
  have e: "group_ok ds (?e f)" "dg_FamilyLabel (?e f) = f" if "f \<in> di_FamilyLabel ` set ds" for f
    using sort_group_ok [OF assms family_entry(2) [OF that]] family_entry(1) [OF that] by auto
  have fam: "map dg_FamilyLabel ?gs = group_keys di_FamilyLabel ds"
    unfolding map_map by (rule map_idI) (simp add: e(2))
  have "mset (map dg_FamilyLabel (sort_groups ss ?gs)) = mset (map dg_FamilyLabel ?gs)" unfolding mset_map srt(1) [OF ok] ..
  then have m: "mset (map dg_FamilyLabel (sort_groups ss ?gs)) = mset (group_keys di_FamilyLabel ds)" unfolding fam .
  have "distinct (map dg_FamilyLabel (sort_groups ss ?gs))" using mset_eq_imp_distinct_iff [OF m] distinct_group_keys by blast
  moreover have "set (map dg_FamilyLabel (sort_groups ss ?gs)) = di_FamilyLabel ` set ds"
    using mset_eq_setD [OF m] unfolding set_group_keys .
  moreover have "\<forall>g \<in> set (sort_groups ss ?gs). group_ok ds g" unfolding srt(3) [OF ok] using e(1) by auto
  ultimately show ?thesis
    unfolding Group_unsorted [OF False] Let_def using srt(2) [OF ok] by blast
qed

text \<open>C35: grouping loses and invents nothing: there is one group for each package family, in the order of the
  comparison; it counts the family's decisions and its advisories, has one entry for each advisory of the family
  with exactly the decisions of that advisory, and its severity and action are the highest of them, and so for
  each advisory.\<close>

theorem GroupDecisions_partition:
  assumes "sorters_ok ss"
  shows "let gs = GroupDecisionsByRemediation ss ds in
    distinct (map dg_FamilyLabel gs) \<and> set (map dg_FamilyLabel gs) = di_FamilyLabel ` set ds \<and>
    less_sorted group_less gs \<and> (\<forall>g \<in> set gs. group_ok ds g)"
  using assms by (rule GroupDecisions_groups)

interpretation advisory_order: slice_less advisory_less
  by unfold_locales (auto simp: advisory_less_def Let_def split: if_splits)

interpretation item_order: slice_less item_less
  by unfold_locales (auto simp: item_less_def split: if_splits)

interpretation group_order: slice_less group_less
  by unfold_locales (auto simp: group_less_def Let_def split: if_splits)

definition sample_sorters :: sorters where
  "sample_sorters = \<lparr>sort_advisories = insertion_sort advisory_less, sort_items = insertion_sort item_less,
     sort_groups = insertion_sort group_less\<rparr>"

lemma sample_sorters_ok: "sorters_ok sample_sorters"
  by (simp add: sorters_ok_def sample_sorters_def advisory_order.insertion_sort_sorts item_order.insertion_sort_sorts
      group_order.insertion_sort_sorts)

definition sample_item :: "string \<Rightarrow> string \<Rightarrow> string \<Rightarrow> DecisionItem" where
  "sample_item adv fam sev = \<lparr>di_AdvisoryID = adv, di_Title = adv, di_FamilyLabel = fam, di_PackageName = fam, di_InstalledNevra = [],
     di_FixedNevra = [], di_PackageStateLabel = [], di_PackageStateTone = [], di_PackageStateIcon = [], di_SeverityLabel = sev,
     di_SeverityTone = [], di_StatusLabel = [], di_ActionLabel = ''Update available'', di_ActionTone = [], di_EvidenceTier = [],
     di_ReasonText = [], di_ComputedAt = ''2026-01-01'', di_AdvisorySourceSystem = [], di_AdvisoryURL = [],
     di_AdvisoryUpdatedAt = [], di_CVEs = [\<lparr>cve_ID = ''CVE-2026-1'', cve_URL = []\<rparr>]\<rparr>"

theorem GroupDecisions_partition_witness:
  "\<exists>g \<in> set (GroupDecisionsByRemediation sample_sorters [sample_item ''A'' ''kernel'' ''Low'', sample_item ''A'' ''kernel'' ''Critical'']).
     dg_FamilyLabel g = ''kernel'' \<and> dg_PackageCount g = 2"
proof -
  define ds where "ds = [sample_item ''A'' ''kernel'' ''Low'', sample_item ''A'' ''kernel'' ''Critical'']"
  note p = GroupDecisions_partition [OF sample_sorters_ok, of ds, unfolded Let_def]
  have "set (map dg_FamilyLabel (GroupDecisionsByRemediation sample_sorters ds)) = di_FamilyLabel ` set ds"
    by (rule conjunct1 [OF conjunct2 [OF p]])
  also have "\<dots> = {''kernel''}" by (simp add: ds_def sample_item_def)
  finally have "''kernel'' \<in> dg_FamilyLabel ` set (GroupDecisionsByRemediation sample_sorters ds)"
    unfolding set_map by (simp only: singletonI)
  then obtain g where g: "g \<in> set (GroupDecisionsByRemediation sample_sorters ds)" "dg_FamilyLabel g = ''kernel''"
    by (elim imageE) (rule that, assumption, rule sym)
  have "group_ok ds g" by (rule bspec [OF conjunct2 [OF conjunct2 [OF conjunct2 [OF p]]] g(1)])
  then have "dg_PackageCount g = int (length (of_family ''kernel'' ds))" using g(2) by (simp add: group_ok_def Let_def)
  then have "dg_PackageCount g = 2" by (simp add: of_family_def sample_item_def ds_def)
  with g show ?thesis unfolding ds_def by blast
qed

section \<open>What the risk view counts\<close>

definition item_cves :: "DecisionItem \<Rightarrow> string set" where
  "item_cves e = set (map cve_ID (filter (\<lambda>cve. TrimSpace (cve_ID cve) \<noteq> []) (di_CVEs e)))"

definition advisory_cves :: "DecisionAdvisoryGroup \<Rightarrow> string set" where
  "advisory_cves a = set (map cve_ID (filter (\<lambda>cve. TrimSpace (cve_ID cve) \<noteq> []) (dag_CVEs a)))"

text \<open>The decisions of one advisory carry the CVEs of that advisory.\<close>

definition cves_by_advisory :: "DecisionItem list \<Rightarrow> bool" where
  "cves_by_advisory ds \<longleftrightarrow> (\<forall>d \<in> set ds. \<forall>e \<in> set ds. di_AdvisoryID d = di_AdvisoryID e \<longrightarrow> di_CVEs d = di_CVEs e)"

lemma fold_risk_step:
  "acc_packages (fold risk_step as acc) = acc_packages acc + (\<Sum>a\<leftarrow>as. dag_PackageCount a) \<and>
   acc_cves (fold risk_step as acc) = acc_cves acc \<union> (\<Union>a \<in> set as. advisory_cves a)"
  by (induction as arbitrary: acc) (auto simp: risk_step_def advisory_cves_def Let_def)

lemma sum_list_distinct_set: "distinct xs \<Longrightarrow> (\<Sum>x\<leftarrow>xs. f x) = (\<Sum>x \<in> set xs. f x)"
  for f :: "'a \<Rightarrow> int"
  by (induction xs) auto

lemma sum_filter_lengths:
  assumes "finite K" and "key ` set es \<subseteq> K"
  shows "(\<Sum>k \<in> K. int (length (filter (\<lambda>e. key e = k) es))) = int (length es)"
  using assms(2)
proof (induction es)
  case (Cons e es)
  have "(\<Sum>k \<in> K. int (length (filter (\<lambda>d. key d = k) (e # es)))) =
      (\<Sum>k \<in> K. (if key e = k then 1 else 0) + int (length (filter (\<lambda>d. key d = k) es)))"
    by (rule sum.cong) auto
  also have "\<dots> = (\<Sum>k \<in> K. if key e = k then 1 else 0) + int (length es)"
    using Cons by (simp add: sum.distrib)
  also have "(\<Sum>k \<in> K. if key e = k then 1 else 0) = (1 :: int)"
    using assms(1) Cons.prems by (simp add: sum.delta)
  finally show ?case by simp
qed simp

lemma sum_by_label:
  fixes h :: "string \<Rightarrow> int"
  assumes "distinct (map lab xs)"
  shows "(\<Sum>x\<leftarrow>xs. h (lab x)) = (\<Sum>k \<in> lab ` set xs. h k)"
  using sum_list_distinct_set [OF assms, of h] by (simp add: comp_def)

lemma group_packages:
  assumes "group_ok ds g"
  shows "(\<Sum>a\<leftarrow>dg_Advisories g. dag_PackageCount a) = int (length (of_family (dg_FamilyLabel g) ds))"
proof -
  let ?es = "of_family (dg_FamilyLabel g) ds"
  have ok: "distinct (map dag_AdvisoryID (dg_Advisories g))" "dag_AdvisoryID ` set (dg_Advisories g) = di_AdvisoryID ` set ?es"
    "\<And>a. a \<in> set (dg_Advisories g) \<Longrightarrow> dag_PackageCount a = int (length (of_advisory (dag_AdvisoryID a) ?es))"
    using assms by (auto simp: group_ok_def advisory_ok_def Let_def)
  have "(\<Sum>a\<leftarrow>dg_Advisories g. dag_PackageCount a) = (\<Sum>a\<leftarrow>dg_Advisories g. int (length (of_advisory (dag_AdvisoryID a) ?es)))"
    using ok(3) by (intro arg_cong [of _ _ sum_list] map_cong) auto
  also have "\<dots> = (\<Sum>k \<in> di_AdvisoryID ` set ?es. int (length (of_advisory k ?es)))"
    unfolding ok(2) [symmetric] by (rule sum_by_label [OF ok(1), of "\<lambda>k. int (length (of_advisory k ?es))"])
  also have "\<dots> = int (length ?es)" unfolding of_advisory_def by (rule sum_filter_lengths) auto
  finally show ?thesis .
qed

lemma sum_list_concat_map: "(\<Sum>x\<leftarrow>concat (map f gs). h x) = (\<Sum>g\<leftarrow>gs. \<Sum>x\<leftarrow>f g. h x)"
  for h :: "'a \<Rightarrow> int"
  by (induction gs) auto

lemma Group_facts:
  assumes "sorters_ok ss"
  shows "distinct (map dg_FamilyLabel (GroupDecisionsByRemediation ss ds))"
    "dg_FamilyLabel ` set (GroupDecisionsByRemediation ss ds) = di_FamilyLabel ` set ds"
    "g \<in> set (GroupDecisionsByRemediation ss ds) \<Longrightarrow> group_ok ds g"
  using GroupDecisions_groups [OF assms, of ds] by (auto simp: Let_def)

lemma risk_packages:
  assumes "sorters_ok ss"
  shows "krv_PackageCount (BuildKernelRiskView ss ds) = int (length ds)"
proof (cases "ds = []")
  case False
  let ?gs = "GroupDecisionsByRemediation ss ds"
  have "krv_PackageCount (BuildKernelRiskView ss ds) = (\<Sum>g\<leftarrow>?gs. \<Sum>a\<leftarrow>dg_Advisories g. dag_PackageCount a)"
    using False by (simp add: BuildKernelRiskView_def Let_def fold_risk_step sum_list_concat_map)
  also have "\<dots> = (\<Sum>g\<leftarrow>?gs. int (length (of_family (dg_FamilyLabel g) ds)))"
    using Group_facts(3) [OF assms] group_packages by (intro arg_cong [of _ _ sum_list] map_cong) auto
  also have "\<dots> = (\<Sum>k \<in> di_FamilyLabel ` set ds. int (length (of_family k ds)))"
    unfolding Group_facts(2) [OF assms, symmetric]
    by (rule sum_by_label [OF Group_facts(1) [OF assms], of "\<lambda>k. int (length (of_family k ds))"])
  also have "\<dots> = int (length ds)" unfolding of_family_def by (rule sum_filter_lengths) auto
  finally show ?thesis .
qed (simp add: BuildKernelRiskView_def)

lemma advisory_ok_cves:
  assumes "group_ok ds g" "a \<in> set (dg_Advisories g)"
  obtains e where "e \<in> set ds" "di_FamilyLabel e = dg_FamilyLabel g" "di_AdvisoryID e = dag_AdvisoryID a" "advisory_cves a = item_cves e"
proof -
  let ?fs = "of_advisory (dag_AdvisoryID a) (of_family (dg_FamilyLabel g) ds)"
  have "?fs \<noteq> []" "dag_CVEs a = di_CVEs (hd ?fs)" using assms by (auto simp: group_ok_def advisory_ok_def Let_def)
  then have "hd ?fs \<in> set ?fs" "advisory_cves a = item_cves (hd ?fs)" by (simp_all add: advisory_cves_def item_cves_def)
  then show thesis using that [of "hd ?fs"] by (auto simp: of_advisory_def of_family_def)
qed

lemma risk_cves:
  assumes "sorters_ok ss" "cves_by_advisory ds"
  shows "krv_CVECount (BuildKernelRiskView ss ds) = int (card (\<Union>e \<in> set ds. item_cves e))"
proof (cases "ds = []")
  case False
  let ?gs = "GroupDecisionsByRemediation ss ds"
  let ?as = "concat (map dg_Advisories ?gs)"
  have "(\<Union>a \<in> set ?as. advisory_cves a) = (\<Union>e \<in> set ds. item_cves e)"
  proof (intro equalityI subsetI)
    fix c assume "c \<in> (\<Union>a \<in> set ?as. advisory_cves a)"
    then obtain g a where g: "g \<in> set ?gs" "a \<in> set (dg_Advisories g)" "c \<in> advisory_cves a" by auto
    obtain e where "e \<in> set ds" "advisory_cves a = item_cves e"
      using advisory_ok_cves [OF Group_facts(3) [OF assms(1) g(1)] g(2)] by metis
    with g(3) show "c \<in> (\<Union>e \<in> set ds. item_cves e)" by blast
  next
    fix c assume "c \<in> (\<Union>e \<in> set ds. item_cves e)"
    then obtain e where e: "e \<in> set ds" "c \<in> item_cves e" by blast
    then obtain g where g: "g \<in> set ?gs" "dg_FamilyLabel g = di_FamilyLabel e" using Group_facts(2) [OF assms(1)] by (metis imageE imageI)
    have ok: "group_ok ds g" using Group_facts(3) [OF assms(1) g(1)] .
    have "e \<in> set (of_family (dg_FamilyLabel g) ds)" using e(1) g(2) by (simp add: of_family_def)
    then obtain a where a: "a \<in> set (dg_Advisories g)" "dag_AdvisoryID a = di_AdvisoryID e"
      using ok unfolding group_ok_def Let_def by (metis imageE imageI)
    obtain d where d: "d \<in> set ds" "di_AdvisoryID d = dag_AdvisoryID a" "advisory_cves a = item_cves d"
      using advisory_ok_cves [OF ok a(1)] by metis
    have "di_AdvisoryID d = di_AdvisoryID e" using d(2) a(2) by (rule trans)
    with assms(2) d(1) e(1) have "di_CVEs d = di_CVEs e" unfolding cves_by_advisory_def by blast
    then have "c \<in> advisory_cves a" using e(2) d(3) by (simp add: item_cves_def)
    then show "c \<in> (\<Union>a \<in> set ?as. advisory_cves a)" using g(1) a(1) by auto
  qed
  with False show ?thesis by (simp add: BuildKernelRiskView_def Let_def fold_risk_step)
qed (simp add: BuildKernelRiskView_def)

lemma int_sum_list: "int (\<Sum>x\<leftarrow>xs. f x) = (\<Sum>x\<leftarrow>xs. int (f x))"
  by (induction xs) auto

lemma risk_advisories:
  assumes "sorters_ok ss"
  shows "krv_AdvisoryCount (BuildKernelRiskView ss ds) = int (card ((\<lambda>e. (di_FamilyLabel e, di_AdvisoryID e)) ` set ds))"
proof (cases "ds = []")
  case False
  let ?gs = "GroupDecisionsByRemediation ss ds"
  let ?A = "\<lambda>f. di_AdvisoryID ` set (of_family f ds)"
  have len: "int (length (dg_Advisories g)) = int (card (?A (dg_FamilyLabel g)))" if "g \<in> set ?gs" for g
    using Group_facts(3) [OF assms that] distinct_card [of "map dag_AdvisoryID (dg_Advisories g)"]
    by (simp add: group_ok_def Let_def)
  have "krv_AdvisoryCount (BuildKernelRiskView ss ds) = (\<Sum>g\<leftarrow>?gs. int (length (dg_Advisories g)))"
    using False by (simp add: BuildKernelRiskView_def Let_def length_concat comp_def int_sum_list)
  also have "\<dots> = (\<Sum>g\<leftarrow>?gs. int (card (?A (dg_FamilyLabel g))))"
    using len by (intro arg_cong [of _ _ sum_list] map_cong) auto
  also have "\<dots> = (\<Sum>f \<in> di_FamilyLabel ` set ds. int (card (?A f)))"
    unfolding Group_facts(2) [OF assms, symmetric]
    by (rule sum_by_label [OF Group_facts(1) [OF assms], of "\<lambda>f. int (card (?A f))"])
  also have "\<dots> = int (card (Sigma (di_FamilyLabel ` set ds) ?A))" by simp
  also have "Sigma (di_FamilyLabel ` set ds) ?A = (\<lambda>e. (di_FamilyLabel e, di_AdvisoryID e)) ` set ds"
    by (auto simp: of_family_def) (metis (mono_tags, lifting) image_eqI)
  finally show ?thesis .
qed (simp add: BuildKernelRiskView_def)

end
