(* ===== verification/Kernel_Posture.thy ===== *)
theory Kernel_Posture
  imports Decision_Groups Agent_Packages
begin

text \<open>
  The kernel posture of a host, \<open>internal/api/v1/hosts/kernel_posture.go\<close>: which installed kernel is the
  newest, what is open on the running kernel, and whether a reboot would help. The answers of the host service,
  of the decoder of the stored snapshot and of the decision query are arguments of the handler.
\<close>

section \<open>The newest installed kernel\<close>

definition is_version_separator :: "char \<Rightarrow> bool" where
  "is_version_separator c \<longleftrightarrow> c = CHR ''.'' \<or> c = CHR ''-'' \<or> c = CHR ''_'' \<or> c = CHR '':''"

text \<open>\<open>strings.FieldsFunc\<close> with these separators; \<open>cur\<close> is the token being read, reversed.\<close>

fun version_tokens :: "string \<Rightarrow> string \<Rightarrow> string list" where
  "version_tokens cur [] = (if cur = [] then [] else [rev cur])"
| "version_tokens cur (c # s) =
     (if is_version_separator c then (if cur = [] then [] else [rev cur]) @ version_tokens [] s
      else version_tokens (c # cur) s)"

definition compare_token :: "string \<Rightarrow> string \<Rightarrow> int" where
  "compare_token l r =
     (case (ParseInt 64 l, ParseInt 64 r) of
        (Some leftNum, Some rightNum) \<Rightarrow> if leftNum > rightNum then 1 else -1
      | _ \<Rightarrow> if l > r then 1 else -1)"

fun compare_tokens :: "string list \<Rightarrow> string list \<Rightarrow> int" where
  "compare_tokens [] [] = 0"
| "compare_tokens (l # ls) [] = (if l = [] then compare_tokens ls [] else compare_token l [])"
| "compare_tokens [] (r # rs) = (if r = [] then compare_tokens [] rs else compare_token [] r)"
| "compare_tokens (l # ls) (r # rs) = (if l = r then compare_tokens ls rs else compare_token l r)"

definition compareVersionSegments :: "string \<Rightarrow> string \<Rightarrow> int" where
  "compareVersionSegments left right = compare_tokens (version_tokens [] left) (version_tokens [] right)"

definition compareKernelEVR :: "Package \<Rightarrow> Package \<Rightarrow> int" where
  "compareKernelEVR left right =
     (if pkg_Epoch left \<noteq> pkg_Epoch right then if pkg_Epoch left > pkg_Epoch right then 1 else -1
      else
        let version = compareVersionSegments (pkg_Version left) (pkg_Version right) in
        if version \<noteq> 0 then version else compareVersionSegments (pkg_Release left) (pkg_Release right))"

definition aptKernelVersionKey :: "string \<Rightarrow> string" where
  "aptKernelVersionKey name =
     (let t = TrimPrefix (TrimPrefix name ''linux-image-'') ''unsigned-'' in
      case LastIndex t ''-'' of None \<Rightarrow> [] | Some lastDash \<Rightarrow> if lastDash = 0 then [] else take lastDash t)"

definition strings_Compare :: "string \<Rightarrow> string \<Rightarrow> int" where
  "strings_Compare a b = (if a < b then -1 else if a = b then 0 else 1)"

definition compareAPTKernelPackageName :: "string \<Rightarrow> string \<Rightarrow> int" where
  "compareAPTKernelPackageName left right =
     (let leftKey = aptKernelVersionKey left; rightKey = aptKernelVersionKey right in
      if leftKey = [] \<or> rightKey = [] then strings_Compare left right else compareVersionSegments leftKey rightKey)"

definition kernelFlavor :: "string \<Rightarrow> string" where
  "kernelFlavor value =
     (let t = TrimSpace value in
      case LastIndex t ''-'' of
        None \<Rightarrow> []
      | Some lastDash \<Rightarrow> if lastDash = 0 \<or> lastDash = length t - 1 then [] else drop (lastDash + 1) t)"

definition isVersionedAPTKernelPackage :: "string \<Rightarrow> bool" where
  "isVersionedAPTKernelPackage name \<longleftrightarrow>
     HasPrefix name ''linux-image-'' \<and>
     (case TrimPrefix (TrimPrefix name ''linux-image-'') ''unsigned-'' of
        [] \<Rightarrow> False
      | first # _ \<Rightarrow> 48 \<le> byte first \<and> byte first \<le> 57)"

definition packageNEVRA :: "Package \<Rightarrow> string" where
  "packageNEVRA pkg =
     (let nevra = TrimSpace (pkg_Nevra pkg) in
      if nevra \<noteq> [] then nevra
      else
        let evr0 = (if pkg_Release pkg \<noteq> [] then pkg_Version pkg @ ''-'' @ pkg_Release pkg else pkg_Version pkg);
            parts = [pkg_Name pkg] @
              (if evr0 \<noteq> [] then [if pkg_Epoch pkg > 0 then Itoa (pkg_Epoch pkg) @ '':'' @ evr0 else evr0] else []) @
              (if pkg_Arch pkg \<noteq> [] then [pkg_Arch pkg] else [])
        in Join parts ''-'')"

fun best_apt :: "(Package \<Rightarrow> bool) \<Rightarrow> Package option \<Rightarrow> Package list \<Rightarrow> Package option" where
  "best_apt eligible best [] = best"
| "best_apt eligible best (pkg # ps) =
     (if \<not> eligible pkg then best_apt eligible best ps
      else case best of
          None \<Rightarrow> best_apt eligible (Some pkg) ps
        | Some b \<Rightarrow>
            if compareAPTKernelPackageName (pkg_Name pkg) (pkg_Name b) > 0 then best_apt eligible (Some pkg) ps
            else best_apt eligible (Some b) ps)"

definition latestInstalledKernelAPT :: "string \<Rightarrow> Package list \<Rightarrow> string" where
  "latestInstalledKernelAPT runningKernel packages =
     (let runningFlavor = kernelFlavor runningKernel;
          versioned = (\<lambda>pkg. isVersionedAPTKernelPackage (pkg_Name pkg));
          best = best_apt (\<lambda>pkg. versioned pkg \<and> \<not> (runningFlavor \<noteq> [] \<and> kernelFlavor (pkg_Name pkg) \<noteq> runningFlavor)) None packages;
          best' = (if best = None \<and> runningFlavor \<noteq> [] then best_apt versioned None packages else best)
      in case best' of None \<Rightarrow> [] | Some b \<Rightarrow> packageNEVRA b)"

definition rpmKernelNameRank :: "string \<Rightarrow> int" where
  "rpmKernelNameRank name =
     (if name = ''kernel'' then 3 else if name = ''kernel-core'' then 2 else if name = ''kernel-modules'' then 1 else 0)"

fun best_rpm :: "(Package \<times> int) option \<Rightarrow> Package list \<Rightarrow> Package option" where
  "best_rpm best [] = map_option fst best"
| "best_rpm best (pkg # ps) =
     (if pkg_Name pkg = [] \<or> \<not> HasPrefix (pkg_Name pkg) ''kernel'' \<and> pkg_Name pkg \<noteq> ''kernel'' then best_rpm best ps
      else
        let rank = rpmKernelNameRank (pkg_Name pkg) in
        case best of
          None \<Rightarrow> best_rpm (Some (pkg, rank)) ps
        | Some (b, bestRank) \<Rightarrow>
            if rank > bestRank then best_rpm (Some (pkg, rank)) ps
            else if rank < bestRank then best_rpm (Some (b, bestRank)) ps
            else if compareKernelEVR pkg b > 0 then best_rpm (Some (pkg, rank)) ps
            else best_rpm (Some (b, bestRank)) ps)"

definition latestInstalledKernelRPM :: "Package list \<Rightarrow> string" where
  "latestInstalledKernelRPM packages = (case best_rpm None packages of None \<Rightarrow> [] | Some b \<Rightarrow> packageNEVRA b)"

definition detectLatestInstalledKernel :: "string \<Rightarrow> string \<Rightarrow> Package list \<Rightarrow> string" where
  "detectLatestInstalledKernel osFamily runningKernel packages =
     (if ToLower (TrimSpace osFamily) = ''apt'' then latestInstalledKernelAPT runningKernel packages
      else latestInstalledKernelRPM packages)"

section \<open>The handler\<close>

record HostKernelPosture =
  hkp_RunningKernel :: string
  hkp_LatestInstalledKernel :: string
  hkp_RebootWouldReduceCVECount :: bool
  hkp_ActiveKernel :: KernelRiskView
  hkp_LatestInstalled :: KernelRiskView

datatype posture_error = MissingHostID | HostLookupFailed | SnapshotNotFound | SnapshotLookupFailed | DecisionQueryFailed

record posture_snapshot =
  psn_RunningKernelNevra :: string
  psn_Payload :: string

text \<open>What decoding the payload yields: whether it succeeded, and the operating system family and packages that
  the message then holds.\<close>

record decoded_snapshot =
  dec_ok :: bool
  dec_osFamily :: OsFamily
  dec_packages :: "Package list"

record posture_env =
  pe_host :: "posture_error + string"
  pe_snapshot :: "posture_error + posture_snapshot"
  pe_decode :: "string \<Rightarrow> decoded_snapshot"
  pe_rows :: "posture_error + decision_row list"
  pe_unmarshal :: "string \<Rightarrow> CVEInfo list"
  pe_marshal :: "string option \<Rightarrow> string"

definition os_family_string :: "OsFamily \<Rightarrow> string" where
  "os_family_string f =
     (case f of OS_FAMILY_UNSPECIFIED \<Rightarrow> ''OS_FAMILY_UNSPECIFIED'' | OS_FAMILY_RPM \<Rightarrow> ''OS_FAMILY_RPM'' | OS_FAMILY_APT \<Rightarrow> ''OS_FAMILY_APT'')"

definition source_rpms :: "Package list \<Rightarrow> string \<rightharpoonup> string" where
  "source_rpms ps = fold (\<lambda>p m. m(pkg_Name p \<mapsto> pkg_SourceRpm p)) ps Map.empty"

definition kernel_items :: "posture_env \<Rightarrow> (string \<rightharpoonup> string) \<Rightarrow> (decision_row \<Rightarrow> bool) \<Rightarrow> decision_row list \<Rightarrow> DecisionItem list" where
  "kernel_items env sources chosen rows =
     map (\<lambda>row. MapDecisionRow (pe_unmarshal env) (pe_marshal env) row sources)
       (filter (\<lambda>row. row_AdvisoryIsSecurity row \<and>
          di_FamilyLabel (MapDecisionRow (pe_unmarshal env) (pe_marshal env) row sources) = ''kernel'' \<and> chosen row) rows)"

definition on_active :: "decision_row \<Rightarrow> bool" where
  "on_active row \<longleftrightarrow> row_Action row \<noteq> ''none''"

definition on_latest :: "decision_row \<Rightarrow> bool" where
  "on_latest row \<longleftrightarrow> row_Action row \<noteq> ''none'' \<and> row_Status row \<noteq> ''fixed_package_installed_pending_activation''"

definition GetKernelPosture :: "sorters \<Rightarrow> posture_env \<Rightarrow> string \<Rightarrow> posture_error + HostKernelPosture" where
  "GetKernelPosture ss env hostID =
     (if hostID = [] then Inl MissingHostID
      else case pe_host env of
        Inl e \<Rightarrow> Inl e
      | Inr hostFamily \<Rightarrow>
        (case pe_snapshot env of
           Inl e \<Rightarrow>
             if e = SnapshotNotFound
             then Inr \<lparr>hkp_RunningKernel = [], hkp_LatestInstalledKernel = [], hkp_RebootWouldReduceCVECount = False,
                       hkp_ActiveKernel = BuildKernelRiskView ss [], hkp_LatestInstalled = BuildKernelRiskView ss []\<rparr>
             else Inl e
         | Inr snapshot \<Rightarrow>
             let agentSnap = (if psn_Payload snapshot \<noteq> [] then pe_decode env (psn_Payload snapshot)
                              else \<lparr>dec_ok = True, dec_osFamily = OS_FAMILY_UNSPECIFIED, dec_packages = []\<rparr>);
                 sourceRPMs = (if dec_ok agentSnap then source_rpms (dec_packages agentSnap) else Map.empty)
             in case pe_rows env of
                 Inl e \<Rightarrow> Inl e
               | Inr rows \<Rightarrow>
                   let activeKernel = BuildKernelRiskView ss (kernel_items env sourceRPMs on_active rows);
                       latestInstalled = BuildKernelRiskView ss (kernel_items env sourceRPMs on_latest rows);
                       osFamily = (if TrimSpace hostFamily = [] \<or> EqualFold hostFamily ''unknown''
                                   then TrimPrefix (ToLower (os_family_string (dec_osFamily agentSnap))) ''os_family_''
                                   else hostFamily)
                   in Inr \<lparr>hkp_RunningKernel = psn_RunningKernelNevra snapshot,
                           hkp_LatestInstalledKernel =
                             detectLatestInstalledKernel osFamily (psn_RunningKernelNevra snapshot) (dec_packages agentSnap),
                           hkp_RebootWouldReduceCVECount = krv_CVECount activeKernel > krv_CVECount latestInstalled,
                           hkp_ActiveKernel = activeKernel, hkp_LatestInstalled = latestInstalled\<rparr>))"

section \<open>Active and newest kernel\<close>

lemma kernel_items_subset: "(\<And>row. P row \<Longrightarrow> Q row) \<Longrightarrow> set (kernel_items env src P rows) \<subseteq> set (kernel_items env src Q rows)"
  by (auto simp: kernel_items_def)

lemma kernel_items_length: "(\<And>row. P row \<Longrightarrow> Q row) \<Longrightarrow> length (kernel_items env src P rows) \<le> length (kernel_items env src Q rows)"
  by (induction rows) (auto simp: kernel_items_def)

lemma cves_by_advisory_subset: "cves_by_advisory ds \<Longrightarrow> set es \<subseteq> set ds \<Longrightarrow> cves_by_advisory es"
  unfolding cves_by_advisory_def by blast

text \<open>Rows of one advisory have the CVEs of that advisory, as the query returns them.\<close>

definition rows_ok :: "posture_env \<Rightarrow> decision_row list \<Rightarrow> bool" where
  "rows_ok env rows \<longleftrightarrow> (\<forall>r \<in> set rows. \<forall>s \<in> set rows. row_AdvisoryID r = row_AdvisoryID s \<longrightarrow>
     row_cves (pe_unmarshal env) (pe_marshal env) r = row_cves (pe_unmarshal env) (pe_marshal env) s)"

lemma rows_ok_cves: "rows_ok env rows \<Longrightarrow> cves_by_advisory (kernel_items env src P rows)"
  by (auto simp: rows_ok_def cves_by_advisory_def kernel_items_def MapDecisionRow_def Let_def)

lemma GetKernelPosture_Inr:
  assumes "GetKernelPosture ss env hostID = Inr p" "pe_snapshot env = Inr s" "pe_rows env = Inr rows"
  obtains src where "hkp_ActiveKernel p = BuildKernelRiskView ss (kernel_items env src on_active rows)"
    "hkp_LatestInstalled p = BuildKernelRiskView ss (kernel_items env src on_latest rows)"
    "hkp_RebootWouldReduceCVECount p = (krv_CVECount (hkp_ActiveKernel p) > krv_CVECount (hkp_LatestInstalled p))"
  using assms by (auto simp: GetKernelPosture_def Let_def split: sum.splits if_splits)


definition sample_row :: "string \<Rightarrow> string \<Rightarrow> string \<Rightarrow> decision_row" where
  "sample_row adv status action = \<lparr>row_AdvisoryID = adv, row_PackageName = ''kernel-core'', row_InstalledNevra = None, row_FixedNevra = None,
     row_Status = status, row_Action = action, row_Severity = SqlString ''important'', row_EvidenceTier = [], row_ReasonCode = [],
     row_ReasonText = None, row_ComputedAt = ''2026-01-01'', row_AdvisorySummary = None, row_AdvisoryIsSecurity = True,
     row_AdvisorySourceUrl = None, row_AdvisorySourceSystem = [], row_AdvisoryUpdatedAt = None, row_Cves = None\<rparr>"

definition sample_posture_env :: posture_env where
  "sample_posture_env = \<lparr>pe_host = Inr ''rpm'', pe_snapshot = Inr \<lparr>psn_RunningKernelNevra = ''5.14.0-1.el9.x86_64'', psn_Payload = []\<rparr>,
     pe_decode = (\<lambda>_. \<lparr>dec_ok = False, dec_osFamily = OS_FAMILY_UNSPECIFIED, dec_packages = []\<rparr>),
     pe_rows = Inr [sample_row ''RLSA-1'' ''fixed_package_installed_pending_activation'' ''reboot_host''],
     pe_unmarshal = (\<lambda>_. []), pe_marshal = (\<lambda>_. [])\<rparr>"


section \<open>Which kernel is named\<close>

lemma best_apt_in:
  "best_apt P b ps = Some p \<Longrightarrow> b = Some p \<or> p \<in> set ps \<and> P p"
  by (induction P b ps rule: best_apt.induct) (auto split: if_splits option.splits)

lemma best_apt_None: "best_apt P b ps = None \<longleftrightarrow> b = None \<and> (\<forall>p \<in> set ps. \<not> P p)"
  by (induction P b ps rule: best_apt.induct) (auto split: option.splits)

definition is_rpm_kernel :: "Package \<Rightarrow> bool" where
  "is_rpm_kernel pkg \<longleftrightarrow> pkg_Name pkg \<noteq> [] \<and> HasPrefix (pkg_Name pkg) ''kernel''"

lemma best_rpm_skip: "\<not> is_rpm_kernel p \<Longrightarrow> best_rpm b (p # ps) = best_rpm b ps"
  by (auto simp: is_rpm_kernel_def HasPrefix_def)

lemma best_rpm_take: "is_rpm_kernel p \<Longrightarrow>
    best_rpm b (p # ps) =
      (case b of None \<Rightarrow> best_rpm (Some (p, rpmKernelNameRank (pkg_Name p))) ps
       | Some (q, r) \<Rightarrow>
           if rpmKernelNameRank (pkg_Name p) > r \<or> rpmKernelNameRank (pkg_Name p) = r \<and> compareKernelEVR p q > 0
           then best_rpm (Some (p, rpmKernelNameRank (pkg_Name p))) ps else best_rpm (Some (q, r)) ps)"
  by (auto simp: is_rpm_kernel_def Let_def split: option.split)

lemma best_rpm_found:
  assumes "best_rpm (Some (b, rpmKernelNameRank (pkg_Name b))) ps = res"
  shows "\<exists>p. res = Some p \<and> (p = b \<or> p \<in> set ps \<and> is_rpm_kernel p) \<and>
     (\<forall>q \<in> insert b {q \<in> set ps. is_rpm_kernel q}. rpmKernelNameRank (pkg_Name q) \<le> rpmKernelNameRank (pkg_Name p))"
  using assms
proof (induction ps arbitrary: b)
  case (Cons p ps)
  consider (skip) "\<not> is_rpm_kernel p"
    | (new) "is_rpm_kernel p" "rpmKernelNameRank (pkg_Name p) \<ge> rpmKernelNameRank (pkg_Name b)"
        "best_rpm (Some (p, rpmKernelNameRank (pkg_Name p))) ps = res"
    | (old) "is_rpm_kernel p" "rpmKernelNameRank (pkg_Name p) \<le> rpmKernelNameRank (pkg_Name b)"
        "best_rpm (Some (b, rpmKernelNameRank (pkg_Name b))) ps = res"
    using Cons.prems best_rpm_take [of p "Some (b, rpmKernelNameRank (pkg_Name b))" ps]
    by (cases "is_rpm_kernel p") (auto split: if_splits)
  then show ?case
  proof cases
    case skip
    then show ?thesis using Cons.IH [of b] Cons.prems by (auto simp: best_rpm_skip simp del: best_rpm.simps)
  next
    case new
    from Cons.IH [OF new(3)] new(1,2) show ?thesis by fastforce
  next
    case old
    from Cons.IH [OF old(3)] old(1,2) show ?thesis by fastforce
  qed
qed simp

lemma best_rpm_spec:
  "case best_rpm None ps of
     None \<Rightarrow> \<forall>p \<in> set ps. \<not> is_rpm_kernel p
   | Some p \<Rightarrow> p \<in> set ps \<and> is_rpm_kernel p \<and>
       (\<forall>q \<in> set ps. is_rpm_kernel q \<longrightarrow> rpmKernelNameRank (pkg_Name q) \<le> rpmKernelNameRank (pkg_Name p))"
proof (induction ps)
  case (Cons p ps)
  show ?case
  proof (cases "is_rpm_kernel p")
    case True
    from best_rpm_found [OF refl, of p ps] True show ?thesis
      by (auto simp: best_rpm_take [OF True] simp del: best_rpm.simps)
  next
    case False
    with Cons show ?thesis by (auto simp: best_rpm_skip simp del: best_rpm.simps split: option.splits)
  qed
qed simp

abbreviation is_apt_kernel :: "Package \<Rightarrow> bool" where
  "is_apt_kernel pkg \<equiv> isVersionedAPTKernelPackage (pkg_Name pkg)"

lemma latestInstalledKernelAPT_spec:
  "if filter is_apt_kernel packages = [] then latestInstalledKernelAPT rk packages = []
   else \<exists>pkg \<in> set (filter is_apt_kernel packages). latestInstalledKernelAPT rk packages = packageNEVRA pkg \<and>
     (kernelFlavor rk = [] \<or> kernelFlavor (pkg_Name pkg) = kernelFlavor rk \<or>
      filter (\<lambda>q. kernelFlavor (pkg_Name q) = kernelFlavor rk) (filter is_apt_kernel packages) = [])"
proof -
  let ?fl = "kernelFlavor rk"
  define P where "P = (\<lambda>pkg. is_apt_kernel pkg \<and> \<not> (?fl \<noteq> [] \<and> kernelFlavor (pkg_Name pkg) \<noteq> ?fl))"
  have L: "latestInstalledKernelAPT rk packages =
      (case (if best_apt P None packages = None \<and> ?fl \<noteq> [] then best_apt is_apt_kernel None packages else best_apt P None packages) of
         None \<Rightarrow> [] | Some b \<Rightarrow> packageNEVRA b)"
    unfolding latestInstalledKernelAPT_def Let_def P_def ..
  show ?thesis
  proof (cases "best_apt P None packages")
    case (Some p)
    then have p: "p \<in> set packages" "P p" using best_apt_in [OF Some] by auto
    then have "p \<in> set (filter is_apt_kernel packages)" "?fl = [] \<or> kernelFlavor (pkg_Name p) = ?fl" by (auto simp: P_def)
    moreover have "filter is_apt_kernel packages \<noteq> []" using p by (auto simp: P_def filter_empty_conv)
    moreover have "latestInstalledKernelAPT rk packages = packageNEVRA p" using Some by (simp add: L)
    ultimately show ?thesis by auto
  next
    case None
    then have none: "\<forall>p \<in> set packages. \<not> P p" by (simp add: best_apt_None)
    show ?thesis
    proof (cases "best_apt is_apt_kernel None packages")
      case n: None
      then have "\<forall>p \<in> set packages. \<not> is_apt_kernel p" by (simp add: best_apt_None)
      then have "filter is_apt_kernel packages = []" by (simp add: filter_empty_conv)
      then show ?thesis using None n by (simp add: L)
    next
      case (Some p)
      then have p: "p \<in> set packages" "is_apt_kernel p" using best_apt_in [OF Some] by auto
      with none have fl: "?fl \<noteq> []" by (auto simp: P_def)
      have "filter (\<lambda>q. kernelFlavor (pkg_Name q) = ?fl) (filter is_apt_kernel packages) = []"
        using none by (auto simp: P_def filter_empty_conv)
      moreover have "latestInstalledKernelAPT rk packages = packageNEVRA p" using None Some fl by (simp add: L)
      moreover have "filter is_apt_kernel packages \<noteq> []" using p by (auto simp: filter_empty_conv)
      ultimately show ?thesis using p by auto
    qed
  qed
qed

lemma latestInstalledKernelRPM_spec:
  "if filter is_rpm_kernel packages = [] then latestInstalledKernelRPM packages = []
   else \<exists>pkg \<in> set (filter is_rpm_kernel packages). latestInstalledKernelRPM packages = packageNEVRA pkg \<and>
     (\<forall>q \<in> set (filter is_rpm_kernel packages). rpmKernelNameRank (pkg_Name q) \<le> rpmKernelNameRank (pkg_Name pkg))"
  using best_rpm_spec [of packages]
  by (cases "best_rpm None packages") (auto simp: latestInstalledKernelRPM_def filter_empty_conv)

text \<open>The newest installed kernel that is shown is an installed kernel. On an apt host it is a versioned kernel image,
  of the running kernel's flavor whenever one of that flavor is installed; on other hosts it is a kernel package of
  the highest rank among those installed (kernel, then kernel-core, then kernel-modules). Nothing is shown only if
  no such package is installed.\<close>

theorem detectLatestInstalledKernel_spec:
  "let shown = detectLatestInstalledKernel osFamily rk packages;
       apt = (ToLower (TrimSpace osFamily) = ''apt'');
       eligible = (\<lambda>pkg. if apt then isVersionedAPTKernelPackage (pkg_Name pkg) else is_rpm_kernel pkg)
   in if filter eligible packages = [] then shown = []
      else \<exists>pkg \<in> set (filter eligible packages). shown = packageNEVRA pkg \<and>
        (if apt
         then kernelFlavor rk = [] \<or> kernelFlavor (pkg_Name pkg) = kernelFlavor rk \<or>
              filter (\<lambda>q. kernelFlavor (pkg_Name q) = kernelFlavor rk) (filter eligible packages) = []
         else \<forall>q \<in> set (filter eligible packages). rpmKernelNameRank (pkg_Name q) \<le> rpmKernelNameRank (pkg_Name pkg))"
proof (cases "ToLower (TrimSpace osFamily) = ''apt''")
  case True
  then show ?thesis using latestInstalledKernelAPT_spec [of packages rk]
    by (simp only: detectLatestInstalledKernel_def Let_def if_True simp_thms)
next
  case False
  then show ?thesis using latestInstalledKernelRPM_spec [of packages]
    by (simp only: detectLatestInstalledKernel_def Let_def if_False simp_thms)
qed

theorem detectLatestInstalledKernel_spec_witness:
  "let p = upgradable ''kernel-core'' 0 ''5.14.0'' ''362.el9'' ''x86_64'' [] in
     detectLatestInstalledKernel ''rpm'' [] [p] = packageNEVRA p"
proof -
  let ?p = "upgradable ''kernel-core'' 0 ''5.14.0'' ''362.el9'' ''x86_64'' []"
  have "is_rpm_kernel ?p" by code_simp
  moreover have "ToLower (TrimSpace ''rpm'') \<noteq> ''apt''" by code_simp
  ultimately show ?thesis
    using detectLatestInstalledKernel_spec [of "''rpm''" "[]" "[?p]"] by (simp add: Let_def)
qed

end
