(* ===== verification/Audit_Log.thy ===== *)
theory Audit_Log
  imports Event_Bus Go_Slices Go_Option
begin

text \<open>
  \<open>internal/services/audit_log.go\<close> with the statements of \<open>internal/sql/audit_log.sql.go\<close>: \<open>Record\<close>, which the
  other services call after an audited action, and \<open>List\<close>, which pages through the log. What the
  surroundings decide is in \<open>audit_env\<close>: the JSON encoder, whether an insertion fails, the identifier drawn and
  the database clock. A point in time is an integer, and the zero time of Go is \<open>None\<close>.
\<close>

section \<open>Rows and events\<close>

datatype metadata = MetaString string | MetaBool bool | MetaInt int | MetaNil | MetaMap "(string \<times> metadata) list"

record AuditEvent =
  ae_ActorID :: string
  ae_ActorEmail :: string
  ae_Action :: string
  ae_TargetType :: string
  ae_TargetID :: string
  ae_Metadata :: "(string \<times> metadata) list"
  ae_IPAddress :: string
  ae_UserAgent :: string

record AuditLog =
  al_ID :: string
  al_ActorID :: "string option"
  al_ActorEmail :: string
  al_Action :: string
  al_TargetType :: string
  al_TargetID :: "string option"
  al_Metadata :: string
  al_IpAddress :: "string option"
  al_UserAgent :: "string option"
  al_CreatedAt :: int

record audit_env =
  au_marshal :: "(string \<times> metadata) list \<Rightarrow> string option"
  au_insertFails :: "AuditLog list \<Rightarrow> bool"
  au_id :: "AuditLog list \<Rightarrow> string"
  au_now :: "AuditLog list \<Rightarrow> int"

definition id_New :: "string \<Rightarrow> string \<Rightarrow> string" where
  "id_New tablePrefix drawn = tablePrefix @ ''_'' @ drawn"

definition nonzero :: "string \<Rightarrow> string option" where
  "nonzero s = (if s = [] then None else Some s)"

section \<open>Record\<close>

text \<open>The primary key makes an insertion with an identifier in use fail.\<close>

definition InsertAuditLog :: "audit_env \<Rightarrow> AuditLog \<Rightarrow> AuditLog list \<Rightarrow> AuditLog list option" where
  "InsertAuditLog env row rows =
     (if au_insertFails env rows \<or> al_ID row \<in> al_ID ` set rows then None else Some (rows @ [row]))"

definition Record :: "audit_env \<Rightarrow> AuditEvent \<Rightarrow> AuditLog list \<times> Event list \<Rightarrow> AuditLog list \<times> Event list" where
  "Record env event s =
     (let (rows, published) = s in
      case (if ae_Metadata event = [] then Some [] else au_marshal env (ae_Metadata event)) of
        None \<Rightarrow> s
      | Some encoded \<Rightarrow>
          (case InsertAuditLog env
                  \<lparr>al_ID = id_New ''audit'' (au_id env rows), al_ActorID = nonzero (ae_ActorID event),
                   al_ActorEmail = ae_ActorEmail event, al_Action = ae_Action event,
                   al_TargetType = ae_TargetType event, al_TargetID = nonzero (ae_TargetID event),
                   al_Metadata = encoded, al_IpAddress = nonzero (ae_IPAddress event),
                   al_UserAgent = nonzero (ae_UserAgent event), al_CreatedAt = au_now env rows\<rparr> rows of
             None \<Rightarrow> s
           | Some rows1 \<Rightarrow> (rows1, published @ [NewAuditLogCreatedEvent])))"

section \<open>List\<close>

record ListAuditLogInput =
  in_Limit :: "int option"
  in_Offset :: "int option"
  in_Action :: string
  in_Actor :: string
  in_From :: "int option"
  in_To :: "int option"

record AuditLogInfo =
  info_ID :: string
  info_ActorID :: "string option"
  info_ActorEmail :: string
  info_Action :: string
  info_TargetType :: string
  info_TargetID :: "string option"
  info_Metadata :: string
  info_IPAddress :: "string option"
  info_UserAgent :: "string option"
  info_CreatedAt :: string

record ListAuditLogResult =
  res_Items :: "AuditLogInfo list"
  res_Total :: int

datatype audit_call = CallCountAuditLogsFiltered | CallListAuditLogsFiltered | CallCountAuditLogs | CallListAuditLogs

definition hasFilters :: "ListAuditLogInput \<Rightarrow> bool" where
  "hasFilters i \<longleftrightarrow> in_Action i \<noteq> [] \<or> in_Actor i \<noteq> [] \<or> in_From i \<noteq> None \<or> in_To i \<noteq> None"

definition defaultAuditLogListLimit :: int where "defaultAuditLogListLimit = 50"
definition maxAuditLogListLimit :: int where "maxAuditLogListLimit = 500"

text \<open>The condition of the two filtered statements; a null parameter does not restrict.\<close>

definition audit_filter :: "string option \<Rightarrow> string option \<Rightarrow> int option \<Rightarrow> int option \<Rightarrow> AuditLog \<Rightarrow> bool" where
  "audit_filter action actorID from to row \<longleftrightarrow>
     (case action of None \<Rightarrow> True | Some a \<Rightarrow> al_Action row = a) \<and>
     (case actorID of None \<Rightarrow> True | Some a \<Rightarrow> al_ActorID row = Some a) \<and>
     (case from of None \<Rightarrow> True | Some t \<Rightarrow> t \<le> al_CreatedAt row) \<and>
     (case to of None \<Rightarrow> True | Some t \<Rightarrow> al_CreatedAt row \<le> t)"

text \<open>\<open>ORDER BY created_at DESC, id DESC LIMIT l OFFSET o\<close>\<close>

definition newest_first :: "AuditLog list \<Rightarrow> AuditLog list" where
  "newest_first rows = rev (sort_key (\<lambda>r. (al_CreatedAt r, al_ID r)) rows)"

definition sql_page :: "int \<Rightarrow> int \<Rightarrow> 'a list \<Rightarrow> 'a list" where
  "sql_page limit offset rows = take (nat limit) (drop (nat offset) rows)"

definition CountAuditLogs :: "AuditLog list \<Rightarrow> int" where
  "CountAuditLogs rows = int (length rows)"

definition ListAuditLogs :: "int \<Rightarrow> int \<Rightarrow> AuditLog list \<Rightarrow> AuditLog list" where
  "ListAuditLogs limit offset rows = sql_page limit offset (newest_first rows)"

definition CountAuditLogsFiltered :: "string option \<Rightarrow> string option \<Rightarrow> int option \<Rightarrow> int option \<Rightarrow> AuditLog list \<Rightarrow> int" where
  "CountAuditLogsFiltered action actorID from to rows = int (length (filter (audit_filter action actorID from to) rows))"

definition ListAuditLogsFiltered ::
  "string option \<Rightarrow> string option \<Rightarrow> int option \<Rightarrow> int option \<Rightarrow> int \<Rightarrow> int \<Rightarrow> AuditLog list \<Rightarrow> AuditLog list" where
  "ListAuditLogsFiltered action actorID from to limit offset rows =
     sql_page limit offset (newest_first (filter (audit_filter action actorID from to) rows))"

definition audit_info :: "(int \<Rightarrow> string) \<Rightarrow> AuditLog \<Rightarrow> AuditLogInfo" where
  "audit_info fmt row =
     \<lparr>info_ID = al_ID row, info_ActorID = al_ActorID row, info_ActorEmail = al_ActorEmail row,
      info_Action = al_Action row, info_TargetType = al_TargetType row, info_TargetID = al_TargetID row,
      info_Metadata = (if al_Metadata row \<noteq> [] then al_Metadata row else ''null''),
      info_IPAddress = al_IpAddress row, info_UserAgent = al_UserAgent row, info_CreatedAt = fmt (al_CreatedAt row)\<rparr>"

definition list_audit :: "(audit_call \<Rightarrow> bool) \<Rightarrow> (int \<Rightarrow> string) \<Rightarrow> ListAuditLogInput \<Rightarrow> AuditLog list \<Rightarrow> audit_call + ListAuditLogResult" where
  "list_audit fault fmt input table =
     (let limit = min (max (UnwrapOr (in_Limit input) defaultAuditLogListLimit) 0) maxAuditLogListLimit;
          offset = max (UnwrapOr (in_Offset input) 0) 0
      in if hasFilters input then
           let actionOpt = nonzero (in_Action input); actorOpt = nonzero (in_Actor input) in
           if fault CallCountAuditLogsFiltered then Inl CallCountAuditLogsFiltered
           else if fault CallListAuditLogsFiltered then Inl CallListAuditLogsFiltered
           else Inr \<lparr>res_Items = map (audit_info fmt)
                       (ListAuditLogsFiltered actionOpt actorOpt (in_From input) (in_To input) limit offset table),
                     res_Total = CountAuditLogsFiltered actionOpt actorOpt (in_From input) (in_To input) table\<rparr>
         else if fault CallCountAuditLogs then Inl CallCountAuditLogs
         else if fault CallListAuditLogs then Inl CallListAuditLogs
         else Inr \<lparr>res_Items = map (audit_info fmt) (ListAuditLogs limit offset table), res_Total = CountAuditLogs table\<rparr>)"

section \<open>What \<open>Record\<close> does\<close>

text \<open>A record adds one row that describes the event and announces it, or leaves everything as it was.\<close>

lemma Record_cases:
  obtains "Record env e s = s"
  | row where "Record env e s = (fst s @ [row], snd s @ [NewAuditLogCreatedEvent])"
      "al_Action row = ae_Action e" "al_TargetID row = nonzero (ae_TargetID e)" "al_ActorEmail row = ae_ActorEmail e"
      "al_ID row \<notin> al_ID ` set (fst s)"
proof (cases "if ae_Metadata e = [] then Some [] else au_marshal env (ae_Metadata e)")
  case None
  then have "Record env e s = s" by (simp add: Record_def split: prod.splits)
  then show ?thesis by (rule that(1))
next
  case (Some encoded)
  let ?row = "\<lparr>al_ID = id_New ''audit'' (au_id env (fst s)), al_ActorID = nonzero (ae_ActorID e),
    al_ActorEmail = ae_ActorEmail e, al_Action = ae_Action e, al_TargetType = ae_TargetType e,
    al_TargetID = nonzero (ae_TargetID e), al_Metadata = encoded, al_IpAddress = nonzero (ae_IPAddress e),
    al_UserAgent = nonzero (ae_UserAgent e), al_CreatedAt = au_now env (fst s)\<rparr>"
  have eq: "Record env e s = (case InsertAuditLog env ?row (fst s) of None \<Rightarrow> s
    | Some rows1 \<Rightarrow> (rows1, snd s @ [NewAuditLogCreatedEvent]))"
    using Some by (cases s) (simp add: Record_def cong: option.case_cong)
  show ?thesis
  proof (cases "au_insertFails env (fst s) \<or> al_ID ?row \<in> al_ID ` set (fst s)")
    case True
    then have "Record env e s = s" unfolding eq by (simp add: InsertAuditLog_def)
    then show ?thesis by (rule that(1))
  next
    case False
    then have "InsertAuditLog env ?row (fst s) = Some (fst s @ [?row])" by (simp add: InsertAuditLog_def)
    then have "Record env e s = (fst s @ [?row], snd s @ [NewAuditLogCreatedEvent])" unfolding eq by simp
    with False show ?thesis by (intro that(2) [of ?row]) simp_all
  qed
qed

lemma Record_events: "\<exists>evs. snd (Record env e s) = snd s @ evs \<and> set evs \<subseteq> {NewAuditLogCreatedEvent}"
  by (cases rule: Record_cases [of env e s]) auto

section \<open>Paging\<close>

text \<open>The rows that the input asks for, whichever of the two statement pairs is run.\<close>

definition matching :: "ListAuditLogInput \<Rightarrow> AuditLog list \<Rightarrow> AuditLog list" where
  "matching i rows = filter (audit_filter (nonzero (in_Action i)) (nonzero (in_Actor i)) (in_From i) (in_To i)) rows"

definition items_of :: "audit_call + ListAuditLogResult \<Rightarrow> AuditLogInfo list" where
  "items_of r = (case r of Inl _ \<Rightarrow> [] | Inr res \<Rightarrow> res_Items res)"

lemma matching_unfiltered: "\<not> hasFilters i \<Longrightarrow> matching i rows = rows"
  by (simp add: matching_def hasFilters_def audit_filter_def nonzero_def)

lemma list_audit_result:
  assumes "\<forall>c. \<not> fault c"
  shows "list_audit fault fmt i rows =
    Inr \<lparr>res_Items = map (audit_info fmt) (sql_page (min (max (UnwrapOr (in_Limit i) 50) 0) 500)
           (max (UnwrapOr (in_Offset i) 0) 0) (newest_first (matching i rows))),
         res_Total = int (length (matching i rows))\<rparr>"
proof (cases "hasFilters i")
  case True
  then show ?thesis
    using assms by (simp add: list_audit_def Let_def matching_def ListAuditLogsFiltered_def CountAuditLogsFiltered_def
      defaultAuditLogListLimit_def maxAuditLogListLimit_def)
next
  case False
  then show ?thesis
    using assms by (simp add: list_audit_def Let_def matching_unfiltered ListAuditLogs_def CountAuditLogs_def
      defaultAuditLogListLimit_def maxAuditLogListLimit_def)
qed

lemma sql_page_length: "length (sql_page (min l (int k)) off rows) \<le> k"
  by (auto simp: sql_page_def min_def)

text \<open>Pages of \<open>n\<close> rows put together give the first \<open>k * n\<close> rows.\<close>

lemma pages_take: "concat (map (\<lambda>j. take n (drop (j * n) xs)) [0..<k]) = take (k * n) xs"
proof (induction k)
  case (Suc k)
  have "take (Suc k * n) xs = take (k * n) xs @ take n (drop (k * n) xs)"
    using take_add [of "k * n" n xs] by (simp add: add.commute)
  with Suc show ?case by simp
qed simp

lemma newest_first_sorted:
  "sorted_wrt (\<lambda>r s. (al_CreatedAt s, al_ID s) \<le> (al_CreatedAt r, al_ID r)) (newest_first rows)"
proof -
  have "sorted (map (\<lambda>r. (al_CreatedAt r, al_ID r)) (sort_key (\<lambda>r. (al_CreatedAt r, al_ID r)) rows))" by simp
  then show ?thesis by (simp add: newest_first_def sorted_wrt_rev sorted_wrt_map)
qed

text \<open>C40: Walking through the audit log page by page, with a page size between 1 and 500, visits every row the filters
  select exactly once, the newest first; every page reports the full number of such rows, and no input makes a
  page longer than 500 rows.\<close>

theorem list_audit_pages:
  assumes "\<forall>c. \<not> fault c" and "0 < n" "n \<le> 500" and "length (matching i rows) \<le> k * n"
  shows "concat (map (\<lambda>j. items_of (list_audit fault fmt (i\<lparr>in_Limit := Some (int n), in_Offset := Some (int (j * n))\<rparr>) rows)) [0..<k])
      = map (audit_info fmt) (newest_first (matching i rows)) \<and>
    sorted_wrt (\<lambda>r s. (al_CreatedAt s, al_ID s) \<le> (al_CreatedAt r, al_ID r)) (newest_first (matching i rows)) \<and>
    mset (newest_first (matching i rows)) = mset (matching i rows) \<and>
    (\<exists>res. list_audit fault fmt i rows = Inr res \<and> res_Total res = int (length (matching i rows)) \<and> length (res_Items res) \<le> 500)"
proof -
  let ?ms = "newest_first (matching i rows)"
  have page: "items_of (list_audit fault fmt (i\<lparr>in_Limit := Some (int n), in_Offset := Some (int (j * n))\<rparr>) rows)
      = take n (drop (j * n) (map (audit_info fmt) ?ms))" for j
  proof -
    have m: "matching (i\<lparr>in_Limit := Some (int n), in_Offset := Some (int (j * n))\<rparr>) rows = matching i rows"
      by (simp add: matching_def)
    have l: "min (int n) 500 = int n" and off: "max (int (j * n)) 0 = int (j * n)" using assms(3) by auto
    show ?thesis
      by (simp add: list_audit_result [OF assms(1)] m items_of_def sql_page_def l off take_map drop_map del: of_nat_mult)
  qed
  have len: "length ?ms = length (matching i rows)" by (simp add: newest_first_def)
  have "concat (map (\<lambda>j. items_of (list_audit fault fmt (i\<lparr>in_Limit := Some (int n), in_Offset := Some (int (j * n))\<rparr>) rows)) [0..<k])
      = map (audit_info fmt) ?ms"
    using assms(4) len by (simp add: page pages_take del: of_nat_mult)
  moreover have "mset ?ms = mset (matching i rows)" by (simp add: newest_first_def)
  moreover have "\<exists>res. list_audit fault fmt i rows = Inr res \<and> res_Total res = int (length (matching i rows)) \<and> length (res_Items res) \<le> 500"
    using sql_page_length [of "max (UnwrapOr (in_Limit i) 50) 0" 500] by (simp add: list_audit_result [OF assms(1)])
  ultimately show ?thesis using newest_first_sorted by blast
qed

definition sample_audit :: "string \<Rightarrow> string \<Rightarrow> int \<Rightarrow> AuditLog" where
  "sample_audit i action at = \<lparr>al_ID = i, al_ActorID = Some ''u_1'', al_ActorEmail = ''a@b'', al_Action = action, al_TargetType = ''host'',
     al_TargetID = None, al_Metadata = [], al_IpAddress = None, al_UserAgent = None, al_CreatedAt = at\<rparr>"

definition sample_input :: ListAuditLogInput where
  "sample_input = \<lparr>in_Limit = None, in_Offset = None, in_Action = ''host.create'', in_Actor = [], in_From = None, in_To = None\<rparr>"

theorem list_audit_pages_witness:
  "concat (map (\<lambda>j. items_of (list_audit (\<lambda>_. False) Itoa (sample_input\<lparr>in_Limit := Some (int 1), in_Offset := Some (int (j * 1))\<rparr>)
      [sample_audit ''audit_1'' ''host.create'' 5, sample_audit ''audit_2'' ''host.delete'' 6, sample_audit ''audit_3'' ''host.create'' 7])) [0..<2])
    = map (audit_info Itoa) [sample_audit ''audit_3'' ''host.create'' 7, sample_audit ''audit_1'' ''host.create'' 5]"
proof -
  let ?rows = "[sample_audit ''audit_1'' ''host.create'' 5, sample_audit ''audit_2'' ''host.delete'' 6, sample_audit ''audit_3'' ''host.create'' 7]"
  have m: "matching sample_input ?rows = [sample_audit ''audit_1'' ''host.create'' 5, sample_audit ''audit_3'' ''host.create'' 7]"
    by (simp add: matching_def sample_input_def audit_filter_def nonzero_def sample_audit_def)
  have "newest_first (matching sample_input ?rows) = [sample_audit ''audit_3'' ''host.create'' 7, sample_audit ''audit_1'' ''host.create'' 5]"
    unfolding m by (simp add: newest_first_def sample_audit_def)
  with list_audit_pages [of "\<lambda>_. False" 1 sample_input ?rows 2 Itoa] m show ?thesis by simp
qed

end
