(* ===== verification/Periodic_Jobs.thy ===== *)
theory Periodic_Jobs
  imports Go_Strings "HOL-Library.Word"
begin

text \<open>
  \<open>internal/queue/periodic.go\<close>: the manager of the periodic jobs that the server registers with the job queue.
  The queue is third-party code and a parameter: \<open>rv_add\<close> says, for the calls made so far, whether a job is
  accepted and under which handle. The calls are recorded in the order in which they are made, and \<open>active\<close>
  reads off the jobs that were added and not removed since. Every method holds the manager's mutex, so a
  concurrent execution is a sequence of method calls.
\<close>

section \<open>Jobs and calls of the queue\<close>

datatype job_schedule = PeriodicInterval int | DailyHour int

datatype job_args = AdvisorySyncArgs string | SSHPullArgs string | SendReportArgs

record periodic_job =
  pj_Schedule :: job_schedule
  pj_Args :: job_args
  pj_ID :: string
  pj_RunOnStart :: bool

datatype river_call = Added periodic_job nat | Removed nat | RemovedByID string

fun active_step :: "river_call \<Rightarrow> (nat \<rightharpoonup> periodic_job) \<Rightarrow> (nat \<rightharpoonup> periodic_job)" where
  "active_step (Added job handle) act = act(handle \<mapsto> job)"
| "active_step (Removed handle) act = act(handle := None)"
| "active_step (RemovedByID i) act =
     (\<lambda>h. case act h of None \<Rightarrow> None | Some job \<Rightarrow> if pj_ID job = i then None else Some job)"

definition active :: "river_call list \<Rightarrow> (nat \<rightharpoonup> periodic_job)" where
  "active calls = fold active_step calls Map.empty"

record river_env =
  rv_client :: "river_call list \<Rightarrow> bool"
  rv_add :: "river_call list \<Rightarrow> periodic_job \<Rightarrow> nat option"
  rv_refresh :: int

text \<open>A handle that the queue returns is not the handle of a job it still runs.\<close>

definition handles_fresh :: "river_env \<Rightarrow> bool" where
  "handles_fresh env \<longleftrightarrow> (\<forall>calls job h. rv_add env calls job = Some h \<longrightarrow> active calls h = None)"

section \<open>The manager\<close>

record sshJobInfo =
  sj_handle :: nat
  sj_frequencyMinutes :: int

record PeriodicJobManager =
  pm_syncJobs :: "string \<rightharpoonup> nat"
  pm_sshJobs :: "string \<rightharpoonup> sshJobInfo"
  pm_calls :: "river_call list"

datatype periodic_error = NoRiverClient | AddFailed | NoSettings | SMTPSettingsFailed | ListScopesFailed | ListHostsFailed

definition NewPeriodicJobManager :: PeriodicJobManager where
  "NewPeriodicJobManager = \<lparr>pm_syncJobs = Map.empty, pm_sshJobs = Map.empty, pm_calls = []\<rparr>"

definition call_river :: "river_call \<Rightarrow> PeriodicJobManager \<Rightarrow> PeriodicJobManager" where
  "call_river c p = p\<lparr>pm_calls := pm_calls p @ [c]\<rparr>"

text \<open>\<open>time.Duration(frequencyMinutes) * time.Minute\<close> in 64 bits\<close>

definition ssh_interval :: "int \<Rightarrow> int" where
  "ssh_interval frequencyMinutes = sint (word_of_int frequencyMinutes * 60000000000 :: 64 word)"

definition sync_job :: "river_env \<Rightarrow> string \<Rightarrow> bool \<Rightarrow> periodic_job" where
  "sync_job env scopeKey runOnStart =
     \<lparr>pj_Schedule = PeriodicInterval (rv_refresh env), pj_Args = AdvisorySyncArgs scopeKey,
      pj_ID = ''advisory-sync-'' @ scopeKey, pj_RunOnStart = runOnStart\<rparr>"

definition ssh_job :: "string \<Rightarrow> int \<Rightarrow> bool \<Rightarrow> periodic_job" where
  "ssh_job hostID frequencyMinutes runOnStart =
     \<lparr>pj_Schedule = PeriodicInterval (ssh_interval frequencyMinutes), pj_Args = SSHPullArgs hostID,
      pj_ID = ''ssh-pull-'' @ hostID, pj_RunOnStart = runOnStart\<rparr>"

definition email_job :: "int \<Rightarrow> periodic_job" where
  "email_job hour = \<lparr>pj_Schedule = DailyHour hour, pj_Args = SendReportArgs, pj_ID = ''email-report'', pj_RunOnStart = False\<rparr>"

definition AddAdvisorySyncJob :: "river_env \<Rightarrow> string \<Rightarrow> bool \<Rightarrow> PeriodicJobManager \<Rightarrow> PeriodicJobManager \<times> periodic_error option" where
  "AddAdvisorySyncJob env scopeKey runOnStart p =
     (if pm_syncJobs p scopeKey \<noteq> None then (p, None)
      else if \<not> rv_client env (pm_calls p) then (p, Some NoRiverClient)
      else let job = sync_job env scopeKey runOnStart in
           case rv_add env (pm_calls p) job of
             None \<Rightarrow> (p, Some AddFailed)
           | Some handle \<Rightarrow> ((call_river (Added job handle) p)\<lparr>pm_syncJobs := (pm_syncJobs p)(scopeKey \<mapsto> handle)\<rparr>, None))"

definition RemoveAdvisorySyncJob :: "river_env \<Rightarrow> string \<Rightarrow> PeriodicJobManager \<Rightarrow> PeriodicJobManager \<times> periodic_error option" where
  "RemoveAdvisorySyncJob env scopeKey p =
     (if \<not> rv_client env (pm_calls p) then (p, Some NoRiverClient)
      else case pm_syncJobs p scopeKey of
        Some handle \<Rightarrow> ((call_river (Removed handle) p)\<lparr>pm_syncJobs := (pm_syncJobs p)(scopeKey := None)\<rparr>, None)
      | None \<Rightarrow> (call_river (RemovedByID (''advisory-sync-'' @ scopeKey)) p, None))"

definition add_ssh_job :: "river_env \<Rightarrow> string \<Rightarrow> int \<Rightarrow> bool \<Rightarrow> PeriodicJobManager \<Rightarrow> PeriodicJobManager \<times> periodic_error option" where
  "add_ssh_job env hostID frequencyMinutes runOnStart p =
     (let job = ssh_job hostID frequencyMinutes runOnStart in
      case rv_add env (pm_calls p) job of
        None \<Rightarrow> (p, Some AddFailed)
      | Some handle \<Rightarrow>
          ((call_river (Added job handle) p)
             \<lparr>pm_sshJobs := (pm_sshJobs p)(hostID \<mapsto> \<lparr>sj_handle = handle, sj_frequencyMinutes = frequencyMinutes\<rparr>)\<rparr>, None))"

definition AddSSHPullJob :: "river_env \<Rightarrow> string \<Rightarrow> int \<Rightarrow> bool \<Rightarrow> PeriodicJobManager \<Rightarrow> PeriodicJobManager \<times> periodic_error option" where
  "AddSSHPullJob env hostID frequencyMinutes runOnStart p =
     (if \<not> rv_client env (pm_calls p) then (p, Some NoRiverClient)
      else case pm_sshJobs p hostID of
        None \<Rightarrow> add_ssh_job env hostID frequencyMinutes runOnStart p
      | Some info \<Rightarrow>
          if sj_frequencyMinutes info = frequencyMinutes then (p, None)
          else add_ssh_job env hostID frequencyMinutes runOnStart
                 ((call_river (Removed (sj_handle info)) p)\<lparr>pm_sshJobs := (pm_sshJobs p)(hostID := None)\<rparr>))"

definition RemoveSSHPullJob :: "river_env \<Rightarrow> string \<Rightarrow> PeriodicJobManager \<Rightarrow> PeriodicJobManager \<times> periodic_error option" where
  "RemoveSSHPullJob env hostID p =
     (if \<not> rv_client env (pm_calls p) then (p, Some NoRiverClient)
      else case pm_sshJobs p hostID of
        Some info \<Rightarrow> ((call_river (Removed (sj_handle info)) p)\<lparr>pm_sshJobs := (pm_sshJobs p)(hostID := None)\<rparr>, None)
      | None \<Rightarrow> (call_river (RemovedByID (''ssh-pull-'' @ hostID)) p, None))"

text \<open>\<open>smtp\<close> is the report hour of the mail settings, or the failure to load them.\<close>

definition SetEmailReportJob :: "river_env \<Rightarrow> string \<Rightarrow> periodic_error + int \<Rightarrow> PeriodicJobManager \<Rightarrow> PeriodicJobManager \<times> periodic_error option" where
  "SetEmailReportJob env frequency smtp p =
     (if \<not> rv_client env (pm_calls p) then (p, Some NoRiverClient)
      else let p1 = call_river (RemovedByID ''email-report'') p in
           if frequency \<noteq> ''daily'' then (p1, None)
           else case smtp of
             Inl e \<Rightarrow> (p1, Some e)
           | Inr hour \<Rightarrow>
               (case rv_add env (pm_calls p1) (email_job hour) of
                  None \<Rightarrow> (p1, Some AddFailed)
                | Some handle \<Rightarrow> (call_river (Added (email_job hour) handle) p1, None)))"

text \<open>\<open>hosts\<close> are the identifiers and pull frequencies that \<open>ListApprovedSSHHosts\<close> returns; \<open>settings\<close> is the mail
  frequency with the mail settings, when the settings service is there. The loops log a failure and go on.\<close>

definition pull_frequency :: "int option \<Rightarrow> int" where
  "pull_frequency f = (case f of None \<Rightarrow> 360 | Some m \<Rightarrow> if m > 0 then m else 360)"

definition Initialize ::
  "river_env \<Rightarrow> string list option \<Rightarrow> (string \<times> int option) list option \<Rightarrow> (string \<times> (periodic_error + int)) option \<Rightarrow>
   PeriodicJobManager \<Rightarrow> PeriodicJobManager \<times> periodic_error option" where
  "Initialize env scopes hosts settings p =
     (case scopes of
        None \<Rightarrow> (p, Some ListScopesFailed)
      | Some ks \<Rightarrow>
          let p1 = fold (\<lambda>scopeKey p. fst (AddAdvisorySyncJob env scopeKey False p)) ks p in
          case hosts of
            None \<Rightarrow> (p1, Some ListHostsFailed)
          | Some hs \<Rightarrow>
              let p2 = fold (\<lambda>(hostID, f) p. fst (AddSSHPullJob env hostID (pull_frequency f) False p)) hs p1 in
              case settings of
                None \<Rightarrow> (p2, None)
              | Some (frequency, smtp) \<Rightarrow> (fst (SetEmailReportJob env frequency smtp p2), None))"

section \<open>The daily schedule\<close>

text \<open>Times are nanoseconds since 1970 in UTC; \<open>zone\<close> is the offset of the location of \<open>current\<close>, whose calendar day
  is used.\<close>

definition nanos_day :: int where "nanos_day = 86400000000000"
definition nanos_hour :: int where "nanos_hour = 3600000000000"

definition daily_Next :: "int \<Rightarrow> int \<Rightarrow> int \<Rightarrow> int" where
  "daily_Next hour zone current =
     (let next = (current + zone) div nanos_day * nanos_day + hour * nanos_hour
      in if \<not> next > current then next + nanos_day else next)"

section \<open>The manager and the queue agree\<close>

text \<open>The manager's entry for a job that the queue runs.\<close>

definition known_job :: "river_env \<Rightarrow> PeriodicJobManager \<Rightarrow> nat \<Rightarrow> periodic_job \<Rightarrow> bool" where
  "known_job env p h job \<longleftrightarrow>
     (case pj_Args job of
        AdvisorySyncArgs k \<Rightarrow> pm_syncJobs p k = Some h \<and> job = sync_job env k (pj_RunOnStart job)
      | SSHPullArgs k \<Rightarrow>
          (case pm_sshJobs p k of
             None \<Rightarrow> False
           | Some info \<Rightarrow> sj_handle info = h \<and> job = ssh_job k (sj_frequencyMinutes info) (pj_RunOnStart job))
      | SendReportArgs \<Rightarrow> pj_ID job = ''email-report'')"

definition jobs_ok :: "river_env \<Rightarrow> PeriodicJobManager \<Rightarrow> bool" where
  "jobs_ok env p \<longleftrightarrow>
     (\<forall>h job. active (pm_calls p) h = Some job \<longrightarrow> known_job env p h job) \<and>
     (\<forall>k h. pm_syncJobs p k = Some h \<longrightarrow> (\<exists>r. active (pm_calls p) h = Some (sync_job env k r))) \<and>
     (\<forall>k info. pm_sshJobs p k = Some info \<longrightarrow>
        (\<exists>r. active (pm_calls p) (sj_handle info) = Some (ssh_job k (sj_frequencyMinutes info) r))) \<and>
     (\<forall>h h' job job'. active (pm_calls p) h = Some job \<and> active (pm_calls p) h' = Some job' \<and>
        pj_Args job = SendReportArgs \<and> pj_Args job' = SendReportArgs \<longrightarrow> h = h')"

lemma jobs_okD:
  assumes "jobs_ok env p"
  shows "active (pm_calls p) h = Some job \<Longrightarrow> known_job env p h job"
    and "pm_syncJobs p k = Some h \<Longrightarrow> \<exists>r. active (pm_calls p) h = Some (sync_job env k r)"
    and "pm_sshJobs p k = Some info \<Longrightarrow> \<exists>r. active (pm_calls p) (sj_handle info) = Some (ssh_job k (sj_frequencyMinutes info) r)"
    and "active (pm_calls p) h = Some job \<Longrightarrow> active (pm_calls p) h' = Some job' \<Longrightarrow> pj_Args job = SendReportArgs \<Longrightarrow>
      pj_Args job' = SendReportArgs \<Longrightarrow> h = h'"
  using assms by (auto simp: jobs_ok_def)

lemma active_snoc: "active (calls @ [c]) = active_step c (active calls)"
  by (simp add: active_def)

lemma job_fields [simp]:
  "pj_Args (sync_job env k r) = AdvisorySyncArgs k" "pj_ID (sync_job env k r) = ''advisory-sync-'' @ k"
  "pj_Args (ssh_job k f r) = SSHPullArgs k" "pj_ID (ssh_job k f r) = ''ssh-pull-'' @ k" "pj_RunOnStart (ssh_job k f r) = r"
  "pj_RunOnStart (sync_job env k r) = r" "pj_Args (email_job hr) = SendReportArgs" "pj_ID (email_job hr) = ''email-report''"
  by (simp_all add: sync_job_def ssh_job_def email_job_def)

lemma manager_fields [simp]:
  "pm_calls (call_river c p) = pm_calls p @ [c]" "pm_syncJobs (call_river c p) = pm_syncJobs p"
  "pm_sshJobs (call_river c p) = pm_sshJobs p"
  by (simp_all add: call_river_def)

lemma known_job_call [simp]: "known_job env (call_river c p) = known_job env p"
  by (simp add: known_job_def fun_eq_iff split: job_args.splits)

lemma active_Removed: "active (calls @ [Removed h]) h' = Some job \<longleftrightarrow> h' \<noteq> h \<and> active calls h' = Some job"
  by (simp add: active_snoc)

lemma jobs_okI:
  assumes "\<And>h job. active (pm_calls p) h = Some job \<Longrightarrow> known_job env p h job"
    and "\<And>k h. pm_syncJobs p k = Some h \<Longrightarrow> \<exists>r. active (pm_calls p) h = Some (sync_job env k r)"
    and "\<And>k info. pm_sshJobs p k = Some info \<Longrightarrow>
      \<exists>r. active (pm_calls p) (sj_handle info) = Some (ssh_job k (sj_frequencyMinutes info) r)"
    and "\<And>h h' job job'. active (pm_calls p) h = Some job \<Longrightarrow> active (pm_calls p) h' = Some job' \<Longrightarrow>
      pj_Args job = SendReportArgs \<Longrightarrow> pj_Args job' = SendReportArgs \<Longrightarrow> h = h'"
  shows "jobs_ok env p"
  using assms by (simp add: jobs_ok_def)

lemma known_job_id:
  assumes "known_job env p h job"
  shows "pj_ID job = (case pj_Args job of AdvisorySyncArgs k \<Rightarrow> ''advisory-sync-'' @ k | SSHPullArgs k \<Rightarrow> ''ssh-pull-'' @ k
    | SendReportArgs \<Rightarrow> ''email-report'')"
proof (cases "pj_Args job")
  case (AdvisorySyncArgs k)
  then have "job = sync_job env k (pj_RunOnStart job)" using assms by (simp add: known_job_def)
  then have "pj_ID job = ''advisory-sync-'' @ k" by (metis job_fields(2))
  with AdvisorySyncArgs show ?thesis by simp
next
  case (SSHPullArgs k)
  then obtain f where "job = ssh_job k f (pj_RunOnStart job)" using assms by (auto simp: known_job_def split: option.splits)
  then have "pj_ID job = ''ssh-pull-'' @ k" by (metis job_fields(4))
  with SSHPullArgs show ?thesis by simp
next
  case SendReportArgs
  then show ?thesis using assms by (simp add: known_job_def)
qed

lemma New_ok: "jobs_ok env NewPeriodicJobManager"
  by (simp add: jobs_ok_def NewPeriodicJobManager_def active_def)

text \<open>The calls the methods are made of keep the agreement.\<close>

lemma add_sync_ok:
  assumes "jobs_ok env p" "pm_syncJobs p k = None" "active (pm_calls p) h = None"
  shows "jobs_ok env ((call_river (Added (sync_job env k r) h) p)\<lparr>pm_syncJobs := (pm_syncJobs p)(k \<mapsto> h)\<rparr>)"
  using assms jobs_okD [OF assms(1)] unfolding jobs_ok_def
  by (auto simp: active_snoc known_job_def split: if_splits job_args.splits) fastforce+

lemma add_ssh_ok:
  assumes "jobs_ok env p" "pm_sshJobs p k = None" "active (pm_calls p) h = None"
  shows "jobs_ok env ((call_river (Added (ssh_job k f r) h) p)
    \<lparr>pm_sshJobs := (pm_sshJobs p)(k \<mapsto> \<lparr>sj_handle = h, sj_frequencyMinutes = f\<rparr>)\<rparr>)"
  using assms jobs_okD [OF assms(1)] unfolding jobs_ok_def
  by (auto simp: active_snoc known_job_def split: if_splits job_args.splits) fastforce+

lemma remove_sync_ok:
  assumes "jobs_ok env p" "pm_syncJobs p k = Some h"
  shows "jobs_ok env ((call_river (Removed h) p)\<lparr>pm_syncJobs := (pm_syncJobs p)(k := None)\<rparr>)"
proof -
  obtain r where r: "active (pm_calls p) h = Some (sync_job env k r)" using jobs_okD(2) [OF assms] by blast
  have only: "pm_syncJobs p k' \<noteq> Some h" if "k' \<noteq> k" for k'
    using jobs_okD(2) [OF assms(1), of k' h] r that by (metis job_fields(1) job_args.inject(1) option.inject)
  have ssh: "sj_handle info \<noteq> h" if "pm_sshJobs p k' = Some info" for k' info
    using jobs_okD(3) [OF assms(1) that] r by (metis job_fields(1) job_fields(3) job_args.distinct(1) option.inject)
  show ?thesis
  proof (rule jobs_okI, goal_cases)
    case (1 h' job)
    then show ?case using jobs_okD(1) [OF assms(1), of h' job] assms(2)
      by (auto simp: active_Removed known_job_def split: job_args.splits option.splits)
  next
    case (2 k' h')
    then show ?case using jobs_okD(2) [OF assms(1), of k' h'] only by (auto simp: active_Removed split: if_splits)
  next
    case (3 k' info)
    then show ?case using jobs_okD(3) [OF assms(1), of k' info] ssh by (auto simp: active_Removed)
  next
    case (4 h1 h2 job job')
    then show ?case using jobs_okD(4) [OF assms(1), of h1 job h2 job'] by (auto simp: active_Removed)
  qed
qed

lemma remove_ssh_ok:
  assumes "jobs_ok env p" "pm_sshJobs p k = Some info"
  shows "jobs_ok env ((call_river (Removed (sj_handle info)) p)\<lparr>pm_sshJobs := (pm_sshJobs p)(k := None)\<rparr>)"
proof -
  let ?h = "sj_handle info"
  obtain r where r: "active (pm_calls p) ?h = Some (ssh_job k (sj_frequencyMinutes info) r)" using jobs_okD(3) [OF assms] by blast
  have only: "sj_handle info' \<noteq> ?h" if "k' \<noteq> k" "pm_sshJobs p k' = Some info'" for k' info'
    using jobs_okD(3) [OF assms(1) that(2)] r that(1) by (metis job_fields(3) job_args.inject(2) option.inject)
  have sync: "pm_syncJobs p k' \<noteq> Some ?h" for k'
    using jobs_okD(2) [OF assms(1), of k' ?h] r by (metis job_fields(1) job_fields(3) job_args.distinct(1) option.inject)
  show ?thesis
  proof (rule jobs_okI, goal_cases)
    case (1 h' job)
    then show ?case using jobs_okD(1) [OF assms(1), of h' job] assms(2)
      by (auto simp: active_Removed known_job_def split: job_args.splits option.splits)
  next
    case (2 k' h')
    then show ?case using jobs_okD(2) [OF assms(1), of k' h'] sync by (auto simp: active_Removed)
  next
    case (3 k' info')
    then show ?case using jobs_okD(3) [OF assms(1), of k' info'] only by (auto simp: active_Removed split: if_splits)
  next
    case (4 h1 h2 job job')
    then show ?case using jobs_okD(4) [OF assms(1), of h1 job h2 job'] by (auto simp: active_Removed)
  qed
qed

text \<open>Removing by identifier a job the manager does not know changes nothing in the queue.\<close>

lemma active_remove_id:
  assumes "\<And>h job. active calls h = Some job \<Longrightarrow> pj_ID job \<noteq> i"
  shows "active (calls @ [RemovedByID i]) = active calls"
  using assms by (fastforce simp: active_snoc split: option.splits)

lemma remove_id_ok:
  assumes "jobs_ok env p" "\<And>h job. active (pm_calls p) h = Some job \<Longrightarrow> pj_ID job \<noteq> i"
  shows "jobs_ok env (call_river (RemovedByID i) p)"
proof -
  have "active (pm_calls p @ [RemovedByID i]) = active (pm_calls p)" by (rule active_remove_id) (rule assms(2))
  with assms(1) show ?thesis by (simp add: jobs_ok_def)
qed

lemma unknown_sync_id:
  assumes "jobs_ok env p" "pm_syncJobs p k = None" "active (pm_calls p) h = Some job"
  shows "pj_ID job \<noteq> ''advisory-sync-'' @ k"
proof -
  have k: "known_job env p h job" by (rule jobs_okD(1) [OF assms(1,3)])
  from known_job_id [OF k] k assms(2) show ?thesis
    by (cases "pj_Args job") (simp_all add: known_job_def, auto)
qed

lemma unknown_ssh_id:
  assumes "jobs_ok env p" "pm_sshJobs p k = None" "active (pm_calls p) h = Some job"
  shows "pj_ID job \<noteq> ''ssh-pull-'' @ k"
proof -
  have k: "known_job env p h job" by (rule jobs_okD(1) [OF assms(1,3)])
  from known_job_id [OF k] k assms(2) show ?thesis
    by (cases "pj_Args job") (simp_all add: known_job_def, auto)
qed

lemma remove_email_ok:
  assumes "jobs_ok env p"
  shows "jobs_ok env (call_river (RemovedByID ''email-report'') p)"
    and "\<And>h job. active (pm_calls p @ [RemovedByID ''email-report'']) h = Some job \<Longrightarrow> pj_Args job \<noteq> SendReportArgs"
proof -
  have act: "active (pm_calls p @ [RemovedByID ''email-report'']) h = Some job \<longleftrightarrow>
      active (pm_calls p) h = Some job \<and> pj_ID job \<noteq> ''email-report''" for h job
    by (auto simp: active_snoc split: option.splits if_splits)
  show "\<And>h job. active (pm_calls p @ [RemovedByID ''email-report'']) h = Some job \<Longrightarrow> pj_Args job \<noteq> SendReportArgs"
    using jobs_okD(1) [OF assms] by (fastforce simp: act dest: known_job_id)
  show "jobs_ok env (call_river (RemovedByID ''email-report'') p)"
    using jobs_okD [OF assms] by (intro jobs_okI) (auto simp: act)
qed

lemma add_email_ok:
  assumes "jobs_ok env p" "active (pm_calls p) h = None"
    and "\<And>h job. active (pm_calls p) h = Some job \<Longrightarrow> pj_Args job \<noteq> SendReportArgs"
  shows "jobs_ok env (call_river (Added (email_job hr) h) p)"
  using assms jobs_okD [OF assms(1)] unfolding jobs_ok_def
  by (auto simp: active_snoc known_job_def split: if_splits job_args.splits) fastforce+

section \<open>Every method keeps the agreement\<close>

lemma AddAdvisorySyncJob_ok:
  assumes "handles_fresh env" "jobs_ok env p"
  shows "jobs_ok env (fst (AddAdvisorySyncJob env k r p))"
  using assms add_sync_ok [OF assms(2)]
  by (auto simp: AddAdvisorySyncJob_def Let_def handles_fresh_def split: option.splits)

lemma RemoveAdvisorySyncJob_ok:
  assumes "jobs_ok env p"
  shows "jobs_ok env (fst (RemoveAdvisorySyncJob env k p))"
  using assms remove_sync_ok [OF assms] remove_id_ok [OF assms] unknown_sync_id [OF assms]
  by (auto simp: RemoveAdvisorySyncJob_def split: option.splits)

lemma add_ssh_job_ok:
  assumes "handles_fresh env" "jobs_ok env p" "pm_sshJobs p k = None"
  shows "jobs_ok env (fst (add_ssh_job env k f r p))"
  using assms add_ssh_ok [OF assms(2,3)] by (auto simp: add_ssh_job_def Let_def handles_fresh_def split: option.splits)

lemma AddSSHPullJob_ok:
  assumes "handles_fresh env" "jobs_ok env p"
  shows "jobs_ok env (fst (AddSSHPullJob env k f r p))"
  using assms add_ssh_job_ok [OF assms] add_ssh_job_ok [OF assms(1) remove_ssh_ok [OF assms(2)]]
  by (auto simp: AddSSHPullJob_def split: option.splits)

lemma RemoveSSHPullJob_ok:
  assumes "jobs_ok env p"
  shows "jobs_ok env (fst (RemoveSSHPullJob env k p))"
  using assms remove_ssh_ok [OF assms] remove_id_ok [OF assms] unknown_ssh_id [OF assms]
  by (auto simp: RemoveSSHPullJob_def split: option.splits)

lemma SetEmailReportJob_ok:
  assumes "handles_fresh env" "jobs_ok env p"
  shows "jobs_ok env (fst (SetEmailReportJob env frequency smtp p))"
proof -
  note rem = remove_email_ok [OF assms(2)]
  have "jobs_ok env (call_river (Added (email_job hr) h) (call_river (RemovedByID ''email-report'') p))"
    if "rv_add env (pm_calls p @ [RemovedByID ''email-report'']) (email_job hr) = Some h" for hr h
    using that assms(1) rem(2) by (intro add_email_ok rem(1)) (auto simp: handles_fresh_def)
  with assms(2) rem(1) show ?thesis
    by (simp add: SetEmailReportJob_def Let_def split: option.split sum.split)
qed

lemma fold_keeps: "(\<And>x p. P p \<Longrightarrow> P (f x p)) \<Longrightarrow> P p \<Longrightarrow> P (fold f xs p)"
  by (induction xs arbitrary: p) auto

lemma Initialize_ok:
  assumes "handles_fresh env" "jobs_ok env p"
  shows "jobs_ok env (fst (Initialize env scopes hosts settings p))"
proof -
  have sync: "jobs_ok env (fold (\<lambda>k p. fst (AddAdvisorySyncJob env k False p)) ks p)" for ks
    by (rule fold_keeps [where P = "jobs_ok env"]) (simp_all add: AddAdvisorySyncJob_ok assms)
  have ssh: "jobs_ok env (fold (\<lambda>(k, f) p. fst (AddSSHPullJob env k (pull_frequency f) False p)) hs q)" if "jobs_ok env q" for hs q
    by (rule fold_keeps [where P = "jobs_ok env"]) (simp_all add: AddSSHPullJob_ok assms(1) that split: prod.split)
  show ?thesis
    using assms SetEmailReportJob_ok [OF assms(1) ssh [OF sync]] ssh [OF sync] sync
    by (simp add: Initialize_def Let_def split: option.split)
qed

inductive manager_reach :: "river_env \<Rightarrow> PeriodicJobManager \<Rightarrow> bool" for env where
  start: "manager_reach env NewPeriodicJobManager"
| initialize: "manager_reach env p \<Longrightarrow> manager_reach env (fst (Initialize env scopes hosts settings p))"
| add_sync: "manager_reach env p \<Longrightarrow> manager_reach env (fst (AddAdvisorySyncJob env k r p))"
| remove_sync: "manager_reach env p \<Longrightarrow> manager_reach env (fst (RemoveAdvisorySyncJob env k p))"
| add_ssh: "manager_reach env p \<Longrightarrow> manager_reach env (fst (AddSSHPullJob env k f r p))"
| remove_ssh: "manager_reach env p \<Longrightarrow> manager_reach env (fst (RemoveSSHPullJob env k p))"
| set_email: "manager_reach env p \<Longrightarrow> manager_reach env (fst (SetEmailReportJob env frequency smtp p))"

lemma manager_reach_ok:
  assumes "handles_fresh env" "manager_reach env p"
  shows "jobs_ok env p"
  using assms(2)
  by induction (simp_all add: New_ok Initialize_ok AddAdvisorySyncJob_ok RemoveAdvisorySyncJob_ok AddSSHPullJob_ok
    RemoveSSHPullJob_ok SetEmailReportJob_ok assms(1))

lemma jobs_ok_ids_unique:
  assumes ok: "jobs_ok env p" and "active (pm_calls p) h = Some job" "active (pm_calls p) h' = Some job'" "pj_ID job = pj_ID job'"
  shows "h = h'"
proof -
  have k: "known_job env p h job" "known_job env p h' job'" using jobs_okD(1) [OF ok] assms(2,3) by blast+
  have "pj_Args job = pj_Args job'"
    using known_job_id [OF k(1)] known_job_id [OF k(2)] assms(4) by (cases "pj_Args job"; cases "pj_Args job'") simp_all
  then show ?thesis
    using k jobs_okD(4) [OF ok assms(2,3)]
    by (cases "pj_Args job"; cases "pj_Args job'") (auto simp: known_job_def split: option.splits)
qed


text \<open>A queue that numbers the jobs it accepts.\<close>

definition next_handle :: "river_call list \<Rightarrow> nat" where
  "next_handle calls = fold (\<lambda>c m. case c of Added _ h \<Rightarrow> max (Suc h) m | _ \<Rightarrow> m) calls 0"

definition sample_river :: river_env where
  "sample_river = \<lparr>rv_client = (\<lambda>_. True), rv_add = (\<lambda>calls _. Some (next_handle calls)), rv_refresh = 3600000000000\<rparr>"

lemma active_next_handle: "active calls h = Some job \<Longrightarrow> h < next_handle calls"
proof (induction calls arbitrary: h job rule: rev_induct)
  case (snoc c calls)
  then show ?case
    by (cases c) (fastforce simp: active_snoc next_handle_def less_max_iff_disj split: if_splits option.splits)+
qed (simp add: active_def)

lemma sample_river_fresh: "handles_fresh sample_river"
  using active_next_handle by (fastforce simp: handles_fresh_def sample_river_def)


section \<open>Intervals\<close>

text \<open>The interval of a pull job is the frequency in minutes for every frequency up to 153722867 minutes (292 years);
  the next larger one, which \<open>UpdateHost\<close> accepts, overflows to a negative interval. The daily report is scheduled after
  the given time, at most a day later and at the hour of the settings.\<close>

theorem schedule_bounds:
  "(0 < f \<and> f \<le> 153722867 \<longrightarrow> ssh_interval f = f * 60000000000 \<and> ssh_interval f > 0) \<and>
   ssh_interval 153722868 < 0 \<and>
   (0 \<le> hour \<and> hour < 24 \<longrightarrow>
      current < daily_Next hour 0 current \<and> daily_Next hour 0 current \<le> current + nanos_day \<and>
      daily_Next hour 0 current mod nanos_day = hour * nanos_hour)"
proof (intro conjI impI; (elim conjE)?)
  assume f: "0 < f" "f \<le> 153722867"
  have "sint (word_of_int (f * 60000000000) :: 64 word) = f * 60000000000"
    using f signed_take_bit_int_eq_self [of 63 "f * 60000000000"] by (simp only: sint_sbintrunc') simp
  then show "ssh_interval f = f * 60000000000" by (simp add: ssh_interval_def)
  with f show "ssh_interval f > 0" by simp
next
  show "ssh_interval 153722868 < 0" unfolding ssh_interval_def by code_simp
next
  assume h: "0 \<le> hour" "hour < 24"
  let ?d = "current div nanos_day * nanos_day" and ?h = "hour * nanos_hour"
  have d: "?d \<le> current" "current < ?d + nanos_day"
    using minus_mod_eq_div_mult [of current nanos_day] pos_mod_bound [of nanos_day current] pos_mod_sign [of nanos_day current]
    by (simp_all add: nanos_day_def)
  have hd: "0 \<le> ?h" "?h < nanos_day" using h by (simp_all add: nanos_hour_def nanos_day_def)
  show "current < daily_Next hour 0 current" "daily_Next hour 0 current \<le> current + nanos_day"
    using d hd by (auto simp: daily_Next_def Let_def)
  have "(?d + ?h) mod nanos_day = ?h" "(?d + ?h + nanos_day) mod nanos_day = ?h" using hd by simp_all
  then show "daily_Next hour 0 current mod nanos_day = ?h" by (simp add: daily_Next_def Let_def)
qed

theorem schedule_bounds_witness:
  "ssh_interval 360 = 360 * 60000000000 \<and> 1767225600000000001 < daily_Next 8 0 1767225600000000001"
  using schedule_bounds [of 360 8 1767225600000000001] by simp

end
