(* ===== verification/Advisory_Scopes.thy ===== *)
theory Advisory_Scopes
  imports Data_Model Event_Bus Periodic_Jobs
begin

text \<open>
  The scopes of \<open>internal/services/advisory_sync.go\<close>: which scope a host belongs to (\<open>ResolveScopeKey\<close>), the demand
  for a scope (\<open>RegisterScopeDemand\<close>), a manual synchronization, the status pages, and the statements of
  \<open>internal/sql/advisory_scopes.sql.go\<close> on the table as a list of rows. The synchronization itself is in
  \<open>Advisory_Import\<close>.
\<close>

section \<open>Scope mappings\<close>

record MatchRules =
  mt_OSFamily :: string
  mt_OSName :: string
  mt_OSVersion :: string
  mt_OSMajor :: int
  mt_Architecture :: string

record ScopeMapping =
  sm_Match :: MatchRules
  sm_Scope :: string

definition os_mapping :: "string \<Rightarrow> string \<Rightarrow> int \<Rightarrow> string \<Rightarrow> ScopeMapping" where
  "os_mapping osName osVersion osMajor scope =
     \<lparr>sm_Match = \<lparr>mt_OSFamily = [], mt_OSName = osName, mt_OSVersion = osVersion, mt_OSMajor = osMajor, mt_Architecture = []\<rparr>,
      sm_Scope = scope\<rparr>"

definition defaultScopeMappings :: "ScopeMapping list" where
  "defaultScopeMappings =
     [os_mapping ''Ubuntu'' ''22.04'' 0 ''ubuntu:jammy'',
      os_mapping ''Ubuntu'' ''24.04'' 0 ''ubuntu:noble'',
      os_mapping ''Ubuntu'' ''26.04'' 0 ''ubuntu:resolute'',
      os_mapping ''Debian GNU/Linux'' [] 12 ''debian:bookworm-dsa'',
      os_mapping ''Debian GNU/Linux'' [] 13 ''debian:trixie-dsa'',
      os_mapping ''Rocky Linux'' [] 9 ''rocky:9'',
      os_mapping ''Rocky Linux'' [] 10 ''rocky:10'',
      os_mapping ''AlmaLinux'' [] 9 ''alma:9'',
      os_mapping ''AlmaLinux'' [] 10 ''alma:10'',
      os_mapping ''Red Hat Enterprise Linux'' [] 9 ''rhel:9'',
      os_mapping ''Red Hat Enterprise Linux'' [] 10 ''rhel:10'']"

definition mappings_or_default :: "ScopeMapping list \<Rightarrow> ScopeMapping list" where
  "mappings_or_default mappings = (if mappings = [] then defaultScopeMappings else mappings)"

definition mapping_matches :: "MatchRules \<Rightarrow> string \<Rightarrow> string \<Rightarrow> string \<Rightarrow> int \<Rightarrow> string \<Rightarrow> bool" where
  "mapping_matches m osFamily osName osVersion osMajor arch \<longleftrightarrow>
     \<not> (mt_OSFamily m \<noteq> [] \<and> \<not> EqualFold (mt_OSFamily m) osFamily) \<and>
     \<not> (mt_OSName m \<noteq> [] \<and> \<not> Contains (ToLower osName) (ToLower (mt_OSName m))) \<and>
     \<not> (mt_OSVersion m \<noteq> [] \<and> \<not> Contains (ToLower osVersion) (ToLower (mt_OSVersion m))) \<and>
     \<not> (mt_OSMajor m \<noteq> 0 \<and> mt_OSMajor m \<noteq> osMajor) \<and>
     \<not> (mt_Architecture m \<noteq> [] \<and> \<not> EqualFold (mt_Architecture m) arch)"

fun resolve_loop :: "ScopeMapping list \<Rightarrow> string \<Rightarrow> string \<Rightarrow> string \<Rightarrow> int \<Rightarrow> string \<Rightarrow> string" where
  "resolve_loop [] osFamily osName osVersion osMajor arch = []"
| "resolve_loop (mapping # ms) osFamily osName osVersion osMajor arch =
     (if mapping_matches (sm_Match mapping) osFamily osName osVersion osMajor arch then sm_Scope mapping
      else resolve_loop ms osFamily osName osVersion osMajor arch)"

text \<open>\<open>configured\<close> is \<open>config.AdvisorySync.ScopeMappings\<close>; the method returns no error.\<close>

definition ResolveScopeKey :: "ScopeMapping list \<Rightarrow> string \<Rightarrow> string \<Rightarrow> string \<Rightarrow> int \<Rightarrow> string \<Rightarrow> string" where
  "ResolveScopeKey configured osFamily osName osVersion osMajor arch =
     resolve_loop (mappings_or_default configured) osFamily osName osVersion osMajor arch"

fun major_of_mapping :: "ScopeMapping list \<Rightarrow> string \<Rightarrow> int option" where
  "major_of_mapping [] scopeKey = None"
| "major_of_mapping (m # ms) scopeKey =
     (if sm_Scope m = scopeKey then
        if mt_OSMajor (sm_Match m) \<noteq> 0 then Some (mt_OSMajor (sm_Match m))
        else if mt_OSVersion (sm_Match m) \<noteq> [] then
          (case ParseInt 64 (hd (Split1 (mt_OSVersion (sm_Match m)) (CHR ''.''))) of
             Some major \<Rightarrow> Some (to_int32 major)
           | None \<Rightarrow> major_of_mapping ms scopeKey)
        else major_of_mapping ms scopeKey
      else major_of_mapping ms scopeKey)"

definition getMajorVersionFromScopeKey :: "string \<Rightarrow> ScopeMapping list \<Rightarrow> int" where
  "getMajorVersionFromScopeKey scopeKey mappings =
     (case major_of_mapping (mappings_or_default mappings) scopeKey of
        Some major \<Rightarrow> major
      | None \<Rightarrow>
          (case Split1 scopeKey (CHR '':'') of
             [_, version] \<Rightarrow> (case ParseInt 64 version of Some major \<Rightarrow> to_int32 major | None \<Rightarrow> 0)
           | _ \<Rightarrow> 0))"

definition isValidSha256Hex :: "string \<Rightarrow> bool" where
  "isValidSha256Hex s \<longleftrightarrow> length s = 64 \<and>
     list_all (\<lambda>c. 48 \<le> byte c \<and> byte c \<le> 57 \<or> 97 \<le> byte c \<and> byte c \<le> 102 \<or> 65 \<le> byte c \<and> byte c \<le> 70) s"

section \<open>The table\<close>

record AdvisoryScope =
  sc_ScopeKey :: string
  sc_Status :: string
  sc_LastSyncAt :: "int option"
  sc_LastSuccessAt :: "int option"
  sc_LastError :: "string option"
  sc_AdvisoryCount :: int
  sc_Sha256 :: "string option"
  sc_SizeBytes :: int
  sc_LocalPath :: "string option"
  sc_NextRefreshAt :: "int option"

text \<open>A row with the column defaults.\<close>

definition new_scope :: "string \<Rightarrow> string \<Rightarrow> AdvisoryScope" where
  "new_scope scopeKey status =
     \<lparr>sc_ScopeKey = scopeKey, sc_Status = status, sc_LastSyncAt = None, sc_LastSuccessAt = None, sc_LastError = None,
      sc_AdvisoryCount = 0, sc_Sha256 = None, sc_SizeBytes = 0, sc_LocalPath = None, sc_NextRefreshAt = None\<rparr>"

definition has_scope :: "string \<Rightarrow> AdvisoryScope list \<Rightarrow> bool" where
  "has_scope k scopes \<longleftrightarrow> (\<exists>s \<in> set scopes. sc_ScopeKey s = k)"

definition update_scope :: "string \<Rightarrow> (AdvisoryScope \<Rightarrow> AdvisoryScope) \<Rightarrow> AdvisoryScope list \<Rightarrow> AdvisoryScope list" where
  "update_scope k f scopes = map (\<lambda>s. if sc_ScopeKey s = k then f s else s) scopes"

definition GetAdvisoryScope :: "string \<Rightarrow> AdvisoryScope list \<Rightarrow> AdvisoryScope option" where
  "GetAdvisoryScope k scopes = find (\<lambda>s. sc_ScopeKey s = k) scopes"

definition InsertAdvisoryScopeIfNotExists :: "string \<Rightarrow> string \<Rightarrow> AdvisoryScope list \<Rightarrow> AdvisoryScope list" where
  "InsertAdvisoryScopeIfNotExists k status scopes = (if has_scope k scopes then scopes else scopes @ [new_scope k status])"

text \<open>\<open>UPDATE ... RETURNING\<close>: no row is an error.\<close>

definition UpdateAdvisoryScopeStatus :: "string \<Rightarrow> string \<Rightarrow> string option \<Rightarrow> AdvisoryScope list \<Rightarrow> AdvisoryScope list option" where
  "UpdateAdvisoryScopeStatus k status lastError scopes =
     (if has_scope k scopes then Some (update_scope k (\<lambda>s. s\<lparr>sc_Status := status, sc_LastError := lastError\<rparr>) scopes) else None)"

definition UpsertAdvisoryScopeStatus :: "string \<Rightarrow> string \<Rightarrow> string option \<Rightarrow> AdvisoryScope list \<Rightarrow> AdvisoryScope list" where
  "UpsertAdvisoryScopeStatus k status lastError scopes =
     (if has_scope k scopes then update_scope k (\<lambda>s. s\<lparr>sc_Status := status, sc_LastError := lastError\<rparr>) scopes
      else scopes @ [(new_scope k status)\<lparr>sc_LastError := lastError\<rparr>])"

definition coalesce :: "'a option \<Rightarrow> 'a option \<Rightarrow> 'a option" where
  "coalesce a b = (case a of None \<Rightarrow> b | Some _ \<Rightarrow> a)"

definition UpsertAdvisoryScope :: "AdvisoryScope \<Rightarrow> AdvisoryScope list \<Rightarrow> AdvisoryScope list" where
  "UpsertAdvisoryScope new scopes =
     (if has_scope (sc_ScopeKey new) scopes
      then update_scope (sc_ScopeKey new) (\<lambda>old. new
             \<lparr>sc_LastSyncAt := coalesce (sc_LastSyncAt new) (sc_LastSyncAt old),
              sc_LastSuccessAt := coalesce (sc_LastSuccessAt new) (sc_LastSuccessAt old),
              sc_Sha256 := coalesce (sc_Sha256 new) (sc_Sha256 old),
              sc_LocalPath := coalesce (sc_LocalPath new) (sc_LocalPath old),
              sc_NextRefreshAt := coalesce (sc_NextRefreshAt new) (sc_NextRefreshAt old)\<rparr>) scopes
      else scopes @ [new])"

definition ListAdvisoryScopes :: "AdvisoryScope list \<Rightarrow> AdvisoryScope list" where
  "ListAdvisoryScopes scopes = sort_key sc_ScopeKey scopes"

text \<open>Each scope with the number of hosts that use it, an \<open>int\<close> of PostgreSQL.\<close>

definition ListAdvisoryScopeStats :: "Host list \<Rightarrow> AdvisoryScope list \<Rightarrow> (AdvisoryScope \<times> int) list" where
  "ListAdvisoryScopeStats hosts scopes =
     map (\<lambda>s. (s, int (length (filter (\<lambda>h. host_AdvisoryScopeKey h = Some (sc_ScopeKey s)) hosts)))) (sort_key sc_ScopeKey scopes)"

section \<open>Operations\<close>

datatype scope_error = ScopeStatementFailed | ScopeJobFailed periodic_error | ScopeBeginFailed | ScopeInsertJobFailed | ScopeCommitFailed | NoJobClient

text \<open>The scopes and the periodic jobs; \<open>insertFails\<close> says whether the statement fails.\<close>

definition RegisterScopeDemand ::
  "river_env \<Rightarrow> bool \<Rightarrow> string \<Rightarrow> AdvisoryScope list \<times> PeriodicJobManager \<Rightarrow>
   (AdvisoryScope list \<times> PeriodicJobManager) \<times> scope_error option" where
  "RegisterScopeDemand env insertFails scopeKey s =
     (if scopeKey = [] then (s, None)
      else if insertFails then (s, Some ScopeStatementFailed)
      else let scopes = InsertAdvisoryScopeIfNotExists scopeKey ''pending'' (fst s);
               (p, err) = AddAdvisorySyncJob env scopeKey True (snd s)
           in ((scopes, p), map_option ScopeJobFailed err))"

record manual_sync_env =
  ms_client :: bool
  ms_beginFails :: bool
  ms_upsertFails :: bool
  ms_insertJobFails :: bool
  ms_commitFails :: bool

text \<open>The job inserted in the transaction is listed in \<open>jobs\<close>; registering the periodic job is only logged when it
  fails.\<close>

definition TriggerManualSync ::
  "river_env \<Rightarrow> manual_sync_env \<Rightarrow> string \<Rightarrow> AdvisoryScope list \<times> PeriodicJobManager \<times> string list \<Rightarrow>
   (AdvisoryScope list \<times> PeriodicJobManager \<times> string list) \<times> scope_error option" where
  "TriggerManualSync env m scopeKey s =
     (if \<not> ms_client m then (s, Some NoJobClient)
      else if ms_beginFails m then (s, Some ScopeBeginFailed)
      else if ms_upsertFails m then (s, Some ScopeStatementFailed)
      else if ms_insertJobFails m then (s, Some ScopeInsertJobFailed)
      else if ms_commitFails m then (s, Some ScopeCommitFailed)
      else case s of (scopes, p, jobs) \<Rightarrow>
        ((UpsertAdvisoryScopeStatus scopeKey ''pending'' None scopes, fst (AddAdvisorySyncJob env scopeKey False p), jobs @ [scopeKey]), None))"

record AdvisoryScopeStatus =
  st_ScopeKey :: string
  st_Status :: string
  st_LastSyncAt :: "int option"
  st_LastSuccessAt :: "int option"
  st_LastError :: "string option"
  st_AdvisoryCount :: int
  st_Sha256 :: "string option"
  st_SizeBytes :: int
  st_LocalPath :: "string option"
  st_NextRefreshAt :: "int option"
  st_HostUsageCount :: int

definition GetScopeStatuses :: "bool \<Rightarrow> Host list \<Rightarrow> AdvisoryScope list \<Rightarrow> scope_error + AdvisoryScopeStatus list" where
  "GetScopeStatuses fails hosts scopes =
     (if fails then Inl ScopeStatementFailed
      else Inr (map (\<lambda>(r, n).
        \<lparr>st_ScopeKey = sc_ScopeKey r, st_Status = sc_Status r, st_LastSyncAt = sc_LastSyncAt r, st_LastSuccessAt = sc_LastSuccessAt r,
         st_LastError = sc_LastError r, st_AdvisoryCount = sc_AdvisoryCount r, st_Sha256 = sc_Sha256 r, st_SizeBytes = sc_SizeBytes r,
         st_LocalPath = sc_LocalPath r, st_NextRefreshAt = sc_NextRefreshAt r, st_HostUsageCount = n\<rparr>)
        (ListAdvisoryScopeStats hosts scopes)))"

record AdvisoryOverview =
  ov_TotalAdvisories :: int
  ov_TotalScopes :: int
  ov_SyncedScopes :: int

definition overview_step :: "AdvisoryScope \<Rightarrow> int \<times> int \<Rightarrow> int \<times> int" where
  "overview_step r acc = (fst acc + sc_AdvisoryCount r, if sc_Status r = ''synced'' then inc32 (snd acc) else snd acc)"

definition GetOverview :: "bool \<Rightarrow> AdvisoryScope list \<Rightarrow> scope_error + AdvisoryOverview" where
  "GetOverview fails scopes =
     (if fails then Inl ScopeStatementFailed
      else let rows = ListAdvisoryScopes scopes; (total, synced) = fold overview_step rows (0, 0)
           in Inr \<lparr>ov_TotalAdvisories = total, ov_TotalScopes = to_int32 (int (length rows)), ov_SyncedScopes = synced\<rparr>)"

section \<open>Resolution\<close>

lemma resolve_loop_first:
  "resolve_loop ms f n v m a =
     (case find (\<lambda>x. mapping_matches (sm_Match x) f n v m a) ms of None \<Rightarrow> [] | Some x \<Rightarrow> sm_Scope x)"
  by (induction ms) auto

lemma resolve_loop_Some:
  "resolve_loop ms f n v m a = k \<Longrightarrow> k \<noteq> [] \<Longrightarrow> \<exists>x \<in> set ms. sm_Scope x = k \<and> mapping_matches (sm_Match x) f n v m a"
  by (induction ms) (auto split: if_splits)

lemma default_majors:
  "list_all (\<lambda>x. let g = getMajorVersionFromScopeKey (sm_Scope x) [] in
     mt_OSMajor (sm_Match x) \<noteq> 0 \<and> mt_OSMajor (sm_Match x) = g \<or>
     mt_OSName (sm_Match x) = ''Ubuntu'' \<and> mt_OSVersion (sm_Match x) \<noteq> [] \<and> ToLower (mt_OSVersion (sm_Match x)) = Itoa g @ ''.04'')
   defaultScopeMappings"
  by code_simp

lemma default_mapping_major:
  assumes "x \<in> set defaultScopeMappings" "mapping_matches (sm_Match x) f n v m a"
  shows "getMajorVersionFromScopeKey (sm_Scope x) [] = m \<or>
    mt_OSName (sm_Match x) = ''Ubuntu'' \<and> Contains (ToLower v) (Itoa (getMajorVersionFromScopeKey (sm_Scope x) []) @ ''.04'')"
  using bspec [OF default_majors [unfolded list_all_iff] assms(1)] assms(2) unfolding mapping_matches_def Let_def by metis

text \<open>A host gets the scope of the first mapping its operating system matches, and none if there is none. With the
  built-in mappings the major version that the import of a scope cleans up is the major version of every host of the
  scope; an Ubuntu host instead has that number in its version.\<close>

theorem ResolveScopeKey_spec:
  "ResolveScopeKey configured f n v m a =
     (case find (\<lambda>x. mapping_matches (sm_Match x) f n v m a) (mappings_or_default configured) of None \<Rightarrow> [] | Some x \<Rightarrow> sm_Scope x) \<and>
   (ResolveScopeKey [] f n v m a = k \<and> k \<noteq> [] \<longrightarrow>
      getMajorVersionFromScopeKey k [] = m \<or>
      Contains (ToLower n) ''ubuntu'' \<and> Contains (ToLower v) (Itoa (getMajorVersionFromScopeKey k []) @ ''.04''))"
proof (intro conjI impI)
  show "ResolveScopeKey configured f n v m a =
     (case find (\<lambda>x. mapping_matches (sm_Match x) f n v m a) (mappings_or_default configured) of None \<Rightarrow> [] | Some x \<Rightarrow> sm_Scope x)"
    by (simp add: ResolveScopeKey_def resolve_loop_first)
  assume "ResolveScopeKey [] f n v m a = k \<and> k \<noteq> []"
  then obtain x where x: "x \<in> set defaultScopeMappings" "sm_Scope x = k" "mapping_matches (sm_Match x) f n v m a"
    using resolve_loop_Some by (fastforce simp: ResolveScopeKey_def mappings_or_default_def)
  have "ToLower ''Ubuntu'' = ''ubuntu''" by code_simp
  with default_mapping_major [OF x(1,3)] x(2,3) show "getMajorVersionFromScopeKey k [] = m \<or>
      Contains (ToLower n) ''ubuntu'' \<and> Contains (ToLower v) (Itoa (getMajorVersionFromScopeKey k []) @ ''.04'')"
    by (auto simp: mapping_matches_def)
qed

theorem ResolveScopeKey_spec_witness:
  "ResolveScopeKey [] ''rpm'' ''Rocky Linux'' ''9.4'' 9 ''x86_64'' = ''rocky:9'' \<and> getMajorVersionFromScopeKey ''rocky:9'' [] = 9"
proof -
  have r: "ResolveScopeKey [] ''rpm'' ''Rocky Linux'' ''9.4'' 9 ''x86_64'' = ''rocky:9''" by code_simp
  have "\<not> Contains (ToLower ''Rocky Linux'') ''ubuntu''" by code_simp
  with r ResolveScopeKey_spec [of "[]" "''rpm''" "''Rocky Linux''" "''9.4''" 9 "''x86_64''" "''rocky:9''"] show ?thesis by blast
qed

section \<open>Demand\<close>

lemma has_scope_append [simp]: "has_scope k (xs @ ys) \<longleftrightarrow> has_scope k xs \<or> has_scope k ys"
  by (auto simp: has_scope_def)

lemma has_new_scope [simp]: "has_scope k [new_scope k st]"
  by (simp add: has_scope_def new_scope_def)

text \<open>When the demand for a scope is registered, the scope is in the table, every row that was there is unchanged, its
  synchronization is scheduled, and registering it again changes nothing.\<close>

theorem RegisterScopeDemand_idempotent:
  assumes "RegisterScopeDemand env insertFails k s = (t, None)" "k \<noteq> []"
  shows "has_scope k (fst t) \<and> (\<exists>new. fst t = fst s @ new \<and> (has_scope k (fst s) \<longrightarrow> new = [])) \<and>
    pm_syncJobs (snd t) k \<noteq> None \<and> RegisterScopeDemand env False k t = (t, None)"
proof -
  obtain p where p: "AddAdvisorySyncJob env k True (snd s) = (p, None)" and nf: "\<not> insertFails"
    and t: "t = (InsertAdvisoryScopeIfNotExists k ''pending'' (fst s), p)"
    using assms by (auto simp: RegisterScopeDemand_def Let_def split: if_splits prod.splits)
  have job: "pm_syncJobs p k \<noteq> None"
    using p by (auto simp: AddAdvisorySyncJob_def Let_def split: if_splits option.splits)
  then have "AddAdvisorySyncJob env k True p = (p, None)" by (auto simp: AddAdvisorySyncJob_def)
  then have "RegisterScopeDemand env False k t = (t, None)"
    using assms(2) by (simp add: RegisterScopeDemand_def t InsertAdvisoryScopeIfNotExists_def)
  moreover have "has_scope k (fst t)" "\<exists>new. fst t = fst s @ new \<and> (has_scope k (fst s) \<longrightarrow> new = [])"
    by (auto simp: t InsertAdvisoryScopeIfNotExists_def)
  ultimately show ?thesis using job t by simp
qed

theorem RegisterScopeDemand_idempotent_witness:
  "let s = ([new_scope ''rocky:9'' ''synced''], NewPeriodicJobManager); t = fst (RegisterScopeDemand sample_river False ''alma:9'' s) in
   has_scope ''alma:9'' (fst t) \<and> RegisterScopeDemand sample_river False ''alma:9'' t = (t, None)"
proof -
  let ?s = "([new_scope ''rocky:9'' ''synced''], NewPeriodicJobManager)"
  have "RegisterScopeDemand sample_river False ''alma:9'' ?s = (fst (RegisterScopeDemand sample_river False ''alma:9'' ?s), None)"
    by (simp add: RegisterScopeDemand_def AddAdvisorySyncJob_def sample_river_def NewPeriodicJobManager_def Let_def)
  from RegisterScopeDemand_idempotent [OF this] show ?thesis by (simp add: Let_def)
qed

end
