(* ===== verification/Advisory_Import.thy ===== *)
theory Advisory_Import
  imports Matcher Advisory_Scopes
begin

text \<open>
  \<open>ImportAdvisoryDB\<close> of \<open>internal/services/advisory_sync.go\<close>: the rows of a downloaded SQLite database replace the data of
  the product streams of a scope, inside one transaction on the tables of \<open>Matcher\<close>. The statements are those of
  \<open>internal/sql\<close> with the foreign keys of the migrations: a deletion cascades, and an insertion that refers to a missing
  row fails. \<open>sqlite_db\<close> holds what the six queries on the SQLite file return; \<open>im_fault\<close> says which call fails.
\<close>

section \<open>The imported database\<close>

record sqlite_db =
  sq_streams :: "ProductStream list"
  sq_advisories :: "Advisory list"
  sq_refs :: "AdvisoryReference list"
  sq_links :: "AdvisoryProductStream list"
  sq_rules :: "AffectedPackageRule list"
  sq_fixes :: "FixedPackage list"

datatype import_call =
    QueryProductStreams | QueryAdvisories | QueryReferences | QueryLinks | QueryRules | QueryFixes
  | CallListProductStreamIDs
  | CallDeleteReferences | CallDeleteLinks | CallDeleteRules | CallDeleteFixes | CallDeleteStreams | CallDeleteOrphans
  | CallUpsertStream string | CallUpsertAdvisory string | CallInsertReference string | CallInsertLink string string
  | CallInsertRule string | CallInsertFix string

datatype import_error = ImportFailed import_call | ForeignKeyViolated import_call

section \<open>Statements\<close>

definition ListProductStreamIDsByVendorAndVersion :: "string \<Rightarrow> int \<Rightarrow> tables \<Rightarrow> string list" where
  "ListProductStreamIDsByVendorAndVersion vendor major db =
     map ps_ID (filter (\<lambda>s. ps_Vendor s = vendor \<and> ps_MajorVersion s = major) (db_streams db))"

definition advisories_of_streams :: "string set \<Rightarrow> tables \<Rightarrow> string set" where
  "advisories_of_streams ids db = aps_AdvisoryID ` {l \<in> set (db_links db). aps_ProductStreamID l \<in> ids}"

definition DeleteAdvisoryReferencesByStreamIDs :: "string list \<Rightarrow> tables \<Rightarrow> tables" where
  "DeleteAdvisoryReferencesByStreamIDs ids db =
     db\<lparr>db_refs := filter (\<lambda>r. ref_AdvisoryID r \<notin> advisories_of_streams (set ids) db) (db_refs db)\<rparr>"

definition DeleteAdvisoryProductStreamsByStreamIDs :: "string list \<Rightarrow> tables \<Rightarrow> tables" where
  "DeleteAdvisoryProductStreamsByStreamIDs ids db =
     db\<lparr>db_links := filter (\<lambda>l. aps_ProductStreamID l \<notin> set ids) (db_links db)\<rparr>"

definition DeleteAffectedPackageRulesByStreamIDs :: "string list \<Rightarrow> tables \<Rightarrow> tables" where
  "DeleteAffectedPackageRulesByStreamIDs ids db =
     db\<lparr>db_rules := filter (\<lambda>r. rule_ProductStreamID r \<notin> set ids) (db_rules db)\<rparr>"

definition DeleteFixedPackagesByStreamIDs :: "string list \<Rightarrow> tables \<Rightarrow> tables" where
  "DeleteFixedPackagesByStreamIDs ids db =
     db\<lparr>db_fixes := filter (\<lambda>f. fix_ProductStreamID f \<notin> set ids) (db_fixes db)\<rparr>"

text \<open>Links, rules and fixes of a deleted stream are deleted with it; decisions lose their stream.\<close>

definition DeleteProductStreamsByIDs :: "string list \<Rightarrow> tables \<Rightarrow> tables" where
  "DeleteProductStreamsByIDs ids db =
     db\<lparr>db_streams := filter (\<lambda>s. ps_ID s \<notin> set ids) (db_streams db),
        db_links := filter (\<lambda>l. aps_ProductStreamID l \<notin> set ids) (db_links db),
        db_rules := filter (\<lambda>r. rule_ProductStreamID r \<notin> set ids) (db_rules db),
        db_fixes := filter (\<lambda>f. fix_ProductStreamID f \<notin> set ids) (db_fixes db),
        db_decisions := map (\<lambda>d. case dec_ProductStreamID d of
            Some i \<Rightarrow> if i \<in> set ids then d\<lparr>dec_ProductStreamID := None\<rparr> else d
          | None \<Rightarrow> d) (db_decisions db)\<rparr>"

text \<open>What refers to a deleted advisory is deleted with it.\<close>

definition DeleteAdvisoriesWithoutStreams :: "tables \<Rightarrow> tables" where
  "DeleteAdvisoriesWithoutStreams db =
     (let linked = (\<lambda>i. \<exists>l \<in> set (db_links db). aps_AdvisoryID l = i);
          deleted = (\<lambda>i. i \<in> adv_ID ` set (db_advisories db) \<and> \<not> linked i)
      in db\<lparr>db_advisories := filter (\<lambda>a. linked (adv_ID a)) (db_advisories db),
            db_refs := filter (\<lambda>r. \<not> deleted (ref_AdvisoryID r)) (db_refs db),
            db_rules := filter (\<lambda>r. \<not> deleted (rule_AdvisoryID r)) (db_rules db),
            db_fixes := filter (\<lambda>f. \<not> deleted (fix_AdvisoryID f)) (db_fixes db),
            db_decisions := filter (\<lambda>d. \<not> deleted (dec_AdvisoryID d)) (db_decisions db)\<rparr>)"

text \<open>\<open>INSERT ... ON CONFLICT (id) DO UPDATE\<close> of all columns\<close>

definition upsert_row :: "('a \<Rightarrow> 'k) \<Rightarrow> 'a \<Rightarrow> 'a list \<Rightarrow> 'a list" where
  "upsert_row key x xs =
     (if \<exists>y \<in> set xs. key y = key x then map (\<lambda>y. if key y = key x then x else y) xs else xs @ [x])"

definition has_advisory :: "string \<Rightarrow> tables \<Rightarrow> bool" where
  "has_advisory i db \<longleftrightarrow> (\<exists>a \<in> set (db_advisories db). adv_ID a = i)"

definition has_stream :: "string \<Rightarrow> tables \<Rightarrow> bool" where
  "has_stream i db \<longleftrightarrow> (\<exists>s \<in> set (db_streams db). ps_ID s = i)"

definition UpsertProductStream :: "ProductStream \<Rightarrow> tables \<Rightarrow> tables option" where
  "UpsertProductStream s db = Some (db\<lparr>db_streams := upsert_row ps_ID s (db_streams db)\<rparr>)"

definition UpsertAdvisory :: "Advisory \<Rightarrow> tables \<Rightarrow> tables option" where
  "UpsertAdvisory a db = Some (db\<lparr>db_advisories := upsert_row adv_ID a (db_advisories db)\<rparr>)"

definition InsertAdvisoryReference :: "AdvisoryReference \<Rightarrow> tables \<Rightarrow> tables option" where
  "InsertAdvisoryReference r db =
     (if has_advisory (ref_AdvisoryID r) db then Some (db\<lparr>db_refs := upsert_row ref_ID r (db_refs db)\<rparr>) else None)"

definition InsertAdvisoryProductStream :: "AdvisoryProductStream \<Rightarrow> tables \<Rightarrow> tables option" where
  "InsertAdvisoryProductStream l db =
     (if l \<in> set (db_links db) then Some db
      else if has_advisory (aps_AdvisoryID l) db \<and> has_stream (aps_ProductStreamID l) db
      then Some (db\<lparr>db_links := db_links db @ [l]\<rparr>) else None)"

definition InsertAffectedPackageRule :: "AffectedPackageRule \<Rightarrow> tables \<Rightarrow> tables option" where
  "InsertAffectedPackageRule r db =
     (if has_advisory (rule_AdvisoryID r) db \<and> has_stream (rule_ProductStreamID r) db
      then Some (db\<lparr>db_rules := upsert_row rule_ID r (db_rules db)\<rparr>) else None)"

definition InsertFixedPackage :: "FixedPackage \<Rightarrow> tables \<Rightarrow> tables option" where
  "InsertFixedPackage f db =
     (if has_advisory (fix_AdvisoryID f) db \<and> has_stream (fix_ProductStreamID f) db
      then Some (db\<lparr>db_fixes := upsert_row fix_ID f (db_fixes db)\<rparr>) else None)"

section \<open>\<open>ImportAdvisoryDB\<close>\<close>

text \<open>A loop over the rows of a query, each inserted by a statement.\<close>

fun insert_rows :: "(import_call \<Rightarrow> bool) \<Rightarrow> ('r \<Rightarrow> import_call) \<Rightarrow> ('r \<Rightarrow> tables \<Rightarrow> tables option) \<Rightarrow> 'r list \<Rightarrow> tables \<Rightarrow> import_error + tables" where
  "insert_rows fault call stmt [] tx = Inr tx"
| "insert_rows fault call stmt (r # rs) tx =
     (if fault (call r) then Inl (ImportFailed (call r))
      else case stmt r tx of
        None \<Rightarrow> Inl (ForeignKeyViolated (call r))
      | Some tx1 \<Rightarrow> insert_rows fault call stmt rs tx1)"

definition cleanup_ids :: "(import_call \<Rightarrow> bool) \<Rightarrow> sqlite_db \<Rightarrow> string \<Rightarrow> ScopeMapping list \<Rightarrow> tables \<Rightarrow> string list" where
  "cleanup_ids fault src scopeKey mappings db =
     (let existing =
            (case Split1 scopeKey (CHR '':'') of
               [v, _] \<Rightarrow>
                 let vendor = (if v = ''rhel'' then ''redhat'' else v);
                     major = getMajorVersionFromScopeKey scopeKey mappings
                 in if fault CallListProductStreamIDs then [] else ListProductStreamIDsByVendorAndVersion vendor major db
             | _ \<Rightarrow> [])
      in existing @ dedup_by id (set existing) (map ps_ID (sq_streams src)))"

definition clear_streams :: "(import_call \<Rightarrow> bool) \<Rightarrow> string list \<Rightarrow> tables \<Rightarrow> import_error + tables" where
  "clear_streams fault ids tx =
     (if ids = [] then Inr tx
      else if fault CallDeleteReferences then Inl (ImportFailed CallDeleteReferences)
      else if fault CallDeleteLinks then Inl (ImportFailed CallDeleteLinks)
      else if fault CallDeleteRules then Inl (ImportFailed CallDeleteRules)
      else if fault CallDeleteFixes then Inl (ImportFailed CallDeleteFixes)
      else if fault CallDeleteStreams then Inl (ImportFailed CallDeleteStreams)
      else if fault CallDeleteOrphans then Inl (ImportFailed CallDeleteOrphans)
      else Inr (DeleteAdvisoriesWithoutStreams (DeleteProductStreamsByIDs ids (DeleteFixedPackagesByStreamIDs ids
                 (DeleteAffectedPackageRulesByStreamIDs ids (DeleteAdvisoryProductStreamsByStreamIDs ids
                   (DeleteAdvisoryReferencesByStreamIDs ids tx)))))))"

definition bind_import :: "import_error + tables \<Rightarrow> (tables \<Rightarrow> import_error + tables) \<Rightarrow> import_error + tables" where
  "bind_import m f = (case m of Inl e \<Rightarrow> Inl e | Inr tx \<Rightarrow> f tx)"

definition query :: "(import_call \<Rightarrow> bool) \<Rightarrow> import_call \<Rightarrow> (tables \<Rightarrow> import_error + tables) \<Rightarrow> tables \<Rightarrow> import_error + tables" where
  "query fault c f tx = (if fault c then Inl (ImportFailed c) else f tx)"

definition ImportAdvisoryDB :: "(import_call \<Rightarrow> bool) \<Rightarrow> sqlite_db \<Rightarrow> string \<Rightarrow> ScopeMapping list \<Rightarrow> tables \<Rightarrow> import_error + tables" where
  "ImportAdvisoryDB fault src scopeKey mappings tx =
     bind_import (query fault QueryProductStreams (clear_streams fault (cleanup_ids fault src scopeKey mappings tx)) tx) (\<lambda>tx1.
     bind_import (insert_rows fault (\<lambda>s. CallUpsertStream (ps_ID s)) UpsertProductStream (sq_streams src) tx1) (\<lambda>tx2.
     bind_import (query fault QueryAdvisories
       (insert_rows fault (\<lambda>a. CallUpsertAdvisory (adv_ID a)) UpsertAdvisory (sq_advisories src)) tx2) (\<lambda>tx3.
     bind_import (query fault QueryReferences
       (insert_rows fault (\<lambda>r. CallInsertReference (ref_ID r)) InsertAdvisoryReference (sq_refs src)) tx3) (\<lambda>tx4.
     bind_import (query fault QueryLinks
       (insert_rows fault (\<lambda>l. CallInsertLink (aps_AdvisoryID l) (aps_ProductStreamID l)) InsertAdvisoryProductStream (sq_links src)) tx4) (\<lambda>tx5.
     bind_import (query fault QueryRules
       (insert_rows fault (\<lambda>r. CallInsertRule (rule_ID r)) InsertAffectedPackageRule (sq_rules src)) tx5) (\<lambda>tx6.
     query fault QueryFixes
       (insert_rows fault (\<lambda>f. CallInsertFix (fix_ID f)) InsertFixedPackage (sq_fixes src)) tx6))))))"

section \<open>Upserts\<close>

lemma set_upsert_row: "set (upsert_row key x xs) = insert x {y \<in> set xs. key y \<noteq> key x}"
  by (auto simp: upsert_row_def)

lemma set_fold_upsert:
  "distinct (map key rs) \<Longrightarrow> set (fold (upsert_row key) rs xs) = set rs \<union> {y \<in> set xs. key y \<notin> key ` set rs}"
  by (induction rs arbitrary: xs) (auto simp: set_upsert_row)

lemma keys_upsert_row: "key ` set (upsert_row key x xs) = insert (key x) (key ` set xs)"
  by (auto simp: set_upsert_row)

lemma keys_fold_upsert: "key ` set (fold (upsert_row key) rs xs) = key ` set rs \<union> key ` set xs"
  by (induction rs arbitrary: xs) (auto simp: keys_upsert_row)

lemma distinct_upsert_row: "distinct (map key xs) \<Longrightarrow> distinct (map key (upsert_row key x xs))"
proof -
  assume d: "distinct (map key xs)"
  have "map key (map (\<lambda>y. if key y = key x then x else y) xs) = map key xs" by simp
  then have "distinct (map key (map (\<lambda>y. if key y = key x then x else y) xs))" using d by (simp only:)
  with d show ?thesis unfolding upsert_row_def by (auto simp del: map_map)
qed

lemma distinct_fold_upsert: "distinct (map key xs) \<Longrightarrow> distinct (map key (fold (upsert_row key) rs xs))"
  by (induction rs arbitrary: xs) (auto simp: distinct_upsert_row)

lemma in_fold_upsert: "x \<in> set (fold (upsert_row key) rs xs) \<Longrightarrow> x \<in> set rs \<or> x \<in> set xs"
  by (induction rs arbitrary: xs) (fastforce simp: set_upsert_row)+

definition add_link :: "AdvisoryProductStream \<Rightarrow> AdvisoryProductStream list \<Rightarrow> AdvisoryProductStream list" where
  "add_link l ls = (if l \<in> set ls then ls else ls @ [l])"

lemma set_fold_add_link: "set (fold add_link ls xs) = set ls \<union> set xs"
  by (induction ls arbitrary: xs) (auto simp: add_link_def)

section \<open>The loops\<close>

lemma insert_rows_field:
  assumes "insert_rows fault call stmt rs tx = Inr tx1"
    and "\<And>r t t1. stmt r t = Some t1 \<Longrightarrow> t1 = put (f r (get t)) t \<and> P r t"
    and "\<And>r v t. P r (put v t) \<longleftrightarrow> P r t"
    and "\<And>t v. get (put v t) = v" "\<And>t v w. put v (put w t) = put v t" "\<And>t. put (get t) t = t"
  shows "tx1 = put (fold f rs (get tx)) tx \<and> (\<forall>r \<in> set rs. P r tx)"
  using assms(1)
proof (induction rs arbitrary: tx)
  case Nil
  then show ?case using assms(6) by simp
next
  case (Cons r rs)
  then obtain t where t: "stmt r tx = Some t" "insert_rows fault call stmt rs t = Inr tx1" by (auto split: if_splits option.splits)
  have "t = put (f r (get tx)) tx" "P r tx" using assms(2) [OF t(1)] by blast+
  with Cons.IH [OF t(2)] assms(3-5) show ?case by simp
qed

lemma rows_streams:
  assumes "insert_rows fault call UpsertProductStream rs tx = Inr tx1"
  shows "tx1 = tx\<lparr>db_streams := fold (upsert_row ps_ID) rs (db_streams tx)\<rparr>"
  using insert_rows_field [OF assms, where put = "\<lambda>v. db_streams_update (\<lambda>_. v)" and get = db_streams and P = "\<lambda>_ _. True"]
  by (simp add: UpsertProductStream_def)

lemma rows_advisories:
  assumes "insert_rows fault call UpsertAdvisory rs tx = Inr tx1"
  shows "tx1 = tx\<lparr>db_advisories := fold (upsert_row adv_ID) rs (db_advisories tx)\<rparr>"
  using insert_rows_field [OF assms, where put = "\<lambda>v. db_advisories_update (\<lambda>_. v)" and get = db_advisories and P = "\<lambda>_ _. True"]
  by (simp add: UpsertAdvisory_def)

lemma rows_refs:
  assumes "insert_rows fault call InsertAdvisoryReference rs tx = Inr tx1"
  shows "tx1 = tx\<lparr>db_refs := fold (upsert_row ref_ID) rs (db_refs tx)\<rparr> \<and> (\<forall>r \<in> set rs. has_advisory (ref_AdvisoryID r) tx)"
  by (rule insert_rows_field [OF assms, where put = "\<lambda>v. db_refs_update (\<lambda>_. v)" and get = db_refs])
    (auto simp: InsertAdvisoryReference_def has_advisory_def split: if_splits)

lemma rows_rules:
  assumes "insert_rows fault call InsertAffectedPackageRule rs tx = Inr tx1"
  shows "tx1 = tx\<lparr>db_rules := fold (upsert_row rule_ID) rs (db_rules tx)\<rparr> \<and>
    (\<forall>r \<in> set rs. has_advisory (rule_AdvisoryID r) tx \<and> has_stream (rule_ProductStreamID r) tx)"
  by (rule insert_rows_field [OF assms, where put = "\<lambda>v. db_rules_update (\<lambda>_. v)" and get = db_rules])
    (auto simp: InsertAffectedPackageRule_def has_advisory_def has_stream_def split: if_splits)

lemma rows_fixes:
  assumes "insert_rows fault call InsertFixedPackage rs tx = Inr tx1"
  shows "tx1 = tx\<lparr>db_fixes := fold (upsert_row fix_ID) rs (db_fixes tx)\<rparr> \<and>
    (\<forall>f \<in> set rs. has_advisory (fix_AdvisoryID f) tx \<and> has_stream (fix_ProductStreamID f) tx)"
  by (rule insert_rows_field [OF assms, where put = "\<lambda>v. db_fixes_update (\<lambda>_. v)" and get = db_fixes])
    (auto simp: InsertFixedPackage_def has_advisory_def has_stream_def split: if_splits)

lemma rows_links:
  "insert_rows fault call InsertAdvisoryProductStream rs tx = Inr tx1 \<Longrightarrow>
   tx1 = tx\<lparr>db_links := fold add_link rs (db_links tx)\<rparr> \<and>
   (\<forall>l \<in> set rs. l \<in> set (db_links tx) \<or> has_advisory (aps_AdvisoryID l) tx \<and> has_stream (aps_ProductStreamID l) tx)"
proof (induction rs arbitrary: tx)
  case (Cons l ls)
  then obtain t where t: "InsertAdvisoryProductStream l tx = Some t" "insert_rows fault call InsertAdvisoryProductStream ls t = Inr tx1"
    by (auto split: if_splits option.splits)
  have eq: "t = tx\<lparr>db_links := add_link l (db_links tx)\<rparr>"
    and ok: "l \<in> set (db_links tx) \<or> has_advisory (aps_AdvisoryID l) tx \<and> has_stream (aps_ProductStreamID l) tx"
    using t(1) by (auto simp: InsertAdvisoryProductStream_def add_link_def split: if_splits)
  have frame: "has_advisory i t = has_advisory i tx" "has_stream i t = has_stream i tx" for i
    by (simp_all add: eq has_advisory_def has_stream_def)
  have sub: "set (db_links t) \<subseteq> insert l (set (db_links tx))" by (auto simp: eq add_link_def)
  show ?case using Cons.IH [OF t(2)] ok sub unfolding frame by (auto simp: eq)
qed simp

lemma bind_import_Inr: "bind_import m f = Inr t \<longleftrightarrow> (\<exists>u. m = Inr u \<and> f u = Inr t)"
  by (auto simp: bind_import_def split: sum.splits)

lemma query_Inr: "query fault c f tx = Inr t \<longleftrightarrow> \<not> fault c \<and> f tx = Inr t"
  by (simp add: query_def)

text \<open>What a successful import leaves in each table, in terms of the tables after the clearing.\<close>

lemma ImportAdvisoryDB_Inr:
  assumes "ImportAdvisoryDB fault src scopeKey mappings db = Inr db1"
  obtains t where "clear_streams fault (cleanup_ids fault src scopeKey mappings db) db = Inr t"
    "db1 = t\<lparr>db_streams := fold (upsert_row ps_ID) (sq_streams src) (db_streams t),
             db_advisories := fold (upsert_row adv_ID) (sq_advisories src) (db_advisories t),
             db_refs := fold (upsert_row ref_ID) (sq_refs src) (db_refs t),
             db_links := fold add_link (sq_links src) (db_links t),
             db_rules := fold (upsert_row rule_ID) (sq_rules src) (db_rules t),
             db_fixes := fold (upsert_row fix_ID) (sq_fixes src) (db_fixes t)\<rparr>"
    "\<forall>r \<in> set (sq_refs src). has_advisory (ref_AdvisoryID r) db1"
    "\<forall>l \<in> set (sq_links src). l \<in> set (db_links t) \<or> has_advisory (aps_AdvisoryID l) db1 \<and> has_stream (aps_ProductStreamID l) db1"
    "\<forall>r \<in> set (sq_rules src). has_advisory (rule_AdvisoryID r) db1 \<and> has_stream (rule_ProductStreamID r) db1"
    "\<forall>r \<in> set (sq_fixes src). has_advisory (fix_AdvisoryID r) db1 \<and> has_stream (fix_ProductStreamID r) db1"
proof -
  from assms obtain t t2 t3 t4 t5 t6 where
    t: "clear_streams fault (cleanup_ids fault src scopeKey mappings db) db = Inr t"
    and c: "insert_rows fault (\<lambda>s. CallUpsertStream (ps_ID s)) UpsertProductStream (sq_streams src) t = Inr t2"
      "insert_rows fault (\<lambda>a. CallUpsertAdvisory (adv_ID a)) UpsertAdvisory (sq_advisories src) t2 = Inr t3"
      "insert_rows fault (\<lambda>r. CallInsertReference (ref_ID r)) InsertAdvisoryReference (sq_refs src) t3 = Inr t4"
      "insert_rows fault (\<lambda>l. CallInsertLink (aps_AdvisoryID l) (aps_ProductStreamID l)) InsertAdvisoryProductStream (sq_links src) t4 = Inr t5"
      "insert_rows fault (\<lambda>r. CallInsertRule (rule_ID r)) InsertAffectedPackageRule (sq_rules src) t5 = Inr t6"
      "insert_rows fault (\<lambda>f. CallInsertFix (fix_ID f)) InsertFixedPackage (sq_fixes src) t6 = Inr db1"
    unfolding ImportAdvisoryDB_def bind_import_Inr query_Inr by blast
  show ?thesis
    using rows_streams [OF c(1)] rows_advisories [OF c(2)] rows_refs [OF c(3)] rows_links [OF c(4)] rows_rules [OF c(5)] rows_fixes [OF c(6)]
    by (intro that [OF t]) (simp_all add: has_advisory_def has_stream_def)
qed

section \<open>The clearing\<close>

text \<open>An advisory stays if it has a link to a stream that is not cleared.\<close>

definition stays :: "string set \<Rightarrow> tables \<Rightarrow> string \<Rightarrow> bool" where
  "stays ids db i \<longleftrightarrow> ids = {} \<or> (\<exists>l \<in> set (db_links db). aps_AdvisoryID l = i \<and> aps_ProductStreamID l \<notin> ids)"

definition refs_ok :: "tables \<Rightarrow> bool" where
  "refs_ok db \<longleftrightarrow>
     (\<forall>l \<in> set (db_links db). has_advisory (aps_AdvisoryID l) db \<and> has_stream (aps_ProductStreamID l) db) \<and>
     (\<forall>r \<in> set (db_rules db). has_advisory (rule_AdvisoryID r) db \<and> has_stream (rule_ProductStreamID r) db) \<and>
     (\<forall>f \<in> set (db_fixes db). has_advisory (fix_AdvisoryID f) db \<and> has_stream (fix_ProductStreamID f) db) \<and>
     (\<forall>r \<in> set (db_refs db). has_advisory (ref_AdvisoryID r) db) \<and>
     (\<forall>d \<in> set (db_decisions db). has_advisory (dec_AdvisoryID d) db \<and> (\<forall>i. dec_ProductStreamID d = Some i \<longrightarrow> has_stream i db))"

lemma has_advisory_image: "has_advisory i db \<longleftrightarrow> i \<in> adv_ID ` set (db_advisories db)"
  and has_stream_image: "has_stream i db \<longleftrightarrow> i \<in> ps_ID ` set (db_streams db)"
  by (auto simp: has_advisory_def has_stream_def)

lemma refs_okD:
  assumes "refs_ok db"
  shows "l \<in> set (db_links db) \<Longrightarrow> has_advisory (aps_AdvisoryID l) db \<and> has_stream (aps_ProductStreamID l) db"
    and "r \<in> set (db_rules db) \<Longrightarrow> has_advisory (rule_AdvisoryID r) db \<and> has_stream (rule_ProductStreamID r) db"
    and "f \<in> set (db_fixes db) \<Longrightarrow> has_advisory (fix_AdvisoryID f) db \<and> has_stream (fix_ProductStreamID f) db"
    and "a \<in> set (db_refs db) \<Longrightarrow> has_advisory (ref_AdvisoryID a) db"
    and "d \<in> set (db_decisions db) \<Longrightarrow> has_advisory (dec_AdvisoryID d) db"
    and "d \<in> set (db_decisions db) \<Longrightarrow> dec_ProductStreamID d = Some i \<Longrightarrow> has_stream i db"
  using assms by (auto simp: refs_ok_def)

lemmas clear_defs = DeleteAdvisoriesWithoutStreams_def DeleteProductStreamsByIDs_def DeleteFixedPackagesByStreamIDs_def
  DeleteAffectedPackageRulesByStreamIDs_def DeleteAdvisoryProductStreamsByStreamIDs_def DeleteAdvisoryReferencesByStreamIDs_def Let_def

lemma clear_streams_frame:
  assumes "clear_streams fault ids db = Inr t"
  shows "db_hosts t = db_hosts db" "db_snapshots t = db_snapshots db" "db_states t = db_states db"
  using assms by (auto simp: clear_streams_def clear_defs split: if_splits)

lemma clear_streams_tables:
  assumes "clear_streams fault ids db = Inr t" "refs_ok db"
  shows "set (db_streams t) = {s \<in> set (db_streams db). ps_ID s \<notin> set ids}"
    and "set (db_links t) = {l \<in> set (db_links db). aps_ProductStreamID l \<notin> set ids}"
    and "set (db_advisories t) = {a \<in> set (db_advisories db). stays (set ids) db (adv_ID a)}"
    and "set (db_rules t) = {r \<in> set (db_rules db). rule_ProductStreamID r \<notin> set ids \<and> stays (set ids) db (rule_AdvisoryID r)}"
    and "set (db_fixes t) = {f \<in> set (db_fixes db). fix_ProductStreamID f \<notin> set ids \<and> stays (set ids) db (fix_AdvisoryID f)}"
    and "set (db_refs t) = {r \<in> set (db_refs db). ref_AdvisoryID r \<notin> advisories_of_streams (set ids) db \<and> stays (set ids) db (ref_AdvisoryID r)}"
proof -
  consider (none) "ids = []" "t = db"
    | (some) "ids \<noteq> []" "t = DeleteAdvisoriesWithoutStreams (DeleteProductStreamsByIDs ids (DeleteFixedPackagesByStreamIDs ids
         (DeleteAffectedPackageRulesByStreamIDs ids (DeleteAdvisoryProductStreamsByStreamIDs ids
           (DeleteAdvisoryReferencesByStreamIDs ids db)))))"
    using assms(1) by (auto simp: clear_streams_def split: if_splits)
  note c = this
  have known: "has_advisory i db \<Longrightarrow> i \<in> adv_ID ` set (db_advisories db)" for i by (auto simp: has_advisory_def)
  show "set (db_streams t) = {s \<in> set (db_streams db). ps_ID s \<notin> set ids}"
    by (cases rule: c) (auto simp: clear_defs)
  show "set (db_links t) = {l \<in> set (db_links db). aps_ProductStreamID l \<notin> set ids}"
    by (cases rule: c) (auto simp: clear_defs)
  show "set (db_advisories t) = {a \<in> set (db_advisories db). stays (set ids) db (adv_ID a)}"
    by (cases rule: c) (auto simp: clear_defs stays_def)
  show "set (db_rules t) = {r \<in> set (db_rules db). rule_ProductStreamID r \<notin> set ids \<and> stays (set ids) db (rule_AdvisoryID r)}"
    using refs_okD(2) [OF assms(2)] known by (cases rule: c) (auto simp: clear_defs stays_def)
  show "set (db_fixes t) = {f \<in> set (db_fixes db). fix_ProductStreamID f \<notin> set ids \<and> stays (set ids) db (fix_AdvisoryID f)}"
    using refs_okD(3) [OF assms(2)] known by (cases rule: c) (auto simp: clear_defs stays_def)
  show "set (db_refs t) = {r \<in> set (db_refs db). ref_AdvisoryID r \<notin> advisories_of_streams (set ids) db \<and> stays (set ids) db (ref_AdvisoryID r)}"
    using refs_okD(4) [OF assms(2)] known by (cases rule: c) (auto simp: clear_defs stays_def advisories_of_streams_def)
qed

lemma clear_streams_decisions:
  assumes "clear_streams fault ids db = Inr t" "refs_ok db" "d \<in> set (db_decisions t)"
  obtains e where "e \<in> set (db_decisions db)" "dec_AdvisoryID d = dec_AdvisoryID e" "stays (set ids) db (dec_AdvisoryID e)"
    "\<And>i. dec_ProductStreamID d = Some i \<Longrightarrow> dec_ProductStreamID e = Some i \<and> i \<notin> set ids"
proof (cases "ids = []")
  case True
  then have "t = db" using assms(1) by (simp add: clear_streams_def)
  with assms(3) True show ?thesis by (intro that [of d]) (auto simp: stays_def)
next
  case False
  let ?null = "\<lambda>d. case dec_ProductStreamID d of Some i \<Rightarrow> if i \<in> set ids then d\<lparr>dec_ProductStreamID := None\<rparr> else d | None \<Rightarrow> d"
  have adv: "dec_AdvisoryID (?null e) = dec_AdvisoryID e" for e by (simp split: option.split)
  have str: "dec_ProductStreamID (?null e) = Some i \<Longrightarrow> dec_ProductStreamID e = Some i \<and> i \<notin> set ids" for e i
    by (auto split: option.splits if_splits)
  have "set (db_decisions t) = {x \<in> ?null ` set (db_decisions db). \<not> (dec_AdvisoryID x \<in> adv_ID ` set (db_advisories db) \<and>
      \<not> (\<exists>l \<in> set (db_links db). aps_ProductStreamID l \<notin> set ids \<and> aps_AdvisoryID l = dec_AdvisoryID x))}"
    using assms(1) False by (auto simp: clear_streams_def clear_defs split: if_splits)
  with assms(3) obtain e where e: "e \<in> set (db_decisions db)" "d = ?null e"
    and k: "\<not> (dec_AdvisoryID d \<in> adv_ID ` set (db_advisories db) \<and>
      \<not> (\<exists>l \<in> set (db_links db). aps_ProductStreamID l \<notin> set ids \<and> aps_AdvisoryID l = dec_AdvisoryID d))"
    by blast
  have "dec_AdvisoryID d = dec_AdvisoryID e" using adv e(2) by simp
  moreover have "dec_AdvisoryID e \<in> adv_ID ` set (db_advisories db)" using refs_okD(5) [OF assms(2) e(1)] by (simp add: has_advisory_image)
  ultimately show ?thesis using e k str [of e] by (intro that [of e]) (auto simp: stays_def)
qed

lemma has_advisory_clear:
  "clear_streams fault ids db = Inr t \<Longrightarrow> refs_ok db \<Longrightarrow> has_advisory i t \<longleftrightarrow> has_advisory i db \<and> stays (set ids) db i"
  using clear_streams_tables(3) [of fault ids db t] by (auto simp: has_advisory_def)

lemma has_stream_clear:
  "clear_streams fault ids db = Inr t \<Longrightarrow> refs_ok db \<Longrightarrow> has_stream i t \<longleftrightarrow> has_stream i db \<and> i \<notin> set ids"
  using clear_streams_tables(1) [of fault ids db t] by (auto simp: has_stream_def)

lemma clear_streams_refs_ok:
  assumes "clear_streams fault ids db = Inr t" "refs_ok db"
  shows "refs_ok t"
  unfolding refs_ok_def has_advisory_clear [OF assms] has_stream_clear [OF assms]
proof (intro conjI ballI allI impI)
  fix l assume l: "l \<in> set (db_links t)"
  then have old: "l \<in> set (db_links db)" "aps_ProductStreamID l \<notin> set ids" using clear_streams_tables(2) [OF assms] by auto
  then show "has_advisory (aps_AdvisoryID l) db" "has_stream (aps_ProductStreamID l) db" "aps_ProductStreamID l \<notin> set ids"
    "stays (set ids) db (aps_AdvisoryID l)" using refs_okD(1) [OF assms(2)] by (auto simp: stays_def)
next
  fix d assume "d \<in> set (db_decisions t)"
  with assms obtain e where e: "e \<in> set (db_decisions db)" "dec_AdvisoryID d = dec_AdvisoryID e" "stays (set ids) db (dec_AdvisoryID e)"
    "\<And>i. dec_ProductStreamID d = Some i \<Longrightarrow> dec_ProductStreamID e = Some i \<and> i \<notin> set ids"
    using clear_streams_decisions by blast
  then show "has_advisory (dec_AdvisoryID d) db" "stays (set ids) db (dec_AdvisoryID d)" using refs_okD(5) [OF assms(2)] by auto
  fix i assume "dec_ProductStreamID d = Some i"
  with e show "has_stream i db" "i \<notin> set ids" using refs_okD(6) [OF assms(2)] by auto
qed (use clear_streams_tables(4-6) [OF assms] refs_okD(2-4) [OF assms(2)] in auto)

section \<open>The import\<close>

text \<open>Identifiers are primary keys of the SQLite tables.\<close>

definition sqlite_keys :: "sqlite_db \<Rightarrow> bool" where
  "sqlite_keys src \<longleftrightarrow> distinct (map ps_ID (sq_streams src)) \<and> distinct (map adv_ID (sq_advisories src)) \<and>
     distinct (map ref_ID (sq_refs src)) \<and> distinct (map rule_ID (sq_rules src)) \<and> distinct (map fix_ID (sq_fixes src))"

lemma cleanup_ids_covers: "ps_ID ` set (sq_streams src) \<subseteq> set (cleanup_ids fault src scopeKey mappings db)"
proof
  fix i assume i: "i \<in> ps_ID ` set (sq_streams src)"
  define ex where "ex = (case Split1 scopeKey (CHR '':'') of
               [v, _] \<Rightarrow>
                 let vendor = (if v = ''rhel'' then ''redhat'' else v);
                     major = getMajorVersionFromScopeKey scopeKey mappings
                 in if fault CallListProductStreamIDs then [] else ListProductStreamIDsByVendorAndVersion vendor major db
             | _ \<Rightarrow> [])"
  have eq: "cleanup_ids fault src scopeKey mappings db = ex @ dedup_by id (set ex) (map ps_ID (sq_streams src))"
    unfolding cleanup_ids_def ex_def Let_def ..
  show "i \<in> set (cleanup_ids fault src scopeKey mappings db)"
    using i dedup_by_covers [of i "map ps_ID (sq_streams src)" id "set ex"] unfolding eq by (cases "i \<in> set ex") auto
qed

lemma ImportAdvisoryDB_refs_ok:
  assumes "ImportAdvisoryDB fault src scopeKey mappings db = Inr db1" "refs_ok db"
  shows "refs_ok db1"
  using assms(1)
proof (cases rule: ImportAdvisoryDB_Inr)
  case (1 t)
  have t: "refs_ok t" by (rule clear_streams_refs_ok [OF 1(1) assms(2)])
  have a: "has_advisory i t \<Longrightarrow> has_advisory i db1" for i
    unfolding has_advisory_image 1(2) by (simp add: keys_fold_upsert)
  have s: "has_stream i t \<Longrightarrow> has_stream i db1" for i
    unfolding has_stream_image 1(2) by (simp add: keys_fold_upsert)
  have new: "db_links db1 = fold add_link (sq_links src) (db_links t)" "db_decisions db1 = db_decisions t"
    "db_rules db1 = fold (upsert_row rule_ID) (sq_rules src) (db_rules t)"
    "db_fixes db1 = fold (upsert_row fix_ID) (sq_fixes src) (db_fixes t)"
    "db_refs db1 = fold (upsert_row ref_ID) (sq_refs src) (db_refs t)"
    by (simp_all add: 1(2))
  show ?thesis
    unfolding refs_ok_def new
  proof (intro conjI ballI allI impI)
    fix l assume "l \<in> set (fold add_link (sq_links src) (db_links t))"
    then show "has_advisory (aps_AdvisoryID l) db1" "has_stream (aps_ProductStreamID l) db1"
      using 1(4) a s refs_okD(1) [OF t] by (auto simp: set_fold_add_link)
  next
    fix r assume "r \<in> set (fold (upsert_row rule_ID) (sq_rules src) (db_rules t))"
    then show "has_advisory (rule_AdvisoryID r) db1" "has_stream (rule_ProductStreamID r) db1"
      using 1(5) a s refs_okD(2) [OF t] by (auto dest!: in_fold_upsert)
  next
    fix f assume "f \<in> set (fold (upsert_row fix_ID) (sq_fixes src) (db_fixes t))"
    then show "has_advisory (fix_AdvisoryID f) db1" "has_stream (fix_ProductStreamID f) db1"
      using 1(6) a s refs_okD(3) [OF t] by (auto dest!: in_fold_upsert)
  next
    fix r assume "r \<in> set (fold (upsert_row ref_ID) (sq_refs src) (db_refs t))"
    then show "has_advisory (ref_AdvisoryID r) db1" using 1(3) a refs_okD(4) [OF t] by (auto dest!: in_fold_upsert)
  qed (use a s refs_okD(5,6) [OF t] in auto)
qed


definition sample_stream :: "string \<Rightarrow> ProductStream" where
  "sample_stream i = zero_ProductStream\<lparr>ps_ID := i, ps_Vendor := ''rocky'', ps_MajorVersion := 9\<rparr>"

definition sample_rule :: "string \<Rightarrow> string \<Rightarrow> string \<Rightarrow> AffectedPackageRule" where
  "sample_rule i a s = zero_AffectedPackageRule\<lparr>rule_ID := i, rule_AdvisoryID := a, rule_ProductStreamID := s\<rparr>"

definition sample_sqlite :: sqlite_db where
  "sample_sqlite = \<lparr>sq_streams = [sample_stream ''new''], sq_advisories = [zero_Advisory\<lparr>adv_ID := ''RLSA-2''\<rparr>], sq_refs = [],
     sq_links = [\<lparr>aps_AdvisoryID = ''RLSA-2'', aps_ProductStreamID = ''new''\<rparr>], sq_rules = [sample_rule ''r2'' ''RLSA-2'' ''new''], sq_fixes = []\<rparr>"

definition sample_old_tables :: tables where
  "sample_old_tables = \<lparr>db_hosts = [], db_snapshots = [], db_streams = [sample_stream ''old''], db_advisories = [zero_Advisory\<lparr>adv_ID := ''RLSA-1''\<rparr>],
     db_links = [\<lparr>aps_AdvisoryID = ''RLSA-1'', aps_ProductStreamID = ''old''\<rparr>], db_rules = [sample_rule ''r1'' ''RLSA-1'' ''old''],
     db_fixes = [], db_refs = [], db_decisions = [], db_states = []\<rparr>"


end
