(* ===== verification/Advisory_Sync.thy ===== *)
theory Advisory_Sync
  imports Advisory_Import
begin

text \<open>
  \<open>SyncScope\<close> of \<open>internal/services/advisory_sync.go\<close>: fetch the manifest, download the database of the scope when it is
  new, verify its checksum, import it and match the hosts of the scope again. The HTTP client, SHA-256, the SQLite
  driver, \<open>filepath.Join\<close>, the clock and the error texts are parameters in \<open>sync_env\<close>; the file system is a map from paths
  to contents. A temporary file is written in the staging directory, renamed onto its destination, and removed on return
  if it is still there.
\<close>

record ScopeDetail =
  sd_Key :: string
  sd_Path :: string
  sd_URL :: string
  sd_Sha256 :: string
  sd_SizeBytes :: int
  sd_UpdatedAt :: string
  sd_AdvisoryCount :: int
  sd_LicenseFeature :: string

record Manifest =
  mf_SchemaVersion :: int
  mf_GeneratedAt :: string
  mf_Scopes :: "ScopeDetail list"

datatype sync_call =
    CallMarkSyncing | CallMarkFailed | CallManifestRequest | CallFetchManifest | CallGetScope | CallMkdir
  | CallDownloadRequest | CallDownload | CallMkdirStaging | CallTempFile | CallCopy | CallCloseFile | CallRename
  | CallOpenSqlite | CallCountAdvisories | CallBeginImport | CallCommitImport | CallResolveMatcher | CallMatchHosts | CallSaveScope

datatype sync_error =
    SyncFailed sync_call
  | ManifestStatus int
  | ManifestInvalid
  | ScopeNotInManifest
  | InvalidChecksumFormat
  | DownloadStatus int
  | EmptyDownload
  | ChecksumMismatch
  | ImportError import_error

record sync_env =
  se_fault :: "sync_call \<Rightarrow> bool"
  se_manifest :: "int \<times> Manifest option"
  se_existsErr :: bool
  se_download :: "string \<Rightarrow> int \<times> string"
  se_sha256 :: "string \<Rightarrow> string"
  se_sqlite :: "string \<Rightarrow> (int \<times> sqlite_db) option"
  se_importFault :: "import_call \<Rightarrow> bool"
  se_match :: "Host \<Rightarrow> match_env"
  se_message :: "sync_error \<Rightarrow> string"
  se_join :: "string \<Rightarrow> string \<Rightarrow> string"
  se_tmpName :: string
  se_now :: int
  se_baseURL :: string
  se_storageDir :: string
  se_refreshInterval :: int
  se_mappings :: "ScopeMapping list"

record sync_state =
  ss_scopes :: "AdvisoryScope list"
  ss_db :: tables
  ss_published :: "Event list"
  ss_files :: "string \<rightharpoonup> string"

section \<open>The parts\<close>

definition handleFailure :: "sync_env \<Rightarrow> string \<Rightarrow> sync_error \<Rightarrow> sync_state \<Rightarrow> sync_state \<times> sync_error option" where
  "handleFailure env scopeKey e s =
     (s\<lparr>ss_scopes :=
          (case (if se_fault env CallMarkFailed then None
                 else UpdateAdvisoryScopeStatus scopeKey ''failed'' (Some (se_message env e)) (ss_scopes s)) of
             None \<Rightarrow> ss_scopes s
           | Some scopes \<Rightarrow> scopes),
        ss_published := ss_published s @ [NewAdvisoriesUpdatedEvent]\<rparr>, Some e)"

definition find_detail :: "sync_env \<Rightarrow> string \<Rightarrow> sync_error + ScopeDetail" where
  "find_detail env scopeKey =
     (if se_fault env CallManifestRequest then Inl (SyncFailed CallManifestRequest)
      else if se_fault env CallFetchManifest then Inl (SyncFailed CallFetchManifest)
      else if fst (se_manifest env) \<noteq> 200 then Inl (ManifestStatus (fst (se_manifest env)))
      else case snd (se_manifest env) of
        None \<Rightarrow> Inl ManifestInvalid
      | Some manifest \<Rightarrow>
          (case find (\<lambda>d. sd_Key d = scopeKey) (mf_Scopes manifest) of
             None \<Rightarrow> Inl ScopeNotInManifest
           | Some detail \<Rightarrow> if \<not> isValidSha256Hex (sd_Sha256 detail) then Inl InvalidChecksumFormat else Inr detail))"

definition dest_path :: "sync_env \<Rightarrow> string \<Rightarrow> string" where
  "dest_path env sha = se_join env (se_storageDir env) (''advisories-'' @ sha @ ''.db'')"

definition download_url :: "sync_env \<Rightarrow> ScopeDetail \<Rightarrow> string" where
  "download_url env detail =
     (if sd_URL detail = [] then TrimSuffix (se_baseURL env) ''/'' @ ''/'' @ sd_Path detail else sd_URL detail)"

text \<open>After the temporary file exists it holds \<open>body\<close> until the function returns or renames it.\<close>

definition download :: "sync_env \<Rightarrow> ScopeDetail \<Rightarrow> sync_state \<Rightarrow> sync_state \<times> sync_error option" where
  "download env detail s =
     (if se_fault env CallDownloadRequest then (s, Some (SyncFailed CallDownloadRequest))
      else if se_fault env CallDownload then (s, Some (SyncFailed CallDownload))
      else let (status, body) = se_download env (download_url env detail) in
      if status \<noteq> 200 then (s, Some (DownloadStatus status))
      else if se_fault env CallMkdirStaging then (s, Some (SyncFailed CallMkdirStaging))
      else if se_fault env CallTempFile then (s, Some (SyncFailed CallTempFile))
      else
        let removed = s\<lparr>ss_files := (ss_files s)(se_tmpName env := None)\<rparr>;
            moved = s\<lparr>ss_files := ((ss_files s)(dest_path env (sd_Sha256 detail) \<mapsto> body))(se_tmpName env := None)\<rparr>
        in if se_fault env CallCopy then (removed, Some (SyncFailed CallCopy))
           else if body = [] then (removed, Some EmptyDownload)
           else if se_fault env CallCloseFile then (removed, Some (SyncFailed CallCloseFile))
           else if se_sha256 env body \<noteq> sd_Sha256 detail then (removed, Some ChecksumMismatch)
           else if se_fault env CallRename then (removed, Some (SyncFailed CallRename))
           else (moved, None))"

definition match_hosts :: "sync_env \<Rightarrow> string \<Rightarrow> sync_state \<Rightarrow> sync_state \<times> sync_error option" where
  "match_hosts env scopeKey s =
     (if se_fault env CallResolveMatcher then (s, Some (SyncFailed CallResolveMatcher))
      else let ((db, published), ok) =
                 MatchHostsForScope (se_match env) (se_fault env CallMatchHosts) scopeKey (ss_db s, ss_published s);
               s1 = s\<lparr>ss_db := db, ss_published := published\<rparr>
           in if ok then (s1, None) else (s1, Some (SyncFailed CallMatchHosts)))"

definition save_synced :: "sync_env \<Rightarrow> string \<Rightarrow> ScopeDetail \<Rightarrow> int \<Rightarrow> sync_state \<Rightarrow> sync_state \<times> sync_error option" where
  "save_synced env scopeKey detail advisoryCount s =
     (if se_fault env CallSaveScope then handleFailure env scopeKey (SyncFailed CallSaveScope) s
      else (s\<lparr>ss_scopes := UpsertAdvisoryScope
                \<lparr>sc_ScopeKey = scopeKey, sc_Status = ''synced'', sc_LastSyncAt = Some (se_now env), sc_LastSuccessAt = Some (se_now env),
                 sc_LastError = None, sc_AdvisoryCount = advisoryCount, sc_Sha256 = Some (sd_Sha256 detail),
                 sc_SizeBytes = sd_SizeBytes detail, sc_LocalPath = Some (dest_path env (sd_Sha256 detail)),
                 sc_NextRefreshAt = Some (se_now env + se_refreshInterval env)\<rparr> (ss_scopes s),
              ss_published := ss_published s @ [NewAdvisoriesUpdatedEvent]\<rparr>, None))"

text \<open>Opening the file, importing it in a transaction and matching the hosts\<close>

definition import_file :: "sync_env \<Rightarrow> string \<Rightarrow> ScopeDetail \<Rightarrow> sync_state \<Rightarrow> sync_state \<times> (sync_error + int)" where
  "import_file env scopeKey detail s =
     (if se_fault env CallOpenSqlite then (s, Inl (SyncFailed CallOpenSqlite))
      else case se_sqlite env (UnwrapOr (ss_files s (dest_path env (sd_Sha256 detail))) []) of
        None \<Rightarrow> (s, Inl (SyncFailed CallCountAdvisories))
      | Some (rowCount, sqlite) \<Rightarrow>
          if se_fault env CallBeginImport then (s, Inl (SyncFailed CallBeginImport))
          else case ImportAdvisoryDB (se_importFault env) sqlite scopeKey (mappings_or_default (se_mappings env)) (ss_db s) of
            Inl e \<Rightarrow> (s, Inl (ImportError e))
          | Inr db \<Rightarrow>
              if se_fault env CallCommitImport then (s, Inl (SyncFailed CallCommitImport))
              else case match_hosts env scopeKey (s\<lparr>ss_db := db\<rparr>) of
                (s1, Some e) \<Rightarrow> (s1, Inl e)
              | (s1, None) \<Rightarrow> (s1, Inr rowCount))"

definition remove_previous :: "sync_env \<Rightarrow> AdvisoryScope option \<Rightarrow> ScopeDetail \<Rightarrow> sync_state \<Rightarrow> sync_state" where
  "remove_previous env current detail s =
     (case current of
        None \<Rightarrow> s
      | Some c \<Rightarrow>
          if sc_Sha256 c \<noteq> None \<and> sc_LocalPath c \<noteq> None \<and> UnwrapOr (sc_Sha256 c) [] \<noteq> sd_Sha256 detail \<and>
             UnwrapOr (sc_LocalPath c) [] \<noteq> dest_path env (sd_Sha256 detail)
          then s\<lparr>ss_files := (ss_files s)(UnwrapOr (sc_LocalPath c) [] := None)\<rparr> else s)"

section \<open>\<open>SyncScope\<close>\<close>

definition SyncScope :: "sync_env \<Rightarrow> string \<Rightarrow> sync_state \<Rightarrow> sync_state \<times> sync_error option" where
  "SyncScope env scopeKey s =
     (case (if se_fault env CallMarkSyncing then None else UpdateAdvisoryScopeStatus scopeKey ''syncing'' None (ss_scopes s)) of
        None \<Rightarrow> (s, Some (SyncFailed CallMarkSyncing))
      | Some scopes \<Rightarrow>
          let s0 = s\<lparr>ss_scopes := scopes\<rparr> in
          case find_detail env scopeKey of
            Inl e \<Rightarrow> handleFailure env scopeKey e s0
          | Inr detail \<Rightarrow>
              let current = (if se_fault env CallGetScope then None else GetAdvisoryScope scopeKey scopes) in
              if se_fault env CallMkdir then handleFailure env scopeKey (SyncFailed CallMkdir) s0
              else
                let sameHash = (case current of None \<Rightarrow> False | Some c \<Rightarrow> UnwrapOr (sc_Sha256 c) [] = sd_Sha256 detail);
                    hasSuccessfulImport = (sameHash \<and> (case current of None \<Rightarrow> False | Some c \<Rightarrow> sc_LastSuccessAt c \<noteq> None));
                    needsDownload = (ss_files s0 (dest_path env (sd_Sha256 detail)) = None \<or> se_existsErr env \<or> \<not> sameHash)
                in if \<not> needsDownload \<and> hasSuccessfulImport then
                     (case match_hosts env scopeKey s0 of
                        (s1, Some e) \<Rightarrow> handleFailure env scopeKey e s1
                      | (s1, None) \<Rightarrow>
                          save_synced env scopeKey detail (case current of None \<Rightarrow> 0 | Some c \<Rightarrow> sc_AdvisoryCount c) s1)
                   else
                     (case (if needsDownload then download env detail s0 else (s0, None)) of
                        (s1, Some e) \<Rightarrow> handleFailure env scopeKey e s1
                      | (s1, None) \<Rightarrow>
                          (case import_file env scopeKey detail s1 of
                             (s2, Inl e) \<Rightarrow> handleFailure env scopeKey e s2
                           | (s2, Inr rowCount) \<Rightarrow>
                               save_synced env scopeKey detail rowCount (remove_previous env current detail s2))))"

section \<open>What the parts keep\<close>

definition advisory_data :: "tables \<Rightarrow> ProductStream list \<times> Advisory list \<times> AdvisoryProductStream list \<times> AffectedPackageRule list \<times>
    FixedPackage list \<times> AdvisoryReference list" where
  "advisory_data db = (db_streams db, db_advisories db, db_links db, db_rules db, db_fixes db, db_refs db)"

lemma match_in_tx_data: "match_in_tx env h sid snap host ag streams db = Inr (db1, res) \<Longrightarrow> advisory_data db1 = advisory_data db"
  by (auto simp: match_in_tx_def Let_def advisory_data_def UpsertHostCurrentState_def DeleteDecisionRecordsBySnapshot_def
      dest!: insert_loop_Inr split: if_splits sum.splits)

lemma MatchSnapshot_data: "advisory_data (fst (fst (MatchSnapshot env h sid s))) = advisory_data (fst s)"
  by (cases rule: MatchSnapshot_cases [of env h sid s]) (auto dest: match_in_tx_data)

lemma rematch_loop_data: "advisory_data (fst (rematch_loop env hosts s)) = advisory_data (fst s)"
  by (induction hosts arbitrary: s) (simp_all add: MatchSnapshot_data)

lemma match_hosts_keeps:
  assumes "match_hosts env k s = (t, err)"
  shows "advisory_data (ss_db t) = advisory_data (ss_db s) \<and> ss_files t = ss_files s \<and> ss_scopes t = ss_scopes s"
proof -
  have "advisory_data (fst (fst (MatchHostsForScope e lf k p))) = advisory_data (fst p)" for e lf p
    by (simp add: MatchHostsForScope_def rematch_loop_data split: prod.split) (metis fst_conv rematch_loop_data)
  with assms show ?thesis
    by (auto simp: match_hosts_def Let_def split: if_splits prod.splits) (metis fst_conv)+
qed

text \<open>Every file of the storage directory that is named by a checksum has that checksum.\<close>

definition files_ok :: "sync_env \<Rightarrow> sync_state \<Rightarrow> bool" where
  "files_ok env s \<longleftrightarrow> (\<forall>h c. ss_files s (dest_path env h) = Some c \<longrightarrow> se_sha256 env c = h)"

text \<open>\<open>filepath.Join\<close> keeps distinct file names apart, and the staging directory is not the storage directory.\<close>

definition paths_ok :: "sync_env \<Rightarrow> bool" where
  "paths_ok env \<longleftrightarrow> inj (dest_path env) \<and> se_tmpName env \<notin> range (dest_path env)"

lemma download_keeps:
  assumes "download env detail s = (t, err)"
  shows "ss_db t = ss_db s \<and> ss_scopes t = ss_scopes s"
  using assms by (auto simp: download_def Let_def split: if_splits prod.splits)

lemma download_files_ok:
  assumes "download env detail s = (t, err)" "files_ok env s" "paths_ok env"
  shows "files_ok env t"
proof -
  have inj: "dest_path env a = dest_path env b \<longleftrightarrow> a = b" for a b using assms(3) by (auto simp: paths_ok_def inj_def)
  consider "ss_files t = ss_files s" | "ss_files t = (ss_files s)(se_tmpName env := None)"
    | body where "se_sha256 env body = sd_Sha256 detail"
        "ss_files t = ((ss_files s)(dest_path env (sd_Sha256 detail) \<mapsto> body))(se_tmpName env := None)"
    using assms(1) by (auto simp: download_def Let_def split: if_splits prod.splits)
  then show ?thesis
    using assms(2,3) by cases (auto simp: files_ok_def inj split: if_splits)
qed

lemma download_content:
  assumes "download env detail s = (t, None)" "paths_ok env"
  obtains body where "ss_files t (dest_path env (sd_Sha256 detail)) = Some body" "se_sha256 env body = sd_Sha256 detail"
proof -
  have "dest_path env (sd_Sha256 detail) \<noteq> se_tmpName env" using assms(2) by (metis paths_ok_def rangeI)
  with assms(1) that show ?thesis by (auto simp: download_def Let_def split: if_splits prod.splits)
qed

lemma import_file_keeps:
  assumes "import_file env k detail s = (t, res)"
  shows "ss_files t = ss_files s \<and> ss_scopes t = ss_scopes s"
    and "advisory_data (ss_db t) = advisory_data (ss_db s) \<or>
      (\<exists>n src db1. se_sqlite env (UnwrapOr (ss_files s (dest_path env (sd_Sha256 detail))) []) = Some (n, src) \<and>
         ImportAdvisoryDB (se_importFault env) src k (mappings_or_default (se_mappings env)) (ss_db s) = Inr db1 \<and>
         advisory_data (ss_db t) = advisory_data db1)"
  using assms
  by (auto simp: import_file_def split: if_splits option.splits sum.splits prod.splits dest!: match_hosts_keeps)

section \<open>The outcome\<close>

definition scope_is :: "string \<Rightarrow> (AdvisoryScope \<Rightarrow> bool) \<Rightarrow> AdvisoryScope list \<Rightarrow> bool" where
  "scope_is k P scopes \<longleftrightarrow> has_scope k scopes \<and> (\<forall>c \<in> set scopes. sc_ScopeKey c = k \<longrightarrow> P c)"

lemma has_scope_update: "(\<And>s. sc_ScopeKey (f s) = sc_ScopeKey s) \<Longrightarrow> has_scope j (update_scope k f scopes) = has_scope j scopes"
  by (auto simp: has_scope_def update_scope_def)

lemma scope_is_update:
  "has_scope k scopes \<Longrightarrow> (\<And>s. sc_ScopeKey s = k \<Longrightarrow> sc_ScopeKey (f s) = k \<and> P (f s)) \<Longrightarrow> scope_is k P (update_scope k f scopes)"
  by (auto simp: scope_is_def has_scope_def update_scope_def)

lemma mark_syncing: "UpdateAdvisoryScopeStatus k st e scopes = Some scopes1 \<Longrightarrow> has_scope k scopes1"
  by (auto simp: UpdateAdvisoryScopeStatus_def has_scope_update split: if_splits)

lemma handleFailure_outcome:
  assumes "handleFailure env k e s = (t, err)" "has_scope k (ss_scopes s)"
  shows "err = Some e \<and> ss_db t = ss_db s \<and> ss_files t = ss_files s \<and>
    (\<not> se_fault env CallMarkFailed \<longrightarrow> scope_is k (\<lambda>c. sc_Status c = ''failed'' \<and> sc_LastError c = Some (se_message env e)) (ss_scopes t))"
  using assms by (auto simp: handleFailure_def UpdateAdvisoryScopeStatus_def intro!: scope_is_update)

lemma UpsertAdvisoryScope_is:
  assumes "sc_Sha256 new = Some h" "sc_Status new = st"
  shows "scope_is (sc_ScopeKey new) (\<lambda>c. sc_Status c = st \<and> sc_Sha256 c = Some h) (UpsertAdvisoryScope new scopes)"
proof (cases "has_scope (sc_ScopeKey new) scopes")
  case True
  then show ?thesis using assms by (auto simp: UpsertAdvisoryScope_def coalesce_def intro!: scope_is_update)
next
  case False
  then show ?thesis using assms by (auto simp: UpsertAdvisoryScope_def scope_is_def has_scope_def)
qed

text \<open>Data that are as before, or as after importing a file with the checksum of the manifest\<close>

definition verified_data :: "sync_env \<Rightarrow> string \<Rightarrow> tables \<Rightarrow> tables \<Rightarrow> bool" where
  "verified_data env k db db1 \<longleftrightarrow> advisory_data db1 = advisory_data db \<or>
     (\<exists>detail content n src db2. find_detail env k = Inr detail \<and> se_sha256 env content = sd_Sha256 detail \<and>
        se_sqlite env content = Some (n, src) \<and>
        ImportAdvisoryDB (se_importFault env) src k (mappings_or_default (se_mappings env)) db = Inr db2 \<and>
        advisory_data db1 = advisory_data db2)"

definition outcome_ok :: "sync_env \<Rightarrow> string \<Rightarrow> sync_state \<Rightarrow> sync_state \<Rightarrow> sync_error option \<Rightarrow> bool" where
  "outcome_ok env k s t err \<longleftrightarrow> files_ok env t \<and> verified_data env k (ss_db s) (ss_db t) \<and>
     (err = None \<longrightarrow> (\<exists>detail. find_detail env k = Inr detail \<and>
        scope_is k (\<lambda>c. sc_Status c = ''synced'' \<and> sc_Sha256 c = Some (sd_Sha256 detail)) (ss_scopes t))) \<and>
     (\<forall>e. err = Some e \<and> e \<noteq> SyncFailed CallMarkSyncing \<and> \<not> se_fault env CallMarkFailed \<longrightarrow>
        scope_is k (\<lambda>c. sc_Status c = ''failed'' \<and> sc_LastError c = Some (se_message env e)) (ss_scopes t))"

lemma outcome_failure:
  assumes "handleFailure env k e u = (t, err)" "has_scope k (ss_scopes u)" "files_ok env u" "verified_data env k (ss_db s) (ss_db u)"
  shows "outcome_ok env k s t err"
  using handleFailure_outcome [OF assms(1,2)] assms(3,4) by (auto simp: outcome_ok_def files_ok_def)

lemma outcome_saved:
  assumes "save_synced env k detail n u = (t, err)" "find_detail env k = Inr detail" "has_scope k (ss_scopes u)" "files_ok env u"
    and "verified_data env k (ss_db s) (ss_db u)"
  shows "outcome_ok env k s t err"
proof (cases "se_fault env CallSaveScope")
  case True
  with assms show ?thesis by (auto simp: save_synced_def intro: outcome_failure)
next
  case False
  let ?new = "\<lparr>sc_ScopeKey = k, sc_Status = ''synced'', sc_LastSyncAt = Some (se_now env), sc_LastSuccessAt = Some (se_now env),
    sc_LastError = None, sc_AdvisoryCount = n, sc_Sha256 = Some (sd_Sha256 detail), sc_SizeBytes = sd_SizeBytes detail,
    sc_LocalPath = Some (dest_path env (sd_Sha256 detail)), sc_NextRefreshAt = Some (se_now env + se_refreshInterval env)\<rparr>"
  have "scope_is k (\<lambda>c. sc_Status c = ''synced'' \<and> sc_Sha256 c = Some (sd_Sha256 detail)) (UpsertAdvisoryScope ?new (ss_scopes u))"
    using UpsertAdvisoryScope_is [of ?new] by simp
  with False assms show ?thesis by (auto simp: save_synced_def outcome_ok_def files_ok_def)
qed

lemma remove_previous_keeps:
  "ss_db (remove_previous env c d s) = ss_db s" "ss_scopes (remove_previous env c d s) = ss_scopes s"
  "files_ok env s \<Longrightarrow> files_ok env (remove_previous env c d s)"
  by (auto simp: remove_previous_def files_ok_def split: option.split if_splits)

lemma verified_refl: "advisory_data db1 = advisory_data db \<Longrightarrow> verified_data env k db db1"
  by (simp add: verified_data_def)

lemma verified_same [simp]: "verified_data env k db db"
  by (simp add: verified_data_def)

text \<open>The import of a file that has the right checksum\<close>

lemma outcome_import:
  assumes "import_file env k detail u = (v, res)" "find_detail env k = Inr detail" "has_scope k (ss_scopes u)" "files_ok env u"
    and "ss_db u = ss_db s" "ss_files u (dest_path env (sd_Sha256 detail)) = Some content" "se_sha256 env content = sd_Sha256 detail"
    and "(case res of Inl e \<Rightarrow> handleFailure env k e v | Inr n \<Rightarrow> save_synced env k detail n (remove_previous env current detail v)) = (t, err)"
  shows "outcome_ok env k s t err"
proof -
  note keep = import_file_keeps [OF assms(1)]
  have v: "has_scope k (ss_scopes v)" "files_ok env v" using assms(3,4) keep(1) by (auto simp: files_ok_def)
  have data: "verified_data env k (ss_db s) (ss_db v)"
    using keep(2) assms(2,5-7) unfolding verified_data_def by auto
  show ?thesis
  proof (cases res)
    case (Inl e)
    with assms(8) v data show ?thesis by (auto intro: outcome_failure)
  next
    case (Inr n)
    with assms(8) have r: "save_synced env k detail n (remove_previous env current detail v) = (t, err)" by simp
    show ?thesis
      by (rule outcome_saved [OF r assms(2)]) (simp_all add: remove_previous_keeps v data)
  qed
qed

lemma outcome_rematch:
  assumes "(case match_hosts env k u of (s1, Some e) \<Rightarrow> handleFailure env k e s1 | (s1, None) \<Rightarrow> save_synced env k detail n s1) = (t, err)"
    and "find_detail env k = Inr detail" "has_scope k (ss_scopes u)" "files_ok env u" "ss_db u = ss_db s"
  shows "outcome_ok env k s t err"
proof (cases "match_hosts env k u")
  case (Pair s1 m)
  note keep = match_hosts_keeps [OF Pair]
  have v: "verified_data env k (ss_db s) (ss_db s1)" using keep assms(5) by (intro verified_refl) simp
  have k: "has_scope k (ss_scopes s1)" "files_ok env s1" using keep assms(3,4) by (simp_all add: files_ok_def)
  show ?thesis
  proof (cases m)
    case (Some e)
    with assms(1) Pair have "handleFailure env k e s1 = (t, err)" by simp
    then show ?thesis by (rule outcome_failure) (use v k in simp_all)
  next
    case None
    with assms(1) Pair have "save_synced env k detail n s1 = (t, err)" by simp
    then show ?thesis by (rule outcome_saved [OF _ assms(2)]) (use v k in simp_all)
  qed
qed

lemma outcome_load:
  assumes "(case (if fresh then download env detail u else (u, None)) of (s1, Some e) \<Rightarrow> handleFailure env k e s1
      | (s1, None) \<Rightarrow> (case import_file env k detail s1 of (s2, Inl e) \<Rightarrow> handleFailure env k e s2
         | (s2, Inr n) \<Rightarrow> save_synced env k detail n (remove_previous env current detail s2))) = (t, err)"
    and "find_detail env k = Inr detail" "has_scope k (ss_scopes u)" "files_ok env u" "ss_db u = ss_db s" "paths_ok env"
    and "fresh \<or> ss_files u (dest_path env (sd_Sha256 detail)) \<noteq> None"
  shows "outcome_ok env k s t err"
proof -
  obtain s1 m where d: "(if fresh then download env detail u else (u, None)) = (s1, m)" by (meson surj_pair)
  have k: "has_scope k (ss_scopes s1)" "files_ok env s1" "ss_db s1 = ss_db s"
    using d assms(3-6) download_keeps [of env detail u s1 m] download_files_ok [of env detail u s1 m] by (auto split: if_splits)
  show ?thesis
  proof (cases m)
    case (Some e)
    with assms(1) d have "handleFailure env k e s1 = (t, err)" by simp
    then show ?thesis by (rule outcome_failure) (use k in \<open>simp_all add: verified_refl\<close>)
  next
    case None
    have "\<exists>content. ss_files s1 (dest_path env (sd_Sha256 detail)) = Some content \<and> se_sha256 env content = sd_Sha256 detail"
    proof (cases fresh)
      case True
      then have "download env detail u = (s1, None)" using d None by simp
      from download_content [OF this assms(6)] show ?thesis by blast
    next
      case False
      then show ?thesis using d assms(4,7) by (auto simp: files_ok_def)
    qed
    then obtain content where c: "ss_files s1 (dest_path env (sd_Sha256 detail)) = Some content" "se_sha256 env content = sd_Sha256 detail"
      by blast
    obtain v res where i: "import_file env k detail s1 = (v, res)" by (meson surj_pair)
    have "(case res of Inl e \<Rightarrow> handleFailure env k e v | Inr n \<Rightarrow> save_synced env k detail n (remove_previous env current detail v)) = (t, err)"
      using assms(1) unfolding d None by (simp add: i)
    then show ?thesis by (rule outcome_import [OF i assms(2) k(1,2,3) c])
  qed
qed

lemma outcome_detail:
  assumes "SyncScope env k s = (t, err)"
    and mark: "(if se_fault env CallMarkSyncing then None else UpdateAdvisoryScopeStatus k ''syncing'' None (ss_scopes s)) = Some (ss_scopes u)
      \<and> u = s\<lparr>ss_scopes := ss_scopes u\<rparr>"
    and "find_detail env k = Inr detail" "has_scope k (ss_scopes u)" "files_ok env u" "ss_db u = ss_db s" "paths_ok env"
  shows "outcome_ok env k s t err"
proof -
  define current where "current = (if se_fault env CallGetScope then None else GetAdvisoryScope k (ss_scopes u))"
  define same where "same = (case current of None \<Rightarrow> False | Some c \<Rightarrow> UnwrapOr (sc_Sha256 c) [] = sd_Sha256 detail)"
  define fresh where "fresh = (ss_files u (dest_path env (sd_Sha256 detail)) = None \<or> se_existsErr env \<or> \<not> same)"
  define again where "again = (\<not> fresh \<and> same \<and> (case current of None \<Rightarrow> False | Some c \<Rightarrow> sc_LastSuccessAt c \<noteq> None))"
  have run: "SyncScope env k s = (if se_fault env CallMkdir then handleFailure env k (SyncFailed CallMkdir) u
    else if again then
      (case match_hosts env k u of (s1, Some e) \<Rightarrow> handleFailure env k e s1
       | (s1, None) \<Rightarrow> save_synced env k detail (case current of None \<Rightarrow> 0 | Some c \<Rightarrow> sc_AdvisoryCount c) s1)
    else (case (if fresh then download env detail u else (u, None)) of (s1, Some e) \<Rightarrow> handleFailure env k e s1
       | (s1, None) \<Rightarrow> (case import_file env k detail s1 of (s2, Inl e) \<Rightarrow> handleFailure env k e s2
          | (s2, Inr n) \<Rightarrow> save_synced env k detail n (remove_previous env current detail s2))))"
    using assms(2,3) unfolding SyncScope_def by (simp add: Let_def current_def same_def fresh_def again_def, clarsimp)
  consider (dir) "handleFailure env k (SyncFailed CallMkdir) u = (t, err)"
    | (rematch) "(case match_hosts env k u of (s1, Some e) \<Rightarrow> handleFailure env k e s1
       | (s1, None) \<Rightarrow> save_synced env k detail (case current of None \<Rightarrow> 0 | Some c \<Rightarrow> sc_AdvisoryCount c) s1) = (t, err)"
    | (load) "(case (if fresh then download env detail u else (u, None)) of (s1, Some e) \<Rightarrow> handleFailure env k e s1
       | (s1, None) \<Rightarrow> (case import_file env k detail s1 of (s2, Inl e) \<Rightarrow> handleFailure env k e s2
          | (s2, Inr n) \<Rightarrow> save_synced env k detail n (remove_previous env current detail s2))) = (t, err)"
    using assms(1) unfolding run by (cases "se_fault env CallMkdir"; cases again) simp_all
  then show ?thesis
  proof cases
    case dir
    then show ?thesis by (rule outcome_failure) (use assms(4-6) in simp_all)
  next
    case rematch
    then show ?thesis by (rule outcome_rematch [OF _ assms(3-6)])
  next
    case load
    then show ?thesis by (rule outcome_load [OF _ assms(3-7)]) (auto simp: fresh_def)
  qed
qed


definition sample_detail :: ScopeDetail where
  "sample_detail = \<lparr>sd_Key = ''rocky:9'', sd_Path = ''r9.db'', sd_URL = [], sd_Sha256 = replicate 64 (CHR ''a''), sd_SizeBytes = 1, sd_UpdatedAt = [],
     sd_AdvisoryCount = 1, sd_LicenseFeature = []\<rparr>"

text \<open>The sample hash has the expected value for one content only; the download is a different file.\<close>

definition sample_sync :: sync_env where
  "sample_sync = \<lparr>se_fault = (\<lambda>_. False), se_manifest = (200, Some \<lparr>mf_SchemaVersion = 1, mf_GeneratedAt = [], mf_Scopes = [sample_detail]\<rparr>),
     se_existsErr = False, se_download = (\<lambda>_. (200, ''tampered'')),
     se_sha256 = (\<lambda>c. if c = ''genuine'' then replicate 64 (CHR ''a'') else replicate 64 (CHR ''b'')),
     se_sqlite = (\<lambda>_. Some (1, sample_sqlite)), se_importFault = (\<lambda>_. False), se_match = (\<lambda>_. sample_env),
     se_message = (\<lambda>_. ''checksum mismatch''), se_join = (\<lambda>d f. d @ ''/'' @ f), se_tmpName = ''/tmp/x'', se_now = 7, se_baseURL = ''https://a'',
     se_storageDir = ''/var'', se_refreshInterval = 1, se_mappings = []\<rparr>"

definition sample_sync_state :: sync_state where
  "sample_sync_state = \<lparr>ss_scopes = [new_scope ''rocky:9'' ''pending''], ss_db = sample_old_tables, ss_published = [], ss_files = Map.empty\<rparr>"


end
