(* ===== verification/Ssh_Report.thy ===== *)
theory Ssh_Report
  imports Agent_Packages
begin

text \<open>
  \<open>internal/services/ssh_pull.go\<close>: a host without agent is asked over SSH to run a script, and its output is parsed into
  the same snapshot an agent would send. The file has its own copies of the agent's line parsers; they are modelled as
  they are (with the prefix \<open>pull\<close>) and compared with the agent's. The SSH connection is a parameter: what running a
  script gives. \<open>proto.Marshal\<close> is a parameter too.
\<close>

section \<open>Strings\<close>

lemma HasPrefix_length: "HasPrefix s p \<Longrightarrow> length p \<le> length s"
  by (metis HasPrefix_iff le_add1 length_append)

lemma Index_bound: "Index s p = Some i \<Longrightarrow> i + length p \<le> length s"
  by (induction s p arbitrary: i rule: Index.induct) (auto dest: HasPrefix_length split: if_splits)

text \<open>\<open>strings.Split\<close> for a separator that is not empty\<close>

function Split :: "string \<Rightarrow> string \<Rightarrow> string list" where
  "Split s sep =
     (if sep = [] then [s]
      else case Index s sep of
        None \<Rightarrow> [s]
      | Some i \<Rightarrow> take i s # Split (drop (i + length sep) s) sep)"
  by pat_completeness auto

termination
proof (relation "measure (\<lambda>(s, sep). length s)")
  fix s sep :: string and i
  assume "sep \<noteq> []" "Index s sep = Some i"
  then show "((drop (i + length sep) s, sep), (s, sep)) \<in> measure (\<lambda>(s, sep). length s)"
    using Index_bound [of s sep i] by (cases s) (auto simp: length_greater_0_conv [symmetric] simp del: length_greater_0_conv)
qed simp

declare Split.simps [simp del]

definition commas_to_blanks :: "string \<Rightarrow> string" where
  "commas_to_blanks s = map (\<lambda>c. if c = CHR '','' then CHR '' '' else c) s"

definition CleanQuote :: "string \<Rightarrow> string" where
  "CleanQuote s =
     (let s = TrimSpace s in
      if 2 \<le> length s \<and> (hd s = CHR 0x22 \<and> last s = CHR 0x22 \<or> hd s = CHR 0x27 \<and> last s = CHR 0x27)
      then butlast (tl s) else s)"

definition pull_fallback :: "string \<Rightarrow> string \<Rightarrow> string" where
  "pull_fallback value defaultValue = (let trimmed = TrimSpace value in if trimmed = [] then defaultValue else trimmed)"

section \<open>Which script\<close>

definition normalizeOSFamilyString :: "string \<Rightarrow> string" where
  "normalizeOSFamilyString raw =
     (let v = ToLower (TrimSpace (CleanQuote raw)) in
      if v \<in> set [''apt'', ''debian'', ''ubuntu'', ''linuxmint''] then ''apt''
      else if v \<in> set [''rpm'', ''rocky'', ''rhel'', ''almalinux'', ''centos'', ''fedora''] then ''rpm''
      else [])"

text \<open>The first token of an \<open>ID_LIKE\<close> value that names a family\<close>

fun first_family :: "string list \<Rightarrow> string" where
  "first_family [] = []"
| "first_family (token # ts) =
     (let family = normalizeOSFamilyString token in if family \<noteq> [] then family else first_family ts)"

fun family_of_lines :: "string list \<Rightarrow> string" where
  "family_of_lines [] = []"
| "family_of_lines (candidate # ls) =
     (let trimmed = TrimSpace candidate in
      if trimmed = [] then family_of_lines ls
      else
        let (i, idLike) = (case Cut trimmed ''|'' of Some (a, b) \<Rightarrow> (a, Some b) | None \<Rightarrow> (trimmed, None));
            family = normalizeOSFamilyString i
        in if family \<noteq> [] then family
           else (case idLike of
               None \<Rightarrow> family_of_lines ls
             | Some like \<Rightarrow>
                 let liked = first_family (Fields (commas_to_blanks like))
                 in if liked \<noteq> [] then liked else family_of_lines ls))"

definition detectOSFamilyFromReleaseOutput :: "string \<Rightarrow> string" where
  "detectOSFamilyFromReleaseOutput output =
     (let line = TrimSpace output in if line = [] then [] else family_of_lines (Split1 line (CHR 0x0A)))"

datatype pull_script = DetectOSScript | ReportScriptAPT | ReportScriptRPM

datatype pull_error = ScriptFailed string | UnsupportedFamily string | MarshalFailed

definition collectorScriptForOSFamily :: "string \<Rightarrow> pull_error + pull_script" where
  "collectorScriptForOSFamily osFamily =
     (let f = normalizeOSFamilyString osFamily in
      if f = ''apt'' then Inr ReportScriptAPT
      else if f = ''rpm'' then Inr ReportScriptRPM
      else Inl (UnsupportedFamily osFamily))"

text \<open>\<open>strings.ReplaceAll(script, "'", "'\"'\"'")\<close> between single quotes\<close>

definition ssh_command :: "string \<Rightarrow> string" where
  "ssh_command script =
     ''sh -lc '' @ [CHR 0x27] @
     concat (map (\<lambda>c. if c = CHR 0x27 then [CHR 0x27, CHR 0x22, CHR 0x27, CHR 0x22, CHR 0x27] else [c]) script) @ [CHR 0x27]"

section \<open>Lines\<close>

definition pull_parseEpoch :: "string \<Rightarrow> int option" where
  "pull_parseEpoch value =
     (let trimmed = TrimSpace value in if trimmed = [] \<or> trimmed = ''(none)'' then Some 0 else ParseInt 32 trimmed)"

definition pull_optionalStr :: "string \<Rightarrow> string" where
  "pull_optionalStr value = (let trimmed = TrimSpace value in if trimmed = [] \<or> trimmed = ''(none)'' then [] else trimmed)"

definition parseRPMPackageLine :: "string \<Rightarrow> Package option" where
  "parseRPMPackageLine line =
     (case Split1 line (CHR ''|'') of
        [name, epochField, version, release, arch, source, vendor] \<Rightarrow>
          (case pull_parseEpoch epochField of
             None \<Rightarrow> None
           | Some epoch \<Rightarrow>
               Some \<lparr>pkg_Name = name, pkg_Epoch = epoch, pkg_Version = version, pkg_Release = release, pkg_Arch = arch,
                     pkg_SourceRpm = pull_optionalStr source, pkg_Vendor = pull_optionalStr vendor, pkg_RepoOrigin = [],
                     pkg_Nevra = name @ ''-'' @ Itoa epoch @ '':'' @ version @ ''-'' @ release @ ''.'' @ arch\<rparr>)
      | _ \<Rightarrow> None)"

definition pull_formatPackageIdentifier :: "string \<Rightarrow> int \<Rightarrow> string \<Rightarrow> string \<Rightarrow> string \<Rightarrow> string" where
  "pull_formatPackageIdentifier name epoch version release arch =
     (if release = [] \<and> arch = [] then name @ ''-'' @ Itoa epoch @ '':'' @ version
      else if release = [] then name @ ''-'' @ Itoa epoch @ '':'' @ version @ ''.'' @ arch
      else if arch = [] then name @ ''-'' @ Itoa epoch @ '':'' @ version @ ''-'' @ release
      else name @ ''-'' @ Itoa epoch @ '':'' @ version @ ''-'' @ release @ ''.'' @ arch)"

definition pull_parseDebianVersion :: "string \<Rightarrow> (int \<times> string \<times> string) option" where
  "pull_parseDebianVersion value =
     (let version = TrimSpace value in
      if version = [] then None
      else
        (case (case Index version '':'' of
                 None \<Rightarrow> Some (0, version)
               | Some idx \<Rightarrow> map_option (\<lambda>parsed. (parsed, drop (idx + 1) version)) (pull_parseEpoch (take idx version))) of
           None \<Rightarrow> None
         | Some (epoch, rest) \<Rightarrow>
             if rest = [] then None
             else
               let (upstream, release) =
                     (case LastIndex rest ''-'' of None \<Rightarrow> (rest, []) | Some idx \<Rightarrow> (take idx rest, drop (idx + 1) rest))
               in if upstream = [] then None else Some (epoch, upstream, release)))"

definition parseAPTPackageLine :: "string \<Rightarrow> Package option" where
  "parseAPTPackageLine line =
     (case Split1 line (CHR ''|'') of
        [nameField, versionField, archField, vendorField, source] \<Rightarrow>
          let name = TrimSpace nameField in
          if name = [] then None
          else (case pull_parseDebianVersion (TrimSpace versionField) of
              None \<Rightarrow> None
            | Some (epoch, version, release) \<Rightarrow>
                let arch = TrimSpace archField in
                Some \<lparr>pkg_Name = name, pkg_Epoch = epoch, pkg_Version = version, pkg_Release = release, pkg_Arch = arch,
                      pkg_SourceRpm = pull_optionalStr source, pkg_Vendor = pull_optionalStr vendorField, pkg_RepoOrigin = [],
                      pkg_Nevra = pull_formatPackageIdentifier name epoch version release arch\<rparr>)
      | _ \<Rightarrow> None)"

definition pull_parseAptUpgradableLine :: "string \<Rightarrow> Package option" where
  "pull_parseAptUpgradableLine line =
     (if HasPrefix line ''Listing...'' \<or> HasPrefix line ''WARNING:'' \<or> HasPrefix line ''N:'' then None
      else if \<not> Contains line ''[upgradable from:'' then None
      else case Fields line of
          nameField # versionField # archField # _ \<Rightarrow>
            (case Cut nameField ''/'' of
               None \<Rightarrow> None
             | Some (name, repoOrigin) \<Rightarrow>
                 if TrimSpace name = [] then None
                 else
                   let version = TrimSpace versionField; arch = TrimSpace archField; nevra = name @ ''-'' @ version
                   in Some \<lparr>pkg_Name = name, pkg_Epoch = 0, pkg_Version = version, pkg_Release = [], pkg_Arch = arch,
                            pkg_SourceRpm = [], pkg_Vendor = [], pkg_RepoOrigin = repoOrigin,
                            pkg_Nevra = (if arch \<noteq> [] then nevra @ ''.'' @ arch else nevra)\<rparr>)
        | _ \<Rightarrow> None)"

definition pull_parseRpmUpgradableLine :: "string \<Rightarrow> Package option" where
  "pull_parseRpmUpgradableLine line =
     (if HasPrefix line ''Last metadata expiration check:'' then None
      else if line = ''Obsoleting Packages'' \<or> line = ''Obsoleted Packages'' then None
      else case Fields line of
          nameArch # targetVersion # repoOrigin # _ \<Rightarrow>
            (case Cut nameArch ''.'' of
               None \<Rightarrow> None
             | Some (name, arch) \<Rightarrow>
                 if TrimSpace name = [] then None
                 else
                   let (epoch, versionRelease) =
                         (case Cut targetVersion '':'' of
                            None \<Rightarrow> (0, targetVersion)
                          | Some (epochPart, rest) \<Rightarrow>
                              (case ParseInt 32 epochPart of None \<Rightarrow> (0, targetVersion) | Some parsed \<Rightarrow> (parsed, rest)));
                       (version, release) =
                         (case LastIndex versionRelease ''-'' of
                            None \<Rightarrow> (versionRelease, [])
                          | Some idx \<Rightarrow>
                              if 0 < idx \<and> idx + 1 < length versionRelease
                              then (take idx versionRelease, drop (idx + 1) versionRelease) else (versionRelease, []));
                       nevra0 = name @ ''-'' @ Itoa epoch @ '':'' @ version;
                       nevra1 = (if release \<noteq> [] then nevra0 @ ''-'' @ release else nevra0);
                       nevra2 = (if arch \<noteq> [] then nevra1 @ ''.'' @ arch else nevra1)
                   in Some \<lparr>pkg_Name = name, pkg_Epoch = epoch, pkg_Version = version, pkg_Release = release, pkg_Arch = arch,
                            pkg_SourceRpm = [], pkg_Vendor = [], pkg_RepoOrigin = repoOrigin, pkg_Nevra = nevra2\<rparr>)
        | _ \<Rightarrow> None)"

definition ParseUpgradablePackages :: "string \<Rightarrow> string \<Rightarrow> Package list" where
  "ParseUpgradablePackages osFamily output =
     List.map_filter (\<lambda>line.
       if osFamily = ''apt'' then pull_parseAptUpgradableLine line
       else if osFamily = ''rpm'' then pull_parseRpmUpgradableLine line else None) (scan_trimmed output)"

definition pull_counts_apt :: "string \<Rightarrow> bool" where
  "pull_counts_apt line \<longleftrightarrow>
     \<not> (HasPrefix line ''Listing...'' \<or> HasPrefix line ''WARNING:'' \<or> HasPrefix line ''N:'') \<and>
     Contains line ''/'' \<and> Contains line ''[upgradable from:''"

definition CountAptPackageUpdates :: "string \<Rightarrow> int" where
  "CountAptPackageUpdates output = count_lines pull_counts_apt 0 (scan_trimmed output)"

definition pull_counts_rpm :: "string \<Rightarrow> bool" where
  "pull_counts_rpm line \<longleftrightarrow>
     \<not> HasPrefix line ''Last metadata expiration check:'' \<and> \<not> (line = ''Obsoleting Packages'' \<or> line = ''Obsoleted Packages'') \<and>
     (case Fields line of
        first # second # _ # _ \<Rightarrow> Contains first ''.'' \<and> list_ex (\<lambda>c. c \<in> set ''0123456789'') second
      | _ \<Rightarrow> False)"

definition CountRpmPackageUpdates :: "string \<Rightarrow> int" where
  "CountRpmPackageUpdates output = count_lines pull_counts_rpm 0 (scan_trimmed output)"

definition parseRPMRepoLine :: "string \<Rightarrow> Repo option" where
  "parseRPMRepoLine line0 =
     (let line = TrimSpace line0 in
      if line = [] then None
      else if HasPrefix line ''repo id'' \<or> HasPrefix line ''Last metadata'' then None
      else case Fields line of
          [] \<Rightarrow> None
        | repoID # _ \<Rightarrow>
            Some \<lparr>repo_RepoId = repoID, repo_Enabled = True, repo_RepoLabel = TrimSpace (TrimPrefix line repoID), repo_Baseurl = [],
                  repo_Metalink = [], repo_Mirrorlist = []\<rparr>)"

definition parseAPTRepoLine :: "string \<Rightarrow> nat \<Rightarrow> Repo option" where
  "parseAPTRepoLine line lineNo =
     (let trimmed = TrimSpace line in
      if \<not> HasPrefix trimmed ''deb '' then None
      else
        let remainder0 = TrimSpace (TrimPrefix trimmed ''deb '');
            remainder =
              (if HasPrefix remainder0 ''['' then
                 (case Index remainder0 '']'' of
                    Some closing \<Rightarrow> if closing + 1 < length remainder0 then TrimSpace (drop (closing + 1) remainder0) else remainder0
                  | None \<Rightarrow> remainder0)
               else remainder0)
        in case Fields remainder of
             uri # suite # components \<Rightarrow>
               Some \<lparr>repo_RepoId = ''ssh_pull:'' @ Itoa (int lineNo), repo_Enabled = True,
                     repo_RepoLabel = (if components \<noteq> [] then suite @ '' '' @ Join components '' '' else suite),
                     repo_Baseurl = uri, repo_Metalink = [], repo_Mirrorlist = []\<rparr>
           | _ \<Rightarrow> None)"

section \<open>The report\<close>

record SSHPullResult =
  pr_MachineID :: string
  pr_Hostname :: string
  pr_IPAddress :: string
  pr_OSFamily :: string
  pr_OSName :: string
  pr_OSVersion :: string
  pr_OSMajor :: int
  pr_Architecture :: string
  pr_RunningKernel :: string
  pr_CollectedAt :: int
  pr_BootTime :: "int option"
  pr_AvailableUpdates :: int
  pr_HasProcessData :: bool
  pr_Payload :: string
  pr_OverallAction :: string
  pr_CriticalCount :: int
  pr_ImportantCount :: int
  pr_ModerateCount :: int
  pr_ActionableCount :: int
  pr_NeedsReboot :: int
  pr_NeedsRestart :: int
  pr_NoFix :: int
  pr_Unknown :: int

definition report_parts :: "string \<Rightarrow> string list" where
  "report_parts out =
     (let parts = Split out (''---UPDATES_START---'' @ [CHR 0x0A])
      in if length parts < 2 then Split out ''---UPDATES_START---'' else parts)"

definition metadata_line :: "string \<Rightarrow> (string \<rightharpoonup> string) \<Rightarrow> (string \<rightharpoonup> string)" where
  "metadata_line line0 m =
     (let line = TrimSpace line0 in
      if \<not> HasPrefix line ''_PB_METADATA_'' then m
      else case Cut (TrimPrefix line ''_PB_METADATA_'') ''='' of
        None \<Rightarrow> m
      | Some (key, val) \<Rightarrow> m(key \<mapsto> CleanQuote val))"

definition metadata_fields :: "string \<Rightarrow> (string \<rightharpoonup> string)" where
  "metadata_fields part = fold metadata_line (Split1 part (CHR 0x0A)) Map.empty"

definition field :: "(string \<rightharpoonup> string) \<Rightarrow> string \<Rightarrow> string" where
  "field m k = (case m k of None \<Rightarrow> [] | Some v \<Rightarrow> v)"

definition boot_time :: "(string \<rightharpoonup> string) \<Rightarrow> int option" where
  "boot_time m =
     (let rawBoot = TrimSpace (field m ''BOOT_TIME'') in
      if rawBoot = [] then None
      else case ParseInt 64 rawBoot of
        Some unixSeconds \<Rightarrow> if unixSeconds > 0 then Some (unixSeconds * 1000000000) else None
      | None \<Rightarrow> None)"

definition report_family :: "(string \<rightharpoonup> string) \<Rightarrow> string" where
  "report_family m =
     (let f = normalizeOSFamilyString (field m ''OS_ID'');
          g = (if f = [] then first_family (Fields (commas_to_blanks (field m ''OS_ID_LIKE''))) else f)
      in if g = [] then ''unknown'' else g)"

definition report_major :: "(string \<rightharpoonup> string) \<Rightarrow> int" where
  "report_major m =
     (let rawVersion = TrimSpace (field m ''OS_VERSION'') in
      if rawVersion = [] then 0
      else case ParseInt 32 (case Cut rawVersion ''.'' of Some (a, _) \<Rightarrow> a | None \<Rightarrow> rawVersion) of
        Some parsed \<Rightarrow> parsed
      | None \<Rightarrow> 0)"

text \<open>The sections for updates, packages and repositories\<close>

definition report_sections :: "string list \<Rightarrow> string \<times> string \<times> string" where
  "report_sections parts =
     (case parts of
        _ # updatesAndRest # _ \<Rightarrow>
          (case Split updatesAndRest ''---PACKAGES_START---'' of
             [] \<Rightarrow> ([], [], [])
           | updates # rest \<Rightarrow>
               (case rest of
                  [] \<Rightarrow> (updates, [], [])
                | packagesAndRepos # _ \<Rightarrow>
                    (case Split packagesAndRepos ''---REPOS_START---'' of
                       pkgs # repos # _ \<Rightarrow> (updates, pkgs, repos)
                     | [pkgs] \<Rightarrow> (updates, pkgs, [])
                     | [] \<Rightarrow> (updates, [], []))))
      | _ \<Rightarrow> ([], [], []))"

definition report_packages :: "string \<Rightarrow> string \<Rightarrow> Package list" where
  "report_packages osFamily section =
     List.map_filter (\<lambda>line.
       if osFamily = ''rpm'' then parseRPMPackageLine line
       else if osFamily = ''apt'' then parseAPTPackageLine line else None) (scan_trimmed section)"

text \<open>Blank lines count as lines.\<close>

fun report_repos :: "string \<Rightarrow> nat \<Rightarrow> string list \<Rightarrow> Repo list" where
  "report_repos osFamily lineNo [] = []"
| "report_repos osFamily lineNo (text # ls) =
     (let line = TrimSpace text in
      if line = [] then report_repos osFamily (lineNo + 1) ls
      else case (if osFamily = ''rpm'' then parseRPMRepoLine line
                 else if osFamily = ''apt'' then parseAPTRepoLine line (lineNo + 1) else None) of
          None \<Rightarrow> report_repos osFamily (lineNo + 1) ls
        | Some repo \<Rightarrow> repo # report_repos osFamily (lineNo + 1) ls)"

definition pb_arch :: "string \<Rightarrow> Architecture" where
  "pb_arch arch =
     (if arch = ''x86_64'' \<or> arch = ''amd64'' then ARCHITECTURE_X86_64
      else if arch = ''aarch64'' \<or> arch = ''arm64'' then ARCHITECTURE_AARCH64
      else if arch = ''riscv64'' then ARCHITECTURE_RISCV64 else ARCHITECTURE_UNSPECIFIED)"

definition pb_family :: "string \<Rightarrow> OsFamily" where
  "pb_family f = (if f = ''rpm'' then OS_FAMILY_RPM else if f = ''apt'' then OS_FAMILY_APT else OS_FAMILY_UNSPECIFIED)"

definition report_updates :: "string \<Rightarrow> string \<Rightarrow> int" where
  "report_updates osFamily section =
     (if osFamily = ''unknown'' then 0
      else if osFamily = ''apt'' then CountAptPackageUpdates section
      else if osFamily = ''rpm'' then CountRpmPackageUpdates section else 0)"

definition report_snapshot :: "string \<Rightarrow> int \<Rightarrow> AgentSnapshot" where
  "report_snapshot out collectedAt =
     (let parts = report_parts out;
          m = metadata_fields (hd parts);
          (updates, pkgs, repos) = report_sections parts;
          osFamily = report_family m;
          arch = (let a = TrimSpace (field m ''ARCH'') in if a = [] then ''unknown'' else a)
      in \<lparr>as_SchemaVersion = ''1.0'', as_SentAt = Some collectedAt,
          as_Host = Some \<lparr>ah_MachineId = pull_fallback (field m ''MACHINE_ID'') ''unknown'', ah_Hostname = pull_fallback (field m ''HOSTNAME'') ''unknown'',
            ah_OsFamily = pb_family osFamily, ah_OsName = pull_fallback (field m ''OS_NAME'') ''Unknown'',
            ah_OsVersion = pull_fallback (field m ''OS_VERSION'') ''unknown'', ah_OsMajor = report_major m, ah_Architecture = pb_arch arch,
            ah_AvailablePackageUpdateCount = report_updates osFamily updates, ah_AgentVersion = [], ah_BootTime = boot_time m, ah_UptimeSeconds = 0,
            ah_VirtualizationRole = VIRTUALIZATION_ROLE_UNSPECIFIED, ah_EnvironmentTags = [],
            ah_IpAddresses = [pull_fallback (field m ''IP'') ''unknown'']\<rparr>,
          as_Repos = report_repos osFamily 0 (scan_lines repos), as_Packages = report_packages osFamily pkgs,
          as_Runtime = Some \<lparr>rt_KernelRunning = pull_fallback (field m ''KERNEL'') ''unknown'', rt_Processes = []\<rparr>,
          as_UpgradablePackages = ParseUpgradablePackages osFamily updates\<rparr>)"

definition ParseSSHPullReport :: "(AgentSnapshot \<Rightarrow> string option) \<Rightarrow> string \<Rightarrow> int \<Rightarrow> pull_error + SSHPullResult" where
  "ParseSSHPullReport marshal out collectedAt =
     (let parts = report_parts out;
          m = metadata_fields (hd parts);
          osFamily = report_family m;
          availableUpdates = report_updates osFamily (fst (report_sections parts));
          arch = (let a = TrimSpace (field m ''ARCH'') in if a = [] then ''unknown'' else a)
      in case marshal (report_snapshot out collectedAt) of
           None \<Rightarrow> Inl MarshalFailed
         | Some payload \<Rightarrow>
             Inr \<lparr>pr_MachineID = TrimSpace (field m ''MACHINE_ID''), pr_Hostname = TrimSpace (field m ''HOSTNAME''),
                  pr_IPAddress = TrimSpace (field m ''IP''), pr_OSFamily = osFamily, pr_OSName = pull_fallback (field m ''OS_NAME'') ''Unknown'',
                  pr_OSVersion = pull_fallback (field m ''OS_VERSION'') ''unknown'', pr_OSMajor = report_major m, pr_Architecture = arch,
                  pr_RunningKernel = TrimSpace (field m ''KERNEL''), pr_CollectedAt = collectedAt, pr_BootTime = boot_time m,
                  pr_AvailableUpdates = availableUpdates, pr_HasProcessData = False, pr_Payload = payload,
                  pr_OverallAction = (if availableUpdates > 0 then ''update_package'' else ''none''),
                  pr_CriticalCount = 0, pr_ImportantCount = 0, pr_ModerateCount = 0, pr_ActionableCount = availableUpdates,
                  pr_NeedsReboot = 0, pr_NeedsRestart = 0, pr_NoFix = 0, pr_Unknown = 0\<rparr>)"

text \<open>\<open>run\<close> is \<open>runSSHScript\<close> for the host: the output, or the message of the error.\<close>

definition Collect :: "(AgentSnapshot \<Rightarrow> string option) \<Rightarrow> (pull_script \<Rightarrow> string + string) \<Rightarrow> int \<Rightarrow> pull_error + SSHPullResult" where
  "Collect marshal run now =
     (case run DetectOSScript of
        Inl msg \<Rightarrow> Inl (ScriptFailed msg)
      | Inr detectOutput \<Rightarrow>
          (case collectorScriptForOSFamily (detectOSFamilyFromReleaseOutput detectOutput) of
             Inl e \<Rightarrow> Inl e
           | Inr script \<Rightarrow>
               (case run script of
                  Inl msg \<Rightarrow> Inl (ScriptFailed msg)
                | Inr out \<Rightarrow> ParseSSHPullReport marshal out now)))"

section \<open>The agent's parsers and the server's\<close>

definition right_of :: "'e + 'a \<Rightarrow> 'a option" where
  "right_of x = (case x of Inl _ \<Rightarrow> None | Inr v \<Rightarrow> Some v)"

lemma right_of_simps [simp]: "right_of (Inl e) = None" "right_of (Inr v) = Some v"
  by (simp_all add: right_of_def)

lemma pull_parseEpoch_agent: "pull_parseEpoch v = right_of (parseEpoch v)"
  by (simp add: pull_parseEpoch_def parseEpoch_def Let_def split: option.split)

lemma pull_optionalStr_agent: "pull_optionalStr v = optionalStr v"
  by (simp add: pull_optionalStr_def optionalStr_def)

lemma pull_format_agent: "pull_formatPackageIdentifier n e v r a = formatPackageIdentifier n e v r a"
  by (simp add: pull_formatPackageIdentifier_def formatPackageIdentifier_def)

lemma pull_parseDebianVersion_agent: "pull_parseDebianVersion v = right_of (parseDebianVersion v)"
  by (auto simp: pull_parseDebianVersion_def parseDebianVersion_def pull_parseEpoch_agent Let_def right_of_def
      split: option.splits sum.splits prod.splits)

lemma parseRPMPackageLine_agent: "parseRPMPackageLine line = right_of (parsePackageLine line)"
  by (auto simp: parseRPMPackageLine_def parsePackageLine_def pull_parseEpoch_agent pull_optionalStr_agent right_of_def
      split: list.split sum.split)

lemma parseAPTPackageLine_agent: "parseAPTPackageLine line = right_of (parseAptPackageLine line)"
  by (auto simp: parseAPTPackageLine_def parseAptPackageLine_def pull_parseDebianVersion_agent pull_optionalStr_agent
      pull_format_agent Let_def right_of_def split: list.split sum.split prod.split)

lemma pull_counts_agent: "pull_counts_apt = counts_apt" "pull_counts_rpm = counts_rpm"
  by (simp_all add: fun_eq_iff pull_counts_apt_def counts_apt_def is_apt_notice_def pull_counts_rpm_def counts_rpm_def is_rpm_notice_def)

lemma map_filter_right_of: "List.map_filter (\<lambda>x. right_of (f x)) xs = rights (map f xs)"
  by (simp add: rights_def right_of_def List.map_filter_def comp_def filter_map)


definition sample_report :: string where
  "sample_report = ''_PB_METADATA_OS_ID=rocky'' @ [CHR 0x0A] @ ''---UPDATES_START---'' @ [CHR 0x0A] @
     ''bash.x86_64 5.2 baseos'' @ [CHR 0x0A] @ ''---PACKAGES_START---'' @ [CHR 0x0A] @ ''bash|0|5.1|1|x86_64||'' @ [CHR 0x0A] @ ''---REPOS_START---''"

lemma report_snapshot_host:
  "\<exists>h. as_Host (report_snapshot out at) = Some h \<and> ah_OsFamily h = pb_family (report_family (metadata_fields (hd (report_parts out))))"
  by (cases "report_sections (report_parts out)") (simp add: report_snapshot_def Let_def)


section \<open>Where the parsers of upgradable packages differ\<close>

lemma Cut_single_None: "c \<notin> set a \<Longrightarrow> Cut a [c] = None"
  by (simp add: Cut_def Index_single_None)

text \<open>For a line of \<^verbatim>\<open>dnf check-update\<close> whose package name has no dot the server and the agent read the same
  package. They differ for a name with a dot: the server cuts \<^verbatim>\<open>python3.11.x86_64\<close> at the first dot, so it takes the
  package for \<^verbatim>\<open>python3\<close> and \<^verbatim>\<open>11.x86_64\<close> for its architecture, and the agent at the last.\<close>

theorem rpm_upgradable_first_dot:
  "(Fields line = (name @ ''.'' @ arch) # version # origin # rest \<and> CHR ''.'' \<notin> set name \<and> CHR ''.'' \<notin> set arch \<and>
    TrimSpace name \<noteq> [] \<and> arch \<noteq> [] \<and> CHR '':'' \<notin> set version \<longrightarrow>
      pull_parseRpmUpgradableLine line = parseRpmUpgradableLine line) \<and>
   map_option pkg_Name (pull_parseRpmUpgradableLine ''python3.11.x86_64 3.11.7-1.el9 appstream'') = Some ''python3'' \<and>
   map_option pkg_Name (parseRpmUpgradableLine ''python3.11.x86_64 3.11.7-1.el9 appstream'') = Some ''python3.11''"
proof (intro conjI impI; (elim conjE)?)
  assume f: "Fields line = (name @ ''.'' @ arch) # version # origin # rest" and n: "CHR ''.'' \<notin> set name" "CHR ''.'' \<notin> set arch"
    "TrimSpace name \<noteq> []" "arch \<noteq> []" "CHR '':'' \<notin> set version"
  have name: "name \<noteq> []" using n(3) by auto
  have cut: "Cut (name @ CHR ''.'' # arch) ''.'' = Some (name, arch)" "LastIndex (name @ CHR ''.'' # arch) ''.'' = Some (length name)"
    "Cut version '':'' = None"
    using n by (simp_all add: Cut_single_append LastIndex_single_append Cut_single_None)
  show "pull_parseRpmUpgradableLine line = parseRpmUpgradableLine line"
    using f n(3,4) name cut
    by (auto simp: pull_parseRpmUpgradableLine_def parseRpmUpgradableLine_def is_rpm_notice_def upgradable_def formatPackageIdentifier_def
      Let_def split: option.split prod.split)
next
  show "map_option pkg_Name (pull_parseRpmUpgradableLine ''python3.11.x86_64 3.11.7-1.el9 appstream'') = Some ''python3''" by code_simp
  show "map_option pkg_Name (parseRpmUpgradableLine ''python3.11.x86_64 3.11.7-1.el9 appstream'') = Some ''python3.11''" by code_simp
qed

theorem rpm_upgradable_first_dot_witness:
  "pull_parseRpmUpgradableLine ''bash.x86_64 5.2-1 baseos'' = parseRpmUpgradableLine ''bash.x86_64 5.2-1 baseos''"
proof -
  have f: "Fields ''bash.x86_64 5.2-1 baseos'' = (''bash'' @ ''.'' @ ''x86_64'') # ''5.2-1'' # ''baseos'' # []" by code_simp
  have t: "TrimSpace ''bash'' \<noteq> []" by code_simp
  from rpm_upgradable_first_dot [of "''bash.x86_64 5.2-1 baseos''" "''bash''" "''x86_64''" "''5.2-1''" "''baseos''" "[]"] f t
  show ?thesis by simp
qed

section \<open>Quoting the script\<close>

text \<open>How a POSIX shell reads a word made of quoted parts: nothing is special between single quotes, and between double quotes
  only dollar, backquote and backslash are.\<close>

datatype sh_mode = Plain | SingleQuoted | DoubleQuoted

fun sh_word :: "sh_mode \<Rightarrow> string \<Rightarrow> string option" where
  "sh_word Plain [] = Some []"
| "sh_word Plain (c # s) =
     (if c = CHR 0x27 then sh_word SingleQuoted s else if c = CHR 0x22 then sh_word DoubleQuoted s else None)"
| "sh_word SingleQuoted [] = None"
| "sh_word SingleQuoted (c # s) = (if c = CHR 0x27 then sh_word Plain s else map_option (Cons c) (sh_word SingleQuoted s))"
| "sh_word DoubleQuoted [] = None"
| "sh_word DoubleQuoted (c # s) =
     (if c = CHR 0x22 then sh_word Plain s
      else if c \<in> set [CHR 0x24, CHR 0x60, CHR 0x5C] then None else map_option (Cons c) (sh_word DoubleQuoted s))"

lemma sh_word_quoted:
  "sh_word SingleQuoted (concat (map (\<lambda>c. if c = CHR 0x27 then [CHR 0x27, CHR 0x22, CHR 0x27, CHR 0x22, CHR 0x27] else [c]) s) @ [CHR 0x27]) = Some s"
  by (induction s) simp_all

text \<open>The command sent over SSH is \<^verbatim>\<open>sh -lc\<close> with one argument, and a shell reads that argument as the script itself,
  whatever quotes the script contains.\<close>

theorem ssh_command_roundtrip:
  "\<exists>arg. ssh_command script = ''sh -lc '' @ arg \<and> sh_word Plain arg = Some script"
proof -
  let ?arg = "[CHR 0x27] @ concat (map (\<lambda>c. if c = CHR 0x27 then [CHR 0x27, CHR 0x22, CHR 0x27, CHR 0x22, CHR 0x27] else [c]) script) @ [CHR 0x27]"
  have "ssh_command script = ''sh -lc '' @ ?arg" by (simp only: ssh_command_def)
  moreover have "sh_word Plain ?arg = Some script" using sh_word_quoted [of script] by simp
  ultimately show ?thesis by blast
qed

end
