(* ===== verification/Host_Tables.thy ===== *)
theory Host_Tables
  imports Advisory_Scopes Advisory_Import
begin

text \<open>
  The database of the hosts service: the tables of \<open>Matcher\<close> with the registration tokens, access tokens, SSH pull
  configurations, pull jobs and scopes, and the statements of \<open>internal/sql\<close> that the service runs on them, with the
  constraints of the migrations: primary keys, the unique indexes on display name, token hash and pull hostname, foreign
  keys that refuse a deletion and foreign keys that cascade. \<open>now\<close> is the database clock; the trigger on hosts sets
  \<open>updated_at\<close>. \<open>Inl\<close> is the error of a statement, with which nothing is changed.
\<close>

section \<open>Rows\<close>

record RegistrationToken =
  rt_ID :: string
  rt_Name :: string
  rt_TokenHash :: string
  rt_CreatedByUserID :: string
  rt_CreatedAt :: "int option"
  rt_RevokedAt :: "int option"
  rt_LastUsedAt :: "int option"
  rt_AutoApprove :: bool

record HostAccessToken =
  ht_ID :: string
  ht_HostID :: string
  ht_TokenHash :: string
  ht_CreatedAt :: "int option"
  ht_RevokedAt :: "int option"
  ht_LastUsedAt :: "int option"

record HostSshPull =
  sp_HostID :: string
  sp_PullSshUser :: "string option"
  sp_PullFrequencyMinutes :: "int option"
  sp_PullPublicKey :: "string option"
  sp_PullPrivateKey :: "string option"
  sp_PullLastRunAt :: "int option"
  sp_PullLastRunStatus :: "string option"
  sp_PullLastRunError :: "string option"
  sp_Onboarded :: bool
  sp_PullHostname :: string

record HostSshPullJob =
  pj_JobID :: string
  pj_HostID :: string
  pj_Status :: string
  pj_StartedAt :: "int option"
  pj_CompletedAt :: "int option"
  pj_Error :: "string option"

record hosts_db =
  hd_tables :: tables
  hd_regTokens :: "RegistrationToken list"
  hd_accessTokens :: "HostAccessToken list"
  hd_pulls :: "HostSshPull list"
  hd_jobs :: "HostSshPullJob list"
  hd_scopes :: "AdvisoryScope list"

datatype sql_error = ErrNoRows | UniqueViolation string | ForeignKeyViolation string | StatementFailed

type_synonym 'a stmt = "hosts_db \<Rightarrow> sql_error + 'a \<times> hosts_db"

definition upd_tables :: "(tables \<Rightarrow> tables) \<Rightarrow> hosts_db \<Rightarrow> hosts_db" where
  "upd_tables f db = db\<lparr>hd_tables := f (hd_tables db)\<rparr>"

definition hosts_of :: "hosts_db \<Rightarrow> Host list" where
  "hosts_of db = db_hosts (hd_tables db)"

definition has_host :: "string \<Rightarrow> hosts_db \<Rightarrow> bool" where
  "has_host i db \<longleftrightarrow> (\<exists>h \<in> set (hosts_of db). host_ID h = i)"

definition has_snapshot :: "string \<Rightarrow> hosts_db \<Rightarrow> bool" where
  "has_snapshot i db \<longleftrightarrow> (\<exists>s \<in> set (db_snapshots (hd_tables db)). snap_ID s = i)"

definition display_name_taken :: "string option \<Rightarrow> string \<Rightarrow> hosts_db \<Rightarrow> bool" where
  "display_name_taken name i db \<longleftrightarrow> name \<noteq> None \<and> (\<exists>h \<in> set (hosts_of db). host_ID h \<noteq> i \<and> host_DisplayName h = name)"

text \<open>\<open>SELECT ... WHERE\<close> of one row: the first, or \<open>ErrNoRows\<close>\<close>

definition select_one :: "('r \<Rightarrow> bool) \<Rightarrow> (hosts_db \<Rightarrow> 'r list) \<Rightarrow> 'r stmt" where
  "select_one P tab db = (case first_row P (tab db) of None \<Rightarrow> Inl ErrNoRows | Some r \<Rightarrow> Inr (r, db))"

text \<open>\<open>TimestamptzFromTime\<close>: the zero time, the start of the year 1 in nanoseconds, becomes NULL.\<close>

definition zero_time :: int where "zero_time = - 62135596800000000000"

definition TimestamptzFromTime :: "int \<Rightarrow> int option" where
  "TimestamptzFromTime t = (if t = zero_time then None else Some t)"

section \<open>Hosts\<close>

definition get_host :: "string \<Rightarrow> Host stmt" where
  "get_host i = select_one (\<lambda>h. host_ID h = i) hosts_of"

definition insert_host :: "Host \<Rightarrow> Host stmt" where
  "insert_host h db =
     (if has_host (host_ID h) db then Inl (UniqueViolation ''hosts_pkey'')
      else if display_name_taken (host_DisplayName h) (host_ID h) db then Inl (UniqueViolation ''hosts_display_name_unique_idx'')
      else Inr (h, upd_tables (\<lambda>t. t\<lparr>db_hosts := db_hosts t @ [h]\<rparr>) db))"

text \<open>The columns that an insertion does not mention have their defaults.\<close>

definition new_host :: "int \<Rightarrow> string \<Rightarrow> string \<Rightarrow> string \<Rightarrow> int option \<Rightarrow> Host" where
  "new_host now i mode status approvedAt =
     \<lparr>host_ID = i, host_OnboardingMode = mode, host_ApprovalStatus = status, host_ApprovedAt = approvedAt, host_DisplayName = None,
      host_MachineID = None, host_Hostname = None, host_IpAddress = None, host_OsFamily = ''unknown'', host_OsName = ''Unknown'',
      host_OsMajor = 0, host_OsVersion = ''unknown'', host_Architecture = ''unknown'', host_Status = ''active'', host_LastSeenAt = None,
      host_LastAdvisoryCheckAt = None, host_FirstSeenAt = Some now, host_LastSnapshotID = None, host_CreatedAt = Some now,
      host_UpdatedAt = Some now, host_AdvisoryScopeKey = None, host_Notes = None\<rparr>"

record InsertAgentHostParams =
  ia_ID :: string
  ia_DisplayName :: "string option"
  ia_MachineID :: "string option"
  ia_Hostname :: "string option"
  ia_IpAddress :: "string option"
  ia_OsName :: string
  ia_OsVersion :: string
  ia_Architecture :: string

definition agent_host :: "int \<Rightarrow> string \<Rightarrow> int option \<Rightarrow> InsertAgentHostParams \<Rightarrow> Host" where
  "agent_host now status approvedAt p =
     (new_host now (ia_ID p) ''agent'' status approvedAt)
       \<lparr>host_DisplayName := ia_DisplayName p, host_MachineID := ia_MachineID p, host_Hostname := ia_Hostname p,
        host_IpAddress := ia_IpAddress p, host_OsName := ia_OsName p, host_OsVersion := ia_OsVersion p, host_Architecture := ia_Architecture p\<rparr>"

definition InsertAgentHost :: "int \<Rightarrow> InsertAgentHostParams \<Rightarrow> Host stmt" where
  "InsertAgentHost now p = insert_host (agent_host now ''waiting_approval'' None p)"

definition InsertAgentHostApproved :: "int \<Rightarrow> InsertAgentHostParams \<Rightarrow> Host stmt" where
  "InsertAgentHostApproved now p = insert_host (agent_host now ''approved'' (Some now) p)"

definition InsertManualHost :: "int \<Rightarrow> string \<Rightarrow> string option \<Rightarrow> string option \<Rightarrow> Host stmt" where
  "InsertManualHost now i displayName hostname =
     insert_host ((new_host now i ''manual'' ''approved'' (Some now))\<lparr>host_DisplayName := displayName, host_Hostname := hostname\<rparr>)"

record InsertSSHHostParams =
  is_ID :: string
  is_DisplayName :: "string option"
  is_Hostname :: "string option"
  is_IpAddress :: "string option"
  is_PullSshUser :: "string option"
  is_PullFrequencyMinutes :: "int option"
  is_PullPublicKey :: "string option"
  is_PullPrivateKey :: "string option"

definition pull_hostname_taken :: "string \<Rightarrow> string \<Rightarrow> hosts_db \<Rightarrow> bool" where
  "pull_hostname_taken name i db \<longleftrightarrow> (\<exists>p \<in> set (hd_pulls db). sp_HostID p \<noteq> i \<and> sp_PullHostname p = name)"

text \<open>One statement inserts the host and its pull configuration, whose hostname column takes the same parameter.\<close>

definition InsertSSHHost :: "int \<Rightarrow> InsertSSHHostParams \<Rightarrow> Host stmt" where
  "InsertSSHHost now p db =
     (case insert_host ((new_host now (is_ID p) ''ssh'' ''approved'' (Some now))
              \<lparr>host_DisplayName := is_DisplayName p, host_Hostname := is_Hostname p, host_IpAddress := is_IpAddress p\<rparr>) db of
        Inl e \<Rightarrow> Inl e
      | Inr (h, db1) \<Rightarrow>
          (case is_Hostname p of
             None \<Rightarrow> Inl StatementFailed
           | Some hostname \<Rightarrow>
               if pull_hostname_taken hostname (is_ID p) db1 then Inl (UniqueViolation ''host_ssh_pull_pull_hostname_unique_idx'')
               else Inr (h, db1\<lparr>hd_pulls := hd_pulls db1 @
                 [\<lparr>sp_HostID = is_ID p, sp_PullSshUser = is_PullSshUser p, sp_PullFrequencyMinutes = is_PullFrequencyMinutes p,
                   sp_PullPublicKey = is_PullPublicKey p, sp_PullPrivateKey = is_PullPrivateKey p, sp_PullLastRunAt = None,
                   sp_PullLastRunStatus = None, sp_PullLastRunError = None, sp_Onboarded = False, sp_PullHostname = hostname\<rparr>]\<rparr>)))"

text \<open>\<open>UPDATE hosts ... WHERE id = i\<close>\<close>

definition set_hosts :: "int \<Rightarrow> string \<Rightarrow> (Host \<Rightarrow> Host) \<Rightarrow> hosts_db \<Rightarrow> hosts_db" where
  "set_hosts now i f = upd_tables (\<lambda>t. t\<lparr>db_hosts :=
     map (\<lambda>h. if host_ID h = i then (f h)\<lparr>host_UpdatedAt := Some now\<rparr> else h) (db_hosts t)\<rparr>)"

definition update_host_returning :: "int \<Rightarrow> string \<Rightarrow> (Host \<Rightarrow> Host) \<Rightarrow> Host stmt" where
  "update_host_returning now i f db =
     (case first_row (\<lambda>h. host_ID h = i) (hosts_of db) of
        None \<Rightarrow> Inl ErrNoRows
      | Some h \<Rightarrow> Inr ((f h)\<lparr>host_UpdatedAt := Some now\<rparr>, set_hosts now i f db))"

definition ApproveHostByID :: "int \<Rightarrow> string \<Rightarrow> Host stmt" where
  "ApproveHostByID now i = update_host_returning now i (\<lambda>h. h\<lparr>host_ApprovalStatus := ''approved'', host_ApprovedAt := Some now\<rparr>)"

definition ClearHostLastSnapshotByID :: "int \<Rightarrow> string \<Rightarrow> unit stmt" where
  "ClearHostLastSnapshotByID now i db = Inr ((), set_hosts now i (\<lambda>h. h\<lparr>host_LastSnapshotID := None\<rparr>) db)"

definition UpdateHostDisplayName :: "int \<Rightarrow> string \<Rightarrow> string option \<Rightarrow> Host stmt" where
  "UpdateHostDisplayName now i name db =
     (if has_host i db \<and> display_name_taken name i db then Inl (UniqueViolation ''hosts_display_name_unique_idx'')
      else update_host_returning now i (\<lambda>h. h\<lparr>host_DisplayName := name\<rparr>) db)"

definition UpdateHostNotesByID :: "int \<Rightarrow> string \<Rightarrow> string option \<Rightarrow> Host stmt" where
  "UpdateHostNotesByID now i notes = update_host_returning now i (\<lambda>h. h\<lparr>host_Notes := notes\<rparr>)"

definition UpdateHostAdvisoryScopeKey :: "int \<Rightarrow> string \<Rightarrow> string option \<Rightarrow> unit stmt" where
  "UpdateHostAdvisoryScopeKey now i k db = Inr ((), set_hosts now i (\<lambda>h. h\<lparr>host_AdvisoryScopeKey := k\<rparr>) db)"

record UpdateHostFromSnapshotParams =
  uh_ID :: string
  uh_MachineID :: "string option"
  uh_Hostname :: "string option"
  uh_IpAddress :: "string option"
  uh_OsFamily :: string
  uh_OsName :: string
  uh_OsMajor :: int
  uh_OsVersion :: string
  uh_Architecture :: string
  uh_LastSeenAt :: "int option"
  uh_LastSnapshotID :: "string option"

definition snapshot_ref_ok :: "string option \<Rightarrow> hosts_db \<Rightarrow> bool" where
  "snapshot_ref_ok r db = (case r of None \<Rightarrow> True | Some i \<Rightarrow> has_snapshot i db)"

definition UpdateHostFromSnapshot :: "int \<Rightarrow> UpdateHostFromSnapshotParams \<Rightarrow> Host stmt" where
  "UpdateHostFromSnapshot now p db =
     (if has_host (uh_ID p) db \<and> \<not> snapshot_ref_ok (uh_LastSnapshotID p) db then Inl (ForeignKeyViolation ''hosts_last_snapshot_fk'')
      else update_host_returning now (uh_ID p) (\<lambda>h. h
        \<lparr>host_MachineID := uh_MachineID p, host_Hostname := uh_Hostname p, host_IpAddress := uh_IpAddress p, host_OsFamily := uh_OsFamily p,
         host_OsName := uh_OsName p, host_OsMajor := uh_OsMajor p, host_OsVersion := uh_OsVersion p, host_Architecture := uh_Architecture p,
         host_Status := ''active'', host_LastSeenAt := uh_LastSeenAt p, host_LastAdvisoryCheckAt := uh_LastSeenAt p,
         host_LastSnapshotID := uh_LastSnapshotID p\<rparr>) db)"

record UpdateSSHPullRunParams =
  ur_PullLastRunAt :: "int option"
  ur_LastSnapshotID :: "string option"
  ur_MachineID :: "string option"
  ur_Hostname :: "string option"
  ur_IpAddress :: "string option"
  ur_OsFamily :: string
  ur_OsName :: string
  ur_OsMajor :: int
  ur_OsVersion :: string
  ur_Architecture :: string
  ur_ID :: string
  ur_PullLastRunStatus :: "string option"
  ur_PullLastRunError :: "string option"

definition UpdateSSHPullRun :: "int \<Rightarrow> UpdateSSHPullRunParams \<Rightarrow> unit stmt" where
  "UpdateSSHPullRun now p db =
     (if has_host (ur_ID p) db \<and> \<not> snapshot_ref_ok (ur_LastSnapshotID p) db then Inl (ForeignKeyViolation ''hosts_last_snapshot_fk'')
      else Inr ((), set_hosts now (ur_ID p) (\<lambda>h. h
        \<lparr>host_LastAdvisoryCheckAt := ur_PullLastRunAt p,
         host_LastSnapshotID := coalesce (ur_LastSnapshotID p) (host_LastSnapshotID h),
         host_MachineID := coalesce (ur_MachineID p) (host_MachineID h),
         host_Hostname := coalesce (ur_Hostname p) (host_Hostname h),
         host_IpAddress := coalesce (ur_IpAddress p) (host_IpAddress h),
         host_OsFamily := (if ur_OsFamily p \<noteq> [] \<and> ur_OsFamily p \<noteq> ''unknown'' then ur_OsFamily p else host_OsFamily h),
         host_OsName := (if ur_OsName p \<noteq> [] \<and> ur_OsName p \<noteq> ''Unknown'' then ur_OsName p else host_OsName h),
         host_OsMajor := (if ur_OsMajor p \<noteq> 0 then ur_OsMajor p else host_OsMajor h),
         host_OsVersion := (if ur_OsVersion p \<noteq> [] \<and> ur_OsVersion p \<noteq> ''unknown'' then ur_OsVersion p else host_OsVersion h),
         host_Architecture := (if ur_Architecture p \<noteq> [] \<and> ur_Architecture p \<noteq> ''unknown'' then ur_Architecture p else host_Architecture h),
         host_LastSeenAt := coalesce (ur_PullLastRunAt p) (host_LastSeenAt h)\<rparr>)
        (db\<lparr>hd_pulls := map (\<lambda>q. if sp_HostID q = ur_ID p
           then q\<lparr>sp_PullLastRunAt := ur_PullLastRunAt p, sp_PullLastRunStatus := ur_PullLastRunStatus p, sp_PullLastRunError := ur_PullLastRunError p\<rparr>
           else q) (hd_pulls db)\<rparr>)))"

section \<open>Deletions\<close>

definition DeleteHostCurrentStateByHostID :: "string \<Rightarrow> unit stmt" where
  "DeleteHostCurrentStateByHostID i db =
     Inr ((), upd_tables (\<lambda>t. t\<lparr>db_states := filter (\<lambda>s. hcs_HostID s \<noteq> i) (db_states t)\<rparr>) db)"

definition DeleteHostAccessTokensByHostID :: "string \<Rightarrow> unit stmt" where
  "DeleteHostAccessTokensByHostID i db = Inr ((), db\<lparr>hd_accessTokens := filter (\<lambda>t. ht_HostID t \<noteq> i) (hd_accessTokens db)\<rparr>)"

text \<open>A snapshot that a host or a state refers to cannot be deleted; its decisions are deleted with it.\<close>

definition DeleteHostSnapshotsByHostID :: "string \<Rightarrow> unit stmt" where
  "DeleteHostSnapshotsByHostID i db =
     (let t = hd_tables db;
          gone = (\<lambda>sid. \<exists>s \<in> set (db_snapshots t). snap_ID s = sid \<and> snap_HostID s = i)
      in if \<exists>h \<in> set (db_hosts t). (case host_LastSnapshotID h of None \<Rightarrow> False | Some sid \<Rightarrow> gone sid)
         then Inl (ForeignKeyViolation ''hosts_last_snapshot_fk'')
         else if \<exists>s \<in> set (db_states t). gone (hcs_SnapshotID s) then Inl (ForeignKeyViolation ''host_current_state_snapshot_fk'')
         else Inr ((), upd_tables (\<lambda>t. t
           \<lparr>db_snapshots := filter (\<lambda>s. snap_HostID s \<noteq> i) (db_snapshots t),
            db_decisions := filter (\<lambda>d. \<not> gone (dec_SnapshotID d)) (db_decisions t)\<rparr>) db))"

text \<open>Access tokens, snapshots and the state refuse the deletion of their host; the pull configuration, the pull jobs and the
  decisions go with it.\<close>

definition DeleteHostByID :: "string \<Rightarrow> Host stmt" where
  "DeleteHostByID i db =
     (case first_row (\<lambda>h. host_ID h = i) (hosts_of db) of
        None \<Rightarrow> Inl ErrNoRows
      | Some h \<Rightarrow>
          if \<exists>t \<in> set (hd_accessTokens db). ht_HostID t = i then Inl (ForeignKeyViolation ''host_access_tokens_host_fk'')
          else if \<exists>s \<in> set (db_snapshots (hd_tables db)). snap_HostID s = i then Inl (ForeignKeyViolation ''host_snapshots_host_fk'')
          else if \<exists>s \<in> set (db_states (hd_tables db)). hcs_HostID s = i then Inl (ForeignKeyViolation ''host_current_state_host_fk'')
          else Inr (h, upd_tables (\<lambda>t. t
                 \<lparr>db_hosts := filter (\<lambda>h. host_ID h \<noteq> i) (db_hosts t), db_decisions := filter (\<lambda>d. dec_HostID d \<noteq> i) (db_decisions t)\<rparr>)
                 (db\<lparr>hd_pulls := filter (\<lambda>p. sp_HostID p \<noteq> i) (hd_pulls db), hd_jobs := filter (\<lambda>j. pj_HostID j \<noteq> i) (hd_jobs db)\<rparr>)))"

section \<open>Tokens\<close>

definition GetActiveRegistrationTokenByHash :: "string \<Rightarrow> RegistrationToken stmt" where
  "GetActiveRegistrationTokenByHash hash = select_one (\<lambda>t. rt_TokenHash t = hash \<and> rt_RevokedAt t = None) hd_regTokens"

text \<open>\<open>userExists\<close> decides the foreign key to the users.\<close>

definition InsertRegistrationToken :: "bool \<Rightarrow> int \<Rightarrow> string \<Rightarrow> string \<Rightarrow> string \<Rightarrow> string \<Rightarrow> bool \<Rightarrow> RegistrationToken stmt" where
  "InsertRegistrationToken userExists now i name hash userID autoApprove db =
     (if \<exists>t \<in> set (hd_regTokens db). rt_ID t = i then Inl (UniqueViolation ''registration_tokens_pkey'')
      else if \<exists>t \<in> set (hd_regTokens db). rt_TokenHash t = hash then Inl (UniqueViolation ''registration_tokens_token_hash_unique_idx'')
      else if \<not> userExists then Inl (ForeignKeyViolation ''registration_tokens_created_by_user_fk'')
      else let t = \<lparr>rt_ID = i, rt_Name = name, rt_TokenHash = hash, rt_CreatedByUserID = userID, rt_CreatedAt = Some now, rt_RevokedAt = None,
                    rt_LastUsedAt = None, rt_AutoApprove = autoApprove\<rparr>
           in Inr (t, db\<lparr>hd_regTokens := hd_regTokens db @ [t]\<rparr>))"

text \<open>\<open>ORDER BY created_at DESC, id DESC\<close>\<close>

definition ListRegistrationTokensStmt :: "hosts_db \<Rightarrow> RegistrationToken list" where
  "ListRegistrationTokensStmt db = rev (sort_key (\<lambda>t. (UnwrapOr (rt_CreatedAt t) 0, rt_ID t)) (hd_regTokens db))"

definition RevokeRegistrationTokenStmt :: "int \<Rightarrow> string \<Rightarrow> RegistrationToken stmt" where
  "RevokeRegistrationTokenStmt now i db =
     (case first_row (\<lambda>t. rt_ID t = i \<and> rt_RevokedAt t = None) (hd_regTokens db) of
        None \<Rightarrow> Inl ErrNoRows
      | Some t \<Rightarrow> Inr (t\<lparr>rt_RevokedAt := Some now\<rparr>, db\<lparr>hd_regTokens :=
          map (\<lambda>t. if rt_ID t = i \<and> rt_RevokedAt t = None then t\<lparr>rt_RevokedAt := Some now\<rparr> else t) (hd_regTokens db)\<rparr>))"

definition TouchRegistrationTokenLastUsed :: "int \<Rightarrow> string \<Rightarrow> unit stmt" where
  "TouchRegistrationTokenLastUsed now i db =
     Inr ((), db\<lparr>hd_regTokens := map (\<lambda>t. if rt_ID t = i then t\<lparr>rt_LastUsedAt := Some now\<rparr> else t) (hd_regTokens db)\<rparr>)"

definition GetActiveHostAccessTokenByHash :: "string \<Rightarrow> HostAccessToken stmt" where
  "GetActiveHostAccessTokenByHash hash = select_one (\<lambda>t. ht_TokenHash t = hash \<and> ht_RevokedAt t = None) hd_accessTokens"

definition InsertHostAccessToken :: "int \<Rightarrow> string \<Rightarrow> string \<Rightarrow> string \<Rightarrow> HostAccessToken stmt" where
  "InsertHostAccessToken now i hostID hash db =
     (if \<exists>t \<in> set (hd_accessTokens db). ht_ID t = i then Inl (UniqueViolation ''host_access_tokens_pkey'')
      else if \<exists>t \<in> set (hd_accessTokens db). ht_TokenHash t = hash then Inl (UniqueViolation ''host_access_tokens_token_hash_unique_idx'')
      else if \<not> has_host hostID db then Inl (ForeignKeyViolation ''host_access_tokens_host_fk'')
      else let t = \<lparr>ht_ID = i, ht_HostID = hostID, ht_TokenHash = hash, ht_CreatedAt = Some now, ht_RevokedAt = None, ht_LastUsedAt = None\<rparr>
           in Inr (t, db\<lparr>hd_accessTokens := hd_accessTokens db @ [t]\<rparr>))"

definition TouchHostAccessTokenLastUsed :: "int \<Rightarrow> string \<Rightarrow> unit stmt" where
  "TouchHostAccessTokenLastUsed now i db =
     Inr ((), db\<lparr>hd_accessTokens := map (\<lambda>t. if ht_ID t = i then t\<lparr>ht_LastUsedAt := Some now\<rparr> else t) (hd_accessTokens db)\<rparr>)"

section \<open>Snapshots and states\<close>

definition InsertHostSnapshot :: "int \<Rightarrow> string \<Rightarrow> string \<Rightarrow> int option \<Rightarrow> string option \<Rightarrow> string \<Rightarrow> int option \<Rightarrow> bool \<Rightarrow> HostSnapshot stmt" where
  "InsertHostSnapshot now i hostID collectedAt payload runningKernel bootTime hasProcessData db =
     (if collectedAt = None \<or> payload = None then Inl StatementFailed
      else if has_snapshot i db then Inl (UniqueViolation ''host_snapshots_pkey'')
      else if \<not> has_host hostID db then Inl (ForeignKeyViolation ''host_snapshots_host_fk'')
      else let s = \<lparr>snap_ID = i, snap_HostID = hostID, snap_CollectedAt = collectedAt, snap_ReceivedAt = Some now, snap_Payload = UnwrapOr payload [],
                    snap_RunningKernelNevra = runningKernel, snap_BootTime = bootTime, snap_HasProcessData = hasProcessData, snap_CreatedAt = Some now\<rparr>
           in Inr (s, upd_tables (\<lambda>t. t\<lparr>db_snapshots := db_snapshots t @ [s]\<rparr>) db))"

text \<open>\<open>ORDER BY collected_at DESC, id DESC LIMIT 1\<close>\<close>

definition GetLatestHostSnapshotByHostID :: "string \<Rightarrow> HostSnapshot stmt" where
  "GetLatestHostSnapshotByHostID i db =
     (case rev (sort_key (\<lambda>s. (UnwrapOr (snap_CollectedAt s) 0, snap_ID s)) (filter (\<lambda>s. snap_HostID s = i) (db_snapshots (hd_tables db)))) of
        [] \<Rightarrow> Inl ErrNoRows
      | s # _ \<Rightarrow> Inr (s, db))"

definition upsert_state :: "UpsertHostCurrentStateParams \<Rightarrow> unit stmt" where
  "upsert_state p db =
     (if \<not> has_host (hcs_HostID p) db then Inl (ForeignKeyViolation ''host_current_state_host_fk'')
      else if \<not> has_snapshot (hcs_SnapshotID p) db then Inl (ForeignKeyViolation ''host_current_state_snapshot_fk'')
      else Inr ((), upd_tables (UpsertHostCurrentState p) db))"

section \<open>SSH pulls\<close>

definition GetSSHPullConfigByHostID :: "string \<Rightarrow> HostSshPull stmt" where
  "GetSSHPullConfigByHostID i = select_one (\<lambda>p. sp_HostID p = i) hd_pulls"

definition SetSSHPullOnboarded :: "string \<Rightarrow> bool \<Rightarrow> unit stmt" where
  "SetSSHPullOnboarded i b db =
     Inr ((), db\<lparr>hd_pulls := map (\<lambda>p. if sp_HostID p = i then p\<lparr>sp_Onboarded := b\<rparr> else p) (hd_pulls db)\<rparr>)"

definition UpdateSSHPullConfig :: "string option \<Rightarrow> string option \<Rightarrow> int option \<Rightarrow> string \<Rightarrow> HostSshPull stmt" where
  "UpdateSSHPullConfig hostname user frequency i db =
     (case first_row (\<lambda>p. sp_HostID p = i) (hd_pulls db) of
        None \<Rightarrow> Inl ErrNoRows
      | Some p \<Rightarrow>
          let f = (\<lambda>p. p\<lparr>sp_PullHostname := UnwrapOr hostname (sp_PullHostname p), sp_PullSshUser := coalesce user (sp_PullSshUser p),
                         sp_PullFrequencyMinutes := coalesce frequency (sp_PullFrequencyMinutes p)\<rparr>)
          in if pull_hostname_taken (sp_PullHostname (f p)) i db then Inl (UniqueViolation ''host_ssh_pull_pull_hostname_unique_idx'')
             else Inr (f p, db\<lparr>hd_pulls := map (\<lambda>p. if sp_HostID p = i then f p else p) (hd_pulls db)\<rparr>))"

definition InsertHostSSHPullJob :: "string \<Rightarrow> string \<Rightarrow> string \<Rightarrow> int option \<Rightarrow> unit stmt" where
  "InsertHostSSHPullJob i hostID status startedAt db =
     (if \<exists>j \<in> set (hd_jobs db). pj_JobID j = i then Inl (UniqueViolation ''host_ssh_pull_jobs_pkey'')
      else if \<not> has_host hostID db then Inl (ForeignKeyViolation ''host_ssh_pull_jobs_host_id_fkey'')
      else Inr ((), db\<lparr>hd_jobs := hd_jobs db @ [\<lparr>pj_JobID = i, pj_HostID = hostID, pj_Status = status, pj_StartedAt = startedAt,
             pj_CompletedAt = None, pj_Error = None\<rparr>]\<rparr>))"

definition UpdateHostSSHPullJob :: "string \<Rightarrow> string \<Rightarrow> int option \<Rightarrow> string option \<Rightarrow> unit stmt" where
  "UpdateHostSSHPullJob i status completedAt err db =
     (if \<exists>j \<in> set (hd_jobs db). pj_JobID j = i
      then Inr ((), db\<lparr>hd_jobs := map (\<lambda>j. if pj_JobID j = i then j\<lparr>pj_Status := status, pj_CompletedAt := completedAt, pj_Error := err\<rparr> else j) (hd_jobs db)\<rparr>)
      else Inl ErrNoRows)"

text \<open>\<open>ORDER BY started_at DESC LIMIT n\<close>\<close>

definition ListHostSSHPullJobsByHostID :: "string \<Rightarrow> nat \<Rightarrow> hosts_db \<Rightarrow> HostSshPullJob list" where
  "ListHostSSHPullJobsByHostID i n db = take n (rev (sort_key (\<lambda>j. UnwrapOr (pj_StartedAt j) 0) (filter (\<lambda>j. pj_HostID j = i) (hd_jobs db))))"

text \<open>\<open>ORDER BY created_at DESC, id DESC\<close>\<close>

definition ListPendingHostsStmt :: "hosts_db \<Rightarrow> Host list" where
  "ListPendingHostsStmt db =
     rev (sort_key (\<lambda>h. (UnwrapOr (host_CreatedAt h) 0, host_ID h)) (filter (\<lambda>h. host_ApprovalStatus h = ''waiting_approval'') (hosts_of db)))"

definition ListApprovedSSHHosts :: "hosts_db \<Rightarrow> (string \<times> int option) list" where
  "ListApprovedSSHHosts db =
     concat (map (\<lambda>h. map (\<lambda>p. (host_ID h, sp_PullFrequencyMinutes p))
       (filter (\<lambda>p. sp_HostID p = host_ID h \<and> host_OnboardingMode h = ''ssh'' \<and> host_ApprovalStatus h = ''approved'' \<and> sp_Onboarded p) (hd_pulls db)))
       (hosts_of db))"

end
