(* ===== verification/Host_Service.thy ===== *)
theory Host_Service
  imports Host_Tables Audit_Log Ssh_Report
begin

text \<open>
  The frame of the hosts service (\<open>internal/services/hosts.go\<close>): its state, what it depends on, statements run on the
  pool or in a transaction, and the work after a snapshot is stored. The state holds the database, the events published,
  the audit log and the periodic jobs. The environment says which calls fail, what the clocks read, what the random
  source draws and what the collaborators answer. Every operation gives the state after it and an error or a result.
\<close>

section \<open>State and environment\<close>

datatype svc_call =
    CallInsertRegistrationToken | CallListRegistrationTokens | CallRevokeRegistrationToken | CallBeginTx_svc | CallCommit_svc
  | CallGetActiveRegistrationTokenByHash | CallInsertAgentHost | CallInsertHostAccessToken | CallTouchRegistrationToken
  | CallGetActiveHostAccessTokenByHash | CallSvcGetHostByID | CallInsertHostSnapshot | CallUpdateHostFromSnapshot
  | CallSvcUpsertHostCurrentState | CallTouchHostAccessToken | CallUpdateHostAdvisoryScopeKey | CallListPendingHosts
  | CallApproveHostByID | CallLockHost | CallUpdateHostDisplayName | CallGetSSHPullConfig | CallUpdateSSHPullConfig
  | CallGetHostWithState | CallListHostsWithState | CallUpdateHostNotes | CallInsertSSHHost | CallSetSSHPullOnboarded
  | CallGetLatestHostSnapshot | CallClearHostLastSnapshot | CallDeleteHostCurrentState | CallDeleteHostAccessTokens
  | CallDeleteHostSnapshots | CallDeleteHost | CallInsertHostSSHPullJob | CallUpdateHostSSHPullJob | CallUpdateSSHPullRun
  | CallListHostSSHPullJobs | CallGetDashboardOverview | CallListRecentAdvisories | CallInsertManualHost | CallGenerateKeyPair
  | CallEncrypt | CallDecrypt | CallGlobalKey | CallGetUserByID

datatype app_error =
    ErrInvalidRegistrationToken | ErrInvalidHostAccessToken | ErrHostNotApproved | ErrHostNotFound | ErrTokenAlreadyRevoked
  | ErrHostIdentityMismatch | ErrSnapshotNotFound | ErrDuplicateHostDisplayName | ErrDuplicateSSHPullHostname | ErrNotesTooLarge
  | ErrSSHFieldsForNonSSH | ErrInvalidFrequency

text \<open>An error of \<open>apperr\<close>, or one that the service wraps: of a statement, of another call, of a periodic job, of the
  report parser, or of its own\<close>

datatype service_error =
    AppErr app_error
  | SqlErr svc_call sql_error
  | CallErr svc_call
  | JobErr periodic_error
  | PullErr pull_error
  | NotSSHHost
  | NotManualHost
  | EmptyPullHostname
  | NilDereference
  | UpdateFailed service_error service_error

record service_env =
  sv_fault :: "svc_call \<Rightarrow> bool"
  sv_dbNow :: int
  sv_now :: int
  sv_draw :: "string \<Rightarrow> string"
  sv_hex :: string
  sv_sha256 :: "string \<Rightarrow> string"
  sv_users :: "string \<rightharpoonup> string"
  sv_bytes :: "AgentSnapshot \<Rightarrow> string option"
  sv_marshal :: "AgentSnapshot \<Rightarrow> string option"
  sv_match :: match_env
  sv_audit :: audit_env
  sv_river :: river_env
  sv_mappings :: "ScopeMapping list"
  sv_scopeInsertFails :: bool
  sv_keyPair :: "string \<times> string"
  sv_encrypt :: "string \<Rightarrow> string option"
  sv_decrypt :: "string \<Rightarrow> string option"
  sv_globalKey :: "(string \<times> string) option"
  sv_run :: "string \<Rightarrow> string \<Rightarrow> string \<Rightarrow> pull_script \<Rightarrow> string + string"
  sv_message :: "service_error \<Rightarrow> string"
  sv_stateUpdatedAt :: "string \<Rightarrow> int option"
  sv_collate :: "string \<Rightarrow> string"

text \<open>\<open>sv_users\<close> gives the e-mail address of a user, \<open>sv_bytes\<close> the bytes that \<open>proto.Marshal\<close> returns with its error
  ignored, \<open>sv_globalKey\<close> the public and private key of the settings service, \<open>sv_message\<close> the text of an error.\<close>

record service =
  sv_db :: hosts_db
  sv_published :: "Event list"
  sv_auditLog :: "AuditLog list"
  sv_periodic :: PeriodicJobManager

record ActorRef =
  ar_UserID :: string
  ar_Email :: string
  ar_IP :: string
  ar_UserAgent :: string

definition SystemActorRef :: ActorRef where
  "SystemActorRef = \<lparr>ar_UserID = ''system'', ar_Email = ''system@patchbase.local'', ar_IP = [], ar_UserAgent = []\<rparr>"

section \<open>Statements and transactions\<close>

type_synonym 'a body = "hosts_db \<Rightarrow> service_error + 'a \<times> hosts_db"
type_synonym 'a outcome = "service \<times> (service_error + 'a)"

definition exec :: "service_env \<Rightarrow> svc_call \<Rightarrow> 'a stmt \<Rightarrow> 'a body" where
  "exec env c st db =
     (if sv_fault env c then Inl (SqlErr c StatementFailed)
      else case st db of Inl e \<Rightarrow> Inl (SqlErr c e) | Inr r \<Rightarrow> Inr r)"

definition bind_tx :: "service_error + 'a \<times> hosts_db \<Rightarrow> ('a \<Rightarrow> 'b body) \<Rightarrow> service_error + 'b \<times> hosts_db" where
  "bind_tx r f = (case r of Inl e \<Rightarrow> Inl e | Inr (a, db) \<Rightarrow> f a db)"

text \<open>\<open>sql.Required\<close> and \<open>sql.IsUniqueViolation\<close>\<close>

definition Required :: "app_error \<Rightarrow> service_error + 'r \<Rightarrow> service_error + 'r" where
  "Required missing r = (case r of Inl (SqlErr c ErrNoRows) \<Rightarrow> Inl (AppErr missing) | _ \<Rightarrow> r)"

definition IsUniqueViolation :: "service_error \<Rightarrow> string \<Rightarrow> bool" where
  "IsUniqueViolation e name = (case e of SqlErr c (UniqueViolation n) \<Rightarrow> n = name | _ \<Rightarrow> False)"

definition duplicate :: "string \<Rightarrow> app_error \<Rightarrow> service_error + 'r \<Rightarrow> service_error + 'r" where
  "duplicate name e r = (case r of Inl x \<Rightarrow> if IsUniqueViolation x name then Inl (AppErr e) else Inl x | Inr v \<Rightarrow> Inr v)"

text \<open>\<open>pool.BeginTx\<close>, the statements on the transaction, \<open>tx.Commit\<close>, and the deferred \<open>tx.Rollback\<close>\<close>

definition in_tx :: "service_env \<Rightarrow> 'a body \<Rightarrow> service \<Rightarrow> 'a outcome" where
  "in_tx env body s =
     (if sv_fault env CallBeginTx_svc then (s, Inl (CallErr CallBeginTx_svc))
      else case body (sv_db s) of
        Inl e \<Rightarrow> (s, Inl e)
      | Inr (a, db) \<Rightarrow> if sv_fault env CallCommit_svc then (s, Inl (CallErr CallCommit_svc)) else (s\<lparr>sv_db := db\<rparr>, Inr a))"

text \<open>A statement run on the pool is a transaction of its own.\<close>

definition on_pool :: "'a body \<Rightarrow> service \<Rightarrow> 'a outcome" where
  "on_pool body s = (case body (sv_db s) of Inl e \<Rightarrow> (s, Inl e) | Inr (a, db) \<Rightarrow> (s\<lparr>sv_db := db\<rparr>, Inr a))"

definition bind_svc :: "'a outcome \<Rightarrow> ('a \<Rightarrow> service \<Rightarrow> 'b outcome) \<Rightarrow> 'b outcome" where
  "bind_svc r f = (case r of (s, Inl e) \<Rightarrow> (s, Inl e) | (s, Inr a) \<Rightarrow> f a s)"

definition publish :: "Event \<Rightarrow> service \<Rightarrow> service" where
  "publish e s = s\<lparr>sv_published := sv_published s @ [e]\<rparr>"

definition audit :: "service_env \<Rightarrow> AuditEvent \<Rightarrow> service \<Rightarrow> service" where
  "audit env event s =
     (let (rows, published) = Record (sv_audit env) event (sv_auditLog s, sv_published s)
      in s\<lparr>sv_auditLog := rows, sv_published := published\<rparr>)"

definition GetUserByID :: "service_env \<Rightarrow> string \<Rightarrow> string option" where
  "GetUserByID env i = (if sv_fault env CallGetUserByID then None else sv_users env i)"

text \<open>The event of an actor, whose user agent not every caller fills in\<close>

definition actor_event :: "ActorRef \<Rightarrow> string \<Rightarrow> string \<Rightarrow> string \<Rightarrow> (string \<times> metadata) list \<Rightarrow> string \<Rightarrow> AuditEvent" where
  "actor_event actor action targetType target md userAgent =
     \<lparr>ae_ActorID = ar_UserID actor, ae_ActorEmail = ar_Email actor, ae_Action = action, ae_TargetType = targetType, ae_TargetID = target,
      ae_Metadata = md, ae_IPAddress = ar_IP actor, ae_UserAgent = userAgent\<rparr>"

section \<open>After a snapshot\<close>

text \<open>A failure to register the scope or to store it is only logged.\<close>

definition refresh_scope :: "service_env \<Rightarrow> string \<Rightarrow> string \<Rightarrow> string \<Rightarrow> string \<Rightarrow> int \<Rightarrow> string \<Rightarrow> service \<Rightarrow> service" where
  "refresh_scope env hostID osFamily osName osVersion osMajor architecture s =
     (let scopeKey = ResolveScopeKey (sv_mappings env) osFamily osName osVersion osMajor architecture;
          ((scopes, p), registerErr) = RegisterScopeDemand (sv_river env) (sv_scopeInsertFails env) scopeKey (hd_scopes (sv_db s), sv_periodic s);
          s1 = s\<lparr>sv_db := (sv_db s)\<lparr>hd_scopes := scopes\<rparr>, sv_periodic := p\<rparr>
      in if registerErr = None
         then fst (on_pool (exec env CallUpdateHostAdvisoryScopeKey (UpdateHostAdvisoryScopeKey (sv_dbNow env) hostID (nonzero scopeKey))) s1)
         else s1)"

definition match_snapshot :: "service_env \<Rightarrow> string \<Rightarrow> string \<Rightarrow> service \<Rightarrow> service" where
  "match_snapshot env hostID snapshotID s =
     (let ((t, published), _) = MatchSnapshot (sv_match env) hostID snapshotID (hd_tables (sv_db s), sv_published s)
      in s\<lparr>sv_db := (sv_db s)\<lparr>hd_tables := t\<rparr>, sv_published := published\<rparr>)"

end
