(* ===== verification/Host_Views.thy ===== *)
theory Host_Views
  imports Host_Service
begin

text \<open>
  The read operations of the hosts service: the rows that join a host with its pull configuration and its state, the
  \<open>HostInfo\<close> built of them, the lists of hosts, tokens and pull jobs, the latest snapshot and the dashboard. The time at
  which a state was written is the parameter \<open>sv_stateUpdatedAt\<close>, the order of texts in the database \<open>sv_collate\<close>.
\<close>

section \<open>Views\<close>

definition defaultSSHPullFrequency :: int where "defaultSSHPullFrequency = 360"
definition sshPullHistoryLimit :: nat where "sshPullHistoryLimit = 10"

record SSHPullConfiguration =
  pc_Hostname :: string
  pc_SSHUser :: string
  pc_FrequencyMinutes :: int
  pc_Onboarded :: bool
  pc_UsesUniqueKeyPair :: bool

record HostInfo =
  hi_ID :: string
  hi_OnboardingMode :: string
  hi_ApprovalStatus :: string
  hi_DisplayName :: string
  hi_Hostname :: string
  hi_IPAddress :: string
  hi_OSFamily :: string
  hi_OSName :: string
  hi_OSMajor :: int
  hi_OSVersion :: string
  hi_Architecture :: string
  hi_Status :: string
  hi_OverallAction :: string
  hi_CriticalCount :: int
  hi_ImportantCount :: int
  hi_ModerateCount :: int
  hi_ActionableCount :: int
  hi_AvailableUpdates :: int
  hi_NeedsReboot :: int
  hi_NeedsRestart :: int
  hi_NoFix :: int
  hi_Unknown :: int
  hi_LastSeenAt :: "int option"
  hi_LastAdvisoryCheckAt :: "int option"
  hi_StateUpdatedAt :: "int option"
  hi_PullLastRunAt :: "int option"
  hi_PullLastRunStatus :: string
  hi_PullLastRunError :: string
  hi_Notes :: "string option"
  hi_Configuration :: "SSHPullConfiguration option"
  hi_CreatedAt :: "int option"
  hi_UpdatedAt :: "int option"

text \<open>The columns of a host in the view, with the given state. Every caller passes no state to \<open>mapHost\<close>.\<close>

definition mapHost :: "Host \<Rightarrow> (UpsertHostCurrentStateParams \<times> int option) option \<Rightarrow> HostInfo" where
  "mapHost host state =
     \<lparr>hi_ID = host_ID host, hi_OnboardingMode = host_OnboardingMode host, hi_ApprovalStatus = host_ApprovalStatus host,
      hi_DisplayName = UnwrapOr (host_DisplayName host) [], hi_Hostname = UnwrapOr (host_Hostname host) [],
      hi_IPAddress = UnwrapOr (host_IpAddress host) [], hi_OSFamily = host_OsFamily host, hi_OSName = host_OsName host,
      hi_OSMajor = host_OsMajor host, hi_OSVersion = host_OsVersion host, hi_Architecture = host_Architecture host, hi_Status = host_Status host,
      hi_OverallAction = (case state of None \<Rightarrow> ''none'' | Some (st, _) \<Rightarrow> hcs_OverallAction st),
      hi_CriticalCount = (case state of None \<Rightarrow> 0 | Some (st, _) \<Rightarrow> hcs_CriticalCount st),
      hi_ImportantCount = (case state of None \<Rightarrow> 0 | Some (st, _) \<Rightarrow> hcs_ImportantCount st),
      hi_ModerateCount = (case state of None \<Rightarrow> 0 | Some (st, _) \<Rightarrow> hcs_ModerateCount st),
      hi_ActionableCount = (case state of None \<Rightarrow> 0 | Some (st, _) \<Rightarrow> hcs_ActionableCount st),
      hi_AvailableUpdates = (case state of None \<Rightarrow> 0 | Some (st, _) \<Rightarrow> hcs_AvailableUpdates st),
      hi_NeedsReboot = (case state of None \<Rightarrow> 0 | Some (st, _) \<Rightarrow> hcs_NeedsReboot st),
      hi_NeedsRestart = (case state of None \<Rightarrow> 0 | Some (st, _) \<Rightarrow> hcs_NeedsRestart st),
      hi_NoFix = (case state of None \<Rightarrow> 0 | Some (st, _) \<Rightarrow> hcs_NoFix st),
      hi_Unknown = (case state of None \<Rightarrow> 0 | Some (st, _) \<Rightarrow> hcs_Unknown st),
      hi_LastSeenAt = host_LastSeenAt host, hi_LastAdvisoryCheckAt = host_LastAdvisoryCheckAt host,
      hi_StateUpdatedAt = (case state of None \<Rightarrow> None | Some (_, updatedAt) \<Rightarrow> updatedAt),
      hi_PullLastRunAt = None, hi_PullLastRunStatus = [], hi_PullLastRunError = [], hi_Notes = host_Notes host, hi_Configuration = None,
      hi_CreatedAt = host_CreatedAt host, hi_UpdatedAt = host_UpdatedAt host\<rparr>"

section \<open>Hosts with their state\<close>

record HostWithStateRow =
  hr_Host :: Host
  hr_PullLastRunAt :: "int option"
  hr_PullLastRunStatus :: "string option"
  hr_PullLastRunError :: "string option"
  hr_PullHostname :: "string option"
  hr_PullSshUser :: "string option"
  hr_PullFrequencyMinutes :: "int option"
  hr_Onboarded :: "bool option"
  hr_UsesUniqueKeyPair :: bool
  hr_OverallAction :: string
  hr_CriticalCount :: int
  hr_ImportantCount :: int
  hr_ModerateCount :: int
  hr_ActionableCount :: int
  hr_AvailableUpdates :: int
  hr_NeedsReboot :: int
  hr_NeedsRestart :: int
  hr_NoFix :: int
  hr_Unknown :: int
  hr_StateUpdatedAt :: "int option"

text \<open>\<open>LEFT JOIN\<close> with the pull configuration and the state, which have at most one row for a host\<close>

definition with_state :: "service_env \<Rightarrow> hosts_db \<Rightarrow> Host \<Rightarrow> HostWithStateRow" where
  "with_state env db h =
     (let hp = first_row (\<lambda>p. sp_HostID p = host_ID h) (hd_pulls db);
          hcs = first_row (\<lambda>st. hcs_HostID st = host_ID h) (db_states (hd_tables db));
          num = (\<lambda>f. case hcs of None \<Rightarrow> 0 | Some st \<Rightarrow> f st)
      in \<lparr>hr_Host = h,
          hr_PullLastRunAt = Option.bind hp sp_PullLastRunAt, hr_PullLastRunStatus = Option.bind hp sp_PullLastRunStatus,
          hr_PullLastRunError = Option.bind hp sp_PullLastRunError, hr_PullHostname = map_option sp_PullHostname hp,
          hr_PullSshUser = Option.bind hp sp_PullSshUser, hr_PullFrequencyMinutes = Option.bind hp sp_PullFrequencyMinutes,
          hr_Onboarded = map_option sp_Onboarded hp,
          hr_UsesUniqueKeyPair = (case hp of None \<Rightarrow> False | Some p \<Rightarrow> sp_PullPrivateKey p \<noteq> None),
          hr_OverallAction = (case hcs of None \<Rightarrow> ''none'' | Some st \<Rightarrow> hcs_OverallAction st),
          hr_CriticalCount = num hcs_CriticalCount, hr_ImportantCount = num hcs_ImportantCount, hr_ModerateCount = num hcs_ModerateCount,
          hr_ActionableCount = num hcs_ActionableCount, hr_AvailableUpdates = num hcs_AvailableUpdates, hr_NeedsReboot = num hcs_NeedsReboot,
          hr_NeedsRestart = num hcs_NeedsRestart, hr_NoFix = num hcs_NoFix, hr_Unknown = num hcs_Unknown,
          hr_StateUpdatedAt = (case hcs of None \<Rightarrow> None | Some _ \<Rightarrow> sv_stateUpdatedAt env (host_ID h))\<rparr>)"

definition GetHostWithStateByID :: "service_env \<Rightarrow> string \<Rightarrow> HostWithStateRow stmt" where
  "GetHostWithStateByID env i db =
     (case get_host i db of Inl e \<Rightarrow> Inl e | Inr (h, _) \<Rightarrow> Inr (with_state env db h, db))"

definition action_rank :: "string \<Rightarrow> int" where
  "action_rank a = (if a = ''reboot_host'' then 0 else if a = ''restart_service'' then 1 else if a = ''update_package'' then 2
     else if a = ''investigate'' then 3 else 4)"

text \<open>\<open>ORDER BY\<close> the action, \<open>last_seen_at DESC NULLS LAST\<close>, \<open>hostname ASC\<close> (nulls last), \<open>id ASC\<close>\<close>

definition row_order :: "service_env \<Rightarrow> HostWithStateRow \<Rightarrow> int \<times> (bool \<times> int) \<times> (bool \<times> string) \<times> string" where
  "row_order env r =
     (let h = hr_Host r in
      (action_rank (hr_OverallAction r),
       (case host_LastSeenAt h of None \<Rightarrow> (True, 0) | Some t \<Rightarrow> (False, - t)),
       (case host_Hostname h of None \<Rightarrow> (True, []) | Some n \<Rightarrow> (False, sv_collate env n)),
       sv_collate env (host_ID h)))"

definition ListHostsWithState :: "service_env \<Rightarrow> hosts_db \<Rightarrow> HostWithStateRow list" where
  "ListHostsWithState env db = sort_key (row_order env) (map (with_state env db) (hosts_of db))"

definition pull_configuration :: "HostWithStateRow \<Rightarrow> SSHPullConfiguration option" where
  "pull_configuration row =
     (if host_OnboardingMode (hr_Host row) = ''ssh''
      then Some \<lparr>pc_Hostname = UnwrapOr (hr_PullHostname row) [], pc_SSHUser = UnwrapOr (hr_PullSshUser row) [],
                 pc_FrequencyMinutes = UnwrapOr (hr_PullFrequencyMinutes row) defaultSSHPullFrequency,
                 pc_Onboarded = UnwrapOr (hr_Onboarded row) False, pc_UsesUniqueKeyPair = hr_UsesUniqueKeyPair row\<rparr>
      else None)"

definition mapHostWithState :: "HostWithStateRow \<Rightarrow> HostInfo" where
  "mapHostWithState row =
     (let host = hr_Host row in
     \<lparr>hi_ID = host_ID host, hi_OnboardingMode = host_OnboardingMode host, hi_ApprovalStatus = host_ApprovalStatus host,
      hi_DisplayName = UnwrapOr (host_DisplayName host) [], hi_Hostname = UnwrapOr (host_Hostname host) [],
      hi_IPAddress = UnwrapOr (host_IpAddress host) [], hi_OSFamily = host_OsFamily host, hi_OSName = host_OsName host,
      hi_OSMajor = host_OsMajor host, hi_OSVersion = host_OsVersion host, hi_Architecture = host_Architecture host, hi_Status = host_Status host,
      hi_OverallAction = hr_OverallAction row, hi_CriticalCount = hr_CriticalCount row, hi_ImportantCount = hr_ImportantCount row,
      hi_ModerateCount = hr_ModerateCount row, hi_ActionableCount = hr_ActionableCount row, hi_AvailableUpdates = hr_AvailableUpdates row,
      hi_NeedsReboot = hr_NeedsReboot row, hi_NeedsRestart = hr_NeedsRestart row, hi_NoFix = hr_NoFix row, hi_Unknown = hr_Unknown row,
      hi_LastSeenAt = host_LastSeenAt host, hi_LastAdvisoryCheckAt = host_LastAdvisoryCheckAt host, hi_StateUpdatedAt = hr_StateUpdatedAt row,
      hi_PullLastRunAt = hr_PullLastRunAt row, hi_PullLastRunStatus = UnwrapOr (hr_PullLastRunStatus row) [],
      hi_PullLastRunError = UnwrapOr (hr_PullLastRunError row) [], hi_Notes = host_Notes host, hi_Configuration = pull_configuration row,
      hi_CreatedAt = host_CreatedAt host, hi_UpdatedAt = host_UpdatedAt host\<rparr>)"

text \<open>The rows of the two queries have the same columns and the two mappers the same assignments.\<close>

definition mapHostWithStateByID :: "HostWithStateRow \<Rightarrow> HostInfo" where
  "mapHostWithStateByID row = mapHostWithState row"

section \<open>Operations\<close>

definition ListHosts :: "service_env \<Rightarrow> service \<Rightarrow> HostInfo list outcome" where
  "ListHosts env s =
     (if sv_fault env CallListHostsWithState then (s, Inl (SqlErr CallListHostsWithState StatementFailed))
      else (s, Inr (map mapHostWithState (ListHostsWithState env (sv_db s)))))"

definition GetHost :: "service_env \<Rightarrow> string \<Rightarrow> service \<Rightarrow> HostInfo outcome" where
  "GetHost env hostID s =
     bind_svc (on_pool (\<lambda>db. Required ErrHostNotFound (exec env CallGetHostWithState (GetHostWithStateByID env hostID) db)) s)
       (\<lambda>row s. (s, Inr (mapHostWithStateByID row)))"

definition ListPendingHosts :: "service_env \<Rightarrow> service \<Rightarrow> HostInfo list outcome" where
  "ListPendingHosts env s =
     (if sv_fault env CallListPendingHosts then (s, Inl (SqlErr CallListPendingHosts StatementFailed))
      else (s, Inr (map (\<lambda>h. mapHost h None) (ListPendingHostsStmt (sv_db s)))))"

record HostSnapshotInfo =
  si_ID :: string
  si_HostID :: string
  si_CollectedAt :: "int option"
  si_ReceivedAt :: "int option"
  si_RunningKernelNevra :: string
  si_BootTime :: "int option"
  si_HasProcessData :: bool
  si_Payload :: string

definition GetLatestSnapshot :: "service_env \<Rightarrow> string \<Rightarrow> service \<Rightarrow> HostSnapshotInfo outcome" where
  "GetLatestSnapshot env hostID s =
     bind_svc (on_pool (\<lambda>db. Required ErrSnapshotNotFound (exec env CallGetLatestHostSnapshot (GetLatestHostSnapshotByHostID hostID) db)) s)
       (\<lambda>row s. (s, Inr \<lparr>si_ID = snap_ID row, si_HostID = snap_HostID row, si_CollectedAt = snap_CollectedAt row, si_ReceivedAt = snap_ReceivedAt row,
          si_RunningKernelNevra = snap_RunningKernelNevra row, si_BootTime = snap_BootTime row, si_HasProcessData = snap_HasProcessData row,
          si_Payload = snap_Payload row\<rparr>))"

record RegistrationTokenInfo =
  ri_ID :: string
  ri_Name :: string
  ri_CreatedBy :: string
  ri_CreatedAt :: "int option"
  ri_RevokedAt :: "int option"
  ri_LastUsedAt :: "int option"
  ri_AutoApprove :: bool

definition ListRegistrationTokens :: "service_env \<Rightarrow> service \<Rightarrow> RegistrationTokenInfo list outcome" where
  "ListRegistrationTokens env s =
     (if sv_fault env CallListRegistrationTokens then (s, Inl (SqlErr CallListRegistrationTokens StatementFailed))
      else (s, Inr (map (\<lambda>row. \<lparr>ri_ID = rt_ID row, ri_Name = rt_Name row, ri_CreatedBy = rt_CreatedByUserID row, ri_CreatedAt = rt_CreatedAt row,
             ri_RevokedAt = rt_RevokedAt row, ri_LastUsedAt = rt_LastUsedAt row, ri_AutoApprove = rt_AutoApprove row\<rparr>)
           (ListRegistrationTokensStmt (sv_db s)))))"

record HostSSHPullJobInfo =
  ji_ID :: string
  ji_HostID :: string
  ji_Status :: string
  ji_StartedAt :: "int option"
  ji_CompletedAt :: "int option"
  ji_Error :: "string option"

definition ListSSHPullJobs :: "service_env \<Rightarrow> string \<Rightarrow> service \<Rightarrow> HostSSHPullJobInfo list outcome" where
  "ListSSHPullJobs env hostID s =
     (if sv_fault env CallListHostSSHPullJobs then (s, Inl (SqlErr CallListHostSSHPullJobs StatementFailed))
      else (s, Inr (map (\<lambda>row. \<lparr>ji_ID = pj_JobID row, ji_HostID = pj_HostID row, ji_Status = pj_Status row, ji_StartedAt = pj_StartedAt row,
             ji_CompletedAt = pj_CompletedAt row, ji_Error = pj_Error row\<rparr>)
           (ListHostSSHPullJobsByHostID hostID sshPullHistoryLimit (sv_db s)))))"

record RecentAdvisory =
  ra_ID :: string
  ra_SourceSystem :: string
  ra_Vendor :: string
  ra_AdvisoryType :: string
  ra_Severity :: "string option"
  ra_Summary :: "string option"
  ra_PublishedAt :: "string option"

record DashboardOverview =
  do_TotalHosts :: int
  do_NeedAttention :: int
  do_RebootQueue :: int
  do_UnknownInvestigate :: int
  do_TotalAdvisories :: int
  do_TotalScopes :: int
  do_RecentAdvisories :: "RecentAdvisory list"

definition states_of_hosts :: "hosts_db \<Rightarrow> UpsertHostCurrentStateParams list" where
  "states_of_hosts db = concat (map (\<lambda>h. filter (\<lambda>st. hcs_HostID st = host_ID h) (db_states (hd_tables db))) (hosts_of db))"

text \<open>\<open>ORDER BY published_at DESC LIMIT 5\<close>, which puts the nulls first\<close>

definition ListRecentAdvisories :: "service_env \<Rightarrow> hosts_db \<Rightarrow> Advisory list" where
  "ListRecentAdvisories env db =
     take 5 (rev (sort_key (\<lambda>a. case adv_PublishedAt a of None \<Rightarrow> (True, []) | Some t \<Rightarrow> (False, sv_collate env t)) (db_advisories (hd_tables db))))"

definition GetDashboardOverview :: "service_env \<Rightarrow> service \<Rightarrow> DashboardOverview outcome" where
  "GetDashboardOverview env s =
     (let db = sv_db s; many = (\<lambda>P. int (length (filter P (states_of_hosts db)))) in
      if sv_fault env CallGetDashboardOverview then (s, Inl (SqlErr CallGetDashboardOverview StatementFailed))
      else if sv_fault env CallListRecentAdvisories then (s, Inl (SqlErr CallListRecentAdvisories StatementFailed))
      else (s, Inr \<lparr>do_TotalHosts = int (length (hosts_of db)),
             do_NeedAttention = many (\<lambda>st. hcs_OverallAction st \<noteq> ''none''),
             do_RebootQueue = many (\<lambda>st. hcs_NeedsReboot st > 0),
             do_UnknownInvestigate = many (\<lambda>st. hcs_OverallAction st = ''investigate''),
             do_TotalAdvisories = int (length (db_advisories (hd_tables db))),
             do_TotalScopes = int (length (hd_scopes db)),
             do_RecentAdvisories = map (\<lambda>r. \<lparr>ra_ID = adv_ID r, ra_SourceSystem = adv_SourceSystem r, ra_Vendor = adv_Vendor r,
               ra_AdvisoryType = adv_AdvisoryType r, ra_Severity = adv_Severity r, ra_Summary = adv_Summary r, ra_PublishedAt = adv_PublishedAt r\<rparr>)
               (ListRecentAdvisories env db)\<rparr>))"

definition GetCollectorScript :: "string \<Rightarrow> pull_error + pull_script" where
  "GetCollectorScript osFamily = collectorScriptForOSFamily osFamily"

end
