(* ===== verification/Host_Registration.thy ===== *)
theory Host_Registration
  imports Host_Views
begin

text \<open>
  Registration tokens, the registration of an agent, its approval and the snapshots it sends. A registration or a
  snapshot is one transaction; what follows the commit (the scope of the host, matching the snapshot, events, the audit
  log) cannot make the operation fail.
\<close>

section \<open>Registration tokens\<close>

record CreatedRegistrationToken =
  cr_ID :: string
  cr_Name :: string
  cr_Token :: string
  cr_CreatedAt :: "int option"

definition CreateRegistrationToken :: "service_env \<Rightarrow> ActorRef \<Rightarrow> string \<Rightarrow> string \<Rightarrow> bool \<Rightarrow> service \<Rightarrow> CreatedRegistrationToken outcome" where
  "CreateRegistrationToken env actor userID name autoApprove s =
     (let trimmed = (if TrimSpace name = [] then ''Registration token'' else TrimSpace name);
          plain = ''pb_reg_'' @ sv_hex env
      in bind_svc (on_pool (exec env CallInsertRegistrationToken
              (InsertRegistrationToken (sv_users env userID \<noteq> None) (sv_dbNow env) (id_New ''rtok'' (sv_draw env ''rtok'')) trimmed
                 (sv_sha256 env plain) userID autoApprove)) s)
           (\<lambda>created s1.
              let s2 = (case GetUserByID env userID of
                          None \<Rightarrow> s1
                        | Some email \<Rightarrow> audit env
                            (actor_event (actor\<lparr>ar_UserID := userID, ar_Email := email\<rparr>) ''host.registration_token.create'' ''registration_token''
                               (rt_ID created) [(''name'', MetaString (rt_Name created)), (''auto_approve'', MetaBool (rt_AutoApprove created))]
                               (ar_UserAgent actor)) s1)
              in (s2, Inr \<lparr>cr_ID = rt_ID created, cr_Name = rt_Name created, cr_Token = plain, cr_CreatedAt = rt_CreatedAt created\<rparr>)))"

definition RevokeRegistrationToken :: "service_env \<Rightarrow> ActorRef \<Rightarrow> string \<Rightarrow> service \<Rightarrow> unit outcome" where
  "RevokeRegistrationToken env actor tokenID s =
     bind_svc (on_pool (\<lambda>db. Required ErrTokenAlreadyRevoked
         (exec env CallRevokeRegistrationToken (RevokeRegistrationTokenStmt (sv_dbNow env) tokenID) db)) s)
       (\<lambda>revoked s1.
          (audit env (actor_event actor ''host.registration_token.revoke'' ''registration_token'' (rt_ID revoked)
             [(''name'', MetaString (rt_Name revoked))] (ar_UserAgent actor)) s1, Inr ()))"

section \<open>Normalisation\<close>

definition normalizeOSFamily :: "OsFamily \<Rightarrow> string" where
  "normalizeOSFamily f = (case f of OS_FAMILY_RPM \<Rightarrow> ''rpm'' | OS_FAMILY_APT \<Rightarrow> ''apt'' | OS_FAMILY_UNSPECIFIED \<Rightarrow> ''unknown'')"

definition normalizeArchitecture :: "Architecture \<Rightarrow> string" where
  "normalizeArchitecture a =
     (case a of ARCHITECTURE_X86_64 \<Rightarrow> ''x86_64'' | ARCHITECTURE_AARCH64 \<Rightarrow> ''aarch64'' | ARCHITECTURE_RISCV64 \<Rightarrow> ''riscv64''
      | ARCHITECTURE_UNSPECIFIED \<Rightarrow> ''unknown'')"

definition normalizeRegistrationArchitecture :: "string \<Rightarrow> string" where
  "normalizeRegistrationArchitecture v =
     (let l = ToLower v in
      if l = ''amd64'' \<or> l = ''x86_64'' then ''x86_64'' else if l = ''arm64'' \<or> l = ''aarch64'' then ''aarch64'' else v)"

definition EmptySpaceString :: "string \<Rightarrow> string option" where
  "EmptySpaceString s = (if TrimSpace s = [] then None else Some s)"

section \<open>\<open>RegisterAgentHost\<close>\<close>

record RegisterHostMetadata =
  rm_IpAddress :: string
  rm_OsName :: string
  rm_OsVersion :: string
  rm_Architecture :: string

record RegisterHostRequest =
  rq_RegistrationToken :: string
  rq_Hostname :: string
  rq_MachineId :: string
  rq_Metadata :: "RegisterHostMetadata option"

record RegisterHostResponse =
  rs_HostId :: string
  rs_HostAccessToken :: string
  rs_ApprovalStatus :: string

definition agent_params :: "service_env \<Rightarrow> RegisterHostRequest \<Rightarrow> RegisterHostMetadata \<Rightarrow> InsertAgentHostParams" where
  "agent_params env input m =
     (let hostname = TrimSpace (rq_Hostname input);
          architecture = normalizeRegistrationArchitecture (TrimSpace (rm_Architecture m))
      in \<lparr>ia_ID = id_New ''h'' (sv_draw env ''h''), ia_DisplayName = nonzero hostname, ia_MachineID = nonzero (TrimSpace (rq_MachineId input)),
          ia_Hostname = nonzero hostname, ia_IpAddress = nonzero (TrimSpace (rm_IpAddress m)),
          ia_OsName = UnwrapOr (nonzero (TrimSpace (rm_OsName m))) ''Unknown'', ia_OsVersion = UnwrapOr (nonzero (TrimSpace (rm_OsVersion m))) ''unknown'',
          ia_Architecture = (if architecture = [] then ''unknown'' else architecture)\<rparr>)"

text \<open>The transaction gives the token, the host and the plain access token. Reading a field of an absent \<open>Metadata\<close>
  dereferences nil; the deferred rollback still runs.\<close>

definition register_tx :: "service_env \<Rightarrow> RegisterHostRequest \<Rightarrow> (RegistrationToken \<times> Host \<times> string) body" where
  "register_tx env input db =
     bind_tx (Required ErrInvalidRegistrationToken (exec env CallGetActiveRegistrationTokenByHash
                (GetActiveRegistrationTokenByHash (sv_sha256 env (TrimSpace (rq_RegistrationToken input)))) db))
       (\<lambda>regToken db.
          case rq_Metadata input of
            None \<Rightarrow> Inl NilDereference
          | Some m \<Rightarrow>
              bind_tx (duplicate ''hosts_display_name_unique_idx'' ErrDuplicateHostDisplayName (exec env CallInsertAgentHost
                  (if rt_AutoApprove regToken then InsertAgentHostApproved (sv_dbNow env) (agent_params env input m)
                   else InsertAgentHost (sv_dbNow env) (agent_params env input m)) db))
                (\<lambda>host db.
                   let hostAccessToken = ''pb_host_'' @ sv_hex env in
                   bind_tx (exec env CallInsertHostAccessToken
                       (InsertHostAccessToken (sv_dbNow env) (id_New ''htok'' (sv_draw env ''htok'')) (host_ID host) (sv_sha256 env hostAccessToken)) db)
                     (\<lambda>_ db.
                        bind_tx (exec env CallTouchRegistrationToken (TouchRegistrationTokenLastUsed (sv_dbNow env) (rt_ID regToken)) db)
                          (\<lambda>_ db. Inr ((regToken, host, hostAccessToken), db)))))"

definition RegisterAgentHost :: "service_env \<Rightarrow> RegisterHostRequest \<Rightarrow> service \<Rightarrow> RegisterHostResponse outcome" where
  "RegisterAgentHost env input s =
     (if TrimSpace (rq_RegistrationToken input) = [] then (s, Inl (AppErr ErrInvalidRegistrationToken))
      else bind_svc (in_tx env (register_tx env input) s)
        (\<lambda>(regToken, host, hostAccessToken) s1.
           let s2 = publish NewHostsUpdatedEvent s1;
               p = agent_params env input (the (rq_Metadata input));
               s3 = (case GetUserByID env (rt_CreatedByUserID regToken) of
                       None \<Rightarrow> s2
                     | Some email \<Rightarrow> audit env
                         (actor_event \<lparr>ar_UserID = rt_CreatedByUserID regToken, ar_Email = email, ar_IP = UnwrapOr (ia_IpAddress p) [], ar_UserAgent = []\<rparr>
                            ''host.create'' ''host'' (host_ID host)
                            [(''onboarding_mode'', MetaString ''agent''), (''display_name'', MetaString (TrimSpace (rq_Hostname input))),
                             (''machine_id'', MetaString (TrimSpace (rq_MachineId input))), (''os_name'', MetaString (ia_OsName p)),
                             (''os_version'', MetaString (ia_OsVersion p)), (''architecture'', MetaString (ia_Architecture p)),
                             (''registration_token_id'', MetaString (rt_ID regToken))] []) s2)
           in (s3, Inr \<lparr>rs_HostId = host_ID host, rs_HostAccessToken = hostAccessToken, rs_ApprovalStatus = host_ApprovalStatus host\<rparr>)))"

section \<open>\<open>IngestAgentSnapshot\<close>\<close>

record SyncResponse =
  sr_Accepted :: bool
  sr_HostId :: string
  sr_SnapshotId :: string
  sr_NextCheckInSeconds :: int

definition defaultNextCheckInSeconds :: int where "defaultNextCheckInSeconds = 21600"

text \<open>The columns taken from the payload, with the defaults for an absent host\<close>

definition payload_params :: "string \<Rightarrow> int \<Rightarrow> string \<Rightarrow> AgentHost option \<Rightarrow> UpdateHostFromSnapshotParams" where
  "payload_params hostID collectedAt snapshotID hostPayload =
     (let txt = (\<lambda>v. Option.bind (nonzero v) EmptySpaceString) in
      case hostPayload of
        None \<Rightarrow> \<lparr>uh_ID = hostID, uh_MachineID = None, uh_Hostname = None, uh_IpAddress = None, uh_OsFamily = ''unknown'', uh_OsName = ''Unknown'',
                 uh_OsMajor = 0, uh_OsVersion = ''unknown'', uh_Architecture = ''unknown'', uh_LastSeenAt = TimestamptzFromTime collectedAt,
                 uh_LastSnapshotID = txt snapshotID\<rparr>
      | Some p \<Rightarrow> \<lparr>uh_ID = hostID, uh_MachineID = txt (ah_MachineId p), uh_Hostname = txt (ah_Hostname p),
                 uh_IpAddress = txt (case ah_IpAddresses p of [] \<Rightarrow> [] | ip # _ \<Rightarrow> TrimSpace ip), uh_OsFamily = normalizeOSFamily (ah_OsFamily p),
                 uh_OsName = (if ah_OsName p \<noteq> [] then ah_OsName p else ''Unknown''), uh_OsMajor = ah_OsMajor p,
                 uh_OsVersion = (if ah_OsVersion p \<noteq> [] then ah_OsVersion p else ''unknown''), uh_Architecture = normalizeArchitecture (ah_Architecture p),
                 uh_LastSeenAt = TimestamptzFromTime collectedAt, uh_LastSnapshotID = txt snapshotID\<rparr>)"

definition update_state :: "string \<Rightarrow> string \<Rightarrow> int \<Rightarrow> UpsertHostCurrentStateParams" where
  "update_state hostID snapshotID availableUpdates =
     \<lparr>hcs_HostID = hostID, hcs_SnapshotID = snapshotID, hcs_OverallAction = (if availableUpdates > 0 then ''update_package'' else ''none''),
      hcs_CriticalCount = 0, hcs_ImportantCount = 0, hcs_ModerateCount = 0, hcs_ActionableCount = availableUpdates,
      hcs_AvailableUpdates = availableUpdates, hcs_NeedsReboot = 0, hcs_NeedsRestart = 0, hcs_NoFix = 0, hcs_Unknown = 0\<rparr>"

definition identity_mismatch :: "Host \<Rightarrow> AgentHost option \<Rightarrow> bool" where
  "identity_mismatch host hostPayload =
     (case (hostPayload, host_MachineID host) of
        (Some p, Some m) \<Rightarrow> ah_MachineId p \<noteq> [] \<and> m \<noteq> ah_MachineId p
      | _ \<Rightarrow> False)"

definition store_snapshot :: "service_env \<Rightarrow> string \<Rightarrow> Host \<Rightarrow> AgentSnapshot \<Rightarrow> (Host \<times> HostSnapshot) body" where
  "store_snapshot env tokenID host snapshot db =
     (let collectedAt = UnwrapOr (as_SentAt snapshot) (sv_now env);
          bootTime = Option.bind (Option.bind (as_Host snapshot) ah_BootTime) TimestamptzFromTime;
          runningKernel = (case as_Runtime snapshot of None \<Rightarrow> [] | Some r \<Rightarrow> rt_KernelRunning r);
          hasProcessData = (case as_Runtime snapshot of None \<Rightarrow> False | Some r \<Rightarrow> rt_Processes r \<noteq> []);
          availableUpdates = (case as_Host snapshot of None \<Rightarrow> 0 | Some p \<Rightarrow> ah_AvailablePackageUpdateCount p)
      in bind_tx (exec env CallInsertHostSnapshot
             (InsertHostSnapshot (sv_dbNow env) (id_New ''snap'' (sv_draw env ''snap'')) (host_ID host) (TimestamptzFromTime collectedAt)
                (sv_bytes env snapshot) runningKernel bootTime hasProcessData) db)
           (\<lambda>row db.
              bind_tx (exec env CallUpdateHostFromSnapshot (UpdateHostFromSnapshot (sv_dbNow env)
                  (payload_params (host_ID host) collectedAt (snap_ID row) (as_Host snapshot))) db)
                (\<lambda>_ db.
                   bind_tx (exec env CallSvcUpsertHostCurrentState (upsert_state (update_state (host_ID host) (snap_ID row) availableUpdates)) db)
                     (\<lambda>_ db.
                        bind_tx (exec env CallTouchHostAccessToken (TouchHostAccessTokenLastUsed (sv_dbNow env) tokenID) db)
                          (\<lambda>_ db. Inr ((host, row), db))))))"

definition ingest_tx :: "service_env \<Rightarrow> string \<Rightarrow> AgentSnapshot \<Rightarrow> (Host \<times> HostSnapshot) body" where
  "ingest_tx env trimmedToken snapshot db =
     bind_tx (Required ErrInvalidHostAccessToken (exec env CallGetActiveHostAccessTokenByHash
                (GetActiveHostAccessTokenByHash (sv_sha256 env trimmedToken)) db))
       (\<lambda>tokenRow db.
          bind_tx (Required ErrHostNotFound (exec env CallSvcGetHostByID (get_host (ht_HostID tokenRow)) db))
            (\<lambda>host db.
               if host_ApprovalStatus host \<noteq> ''approved'' then Inl (AppErr ErrHostNotApproved)
               else if identity_mismatch host (as_Host snapshot) then Inl (AppErr ErrHostIdentityMismatch)
               else store_snapshot env (ht_ID tokenRow) host snapshot db))"

definition IngestAgentSnapshot :: "service_env \<Rightarrow> string \<Rightarrow> AgentSnapshot \<Rightarrow> service \<Rightarrow> SyncResponse outcome" where
  "IngestAgentSnapshot env hostAccessToken snapshot s =
     (let trimmedToken = TrimSpace hostAccessToken in
      if trimmedToken = [] then (s, Inl (AppErr ErrInvalidHostAccessToken))
      else bind_svc (in_tx env (ingest_tx env trimmedToken snapshot) s)
        (\<lambda>(host, row) s1.
           let p = payload_params (host_ID host) (sv_now env) (snap_ID row) (as_Host snapshot);
               s2 = refresh_scope env (host_ID host) (uh_OsFamily p) (uh_OsName p) (uh_OsVersion p) (uh_OsMajor p) (uh_Architecture p) s1;
               s3 = match_snapshot env (host_ID host) (snap_ID row) s2;
               s4 = publish (NewHostSnapshotEvent (host_ID host)) (publish NewHostsUpdatedEvent s3)
           in (s4, Inr \<lparr>sr_Accepted = True, sr_HostId = host_ID host, sr_SnapshotId = snap_ID row,
                        sr_NextCheckInSeconds = defaultNextCheckInSeconds\<rparr>)))"

section \<open>Approval\<close>

definition ApproveHost :: "service_env \<Rightarrow> ActorRef \<Rightarrow> string \<Rightarrow> service \<Rightarrow> HostInfo outcome" where
  "ApproveHost env actor hostID s =
     bind_svc (on_pool (\<lambda>db. Required ErrHostNotFound (exec env CallApproveHostByID (ApproveHostByID (sv_dbNow env) hostID) db)) s)
       (\<lambda>host s1.
          (audit env (actor_event actor ''host.approve'' ''host'' (host_ID host) [] []) (publish NewHostsUpdatedEvent s1), Inr (mapHost host None)))"

end
