(* ===== verification/Host_Admin.thy ===== *)
theory Host_Admin
  imports Host_Registration
begin

text \<open>
  What an administrator does to a host: changing its name and pull settings, its notes, and deleting it. \<open>UpdateHost\<close>
  changes the schedule of the pull while its transaction is open, so it restores the old schedule when the change of the
  schedule or the commit fails.
\<close>

section \<open>\<open>UpdateHost\<close>\<close>

record UpdateHostInput =
  ui_DisplayName :: "string option"
  ui_PullHostname :: "string option"
  ui_PullSSHUser :: "string option"
  ui_PullFrequencyMinutes :: "int option"

definition hasSSHFields :: "UpdateHostInput \<Rightarrow> bool" where
  "hasSSHFields input \<longleftrightarrow> ui_PullHostname input \<noteq> None \<or> ui_PullSSHUser input \<noteq> None \<or> ui_PullFrequencyMinutes input \<noteq> None"

definition from_to :: "metadata \<Rightarrow> metadata \<Rightarrow> metadata" where
  "from_to a b = MetaMap [(''from'', a), (''to'', b)]"

definition opt_entry :: "string \<Rightarrow> ('a \<Rightarrow> metadata) \<Rightarrow> 'a option \<Rightarrow> (string \<times> metadata) list" where
  "opt_entry key f v = (case v of None \<Rightarrow> [] | Some x \<Rightarrow> [(key, f x)])"

definition meta_int :: "int option \<Rightarrow> metadata" where
  "meta_int v = (case v of None \<Rightarrow> MetaNil | Some n \<Rightarrow> MetaInt n)"

text \<open>The statements on the display name and on the pull configuration. The result is the metadata, and the old
  frequency when the pull has to be rescheduled.\<close>

definition update_name :: "service_env \<Rightarrow> string \<Rightarrow> Host \<Rightarrow> UpdateHostInput \<Rightarrow> (string \<times> metadata) list body" where
  "update_name env hostID host input db =
     (case ui_DisplayName input of
        None \<Rightarrow> Inr ([], db)
      | Some displayName \<Rightarrow>
          bind_tx (duplicate ''hosts_display_name_unique_idx'' ErrDuplicateHostDisplayName
              (exec env CallUpdateHostDisplayName (UpdateHostDisplayName (sv_dbNow env) hostID (Some displayName)) db))
            (\<lambda>_ db. Inr ([(''display_name'', from_to (MetaString (UnwrapOr (host_DisplayName host) [])) (MetaString displayName))], db)))"

definition update_pull :: "service_env \<Rightarrow> string \<Rightarrow> UpdateHostInput \<Rightarrow> ((string \<times> metadata) list \<times> (int \<times> int) option) body" where
  "update_pull env hostID input db =
     (if \<not> hasSSHFields input then Inr (([], None), db)
      else bind_tx (exec env CallGetSSHPullConfig (GetSSHPullConfigByHostID hostID) db)
        (\<lambda>config db.
           let md = opt_entry ''pull_hostname'' (\<lambda>v. from_to (MetaString (sp_PullHostname config)) (MetaString v)) (ui_PullHostname input) @
                    opt_entry ''pull_ssh_user'' (\<lambda>v. from_to (MetaString (UnwrapOr (sp_PullSshUser config) [])) (MetaString v)) (ui_PullSSHUser input) @
                    opt_entry ''pull_frequency_minutes'' (\<lambda>v. from_to (meta_int (sp_PullFrequencyMinutes config)) (MetaInt v)) (ui_PullFrequencyMinutes input);
               oldFrequency = UnwrapOr (sp_PullFrequencyMinutes config) defaultSSHPullFrequency;
               reschedule = (case ui_PullFrequencyMinutes input of
                               Some f \<Rightarrow> if sp_Onboarded config then Some (oldFrequency, f) else None
                             | None \<Rightarrow> None)
           in if (case ui_PullFrequencyMinutes input of Some f \<Rightarrow> f < 5 | None \<Rightarrow> False) then Inl (AppErr ErrInvalidFrequency)
              else bind_tx (duplicate ''host_ssh_pull_pull_hostname_unique_idx'' ErrDuplicateSSHPullHostname
                  (exec env CallUpdateSSHPullConfig
                     (UpdateSSHPullConfig (ui_PullHostname input) (ui_PullSSHUser input) (ui_PullFrequencyMinutes input) hostID) db))
                (\<lambda>_ db. Inr ((md, reschedule), db))))"

definition update_body :: "service_env \<Rightarrow> string \<Rightarrow> UpdateHostInput \<Rightarrow> ((string \<times> metadata) list \<times> (int \<times> int) option) body" where
  "update_body env hostID input db =
     bind_tx (Required ErrHostNotFound (exec env CallSvcGetHostByID (get_host hostID) db))
       (\<lambda>host db.
          bind_tx (exec env CallLockHost (\<lambda>db. Inr ((), db)) db)
            (\<lambda>_ db.
               if hasSSHFields input \<and> host_OnboardingMode host \<noteq> ''ssh'' then Inl (AppErr ErrSSHFieldsForNonSSH)
               else bind_tx (update_name env hostID host input db)
                 (\<lambda>md1 db.
                    bind_tx (update_pull env hostID input db)
                      (\<lambda>(md2, reschedule) db. Inr ((md1 @ md2, reschedule), db)))))"

text \<open>The periodic job is changed before the commit; \<open>failed\<close> restores the old one and gives the error.\<close>

definition restore_schedule :: "service_env \<Rightarrow> string \<Rightarrow> (int \<times> int) option \<Rightarrow> service_error \<Rightarrow> service \<Rightarrow> service \<times> service_error" where
  "restore_schedule env hostID reschedule e s =
     (case reschedule of
        None \<Rightarrow> (s, e)
      | Some (oldFrequency, _) \<Rightarrow>
          let (p, err) = AddSSHPullJob (sv_river env) hostID oldFrequency False (sv_periodic s)
          in (s\<lparr>sv_periodic := p\<rparr>, case err of None \<Rightarrow> e | Some r \<Rightarrow> UpdateFailed e (JobErr r)))"

definition reschedule_job :: "service_env \<Rightarrow> string \<Rightarrow> (int \<times> int) option \<Rightarrow> service \<Rightarrow> service \<times> periodic_error option" where
  "reschedule_job env hostID reschedule s =
     (case reschedule of
        None \<Rightarrow> (s, None)
      | Some (_, newFrequency) \<Rightarrow>
          let (p, err) = AddSSHPullJob (sv_river env) hostID newFrequency False (sv_periodic s) in (s\<lparr>sv_periodic := p\<rparr>, err))"

definition UpdateHost :: "service_env \<Rightarrow> ActorRef \<Rightarrow> string \<Rightarrow> UpdateHostInput \<Rightarrow> service \<Rightarrow> HostInfo outcome" where
  "UpdateHost env actor hostID input s =
     (if sv_fault env CallBeginTx_svc then (s, Inl (CallErr CallBeginTx_svc))
      else case update_body env hostID input (sv_db s) of
        Inl e \<Rightarrow> (s, Inl e)
      | Inr ((md, reschedule), db) \<Rightarrow>
          (case reschedule_job env hostID reschedule s of
             (s1, Some err) \<Rightarrow> (let (s2, e) = restore_schedule env hostID reschedule (JobErr err) s1 in (s2, Inl e))
           | (s1, None) \<Rightarrow>
               if sv_fault env CallCommit_svc then (let (s2, e) = restore_schedule env hostID reschedule (CallErr CallCommit_svc) s1 in (s2, Inl e))
               else bind_svc (GetHost env hostID (s1\<lparr>sv_db := db\<rparr>))
                 (\<lambda>updated s2.
                    (audit env (actor_event actor ''host.update'' ''host'' hostID md (ar_UserAgent actor)) (publish NewHostsUpdatedEvent s2), Inr updated))))"

section \<open>\<open>UpdateHostNotes\<close>\<close>

text \<open>\<open>utf8.RuneCountInString\<close>: the length of the encoding at the front of the bytes, 1 for an invalid one. A lead byte
  narrows the range of the byte after it; the other continuation bytes lie between 80 and BF.\<close>

definition continuation :: "nat \<Rightarrow> bool" where
  "continuation b \<longleftrightarrow> 0x80 \<le> b \<and> b \<le> 0xBF"

fun rune_length :: "nat list \<Rightarrow> nat" where
  "rune_length (b0 # b1 # rest) =
     (if 0xC2 \<le> b0 \<and> b0 \<le> 0xDF \<and> continuation b1 then 2
      else case rest of
        [] \<Rightarrow> 1
      | b2 # rest \<Rightarrow>
          if continuation b2 \<and> continuation b1 \<and>
             (b0 = 0xE0 \<and> 0xA0 \<le> b1 \<or> 0xE1 \<le> b0 \<and> b0 \<le> 0xEC \<or> b0 = 0xED \<and> b1 \<le> 0x9F \<or> 0xEE \<le> b0 \<and> b0 \<le> 0xEF) then 3
          else case rest of
            [] \<Rightarrow> 1
          | b3 # _ \<Rightarrow>
              if continuation b3 \<and> continuation b2 \<and> continuation b1 \<and>
                 (b0 = 0xF0 \<and> 0x90 \<le> b1 \<or> 0xF1 \<le> b0 \<and> b0 \<le> 0xF3 \<or> b0 = 0xF4 \<and> b1 \<le> 0x8F) then 4
              else 1)"
| "rune_length _ = 1"

lemma rune_length_pos: "0 < rune_length bs"
  by (cases bs rule: rune_length.cases) (auto split: list.splits)

function rune_count :: "nat list \<Rightarrow> nat" where
  "rune_count [] = 0"
| "rune_count (b # bs) = 1 + rune_count (drop (rune_length (b # bs)) (b # bs))"
  by pat_completeness auto

termination
  by (relation "measure length") (use rune_length_pos in \<open>auto simp: not_le Suc_le_eq intro: diff_less\<close>)

definition RuneCountInString :: "string \<Rightarrow> nat" where
  "RuneCountInString s = rune_count (map of_char s)"

definition UpdateHostNotes :: "service_env \<Rightarrow> string \<Rightarrow> string option \<Rightarrow> service \<Rightarrow> HostInfo outcome" where
  "UpdateHostNotes env hostID notes s =
     (let trimmed = map_option TrimRightSpace notes in
      if (case trimmed of Some v \<Rightarrow> RuneCountInString v > 8192 | None \<Rightarrow> False) then (s, Inl (AppErr ErrNotesTooLarge))
      else bind_svc (on_pool (\<lambda>db. Required ErrHostNotFound
             (exec env CallUpdateHostNotes (UpdateHostNotesByID (sv_dbNow env) hostID (Option.bind trimmed nonzero)) db)) s)
           (\<lambda>_ s1. bind_svc (GetHost env hostID s1) (\<lambda>updated s2. (publish NewHostsUpdatedEvent s2, Inr updated))))"

section \<open>\<open>DeleteHost\<close>\<close>

definition delete_tx :: "service_env \<Rightarrow> string \<Rightarrow> unit body" where
  "delete_tx env hostID db =
     bind_tx (Required ErrHostNotFound (exec env CallSvcGetHostByID (get_host hostID) db)) (\<lambda>_ db.
     bind_tx (exec env CallClearHostLastSnapshot (ClearHostLastSnapshotByID (sv_dbNow env) hostID) db) (\<lambda>_ db.
     bind_tx (exec env CallDeleteHostCurrentState (DeleteHostCurrentStateByHostID hostID) db) (\<lambda>_ db.
     bind_tx (exec env CallDeleteHostAccessTokens (DeleteHostAccessTokensByHostID hostID) db) (\<lambda>_ db.
     bind_tx (exec env CallDeleteHostSnapshots (DeleteHostSnapshotsByHostID hostID) db) (\<lambda>_ db.
     bind_tx (Required ErrHostNotFound (exec env CallDeleteHost (DeleteHostByID hostID) db)) (\<lambda>_ db. Inr ((), db)))))))"

text \<open>That the periodic job could not be removed is only logged.\<close>

definition DeleteHost :: "service_env \<Rightarrow> ActorRef \<Rightarrow> string \<Rightarrow> service \<Rightarrow> unit outcome" where
  "DeleteHost env actor hostID s =
     (let trimmedHostID = TrimSpace hostID in
      if trimmedHostID = [] then (s, Inl (AppErr ErrHostNotFound))
      else bind_svc (in_tx env (delete_tx env trimmedHostID) s)
        (\<lambda>_ s1.
           let s2 = s1\<lparr>sv_periodic := fst (RemoveSSHPullJob (sv_river env) trimmedHostID (sv_periodic s1))\<rparr>;
               s3 = publish (NewHostDeletedEvent trimmedHostID) (publish NewHostsUpdatedEvent s2)
           in (audit env (actor_event actor ''host.delete'' ''host'' trimmedHostID [] []) s3, Inr ())))"

end
