(* ===== verification/Host_Pull.thy ===== *)
theory Host_Pull
  imports Host_Admin
begin

text \<open>
  Hosts that the server pulls over SSH and hosts whose reports an operator uploads. A pull records a job, collects the
  report, stores the snapshot in one transaction and writes one entry of the audit log whatever happens after the job was
  drawn. The connection is the parameter \<open>sv_run\<close>, the keys and the cipher are parameters too.
\<close>

section \<open>SSH hosts\<close>

record CreateSSHHostInput =
  ci_DisplayName :: string
  ci_Hostname :: string
  ci_SSHUser :: string
  ci_FrequencyMinutes :: int
  ci_UniqueKeyPair :: bool

record CreateSSHHostResult =
  cs_HostID :: string
  cs_PublicKey :: string
  cs_ApprovalStatus :: string
  cs_LastRunStatus :: string
  cs_LastRunError :: string
  cs_HostAccessToken :: string

text \<open>The public key of the answer, and the keys that are stored\<close>

definition choose_keys :: "service_env \<Rightarrow> bool \<Rightarrow> service_error + (string \<times> string option \<times> string option)" where
  "choose_keys env unique =
     (if unique then
        if sv_fault env CallGenerateKeyPair then Inl (CallErr CallGenerateKeyPair)
        else case sv_encrypt env (snd (sv_keyPair env)) of
          None \<Rightarrow> Inl (CallErr CallEncrypt)
        | Some encrypted \<Rightarrow> Inr (fst (sv_keyPair env), Some (fst (sv_keyPair env)), Some encrypted)
      else case sv_globalKey env of
        None \<Rightarrow> Inl (CallErr CallGlobalKey)
      | Some globalKey \<Rightarrow> Inr (fst globalKey, None, None))"

definition CreateSSHHost :: "service_env \<Rightarrow> ActorRef \<Rightarrow> CreateSSHHostInput \<Rightarrow> service \<Rightarrow> CreateSSHHostResult outcome" where
  "CreateSSHHost env actor input s =
     (let frequency = (if ci_FrequencyMinutes input \<le> 0 then defaultSSHPullFrequency else ci_FrequencyMinutes input) in
      case choose_keys env (ci_UniqueKeyPair input) of
        Inl e \<Rightarrow> (s, Inl e)
      | Inr (responsePublicKey, dbPublicKey, dbPrivateKey) \<Rightarrow>
          bind_svc (in_tx env (\<lambda>db.
              duplicate ''host_ssh_pull_pull_hostname_unique_idx'' ErrDuplicateSSHPullHostname
                (duplicate ''hosts_display_name_unique_idx'' ErrDuplicateHostDisplayName
                  (exec env CallInsertSSHHost (InsertSSHHost (sv_dbNow env)
                     \<lparr>is_ID = id_New ''h'' (sv_draw env ''h''), is_DisplayName = Some (ci_DisplayName input), is_Hostname = Some (ci_Hostname input),
                      is_IpAddress = None, is_PullSshUser = Some (ci_SSHUser input), is_PullFrequencyMinutes = Some frequency,
                      is_PullPublicKey = dbPublicKey, is_PullPrivateKey = dbPrivateKey\<rparr>) db))) s)
            (\<lambda>host s1.
               (audit env (actor_event actor ''host.create'' ''host'' (host_ID host)
                  [(''onboarding_mode'', MetaString ''ssh''), (''display_name'', MetaString (ci_DisplayName input)),
                   (''hostname'', MetaString (ci_Hostname input)), (''ssh_user'', MetaString (ci_SSHUser input)),
                   (''unique_key_pair'', MetaBool (ci_UniqueKeyPair input))] (ar_UserAgent actor)) (publish NewHostsUpdatedEvent s1),
                Inr \<lparr>cs_HostID = host_ID host, cs_PublicKey = responsePublicKey, cs_ApprovalStatus = host_ApprovalStatus host,
                     cs_LastRunStatus = [], cs_LastRunError = [], cs_HostAccessToken = []\<rparr>)))"

definition onboard_frequency :: "int option \<Rightarrow> int" where
  "onboard_frequency v = (case v of Some f \<Rightarrow> if f > 0 then f else defaultSSHPullFrequency | None \<Rightarrow> defaultSSHPullFrequency)"

definition OnboardSSHHost :: "service_env \<Rightarrow> ActorRef \<Rightarrow> string \<Rightarrow> service \<Rightarrow> unit outcome" where
  "OnboardSSHHost env actor hostID s =
     bind_svc (on_pool (\<lambda>db. Required ErrHostNotFound (exec env CallSvcGetHostByID (get_host hostID) db)) s) (\<lambda>host s.
     if host_OnboardingMode host \<noteq> ''ssh'' then (s, Inl NotSSHHost)
     else bind_svc (on_pool (exec env CallGetSSHPullConfig (GetSSHPullConfigByHostID hostID)) s) (\<lambda>cfg s.
     bind_svc (on_pool (exec env CallSetSSHPullOnboarded (SetSSHPullOnboarded hostID True)) s) (\<lambda>_ s.
       case AddSSHPullJob (sv_river env) hostID (onboard_frequency (sp_PullFrequencyMinutes cfg)) True (sv_periodic s) of
         (p, Some err) \<Rightarrow> (s\<lparr>sv_periodic := p\<rparr>, Inl (JobErr err))
       | (p, None) \<Rightarrow> (audit env (actor_event actor ''host.ssh.onboard'' ''host'' hostID [] []) (s\<lparr>sv_periodic := p\<rparr>), Inr ()))))"

section \<open>\<open>RunSSHPull\<close>\<close>

definition result_state :: "string \<Rightarrow> string \<Rightarrow> SSHPullResult \<Rightarrow> UpsertHostCurrentStateParams" where
  "result_state hostID snapshotID res =
     \<lparr>hcs_HostID = hostID, hcs_SnapshotID = snapshotID, hcs_OverallAction = pr_OverallAction res, hcs_CriticalCount = pr_CriticalCount res,
      hcs_ImportantCount = pr_ImportantCount res, hcs_ModerateCount = pr_ModerateCount res, hcs_ActionableCount = pr_ActionableCount res,
      hcs_AvailableUpdates = pr_AvailableUpdates res, hcs_NeedsReboot = pr_NeedsReboot res, hcs_NeedsRestart = pr_NeedsRestart res,
      hcs_NoFix = pr_NoFix res, hcs_Unknown = pr_Unknown res\<rparr>"

definition insert_result :: "service_env \<Rightarrow> string \<Rightarrow> int \<Rightarrow> SSHPullResult \<Rightarrow> HostSnapshot body" where
  "insert_result env hostID collectedAt res =
     exec env CallInsertHostSnapshot (InsertHostSnapshot (sv_dbNow env) (id_New ''snap'' (sv_draw env ''snap'')) hostID
       (TimestamptzFromTime collectedAt) (Some (pr_Payload res)) (pr_RunningKernel res)
       (Option.bind (pr_BootTime res) TimestamptzFromTime) (pr_HasProcessData res))"

text \<open>The transaction of \<open>updateJobResult\<close>: with a result it gives the identifier of the snapshot.\<close>

definition job_tx :: "service_env \<Rightarrow> Host \<Rightarrow> string \<Rightarrow> string \<Rightarrow> string \<Rightarrow> string \<Rightarrow> SSHPullResult option \<Rightarrow> string option body" where
  "job_tx env host hostID jobID status errMsg res db =
     bind_tx (exec env CallUpdateHostSSHPullJob (UpdateHostSSHPullJob jobID status (TimestamptzFromTime (sv_now env)) (nonzero errMsg)) db) (\<lambda>_ db.
     case (if status = ''success'' then res else None) of
       Some r \<Rightarrow>
         bind_tx (insert_result env hostID (pr_CollectedAt r) r db) (\<lambda>row db.
         bind_tx (exec env CallUpdateSSHPullRun (UpdateSSHPullRun (sv_dbNow env)
             \<lparr>ur_PullLastRunAt = TimestamptzFromTime (pr_CollectedAt r), ur_LastSnapshotID = Some (snap_ID row), ur_MachineID = nonzero (pr_MachineID r),
              ur_Hostname = nonzero (pr_Hostname r), ur_IpAddress = nonzero (pr_IPAddress r), ur_OsFamily = pr_OSFamily r, ur_OsName = pr_OSName r,
              ur_OsMajor = pr_OSMajor r, ur_OsVersion = pr_OSVersion r, ur_Architecture = pr_Architecture r, ur_ID = hostID,
              ur_PullLastRunStatus = Some status, ur_PullLastRunError = nonzero errMsg\<rparr>) db) (\<lambda>_ db.
         bind_tx (exec env CallSvcUpsertHostCurrentState (upsert_state (result_state hostID (snap_ID row) r)) db) (\<lambda>_ db.
         Inr (Some (snap_ID row), db))))
     | None \<Rightarrow>
         bind_tx (exec env CallUpdateSSHPullRun (UpdateSSHPullRun (sv_dbNow env)
             \<lparr>ur_PullLastRunAt = TimestamptzFromTime (sv_now env), ur_LastSnapshotID = None, ur_MachineID = None, ur_Hostname = None, ur_IpAddress = None,
              ur_OsFamily = host_OsFamily host, ur_OsName = host_OsName host, ur_OsMajor = host_OsMajor host, ur_OsVersion = host_OsVersion host,
              ur_Architecture = host_Architecture host, ur_ID = hostID, ur_PullLastRunStatus = Some status,
              ur_PullLastRunError = nonzero errMsg\<rparr>) db) (\<lambda>_ db. Inr (None, db)))"

definition updateJobResult ::
  "service_env \<Rightarrow> Host \<Rightarrow> string \<Rightarrow> string \<Rightarrow> string \<Rightarrow> string \<Rightarrow> SSHPullResult option \<Rightarrow> service \<Rightarrow> unit outcome" where
  "updateJobResult env host hostID jobID status errMsg res s =
     bind_svc (in_tx env (job_tx env host hostID jobID status errMsg res) s) (\<lambda>snapshotID s1.
       let s2 = publish (NewHostSnapshotEvent hostID) s1;
           s3 = (case (snapshotID, res) of
                   (Some sid, Some r) \<Rightarrow>
                     match_snapshot env hostID sid
                       (refresh_scope env hostID (pr_OSFamily r) (pr_OSName r) (pr_OSVersion r) (pr_OSMajor r) (pr_Architecture r) s2)
                 | _ \<Rightarrow> s2)
       in (publish NewHostsUpdatedEvent s3, Inr ()))"

text \<open>The private key to connect with\<close>

definition pull_key :: "service_env \<Rightarrow> HostSshPull \<Rightarrow> service_error + string" where
  "pull_key env cfg =
     (if UnwrapOr (sp_PullPrivateKey cfg) [] \<noteq> [] then
        (case sv_decrypt env (UnwrapOr (sp_PullPrivateKey cfg) []) of None \<Rightarrow> Inl (CallErr CallDecrypt) | Some key \<Rightarrow> Inr key)
      else case sv_globalKey env of None \<Rightarrow> Inl (CallErr CallGlobalKey) | Some globalKey \<Rightarrow> Inr (snd globalKey))"

text \<open>\<open>net.JoinHostPort(address, "22")\<close> of an address without a colon\<close>

definition pull_address :: "string \<Rightarrow> string" where
  "pull_address sshHost = (if Contains sshHost '':'' then sshHost else sshHost @ '':22'')"

definition collect :: "service_env \<Rightarrow> HostSshPull \<Rightarrow> service_error + SSHPullResult" where
  "collect env cfg =
     (case pull_key env cfg of
        Inl e \<Rightarrow> Inl e
      | Inr key \<Rightarrow>
          let sshHost = TrimSpace (sp_PullHostname cfg) in
          if sshHost = [] then Inl EmptyPullHostname
          else case Collect (sv_marshal env) (sv_run env key (UnwrapOr (sp_PullSshUser cfg) []) (pull_address sshHost)) (sv_now env) of
            Inl e \<Rightarrow> Inl (PullErr e)
          | Inr res \<Rightarrow> Inr res)"

text \<open>The body after the job was drawn, with the status and the error text for the audit log\<close>

definition pull_steps :: "service_env \<Rightarrow> Host \<Rightarrow> HostSshPull \<Rightarrow> string \<Rightarrow> string \<Rightarrow> service \<Rightarrow> unit outcome \<times> string \<times> string" where
  "pull_steps env host cfg hostID jobID s =
     (case on_pool (exec env CallInsertHostSSHPullJob (InsertHostSSHPullJob jobID hostID ''running'' (TimestamptzFromTime (sv_now env)))) s of
        (s1, Inl e) \<Rightarrow> ((s1, Inl e), ''success'', [])
      | (s1, Inr _) \<Rightarrow>
          (case collect env cfg of
             Inl e \<Rightarrow>
               (case updateJobResult env host hostID jobID ''failed'' (sv_message env e) None s1 of
                  (s2, Inl upErr) \<Rightarrow> ((s2, Inl (UpdateFailed e upErr)), ''failed'', sv_message env e)
                | (s2, Inr _) \<Rightarrow> ((s2, Inl e), ''failed'', sv_message env e))
           | Inr res \<Rightarrow>
               (case updateJobResult env host hostID jobID ''success'' [] (Some res) s1 of
                  (s2, Inl e) \<Rightarrow> ((s2, Inl e), ''failed'', sv_message env e)
                | (s2, Inr _) \<Rightarrow> ((s2, Inr ()), ''success'', []))))"

definition RunSSHPull :: "service_env \<Rightarrow> ActorRef \<Rightarrow> string \<Rightarrow> service \<Rightarrow> unit outcome" where
  "RunSSHPull env actor hostID s =
     bind_svc (on_pool (\<lambda>db. Required ErrHostNotFound (exec env CallSvcGetHostByID (get_host hostID) db)) s) (\<lambda>host s.
     bind_svc (on_pool (exec env CallGetSSHPullConfig (GetSSHPullConfigByHostID hostID)) s) (\<lambda>cfg s.
       let jobID = id_New ''spjob'' (sv_draw env ''spjob'');
           ((s1, r), auditStatus, auditErrMsg) = pull_steps env host cfg hostID jobID s
       in (audit env (actor_event actor ''host.ssh.pull'' ''host'' hostID
             ([(''trigger'', MetaString (if ar_UserID actor \<noteq> ''system'' then ''manual'' else ''scheduled'')), (''job_id'', MetaString jobID),
               (''status'', MetaString auditStatus)] @ (if auditErrMsg \<noteq> [] then [(''error'', MetaString auditErrMsg)] else []))
             (ar_UserAgent actor)) s1, r)))"

section \<open>Manual hosts\<close>

definition CreateManualHost :: "service_env \<Rightarrow> ActorRef \<Rightarrow> string \<Rightarrow> string \<Rightarrow> service \<Rightarrow> HostInfo outcome" where
  "CreateManualHost env actor displayName hostname s =
     bind_svc (in_tx env (\<lambda>db. duplicate ''hosts_display_name_unique_idx'' ErrDuplicateHostDisplayName
         (exec env CallInsertManualHost (InsertManualHost (sv_dbNow env) (id_New ''h'' (sv_draw env ''h'')) (nonzero displayName) (nonzero hostname)) db)) s)
       (\<lambda>host s1.
          (audit env (actor_event actor ''host.create'' ''host'' (host_ID host)
             [(''onboarding_mode'', MetaString ''manual''), (''display_name'', MetaString displayName), (''hostname'', MetaString hostname)]
             (ar_UserAgent actor)) (publish NewHostsUpdatedEvent s1), Inr (mapHost host None)))"

definition manual_tx :: "service_env \<Rightarrow> string \<Rightarrow> SSHPullResult \<Rightarrow> HostSnapshot body" where
  "manual_tx env hostID res db =
     bind_tx (insert_result env hostID (sv_now env) res db) (\<lambda>row db.
     bind_tx (exec env CallUpdateHostFromSnapshot (UpdateHostFromSnapshot (sv_dbNow env)
         \<lparr>uh_ID = hostID, uh_MachineID = nonzero (pr_MachineID res), uh_Hostname = nonzero (pr_Hostname res), uh_IpAddress = nonzero (pr_IPAddress res),
          uh_OsFamily = pr_OSFamily res, uh_OsName = pr_OSName res, uh_OsMajor = pr_OSMajor res, uh_OsVersion = pr_OSVersion res,
          uh_Architecture = pr_Architecture res, uh_LastSeenAt = TimestamptzFromTime (sv_now env), uh_LastSnapshotID = nonzero (snap_ID row)\<rparr>) db) (\<lambda>_ db.
     bind_tx (exec env CallSvcUpsertHostCurrentState (upsert_state (result_state hostID (snap_ID row) res)) db) (\<lambda>_ db. Inr (row, db))))"

definition IngestManualReport :: "service_env \<Rightarrow> ActorRef \<Rightarrow> string \<Rightarrow> string \<Rightarrow> service \<Rightarrow> unit outcome" where
  "IngestManualReport env actor hostID reportContent s =
     bind_svc (on_pool (\<lambda>db. Required ErrHostNotFound (exec env CallSvcGetHostByID (get_host hostID) db)) s) (\<lambda>host s.
     if host_OnboardingMode host \<noteq> ''manual'' then (s, Inl NotManualHost)
     else case ParseSSHPullReport (sv_marshal env) reportContent (sv_now env) of
       Inl e \<Rightarrow> (s, Inl (PullErr e))
     | Inr res \<Rightarrow>
         bind_svc (in_tx env (manual_tx env hostID res) s) (\<lambda>row s1.
           let s2 = refresh_scope env hostID (pr_OSFamily res) (pr_OSName res) (pr_OSVersion res) (pr_OSMajor res) (pr_Architecture res) s1;
               s3 = match_snapshot env hostID (snap_ID row) s2;
               s4 = publish (NewHostSnapshotEvent hostID) (publish NewHostsUpdatedEvent s3)
           in (audit env (actor_event actor ''host.manual.ingest'' ''host'' hostID [(''snapshot_id'', MetaString (snap_ID row))] (ar_UserAgent actor)) s4,
               Inr ())))"

end
