(* ===== verification/Host_Rules.thy ===== *)
theory Host_Rules
  imports Host_Pull
begin

text \<open>
  Rules for reasoning about the operations of the hosts service. \<open>ok_after r Q\<close> says that \<open>Q\<close> holds of the value and the
  database with which a transaction ends, if it does not fail; \<open>out_after r I Q\<close> says that an operation leaves a state
  with \<open>I\<close> when it fails and one with \<open>Q\<close> when it succeeds. The rules follow the combinators, and reduce a claim about
  an operation to the claims about its statements.
\<close>

named_theorems svc_rules \<open>rules of the combinators of the hosts service\<close>

definition ok_after :: "service_error + 'a \<times> hosts_db \<Rightarrow> ('a \<Rightarrow> hosts_db \<Rightarrow> bool) \<Rightarrow> bool" where
  "ok_after r Q = (case r of Inl e \<Rightarrow> True | Inr (a, db) \<Rightarrow> Q a db)"

definition out_after :: "'a outcome \<Rightarrow> (service \<Rightarrow> bool) \<Rightarrow> ('a \<Rightarrow> service \<Rightarrow> bool) \<Rightarrow> bool" where
  "out_after r I Q = (case r of (s, Inl e) \<Rightarrow> I s | (s, Inr a) \<Rightarrow> Q a s)"

section \<open>Transactions\<close>

lemma ok_afterD: "ok_after r Q \<Longrightarrow> r = Inr (a, db) \<Longrightarrow> Q a db"
  by (simp add: ok_after_def)

lemma ok_after_mono: "ok_after r R \<Longrightarrow> (\<And>a db. R a db \<Longrightarrow> Q a db) \<Longrightarrow> ok_after r Q"
  by (auto simp: ok_after_def split: sum.splits)

lemma ok_Inl [svc_rules]: "ok_after (Inl e) Q"
  by (simp add: ok_after_def)

lemma ok_Inr [svc_rules]: "Q a db \<Longrightarrow> ok_after (Inr (a, db)) Q"
  by (simp add: ok_after_def)

lemma ok_bind: "ok_after r R \<Longrightarrow> (\<And>a db. R a db \<Longrightarrow> ok_after (f a db) Q) \<Longrightarrow> ok_after (bind_tx r f) Q"
  by (cases r) (simp_all add: ok_after_def bind_tx_def case_prod_beta)

lemma ok_Required [svc_rules]: "ok_after r Q \<Longrightarrow> ok_after (Required e r) Q"
  by (auto simp: ok_after_def Required_def split: sum.splits service_error.splits sql_error.splits)

lemma ok_duplicate [svc_rules]: "ok_after r Q \<Longrightarrow> ok_after (duplicate name e r) Q"
  by (auto simp: ok_after_def duplicate_def split: sum.splits)

lemma ok_exec [svc_rules]: "(\<And>a db'. st db = Inr (a, db') \<Longrightarrow> Q a db') \<Longrightarrow> ok_after (exec env c st db) Q"
  by (auto simp: ok_after_def exec_def split: sum.splits)

lemma ok_bind_exec [svc_rules]:
  "(\<And>a db'. st db = Inr (a, db') \<Longrightarrow> ok_after (f a db') Q) \<Longrightarrow> ok_after (bind_tx (exec env c st db) f) Q"
  by (rule ok_bind [OF ok_exec [where Q = "\<lambda>a db'. st db = Inr (a, db')"]])

lemma ok_bind_required [svc_rules]:
  "(\<And>a db'. st db = Inr (a, db') \<Longrightarrow> ok_after (f a db') Q) \<Longrightarrow> ok_after (bind_tx (Required e (exec env c st db)) f) Q"
  by (rule ok_bind [OF ok_Required [OF ok_exec [where Q = "\<lambda>a db'. st db = Inr (a, db')"]]])

lemma ok_bind_duplicate [svc_rules]:
  "(\<And>a db'. st db = Inr (a, db') \<Longrightarrow> ok_after (f a db') Q) \<Longrightarrow> ok_after (bind_tx (duplicate name e (exec env c st db)) f) Q"
  by (rule ok_bind [OF ok_duplicate [OF ok_exec [where Q = "\<lambda>a db'. st db = Inr (a, db')"]]])

lemma ok_if [svc_rules]: "(b \<Longrightarrow> ok_after x Q) \<Longrightarrow> (\<not> b \<Longrightarrow> ok_after y Q) \<Longrightarrow> ok_after (if b then x else y) Q"
  by simp

lemma ok_case_option [svc_rules]:
  "(v = None \<Longrightarrow> ok_after x Q) \<Longrightarrow> (\<And>a. v = Some a \<Longrightarrow> ok_after (y a) Q) \<Longrightarrow> ok_after (case v of None \<Rightarrow> x | Some a \<Rightarrow> y a) Q"
  by (simp split: option.split)

section \<open>Operations\<close>

lemma out_afterD:
  "out_after r I Q \<Longrightarrow> r = (s, Inl e) \<Longrightarrow> I s"
  "out_after r I Q \<Longrightarrow> r = (s, Inr a) \<Longrightarrow> Q a s"
  by (simp_all add: out_after_def)

lemma out_after_fst: "out_after r I (\<lambda>_. I) \<Longrightarrow> I (fst r)"
  by (auto simp: out_after_def split: prod.splits sum.splits)

lemma out_Inl [svc_rules]: "I s \<Longrightarrow> out_after (s, Inl e) I Q"
  by (simp add: out_after_def)

lemma out_Inr [svc_rules]: "Q a s \<Longrightarrow> out_after (s, Inr a) I Q"
  by (simp add: out_after_def)

lemma out_bind: "out_after r I R \<Longrightarrow> (\<And>a s. R a s \<Longrightarrow> out_after (f a s) I Q) \<Longrightarrow> out_after (bind_svc r f) I Q"
  by (cases r; cases "snd r") (simp_all add: out_after_def bind_svc_def)

lemma out_in_tx:
  "I s \<Longrightarrow> ok_after (body (sv_db s)) (\<lambda>a db. Q a (s\<lparr>sv_db := db\<rparr>)) \<Longrightarrow> out_after (in_tx env body s) I Q"
  by (auto simp: out_after_def in_tx_def ok_after_def split: sum.splits)

lemma out_on_pool:
  "I s \<Longrightarrow> ok_after (body (sv_db s)) (\<lambda>a db. Q a (s\<lparr>sv_db := db\<rparr>)) \<Longrightarrow> out_after (on_pool body s) I Q"
  by (auto simp: out_after_def on_pool_def ok_after_def split: sum.splits)

lemma out_if [svc_rules]:
  "(b \<Longrightarrow> out_after x I Q) \<Longrightarrow> (\<not> b \<Longrightarrow> out_after y I Q) \<Longrightarrow> out_after (if b then x else y) I Q"
  by simp

text \<open>What reads the database leaves it as it is.\<close>

lemma select_one_Inr [simp]:
  "select_one P tab db = Inr (r, db') \<longleftrightarrow> first_row P (tab db) = Some r \<and> db' = db"
  by (auto simp: select_one_def split: option.splits)

lemma reads_simps [simp]:
  "get_host i db = Inr (h, db') \<longleftrightarrow> first_row (\<lambda>h. host_ID h = i) (hosts_of db) = Some h \<and> db' = db"
  "GetActiveRegistrationTokenByHash hash db = Inr (t, db') \<longleftrightarrow>
     first_row (\<lambda>t. rt_TokenHash t = hash \<and> rt_RevokedAt t = None) (hd_regTokens db) = Some t \<and> db' = db"
  "GetActiveHostAccessTokenByHash hash db = Inr (ht, db') \<longleftrightarrow>
     first_row (\<lambda>t. ht_TokenHash t = hash \<and> ht_RevokedAt t = None) (hd_accessTokens db) = Some ht \<and> db' = db"
  "GetSSHPullConfigByHostID i db = Inr (p, db') \<longleftrightarrow> first_row (\<lambda>p. sp_HostID p = i) (hd_pulls db) = Some p \<and> db' = db"
  by (auto simp: get_host_def GetActiveRegistrationTokenByHash_def GetActiveHostAccessTokenByHash_def GetSSHPullConfigByHostID_def)

lemma on_pool_fields [simp]:
  "sv_published (fst (on_pool body s)) = sv_published s" "sv_auditLog (fst (on_pool body s)) = sv_auditLog s"
  "sv_periodic (fst (on_pool body s)) = sv_periodic s"
  by (simp_all add: on_pool_def split: sum.split)

lemma publish_fields [simp]:
  "sv_db (publish e s) = sv_db s" "sv_periodic (publish e s) = sv_periodic s" "sv_auditLog (publish e s) = sv_auditLog s"
  "sv_published (publish e s) = sv_published s @ [e]"
  by (simp_all add: publish_def)

lemma audit_fields [simp]: "sv_db (audit env e s) = sv_db s" "sv_periodic (audit env e s) = sv_periodic s"
  by (simp_all add: audit_def split: prod.split)

lemma match_snapshot_fields [simp]:
  "sv_periodic (match_snapshot env h sid s) = sv_periodic s" "sv_auditLog (match_snapshot env h sid s) = sv_auditLog s"
  by (simp_all add: match_snapshot_def split: prod.split)

end
