(* ===== verification/Host_Store.thy ===== *)
theory Host_Store
  imports Host_Rules
begin

text \<open>
  The consistency of the hosts database: keys are distinct and every row refers to rows that exist and belong to the same
  host. The locale \<open>host_store\<close> is the contract that the operations of the service rely on: what every statement keeps
  of an invariant, and when a snapshot belongs to a host. Its interpretation shows that the statements of \<open>Host_Tables\<close>
  keep \<open>db_ok\<close>.
\<close>

section \<open>Consistency\<close>

definition host_ids :: "hosts_db \<Rightarrow> string list" where
  "host_ids db = map host_ID (hosts_of db)"

text \<open>The snapshots with their hosts, and the pairs that refer to them\<close>

definition owned :: "hosts_db \<Rightarrow> (string \<times> string) set" where
  "owned db = (\<lambda>s. (snap_ID s, snap_HostID s)) ` set (db_snapshots (hd_tables db))"

definition owns :: "string \<Rightarrow> string \<Rightarrow> hosts_db \<Rightarrow> bool" where
  "owns i sid db \<longleftrightarrow> (sid, i) \<in> owned db"

definition last_refs :: "hosts_db \<Rightarrow> (string \<times> string) set" where
  "last_refs db = {(sid, host_ID h) |sid h. h \<in> set (hosts_of db) \<and> host_LastSnapshotID h = Some sid}"

definition state_refs :: "hosts_db \<Rightarrow> (string \<times> string) set" where
  "state_refs db = (\<lambda>st. (hcs_SnapshotID st, hcs_HostID st)) ` set (db_states (hd_tables db))"

definition decision_refs :: "hosts_db \<Rightarrow> (string \<times> string) set" where
  "decision_refs db = (\<lambda>d. (dec_SnapshotID d, dec_HostID d)) ` set (db_decisions (hd_tables db))"

definition db_ok :: "hosts_db \<Rightarrow> bool" where
  "db_ok db \<longleftrightarrow> distinct (host_ids db) \<and> distinct (map snap_ID (db_snapshots (hd_tables db))) \<and>
     distinct (map sp_HostID (hd_pulls db)) \<and>
     snd ` owned db \<subseteq> set (host_ids db) \<and> ht_HostID ` set (hd_accessTokens db) \<subseteq> set (host_ids db) \<and>
     sp_HostID ` set (hd_pulls db) \<subseteq> set (host_ids db) \<and> pj_HostID ` set (hd_jobs db) \<subseteq> set (host_ids db) \<and>
     last_refs db \<subseteq> owned db \<and> state_refs db \<subseteq> owned db \<and> decision_refs db \<subseteq> owned db"

lemma has_host_iff: "has_host i db \<longleftrightarrow> i \<in> set (host_ids db)"
  by (auto simp: has_host_def host_ids_def)

lemma has_snapshot_iff: "has_snapshot i db \<longleftrightarrow> i \<in> fst ` owned db"
  by (force simp: has_snapshot_def owned_def)

section \<open>The contract\<close>

locale host_store =
  fixes inv :: "hosts_db \<Rightarrow> bool" and has_snap :: "string \<Rightarrow> string \<Rightarrow> hosts_db \<Rightarrow> bool"
  assumes regTokens_inv: "inv (db\<lparr>hd_regTokens := ts\<rparr>) = inv db"
    and scopes_inv: "inv (db\<lparr>hd_scopes := ss\<rparr>) = inv db"
    and scopes_snap: "has_snap i sid (db\<lparr>hd_scopes := ss\<rparr>) = has_snap i sid db"
    and insert_host_inv: "inv db \<Longrightarrow> host_LastSnapshotID h = None \<Longrightarrow> insert_host h db = Inr (r, db') \<Longrightarrow> inv db'"
    and insert_pull_inv: "inv db \<Longrightarrow> host_LastSnapshotID h = None \<Longrightarrow> insert_host h db = Inr (r, db') \<Longrightarrow> sp_HostID p = host_ID h \<Longrightarrow>
      inv (db'\<lparr>hd_pulls := hd_pulls db' @ [p]\<rparr>)"
    and set_hosts_inv: "inv db \<Longrightarrow> (\<And>h. host_ID (f h) = host_ID h) \<Longrightarrow>
      (\<And>h sid. host_LastSnapshotID (f h) = Some sid \<Longrightarrow> host_LastSnapshotID h = Some sid \<or> has_snap i sid db) \<Longrightarrow> inv (set_hosts now i f db)"
    and set_hosts_snap: "has_snap j sid (set_hosts now i f db) = has_snap j sid db"
    and insert_token_inv: "inv db \<Longrightarrow> InsertHostAccessToken now t i hash db = Inr (tk, db') \<Longrightarrow> inv db'"
    and touch_token_inv: "inv db \<Longrightarrow> TouchHostAccessTokenLastUsed now t db = Inr (u, db') \<Longrightarrow> inv db'"
    and insert_snapshot: "inv db \<Longrightarrow> InsertHostSnapshot now sid i ca payload rk bt pd db = Inr (row, db') \<Longrightarrow>
      inv db' \<and> has_snap i (snap_ID row) db'"
    and upsert_state_inv: "inv db \<Longrightarrow> has_snap (hcs_HostID st) (hcs_SnapshotID st) db \<Longrightarrow> upsert_state st db = Inr (u, db') \<Longrightarrow>
      inv db' \<and> (\<forall>j sid. has_snap j sid db' = has_snap j sid db)"
    and touch_token_snap: "TouchHostAccessTokenLastUsed now t db = Inr (u, db') \<Longrightarrow> has_snap j sid db' = has_snap j sid db"
    and pulls_inv: "inv db \<Longrightarrow> (\<And>p. sp_HostID (g p) = sp_HostID p) \<Longrightarrow> inv (db\<lparr>hd_pulls := map g (hd_pulls db)\<rparr>)"
    and pulls_snap: "has_snap j sid (db\<lparr>hd_pulls := ps\<rparr>) = has_snap j sid db"
    and insert_job_inv: "inv db \<Longrightarrow> InsertHostSSHPullJob jid i status at db = Inr (u, db') \<Longrightarrow> inv db'"
    and update_job_inv: "inv db \<Longrightarrow> UpdateHostSSHPullJob jid status at e db = Inr (u, db') \<Longrightarrow> inv db'"
    and match_inv: "inv db \<Longrightarrow> has_snap i sid db \<Longrightarrow> ranges_ok (env_ranges menv) \<Longrightarrow>
      inv (db\<lparr>hd_tables := fst (fst (MatchSnapshot menv i sid (hd_tables db, published)))\<rparr>)"
    and delete_state_inv: "inv db \<Longrightarrow> DeleteHostCurrentStateByHostID i db = Inr (u, db') \<Longrightarrow> inv db'"
    and delete_tokens_inv: "inv db \<Longrightarrow> DeleteHostAccessTokensByHostID i db = Inr (u, db') \<Longrightarrow> inv db'"
    and delete_snapshots_inv: "inv db \<Longrightarrow> DeleteHostSnapshotsByHostID i db = Inr (u, db') \<Longrightarrow> inv db'"
    and delete_host_inv: "inv db \<Longrightarrow> DeleteHostByID i db = Inr (r, db') \<Longrightarrow> inv db'"

section \<open>The statements keep the consistency\<close>

lemma hosts_of_simps [simp]:
  "hosts_of (db\<lparr>hd_regTokens := ts\<rparr>) = hosts_of db" "hosts_of (db\<lparr>hd_accessTokens := as\<rparr>) = hosts_of db"
  "hosts_of (db\<lparr>hd_pulls := ps\<rparr>) = hosts_of db" "hosts_of (db\<lparr>hd_jobs := js\<rparr>) = hosts_of db"
  "hosts_of (db\<lparr>hd_scopes := ss\<rparr>) = hosts_of db" "hosts_of (upd_tables f db) = db_hosts (f (hd_tables db))"
  by (simp_all add: hosts_of_def upd_tables_def)

lemma upd_tables_simps [simp]:
  "hd_tables (upd_tables f db) = f (hd_tables db)" "hd_accessTokens (upd_tables f db) = hd_accessTokens db"
  "hd_pulls (upd_tables f db) = hd_pulls db" "hd_jobs (upd_tables f db) = hd_jobs db" "hd_regTokens (upd_tables f db) = hd_regTokens db"
  "hd_scopes (upd_tables f db) = hd_scopes db"
  by (simp_all add: upd_tables_def)

lemmas ref_defs = host_ids_def owned_def last_refs_def state_refs_def decision_refs_def

lemma ref_simps [simp]:
  "host_ids (db\<lparr>hd_regTokens := ts\<rparr>) = host_ids db" "host_ids (db\<lparr>hd_accessTokens := as\<rparr>) = host_ids db"
  "host_ids (db\<lparr>hd_pulls := ps\<rparr>) = host_ids db" "host_ids (db\<lparr>hd_jobs := js\<rparr>) = host_ids db" "host_ids (db\<lparr>hd_scopes := ss\<rparr>) = host_ids db"
  "owned (db\<lparr>hd_regTokens := ts\<rparr>) = owned db" "owned (db\<lparr>hd_accessTokens := as\<rparr>) = owned db" "owned (db\<lparr>hd_pulls := ps\<rparr>) = owned db"
  "owned (db\<lparr>hd_jobs := js\<rparr>) = owned db" "owned (db\<lparr>hd_scopes := ss\<rparr>) = owned db"
  "last_refs (db\<lparr>hd_regTokens := ts\<rparr>) = last_refs db" "last_refs (db\<lparr>hd_accessTokens := as\<rparr>) = last_refs db"
  "last_refs (db\<lparr>hd_pulls := ps\<rparr>) = last_refs db" "last_refs (db\<lparr>hd_jobs := js\<rparr>) = last_refs db" "last_refs (db\<lparr>hd_scopes := ss\<rparr>) = last_refs db"
  "state_refs (db\<lparr>hd_regTokens := ts\<rparr>) = state_refs db" "state_refs (db\<lparr>hd_accessTokens := as\<rparr>) = state_refs db"
  "state_refs (db\<lparr>hd_pulls := ps\<rparr>) = state_refs db" "state_refs (db\<lparr>hd_jobs := js\<rparr>) = state_refs db" "state_refs (db\<lparr>hd_scopes := ss\<rparr>) = state_refs db"
  "decision_refs (db\<lparr>hd_regTokens := ts\<rparr>) = decision_refs db" "decision_refs (db\<lparr>hd_accessTokens := as\<rparr>) = decision_refs db"
  "decision_refs (db\<lparr>hd_pulls := ps\<rparr>) = decision_refs db" "decision_refs (db\<lparr>hd_jobs := js\<rparr>) = decision_refs db"
  "decision_refs (db\<lparr>hd_scopes := ss\<rparr>) = decision_refs db"
  by (simp_all add: ref_defs)

lemma db_okI:
  assumes "distinct (host_ids db)" "distinct (map snap_ID (db_snapshots (hd_tables db)))" "distinct (map sp_HostID (hd_pulls db))"
    "snd ` owned db \<subseteq> set (host_ids db)" "ht_HostID ` set (hd_accessTokens db) \<subseteq> set (host_ids db)"
    "sp_HostID ` set (hd_pulls db) \<subseteq> set (host_ids db)" "pj_HostID ` set (hd_jobs db) \<subseteq> set (host_ids db)"
    "last_refs db \<subseteq> owned db" "state_refs db \<subseteq> owned db" "decision_refs db \<subseteq> owned db"
  shows "db_ok db"
  unfolding db_ok_def by (intro conjI assms)

lemma db_okD:
  assumes "db_ok db"
  shows "distinct (host_ids db)" "distinct (map snap_ID (db_snapshots (hd_tables db)))" "distinct (map sp_HostID (hd_pulls db))"
    "snd ` owned db \<subseteq> set (host_ids db)" "ht_HostID ` set (hd_accessTokens db) \<subseteq> set (host_ids db)"
    "sp_HostID ` set (hd_pulls db) \<subseteq> set (host_ids db)" "pj_HostID ` set (hd_jobs db) \<subseteq> set (host_ids db)"
    "last_refs db \<subseteq> owned db" "state_refs db \<subseteq> owned db" "decision_refs db \<subseteq> owned db"
  using assms unfolding db_ok_def by simp_all

lemma set_hosts_refs:
  assumes "\<And>h. host_ID (f h) = host_ID h"
  shows "host_ids (set_hosts now i f db) = host_ids db" "owned (set_hosts now i f db) = owned db"
    "state_refs (set_hosts now i f db) = state_refs db" "decision_refs (set_hosts now i f db) = decision_refs db"
    "hd_accessTokens (set_hosts now i f db) = hd_accessTokens db" "hd_pulls (set_hosts now i f db) = hd_pulls db"
    "hd_jobs (set_hosts now i f db) = hd_jobs db" "db_snapshots (hd_tables (set_hosts now i f db)) = db_snapshots (hd_tables db)"
  using assms by (simp_all add: set_hosts_def ref_defs hosts_of_def)

lemma last_refs_set_hosts:
  assumes "\<And>h. host_ID (f h) = host_ID h"
    and "\<And>h sid. host_LastSnapshotID (f h) = Some sid \<Longrightarrow> host_LastSnapshotID h = Some sid \<or> owns i sid db"
  shows "last_refs (set_hosts now i f db) \<subseteq> last_refs db \<union> owned db"
proof
  fix x assume "x \<in> last_refs (set_hosts now i f db)"
  then obtain sid h where h: "h \<in> set (hosts_of db)" and x: "x = (sid, host_ID h)"
    and l: "host_LastSnapshotID (if host_ID h = i then (f h)\<lparr>host_UpdatedAt := Some now\<rparr> else h) = Some sid"
    using assms(1) by (auto simp: last_refs_def set_hosts_def hosts_of_def split: if_splits)
  show "x \<in> last_refs db \<union> owned db"
    using h x l assms(2) [of h sid] by (auto simp: last_refs_def owns_def split: if_splits)
qed

lemma set_hosts_ok:
  assumes "db_ok db" "\<And>h. host_ID (f h) = host_ID h"
    and "\<And>h sid. host_LastSnapshotID (f h) = Some sid \<Longrightarrow> host_LastSnapshotID h = Some sid \<or> owns i sid db"
  shows "db_ok (set_hosts now i f db)"
proof -
  note refs = set_hosts_refs [of f, OF assms(2)]
  have "last_refs (set_hosts now i f db) \<subseteq> owned db"
    using last_refs_set_hosts [OF assms(2,3)] db_okD(8) [OF assms(1)] by blast
  then show ?thesis by (intro db_okI) (simp_all add: refs db_okD [OF assms(1)])
qed

lemma insert_host_Inr:
  assumes "insert_host h db = Inr (r, db')"
  shows "r = h" "host_ID h \<notin> set (host_ids db)" "db' = upd_tables (\<lambda>t. t\<lparr>db_hosts := db_hosts t @ [h]\<rparr>) db"
  using assms by (auto simp: insert_host_def has_host_iff split: if_splits)

lemma insert_host_ok:
  assumes "db_ok db" "host_LastSnapshotID h = None" "insert_host h db = Inr (r, db')"
  shows "db_ok db'" "host_ids db' = host_ids db @ [host_ID h]" "hd_pulls db' = hd_pulls db"
proof -
  note i = insert_host_Inr [OF assms(3)]
  have refs: "owned db' = owned db" "state_refs db' = state_refs db" "decision_refs db' = decision_refs db" "last_refs db' = last_refs db"
    using assms(2) by (auto simp: i(3) ref_defs hosts_of_def)
  show ids: "host_ids db' = host_ids db @ [host_ID h]" by (simp add: i(3) host_ids_def hosts_of_def)
  show "hd_pulls db' = hd_pulls db" by (simp add: i(3))
  have same: "db_snapshots (hd_tables db') = db_snapshots (hd_tables db)" "hd_accessTokens db' = hd_accessTokens db" "hd_jobs db' = hd_jobs db"
      "hd_pulls db' = hd_pulls db"
    by (simp_all add: i(3))
  note ok = db_okD [OF assms(1)]
  show "db_ok db'"
    by (rule db_okI) (use ok i(2) in \<open>auto simp: refs ids same\<close>)
qed

lemma snapshots_owned: "owned db = (\<lambda>s. (snap_ID s, snap_HostID s)) ` set (db_snapshots (hd_tables db))"
  by (simp add: owned_def)

lemma insert_snapshot_ok:
  assumes "db_ok db" "InsertHostSnapshot now sid i ca payload rk bt pd db = Inr (row, db')"
  shows "db_ok db' \<and> owns i (snap_ID row) db'"
proof -
  from assms(2) have new: "\<not> has_snapshot sid db" "has_host i db" "snap_ID row = sid" "snap_HostID row = i"
    and db': "db' = upd_tables (\<lambda>t. t\<lparr>db_snapshots := db_snapshots t @ [row]\<rparr>) db"
    by (auto simp: InsertHostSnapshot_def Let_def split: if_splits)
  have refs: "owned db' = insert (sid, i) (owned db)" "host_ids db' = host_ids db" "state_refs db' = state_refs db"
      "decision_refs db' = decision_refs db" "last_refs db' = last_refs db"
    using new(3,4) by (auto simp: db' ref_defs hosts_of_def)
  note ok = db_okD [OF assms(1)]
  have d: "distinct (map snap_ID (db_snapshots (hd_tables db')))"
    using ok(2) new(1,3) by (auto simp: db' has_snapshot_def)
  have same: "hd_accessTokens db' = hd_accessTokens db" "hd_pulls db' = hd_pulls db" "hd_jobs db' = hd_jobs db" by (simp_all add: db')
  have "db_ok db'"
    by (rule db_okI) (use ok new(2) in \<open>auto simp: refs has_host_iff same d\<close>)
  then show ?thesis using new(3) by (simp add: owns_def refs)
qed

lemma state_refs_upsert:
  "state_refs (upd_tables (UpsertHostCurrentState p) db) \<subseteq> insert (hcs_SnapshotID p, hcs_HostID p) (state_refs db)"
  by (auto simp: state_refs_def UpsertHostCurrentState_def)

lemma upsert_state_ok:
  assumes "db_ok db" "owns (hcs_HostID p) (hcs_SnapshotID p) db" "upsert_state p db = Inr (u, db')"
  shows "db_ok db' \<and> (\<forall>j sid. owns j sid db' = owns j sid db)"
proof -
  from assms(3) have db': "db' = upd_tables (UpsertHostCurrentState p) db" by (auto simp: upsert_state_def split: if_splits)
  have refs: "owned db' = owned db" "host_ids db' = host_ids db" "decision_refs db' = decision_refs db" "last_refs db' = last_refs db"
    by (simp_all add: db' ref_defs hosts_of_def UpsertHostCurrentState_def)
  note ok = db_okD [OF assms(1)]
  have "state_refs db' \<subseteq> owned db"
    using state_refs_upsert [of p db] ok(9) assms(2) by (auto simp: db' owns_def)
  then have "db_ok db'"
    by (intro db_okI) (simp_all add: refs ok, simp_all add: db' ok UpsertHostCurrentState_def)
  then show ?thesis by (simp add: owns_def refs)
qed

lemma match_ok:
  assumes "db_ok db" "owns i sid db" "ranges_ok (env_ranges menv)"
  shows "db_ok (db\<lparr>hd_tables := fst (fst (MatchSnapshot menv i sid (hd_tables db, published)))\<rparr>)"
proof (cases rule: MatchSnapshot_cases [of menv i sid "(hd_tables db, published)"])
  case (fail e)
  then show ?thesis using assms(1) by simp
next
  case (ok snap host ag t res)
  let ?db = "db\<lparr>hd_tables := t\<rparr>"
  have snap: "snap_ID snap = sid" "snap \<in> set (db_snapshots (hd_tables db))"
    using ok(2) by (auto simp: GetHostSnapshot_def dest: first_row_Some)
  have host: "host_ID host = i" using ok(4) by (auto simp: GetHostByID_def dest: first_row_Some)
  have in_owned: "(sid, snap_HostID snap) \<in> owned db" using snap by (auto simp: owned_def)
  obtain ds st where r: "t = rematched menv sid ds st (hd_tables db)" "\<forall>d \<in> set ds. dec_SnapshotID (d_record d) = snap_ID snap"
      "hcs_HostID st = snap_HostID snap" "hcs_SnapshotID st = snap_ID snap" "\<forall>d \<in> set ds. dec_HostID (d_record d) = host_ID host"
    by (rule match_in_tx_Inr [OF assms(3) ok(3)]) simp_all
  note okD = db_okD [OF assms(1)]
  have refs: "owned ?db = owned db" "host_ids ?db = host_ids db" "last_refs ?db = last_refs db"
    by (simp_all add: r(1) ref_defs hosts_of_def rematched_tables)
  have "state_refs ?db \<subseteq> insert (sid, snap_HostID snap) (state_refs db)"
    using r(3,4) snap(1) by (auto simp: r(1) state_refs_def rematched_def UpsertHostCurrentState_def)
  then have st: "state_refs ?db \<subseteq> owned db" using okD(9) in_owned by blast
  have "decision_refs ?db \<subseteq> insert (sid, i) (decision_refs db)"
    using r(2,5) snap(1) host by (auto simp: r(1) decision_refs_def rematched_tables)
  then have "decision_refs ?db \<subseteq> owned db" using okD(10) assms(2) by (auto simp: owns_def)
  with st have "db_ok ?db"
    by (intro db_okI) (simp_all add: refs okD, simp_all add: r(1) rematched_tables okD)
  then show ?thesis using ok(1) by simp
qed

lemma delete_snapshots_ok:
  assumes "db_ok db" "DeleteHostSnapshotsByHostID i db = Inr (u, db')"
  shows "db_ok db'"
proof -
  let ?t = "hd_tables db"
  let ?gone = "\<lambda>sid. \<exists>s \<in> set (db_snapshots ?t). snap_ID s = sid \<and> snap_HostID s = i"
  from assms(2) have free: "\<forall>h \<in> set (db_hosts ?t). \<forall>sid. host_LastSnapshotID h = Some sid \<longrightarrow> \<not> ?gone sid"
      "\<forall>st \<in> set (db_states ?t). \<not> ?gone (hcs_SnapshotID st)"
    and db': "db' = upd_tables (\<lambda>t. t\<lparr>db_snapshots := filter (\<lambda>s. snap_HostID s \<noteq> i) (db_snapshots t),
        db_decisions := filter (\<lambda>d. \<not> ?gone (dec_SnapshotID d)) (db_decisions t)\<rparr>) db"
    by (auto simp: DeleteHostSnapshotsByHostID_def Let_def split: if_splits option.splits)
  have refs: "owned db' = {x \<in> owned db. snd x \<noteq> i}" "host_ids db' = host_ids db" "state_refs db' = state_refs db" "last_refs db' = last_refs db"
    by (auto simp: db' ref_defs hosts_of_def)
  have gone: "?gone sid \<longleftrightarrow> (sid, i) \<in> owned db" for sid by (auto simp: owned_def)
  note ok = db_okD [OF assms(1)]
  have "last_refs db \<subseteq> {x \<in> owned db. snd x \<noteq> i}"
  proof
    fix x assume x: "x \<in> last_refs db"
    then obtain sid h where h: "h \<in> set (db_hosts ?t)" "host_LastSnapshotID h = Some sid" "x = (sid, host_ID h)"
      by (auto simp: last_refs_def hosts_of_def)
    have "(sid, i) \<notin> owned db" using free(1) h(1,2) gone by blast
    with x ok(8) h(3) show "x \<in> {x \<in> owned db. snd x \<noteq> i}" by auto
  qed
  moreover have "state_refs db \<subseteq> {x \<in> owned db. snd x \<noteq> i}"
    using ok(9) free(2) unfolding gone by (auto simp: state_refs_def)
  moreover have "decision_refs db' \<subseteq> {x \<in> owned db. snd x \<noteq> i}"
  proof
    fix x assume "x \<in> decision_refs db'"
    then obtain d where d: "d \<in> set (db_decisions ?t)" "x = (dec_SnapshotID d, dec_HostID d)" "\<not> ?gone (dec_SnapshotID d)"
      by (auto simp: db' decision_refs_def)
    then have x: "x \<in> owned db" using ok(10) by (auto simp: decision_refs_def)
    with d(2,3) show "x \<in> {x \<in> owned db. snd x \<noteq> i}" unfolding gone by auto
  qed
  moreover have "hd_accessTokens db' = hd_accessTokens db" "hd_pulls db' = hd_pulls db" "hd_jobs db' = hd_jobs db"
      "distinct (map snap_ID (db_snapshots (hd_tables db')))"
    by (simp_all add: db' ok distinct_map_filter)
  moreover have "snd ` {x \<in> owned db. snd x \<noteq> i} \<subseteq> set (host_ids db)" using ok(4) by blast
  ultimately show ?thesis by (intro db_okI) (simp_all add: refs ok)
qed

lemma delete_host_ok:
  assumes "db_ok db" "DeleteHostByID i db = Inr (r, db')"
  shows "db_ok db'"
proof -
  let ?t = "hd_tables db"
  from assms(2) have free: "\<forall>t \<in> set (hd_accessTokens db). ht_HostID t \<noteq> i" "\<forall>s \<in> set (db_snapshots ?t). snap_HostID s \<noteq> i"
      "\<forall>s \<in> set (db_states ?t). hcs_HostID s \<noteq> i"
    and db': "db' = upd_tables (\<lambda>t. t\<lparr>db_hosts := filter (\<lambda>h. host_ID h \<noteq> i) (db_hosts t),
        db_decisions := filter (\<lambda>d. dec_HostID d \<noteq> i) (db_decisions t)\<rparr>)
        (db\<lparr>hd_pulls := filter (\<lambda>p. sp_HostID p \<noteq> i) (hd_pulls db), hd_jobs := filter (\<lambda>j. pj_HostID j \<noteq> i) (hd_jobs db)\<rparr>)"
    by (auto simp: DeleteHostByID_def split: if_splits option.splits)
  have refs: "owned db' = owned db" "host_ids db' = filter (\<lambda>j. j \<noteq> i) (host_ids db)" "state_refs db' = state_refs db"
      "last_refs db' \<subseteq> last_refs db" "decision_refs db' \<subseteq> decision_refs db"
    by (auto simp: db' ref_defs hosts_of_def filter_map comp_def)
  note ok = db_okD [OF assms(1)]
  have pulls: "hd_pulls db' = filter (\<lambda>p. sp_HostID p \<noteq> i) (hd_pulls db)" "hd_jobs db' = filter (\<lambda>j. pj_HostID j \<noteq> i) (hd_jobs db)"
      "hd_accessTokens db' = hd_accessTokens db" "db_snapshots (hd_tables db') = db_snapshots ?t"
    by (simp_all add: db')
  have own: "snd x \<noteq> i" if "x \<in> owned db" for x using free(2) that by (auto simp: owned_def)
  have tokens: "ht_HostID t \<in> set (host_ids db')" if "t \<in> set (hd_accessTokens db)" for t
    using ok(5) free(1) that by (auto simp: refs(2))
  show ?thesis
  proof (rule db_okI)
    show "snd ` owned db' \<subseteq> set (host_ids db')" using ok(4) own by (auto simp: refs)
    show "ht_HostID ` set (hd_accessTokens db') \<subseteq> set (host_ids db')" using tokens by (auto simp: pulls(3))
    show "sp_HostID ` set (hd_pulls db') \<subseteq> set (host_ids db')" using ok(6) by (auto simp: refs(2) pulls)
    show "pj_HostID ` set (hd_jobs db') \<subseteq> set (host_ids db')" using ok(7) by (auto simp: refs(2) pulls)
    show "last_refs db' \<subseteq> owned db'" "decision_refs db' \<subseteq> owned db'" using ok(8,10) refs(1,4,5) by simp_all
  qed (simp_all add: ok refs(1,2,3) pulls distinct_map_filter)
qed

lemma delete_state_ok:
  assumes "db_ok db" "DeleteHostCurrentStateByHostID i db = Inr (u, db')"
  shows "db_ok db'"
proof -
  from assms(2) have db': "db' = upd_tables (\<lambda>t. t\<lparr>db_states := filter (\<lambda>s. hcs_HostID s \<noteq> i) (db_states t)\<rparr>) db"
    by (simp add: DeleteHostCurrentStateByHostID_def)
  have refs: "owned db' = owned db" "host_ids db' = host_ids db" "last_refs db' = last_refs db" "decision_refs db' = decision_refs db"
      "state_refs db' \<subseteq> state_refs db"
    by (auto simp: db' ref_defs hosts_of_def)
  note ok = db_okD [OF assms(1)]
  have "state_refs db' \<subseteq> owned db" using refs(5) ok(9) by (rule subset_trans)
  then show ?thesis by (intro db_okI) (simp_all add: refs(1-4) ok, simp_all add: db' ok)
qed

lemma insert_token_ok:
  assumes "db_ok db" "InsertHostAccessToken now t i hash db = Inr (r, db')"
  shows "db_ok db'"
proof -
  from assms(2) have "has_host i db" "ht_HostID r = i" "db' = db\<lparr>hd_accessTokens := hd_accessTokens db @ [r]\<rparr>"
    by (auto simp: InsertHostAccessToken_def Let_def split: if_splits)
  then show ?thesis using db_okD [OF assms(1)] by (intro db_okI) (simp_all add: has_host_iff)
qed

interpretation store: host_store db_ok owns
proof
  fix db db' and h r
  assume "db_ok db" "host_LastSnapshotID h = None" "insert_host h db = Inr (r, db')"
  then show "db_ok db'" by (rule insert_host_ok(1))
next
  fix db db' and h r and p :: HostSshPull
  assume ins: "db_ok db" "host_LastSnapshotID h = None" "insert_host h db = Inr (r, db')" and p: "sp_HostID p = host_ID h"
  note new = insert_host_ok [OF ins]
  have "host_ID h \<notin> sp_HostID ` set (hd_pulls db)"
    using insert_host_Inr(2) [OF ins(3)] db_okD(6) [OF ins(1)] by blast
  then show "db_ok (db'\<lparr>hd_pulls := hd_pulls db' @ [p]\<rparr>)"
    using db_okD [OF new(1)] p by (intro db_okI) (auto simp: new(2,3) db_okD(3) [OF ins(1)])
next
  fix db and f :: "Host \<Rightarrow> Host" and i now
  assume "db_ok db" "\<And>h. host_ID (f h) = host_ID h"
    "\<And>h sid. host_LastSnapshotID (f h) = Some sid \<Longrightarrow> host_LastSnapshotID h = Some sid \<or> owns i sid db"
  then show "db_ok (set_hosts now i f db)" by (rule set_hosts_ok)
next
  fix db db' now t i hash r
  assume "db_ok db" "InsertHostAccessToken now t i hash db = Inr (r, db')"
  then show "db_ok db'" by (rule insert_token_ok)
next
  fix db db' now sid i ca payload rk bt pd row
  assume "db_ok db" "InsertHostSnapshot now sid i ca payload rk bt pd db = Inr (row, db')"
  then show "db_ok db' \<and> owns i (snap_ID row) db'" by (rule insert_snapshot_ok)
next
  fix db p u db'
  assume "db_ok db" "owns (hcs_HostID p) (hcs_SnapshotID p) db" "upsert_state p db = Inr (u, db')"
  then show "db_ok db' \<and> (\<forall>j sid. owns j sid db' = owns j sid db)" by (rule upsert_state_ok)
next
  fix db i sid and menv :: match_env and published
  assume "db_ok db" "owns i sid db" "ranges_ok (env_ranges menv)"
  then show "db_ok (db\<lparr>hd_tables := fst (fst (MatchSnapshot menv i sid (hd_tables db, published)))\<rparr>)" by (rule match_ok)
next
  fix db i u db'
  assume "db_ok db" "DeleteHostSnapshotsByHostID i db = Inr (u, db')"
  then show "db_ok db'" by (rule delete_snapshots_ok)
next
  fix db i r db'
  assume "db_ok db" "DeleteHostByID i db = Inr (r, db')"
  then show "db_ok db'" by (rule delete_host_ok)
next
  fix db i u db'
  assume "db_ok db" "DeleteHostCurrentStateByHostID i db = Inr (u, db')"
  then show "db_ok db'" by (rule delete_state_ok)
qed (auto simp: db_ok_def owns_def set_hosts_def owned_def TouchHostAccessTokenLastUsed_def InsertHostSSHPullJob_def UpdateHostSSHPullJob_def
   DeleteHostAccessTokensByHostID_def has_host_iff comp_def image_subset_iff split: if_splits)

end
