(* ===== verification/Host_Invariant.thy ===== *)
theory Host_Invariant
  imports Host_Store
begin

text \<open>
  Every operation of the hosts service keeps the database consistent and the periodic jobs reachable, whichever of its
  calls fail. The proofs are done once for any store that meets the contract \<open>host_store\<close>.
\<close>

lemma periodic_update_simps [simp]: "sv_db (s\<lparr>sv_periodic := p\<rparr>) = sv_db s" "sv_periodic (s\<lparr>sv_periodic := p\<rparr>) = p"
  by simp_all

lemma set_hosts_cases:
  assumes "update_host_returning now i f db = Inr (r, db')"
  obtains h where "first_row (\<lambda>h. host_ID h = i) (hosts_of db) = Some h" "r = (f h)\<lparr>host_UpdatedAt := Some now\<rparr>" "db' = set_hosts now i f db"
  using assms by (auto simp: update_host_returning_def split: option.splits)

lemma agent_host_ids: "host_ID (agent_host now st ap p) = ia_ID p" "host_LastSnapshotID (agent_host now st ap p) = None"
    "host_ApprovalStatus (agent_host now st ap p) = st"
  by (simp_all add: agent_host_def new_host_def)

lemma new_host_ids: "host_ID (new_host now i m st ap) = i" "host_LastSnapshotID (new_host now i m st ap) = None"
    "host_ApprovalStatus (new_host now i m st ap) = st" "host_OnboardingMode (new_host now i m st ap) = m"
  by (simp_all add: new_host_def)

lemma payload_params_ids: "uh_ID (payload_params i t sid p) = i"
    "uh_LastSnapshotID (payload_params i t sid p) = Some x \<Longrightarrow> x = sid"
  by (auto simp: payload_params_def Let_def nonzero_def EmptySpaceString_def split: option.splits if_splits)

lemma register_scope_fields:
  "RegisterScopeDemand env b k (scopes, p) = ((scopes', p'), e) \<Longrightarrow> p' = p \<or> p' = fst (AddAdvisorySyncJob env k True p)"
  by (auto simp: RegisterScopeDemand_def Let_def split: if_splits prod.splits)

context host_store
begin

definition good :: "river_env \<Rightarrow> service \<Rightarrow> bool" where
  "good river s \<longleftrightarrow> inv (sv_db s) \<and> manager_reach river (sv_periodic s)"

lemma good_simps [simp]:
  "good river (publish e s) = good river s" "good river (audit env a s) = good river s"
  "good river (s\<lparr>sv_published := ev\<rparr>) = good river s"
  by (simp_all add: good_def)

lemma good_db: "good river s \<Longrightarrow> good river (s\<lparr>sv_db := db\<rparr>) = inv db"
  by (simp add: good_def)

lemma good_inv: "good river s \<Longrightarrow> inv (sv_db s)"
  by (simp add: good_def)

section \<open>Statements\<close>

lemma update_host_inv:
  assumes "inv db" "update_host_returning now i f db = Inr (r, db')" "\<And>h. host_ID (f h) = host_ID h"
    and "\<And>h sid. host_LastSnapshotID (f h) = Some sid \<Longrightarrow> host_LastSnapshotID h = Some sid \<or> has_snap i sid db"
  shows "inv db'" "has_snap j sid db' = has_snap j sid db"
  using assms by (auto elim!: set_hosts_cases intro: set_hosts_inv simp: set_hosts_snap)

lemma update_from_snapshot_inv:
  assumes "inv db" "UpdateHostFromSnapshot now p db = Inr (r, db')"
    and "\<And>sid. uh_LastSnapshotID p = Some sid \<Longrightarrow> has_snap (uh_ID p) sid db"
  shows "inv db' \<and> (\<forall>j sid. has_snap j sid db' = has_snap j sid db)"
  using assms by (auto simp: UpdateHostFromSnapshot_def split: if_splits elim!: set_hosts_cases intro!: set_hosts_inv simp: set_hosts_snap)

lemma update_run_inv:
  assumes "inv db" "UpdateSSHPullRun now p db = Inr (u, db')"
    and "\<And>sid. ur_LastSnapshotID p = Some sid \<Longrightarrow> has_snap (ur_ID p) sid db"
  shows "inv db' \<and> (\<forall>j sid. has_snap j sid db' = has_snap j sid db)"
proof -
  define g :: "HostSshPull \<Rightarrow> HostSshPull" where "g = (\<lambda>q. if sp_HostID q = ur_ID p then q\<lparr>sp_PullLastRunAt := ur_PullLastRunAt p,
    sp_PullLastRunStatus := ur_PullLastRunStatus p, sp_PullLastRunError := ur_PullLastRunError p\<rparr> else q)"
  have g: "sp_HostID (g q) = sp_HostID q" for q by (simp add: g_def)
  have "inv (db\<lparr>hd_pulls := map g (hd_pulls db)\<rparr>)" using assms(1) g by (rule pulls_inv)
  then show ?thesis using assms(2,3)
    by (auto simp: UpdateSSHPullRun_def g_def [symmetric] set_hosts_snap pulls_snap coalesce_def split: if_splits option.splits intro!: set_hosts_inv)
qed

lemma insert_result_inv:
  "inv db \<Longrightarrow> ok_after (insert_result env i t res db) (\<lambda>row db'. inv db' \<and> has_snap i (snap_ID row) db')"
  unfolding insert_result_def by (rule ok_exec) (rule insert_snapshot)

section \<open>After a snapshot\<close>

lemma refresh_scope_good:
  assumes "good (sv_river env) s"
  shows "good (sv_river env) (refresh_scope env i fam nm ver maj arch s)"
    "has_snap j sid (sv_db (refresh_scope env i fam nm ver maj arch s)) = has_snap j sid (sv_db s)"
proof -
  obtain scopes p e where r: "RegisterScopeDemand (sv_river env) (sv_scopeInsertFails env)
      (ResolveScopeKey (sv_mappings env) fam nm ver maj arch) (hd_scopes (sv_db s), sv_periodic s) = ((scopes, p), e)"
    by (metis surj_pair)
  let ?s = "s\<lparr>sv_db := (sv_db s)\<lparr>hd_scopes := scopes\<rparr>, sv_periodic := p\<rparr>"
  have p: "manager_reach (sv_river env) p"
    using register_scope_fields [OF r] assms by (auto simp: good_def intro: manager_reach.intros)
  then have s: "good (sv_river env) ?s" using assms by (simp add: good_def scopes_inv)
  have upd: "inv (sv_db ?s) \<Longrightarrow> inv (set_hosts now i (\<lambda>h. h\<lparr>host_AdvisoryScopeKey := k\<rparr>) (sv_db ?s))" for now k
    by (rule set_hosts_inv) auto
  show "good (sv_river env) (refresh_scope env i fam nm ver maj arch s)"
    "has_snap j sid (sv_db (refresh_scope env i fam nm ver maj arch s)) = has_snap j sid (sv_db s)"
    using s upd [OF good_inv [OF s]]
    by (auto simp: refresh_scope_def Let_def r on_pool_def exec_def UpdateHostAdvisoryScopeKey_def good_def set_hosts_snap scopes_snap)
qed

lemma match_snapshot_good:
  assumes "good river s" "has_snap i sid (sv_db s)" "ranges_ok (env_ranges (sv_match env))"
  shows "good river (match_snapshot env i sid s)"
  using match_inv [OF good_inv [OF assms(1)] assms(2,3), of "sv_published s"] assms(1)
  by (auto simp: match_snapshot_def good_def split: prod.splits)

section \<open>Registration\<close>

lemma insert_agent_inv:
  "inv db \<Longrightarrow> InsertAgentHost now p db = Inr (h, db') \<Longrightarrow> inv db'" "inv db \<Longrightarrow> InsertAgentHostApproved now p db = Inr (h, db') \<Longrightarrow> inv db'"
  unfolding InsertAgentHost_def InsertAgentHostApproved_def by (blast dest: insert_host_inv [OF _ agent_host_ids(2)])+

lemma touch_reg_inv: "TouchRegistrationTokenLastUsed now t db = Inr (u, db') \<Longrightarrow> inv db' = inv db"
  by (auto simp: TouchRegistrationTokenLastUsed_def regTokens_inv)

lemma register_tx_inv:
  assumes "inv db"
  shows "ok_after (register_tx env input db) (\<lambda>_ db'. inv db')"
  unfolding register_tx_def Let_def
proof (intro svc_rules)
  fix t db1 m h db2 tk db3 u db4
  assume "GetActiveRegistrationTokenByHash (sv_sha256 env (TrimSpace (rq_RegistrationToken input))) db = Inr (t, db1)"
    and host: "(if rt_AutoApprove t then InsertAgentHostApproved (sv_dbNow env) (agent_params env input m)
       else InsertAgentHost (sv_dbNow env) (agent_params env input m)) db1 = Inr (h, db2)"
    and tok: "InsertHostAccessToken (sv_dbNow env) (id_New ''htok'' (sv_draw env ''htok'')) (host_ID h) (sv_sha256 env (''pb_host_'' @ sv_hex env)) db2 = Inr (tk, db3)"
    and touch: "TouchRegistrationTokenLastUsed (sv_dbNow env) (rt_ID t) db3 = Inr (u, db4)"
  then have "inv db1" using assms by simp
  then have "inv db2" using host insert_agent_inv [of db1 "sv_dbNow env" "agent_params env input m" h db2] by (cases "rt_AutoApprove t") simp_all
  then have "inv db3" using tok by (rule insert_token_inv)
  then show "inv db4" using touch_reg_inv [OF touch] by simp
qed

lemma RegisterAgentHost_good:
  assumes "good r s"
  shows "good r (fst (RegisterAgentHost env input s))"
proof (rule out_after_fst)
  show "out_after (RegisterAgentHost env input s) (good r) (\<lambda>_. good r)"
    unfolding RegisterAgentHost_def
    by (intro out_if out_Inl out_bind [where R = "\<lambda>_. good r"] out_in_tx assms)
      (use register_tx_inv [OF good_inv [OF assms]] in
        \<open>auto simp: good_db [OF assms] Let_def intro!: out_Inr split: option.split\<close>)
qed

lemma store_snapshot_inv:
  assumes "inv db"
  shows "ok_after (store_snapshot env t host snapshot db) (\<lambda>x db'. fst x = host \<and> inv db' \<and> has_snap (host_ID host) (snap_ID (snd x)) db')"
  unfolding store_snapshot_def Let_def
proof (intro svc_rules)
  fix row :: HostSnapshot and db1 h db2 u db3 v db4
  let ?upd = "case as_Host snapshot of None \<Rightarrow> 0 | Some p \<Rightarrow> ah_AvailablePackageUpdateCount p"
  let ?p = "payload_params (host_ID host) (UnwrapOr (as_SentAt snapshot) (sv_now env)) (snap_ID row) (as_Host snapshot)"
  assume ins: "InsertHostSnapshot (sv_dbNow env) (id_New ''snap'' (sv_draw env ''snap'')) (host_ID host)
      (TimestamptzFromTime (UnwrapOr (as_SentAt snapshot) (sv_now env))) (sv_bytes env snapshot)
      (case as_Runtime snapshot of None \<Rightarrow> [] | Some r \<Rightarrow> rt_KernelRunning r)
      (Option.bind (Option.bind (as_Host snapshot) ah_BootTime) TimestamptzFromTime)
      (case as_Runtime snapshot of None \<Rightarrow> False | Some r \<Rightarrow> rt_Processes r \<noteq> []) db = Inr (row, db1)"
    and upd: "UpdateHostFromSnapshot (sv_dbNow env) ?p db1 = Inr (h, db2)"
    and st: "upsert_state (update_state (host_ID host) (snap_ID row) ?upd) db2 = Inr (u, db3)"
    and touch: "TouchHostAccessTokenLastUsed (sv_dbNow env) t db3 = Inr (v, db4)"
  have 1: "inv db1" "has_snap (host_ID host) (snap_ID row) db1" using insert_snapshot [OF assms ins] by simp_all
  have "has_snap (uh_ID ?p) sid db1" if "uh_LastSnapshotID ?p = Some sid" for sid
    using 1(2) payload_params_ids(2) [OF that] by (simp add: payload_params_ids(1))
  from update_from_snapshot_inv [OF 1(1) upd this]
  have 2: "inv db2" "has_snap (host_ID host) (snap_ID row) db2" using 1(2) by simp_all
  have 3: "inv db3" "has_snap (host_ID host) (snap_ID row) db3"
    using upsert_state_inv [OF 2(1) _ st] 2(2) by (simp_all add: update_state_def)
  show "fst (host, row) = host \<and> inv db4 \<and> has_snap (host_ID host) (snap_ID (snd (host, row))) db4"
    using touch_token_inv [OF 3(1) touch] touch_token_snap [OF touch] 3(2) by simp
qed

lemma ingest_tx_inv:
  assumes "inv db"
  shows "ok_after (ingest_tx env t snapshot db) (\<lambda>x db'. inv db' \<and> has_snap (host_ID (fst x)) (snap_ID (snd x)) db')"
  unfolding ingest_tx_def
proof (intro ok_bind_required ok_if ok_Inl)
  fix tk db1 h db2
  assume "GetActiveHostAccessTokenByHash (sv_sha256 env t) db = Inr (tk, db1)" "get_host (ht_HostID tk) db1 = Inr (h, db2)"
  then have "inv db2" using assms by simp
  from store_snapshot_inv [OF this]
  show "ok_after (store_snapshot env (ht_ID tk) h snapshot db2) (\<lambda>x db'. inv db' \<and> has_snap (host_ID (fst x)) (snap_ID (snd x)) db')"
    by (rule ok_after_mono) auto
qed

lemma after_snapshot_good:
  assumes "good (sv_river env) s" "has_snap i sid (sv_db s)" "ranges_ok (env_ranges (sv_match env))"
  shows "good (sv_river env) (match_snapshot env i sid (refresh_scope env i fam nm ver maj arch s))"
  using refresh_scope_good [OF assms(1)] assms(2,3) by (intro match_snapshot_good) simp_all

lemma IngestAgentSnapshot_good:
  assumes "good (sv_river env) s" "ranges_ok (env_ranges (sv_match env))"
  shows "good (sv_river env) (fst (IngestAgentSnapshot env t snapshot s))"
proof (rule out_after_fst)
  let ?R = "\<lambda>x s'. good (sv_river env) s' \<and> has_snap (host_ID (fst x)) (snap_ID (snd x)) (sv_db s')"
  have tx: "out_after (in_tx env (ingest_tx env (TrimSpace t) snapshot) s) (good (sv_river env)) ?R"
  proof (rule out_in_tx)
    show "good (sv_river env) s" by (rule assms)
    show "ok_after (ingest_tx env (TrimSpace t) snapshot (sv_db s)) (\<lambda>a db. ?R a (s\<lparr>sv_db := db\<rparr>))"
      by (rule ok_after_mono [OF ingest_tx_inv [OF good_inv [OF assms(1)]]]) (auto simp: good_db [OF assms(1)])
  qed
  show "out_after (IngestAgentSnapshot env t snapshot s) (good (sv_river env)) (\<lambda>_. good (sv_river env))"
    unfolding IngestAgentSnapshot_def Let_def
    by (intro out_if out_Inl assms(1) out_bind [OF tx])
      (auto intro!: out_Inr after_snapshot_good assms(2))
qed

lemma on_pool_good:
  assumes "good r s" "ok_after (body (sv_db s)) (\<lambda>_. inv)"
  shows "out_after (on_pool body s) (good r) (\<lambda>_. good r)"
  using assms by (intro out_on_pool) (simp_all add: good_db)

lemma read_good:
  assumes "good r s" "\<And>a db'. st (sv_db s) = Inr (a, db') \<Longrightarrow> db' = sv_db s"
  shows "out_after (on_pool (\<lambda>db. Required e (exec env c st db)) s) (good r) (\<lambda>_. good r)"
    "out_after (on_pool (exec env c st) s) (good r) (\<lambda>_. good r)"
  using assms good_inv [OF assms(1)] by (auto intro!: on_pool_good svc_rules)

lemma ApproveHost_good:
  assumes "good r s"
  shows "good r (fst (ApproveHost env actor i s))"
proof (rule out_after_fst)
  have "ok_after (Required ErrHostNotFound (exec env CallApproveHostByID (ApproveHostByID (sv_dbNow env) i) (sv_db s))) (\<lambda>_. inv)"
    by (intro svc_rules) (auto simp: ApproveHostByID_def intro!: update_host_inv(1) [OF good_inv [OF assms]])
  then show "out_after (ApproveHost env actor i s) (good r) (\<lambda>_. good r)"
    unfolding ApproveHost_def by (intro out_bind [OF on_pool_good [OF assms]] out_Inr) simp_all
qed

lemma token_ops_good:
  assumes "good r s"
  shows "good r (fst (CreateRegistrationToken env actor u n b s))" "good r (fst (RevokeRegistrationToken env actor t s))"
proof -
  have "out_after (on_pool (exec env CallInsertRegistrationToken (InsertRegistrationToken x d i nm h u b)) s) (good r) (\<lambda>_. good r)" for x d i nm h
    using good_inv [OF assms] by (intro on_pool_good assms svc_rules) (auto simp: InsertRegistrationToken_def Let_def regTokens_inv split: if_splits)
  then have "out_after (CreateRegistrationToken env actor u n b s) (good r) (\<lambda>_. good r)"
    unfolding CreateRegistrationToken_def Let_def by (intro out_bind [where R = "\<lambda>_. good r"]) (auto intro!: out_Inr split: option.split)
  then show "good r (fst (CreateRegistrationToken env actor u n b s))" by (rule out_after_fst)
  have "out_after (on_pool (\<lambda>db. Required ErrTokenAlreadyRevoked (exec env CallRevokeRegistrationToken (RevokeRegistrationTokenStmt d t) db)) s)
      (good r) (\<lambda>_. good r)" for d
    using good_inv [OF assms] by (intro on_pool_good assms svc_rules) (auto simp: RevokeRegistrationTokenStmt_def regTokens_inv split: option.splits)
  then have "out_after (RevokeRegistrationToken env actor t s) (good r) (\<lambda>_. good r)"
    unfolding RevokeRegistrationToken_def by (intro out_bind [where R = "\<lambda>_. good r"] out_Inr) simp_all
  then show "good r (fst (RevokeRegistrationToken env actor t s))" by (rule out_after_fst)
qed

section \<open>Administration\<close>

lemma GetHost_good: "good r s \<Longrightarrow> out_after (GetHost env i s) (good r) (\<lambda>_. good r)"
  unfolding GetHost_def
  by (intro out_bind [OF read_good(1)] out_Inr) (auto simp: GetHostWithStateByID_def split: sum.splits)

lemma update_name_inv:
  assumes "inv db"
  shows "ok_after (update_name env i host input db) (\<lambda>_. inv)"
  unfolding update_name_def
  by (intro svc_rules assms) (auto simp: UpdateHostDisplayName_def split: if_splits intro!: update_host_inv(1) [OF assms])

lemma update_pull_config_inv:
  "inv db \<Longrightarrow> UpdateSSHPullConfig a b c i db = Inr (p, db') \<Longrightarrow> inv db'"
  by (auto simp: UpdateSSHPullConfig_def Let_def split: option.splits if_splits intro!: pulls_inv)

lemma update_pull_inv:
  assumes "inv db"
  shows "ok_after (update_pull env i input db) (\<lambda>_. inv)"
  unfolding update_pull_def Let_def using assms by (intro svc_rules) (auto intro: update_pull_config_inv)

lemma update_body_inv:
  assumes "inv db"
  shows "ok_after (update_body env i input db) (\<lambda>_. inv)"
  unfolding update_body_def case_prod_beta
  using assms by (intro ok_bind_required ok_bind_exec ok_if ok_Inl ok_bind [OF update_name_inv] ok_bind [OF update_pull_inv] ok_Inr) auto

lemma schedule_good:
  assumes "good (sv_river env) s"
  shows "good (sv_river env) (fst (restore_schedule env i x e s))" "good (sv_river env) (fst (reschedule_job env i x s))"
  using assms by (auto simp: restore_schedule_def reschedule_job_def good_def case_prod_beta Let_def intro: manager_reach.intros split: option.split)

lemma UpdateHost_good:
  assumes "good (sv_river env) s"
  shows "good (sv_river env) (fst (UpdateHost env actor i input s))"
proof (cases "update_body env i input (sv_db s)")
  case (Inl e)
  then show ?thesis using assms by (simp add: UpdateHost_def)
next
  case (Inr x)
  obtain md rs db where x: "x = ((md, rs), db)" by (metis surj_pair)
  have db: "inv db" using ok_afterD [OF update_body_inv [OF good_inv [OF assms]] Inr [unfolded x]] by simp
  obtain s1 err where s1: "reschedule_job env i rs s = (s1, err)" by (metis surj_pair)
  have g1: "good (sv_river env) s1" using schedule_good(2) [OF assms, of i rs] s1 by simp
  then have g2: "good (sv_river env) (s1\<lparr>sv_db := db\<rparr>)" using db by (simp add: good_db)
  have "out_after (UpdateHost env actor i input s) (good (sv_river env)) (\<lambda>_. good (sv_river env))"
    unfolding UpdateHost_def using assms schedule_good(1) [OF g1, of i rs]
    by (auto simp: Inr x s1 Let_def case_prod_beta intro!: out_if out_Inl out_Inr out_bind [OF GetHost_good [OF g2]] split: option.split)
  then show ?thesis by (rule out_after_fst)
qed

lemma UpdateHostNotes_good:
  assumes "good r s"
  shows "good r (fst (UpdateHostNotes env i notes s))"
proof (rule out_after_fst)
  have "ok_after (Required ErrHostNotFound (exec env CallUpdateHostNotes (UpdateHostNotesByID d i n) (sv_db s))) (\<lambda>_. inv)" for d n
    by (intro svc_rules) (auto simp: UpdateHostNotesByID_def intro!: update_host_inv(1) [OF good_inv [OF assms]])
  then show "out_after (UpdateHostNotes env i notes s) (good r) (\<lambda>_. good r)"
    unfolding UpdateHostNotes_def Let_def
    by (intro out_if out_Inl assms out_bind [OF on_pool_good [OF assms]] out_bind [OF GetHost_good] out_Inr) simp_all
qed

lemma delete_tx_inv:
  assumes "inv db"
  shows "ok_after (delete_tx env i db) (\<lambda>_. inv)"
  unfolding delete_tx_def
proof (intro svc_rules)
  fix h db0 u1 db1 u2 db2 u3 db3 u4 db4 r db5
  assume "get_host i db = Inr (h, db0)" and clear: "ClearHostLastSnapshotByID (sv_dbNow env) i db0 = Inr (u1, db1)"
    and st: "DeleteHostCurrentStateByHostID i db1 = Inr (u2, db2)" and tok: "DeleteHostAccessTokensByHostID i db2 = Inr (u3, db3)"
    and snaps: "DeleteHostSnapshotsByHostID i db3 = Inr (u4, db4)" and del: "DeleteHostByID i db4 = Inr (r, db5)"
  then have "inv db0" using assms by simp
  then have "inv db1" using clear by (auto simp: ClearHostLastSnapshotByID_def intro!: set_hosts_inv)
  then have "inv db2" using st by (rule delete_state_inv)
  then have "inv db3" using tok by (rule delete_tokens_inv)
  then have "inv db4" using snaps by (rule delete_snapshots_inv)
  then show "inv db5" using del by (rule delete_host_inv)
qed

lemma in_tx_good:
  assumes "good r s" "ok_after (body (sv_db s)) (\<lambda>_. inv)"
  shows "out_after (in_tx env body s) (good r) (\<lambda>_. good r)"
  using assms by (intro out_in_tx) (simp_all add: good_db)

lemma DeleteHost_good:
  assumes "good (sv_river env) s"
  shows "good (sv_river env) (fst (DeleteHost env actor i s))"
proof (rule out_after_fst)
  have rem: "good (sv_river env) (s'\<lparr>sv_periodic := fst (RemoveSSHPullJob (sv_river env) k (sv_periodic s'))\<rparr>)" if "good (sv_river env) s'" for k s'
    using that by (auto simp: good_def intro: manager_reach.intros)
  have tx: "out_after (in_tx env (delete_tx env k) s) (good (sv_river env)) (\<lambda>_. good (sv_river env))" for k
    by (intro in_tx_good assms delete_tx_inv good_inv [OF assms])
  show "out_after (DeleteHost env actor i s) (good (sv_river env)) (\<lambda>_. good (sv_river env))"
    unfolding DeleteHost_def Let_def
    by (intro out_if out_Inl assms out_bind [OF tx] out_Inr) (simp_all add: rem)
qed

section \<open>Pulls and reports\<close>

lemma insert_ssh_inv:
  assumes "inv db" "InsertSSHHost now p db = Inr (h, db')"
  shows "inv db'"
proof -
  let ?h = "(new_host now (is_ID p) ''ssh'' ''approved'' (Some now))
    \<lparr>host_DisplayName := is_DisplayName p, host_Hostname := is_Hostname p, host_IpAddress := is_IpAddress p\<rparr>"
  let ?row = "\<lambda>hn. \<lparr>sp_HostID = is_ID p, sp_PullSshUser = is_PullSshUser p, sp_PullFrequencyMinutes = is_PullFrequencyMinutes p,
    sp_PullPublicKey = is_PullPublicKey p, sp_PullPrivateKey = is_PullPrivateKey p, sp_PullLastRunAt = None,
    sp_PullLastRunStatus = None, sp_PullLastRunError = None, sp_Onboarded = False, sp_PullHostname = hn\<rparr>"
  from assms(2) obtain db1 where ins: "insert_host ?h db = Inr (h, db1)"
    by (auto simp: InsertSSHHost_def split: sum.splits option.splits if_splits)
  with assms(2) obtain hn where db': "db' = db1\<lparr>hd_pulls := hd_pulls db1 @ [?row hn]\<rparr>"
    by (cases "is_Hostname p") (auto simp: InsertSSHHost_def split: if_splits)
  show ?thesis using insert_pull_inv [OF assms(1) _ ins, of "?row hn"] by (simp add: new_host_ids db')
qed

lemma CreateSSHHost_good:
  assumes "good r s"
  shows "good r (fst (CreateSSHHost env actor input s))"
proof (rule out_after_fst)
  have tx: "out_after (in_tx env (\<lambda>db. duplicate a x (duplicate b y (exec env CallInsertSSHHost (InsertSSHHost d p) db))) s) (good r) (\<lambda>_. good r)"
    for a x b y d p
    by (intro in_tx_good assms svc_rules) (rule insert_ssh_inv [OF good_inv [OF assms]])
  show "out_after (CreateSSHHost env actor input s) (good r) (\<lambda>_. good r)"
    unfolding CreateSSHHost_def Let_def
    by (auto intro!: out_Inl assms out_bind [OF tx] out_Inr split: sum.split)
qed

lemma CreateManualHost_good:
  assumes "good r s"
  shows "good r (fst (CreateManualHost env actor dn hn s))"
proof (rule out_after_fst)
  have "inv db'" if "InsertManualHost now i a b (sv_db s) = Inr (h, db')" for now i a b h db'
    using that insert_host_inv [OF good_inv [OF assms], of "(new_host now i ''manual'' ''approved'' (Some now))\<lparr>host_DisplayName := a, host_Hostname := b\<rparr>"]
    by (simp add: InsertManualHost_def new_host_ids)
  then have "out_after (in_tx env (\<lambda>db. duplicate x e (exec env CallInsertManualHost (InsertManualHost now i a b) db)) s) (good r) (\<lambda>_. good r)"
    for x e now i a b by (intro in_tx_good assms svc_rules) blast
  then show "out_after (CreateManualHost env actor dn hn s) (good r) (\<lambda>_. good r)"
    unfolding CreateManualHost_def by (intro out_bind [where R = "\<lambda>_. good r"] out_Inr) simp_all
qed

lemma OnboardSSHHost_good:
  assumes "good (sv_river env) s"
  shows "good (sv_river env) (fst (OnboardSSHHost env actor i s))"
proof (rule out_after_fst)
  let ?g = "good (sv_river env)"
  have onb: "out_after (on_pool (exec env CallSetSSHPullOnboarded (SetSSHPullOnboarded i True)) s') ?g (\<lambda>_. ?g)" if g: "?g s'" for s'
    by (intro on_pool_good g svc_rules) (auto simp: SetSSHPullOnboarded_def intro!: pulls_inv good_inv [OF g])
  have job: "?g (s'\<lparr>sv_periodic := p\<rparr>)" if "?g s'" "AddSSHPullJob (sv_river env) i f b (sv_periodic s') = (p, e)" for s' f b p e
    using that manager_reach.add_ssh [of "sv_river env" "sv_periodic s'" i f b] by (simp add: good_def)
  show "out_after (OnboardSSHHost env actor i s) ?g (\<lambda>_. ?g)"
    unfolding OnboardSSHHost_def
  proof (intro out_bind [where R = "\<lambda>_. ?g"] out_if out_Inl onb; (rule read_good; simp add: assms)?)
    fix cfg s' u s''
    assume "?g s'" "?g s''"
    then show "out_after (case AddSSHPullJob (sv_river env) i (onboard_frequency (sp_PullFrequencyMinutes cfg)) True (sv_periodic s'') of
        (p, None) \<Rightarrow> (audit env (actor_event actor ''host.ssh.onboard'' ''host'' i [] []) (s''\<lparr>sv_periodic := p\<rparr>), Inr ())
      | (p, Some err) \<Rightarrow> (s''\<lparr>sv_periodic := p\<rparr>, Inl (JobErr err))) ?g (\<lambda>_. ?g)"
      by (auto intro!: out_Inl out_Inr job split: prod.split option.split)
  qed (auto intro: assms)
qed

lemma job_tx_inv:
  assumes "inv db"
  shows "ok_after (job_tx env host i jid status msg res db) (\<lambda>x db'. inv db' \<and> (\<forall>sid. x = Some sid \<longrightarrow> has_snap i sid db'))"
  unfolding job_tx_def
proof (intro ok_bind_exec ok_case_option ok_bind [OF insert_result_inv] ok_Inr)
  fix u db1
  assume "UpdateHostSSHPullJob jid status (TimestamptzFromTime (sv_now env)) (nonzero msg) db = Inr (u, db1)"
  then show "inv db1" using update_job_inv assms by blast
next
  fix u db1 v db2
  assume job: "UpdateHostSSHPullJob jid status (TimestamptzFromTime (sv_now env)) (nonzero msg) db = Inr (u, db1)"
    and run: "UpdateSSHPullRun (sv_dbNow env)
      \<lparr>ur_PullLastRunAt = TimestamptzFromTime (sv_now env), ur_LastSnapshotID = None, ur_MachineID = None, ur_Hostname = None, ur_IpAddress = None,
       ur_OsFamily = host_OsFamily host, ur_OsName = host_OsName host, ur_OsMajor = host_OsMajor host, ur_OsVersion = host_OsVersion host,
       ur_Architecture = host_Architecture host, ur_ID = i, ur_PullLastRunStatus = Some status, ur_PullLastRunError = nonzero msg\<rparr> db1 = Inr (v, db2)"
  show "inv db2 \<and> (\<forall>sid. None = Some sid \<longrightarrow> has_snap i sid db2)"
    using update_run_inv [OF update_job_inv [OF assms job] run] by simp
next
  fix u db1 r and row :: HostSnapshot and db2 v db3 w db4
  assume snap: "inv db2 \<and> has_snap i (snap_ID row) db2"
    and run: "UpdateSSHPullRun (sv_dbNow env)
      \<lparr>ur_PullLastRunAt = TimestamptzFromTime (pr_CollectedAt r), ur_LastSnapshotID = Some (snap_ID row), ur_MachineID = nonzero (pr_MachineID r),
       ur_Hostname = nonzero (pr_Hostname r), ur_IpAddress = nonzero (pr_IPAddress r), ur_OsFamily = pr_OSFamily r, ur_OsName = pr_OSName r,
       ur_OsMajor = pr_OSMajor r, ur_OsVersion = pr_OSVersion r, ur_Architecture = pr_Architecture r, ur_ID = i,
       ur_PullLastRunStatus = Some status, ur_PullLastRunError = nonzero msg\<rparr> db2 = Inr (v, db3)"
    and st: "upsert_state (result_state i (snap_ID row) r) db3 = Inr (w, db4)"
  have 3: "inv db3" "has_snap i (snap_ID row) db3"
    using update_run_inv [OF _ run] snap by simp_all
  show "inv db4 \<and> (\<forall>sid. Some (snap_ID row) = Some sid \<longrightarrow> has_snap i sid db4)"
    using upsert_state_inv [OF 3(1) _ st] 3(2) by (simp add: result_state_def)
qed

lemma updateJobResult_good:
  assumes "good (sv_river env) s" "ranges_ok (env_ranges (sv_match env))"
  shows "out_after (updateJobResult env host i jid status msg res s) (good (sv_river env)) (\<lambda>_. good (sv_river env))"
proof -
  let ?g = "good (sv_river env)"
  have tx: "out_after (in_tx env (job_tx env host i jid status msg res) s) ?g (\<lambda>x s'. ?g s' \<and> (\<forall>sid. x = Some sid \<longrightarrow> has_snap i sid (sv_db s')))"
  proof (rule out_in_tx)
    show "?g s" by (rule assms)
    show "ok_after (job_tx env host i jid status msg res (sv_db s))
      (\<lambda>x db. ?g (s\<lparr>sv_db := db\<rparr>) \<and> (\<forall>sid. x = Some sid \<longrightarrow> has_snap i sid (sv_db (s\<lparr>sv_db := db\<rparr>))))"
      by (rule ok_after_mono [OF job_tx_inv [OF good_inv [OF assms(1)]]]) (simp add: good_db [OF assms(1)])
  qed
  show ?thesis
    unfolding updateJobResult_def Let_def
    by (rule out_bind [OF tx]) (auto intro!: out_Inr after_snapshot_good assms(2) split: option.split)
qed

lemma pull_steps_good:
  assumes "good (sv_river env) s" "ranges_ok (env_ranges (sv_match env))"
  shows "good (sv_river env) (fst (fst (pull_steps env host cfg i jid s)))"
proof -
  let ?ins = "on_pool (exec env CallInsertHostSSHPullJob (InsertHostSSHPullJob jid i ''running'' (TimestamptzFromTime (sv_now env)))) s"
  have ins: "out_after ?ins (good (sv_river env)) (\<lambda>_. good (sv_river env))"
    by (intro on_pool_good assms(1) ok_exec) (rule insert_job_inv [OF good_inv [OF assms(1)]])
  obtain s1 r where r: "?ins = (s1, r)" by (metis surj_pair)
  have s1: "good (sv_river env) s1" using out_after_fst [OF ins] by (simp add: r)
  have upd: "good (sv_river env) (fst (updateJobResult env host i jid st m res s1))" for st m res
    by (rule out_after_fst [OF updateJobResult_good [OF s1 assms(2)]])
  have upd': "good (sv_river env) s2" if "updateJobResult env host i jid st m res s1 = (s2, x)" for st m res s2 x
    using upd [of st m res] by (simp add: that)
  show ?thesis using s1 by (auto simp: pull_steps_def r split: sum.split prod.split intro: upd')
qed

lemma RunSSHPull_good:
  assumes "good (sv_river env) s" "ranges_ok (env_ranges (sv_match env))"
  shows "good (sv_river env) (fst (RunSSHPull env actor i s))"
proof (rule out_after_fst)
  let ?g = "good (sv_river env)"
  have step: "out_after (audit env a s1, r) ?g (\<lambda>_. ?g)"
    if "pull_steps env host cfg i jid s' = ((s1, r), y)" "?g s'" for host cfg jid s' s1 r y a
    using pull_steps_good [OF that(2) assms(2), of host cfg i jid] that(1) by (cases r) (auto intro: out_Inl out_Inr)
  show "out_after (RunSSHPull env actor i s) ?g (\<lambda>_. ?g)"
    unfolding RunSSHPull_def Let_def
    by (intro out_bind [where R = "\<lambda>_. ?g"]; (rule read_good; simp add: assms)?)
      (auto split: prod.split elim!: step)
qed

lemma manual_tx_inv:
  assumes "inv db"
  shows "ok_after (manual_tx env i res db) (\<lambda>row db'. inv db' \<and> has_snap i (snap_ID row) db')"
  unfolding manual_tx_def
proof (intro ok_bind_exec ok_bind [OF insert_result_inv [OF assms]] ok_Inr)
  fix row :: HostSnapshot and db1 h db2 u db3
  let ?p = "\<lparr>uh_ID = i, uh_MachineID = nonzero (pr_MachineID res), uh_Hostname = nonzero (pr_Hostname res), uh_IpAddress = nonzero (pr_IPAddress res),
    uh_OsFamily = pr_OSFamily res, uh_OsName = pr_OSName res, uh_OsMajor = pr_OSMajor res, uh_OsVersion = pr_OSVersion res,
    uh_Architecture = pr_Architecture res, uh_LastSeenAt = TimestamptzFromTime (sv_now env), uh_LastSnapshotID = nonzero (snap_ID row)\<rparr>"
  assume 1: "inv db1 \<and> has_snap i (snap_ID row) db1"
    and upd: "UpdateHostFromSnapshot (sv_dbNow env) ?p db1 = Inr (h, db2)"
    and st: "upsert_state (result_state i (snap_ID row) res) db2 = Inr (u, db3)"
  have "has_snap (uh_ID ?p) sid db1" if "uh_LastSnapshotID ?p = Some sid" for sid
    using 1 that by (simp add: nonzero_def split: if_splits)
  from update_from_snapshot_inv [OF conjunct1 [OF 1] upd this]
  have 2: "inv db2" "has_snap i (snap_ID row) db2" using 1 by simp_all
  show "inv db3 \<and> has_snap i (snap_ID row) db3"
    using upsert_state_inv [OF 2(1) _ st] 2(2) by (simp add: result_state_def)
qed

lemma IngestManualReport_good:
  assumes "good (sv_river env) s" "ranges_ok (env_ranges (sv_match env))"
  shows "good (sv_river env) (fst (IngestManualReport env actor i content s))"
proof (rule out_after_fst)
  let ?g = "good (sv_river env)"
  have tx: "out_after (in_tx env (manual_tx env i res) s') ?g (\<lambda>row s'. ?g s' \<and> has_snap i (snap_ID row) (sv_db s'))" if g: "?g s'" for res s'
  proof (rule out_in_tx)
    show "?g s'" by (rule g)
    show "ok_after (manual_tx env i res (sv_db s')) (\<lambda>row db. ?g (s'\<lparr>sv_db := db\<rparr>) \<and> has_snap i (snap_ID row) (sv_db (s'\<lparr>sv_db := db\<rparr>)))"
      by (rule ok_after_mono [OF manual_tx_inv [OF good_inv [OF g]]]) (simp add: good_db [OF g])
  qed
  show "out_after (IngestManualReport env actor i content s) ?g (\<lambda>_. ?g)"
    unfolding IngestManualReport_def Let_def
    by (intro out_bind [where R = "\<lambda>_. ?g"] out_if out_Inl; (rule read_good; simp add: assms)?)
      (auto intro!: out_Inl out_bind [OF tx] out_Inr after_snapshot_good assms(2) split: sum.split)
qed

end

section \<open>Reachable states\<close>

text \<open>The service as a whole: any sequence of operations, each with its own environment, over one queue. The hosts begin
  with an empty database; what the advisory synchronisation stores is arbitrary.\<close>

inductive service_reach :: "river_env \<Rightarrow> service \<Rightarrow> bool" for river where
  start: "manager_reach river p \<Longrightarrow> db_hosts t = [] \<Longrightarrow> db_snapshots t = [] \<Longrightarrow> db_decisions t = [] \<Longrightarrow> db_states t = [] \<Longrightarrow>
    service_reach river \<lparr>sv_db = \<lparr>hd_tables = t, hd_regTokens = [], hd_accessTokens = [], hd_pulls = [], hd_jobs = [], hd_scopes = scopes\<rparr>,
      sv_published = [], sv_auditLog = [], sv_periodic = p\<rparr>"
| create_token: "service_reach river s \<Longrightarrow> service_reach river (fst (CreateRegistrationToken env actor u n b s))"
| revoke_token: "service_reach river s \<Longrightarrow> service_reach river (fst (RevokeRegistrationToken env actor t s))"
| register: "service_reach river s \<Longrightarrow> service_reach river (fst (RegisterAgentHost env input s))"
| ingest: "service_reach river s \<Longrightarrow> sv_river env = river \<Longrightarrow> ranges_ok (env_ranges (sv_match env)) \<Longrightarrow>
    service_reach river (fst (IngestAgentSnapshot env t snapshot s))"
| approve: "service_reach river s \<Longrightarrow> service_reach river (fst (ApproveHost env actor i s))"
| update: "service_reach river s \<Longrightarrow> sv_river env = river \<Longrightarrow> service_reach river (fst (UpdateHost env actor i uinput s))"
| annotate: "service_reach river s \<Longrightarrow> service_reach river (fst (UpdateHostNotes env i nt s))"
| delete: "service_reach river s \<Longrightarrow> sv_river env = river \<Longrightarrow> service_reach river (fst (DeleteHost env actor i s))"
| create_ssh: "service_reach river s \<Longrightarrow> service_reach river (fst (CreateSSHHost env actor sinput s))"
| onboard: "service_reach river s \<Longrightarrow> sv_river env = river \<Longrightarrow> service_reach river (fst (OnboardSSHHost env actor i s))"
| pull: "service_reach river s \<Longrightarrow> sv_river env = river \<Longrightarrow> ranges_ok (env_ranges (sv_match env)) \<Longrightarrow>
    service_reach river (fst (RunSSHPull env actor i s))"
| create_manual: "service_reach river s \<Longrightarrow> service_reach river (fst (CreateManualHost env actor dn hn s))"
| report: "service_reach river s \<Longrightarrow> sv_river env = river \<Longrightarrow> ranges_ok (env_ranges (sv_match env)) \<Longrightarrow>
    service_reach river (fst (IngestManualReport env actor i content s))"

lemma service_reach_good:
  assumes "service_reach river s"
  shows "store.good river s"
  using assms
proof induction
  case (start p t scopes)
  then show ?case unfolding store.good_def by (simp add: db_ok_def ref_defs hosts_of_def)
qed (auto intro: store.token_ops_good store.RegisterAgentHost_good store.ApproveHost_good store.UpdateHostNotes_good
  store.CreateSSHHost_good store.CreateManualHost_good store.IngestAgentSnapshot_good store.UpdateHost_good store.DeleteHost_good
  store.OnboardSSHHost_good store.RunSSHPull_good store.IngestManualReport_good)

lemma service_reach_ok:
  assumes "service_reach river s"
  shows "db_ok (sv_db s)" "manager_reach river (sv_periodic s)"
  using service_reach_good [OF assms] by (simp_all add: store.good_def)

end
