(* ===== verification/Host_Properties.thy ===== *)
theory Host_Properties
  imports Host_Invariant
begin

text \<open>
  What the hosts service guarantees: the consistency of its database in every reachable state, what deleting a host
  removes, whom a registration and a snapshot are accepted from, and what the operations leave behind when they fail.
\<close>

section \<open>Failures\<close>

lemma in_tx_cases:
  assumes "in_tx env body s = (s', r)"
  obtains (fail) e where "r = Inl e" "s' = s"
  | (ok) a db where "r = Inr a" "s' = s\<lparr>sv_db := db\<rparr>" "body (sv_db s) = Inr (a, db)"
  using assms by (auto simp: in_tx_def split: if_splits sum.splits)

lemma bind_svc_Inr:
  "bind_svc o1 f = (s', Inr b) \<longleftrightarrow> (\<exists>s a. o1 = (s, Inr a) \<and> f a s = (s', Inr b))"
  by (auto simp: bind_svc_def split: prod.splits sum.splits)

lemma bind_svc_Inl:
  "bind_svc o1 f = (s', Inl e) \<longleftrightarrow> o1 = (s', Inl e) \<or> (\<exists>s a. o1 = (s, Inr a) \<and> f a s = (s', Inl e))"
  by (auto simp: bind_svc_def split: prod.splits sum.splits)

lemma in_tx_Inr: "in_tx env body s = (s', Inr a) \<Longrightarrow> \<exists>db. body (sv_db s) = Inr (a, db) \<and> s' = s\<lparr>sv_db := db\<rparr>"
  by (auto elim: in_tx_cases)

lemma in_tx_Inl: "in_tx env body s = (s', Inl e) \<Longrightarrow> s' = s"
  by (auto elim: in_tx_cases)

lemma bind_tx_Inr: "bind_tx r f = Inr x \<longleftrightarrow> (\<exists>a db. r = Inr (a, db) \<and> f a db = Inr x)"
  by (auto simp: bind_tx_def split: sum.splits)

lemma exec_Inr: "exec env c st db = Inr x \<longleftrightarrow> \<not> sv_fault env c \<and> st db = Inr x"
  by (auto simp: exec_def split: sum.splits)

lemma Required_Inr [simp]: "Required e r = Inr x \<longleftrightarrow> r = Inr x"
  by (auto simp: Required_def split: sum.splits service_error.splits sql_error.splits)

lemma duplicate_Inr [simp]: "duplicate n e r = Inr x \<longleftrightarrow> r = Inr x"
  by (auto simp: duplicate_def split: sum.splits)

lemmas tx_Inr = bind_tx_Inr exec_Inr

text \<open>A statement that succeeds goes on with its result.\<close>

lemma run_simps:
  assumes "\<not> sv_fault env c" "st db = Inr (a, db')"
  shows "bind_tx (exec env c st db) f = f a db'" "bind_tx (Required e (exec env c st db)) f = f a db'"
    "bind_tx (duplicate n e (exec env c st db)) f = f a db'"
  using assms by (simp_all add: bind_tx_def exec_def Required_def duplicate_def)

lemma first_row_exists: "x \<in> set xs \<Longrightarrow> P x \<Longrightarrow> \<exists>y. first_row P xs = Some y"
  by (induction xs) auto

lemma first_row_unique: "x \<in> set xs \<Longrightarrow> P x \<Longrightarrow> (\<And>y. y \<in> set xs \<Longrightarrow> P y \<Longrightarrow> y = x) \<Longrightarrow> first_row P xs = Some x"
  using first_row_exists [of x xs P] first_row_Some [of P xs] by blast

section \<open>Consistency\<close>


section \<open>Deleting a host\<close>

text \<open>The database without the rows of a host\<close>

definition without_host :: "string \<Rightarrow> hosts_db \<Rightarrow> hosts_db" where
  "without_host i db = db\<lparr>hd_tables := (hd_tables db)
       \<lparr>db_hosts := filter (\<lambda>h. host_ID h \<noteq> i) (db_hosts (hd_tables db)),
        db_snapshots := filter (\<lambda>s. snap_HostID s \<noteq> i) (db_snapshots (hd_tables db)),
        db_decisions := filter (\<lambda>d. dec_HostID d \<noteq> i) (db_decisions (hd_tables db)),
        db_states := filter (\<lambda>s. hcs_HostID s \<noteq> i) (db_states (hd_tables db))\<rparr>,
      hd_accessTokens := filter (\<lambda>t. ht_HostID t \<noteq> i) (hd_accessTokens db),
      hd_pulls := filter (\<lambda>p. sp_HostID p \<noteq> i) (hd_pulls db), hd_jobs := filter (\<lambda>j. pj_HostID j \<noteq> i) (hd_jobs db)\<rparr>"

lemma filter_set_hosts: "filter (\<lambda>h. host_ID h \<noteq> i) (map (\<lambda>h. if host_ID h = i then (f h)\<lparr>host_UpdatedAt := n\<rparr> else h) hs) =
    filter (\<lambda>h. host_ID h \<noteq> i) hs" if "\<And>h. host_ID (f h) = host_ID h"
  by (induction hs) (auto simp: that)

lemma owner_unique:
  assumes "db_ok db" "(sid, i) \<in> owned db" "(sid, j) \<in> owned db"
  shows "i = j"
  using assms(2,3) db_okD(2) [OF assms(1)] by (auto simp: owned_def distinct_map dest: inj_onD)

lemma decisions_of_host:
  assumes "db_ok db"
  shows "filter (\<lambda>d. dec_HostID d \<noteq> i) (filter (\<lambda>d. \<not> (\<exists>s \<in> set (db_snapshots (hd_tables db)). snap_ID s = dec_SnapshotID d \<and> snap_HostID s = i))
      (db_decisions (hd_tables db))) = filter (\<lambda>d. dec_HostID d \<noteq> i) (db_decisions (hd_tables db))"
proof -
  have "dec_HostID d = i" if "d \<in> set (db_decisions (hd_tables db))" "s \<in> set (db_snapshots (hd_tables db))"
    "snap_ID s = dec_SnapshotID d" "snap_HostID s = i" for d s
  proof -
    have "(dec_SnapshotID d, dec_HostID d) \<in> owned db" using db_okD(10) [OF assms] that(1) by (auto simp: decision_refs_def)
    moreover have "(dec_SnapshotID d, i) \<in> owned db" using that(2-4) by (force simp: owned_def)
    ultimately show ?thesis by (rule owner_unique [OF assms])
  qed
  then show ?thesis unfolding filter_filter by (intro filter_cong) auto
qed

text \<open>The database before the last two statements of the transaction\<close>

definition cleared :: "int \<Rightarrow> string \<Rightarrow> hosts_db \<Rightarrow> hosts_db" where
  "cleared now i db = (upd_tables (\<lambda>t. t\<lparr>db_states := filter (\<lambda>s. hcs_HostID s \<noteq> i) (db_states t)\<rparr>)
     (set_hosts now i (\<lambda>h. h\<lparr>host_LastSnapshotID := None\<rparr>) db))\<lparr>hd_accessTokens := filter (\<lambda>t. ht_HostID t \<noteq> i) (hd_accessTokens db)\<rparr>"

lemma cleared_snapshots:
  assumes "db_ok db"
  shows "DeleteHostSnapshotsByHostID i (cleared now i db) = Inr ((), upd_tables (\<lambda>t. t
    \<lparr>db_snapshots := filter (\<lambda>s. snap_HostID s \<noteq> i) (db_snapshots t),
     db_decisions := filter (\<lambda>d. \<not> (\<exists>s \<in> set (db_snapshots (hd_tables db)). snap_ID s = dec_SnapshotID d \<and> snap_HostID s = i)) (db_decisions t)\<rparr>)
    (cleared now i db))"
proof -
  let ?gone = "\<lambda>sid. \<exists>s \<in> set (db_snapshots (hd_tables db)). snap_ID s = sid \<and> snap_HostID s = i"
  have tabs: "db_snapshots (hd_tables (cleared now i db)) = db_snapshots (hd_tables db)"
    "db_hosts (hd_tables (cleared now i db)) = map (\<lambda>h. if host_ID h = i then (h\<lparr>host_LastSnapshotID := None\<rparr>)\<lparr>host_UpdatedAt := Some now\<rparr> else h)
       (db_hosts (hd_tables db))"
    "db_states (hd_tables (cleared now i db)) = filter (\<lambda>s. hcs_HostID s \<noteq> i) (db_states (hd_tables db))"
    by (simp_all add: cleared_def set_hosts_def)
  have gone: "?gone sid \<Longrightarrow> (sid, i) \<in> owned db" for sid by (force simp: owned_def)
  have h: "\<not> ?gone sid" if "h \<in> set (db_hosts (hd_tables db))" "host_LastSnapshotID h = Some sid" "host_ID h \<noteq> i" for h sid
  proof
    assume "?gone sid"
    moreover have "(sid, host_ID h) \<in> owned db" using db_okD(8) [OF assms] that(1,2) by (auto simp: last_refs_def hosts_of_def)
    ultimately show False using owner_unique [OF assms, of sid i "host_ID h"] gone [of sid] that(3) by simp
  qed
  have st: "\<not> ?gone (hcs_SnapshotID st)" if "st \<in> set (db_states (hd_tables db))" "hcs_HostID st \<noteq> i" for st
  proof
    assume "?gone (hcs_SnapshotID st)"
    moreover have "(hcs_SnapshotID st, hcs_HostID st) \<in> owned db" using db_okD(9) [OF assms] that(1) by (auto simp: state_refs_def)
    ultimately show False using owner_unique [OF assms, of "hcs_SnapshotID st" i "hcs_HostID st"] gone that(2) by simp
  qed
  have "\<not> (\<exists>h \<in> set (db_hosts (hd_tables (cleared now i db))). (case host_LastSnapshotID h of None \<Rightarrow> False | Some sid \<Rightarrow> ?gone sid))"
    using h by (auto simp: tabs(2) split: option.splits if_splits)
  moreover have "\<not> (\<exists>s \<in> set (db_states (hd_tables (cleared now i db))). ?gone (hcs_SnapshotID s))"
    using st by (auto simp: tabs(3))
  ultimately show ?thesis unfolding DeleteHostSnapshotsByHostID_def Let_def tabs(1) by (simp only: if_False)
qed

lemma delete_tx_ok:
  assumes "db_ok db" "has_host i db" "\<And>c. \<not> sv_fault env c"
  shows "delete_tx env i db = Inr ((), without_host i db)"
proof -
  let ?now = "sv_dbNow env"
  let ?db1 = "set_hosts ?now i (\<lambda>h. h\<lparr>host_LastSnapshotID := None\<rparr>) db"
  let ?db2 = "upd_tables (\<lambda>t. t\<lparr>db_states := filter (\<lambda>s. hcs_HostID s \<noteq> i) (db_states t)\<rparr>) ?db1"
  let ?db4 = "upd_tables (\<lambda>t. t
    \<lparr>db_snapshots := filter (\<lambda>s. snap_HostID s \<noteq> i) (db_snapshots t),
     db_decisions := filter (\<lambda>d. \<not> (\<exists>s \<in> set (db_snapshots (hd_tables db)). snap_ID s = dec_SnapshotID d \<and> snap_HostID s = i)) (db_decisions t)\<rparr>)
    (cleared ?now i db)"
  obtain h0 where h0: "h0 \<in> set (hosts_of db)" "host_ID h0 = i" using assms(2) by (auto simp: has_host_def)
  obtain h where h: "get_host i db = Inr (h, db)" using first_row_exists [of h0 _ "\<lambda>h. host_ID h = i"] h0 by auto
  have 3: "DeleteHostAccessTokensByHostID i ?db2 = Inr ((), cleared ?now i db)"
    by (simp add: DeleteHostAccessTokensByHostID_def cleared_def set_hosts_def)
  define H where "H = map (\<lambda>h. if host_ID h = i then (h\<lparr>host_LastSnapshotID := None\<rparr>)\<lparr>host_UpdatedAt := Some ?now\<rparr> else h) (db_hosts (hd_tables db))"
  define D where "D = filter (\<lambda>d. \<not> (\<exists>s \<in> set (db_snapshots (hd_tables db)). snap_ID s = dec_SnapshotID d \<and> snap_HostID s = i)) (db_decisions (hd_tables db))"
  have db4: "?db4 = db\<lparr>hd_tables := (hd_tables db)\<lparr>db_hosts := H, db_snapshots := filter (\<lambda>s. snap_HostID s \<noteq> i) (db_snapshots (hd_tables db)),
        db_decisions := D, db_states := filter (\<lambda>s. hcs_HostID s \<noteq> i) (db_states (hd_tables db))\<rparr>,
      hd_accessTokens := filter (\<lambda>t. ht_HostID t \<noteq> i) (hd_accessTokens db)\<rparr>"
    by (simp add: cleared_def set_hosts_def upd_tables_def H_def D_def)
  have H: "filter (\<lambda>h. host_ID h \<noteq> i) H = filter (\<lambda>h. host_ID h \<noteq> i) (db_hosts (hd_tables db))"
    unfolding H_def by (rule filter_set_hosts) simp
  have D: "filter (\<lambda>d. dec_HostID d \<noteq> i) D = filter (\<lambda>d. dec_HostID d \<noteq> i) (db_decisions (hd_tables db))"
    unfolding D_def by (rule decisions_of_host [OF assms(1)])
  have "(h0\<lparr>host_LastSnapshotID := None\<rparr>)\<lparr>host_UpdatedAt := Some ?now\<rparr> \<in> set H" unfolding H_def using h0 by (force simp: hosts_of_def)
  then obtain r where r: "first_row (\<lambda>h. host_ID h = i) H = Some r" using first_row_exists [of _ H "\<lambda>h. host_ID h = i"] h0(2) by fastforce
  have 5: "DeleteHostByID i ?db4 = Inr (r, without_host i db)"
    unfolding db4 by (simp add: DeleteHostByID_def hosts_of_def r upd_tables_def without_host_def H D)
  note 4 = cleared_snapshots [OF assms(1), of i ?now, unfolded db4]
  show ?thesis unfolding delete_tx_def
    by (simp add: run_simps assms(3) h ClearHostLastSnapshotByID_def DeleteHostCurrentStateByHostID_def 3 4 5 [unfolded db4] del: reads_simps)
qed

lemma delete_tx_Inr:
  assumes "db_ok db" "delete_tx env i db = Inr (u, db')"
  shows "db' = without_host i db"
proof -
  let ?env = "env\<lparr>sv_fault := \<lambda>_. False\<rparr>"
  from assms(2) have "has_host i db"
    by (auto simp: delete_tx_def tx_Inr has_host_def dest!: first_row_Some)
  moreover have "delete_tx ?env i db = Inr (u, db')" using assms(2) by (auto simp: delete_tx_def tx_Inr)
  ultimately show ?thesis using delete_tx_ok [OF assms(1), of i ?env] by simp
qed

text \<open>C4: In a reachable state, deleting a host that succeeds leaves exactly the database without the rows of that host: the
  host, its snapshots, states, decisions, access tokens, pull configuration and pull jobs are gone and every other row is
  as it was. A deletion that fails changes nothing and publishes nothing. No foreign key can refuse it: if no call fails,
  deleting a host that exists succeeds.\<close>

theorem DeleteHost_complete:
  assumes "service_reach river s" "DeleteHost env actor hostID s = (s', r)"
  shows "(r = Inr () \<longrightarrow> sv_db s' = without_host (TrimSpace hostID) (sv_db s) \<and> has_host (TrimSpace hostID) (sv_db s)) \<and>
    (r \<noteq> Inr () \<longrightarrow> s' = s) \<and>
    ((\<forall>c. \<not> sv_fault env c) \<and> TrimSpace hostID \<noteq> [] \<and> has_host (TrimSpace hostID) (sv_db s) \<longrightarrow> r = Inr ())"
proof -
  let ?i = "TrimSpace hostID"
  note ok = service_reach_ok(1) [OF assms(1)]
  show ?thesis
  proof (cases "?i = []")
    case True
    then show ?thesis using assms(2) by (auto simp: DeleteHost_def)
  next
    case False
    obtain s1 q where tx: "in_tx env (delete_tx env ?i) s = (s1, q)" by (metis surj_pair)
    show ?thesis
    proof (cases q)
      case (Inl e)
      then have "s' = s" "r = Inl e" using assms(2) False tx in_tx_Inl by (auto simp: DeleteHost_def Let_def bind_svc_def)
      moreover have "\<not> ((\<forall>c. \<not> sv_fault env c) \<and> has_host ?i (sv_db s))"
        using tx Inl delete_tx_ok [OF ok, of ?i env] by (auto simp: in_tx_def split: if_splits)
      ultimately show ?thesis by auto
    next
      case (Inr u)
      obtain db where db: "delete_tx env ?i (sv_db s) = Inr (u, db)" "s1 = s\<lparr>sv_db := db\<rparr>" using in_tx_Inr [OF tx [unfolded Inr]] by blast
      have "sv_db s' = db" "r = Inr ()" using assms(2) False tx Inr db(2) by (auto simp: DeleteHost_def Let_def bind_svc_def)
      moreover have "has_host ?i (sv_db s)" using db(1) by (auto simp: delete_tx_def tx_Inr has_host_def dest!: first_row_Some)
      ultimately show ?thesis using delete_tx_Inr [OF ok db(1)] by simp
    qed
  qed
qed

section \<open>Registration and snapshots\<close>

lemma register_tx_Inr:
  assumes "register_tx env input db = Inr ((t, h, tok), db')"
  obtains m row where "rq_Metadata input = Some m"
    "first_row (\<lambda>t. rt_TokenHash t = sv_sha256 env (TrimSpace (rq_RegistrationToken input)) \<and> rt_RevokedAt t = None) (hd_regTokens db) = Some t"
    "tok = ''pb_host_'' @ sv_hex env" "hosts_of db' = hosts_of db @ [h]" "\<not> has_host (host_ID h) db"
    "host_ApprovalStatus h = (if rt_AutoApprove t then ''approved'' else ''waiting_approval'')"
    "hd_accessTokens db' = hd_accessTokens db @ [row]" "ht_HostID row = host_ID h" "ht_TokenHash row = sv_sha256 env tok" "ht_RevokedAt row = None"
    "\<forall>r \<in> set (hd_accessTokens db). ht_TokenHash r \<noteq> sv_sha256 env tok"
    "h = agent_host (sv_dbNow env) (host_ApprovalStatus h) (if rt_AutoApprove t then Some (sv_dbNow env) else None) (agent_params env input m)"
proof -
  from assms obtain m db2 row db3 where m: "rq_Metadata input = Some m"
    and t: "first_row (\<lambda>t. rt_TokenHash t = sv_sha256 env (TrimSpace (rq_RegistrationToken input)) \<and> rt_RevokedAt t = None) (hd_regTokens db) = Some t"
    and ins: "(if rt_AutoApprove t then InsertAgentHostApproved (sv_dbNow env) (agent_params env input m)
        else InsertAgentHost (sv_dbNow env) (agent_params env input m)) db = Inr (h, db2)"
    and tok: "tok = ''pb_host_'' @ sv_hex env"
    and row: "InsertHostAccessToken (sv_dbNow env) (id_New ''htok'' (sv_draw env ''htok'')) (host_ID h) (sv_sha256 env tok) db2 = Inr (row, db3)"
    and touch: "TouchRegistrationTokenLastUsed (sv_dbNow env) (rt_ID t) db3 = Inr ((), db')"
    by (auto simp: register_tx_def tx_Inr Let_def split: option.splits)
  let ?h = "agent_host (sv_dbNow env) (if rt_AutoApprove t then ''approved'' else ''waiting_approval'')
    (if rt_AutoApprove t then Some (sv_dbNow env) else None) (agent_params env input m)"
  have "insert_host ?h db = Inr (h, db2)"
    using ins by (cases "rt_AutoApprove t") (simp_all add: InsertAgentHost_def InsertAgentHostApproved_def)
  note new = insert_host_Inr [OF this]
  have db2: "hosts_of db2 = hosts_of db @ [h]" "hd_accessTokens db2 = hd_accessTokens db"
    using new(1,3) by (simp_all add: hosts_of_def)
  have tokens: "hd_accessTokens db3 = hd_accessTokens db2 @ [row]" "hosts_of db3 = hosts_of db2" "ht_HostID row = host_ID h"
      "ht_TokenHash row = sv_sha256 env tok" "ht_RevokedAt row = None" "\<forall>r \<in> set (hd_accessTokens db2). ht_TokenHash r \<noteq> sv_sha256 env tok"
    using row by (auto simp: InsertHostAccessToken_def Let_def split: if_splits)
  have db': "hd_accessTokens db' = hd_accessTokens db3" "hosts_of db' = hosts_of db3"
    using touch by (auto simp: TouchRegistrationTokenLastUsed_def)
  show ?thesis
    by (rule that [OF m t tok]) (use new(1,2) db2 tokens db' in \<open>simp_all add: has_host_iff agent_host_ids\<close>)
qed

lemma RegisterAgentHost_Inr:
  assumes "RegisterAgentHost env input s = (s', Inr resp)"
  obtains t h tok where "register_tx env input (sv_db s) = Inr ((t, h, tok), sv_db s')"
    "rs_HostId resp = host_ID h" "rs_HostAccessToken resp = tok" "rs_ApprovalStatus resp = host_ApprovalStatus h"
proof -
  from assms obtain s1 t h tok where tx: "in_tx env (register_tx env input) s = (s1, Inr (t, h, tok))" and db: "sv_db s' = sv_db s1"
    and resp: "rs_HostId resp = host_ID h" "rs_HostAccessToken resp = tok" "rs_ApprovalStatus resp = host_ApprovalStatus h"
    by (auto simp: RegisterAgentHost_def bind_svc_Inr Let_def split: if_splits option.splits)
  from in_tx_Inr [OF tx] have "register_tx env input (sv_db s) = Inr ((t, h, tok), sv_db s')" using db by auto
  then show thesis using resp by (rule that)
qed

text \<open>C9: An agent is registered only with a registration token that exists and is not revoked. A registration that succeeds
  adds one host under a fresh identifier, approved exactly when the token approves its hosts, and one access token; the
  token of the answer is the one that authenticates the new host, and no token given out before stops working. One that
  fails leaves the database, the events and the audit log as they were.\<close>

theorem RegisterAgentHost_access:
  assumes "RegisterAgentHost env input s = (s', r)"
  shows "(\<forall>e. r = Inl e \<longrightarrow> s' = s) \<and>
    (\<forall>resp. r = Inr resp \<longrightarrow>
       (\<exists>t \<in> set (hd_regTokens (sv_db s)). rt_TokenHash t = sv_sha256 env (TrimSpace (rq_RegistrationToken input)) \<and> rt_RevokedAt t = None \<and>
          rs_ApprovalStatus resp = (if rt_AutoApprove t then ''approved'' else ''waiting_approval'')) \<and>
       (\<exists>h. hosts_of (sv_db s') = hosts_of (sv_db s) @ [h] \<and> host_ID h = rs_HostId resp \<and> host_ApprovalStatus h = rs_ApprovalStatus resp) \<and>
       \<not> has_host (rs_HostId resp) (sv_db s) \<and>
       (\<exists>row. hd_accessTokens (sv_db s') = hd_accessTokens (sv_db s) @ [row] \<and> ht_HostID row = rs_HostId resp \<and>
          GetActiveHostAccessTokenByHash (sv_sha256 env (rs_HostAccessToken resp)) (sv_db s') = Inr (row, sv_db s')))"
proof (cases r)
  case (Inl e)
  then have "s' = s" using assms
    by (auto simp: RegisterAgentHost_def bind_svc_Inl Let_def dest: in_tx_Inl split: if_splits)
  with Inl show ?thesis by simp
next
  case (Inr resp)
  from assms [unfolded Inr] obtain t h tok where tx: "register_tx env input (sv_db s) = Inr ((t, h, tok), sv_db s')"
    and resp: "rs_HostId resp = host_ID h" "rs_HostAccessToken resp = tok" "rs_ApprovalStatus resp = host_ApprovalStatus h"
    by (rule RegisterAgentHost_Inr)
  from tx show ?thesis
  proof (rule register_tx_Inr)
    fix m row
    assume t: "first_row (\<lambda>t. rt_TokenHash t = sv_sha256 env (TrimSpace (rq_RegistrationToken input)) \<and> rt_RevokedAt t = None) (hd_regTokens (sv_db s)) = Some t"
      and h: "hosts_of (sv_db s') = hosts_of (sv_db s) @ [h]" "\<not> has_host (host_ID h) (sv_db s)"
        "host_ApprovalStatus h = (if rt_AutoApprove t then ''approved'' else ''waiting_approval'')"
      and row: "hd_accessTokens (sv_db s') = hd_accessTokens (sv_db s) @ [row]" "ht_HostID row = host_ID h" "ht_TokenHash row = sv_sha256 env tok"
        "ht_RevokedAt row = None" "\<forall>r \<in> set (hd_accessTokens (sv_db s)). ht_TokenHash r \<noteq> sv_sha256 env tok"
    have "first_row (\<lambda>x. ht_TokenHash x = sv_sha256 env tok \<and> ht_RevokedAt x = None) (hd_accessTokens (sv_db s')) = Some row"
      using row by (intro first_row_unique) auto
    then show ?thesis using Inr resp first_row_Some [OF t] h row(1,2) by auto
  qed
qed

lemma strip_keeps_last:
  assumes "\<forall>p \<in> set encs. last p \<noteq> c"
  shows "s \<noteq> [] \<Longrightarrow> last s = c \<Longrightarrow> Go_Strings.strip encs s \<noteq> []"
  using assms
proof (induction encs s rule: Go_Strings.strip.induct)
  case (1 encs s)
  show ?case
  proof (cases "enc_len encs s = 0")
    case True
    then show ?thesis using 1 by (simp add: strip_id)
  next
    case False
    have "\<exists>p \<in> set es. HasPrefix s p \<and> enc_len es s = length p" if "enc_len es s \<noteq> 0" for es
      using that by (induction es) (auto split: if_splits)
    from this [OF False] obtain p where p: "p \<in> set encs" "HasPrefix s p" "enc_len encs s = length p" by blast
    then obtain t where t: "s = p @ t" by (auto simp: HasPrefix_iff)
    have "t \<noteq> []"
    proof
      assume "t = []"
      then have "last p = c" using t 1(3) by simp
      then show False using p(1) 1(4) by blast
    qed
    then have "Go_Strings.strip encs t \<noteq> []" using 1(1) [OF False] 1(3,4) t p(3) by simp
    then show ?thesis using False t p(3) by (subst Go_Strings.strip.simps) simp
  qed
qed

lemma TrimSpace_plain: "plain c \<Longrightarrow> TrimSpace (c # s) \<noteq> []"
proof -
  assume c: "plain c"
  have "TrimLeftSpace (c # s) = c # s"
    unfolding TrimLeftSpace_def by (rule strip_id) (rule enc_len_plain_hd [OF c spaces_not_plain(1)])
  moreover have "\<forall>p \<in> set (map rev spaces). last p \<noteq> c" using c spaces_not_plain(1) by (auto simp: last_rev)
  from strip_keeps_last [OF this, of "rev (c # s)"] have "Go_Strings.strip (map rev spaces) (rev (c # s)) \<noteq> []" by simp
  ultimately show ?thesis by (simp add: TrimSpace_def TrimRightSpace_def)
qed

definition other_hosts :: "string \<Rightarrow> hosts_db \<Rightarrow> Host list" where
  "other_hosts i db = filter (\<lambda>h. host_ID h \<noteq> i) (hosts_of db)"

definition last_is :: "string \<Rightarrow> string \<Rightarrow> hosts_db \<Rightarrow> bool" where
  "last_is i sid db \<longleftrightarrow> (\<forall>h \<in> set (hosts_of db). host_ID h = i \<longrightarrow> host_LastSnapshotID h = Some sid)"

lemma other_hosts_set: "(\<And>h. host_ID (f h) = host_ID h) \<Longrightarrow> other_hosts i (set_hosts now i f db) = other_hosts i db"
  by (simp add: other_hosts_def set_hosts_def hosts_of_def filter_set_hosts)

lemma last_is_set: "(\<And>h. host_ID (f h) = host_ID h) \<Longrightarrow> (\<And>h. host_LastSnapshotID (f h) = Some sid) \<Longrightarrow> last_is i sid (set_hosts now i f db)"
  by (simp add: last_is_def set_hosts_def hosts_of_def ball_Un)

lemma store_snapshot_effect:
  "ok_after (store_snapshot env t host snapshot db) (\<lambda>x db'. fst x = host \<and> other_hosts (host_ID host) db' = other_hosts (host_ID host) db \<and>
     last_is (host_ID host) (snap_ID (snd x)) db' \<and> \<not> has_snapshot (snap_ID (snd x)) db \<and> owns (host_ID host) (snap_ID (snd x)) db')"
  unfolding store_snapshot_def Let_def
proof (intro svc_rules)
  fix row :: HostSnapshot and db1 h db2 u db3 v db4
  let ?i = "host_ID host"
  let ?upd = "case as_Host snapshot of None \<Rightarrow> 0 | Some p \<Rightarrow> ah_AvailablePackageUpdateCount p"
  let ?p = "payload_params ?i (UnwrapOr (as_SentAt snapshot) (sv_now env)) (snap_ID row) (as_Host snapshot)"
  assume ins: "InsertHostSnapshot (sv_dbNow env) (id_New ''snap'' (sv_draw env ''snap'')) ?i
      (TimestamptzFromTime (UnwrapOr (as_SentAt snapshot) (sv_now env))) (sv_bytes env snapshot)
      (case as_Runtime snapshot of None \<Rightarrow> [] | Some r \<Rightarrow> rt_KernelRunning r)
      (Option.bind (Option.bind (as_Host snapshot) ah_BootTime) TimestamptzFromTime)
      (case as_Runtime snapshot of None \<Rightarrow> False | Some r \<Rightarrow> rt_Processes r \<noteq> []) db = Inr (row, db1)"
    and upd: "UpdateHostFromSnapshot (sv_dbNow env) ?p db1 = Inr (h, db2)"
    and st: "upsert_state (update_state ?i (snap_ID row) ?upd) db2 = Inr (u, db3)"
    and touch: "TouchHostAccessTokenLastUsed (sv_dbNow env) t db3 = Inr (v, db4)"
  from ins have row: "snap_ID row = id_New ''snap'' (sv_draw env ''snap'')" "snap_HostID row = ?i" "\<not> has_snapshot (snap_ID row) db"
      "db1 = upd_tables (\<lambda>t. t\<lparr>db_snapshots := db_snapshots t @ [row]\<rparr>) db"
    by (auto simp: InsertHostSnapshot_def Let_def split: if_splits)
  have "TrimSpace (snap_ID row) \<noteq> []" using TrimSpace_plain [of "CHR ''s''"] by (simp add: row(1) id_New_def plain_def)
  then have last: "uh_LastSnapshotID ?p = Some (snap_ID row)" "uh_ID ?p = ?i"
    by (auto simp: payload_params_def Let_def nonzero_def EmptySpaceString_def split: option.split)
  from upd obtain f where db2: "db2 = set_hosts (sv_dbNow env) ?i f db1" and f: "\<And>h. host_ID (f h) = host_ID h"
      "\<And>h. host_LastSnapshotID (f h) = Some (snap_ID row)"
    using last by (auto simp: UpdateHostFromSnapshot_def split: if_splits elim!: set_hosts_cases)
  have h3: "hosts_of db3 = hosts_of db2" "owned db3 = owned db2"
    using st by (auto simp: upsert_state_def owned_def hosts_of_def UpsertHostCurrentState_def split: if_splits)
  have h4: "hosts_of db4 = hosts_of db3" "owned db4 = owned db3" using touch by (auto simp: TouchHostAccessTokenLastUsed_def)
  have "other_hosts ?i db4 = other_hosts ?i db1" "last_is ?i (snap_ID row) db4"
    using other_hosts_set [of f ?i "sv_dbNow env" db1, OF f(1)] last_is_set [of f "snap_ID row" ?i "sv_dbNow env" db1, OF f]
    by (simp_all add: other_hosts_def last_is_def h3 h4 db2)
  moreover have "other_hosts ?i db1 = other_hosts ?i db" by (simp add: other_hosts_def row(4) hosts_of_def)
  moreover have "owns ?i (snap_ID row) db4"
    using set_hosts_refs(2) [of f "sv_dbNow env" ?i db1, OF f(1)] by (simp add: owns_def h3 h4 db2) (simp add: owned_def row(2,4))
  ultimately show "fst (host, row) = host \<and> other_hosts ?i db4 = other_hosts ?i db \<and> last_is ?i (snap_ID (snd (host, row))) db4 \<and>
      \<not> has_snapshot (snap_ID (snd (host, row))) db \<and> owns ?i (snap_ID (snd (host, row))) db4"
    using row(3) by simp
qed

lemma refresh_scope_hosts:
  "other_hosts i (sv_db (refresh_scope env i a b c d e s)) = other_hosts i (sv_db s)"
  "last_is i sid (sv_db s) \<Longrightarrow> last_is i sid (sv_db (refresh_scope env i a b c d e s))"
  "owned (sv_db (refresh_scope env i a b c d e s)) = owned (sv_db s)"
proof -
  have o: "other_hosts i (db\<lparr>hd_scopes := x\<rparr>) = other_hosts i db" "last_is i sid (db\<lparr>hd_scopes := x\<rparr>) = last_is i sid db" for db x
    by (simp_all add: other_hosts_def last_is_def)
  have l: "last_is i sid (set_hosts n i (\<lambda>h. h\<lparr>host_AdvisoryScopeKey := k\<rparr>) db)" if "last_is i sid db" for n k db
    using that by (simp add: last_is_def set_hosts_def hosts_of_def ball_Un)
  show "other_hosts i (sv_db (refresh_scope env i a b c d e s)) = other_hosts i (sv_db s)"
    "last_is i sid (sv_db s) \<Longrightarrow> last_is i sid (sv_db (refresh_scope env i a b c d e s))"
    "owned (sv_db (refresh_scope env i a b c d e s)) = owned (sv_db s)"
    by (auto simp: refresh_scope_def Let_def on_pool_def exec_def UpdateHostAdvisoryScopeKey_def o other_hosts_set l set_hosts_refs(2)
        split: prod.split)
qed

lemma match_snapshot_hosts:
  assumes "ranges_ok (env_ranges (sv_match env))"
  shows "hosts_of (sv_db (match_snapshot env i sid s)) = hosts_of (sv_db s)" "owned (sv_db (match_snapshot env i sid s)) = owned (sv_db s)"
proof -
  obtain t ev r where m: "MatchSnapshot (sv_match env) i sid (hd_tables (sv_db s), sv_published s) = ((t, ev), r)" by (metis surj_pair)
  then have "db_hosts t = db_hosts (hd_tables (sv_db s)) \<and> db_snapshots t = db_snapshots (hd_tables (sv_db s))"
    using assms by (cases rule: MatchSnapshot_cases [of "sv_match env" i sid "(hd_tables (sv_db s), sv_published s)"])
      (auto simp: rematched_tables elim!: match_in_tx_Inr)
  then show "hosts_of (sv_db (match_snapshot env i sid s)) = hosts_of (sv_db s)" "owned (sv_db (match_snapshot env i sid s)) = owned (sv_db s)"
    by (simp_all add: match_snapshot_def hosts_of_def owned_def m)
qed

lemma IngestAgentSnapshot_stored:
  assumes "IngestAgentSnapshot env token snapshot s = (s', Inr resp)" "ranges_ok (env_ranges (sv_match env))"
  shows "(\<exists>t h. t \<in> set (hd_accessTokens (sv_db s)) \<and> ht_TokenHash t = sv_sha256 env (TrimSpace token) \<and> ht_RevokedAt t = None \<and>
       h \<in> set (hosts_of (sv_db s)) \<and> host_ID h = ht_HostID t \<and> sr_HostId resp = host_ID h \<and> host_ApprovalStatus h = ''approved'' \<and>
       \<not> identity_mismatch h (as_Host snapshot)) \<and>
    \<not> has_snapshot (sr_SnapshotId resp) (sv_db s) \<and> owns (sr_HostId resp) (sr_SnapshotId resp) (sv_db s') \<and>
    last_is (sr_HostId resp) (sr_SnapshotId resp) (sv_db s') \<and>
    other_hosts (sr_HostId resp) (sv_db s') = other_hosts (sr_HostId resp) (sv_db s)"
proof -
  from assms(1) obtain s1 h row where tx: "in_tx env (ingest_tx env (TrimSpace token) snapshot) s = (s1, Inr (h, row))"
    and resp: "sr_HostId resp = host_ID h" "sr_SnapshotId resp = snap_ID row"
    and s': "sv_db s' = sv_db (match_snapshot env (host_ID h) (snap_ID row)
      (let p = payload_params (host_ID h) (sv_now env) (snap_ID row) (as_Host snapshot)
       in refresh_scope env (host_ID h) (uh_OsFamily p) (uh_OsName p) (uh_OsVersion p) (uh_OsMajor p) (uh_Architecture p) s1))"
    by (auto simp: IngestAgentSnapshot_def Let_def bind_svc_Inr split: if_splits)
  from in_tx_Inr [OF tx] have "ingest_tx env (TrimSpace token) snapshot (sv_db s) = Inr ((h, row), sv_db s1)" by auto
  then obtain t h0 where t: "first_row (\<lambda>t. ht_TokenHash t = sv_sha256 env (TrimSpace token) \<and> ht_RevokedAt t = None) (hd_accessTokens (sv_db s)) = Some t"
    and h0: "first_row (\<lambda>h. host_ID h = ht_HostID t) (hosts_of (sv_db s)) = Some h0" "host_ApprovalStatus h0 = ''approved''"
      "\<not> identity_mismatch h0 (as_Host snapshot)"
    and st: "store_snapshot env (ht_ID t) h0 snapshot (sv_db s) = Inr ((h, row), sv_db s1)"
    by (auto simp: ingest_tx_def tx_Inr split: if_splits)
  note eff = ok_afterD [OF store_snapshot_effect st, simplified]
  then have h: "h0 = h" by simp
  let ?p = "payload_params (host_ID h) (sv_now env) (snap_ID row) (as_Host snapshot)"
  let ?s2 = "refresh_scope env (host_ID h) (uh_OsFamily ?p) (uh_OsName ?p) (uh_OsVersion ?p) (uh_OsMajor ?p) (uh_Architecture ?p) s1"
  have m: "hosts_of (sv_db s') = hosts_of (sv_db ?s2)" "owned (sv_db s') = owned (sv_db ?s2)"
    using match_snapshot_hosts [OF assms(2)] by (simp_all add: s' Let_def)
  have "other_hosts (host_ID h) (sv_db s') = other_hosts (host_ID h) (sv_db ?s2)" "last_is (host_ID h) (snap_ID row) (sv_db s') = last_is (host_ID h) (snap_ID row) (sv_db ?s2)"
    "owns (host_ID h) (snap_ID row) (sv_db s') = owns (host_ID h) (snap_ID row) (sv_db ?s2)"
    by (simp_all only: other_hosts_def last_is_def owns_def m)
  moreover have "last_is (host_ID h) (snap_ID row) (sv_db s1)" "owns (host_ID h) (snap_ID row) (sv_db s1)"
      "other_hosts (host_ID h) (sv_db s1) = other_hosts (host_ID h) (sv_db s)" "\<not> has_snapshot (snap_ID row) (sv_db s)" using eff by simp_all
  ultimately have "other_hosts (host_ID h) (sv_db s') = other_hosts (host_ID h) (sv_db s)" "last_is (host_ID h) (snap_ID row) (sv_db s')"
      "owns (host_ID h) (snap_ID row) (sv_db s')" "\<not> has_snapshot (snap_ID row) (sv_db s)"
    by (simp_all add: refresh_scope_hosts owns_def)
  moreover have "t \<in> set (hd_accessTokens (sv_db s))" "ht_TokenHash t = sv_sha256 env (TrimSpace token)" "ht_RevokedAt t = None"
      "h \<in> set (hosts_of (sv_db s))" "host_ID h = ht_HostID t"
    using first_row_Some [OF t] first_row_Some [OF h0(1)] h by simp_all
  ultimately show ?thesis using resp h0(2,3) h by (auto intro!: bexI [of _ t] exI [of _ t] exI [of _ h])
qed

text \<open>C2: A snapshot is accepted only from the holder of an access token that is not revoked, whose host is approved, and
  whose machine identifier does not contradict the stored one. It is then stored under a fresh identifier as a snapshot of
  that host and becomes the host's last snapshot, and the rows of all other hosts are as they were. A snapshot that is
  refused leaves the whole state as it was; what follows the commit (the scope, matching) never refuses it.\<close>

theorem IngestAgentSnapshot_authorized:
  assumes "IngestAgentSnapshot env token snapshot s = (s', r)" "ranges_ok (env_ranges (sv_match env))"
  shows "(\<forall>e. r = Inl e \<longrightarrow> s' = s) \<and>
    (\<forall>resp. r = Inr resp \<longrightarrow>
       (\<exists>t h. t \<in> set (hd_accessTokens (sv_db s)) \<and> ht_TokenHash t = sv_sha256 env (TrimSpace token) \<and> ht_RevokedAt t = None \<and>
          h \<in> set (hosts_of (sv_db s)) \<and> host_ID h = ht_HostID t \<and> sr_HostId resp = host_ID h \<and> host_ApprovalStatus h = ''approved'' \<and>
          \<not> identity_mismatch h (as_Host snapshot)) \<and>
       \<not> has_snapshot (sr_SnapshotId resp) (sv_db s) \<and> owns (sr_HostId resp) (sr_SnapshotId resp) (sv_db s') \<and>
       last_is (sr_HostId resp) (sr_SnapshotId resp) (sv_db s') \<and>
       other_hosts (sr_HostId resp) (sv_db s') = other_hosts (sr_HostId resp) (sv_db s))"
proof (cases r)
  case (Inl e)
  then have "s' = s" using assms(1)
    by (auto simp: IngestAgentSnapshot_def Let_def bind_svc_Inl dest: in_tx_Inl split: if_splits)
  with Inl show ?thesis by simp
next
  case (Inr resp)
  then show ?thesis using IngestAgentSnapshot_stored [OF assms(1) [unfolded Inr] assms(2)] by simp
qed

section \<open>Approval\<close>

lemma has_snapshot_set_hosts [simp]: "has_snapshot j (set_hosts now i f db) = has_snapshot j db"
  by (simp add: has_snapshot_def set_hosts_def)

lemma has_host_set_hosts: "(\<And>h. host_ID (f h) = host_ID h) \<Longrightarrow> has_host j (set_hosts now i f db) = has_host j db"
  using set_hosts_refs(1) [of f now i db] by (simp add: has_host_iff)

text \<open>A host that exists takes a snapshot when no call fails, the identifier is fresh and the payload and the time can be stored.\<close>

lemma store_snapshot_ok:
  assumes "\<And>c. \<not> sv_fault env c" "has_host (host_ID host) db" "\<not> has_snapshot (id_New ''snap'' (sv_draw env ''snap'')) db"
    and "sv_bytes env snapshot \<noteq> None" "UnwrapOr (as_SentAt snapshot) (sv_now env) \<noteq> zero_time"
  shows "\<exists>row db'. store_snapshot env t host snapshot db = Inr ((host, row), db')"
proof -
  let ?i = "host_ID host" and ?at = "UnwrapOr (as_SentAt snapshot) (sv_now env)" and ?sid = "id_New ''snap'' (sv_draw env ''snap'')"
  let ?kernel = "case as_Runtime snapshot of None \<Rightarrow> [] | Some r \<Rightarrow> rt_KernelRunning r"
  let ?boot = "Option.bind (Option.bind (as_Host snapshot) ah_BootTime) TimestamptzFromTime"
  let ?proc = "case as_Runtime snapshot of None \<Rightarrow> False | Some r \<Rightarrow> rt_Processes r \<noteq> []"
  let ?n = "case as_Host snapshot of None \<Rightarrow> 0 | Some p \<Rightarrow> ah_AvailablePackageUpdateCount p"
  obtain row db1 where row: "InsertHostSnapshot (sv_dbNow env) ?sid ?i (TimestamptzFromTime ?at) (sv_bytes env snapshot) ?kernel ?boot ?proc db = Inr (row, db1)"
      "snap_ID row = ?sid" "db1 = upd_tables (\<lambda>t. t\<lparr>db_snapshots := db_snapshots t @ [row]\<rparr>) db"
    using assms(2-5) by (simp add: InsertHostSnapshot_def TimestamptzFromTime_def Let_def)
  let ?p = "payload_params ?i ?at (snap_ID row) (as_Host snapshot)"
  have db1: "has_host ?i db1" "has_snapshot (snap_ID row) db1"
    using assms(2) by (simp_all add: row(3) has_host_def hosts_of_def has_snapshot_def)
  have p: "uh_ID ?p = ?i" "uh_LastSnapshotID ?p = None \<or> uh_LastSnapshotID ?p = Some (snap_ID row)"
    by (auto simp: payload_params_def Let_def nonzero_def EmptySpaceString_def split: option.split)
  obtain h where h: "h \<in> set (hosts_of db1)" "host_ID h = ?i" using db1(1) by (auto simp: has_host_def)
  obtain h1 where h1: "first_row (\<lambda>h. host_ID h = ?i) (hosts_of db1) = Some h1" using first_row_exists [of h "hosts_of db1" "\<lambda>h. host_ID h = ?i"] h by auto
  obtain h2 db2 where upd: "UpdateHostFromSnapshot (sv_dbNow env) ?p db1 = Inr (h2, db2)" "has_host ?i db2" "has_snapshot (snap_ID row) db2"
    using p db1 h1 by (auto simp: UpdateHostFromSnapshot_def snapshot_ref_ok_def update_host_returning_def has_host_set_hosts)
  then have st: "upsert_state (update_state ?i (snap_ID row) ?n) db2 = Inr ((), upd_tables (UpsertHostCurrentState (update_state ?i (snap_ID row) ?n)) db2)"
    by (simp add: upsert_state_def update_state_def)
  show ?thesis unfolding store_snapshot_def Let_def
    by (simp only: run_simps(1) [where st = "InsertHostSnapshot _ _ _ _ _ _ _ _", OF assms(1) row(1)]
        run_simps(1) [where st = "UpdateHostFromSnapshot _ _", OF assms(1) upd(1)] run_simps(1) [where st = "upsert_state _", OF assms(1) st])
      (simp add: run_simps assms(1) TouchHostAccessTokenLastUsed_def)
qed

lemma ApproveHost_ok:
  assumes "db_ok (sv_db s)" "\<And>c. \<not> sv_fault env c" "get_host i (sv_db s) = Inr (h, sv_db s)"
  obtains s1 info where "ApproveHost env actor i s = (s1, Inr info)" "hi_ApprovalStatus info = ''approved''"
    "get_host i (sv_db s1) = Inr (h\<lparr>host_ApprovalStatus := ''approved'', host_ApprovedAt := Some (sv_dbNow env), host_UpdatedAt := Some (sv_dbNow env)\<rparr>, sv_db s1)"
    "hd_accessTokens (sv_db s1) = hd_accessTokens (sv_db s)" "\<And>j. has_snapshot j (sv_db s1) = has_snapshot j (sv_db s)"
proof -
  let ?f = "\<lambda>h :: Host. h\<lparr>host_ApprovalStatus := ''approved'', host_ApprovedAt := Some (sv_dbNow env)\<rparr>"
  let ?g = "\<lambda>h. if host_ID h = i then (?f h)\<lparr>host_UpdatedAt := Some (sv_dbNow env)\<rparr> else h"
  let ?db = "set_hosts (sv_dbNow env) i ?f (sv_db s)"
  have row: "first_row (\<lambda>h. host_ID h = i) (hosts_of (sv_db s)) = Some h"
    using assms(3) by (simp add: get_host_def select_one_def split: option.splits)
  then have "host_ID h = i" using first_row_Some [OF row] by simp
  have map_row: "first_row (\<lambda>h. host_ID h = i) (map ?g hs) = map_option ?g (first_row (\<lambda>h. host_ID h = i) hs)" for hs by (induction hs) auto
  have h: "get_host i ?db = Inr ((?f h)\<lparr>host_UpdatedAt := Some (sv_dbNow env)\<rparr>, ?db)"
    using row \<open>host_ID h = i\<close> map_row [of "hosts_of (sv_db s)"]
    by (simp add: get_host_def select_one_def hosts_of_def set_hosts_def)
  have ap: "ApproveHostByID (sv_dbNow env) i (sv_db s) = Inr ((?f h)\<lparr>host_UpdatedAt := Some (sv_dbNow env)\<rparr>, ?db)"
    using row by (simp add: ApproveHostByID_def update_host_returning_def)
  have "\<exists>s1. ApproveHost env actor i s = (s1, Inr (mapHost ((?f h)\<lparr>host_UpdatedAt := Some (sv_dbNow env)\<rparr>) None)) \<and> sv_db s1 = ?db"
    by (simp add: ApproveHost_def on_pool_def bind_svc_def exec_def assms(2) ap Required_def)
  then obtain s1 where s1: "ApproveHost env actor i s = (s1, Inr (mapHost ((?f h)\<lparr>host_UpdatedAt := Some (sv_dbNow env)\<rparr>) None))" "sv_db s1 = ?db" by blast
  show thesis
    by (rule that [OF s1(1)]) (use h s1(2) in \<open>simp_all add: mapHost_def set_hosts_refs\<close>)
qed

lemma IngestAgentSnapshot_ok:
  assumes "\<And>c. \<not> sv_fault env c" "TrimSpace token \<noteq> []"
    and "GetActiveHostAccessTokenByHash (sv_sha256 env (TrimSpace token)) (sv_db s) = Inr (t, sv_db s)"
    and "get_host (ht_HostID t) (sv_db s) = Inr (h, sv_db s)" "host_ApprovalStatus h = ''approved''" "\<not> identity_mismatch h (as_Host snapshot)"
    and "\<not> has_snapshot (id_New ''snap'' (sv_draw env ''snap'')) (sv_db s)"
    and "sv_bytes env snapshot \<noteq> None" "UnwrapOr (as_SentAt snapshot) (sv_now env) \<noteq> zero_time"
  shows "\<exists>s' resp. IngestAgentSnapshot env token snapshot s = (s', Inr resp) \<and> sr_Accepted resp \<and> sr_HostId resp = ht_HostID t"
proof -
  have h: "host_ID h = ht_HostID t" "has_host (host_ID h) (sv_db s)"
    using assms(4) by (auto simp: get_host_def select_one_def has_host_def split: option.splits dest: first_row_Some)
  obtain row db' where st: "store_snapshot env (ht_ID t) h snapshot (sv_db s) = Inr ((h, row), db')"
    using store_snapshot_ok [OF assms(1) h(2) assms(7-9)] by blast
  have "ingest_tx env (TrimSpace token) snapshot (sv_db s) = Inr ((h, row), db')"
    unfolding ingest_tx_def by (simp only: run_simps(2) [where st = "GetActiveHostAccessTokenByHash _", OF assms(1,3)]
        run_simps(2) [where st = "get_host _", OF assms(1,4)] assms(5,6) st not_False_eq_True simp_thms if_False)
  then have "in_tx env (ingest_tx env (TrimSpace token) snapshot) s = (s\<lparr>sv_db := db'\<rparr>, Inr (h, row))"
    using assms(1) by (simp add: in_tx_def)
  then show ?thesis using assms(2) h(1) by (simp add: IngestAgentSnapshot_def Let_def bind_svc_def)
qed

lemma IngestAgentSnapshot_unapproved:
  assumes "\<And>c. \<not> sv_fault env c" "TrimSpace token \<noteq> []"
    and "GetActiveHostAccessTokenByHash (sv_sha256 env (TrimSpace token)) (sv_db s) = Inr (t, sv_db s)"
    and "get_host (ht_HostID t) (sv_db s) = Inr (h, sv_db s)" "host_ApprovalStatus h \<noteq> ''approved''"
  shows "IngestAgentSnapshot env token snapshot s = (s, Inl (AppErr ErrHostNotApproved))"
proof -
  have "ingest_tx env (TrimSpace token) snapshot (sv_db s) = Inl (AppErr ErrHostNotApproved)"
    unfolding ingest_tx_def by (simp only: run_simps(2) [where st = "GetActiveHostAccessTokenByHash _", OF assms(1,3)]
        run_simps(2) [where st = "get_host _", OF assms(1,4)] assms(5) not_False_eq_True if_True)
  then show ?thesis using assms(1,2) by (simp add: IngestAgentSnapshot_def Let_def bind_svc_def in_tx_def)
qed

text \<open>Approval is what lets an agent in. While the host of an access token is not approved, every snapshot sent with the
  token is refused as not approved and changes nothing. If no call fails, approving the host succeeds, and the next
  snapshot that does not contradict the machine identifier is accepted for that host, given a fresh identifier and a
  payload and a time that can be stored.\<close>

theorem approval_admits:
  assumes "service_reach river s" "\<forall>c. \<not> sv_fault env c" "TrimSpace token \<noteq> []"
    and "GetActiveHostAccessTokenByHash (sv_sha256 env (TrimSpace token)) (sv_db s) = Inr (t, sv_db s)"
    and "get_host (ht_HostID t) (sv_db s) = Inr (h, sv_db s)" "host_ApprovalStatus h \<noteq> ''approved''"
  shows "IngestAgentSnapshot env token snapshot s = (s, Inl (AppErr ErrHostNotApproved)) \<and>
    (\<exists>s1 info. ApproveHost env actor (ht_HostID t) s = (s1, Inr info) \<and> hi_ApprovalStatus info = ''approved'' \<and>
      (\<not> identity_mismatch h (as_Host snapshot) \<and> \<not> has_snapshot (id_New ''snap'' (sv_draw env ''snap'')) (sv_db s) \<and>
       sv_bytes env snapshot \<noteq> None \<and> UnwrapOr (as_SentAt snapshot) (sv_now env) \<noteq> zero_time \<longrightarrow>
       (\<exists>s2 resp. IngestAgentSnapshot env token snapshot s1 = (s2, Inr resp) \<and> sr_Accepted resp \<and> sr_HostId resp = ht_HostID t)))"
proof
  show "IngestAgentSnapshot env token snapshot s = (s, Inl (AppErr ErrHostNotApproved))"
    by (rule IngestAgentSnapshot_unapproved [OF assms(2) [THEN spec] assms(3-6)])
  let ?h = "h\<lparr>host_ApprovalStatus := ''approved'', host_ApprovedAt := Some (sv_dbNow env), host_UpdatedAt := Some (sv_dbNow env)\<rparr>"
  obtain s1 info where s1: "ApproveHost env actor (ht_HostID t) s = (s1, Inr info)" "hi_ApprovalStatus info = ''approved''"
    "get_host (ht_HostID t) (sv_db s1) = Inr (?h, sv_db s1)"
    "hd_accessTokens (sv_db s1) = hd_accessTokens (sv_db s)" "\<And>j. has_snapshot j (sv_db s1) = has_snapshot j (sv_db s)"
    using ApproveHost_ok [OF service_reach_ok(1) [OF assms(1)] assms(2) [THEN spec] assms(5)] by metis
  have tok: "GetActiveHostAccessTokenByHash (sv_sha256 env (TrimSpace token)) (sv_db s1) = Inr (t, sv_db s1)"
    using assms(4) by (simp add: GetActiveHostAccessTokenByHash_def select_one_def s1(4) split: option.splits)
  have "identity_mismatch ?h p = identity_mismatch h p" for p by (simp add: identity_mismatch_def)
  then show "\<exists>s1 info. ApproveHost env actor (ht_HostID t) s = (s1, Inr info) \<and> hi_ApprovalStatus info = ''approved'' \<and>
      (\<not> identity_mismatch h (as_Host snapshot) \<and> \<not> has_snapshot (id_New ''snap'' (sv_draw env ''snap'')) (sv_db s) \<and>
       sv_bytes env snapshot \<noteq> None \<and> UnwrapOr (as_SentAt snapshot) (sv_now env) \<noteq> zero_time \<longrightarrow>
       (\<exists>s2 resp. IngestAgentSnapshot env token snapshot s1 = (s2, Inr resp) \<and> sr_Accepted resp \<and> sr_HostId resp = ht_HostID t))"
    using s1(1,2) IngestAgentSnapshot_ok [OF assms(2) [THEN spec] assms(3) tok s1(3)] s1(5) by auto
qed

section \<open>A service at work\<close>

definition sample_service_env :: service_env where
  "sample_service_env = \<lparr>sv_fault = (\<lambda>_. False), sv_dbNow = 10, sv_now = 9, sv_draw = (\<lambda>_. ''1''), sv_hex = ''ab'', sv_sha256 = (\<lambda>x. ''#'' @ x),
     sv_users = (\<lambda>u. if u = ''u_1'' then Some ''a@b'' else None), sv_bytes = (\<lambda>_. Some ''p''), sv_marshal = (\<lambda>_. Some ''p''), sv_match = sample_env,
     sv_audit = \<lparr>au_marshal = (\<lambda>_. Some ''m''), au_insertFails = (\<lambda>_. False), au_id = (\<lambda>_. ''audit_1''), au_now = (\<lambda>_. 10)\<rparr>,
     sv_river = sample_river, sv_mappings = [], sv_scopeInsertFails = False, sv_keyPair = (''pub'', ''key''), sv_encrypt = Some, sv_decrypt = Some,
     sv_globalKey = None, sv_run = (\<lambda>_ _ _ _. Inl ''refused''), sv_message = (\<lambda>_. ''error''), sv_stateUpdatedAt = (\<lambda>_. None), sv_collate = (\<lambda>x. x)\<rparr>"

definition sample_start :: service where
  "sample_start = \<lparr>sv_db = \<lparr>hd_tables = empty_tables, hd_regTokens = [], hd_accessTokens = [], hd_pulls = [], hd_jobs = [], hd_scopes = []\<rparr>,
     sv_published = [], sv_auditLog = [], sv_periodic = NewPeriodicJobManager\<rparr>"

definition sample_request :: RegisterHostRequest where
  "sample_request = \<lparr>rq_RegistrationToken = ''pb_reg_ab'', rq_Hostname = ''web'', rq_MachineId = ''m1'',
     rq_Metadata = Some \<lparr>rm_IpAddress = [], rm_OsName = [], rm_OsVersion = [], rm_Architecture = ''amd64''\<rparr>\<rparr>"

definition sample_snapshot :: AgentSnapshot where
  "sample_snapshot = \<lparr>as_SchemaVersion = [], as_SentAt = None, as_Host = None, as_Repos = [], as_Packages = [], as_Runtime = None, as_UpgradablePackages = []\<rparr>"

text \<open>After a registration token was created, and after an agent has registered with it\<close>

definition sample_with_token :: service where
  "sample_with_token = fst (CreateRegistrationToken sample_service_env SystemActorRef ''u_1'' [] False sample_start)"

definition sample_registered :: service where
  "sample_registered = fst (RegisterAgentHost sample_service_env sample_request sample_with_token)"

lemma sample_reach: "service_reach sample_river sample_with_token" "service_reach sample_river sample_registered"
proof -
  show 1: "service_reach sample_river sample_with_token" unfolding sample_with_token_def sample_start_def
    by (intro service_reach.create_token service_reach.start manager_reach.intros) (simp_all add: empty_tables_def)
  show "service_reach sample_river sample_registered" unfolding sample_registered_def by (intro service_reach.register 1)
qed

lemma sample_registered_db:
  "map host_ID (hosts_of (sv_db sample_registered)) = [''h_1'']" "map host_ApprovalStatus (hosts_of (sv_db sample_registered)) = [''waiting_approval'']"
  "map ht_HostID (hd_accessTokens (sv_db sample_registered)) = [''h_1'']" "map ht_TokenHash (hd_accessTokens (sv_db sample_registered)) = [''#pb_host_ab'']"
  by code_simp+

text \<open>The token of the registered agent authenticates its host, which waits for approval.\<close>

lemma sample_token:
  obtains t h where "GetActiveHostAccessTokenByHash (sv_sha256 sample_service_env (TrimSpace ''pb_host_ab'')) (sv_db sample_registered) = Inr (t, sv_db sample_registered)"
    "get_host (ht_HostID t) (sv_db sample_registered) = Inr (h, sv_db sample_registered)" "host_ApprovalStatus h = ''waiting_approval''" "ht_HostID t = ''h_1''"
proof -
  obtain h where h: "hosts_of (sv_db sample_registered) = [h]" "host_ID h = ''h_1''" "host_ApprovalStatus h = ''waiting_approval''"
    using sample_registered_db(1,2) by auto
  obtain t where t: "hd_accessTokens (sv_db sample_registered) = [t]" "ht_HostID t = ''h_1''" "ht_TokenHash t = ''#pb_host_ab''"
    using sample_registered_db(3,4) by auto
  have "map ht_RevokedAt (hd_accessTokens (sv_db sample_registered)) = [None]" by code_simp
  then have "ht_RevokedAt t = None" using t(1) by simp
  moreover have "sv_sha256 sample_service_env (TrimSpace ''pb_host_ab'') = ''#pb_host_ab''" by code_simp
  ultimately show thesis using that [of t h] h t by simp
qed

lemma sample_faults: "\<not> sv_fault sample_service_env c" "ranges_ok (env_ranges (sv_match sample_service_env))" "sv_river sample_service_env = sample_river"
  by (simp_all add: sample_service_env_def sample_env_def ranges_ok_orders)

lemma sample_snapshot_fits:
  "TrimSpace ''pb_host_ab'' \<noteq> []" "\<not> identity_mismatch h (as_Host sample_snapshot)"
  "\<not> has_snapshot (id_New ''snap'' (sv_draw sample_service_env ''snap'')) (sv_db sample_registered)"
  "sv_bytes sample_service_env sample_snapshot \<noteq> None" "UnwrapOr (as_SentAt sample_snapshot) (sv_now sample_service_env) \<noteq> zero_time"
proof -
  show "TrimSpace ''pb_host_ab'' \<noteq> []" by code_simp
  have "db_snapshots (hd_tables (sv_db sample_registered)) = []" by code_simp
  then show "\<not> has_snapshot (id_New ''snap'' (sv_draw sample_service_env ''snap'')) (sv_db sample_registered)" by (simp add: has_snapshot_def)
qed (simp_all add: identity_mismatch_def sample_snapshot_def sample_service_env_def zero_time_def)


theorem DeleteHost_complete_witness:
  "snd (DeleteHost sample_service_env SystemActorRef ''h_1'' sample_registered) = Inr () \<and>
   sv_db (fst (DeleteHost sample_service_env SystemActorRef ''h_1'' sample_registered)) = without_host ''h_1'' (sv_db sample_registered) \<and>
   hosts_of (sv_db sample_registered) \<noteq> [] \<and> hosts_of (without_host ''h_1'' (sv_db sample_registered)) = []"
proof -
  have t: "TrimSpace ''h_1'' = ''h_1''" by code_simp
  obtain h where h: "hosts_of (sv_db sample_registered) = [h]" "host_ID h = ''h_1''" using sample_registered_db(1) by auto
  have "DeleteHost sample_service_env SystemActorRef ''h_1'' sample_registered =
      (fst (DeleteHost sample_service_env SystemActorRef ''h_1'' sample_registered), snd (DeleteHost sample_service_env SystemActorRef ''h_1'' sample_registered))" by simp
  from DeleteHost_complete [OF sample_reach(2) this] show ?thesis
    using h sample_faults(1) by (simp add: t has_host_def) (simp add: without_host_def hosts_of_def)
qed

theorem RegisterAgentHost_access_witness:
  "\<exists>resp row. snd (RegisterAgentHost sample_service_env sample_request sample_with_token) = Inr resp \<and> rs_ApprovalStatus resp = ''waiting_approval'' \<and>
     hd_accessTokens (sv_db sample_registered) = hd_accessTokens (sv_db sample_with_token) @ [row] \<and> ht_HostID row = rs_HostId resp \<and>
     GetActiveHostAccessTokenByHash (sv_sha256 sample_service_env (rs_HostAccessToken resp)) (sv_db sample_registered) = Inr (row, sv_db sample_registered)"
proof -
  have "map_sum (\<lambda>_. ()) rs_ApprovalStatus (snd (RegisterAgentHost sample_service_env sample_request sample_with_token)) = Inr ''waiting_approval''" by code_simp
  then obtain resp where resp: "snd (RegisterAgentHost sample_service_env sample_request sample_with_token) = Inr resp" "rs_ApprovalStatus resp = ''waiting_approval''"
    by (cases "snd (RegisterAgentHost sample_service_env sample_request sample_with_token)") auto
  then have "RegisterAgentHost sample_service_env sample_request sample_with_token = (sample_registered, Inr resp)"
    by (simp add: sample_registered_def prod_eq_iff)
  from RegisterAgentHost_access [OF this] show ?thesis using resp by auto
qed

theorem approval_admits_witness:
  "\<exists>s1 s2 resp. IngestAgentSnapshot sample_service_env ''pb_host_ab'' sample_snapshot sample_registered = (sample_registered, Inl (AppErr ErrHostNotApproved)) \<and>
     fst (ApproveHost sample_service_env SystemActorRef ''h_1'' sample_registered) = s1 \<and>
     IngestAgentSnapshot sample_service_env ''pb_host_ab'' sample_snapshot s1 = (s2, Inr resp) \<and> sr_HostId resp = ''h_1''"
proof (rule sample_token)
  fix t h assume t: "GetActiveHostAccessTokenByHash (sv_sha256 sample_service_env (TrimSpace ''pb_host_ab'')) (sv_db sample_registered) = Inr (t, sv_db sample_registered)"
    "get_host (ht_HostID t) (sv_db sample_registered) = Inr (h, sv_db sample_registered)" "host_ApprovalStatus h = ''waiting_approval''" "ht_HostID t = ''h_1''"
  have "\<forall>c. \<not> sv_fault sample_service_env c" "host_ApprovalStatus h \<noteq> ''approved''" using sample_faults(1) t(3) by simp_all
  from approval_admits [OF sample_reach(2) this(1) sample_snapshot_fits(1) t(1,2) this(2), of sample_snapshot SystemActorRef] show ?thesis
    using sample_snapshot_fits(2-5) t(4) by auto
qed

text \<open>After the approval the snapshot is accepted.\<close>

theorem IngestAgentSnapshot_authorized_witness:
  "\<exists>s s' resp. s = fst (ApproveHost sample_service_env SystemActorRef ''h_1'' sample_registered) \<and>
     IngestAgentSnapshot sample_service_env ''pb_host_ab'' sample_snapshot s = (s', Inr resp) \<and>
     \<not> has_snapshot (sr_SnapshotId resp) (sv_db s) \<and> owns (sr_HostId resp) (sr_SnapshotId resp) (sv_db s') \<and>
     last_is (sr_HostId resp) (sr_SnapshotId resp) (sv_db s')"
proof (rule sample_token)
  fix t h assume t: "GetActiveHostAccessTokenByHash (sv_sha256 sample_service_env (TrimSpace ''pb_host_ab'')) (sv_db sample_registered) = Inr (t, sv_db sample_registered)"
    "get_host (ht_HostID t) (sv_db sample_registered) = Inr (h, sv_db sample_registered)" "host_ApprovalStatus h = ''waiting_approval''" "ht_HostID t = ''h_1''"
  let ?h = "h\<lparr>host_ApprovalStatus := ''approved'', host_ApprovedAt := Some (sv_dbNow sample_service_env), host_UpdatedAt := Some (sv_dbNow sample_service_env)\<rparr>"
  obtain s1 info where s1: "ApproveHost sample_service_env SystemActorRef (ht_HostID t) sample_registered = (s1, Inr info)"
    "get_host (ht_HostID t) (sv_db s1) = Inr (?h, sv_db s1)"
    "hd_accessTokens (sv_db s1) = hd_accessTokens (sv_db sample_registered)" "\<And>j. has_snapshot j (sv_db s1) = has_snapshot j (sv_db sample_registered)"
    using ApproveHost_ok [OF service_reach_ok(1) [OF sample_reach(2)] sample_faults(1) t(2)] by metis
  have tok: "GetActiveHostAccessTokenByHash (sv_sha256 sample_service_env (TrimSpace ''pb_host_ab'')) (sv_db s1) = Inr (t, sv_db s1)"
    using t(1) by (simp add: s1(3))
  obtain s' resp where run: "IngestAgentSnapshot sample_service_env ''pb_host_ab'' sample_snapshot s1 = (s', Inr resp)"
    using IngestAgentSnapshot_ok [OF sample_faults(1) sample_snapshot_fits(1) tok s1(2) _ sample_snapshot_fits(2) _ sample_snapshot_fits(4,5)]
      sample_snapshot_fits(3) s1(4) by auto
  from IngestAgentSnapshot_authorized [OF run sample_faults(2)] run s1(1) t(4) show ?thesis by auto
qed

end
