(* ===== verification/Host_Pull_Properties.thy ===== *)
theory Host_Pull_Properties
  imports Host_Properties
begin

text \<open>
  What a pull leaves behind, how a change of a host keeps the schedule of its pull in step with the database, and what is
  stored as the notes of a host.
\<close>

section \<open>Pulls\<close>

text \<open>The row of a job, and the snapshot that every host refers to\<close>

definition job_is :: "string \<Rightarrow> string \<Rightarrow> string \<Rightarrow> string option \<Rightarrow> hosts_db \<Rightarrow> bool" where
  "job_is jobID hostID status err db \<longleftrightarrow>
     (\<exists>j \<in> set (hd_jobs db). pj_JobID j = jobID \<and> pj_HostID j = hostID \<and> pj_Status j = status \<and> pj_Error j = err)"

definition last_snapshots :: "hosts_db \<Rightarrow> (string \<times> string option) list" where
  "last_snapshots db = map (\<lambda>h. (host_ID h, host_LastSnapshotID h)) (hosts_of db)"

lemma job_is_jobs: "hd_jobs db = hd_jobs db' \<Longrightarrow> job_is a b c d db = job_is a b c d db'"
  by (simp add: job_is_def)

lemma UpdateHostSSHPullJob_ok:
  assumes "job_is jobID i old err0 db"
  shows "\<exists>db'. UpdateHostSSHPullJob jobID status at err db = Inr ((), db') \<and> job_is jobID i status err db' \<and> hd_tables db' = hd_tables db"
proof -
  obtain j where j: "j \<in> set (hd_jobs db)" "pj_JobID j = jobID" "pj_HostID j = i" using assms by (auto simp: job_is_def)
  let ?f = "\<lambda>j. if pj_JobID j = jobID then j\<lparr>pj_Status := status, pj_CompletedAt := at, pj_Error := err\<rparr> else j"
  have "?f j \<in> ?f ` set (hd_jobs db)" using j(1) by (rule imageI)
  then have "job_is jobID i status err (db\<lparr>hd_jobs := map ?f (hd_jobs db)\<rparr>)"
    unfolding job_is_def using j(2,3) by (intro bexI [of _ "?f j"]) simp_all
  moreover have "\<exists>j \<in> set (hd_jobs db). pj_JobID j = jobID" using j by blast
  ultimately show ?thesis by (simp add: UpdateHostSSHPullJob_def)
qed

lemma UpdateSSHPullRun_cases:
  assumes "UpdateSSHPullRun now p db = Inr (u, db')"
  obtains f pulls where "db' = set_hosts now (ur_ID p) f (db\<lparr>hd_pulls := pulls\<rparr>)" "\<And>h. host_ID (f h) = host_ID h"
    "\<And>h. host_LastSnapshotID (f h) = coalesce (ur_LastSnapshotID p) (host_LastSnapshotID h)"
  using assms by (auto simp: UpdateSSHPullRun_def split: if_splits)

lemma UpdateSSHPullRun_keeps:
  assumes "UpdateSSHPullRun now p db = Inr (u, db')"
  shows "hd_jobs db' = hd_jobs db" "owned db' = owned db" "has_snapshot x db' = has_snapshot x db" "has_host j db' = has_host j db"
    "ur_LastSnapshotID p = None \<Longrightarrow> last_snapshots db' = last_snapshots db"
    "ur_LastSnapshotID p = Some sid \<Longrightarrow> last_is (ur_ID p) sid db'"
proof -
  from assms obtain f pulls where f: "db' = set_hosts now (ur_ID p) f (db\<lparr>hd_pulls := pulls\<rparr>)" "\<And>h. host_ID (f h) = host_ID h"
    "\<And>h. host_LastSnapshotID (f h) = coalesce (ur_LastSnapshotID p) (host_LastSnapshotID h)" by (rule UpdateSSHPullRun_cases) (rule that)
  note refs = set_hosts_refs [of f now "ur_ID p" "db\<lparr>hd_pulls := pulls\<rparr>", OF f(2)]
  show "hd_jobs db' = hd_jobs db" "owned db' = owned db" "has_snapshot x db' = has_snapshot x db"
    by (simp_all add: f(1) refs) (simp_all add: owned_def has_snapshot_def)
  show "has_host j db' = has_host j db" by (simp add: f(1) has_host_set_hosts f(2)) (simp add: has_host_def hosts_of_def)
  show "last_snapshots db' = last_snapshots db" if "ur_LastSnapshotID p = None"
    using that f(2,3) by (simp add: f(1) last_snapshots_def hosts_of_def set_hosts_def coalesce_def)
  show "last_is (ur_ID p) sid db'" if "ur_LastSnapshotID p = Some sid"
    unfolding f(1) by (rule last_is_set) (use f(2,3) that in \<open>simp_all add: coalesce_def\<close>)
qed

lemma insert_result_ok:
  assumes "\<And>c. \<not> sv_fault env c" "has_host i db" "\<not> has_snapshot (id_New ''snap'' (sv_draw env ''snap'')) db" "at \<noteq> zero_time"
  shows "\<exists>row. insert_result env i at res db = Inr (row, upd_tables (\<lambda>t. t\<lparr>db_snapshots := db_snapshots t @ [row]\<rparr>) db) \<and>
    snap_ID row = id_New ''snap'' (sv_draw env ''snap'') \<and> snap_HostID row = i"
  using assms by (simp add: insert_result_def exec_def InsertHostSnapshot_def TimestamptzFromTime_def Let_def)

lemma after_snapshot_jobs:
  "hd_jobs (sv_db (refresh_scope env i a b c d e s)) = hd_jobs (sv_db s)" "hd_jobs (sv_db (match_snapshot env i sid s)) = hd_jobs (sv_db s)"
  by (auto simp: refresh_scope_def match_snapshot_def Let_def on_pool_def exec_def UpdateHostAdvisoryScopeKey_def set_hosts_def split: prod.split)

lemma job_tx_failed:
  assumes "\<And>c. \<not> sv_fault env c" "job_is jobID i old err0 db"
  shows "\<exists>db'. job_tx env host i jobID ''failed'' msg None db = Inr (None, db') \<and> job_is jobID i ''failed'' (nonzero msg) db' \<and>
    owned db' = owned db \<and> last_snapshots db' = last_snapshots db"
proof -
  obtain db1 where 1: "UpdateHostSSHPullJob jobID ''failed'' (TimestamptzFromTime (sv_now env)) (nonzero msg) db = Inr ((), db1)"
      "job_is jobID i ''failed'' (nonzero msg) db1" "hd_tables db1 = hd_tables db"
    using UpdateHostSSHPullJob_ok [OF assms(2)] by blast
  let ?p = "\<lparr>ur_PullLastRunAt = TimestamptzFromTime (sv_now env), ur_LastSnapshotID = None, ur_MachineID = None, ur_Hostname = None, ur_IpAddress = None,
      ur_OsFamily = host_OsFamily host, ur_OsName = host_OsName host, ur_OsMajor = host_OsMajor host, ur_OsVersion = host_OsVersion host,
      ur_Architecture = host_Architecture host, ur_ID = i, ur_PullLastRunStatus = Some ''failed'', ur_PullLastRunError = nonzero msg\<rparr>"
  obtain db2 where 2: "UpdateSSHPullRun (sv_dbNow env) ?p db1 = Inr ((), db2)"
    by (simp add: UpdateSSHPullRun_def snapshot_ref_ok_def)
  note keep = UpdateSSHPullRun_keeps [OF 2, simplified]
  have "job_tx env host i jobID ''failed'' msg None db = Inr (None, db2)"
    unfolding job_tx_def
    by (simp add: run_simps(1) [where st = "UpdateHostSSHPullJob _ _ _ _", OF assms(1) 1(1)] run_simps(1) [where st = "UpdateSSHPullRun _ _", OF assms(1) 2])
  moreover have "owned db2 = owned db" "last_snapshots db2 = last_snapshots db" using keep 1(3) by (simp_all add: owned_def last_snapshots_def hosts_of_def)
  ultimately show ?thesis using 1(2) job_is_jobs [OF keep(1)] by blast
qed

lemma job_tx_success:
  assumes "\<And>c. \<not> sv_fault env c" "job_is jobID i old err0 db" "has_host i db" "\<not> has_snapshot (id_New ''snap'' (sv_draw env ''snap'')) db"
    and "pr_CollectedAt res \<noteq> zero_time"
  shows "\<exists>db'. job_tx env host i jobID ''success'' [] (Some res) db = Inr (Some (id_New ''snap'' (sv_draw env ''snap'')), db') \<and>
    job_is jobID i ''success'' None db' \<and> last_is i (id_New ''snap'' (sv_draw env ''snap'')) db' \<and> owns i (id_New ''snap'' (sv_draw env ''snap'')) db'"
proof -
  obtain db1 where 1: "UpdateHostSSHPullJob jobID ''success'' (TimestamptzFromTime (sv_now env)) (nonzero []) db = Inr ((), db1)"
      "job_is jobID i ''success'' (nonzero []) db1" "hd_tables db1 = hd_tables db"
    using UpdateHostSSHPullJob_ok [OF assms(2)] by blast
  have db1: "has_host i db1" "\<not> has_snapshot (id_New ''snap'' (sv_draw env ''snap'')) db1"
    using assms(3,4) 1(3) by (simp_all add: has_host_def hosts_of_def has_snapshot_def)
  obtain row where row: "insert_result env i (pr_CollectedAt res) res db1 = Inr (row, upd_tables (\<lambda>t. t\<lparr>db_snapshots := db_snapshots t @ [row]\<rparr>) db1)"
      "snap_ID row = id_New ''snap'' (sv_draw env ''snap'')" "snap_HostID row = i"
    using insert_result_ok [OF assms(1) db1 assms(5)] by blast
  let ?db2 = "upd_tables (\<lambda>t. t\<lparr>db_snapshots := db_snapshots t @ [row]\<rparr>) db1"
  let ?p = "\<lparr>ur_PullLastRunAt = TimestamptzFromTime (pr_CollectedAt res), ur_LastSnapshotID = Some (snap_ID row), ur_MachineID = nonzero (pr_MachineID res),
      ur_Hostname = nonzero (pr_Hostname res), ur_IpAddress = nonzero (pr_IPAddress res), ur_OsFamily = pr_OSFamily res, ur_OsName = pr_OSName res,
      ur_OsMajor = pr_OSMajor res, ur_OsVersion = pr_OSVersion res, ur_Architecture = pr_Architecture res, ur_ID = i,
      ur_PullLastRunStatus = Some ''success'', ur_PullLastRunError = nonzero []\<rparr>"
  have db2: "has_host i ?db2" "has_snapshot (snap_ID row) ?db2" "owns i (snap_ID row) ?db2"
    using db1(1) row(3) by (auto simp: has_host_def hosts_of_def has_snapshot_def owns_def owned_def)
  obtain db3 where 3: "UpdateSSHPullRun (sv_dbNow env) ?p ?db2 = Inr ((), db3)"
    using db2(2) by (simp add: UpdateSSHPullRun_def snapshot_ref_ok_def)
  note keep = UpdateSSHPullRun_keeps [OF 3, simplified]
  let ?db4 = "upd_tables (UpsertHostCurrentState (result_state i (snap_ID row) res)) db3"
  have 4: "upsert_state (result_state i (snap_ID row) res) db3 = Inr ((), ?db4)"
    using db2(1,2) keep(3,4) by (simp add: upsert_state_def result_state_def)
  have "job_tx env host i jobID ''success'' [] (Some res) db = Inr (Some (snap_ID row), ?db4)"
    unfolding job_tx_def
    by (simp only: run_simps(1) [where st = "UpdateHostSSHPullJob _ _ _ _", OF assms(1) 1(1)] if_True option.case)
      (simp add: bind_tx_def row(1) exec_def assms(1) 3 4)
  moreover have "hosts_of ?db4 = hosts_of db3" "owned ?db4 = owned db3" "hd_jobs ?db4 = hd_jobs db1"
    using keep(1) by (auto simp: hosts_of_def owned_def UpsertHostCurrentState_def)
  moreover have "job_is jobID i ''success'' None ?db4" using 1(2) job_is_jobs [OF calculation(4)] by (simp add: nonzero_def)
  ultimately show ?thesis using row(2) keep(2) keep(6) [of "snap_ID row"] db2(3) by (simp add: owns_def last_is_def)
qed

lemma InsertHostSSHPullJob_ok:
  assumes "has_host i db" "\<forall>j \<in> set (hd_jobs db). pj_JobID j \<noteq> jobID"
  shows "\<exists>db'. InsertHostSSHPullJob jobID i status at db = Inr ((), db') \<and> job_is jobID i status None db' \<and> hd_tables db' = hd_tables db"
  using assms by (simp add: InsertHostSSHPullJob_def job_is_def)

lemma updateJobResult_failed:
  assumes "\<And>c. \<not> sv_fault env c" "job_is jobID i old err0 (sv_db s)"
  shows "\<exists>s'. updateJobResult env host i jobID ''failed'' msg None s = (s', Inr ()) \<and> job_is jobID i ''failed'' (nonzero msg) (sv_db s') \<and>
    owned (sv_db s') = owned (sv_db s) \<and> last_snapshots (sv_db s') = last_snapshots (sv_db s)"
proof -
  obtain db' where "job_tx env host i jobID ''failed'' msg None (sv_db s) = Inr (None, db')" "job_is jobID i ''failed'' (nonzero msg) db'"
    "owned db' = owned (sv_db s)" "last_snapshots db' = last_snapshots (sv_db s)"
    using job_tx_failed [OF assms] by blast
  then show ?thesis by (simp add: updateJobResult_def bind_svc_def in_tx_def assms(1) publish_def)
qed

lemma updateJobResult_success:
  fixes env :: service_env
  defines "sid \<equiv> id_New ''snap'' (sv_draw env ''snap'')"
  assumes "\<And>c. \<not> sv_fault env c" "job_is jobID i old err0 (sv_db s)" "has_host i (sv_db s)" "\<not> has_snapshot sid (sv_db s)"
    and "pr_CollectedAt res \<noteq> zero_time" "ranges_ok (env_ranges (sv_match env))"
  shows "\<exists>s'. updateJobResult env host i jobID ''success'' [] (Some res) s = (s', Inr ()) \<and> job_is jobID i ''success'' None (sv_db s') \<and>
    last_is i sid (sv_db s') \<and> owns i sid (sv_db s')"
proof -
  obtain db' where db': "job_tx env host i jobID ''success'' [] (Some res) (sv_db s) = Inr (Some sid, db')" "job_is jobID i ''success'' None db'"
    "last_is i sid db'" "owns i sid db'"
    using job_tx_success [OF assms(2-6) [unfolded sid_def]] by (auto simp: sid_def)
  let ?s1 = "refresh_scope env i (pr_OSFamily res) (pr_OSName res) (pr_OSVersion res) (pr_OSMajor res) (pr_Architecture res)
    (publish (NewHostSnapshotEvent i) (s\<lparr>sv_db := db'\<rparr>))"
  let ?s2 = "match_snapshot env i sid ?s1"
  have "updateJobResult env host i jobID ''success'' [] (Some res) s = (publish NewHostsUpdatedEvent ?s2, Inr ())"
    by (simp add: updateJobResult_def bind_svc_def in_tx_def assms(2) db'(1))
  moreover have "hd_jobs (sv_db ?s2) = hd_jobs db'" "owned (sv_db ?s2) = owned db'"
    by (simp_all add: after_snapshot_jobs match_snapshot_hosts [OF assms(7)] refresh_scope_hosts publish_def)
  moreover have "last_is i sid (sv_db ?s1)" by (rule refresh_scope_hosts(2)) (simp add: publish_def db'(3))
  then have "last_is i sid (sv_db ?s2)" by (simp only: last_is_def match_snapshot_hosts [OF assms(7)])
  ultimately show ?thesis using db'(2,4) job_is_jobs [of "sv_db ?s2" db'] by (simp add: publish_def owns_def)
qed


section \<open>Changing a host\<close>

text \<open>The pull of an onboarded host is scheduled with the frequency that the database holds.\<close>

definition schedule_matches :: "string \<Rightarrow> service \<Rightarrow> bool" where
  "schedule_matches i s \<longleftrightarrow>
     (\<forall>p \<in> set (hd_pulls (sv_db s)). sp_HostID p = i \<and> sp_Onboarded p \<longrightarrow>
        map_option sj_frequencyMinutes (pm_sshJobs (sv_periodic s) i) = Some (UnwrapOr (sp_PullFrequencyMinutes p) defaultSSHPullFrequency))"

lemma AddSSHPullJob_scheduled:
  assumes "AddSSHPullJob river i f b p = (p', None)"
  shows "map_option sj_frequencyMinutes (pm_sshJobs p' i) = Some f"
  using assms by (auto simp: AddSSHPullJob_def add_ssh_job_def Let_def split: if_splits option.splits)

lemma same_pull:
  assumes "db_ok db" "first_row (\<lambda>p. sp_HostID p = i) (hd_pulls db) = Some c" "p \<in> set (hd_pulls db)" "sp_HostID p = i"
  shows "p = c"
proof -
  have "c \<in> set (hd_pulls db)" "sp_HostID c = i" using first_row_Some [OF assms(2)] by simp_all
  then show ?thesis using db_okD(3) [OF assms(1)] assms(3,4) by (auto dest: inj_onD simp: distinct_map)
qed

lemma update_name_pulls: "update_name env i h input db = Inr (md, db') \<Longrightarrow> hd_pulls db' = hd_pulls db \<and> host_ids db' = host_ids db"
  by (auto simp: update_name_def tx_Inr UpdateHostDisplayName_def update_host_returning_def set_hosts_refs(1,6) split: option.splits if_splits)

text \<open>What the statements of the transaction do to the pull configurations, and when the pull is rescheduled\<close>

lemma update_pull_cases:
  assumes "update_pull env i input db = Inr ((md, re), db')"
  obtains (same) "re = None" "db' = db"
  | (change) c f where "first_row (\<lambda>p. sp_HostID p = i) (hd_pulls db) = Some c"
      "hd_pulls db' = map (\<lambda>p. if sp_HostID p = i then f p else p) (hd_pulls db)" "host_ids db' = host_ids db"
      "\<And>p. sp_HostID (f p) = sp_HostID p" "\<And>p. sp_Onboarded (f p) = sp_Onboarded p"
      "\<And>p. sp_PullFrequencyMinutes (f p) = coalesce (ui_PullFrequencyMinutes input) (sp_PullFrequencyMinutes p)"
      "re = (if sp_Onboarded c then map_option (\<lambda>n. (UnwrapOr (sp_PullFrequencyMinutes c) defaultSSHPullFrequency, n)) (ui_PullFrequencyMinutes input) else None)"
proof (cases "hasSSHFields input")
  case False
  then show ?thesis using assms same by (simp add: update_pull_def)
next
  case True
  let ?f = "\<lambda>p. p\<lparr>sp_PullHostname := UnwrapOr (ui_PullHostname input) (sp_PullHostname p), sp_PullSshUser := coalesce (ui_PullSSHUser input) (sp_PullSshUser p),
      sp_PullFrequencyMinutes := coalesce (ui_PullFrequencyMinutes input) (sp_PullFrequencyMinutes p)\<rparr>"
  from True assms obtain c where c: "first_row (\<lambda>p. sp_HostID p = i) (hd_pulls db) = Some c"
      "db' = db\<lparr>hd_pulls := map (\<lambda>p. if sp_HostID p = i then ?f p else p) (hd_pulls db)\<rparr>"
      "re = (case ui_PullFrequencyMinutes input of Some n \<Rightarrow> if sp_Onboarded c then Some (UnwrapOr (sp_PullFrequencyMinutes c) defaultSSHPullFrequency, n) else None
         | None \<Rightarrow> None)"
    by (auto simp: update_pull_def tx_Inr Let_def UpdateSSHPullConfig_def split: if_splits)
  show ?thesis
    by (rule change [of c ?f]) (use c in \<open>simp_all add: host_ids_def hosts_of_def split: option.split\<close>)
qed

text \<open>After the transaction, a schedule with the frequency it asks for, or the old one if it asks for none, matches.\<close>

lemma update_body_matches:
  assumes "db_ok (sv_db s)" "update_body env i input (sv_db s) = Inr ((md, re), db)" "schedule_matches i s"
  shows "has_host i db"
    and "(case re of None \<Rightarrow> pm_sshJobs q i = pm_sshJobs (sv_periodic s) i | Some (_, n) \<Rightarrow> map_option sj_frequencyMinutes (pm_sshJobs q i) = Some n) \<Longrightarrow>
      schedule_matches i (s\<lparr>sv_db := db, sv_periodic := q\<rparr>)"
    and "(\<forall>old n. re = Some (old, n) \<longrightarrow> map_option sj_frequencyMinutes (pm_sshJobs q i) = Some old) \<Longrightarrow> re \<noteq> None \<Longrightarrow>
      schedule_matches i (s\<lparr>sv_periodic := q\<rparr>)"
proof -
  from assms(2) obtain h md1 db1 md2 where h: "first_row (\<lambda>h. host_ID h = i) (hosts_of (sv_db s)) = Some h"
    and name: "update_name env i h input (sv_db s) = Inr (md1, db1)" and pull: "update_pull env i input db1 = Inr ((md2, re), db)"
    by (auto simp: update_body_def tx_Inr split: if_splits)
  have db1: "hd_pulls db1 = hd_pulls (sv_db s)" "host_ids db1 = host_ids (sv_db s)" using update_name_pulls [OF name] by simp_all
  have "has_host i (sv_db s)" using first_row_Some [OF h] by (auto simp: has_host_def)
  then have "i \<in> set (host_ids db1)" by (simp add: has_host_iff db1(2))
  with pull show "has_host i db" by (cases rule: update_pull_cases) (simp_all add: has_host_iff)
  have pl: "p = c" if "first_row (\<lambda>p. sp_HostID p = i) (hd_pulls db1) = Some c" "p \<in> set (hd_pulls (sv_db s))" "sp_HostID p = i" for p c
    using same_pull [OF assms(1)] that db1(1) by simp
  show "schedule_matches i (s\<lparr>sv_db := db, sv_periodic := q\<rparr>)"
    if q: "case re of None \<Rightarrow> pm_sshJobs q i = pm_sshJobs (sv_periodic s) i | Some (_, n) \<Rightarrow> map_option sj_frequencyMinutes (pm_sshJobs q i) = Some n"
    using pull
  proof (cases rule: update_pull_cases)
    case same
    then show ?thesis using assms(3) q db1(1) by (simp add: schedule_matches_def)
  next
    case (change c f)
    show ?thesis unfolding schedule_matches_def
    proof (intro ballI impI, elim conjE)
      fix p' assume "p' \<in> set (hd_pulls (sv_db (s\<lparr>sv_db := db, sv_periodic := q\<rparr>)))" "sp_HostID p' = i" "sp_Onboarded p'"
      then obtain p where p: "p \<in> set (hd_pulls (sv_db s))" "sp_HostID p = i" "p' = f p" "sp_Onboarded p"
        using change(2,4,5) db1(1) by (auto split: if_splits)
      have "p = c" using pl [OF change(1) p(1,2)] .
      have "map_option sj_frequencyMinutes (pm_sshJobs (sv_periodic s) i) = Some (UnwrapOr (sp_PullFrequencyMinutes p) defaultSSHPullFrequency)"
        using assms(3) p by (auto simp: schedule_matches_def)
      then show "map_option sj_frequencyMinutes (pm_sshJobs (sv_periodic (s\<lparr>sv_db := db, sv_periodic := q\<rparr>)) i) =
          Some (UnwrapOr (sp_PullFrequencyMinutes p') defaultSSHPullFrequency)"
        using q change(6,7) p(3,4) \<open>p = c\<close> by (cases "ui_PullFrequencyMinutes input") (simp_all add: coalesce_def)
    qed
  qed
  show "schedule_matches i (s\<lparr>sv_periodic := q\<rparr>)"
    if q: "\<forall>old n. re = Some (old, n) \<longrightarrow> map_option sj_frequencyMinutes (pm_sshJobs q i) = Some old" "re \<noteq> None"
    using pull
  proof (cases rule: update_pull_cases)
    case same
    then show ?thesis using q(2) by simp
  next
    case (change c f)
    then show ?thesis using q pl [OF change(1)] by (auto simp: schedule_matches_def split: if_splits)
  qed
qed

lemma reschedule_job_cases:
  obtains q where "reschedule_job env i re s = (s\<lparr>sv_periodic := q\<rparr>, None)"
      "case re of None \<Rightarrow> q = sv_periodic s | Some (_, n) \<Rightarrow> map_option sj_frequencyMinutes (pm_sshJobs q i) = Some n"
  | q e where "reschedule_job env i re s = (s\<lparr>sv_periodic := q\<rparr>, Some e)" "re \<noteq> None"
proof (cases re)
  case None
  then show ?thesis using that(1) [of "sv_periodic s"] by (simp add: reschedule_job_def)
next
  case (Some on)
  obtain q err where "AddSSHPullJob (sv_river env) i (snd on) False (sv_periodic s) = (q, err)" by (metis surj_pair)
  then have job: "reschedule_job env i re s = (s\<lparr>sv_periodic := q\<rparr>, err)" "AddSSHPullJob (sv_river env) i (snd on) False (sv_periodic s) = (q, err)"
    by (simp_all add: reschedule_job_def Some case_prod_beta)
  show ?thesis
  proof (cases err)
    case None
    then show ?thesis using that(1) [of q] job AddSSHPullJob_scheduled [of "sv_river env" i "snd on" False "sv_periodic s" q]
      by (simp add: Some case_prod_beta)
  next
    case (Some e)
    then show ?thesis using that(2) [of q e] job \<open>re = Some on\<close> by simp
  qed
qed


section \<open>Notes\<close>

lemma rune_length_le: "rune_length bs \<le> 4"
  by (cases bs rule: rune_length.cases) (auto split: list.splits)

lemma rune_count_bytes: "length bs \<le> 4 * rune_count bs"
proof (induction bs rule: rune_count.induct)
  case (2 b bs)
  then show ?case using rune_length_le [of "b # bs"] by simp
qed simp

lemma TrimRightSpace_idem: "TrimRightSpace (TrimRightSpace s) = TrimRightSpace s"
  by (simp add: TrimRightSpace_def strip_id strip_fixed)

text \<open>Notes of more than 8192 characters, counted without the blanks at their end, are refused and change nothing. Notes
  that are accepted are stored without the blanks at their end, and as absent when nothing is left: what is stored is not
  empty, ends in no blank, and has at most 8192 characters and so at most 32768 bytes. No other host is changed.\<close>

theorem UpdateHostNotes_bounded:
  assumes "UpdateHostNotes env i notes s = (s', r)"
  shows "(\<forall>v. notes = Some v \<and> RuneCountInString (TrimRightSpace v) > 8192 \<longrightarrow> s' = s \<and> r = Inl (AppErr ErrNotesTooLarge)) \<and>
    (\<forall>info. r = Inr info \<longrightarrow> other_hosts i (sv_db s') = other_hosts i (sv_db s) \<and>
       (\<forall>h \<in> set (hosts_of (sv_db s')). host_ID h = i \<longrightarrow> host_Notes h = Option.bind notes (\<lambda>v. nonzero (TrimRightSpace v)) \<and>
          (\<forall>v. host_Notes h = Some v \<longrightarrow> v \<noteq> [] \<and> TrimRightSpace v = v \<and> RuneCountInString v \<le> 8192 \<and> length v \<le> 32768)))"
proof (cases "\<exists>v. notes = Some v \<and> RuneCountInString (TrimRightSpace v) > 8192")
  case True
  then show ?thesis using assms by (auto simp: UpdateHostNotes_def)
next
  case False
  then have small: "RuneCountInString (TrimRightSpace v) \<le> 8192" if "notes = Some v" for v using that by (auto simp: not_less)
  let ?n = "Option.bind notes (\<lambda>v. nonzero (TrimRightSpace v))"
  let ?f = "\<lambda>h :: Host. h\<lparr>host_Notes := ?n\<rparr>"
  have n: "v \<noteq> []" "TrimRightSpace v = v" "RuneCountInString v \<le> 8192" "length v \<le> 32768" if "?n = Some v" for v
  proof -
    from that obtain w where w: "notes = Some w" "v = TrimRightSpace w" "v \<noteq> []" by (auto simp: bind_eq_Some_conv nonzero_def split: if_splits)
    show "v \<noteq> []" "TrimRightSpace v = v" "RuneCountInString v \<le> 8192" using w small by (simp_all add: TrimRightSpace_idem)
    then show "length v \<le> 32768" using rune_count_bytes [of "map of_char v"] by (simp add: RuneCountInString_def)
  qed
  have "sv_db s' = set_hosts (sv_dbNow env) i ?f (sv_db s)" if "r = Inr info" for info
    using assms that small
    by (auto simp: UpdateHostNotes_def bind_svc_Inr on_pool_def exec_def UpdateHostNotesByID_def update_host_returning_def GetHost_def publish_def
        Option.bind_map_option comp_def Required_def GetHostWithStateByID_def
        split: if_splits sum.splits option.splits service_error.splits sql_error.splits)
  moreover have "other_hosts i (set_hosts (sv_dbNow env) i ?f (sv_db s)) = other_hosts i (sv_db s)" by (rule other_hosts_set) simp
  moreover have "\<forall>h \<in> set (hosts_of (set_hosts (sv_dbNow env) i ?f (sv_db s))). host_ID h = i \<longrightarrow> host_Notes h = ?n"
    by (simp add: set_hosts_def hosts_of_def ball_Un)
  ultimately show ?thesis using False n by metis
qed

section \<open>A pulled host\<close>

definition sample_ssh_input :: CreateSSHHostInput where
  "sample_ssh_input = \<lparr>ci_DisplayName = ''db'', ci_Hostname = ''db.local'', ci_SSHUser = ''root'', ci_FrequencyMinutes = 0, ci_UniqueKeyPair = True\<rparr>"

definition sample_ssh :: service where
  "sample_ssh = fst (OnboardSSHHost sample_service_env SystemActorRef ''h_1''
     (fst (CreateSSHHost sample_service_env SystemActorRef sample_ssh_input sample_start)))"

definition sample_change :: UpdateHostInput where
  "sample_change = \<lparr>ui_DisplayName = None, ui_PullHostname = None, ui_PullSSHUser = None, ui_PullFrequencyMinutes = Some 30\<rparr>"

lemma sample_ssh_reach: "service_reach sample_river sample_ssh"
  unfolding sample_ssh_def sample_start_def
  by (intro service_reach.onboard service_reach.create_ssh service_reach.start manager_reach.intros) (simp_all add: empty_tables_def sample_faults)

lemma sample_ssh_db:
  "map host_ID (hosts_of (sv_db sample_ssh)) = [''h_1'']" "map sp_HostID (hd_pulls (sv_db sample_ssh)) = [''h_1'']"
  "map sp_PullFrequencyMinutes (hd_pulls (sv_db sample_ssh)) = [Some 360]" "hd_jobs (sv_db sample_ssh) = []"
  "db_snapshots (hd_tables (sv_db sample_ssh)) = []" "map_option sj_frequencyMinutes (pm_sshJobs (sv_periodic sample_ssh) ''h_1'') = Some 360"
  by code_simp+

lemma sample_ssh_matches: "schedule_matches ''h_1'' sample_ssh"
proof -
  obtain p where "hd_pulls (sv_db sample_ssh) = [p]" "sp_PullFrequencyMinutes p = Some 360" using sample_ssh_db(2,3) by auto
  then show ?thesis using sample_ssh_db(6) by (simp add: schedule_matches_def)
qed



theorem UpdateHostNotes_bounded_witness:
  "\<exists>s' info. UpdateHostNotes sample_service_env ''h_1'' (Some ''n  '') sample_ssh = (s', Inr info) \<and> map host_Notes (hosts_of (sv_db s')) = [Some ''n'']"
proof -
  let ?u = "UpdateHostNotes sample_service_env ''h_1'' (Some ''n  '') sample_ssh"
  have ok: "(case snd ?u of Inl _ \<Rightarrow> False | Inr _ \<Rightarrow> True)" "map host_ID (hosts_of (sv_db (fst ?u))) = [''h_1'']" "nonzero (TrimRightSpace ''n  '') = Some ''n''" by code_simp+
  then obtain info where info: "?u = (fst ?u, Inr info)" by (auto simp: prod_eq_iff split: sum.splits)
  obtain h where "hosts_of (sv_db (fst ?u)) = [h]" "host_ID h = ''h_1''" using ok(2) by auto
  moreover note UpdateHostNotes_bounded [OF info, THEN conjunct2, rule_format, OF refl, THEN conjunct2, rule_format, THEN conjunct1, of h]
  ultimately have "map host_Notes (hosts_of (sv_db (fst ?u))) = [Some ''n'']" using ok(3) by simp
  with info show ?thesis by (intro exI conjI)
qed

end
