(* ===== verification/Crypto_Box.thy ===== *)
theory Crypto_Box
  imports Prelude
begin

text \<open>
  The encryption of stored secrets (\<open>internal/utils/crypto.go\<close>): a nonce and the sealed text in base64. The cipher of
  \<open>crypto/aes\<close> and \<open>crypto/cipher\<close> is a parameter; \<open>base64.StdEncoding\<close> is modelled. A Go string is a list of bytes, which
  are the 256 characters.
\<close>

section \<open>Base64\<close>

definition b64_alphabet :: string where
  "b64_alphabet = ''ABCDEFGHIJKLMNOPQRSTUVWXYZabcdefghijklmnopqrstuvwxyz0123456789+/''"

definition b64_digit :: "nat \<Rightarrow> char" where
  "b64_digit n = b64_alphabet ! n"

definition b64_value :: "char \<Rightarrow> nat option" where
  "b64_value c = map_of (zip b64_alphabet [0..<64]) c"

fun b64_encode :: "nat list \<Rightarrow> string" where
  "b64_encode [] = []"
| "b64_encode [a] = [b64_digit (a div 4), b64_digit (a mod 4 * 16), CHR ''='', CHR ''='']"
| "b64_encode [a, b] = [b64_digit (a div 4), b64_digit (a mod 4 * 16 + b div 16), b64_digit (b mod 16 * 4), CHR ''='']"
| "b64_encode (a # b # c # bs) =
     b64_digit (a div 4) # b64_digit (a mod 4 * 16 + b div 16) # b64_digit (b mod 16 * 4 + c div 64) # b64_digit (c mod 64) # b64_encode bs"

text \<open>Four digits give three bytes; padding is accepted only at the end, and the bits that it cuts off are not checked.\<close>

fun b64_decode :: "string \<Rightarrow> nat list option" where
  "b64_decode [] = Some []"
| "b64_decode (a # b # c # d # s) =
     (case (b64_value a, b64_value b) of
        (Some x, Some y) \<Rightarrow>
          if c = CHR ''='' then (if d = CHR ''='' \<and> s = [] then Some [x * 4 + y div 16] else None)
          else case b64_value c of
            None \<Rightarrow> None
          | Some z \<Rightarrow>
              if d = CHR ''='' then (if s = [] then Some [x * 4 + y div 16, y mod 16 * 16 + z div 4] else None)
              else case b64_value d of
                None \<Rightarrow> None
              | Some w \<Rightarrow> map_option (\<lambda>r. (x * 4 + y div 16) # (y mod 16 * 16 + z div 4) # (z mod 4 * 64 + w) # r) (b64_decode s)
      | _ \<Rightarrow> None)"
| "b64_decode _ = None"

definition EncodeToString :: "string \<Rightarrow> string" where
  "EncodeToString s = b64_encode (map of_char s)"

text \<open>The decoder passes over line breaks wherever they stand.\<close>

definition DecodeString :: "string \<Rightarrow> string option" where
  "DecodeString s = map_option (map char_of) (b64_decode (filter (\<lambda>c. c \<noteq> CHR 0x0A \<and> c \<noteq> CHR 0x0D) s))"

section \<open>The box\<close>

record crypto_box =
  cb_nonceSize :: nat
  cb_seal :: "string \<Rightarrow> string \<Rightarrow> string"
  cb_open :: "string \<Rightarrow> string \<Rightarrow> string option"

datatype crypto_error = EmptySecretKey | NewCipherFailed | NewGCMFailed | NonceFailed | DecodeBase64Failed | CiphertextTooShort | DecryptFailed

definition NewCryptoWithKey :: "(string \<Rightarrow> string) \<Rightarrow> (string \<Rightarrow> 'b option) \<Rightarrow> ('b \<Rightarrow> crypto_box option) \<Rightarrow> string \<Rightarrow> crypto_error + crypto_box" where
  "NewCryptoWithKey sha256 newCipher newGCM secretKey =
     (if secretKey = [] then Inl EmptySecretKey
      else case newCipher (sha256 secretKey) of
        None \<Rightarrow> Inl NewCipherFailed
      | Some block \<Rightarrow> (case newGCM block of None \<Rightarrow> Inl NewGCMFailed | Some gcm \<Rightarrow> Inr gcm))"

text \<open>\<open>nonce\<close> is what the random source gives, or its failure.\<close>

definition Encrypt :: "crypto_box \<Rightarrow> string option \<Rightarrow> string \<Rightarrow> crypto_error + string" where
  "Encrypt c nonce plainText =
     (case nonce of
        None \<Rightarrow> Inl NonceFailed
      | Some n \<Rightarrow> Inr (EncodeToString (n @ cb_seal c n plainText)))"

definition Decrypt :: "crypto_box \<Rightarrow> string \<Rightarrow> crypto_error + string" where
  "Decrypt c cipherTextBase64 =
     (case DecodeString cipherTextBase64 of
        None \<Rightarrow> Inl DecodeBase64Failed
      | Some combined \<Rightarrow>
          if length combined < cb_nonceSize c then Inl CiphertextTooShort
          else case cb_open c (take (cb_nonceSize c) combined) (drop (cb_nonceSize c) combined) of
            None \<Rightarrow> Inl DecryptFailed
          | Some plain \<Rightarrow> Inr plain)"

section \<open>Round trip\<close>

lemma b64_alphabet_facts: "length b64_alphabet = 64" "distinct b64_alphabet" "CHR ''='' \<notin> set b64_alphabet"
    "CHR 0x0A \<notin> set b64_alphabet" "CHR 0x0D \<notin> set b64_alphabet"
  by (simp_all add: b64_alphabet_def)

lemma b64_value_digit: "n < 64 \<Longrightarrow> b64_value (b64_digit n) = Some n"
  unfolding b64_value_def b64_digit_def by (subst map_of_zip_nth) (simp_all add: b64_alphabet_facts)

lemma b64_digit_in: "n < 64 \<Longrightarrow> b64_digit n \<in> set b64_alphabet"
  by (simp add: b64_digit_def b64_alphabet_facts(1))

lemma b64_digit_other: "n < 64 \<Longrightarrow> b64_digit n \<noteq> CHR ''=''" "n < 64 \<Longrightarrow> b64_digit n \<noteq> CHR 0x0A" "n < 64 \<Longrightarrow> b64_digit n \<noteq> CHR 0x0D"
  using b64_digit_in b64_alphabet_facts(3-5) by fastforce+

text \<open>The digits give back the bytes.\<close>

lemma b64_bytes:
  fixes a b c :: nat
  assumes "b < 256" "c < 256"
  shows "a div 4 * 4 + (a mod 4 * 16 + b div 16) div 16 = a"
    "(a mod 4 * 16 + b div 16) mod 16 * 16 + (b mod 16 * 4 + c div 64) div 4 = b"
    "(b mod 16 * 4 + c div 64) mod 4 * 64 + c mod 64 = c"
proof -
  have 1: "b div 16 < 16" "c div 64 < 4" using assms by (simp_all add: less_mult_imp_div_less)
  then have 2: "(a mod 4 * 16 + b div 16) div 16 = a mod 4" "(a mod 4 * 16 + b div 16) mod 16 = b div 16"
      "(b mod 16 * 4 + c div 64) div 4 = b mod 16" "(b mod 16 * 4 + c div 64) mod 4 = c div 64"
    by simp_all
  show "a div 4 * 4 + (a mod 4 * 16 + b div 16) div 16 = a"
    "(a mod 4 * 16 + b div 16) mod 16 * 16 + (b mod 16 * 4 + c div 64) div 4 = b"
    "(b mod 16 * 4 + c div 64) mod 4 * 64 + c mod 64 = c"
    by (simp_all only: 2 div_mult_mod_eq)
qed

lemma b64_roundtrip: "\<forall>b \<in> set bs. b < 256 \<Longrightarrow> b64_decode (b64_encode bs) = Some bs"
proof (induction bs rule: b64_encode.induct)
  case (4 a b c bs)
  have "a div 4 < 64" "a mod 4 * 16 + b div 16 < 64" "b mod 16 * 4 + c div 64 < 64" "c mod 64 < 64" using 4 by auto
  moreover have "a div 4 * 4 + (a mod 4 * 16 + b div 16) div 16 = a" using 4 by (intro b64_bytes(1) [of b 0]) auto
  moreover have "b < 256" "c < 256" "b64_decode (b64_encode bs) = Some bs" using 4 by auto
  ultimately show ?case
    by (simp only: b64_encode.simps b64_decode.simps b64_value_digit b64_digit_other option.case prod.case if_False option.map b64_bytes)
qed (auto simp: b64_value_digit b64_digit_other)

lemma b64_no_breaks: "\<forall>b \<in> set bs. b < 256 \<Longrightarrow> filter (\<lambda>c. c \<noteq> CHR 0x0A \<and> c \<noteq> CHR 0x0D) (b64_encode bs) = b64_encode bs"
proof (induction bs rule: b64_encode.induct)
  case (4 a b c bs)
  have "a div 4 < 64" "a mod 4 * 16 + b div 16 < 64" "b mod 16 * 4 + c div 64 < 64" "c mod 64 < 64" using 4 by auto
  then show ?case using 4 by (simp add: b64_digit_other)
qed (auto simp: b64_digit_other)

lemma DecodeString_EncodeToString: "DecodeString (EncodeToString s) = Some s"
proof -
  have "\<forall>b \<in> set (map of_char s). (b :: nat) < 256" by auto
  then show ?thesis
    by (simp add: DecodeString_def EncodeToString_def b64_no_breaks b64_roundtrip comp_def)
qed

text \<open>What is encrypted is decrypted to the same text, whatever bytes it has, if the cipher opens what it sealed and the
  nonce has the size of the cipher.\<close>

theorem Decrypt_Encrypt:
  assumes "cb_open c n (cb_seal c n plainText) = Some plainText" "length n = cb_nonceSize c"
  shows "\<exists>stored. Encrypt c (Some n) plainText = Inr stored \<and> Decrypt c stored = Inr plainText"
  using assms by (simp add: Encrypt_def Decrypt_def DecodeString_EncodeToString)

text \<open>A cipher that puts the length of the text before it, and opens nothing else\<close>

definition sample_box :: crypto_box where
  "sample_box = \<lparr>cb_nonceSize = 2, cb_seal = (\<lambda>n p. n @ p), cb_open = (\<lambda>n s. if take (length n) s = n then Some (drop (length n) s) else None)\<rparr>"

theorem Decrypt_Encrypt_witness:
  "\<exists>stored. Encrypt sample_box (Some ''ab'') ''secret'' = Inr stored \<and> Decrypt sample_box stored = Inr ''secret''"
  by (rule Decrypt_Encrypt) (simp_all add: sample_box_def)

end
