(* ===== verification/Account_Tables.thy ===== *)
theory Account_Tables
  imports Host_Tables Crypto_Box
begin

text \<open>
  The tables of users and settings with the statements of \<open>internal/sql/users.sql.go\<close> and \<open>settings.sql.go\<close> and the
  constraints of the migrations: the primary keys, the prefix of a user's identifier and the unique index on the e-mail
  addresses of users that are not archived. The value of a setting is a \<open>jsonb\<close> column: \<open>jsonb\<close> gives the text that the
  database returns for a text it was given, and nothing for one that is not JSON.
\<close>

section \<open>Rows\<close>

record User =
  us_ID :: string
  us_Email :: string
  us_Name :: string
  us_PasswordHash :: string
  us_IsAdmin :: bool
  us_PasswordResetRequired :: bool
  us_LastLoginAt :: "int option"
  us_ArchivedAt :: "int option"
  us_CreatedAt :: "int option"
  us_UpdatedAt :: "int option"

record Setting =
  se_Key :: string
  se_Value :: string
  se_CreatedAt :: "int option"
  se_UpdatedAt :: "int option"

record account_db =
  ad_users :: "User list"
  ad_settings :: "Setting list"

type_synonym 'a account_stmt = "account_db \<Rightarrow> sql_error + 'a \<times> account_db"

section \<open>Users\<close>

definition active_id :: "string \<Rightarrow> User \<Rightarrow> bool" where
  "active_id i u \<longleftrightarrow> us_ID u = i \<and> us_ArchivedAt u = None"

definition one_user :: "(User \<Rightarrow> bool) \<Rightarrow> User account_stmt" where
  "one_user P db = (case first_row P (ad_users db) of None \<Rightarrow> Inl ErrNoRows | Some u \<Rightarrow> Inr (u, db))"

definition get_user_by_id :: "string \<Rightarrow> User account_stmt" where
  "get_user_by_id i = one_user (active_id i)"

definition GetUserByEmail :: "string \<Rightarrow> User account_stmt" where
  "GetUserByEmail email = one_user (\<lambda>u. us_Email u = email \<and> us_ArchivedAt u = None)"

text \<open>\<open>ORDER BY created_at ASC\<close>\<close>

definition ListAdminUsers :: "account_db \<Rightarrow> User list" where
  "ListAdminUsers db = sort_key (\<lambda>u. UnwrapOr (us_CreatedAt u) 0) (filter (\<lambda>u. us_IsAdmin u \<and> us_ArchivedAt u = None) (ad_users db))"

definition GetAdminUser :: "User account_stmt" where
  "GetAdminUser db = (case ListAdminUsers db of [] \<Rightarrow> Inl ErrNoRows | u # _ \<Rightarrow> Inr (u, db))"

definition email_taken :: "string \<Rightarrow> string \<Rightarrow> account_db \<Rightarrow> bool" where
  "email_taken email i db \<longleftrightarrow> (\<exists>u \<in> set (ad_users db). us_ID u \<noteq> i \<and> us_ArchivedAt u = None \<and> us_Email u = email)"

definition CreateAdminUser :: "int \<Rightarrow> string \<Rightarrow> string \<Rightarrow> string \<Rightarrow> string \<Rightarrow> User account_stmt" where
  "CreateAdminUser now i email name passwordHash db =
     (if \<not> HasPrefix i ''u_'' then Inl StatementFailed
      else if \<exists>u \<in> set (ad_users db). us_ID u = i then Inl (UniqueViolation ''users_pkey'')
      else if email_taken email i db then Inl (UniqueViolation ''users_email_active_unique_idx'')
      else let u = \<lparr>us_ID = i, us_Email = email, us_Name = name, us_PasswordHash = passwordHash, us_IsAdmin = True, us_PasswordResetRequired = True,
                    us_LastLoginAt = None, us_ArchivedAt = None, us_CreatedAt = Some now, us_UpdatedAt = Some now\<rparr>
           in Inr (u, db\<lparr>ad_users := ad_users db @ [u]\<rparr>))"

text \<open>\<open>UPDATE users ... WHERE id = i AND archived_at IS NULL RETURNING\<close>\<close>

definition update_user :: "int \<Rightarrow> string \<Rightarrow> (User \<Rightarrow> User) \<Rightarrow> User account_stmt" where
  "update_user now i f db =
     (case first_row (active_id i) (ad_users db) of
        None \<Rightarrow> Inl ErrNoRows
      | Some u \<Rightarrow>
          if email_taken (us_Email (f u)) i db then Inl (UniqueViolation ''users_email_active_unique_idx'')
          else Inr ((f u)\<lparr>us_UpdatedAt := Some now\<rparr>,
                    db\<lparr>ad_users := map (\<lambda>u. if active_id i u then (f u)\<lparr>us_UpdatedAt := Some now\<rparr> else u) (ad_users db)\<rparr>))"

definition CompleteInitialSetupForUser :: "int \<Rightarrow> string \<Rightarrow> string \<Rightarrow> string \<Rightarrow> string \<Rightarrow> User account_stmt" where
  "CompleteInitialSetupForUser now i email name passwordHash =
     update_user now i (\<lambda>u. u\<lparr>us_Email := email, us_Name := name, us_PasswordHash := passwordHash, us_PasswordResetRequired := False\<rparr>)"

definition UpdateUserEmail :: "int \<Rightarrow> string \<Rightarrow> string \<Rightarrow> User account_stmt" where
  "UpdateUserEmail now i email = update_user now i (\<lambda>u. u\<lparr>us_Email := email\<rparr>)"

definition UpdateUserPassword :: "int \<Rightarrow> string \<Rightarrow> string \<Rightarrow> User account_stmt" where
  "UpdateUserPassword now i passwordHash = update_user now i (\<lambda>u. u\<lparr>us_PasswordHash := passwordHash, us_PasswordResetRequired := False\<rparr>)"

section \<open>Settings\<close>

definition GetSetting :: "string \<Rightarrow> Setting account_stmt" where
  "GetSetting key db = (case first_row (\<lambda>x. se_Key x = key) (ad_settings db) of None \<Rightarrow> Inl ErrNoRows | Some x \<Rightarrow> Inr (x, db))"

definition new_setting :: "int \<Rightarrow> string \<Rightarrow> string \<Rightarrow> Setting" where
  "new_setting now key v = \<lparr>se_Key = key, se_Value = v, se_CreatedAt = Some now, se_UpdatedAt = Some now\<rparr>"

definition CreateSettingIfAbsent :: "(string \<Rightarrow> string option) \<Rightarrow> int \<Rightarrow> string \<Rightarrow> string \<Rightarrow> unit account_stmt" where
  "CreateSettingIfAbsent jsonb now key raw db =
     (case jsonb raw of
        None \<Rightarrow> Inl StatementFailed
      | Some v \<Rightarrow>
          if \<exists>x \<in> set (ad_settings db). se_Key x = key then Inr ((), db)
          else Inr ((), db\<lparr>ad_settings := ad_settings db @ [new_setting now key v]\<rparr>))"

definition UpsertSetting :: "(string \<Rightarrow> string option) \<Rightarrow> int \<Rightarrow> string \<Rightarrow> string \<Rightarrow> unit account_stmt" where
  "UpsertSetting jsonb now key raw db =
     (case jsonb raw of
        None \<Rightarrow> Inl StatementFailed
      | Some v \<Rightarrow>
          if \<exists>x \<in> set (ad_settings db). se_Key x = key
          then Inr ((), db\<lparr>ad_settings := map (\<lambda>x. if se_Key x = key then x\<lparr>se_Value := v, se_UpdatedAt := Some now\<rparr> else x) (ad_settings db)\<rparr>)
          else Inr ((), db\<lparr>ad_settings := ad_settings db @ [new_setting now key v]\<rparr>))"

section \<open>Consistency\<close>

text \<open>Identifiers and keys are unique, and so are the addresses of the users that are not archived; the identifiers of users
  have their prefix.\<close>

definition active_emails :: "account_db \<Rightarrow> string list" where
  "active_emails db = map us_Email (filter (\<lambda>u. us_ArchivedAt u = None) (ad_users db))"

definition accounts_ok :: "account_db \<Rightarrow> bool" where
  "accounts_ok db \<longleftrightarrow> distinct (map us_ID (ad_users db)) \<and> distinct (active_emails db) \<and> distinct (map se_Key (ad_settings db)) \<and>
     (\<forall>u \<in> set (ad_users db). HasPrefix (us_ID u) ''u_'')"

lemma CreateAdminUser_ok:
  assumes "accounts_ok db" "CreateAdminUser now i email name h db = Inr (u, db')"
  shows "accounts_ok db'"
proof -
  from assms(2) have new: "ad_users db' = ad_users db @ [u]" "ad_settings db' = ad_settings db" "us_ID u = i" "us_Email u = email"
      "\<forall>v \<in> set (ad_users db). us_ID v \<noteq> i" "\<not> email_taken email i db" "HasPrefix i ''u_''"
    by (auto simp: CreateAdminUser_def Let_def split: if_splits)
  then have "email \<notin> set (active_emails db)" by (auto simp: active_emails_def email_taken_def)
  then show ?thesis using assms(1) new by (auto simp: accounts_ok_def active_emails_def)
qed

lemma map_active_ids:
  assumes "\<And>u. us_ID (f u) = us_ID u"
  shows "map us_ID (map (\<lambda>u. if active_id i u then (f u)\<lparr>us_UpdatedAt := Some now\<rparr> else u) us) = map us_ID us"
  by (induction us) (simp_all add: assms)

text \<open>Only the user that is changed may get another address, and nobody else has it.\<close>

lemma update_user_ok:
  assumes "accounts_ok db" "update_user now i f db = Inr (r, db')" "\<And>u. us_ID (f u) = us_ID u" "\<And>u. us_ArchivedAt (f u) = us_ArchivedAt u"
  shows "accounts_ok db'"
proof -
  let ?g = "\<lambda>u. if active_id i u then (f u)\<lparr>us_UpdatedAt := Some now\<rparr> else u"
  from assms(2) obtain u where u: "first_row (active_id i) (ad_users db) = Some u" "\<not> email_taken (us_Email (f u)) i db"
      "db' = db\<lparr>ad_users := map ?g (ad_users db)\<rparr>"
    by (auto simp: update_user_def split: option.splits if_splits)
  have ids: "distinct (map us_ID (ad_users db))" "distinct (active_emails db)" "distinct (map se_Key (ad_settings db))"
    using assms(1) by (simp_all add: accounts_ok_def)
  have only: "v = u" if "v \<in> set (ad_users db)" "active_id i v" for v
    using first_row_Some [OF u(1)] that ids(1) by (auto simp: distinct_map active_id_def dest: inj_onD)
  have g: "us_ArchivedAt (?g w) = us_ArchivedAt w" for w using assms(4) by simp
  have email: "us_Email (?g w) = (if active_id i w then us_Email (f u) else us_Email w)" if "w \<in> set (ad_users db)" for w
    using only [of w] that by auto
  have free: "us_Email (f u) \<noteq> us_Email w" if "w \<in> set (ad_users db)" "\<not> active_id i w" "us_ArchivedAt w = None" for w
    using u(2) that by (auto simp: email_taken_def active_id_def)
  have inj: "inj_on us_Email {w \<in> set (ad_users db). us_ArchivedAt w = None}"
    using ids(2) by (simp add: active_emails_def distinct_map)
  have "inj_on (us_Email \<circ> ?g) {w \<in> set (ad_users db). us_ArchivedAt w = None}"
  proof (rule inj_onI)
    fix v w assume vw: "v \<in> {w \<in> set (ad_users db). us_ArchivedAt w = None}" "w \<in> {w \<in> set (ad_users db). us_ArchivedAt w = None}"
      "(us_Email \<circ> ?g) v = (us_Email \<circ> ?g) w"
    then show "v = w" using email [of v] email [of w] free [of v] free [of w] only [of v] only [of w] inj
      by (auto simp: inj_on_def split: if_splits)
  qed
  moreover have "distinct (filter (\<lambda>u. us_ArchivedAt u = None) (ad_users db))" using ids(1) by (simp add: distinct_map)
  ultimately have emails: "distinct (active_emails db')"
    unfolding active_emails_def u(3) by (simp add: filter_map comp_def g distinct_map split del: if_split)
  have users: "ad_users db' = map ?g (ad_users db)" by (simp add: u(3))
  have ids': "map us_ID (ad_users db') = map us_ID (ad_users db)" by (simp only: users map_active_ids [of f, OF assms(3)])
  from ids' have "us_ID ` set (ad_users db') = us_ID ` set (ad_users db)" by (metis list.set_map)
  moreover have "\<forall>i \<in> us_ID ` set (ad_users db). HasPrefix i ''u_''" using assms(1) by (simp add: accounts_ok_def)
  ultimately have "\<forall>i \<in> us_ID ` set (ad_users db'). HasPrefix i ''u_''" by simp
  then have "\<forall>u \<in> set (ad_users db'). HasPrefix (us_ID u) ''u_''" by simp
  with emails ids' show ?thesis using ids by (simp add: accounts_ok_def) (simp add: u(3))
qed

lemma map_setting_keys: "map (\<lambda>x. se_Key (if se_Key x = k then x\<lparr>se_Value := v, se_UpdatedAt := t\<rparr> else x)) xs = map se_Key xs"
  by simp

lemma settings_ok:
  "accounts_ok db \<Longrightarrow> CreateSettingIfAbsent j now k raw db = Inr (x, db') \<Longrightarrow> accounts_ok db'"
  "accounts_ok db \<Longrightarrow> UpsertSetting j now k raw db = Inr (x, db') \<Longrightarrow> accounts_ok db'"
  by (auto simp: CreateSettingIfAbsent_def UpsertSetting_def accounts_ok_def active_emails_def new_setting_def comp_def map_setting_keys
      split: option.splits if_splits)

text \<open>The row that an update returns is the one that is found afterwards.\<close>

lemma first_row_map: "(\<And>x. P (g x) = P x) \<Longrightarrow> first_row P (map g xs) = map_option g (first_row P xs)"
  by (induction xs) simp_all

lemma update_user_get:
  assumes "update_user now i f db = Inr (r, db')" "\<And>u. us_ID (f u) = us_ID u" "\<And>u. us_ArchivedAt (f u) = us_ArchivedAt u"
  shows "get_user_by_id i db' = Inr (r, db')" "\<exists>u. get_user_by_id i db = Inr (u, db) \<and> r = (f u)\<lparr>us_UpdatedAt := Some now\<rparr>" "us_ID r = i"
proof -
  let ?g = "\<lambda>u. if active_id i u then (f u)\<lparr>us_UpdatedAt := Some now\<rparr> else u"
  from assms(1) obtain u where u: "first_row (active_id i) (ad_users db) = Some u" "r = (f u)\<lparr>us_UpdatedAt := Some now\<rparr>" "ad_users db' = map ?g (ad_users db)"
    by (auto simp: update_user_def split: option.splits if_splits)
  have g: "active_id i (?g v) = active_id i v" for v using assms(2,3) by (auto simp: active_id_def)
  have "first_row (active_id i) (map ?g (ad_users db)) = map_option ?g (first_row (active_id i) (ad_users db))"
    by (rule first_row_map) (rule g)
  moreover have "active_id i u" using first_row_Some [OF u(1)] by simp
  ultimately have "first_row (active_id i) (ad_users db') = Some r" using u by simp
  then show "get_user_by_id i db' = Inr (r, db')" "\<exists>u. get_user_by_id i db = Inr (u, db) \<and> r = (f u)\<lparr>us_UpdatedAt := Some now\<rparr>"
    using u(1,2) by (auto simp: get_user_by_id_def one_user_def)
  show "us_ID r = i" using \<open>active_id i u\<close> assms(2) u(2) by (simp add: active_id_def)
qed

end
