(* ===== verification/Account_Service.thy ===== *)
theory Account_Service
  imports Account_Tables Host_Service
begin

text \<open>
  What the settings service and the authentication share: their state, the environment with the calls that fail, the
  codecs of the settings, bcrypt, JSON web tokens and the HMAC as parameters, statements and transactions, and the manager
  of one setting (\<open>SettingManager\<close> of \<open>internal/services/settings.go\<close>).
\<close>

section \<open>State and environment\<close>

record accounts =
  ac_db :: account_db
  ac_auditLog :: "AuditLog list"
  ac_published :: "Event list"

text \<open>The calls that can fail; \<open>GetSetting\<close> and \<open>Encrypt\<close> are told apart by where they stand in the operation.\<close>

datatype account_call =
    AcctBeginTx | AcctCommit | AcctGetSetting nat | AcctUpsertSetting | AcctCreateSettingIfAbsent | AcctGetAdminUser | AcctCreateAdminUser
  | AcctCompleteInitialSetup | AcctGetUserByID | AcctGetUserByEmail | AcctUpdateUserEmail | AcctUpdateUserPassword
  | AcctHashPassword | AcctGenerateKeyPair | AcctMarshal | AcctUnmarshal | AcctSign

datatype account_app_error =
    ErrInvalidCredentials | ErrUnauthorized | ErrInitialSetupAlreadyComplete | ErrEmailAlreadyInUse | ErrEmailRequired
  | ErrCurrentPasswordRequired | ErrCurrentPasswordInvalid | ErrPasswordTooShort | ErrNameRequired

datatype account_error =
    AcctApp account_app_error
  | AcctSql account_call sql_error
  | AcctCall account_call
  | AcctCrypto crypto_error
  | InvalidReportHour
  | EmptyPullUser

record 'v codec =
  cd_marshal :: "'v \<Rightarrow> string option"
  cd_unmarshal :: "string \<Rightarrow> 'v option"

record InitialSetupDone =
  id_Done :: bool

record globalSSHKeyPairDB =
  gd_PublicKey :: string
  gd_EncryptedPrivateKey :: string

record smtpSettingsDB =
  sd_Host :: string
  sd_Port :: int
  sd_Username :: string
  sd_EncryptedPassword :: string
  sd_From :: string
  sd_ReportHour :: "int option"

record claims =
  cl_Subject :: string
  cl_IssuedAt :: int
  cl_NotBefore :: int
  cl_ExpiresAt :: int

text \<open>\<open>av_hash\<close> and \<open>av_check\<close> are bcrypt; \<open>av_sign\<close> signs claims with HS256, \<open>av_unverified\<close> reads the claims of a token
  without checking it, and \<open>av_verify\<close> reads those of a token whose signature is right and whose times admit the clock.\<close>

record account_env =
  av_fault :: "account_call \<Rightarrow> bool"
  av_dbNow :: int
  av_now :: int
  av_drawn :: string
  av_random :: string
  av_jsonb :: "string \<Rightarrow> string option"
  av_setupCodec :: "InitialSetupDone codec"
  av_keyCodec :: "globalSSHKeyPairDB codec"
  av_stringCodec :: "string codec"
  av_boolCodec :: "bool codec"
  av_boolPtrCodec :: "bool option codec"
  av_smtpCodec :: "smtpSettingsDB codec"
  av_newKeyPair :: "(string \<times> string) option"
  av_box :: crypto_box
  av_nonce :: "string option"
  av_hash :: "string \<Rightarrow> string option"
  av_check :: "string \<Rightarrow> string \<Rightarrow> bool"
  av_hmac :: "string \<Rightarrow> string \<Rightarrow> string"
  av_secret :: string
  av_sign :: "string \<Rightarrow> claims \<Rightarrow> string option"
  av_unverified :: "string \<Rightarrow> claims option"
  av_verify :: "int \<Rightarrow> string \<Rightarrow> string \<Rightarrow> claims option"
  av_auditEnv :: audit_env

section \<open>Statements and transactions\<close>

type_synonym 'a account_body = "account_db \<Rightarrow> account_error + 'a \<times> account_db"
type_synonym 'a account_outcome = "accounts \<times> (account_error + 'a)"

definition run_stmt :: "account_env \<Rightarrow> account_call \<Rightarrow> 'a account_stmt \<Rightarrow> 'a account_body" where
  "run_stmt env c st db =
     (if av_fault env c then Inl (AcctSql c StatementFailed)
      else case st db of Inl e \<Rightarrow> Inl (AcctSql c e) | Inr r \<Rightarrow> Inr r)"

definition and_then :: "account_error + 'a \<times> account_db \<Rightarrow> ('a \<Rightarrow> 'b account_body) \<Rightarrow> account_error + 'b \<times> account_db" where
  "and_then r f = (case r of Inl e \<Rightarrow> Inl e | Inr (a, db) \<Rightarrow> f a db)"

definition required :: "account_app_error \<Rightarrow> account_error + 'r \<Rightarrow> account_error + 'r" where
  "required missing r = (case r of Inl (AcctSql c ErrNoRows) \<Rightarrow> Inl (AcctApp missing) | _ \<Rightarrow> r)"

definition on_duplicate :: "string \<Rightarrow> account_app_error \<Rightarrow> account_error + 'r \<Rightarrow> account_error + 'r" where
  "on_duplicate name e r = (case r of Inl (AcctSql c (UniqueViolation n)) \<Rightarrow> if n = name then Inl (AcctApp e) else r | _ \<Rightarrow> r)"

definition record_audit :: "account_env \<Rightarrow> AuditEvent \<Rightarrow> accounts \<Rightarrow> accounts" where
  "record_audit env event s =
     (let (rows, published) = Record (av_auditEnv env) event (ac_auditLog s, ac_published s)
      in s\<lparr>ac_auditLog := rows, ac_published := published\<rparr>)"

section \<open>One setting\<close>

text \<open>\<open>settingManager.Get\<close>: the zero value when there is no row\<close>

definition setting_Get :: "account_env \<Rightarrow> nat \<Rightarrow> 'v codec \<Rightarrow> 'v \<Rightarrow> string \<Rightarrow> account_db \<Rightarrow> account_error + 'v" where
  "setting_Get env n c zero key db =
     (if av_fault env (AcctGetSetting n) then Inl (AcctSql (AcctGetSetting n) StatementFailed)
      else case GetSetting key db of
        Inl _ \<Rightarrow> Inr zero
      | Inr (x, _) \<Rightarrow> (case cd_unmarshal c (se_Value x) of None \<Rightarrow> Inl (AcctCall AcctUnmarshal) | Some v \<Rightarrow> Inr v))"

definition setting_Set :: "account_env \<Rightarrow> 'v codec \<Rightarrow> string \<Rightarrow> 'v \<Rightarrow> unit account_body" where
  "setting_Set env c key v db =
     (case cd_marshal c v of
        None \<Rightarrow> Inl (AcctCall AcctMarshal)
      | Some raw \<Rightarrow> run_stmt env AcctUpsertSetting (UpsertSetting (av_jsonb env) (av_dbNow env) key raw) db)"

definition setting_Ensure :: "account_env \<Rightarrow> 'v codec \<Rightarrow> string \<Rightarrow> 'v \<Rightarrow> unit account_body" where
  "setting_Ensure env c key v db =
     (case cd_marshal c v of
        None \<Rightarrow> Inl (AcctCall AcctMarshal)
      | Some raw \<Rightarrow> run_stmt env AcctCreateSettingIfAbsent (CreateSettingIfAbsent (av_jsonb env) (av_dbNow env) key raw) db)"

text \<open>Reading a setting after it was set gives the value, if the codec and the column keep it; other settings stay as
  they are.\<close>

definition codec_keeps :: "account_env \<Rightarrow> 'v codec \<Rightarrow> 'v \<Rightarrow> bool" where
  "codec_keeps env c v \<longleftrightarrow> (\<exists>raw t. cd_marshal c v = Some raw \<and> av_jsonb env raw = Some t \<and> cd_unmarshal c t = Some v)"

definition setting_value :: "string \<Rightarrow> account_db \<Rightarrow> string option" where
  "setting_value key db = map_option se_Value (first_row (\<lambda>x. se_Key x = key) (ad_settings db))"

lemma setting_Get_value:
  "setting_Get env n c zero key db =
     (if av_fault env (AcctGetSetting n) then Inl (AcctSql (AcctGetSetting n) StatementFailed)
      else case setting_value key db of
        None \<Rightarrow> Inr zero
      | Some t \<Rightarrow> (case cd_unmarshal c t of None \<Rightarrow> Inl (AcctCall AcctUnmarshal) | Some v \<Rightarrow> Inr v))"
  by (simp add: setting_Get_def GetSetting_def setting_value_def split: option.split)

lemma first_row_append: "first_row P (xs @ ys) = (case first_row P xs of None \<Rightarrow> first_row P ys | Some x \<Rightarrow> Some x)"
  by (induction xs) auto

lemma first_row_None: "first_row P xs = None \<longleftrightarrow> (\<forall>x \<in> set xs. \<not> P x)"
  by (induction xs) auto

lemma value_None: "setting_value key db = None \<longleftrightarrow> (\<forall>x \<in> set (ad_settings db). se_Key x \<noteq> key)"
  by (simp add: setting_value_def first_row_None)

lemma value_update:
  "setting_value k (db\<lparr>ad_settings := map (\<lambda>x. if se_Key x = key then x\<lparr>se_Value := v, se_UpdatedAt := t\<rparr> else x) (ad_settings db)\<rparr>) =
     (if k = key then map_option (\<lambda>_. v) (setting_value k db) else setting_value k db)"
proof -
  have "map_option se_Value (first_row (\<lambda>x. se_Key x = k) (map (\<lambda>x. if se_Key x = key then x\<lparr>se_Value := v, se_UpdatedAt := t\<rparr> else x) xs)) =
      (if k = key then map_option (\<lambda>_. v) (first_row (\<lambda>x. se_Key x = k) xs) else map_option se_Value (first_row (\<lambda>x. se_Key x = k) xs))" for xs
    by (induction xs) auto
  from this [of "ad_settings db"] show ?thesis by (cases "k = key") (simp_all add: setting_value_def option.map_comp comp_def)
qed

lemma value_append:
  "setting_value k (db\<lparr>ad_settings := ad_settings db @ [new_setting now key v]\<rparr>) =
     (case setting_value k db of Some t \<Rightarrow> Some t | None \<Rightarrow> if k = key then Some v else None)"
  by (simp add: setting_value_def first_row_append new_setting_def split: option.split)

lemma UpsertSetting_value:
  assumes "UpsertSetting j now key raw db = Inr (x, db')"
  shows "setting_value k db' = (if k = key then j raw else setting_value k db)" "ad_users db' = ad_users db" "j raw \<noteq> None"
proof -
  from assms obtain v where v: "j raw = Some v" by (auto simp: UpsertSetting_def split: option.splits)
  show "setting_value k db' = (if k = key then j raw else setting_value k db)"
  proof (cases "setting_value key db = None")
    case True
    then have "db' = db\<lparr>ad_settings := ad_settings db @ [new_setting now key v]\<rparr>"
      using assms v by (auto simp: UpsertSetting_def value_None)
    then show ?thesis using True v by (simp add: value_append split: option.split)
  next
    case False
    then have "db' = db\<lparr>ad_settings := map (\<lambda>x. if se_Key x = key then x\<lparr>se_Value := v, se_UpdatedAt := Some now\<rparr> else x) (ad_settings db)\<rparr>"
      using assms v by (auto simp: UpsertSetting_def value_None split: if_splits)
    then show ?thesis using False v by (auto simp: value_update)
  qed
  show "ad_users db' = ad_users db" "j raw \<noteq> None" using assms v by (auto simp: UpsertSetting_def split: if_splits)
qed

lemma CreateSettingIfAbsent_value:
  assumes "CreateSettingIfAbsent j now key raw db = Inr (x, db')"
  shows "setting_value k db' = (if k = key \<and> setting_value key db = None then j raw else setting_value k db)" "ad_users db' = ad_users db" "j raw \<noteq> None"
proof -
  from assms obtain v where v: "j raw = Some v" by (auto simp: CreateSettingIfAbsent_def split: option.splits)
  show "setting_value k db' = (if k = key \<and> setting_value key db = None then j raw else setting_value k db)"
  proof (cases "setting_value key db = None")
    case True
    then have "db' = db\<lparr>ad_settings := ad_settings db @ [new_setting now key v]\<rparr>"
      using assms v by (auto simp: CreateSettingIfAbsent_def value_None)
    then show ?thesis using True v by (simp add: value_append split: option.split)
  next
    case False
    then have "db' = db" using assms v by (auto simp: CreateSettingIfAbsent_def value_None split: if_splits)
    then show ?thesis using False by auto
  qed
  show "ad_users db' = ad_users db" "j raw \<noteq> None" using assms v by (auto simp: CreateSettingIfAbsent_def split: if_splits)
qed

end
