(* ===== verification/Settings_Service.thy ===== *)
theory Settings_Service
  imports Account_Service
begin

text \<open>
  The settings service (\<open>internal/services/settings.go\<close>): the initial setup with its bootstrap administrator, the global SSH
  key pair, the mail settings and the simple settings. Every setting is a JSON value under a key of its own.
\<close>

section \<open>Initial setup\<close>

definition InitialSetupDoneKey :: string where "InitialSetupDoneKey = ''initial_setup_done''"
definition bootstrapAdminEmail :: string where "bootstrapAdminEmail = ''admin@patchbase.local''"
definition bootstrapAdminName :: string where "bootstrapAdminName = ''Administrator''"

definition normalizeEmail :: "string \<Rightarrow> string" where
  "normalizeEmail email = ToLower (TrimSpace email)"

definition Status :: "account_env \<Rightarrow> accounts \<Rightarrow> account_error + InitialSetupDone" where
  "Status env s = setting_Get env 0 (av_setupCodec env) \<lparr>id_Done = False\<rparr> InitialSetupDoneKey (ac_db s)"

text \<open>The transaction is rolled back unless it created the administrator. A unique violation on the address means that
  another instance was faster.\<close>

definition TryInitialSetup :: "account_env \<Rightarrow> accounts \<Rightarrow> bool account_outcome" where
  "TryInitialSetup env s =
     (if av_fault env AcctBeginTx then (s, Inl (AcctCall AcctBeginTx))
      else case Status env s of
        Inl e \<Rightarrow> (s, Inl e)
      | Inr data \<Rightarrow>
          if id_Done data then (s, Inr False)
          else case setting_Ensure env (av_setupCodec env) InitialSetupDoneKey \<lparr>id_Done = False\<rparr> (ac_db s) of
            Inl e \<Rightarrow> (s, Inl e)
          | Inr (_, db) \<Rightarrow>
              (case run_stmt env AcctGetAdminUser GetAdminUser db of
                 Inr _ \<Rightarrow> (s, Inr False)
               | Inl e \<Rightarrow>
                   if e \<noteq> AcctSql AcctGetAdminUser ErrNoRows then (s, Inl e)
                   else case av_hash env (av_random env) of
                     None \<Rightarrow> (s, Inl (AcctCall AcctHashPassword))
                   | Some passwordHash \<Rightarrow>
                       (case run_stmt env AcctCreateAdminUser (CreateAdminUser (av_dbNow env) (id_New ''u'' (av_drawn env))
                               bootstrapAdminEmail bootstrapAdminName passwordHash) db of
                          Inl e \<Rightarrow>
                            if e = AcctSql AcctCreateAdminUser (UniqueViolation ''users_email_active_unique_idx'') then (s, Inr False) else (s, Inl e)
                        | Inr (_, db) \<Rightarrow>
                            if av_fault env AcctCommit then (s, Inl (AcctCall AcctCommit)) else (s\<lparr>ac_db := db\<rparr>, Inr True))))"

record CompleteInitialSetupInput =
  ci_Name :: string
  ci_Email :: string
  ci_Password :: string

definition CompleteInitialSetup :: "account_env \<Rightarrow> string \<Rightarrow> CompleteInitialSetupInput \<Rightarrow> accounts \<Rightarrow> User account_outcome" where
  "CompleteInitialSetup env userID input s =
     (if av_fault env AcctBeginTx then (s, Inl (AcctCall AcctBeginTx))
      else case Status env s of
        Inl e \<Rightarrow> (s, Inl e)
      | Inr status \<Rightarrow>
          if id_Done status then (s, Inl (AcctApp ErrInitialSetupAlreadyComplete))
          else
            let name = TrimSpace (ci_Name input); email = normalizeEmail (ci_Email input)
            in if name = [] then (s, Inl (AcctApp ErrNameRequired))
               else if email = [] then (s, Inl (AcctApp ErrEmailRequired))
               else if length (ci_Password input) < 12 then (s, Inl (AcctApp ErrPasswordTooShort))
               else case av_hash env (ci_Password input) of
                 None \<Rightarrow> (s, Inl (AcctCall AcctHashPassword))
               | Some passwordHash \<Rightarrow>
                   (case on_duplicate ''users_email_active_unique_idx'' ErrEmailAlreadyInUse (run_stmt env AcctCompleteInitialSetup
                           (CompleteInitialSetupForUser (av_dbNow env) userID email name passwordHash) (ac_db s)) of
                      Inl e \<Rightarrow> (s, Inl e)
                    | Inr (user, db) \<Rightarrow>
                        (case setting_Set env (av_setupCodec env) InitialSetupDoneKey \<lparr>id_Done = True\<rparr> db of
                           Inl e \<Rightarrow> (s, Inl e)
                         | Inr (_, db) \<Rightarrow>
                             if av_fault env AcctCommit then (s, Inl (AcctCall AcctCommit)) else (s\<lparr>ac_db := db\<rparr>, Inr user))))"

section \<open>The global key pair\<close>

record GlobalSSHKeyPair =
  gk_PublicKey :: string
  gk_PrivateKey :: string

definition open_pair :: "account_env \<Rightarrow> globalSSHKeyPairDB \<Rightarrow> account_error + GlobalSSHKeyPair" where
  "open_pair env val =
     (case Decrypt (av_box env) (gd_EncryptedPrivateKey val) of
        Inl e \<Rightarrow> Inl (AcctCrypto e)
      | Inr decrypted \<Rightarrow> Inr \<lparr>gk_PublicKey = gd_PublicKey val, gk_PrivateKey = decrypted\<rparr>)"

definition stored_pair :: "account_env \<Rightarrow> nat \<Rightarrow> account_db \<Rightarrow> account_error + globalSSHKeyPairDB" where
  "stored_pair env n = setting_Get env n (av_keyCodec env) \<lparr>gd_PublicKey = [], gd_EncryptedPrivateKey = []\<rparr> ''global_ssh_key''"

text \<open>A pair that is not stored yet is generated, stored in a transaction that looks again first, and read back.\<close>

definition GetGlobalSSHKeyPair :: "account_env \<Rightarrow> accounts \<Rightarrow> GlobalSSHKeyPair account_outcome" where
  "GetGlobalSSHKeyPair env s =
     (case stored_pair env 0 (ac_db s) of
        Inl e \<Rightarrow> (s, Inl e)
      | Inr val \<Rightarrow>
          if gd_PublicKey val \<noteq> [] then (s, open_pair env val)
          else case av_newKeyPair env of
            None \<Rightarrow> (s, Inl (AcctCall AcctGenerateKeyPair))
          | Some (pubKey, privKey) \<Rightarrow>
              (case Encrypt (av_box env) (av_nonce env) privKey of
                 Inl e \<Rightarrow> (s, Inl (AcctCrypto e))
               | Inr encPrivKey \<Rightarrow>
                   if av_fault env AcctBeginTx then (s, Inl (AcctCall AcctBeginTx))
                   else case stored_pair env 1 (ac_db s) of
                     Inl e \<Rightarrow> (s, Inl e)
                   | Inr val \<Rightarrow>
                       if gd_PublicKey val \<noteq> [] then (s, open_pair env val)
                       else case setting_Ensure env (av_keyCodec env) ''global_ssh_key''
                              \<lparr>gd_PublicKey = pubKey, gd_EncryptedPrivateKey = encPrivKey\<rparr> (ac_db s) of
                         Inl e \<Rightarrow> (s, Inl e)
                       | Inr (_, db) \<Rightarrow>
                           if av_fault env AcctCommit then (s, Inl (AcctCall AcctCommit))
                           else let s1 = s\<lparr>ac_db := db\<rparr>
                                in case stored_pair env 2 db of Inl e \<Rightarrow> (s1, Inl e) | Inr finalVal \<Rightarrow> (s1, open_pair env finalVal)))"

section \<open>Simple settings\<close>

definition setting_event :: "ActorRef \<Rightarrow> string \<Rightarrow> (string \<times> metadata) list \<Rightarrow> AuditEvent" where
  "setting_event actor key md = actor_event actor ''settings.update'' ''setting'' key md (ar_UserAgent actor)"

definition save_setting :: "account_env \<Rightarrow> ActorRef \<Rightarrow> 'v codec \<Rightarrow> string \<Rightarrow> 'v \<Rightarrow> (string \<times> metadata) list \<Rightarrow> accounts \<Rightarrow> unit account_outcome" where
  "save_setting env actor c key v md s =
     (case setting_Set env c key v (ac_db s) of
        Inl e \<Rightarrow> (s, Inl e)
      | Inr (_, db) \<Rightarrow> (record_audit env (setting_event actor key md) (s\<lparr>ac_db := db\<rparr>), Inr ()))"

definition GetDefaultSSHPullUser :: "account_env \<Rightarrow> accounts \<Rightarrow> account_error + string" where
  "GetDefaultSSHPullUser env s =
     (case setting_Get env 0 (av_stringCodec env) [] ''default_ssh_pull_user'' (ac_db s) of
        Inl e \<Rightarrow> Inl e
      | Inr val \<Rightarrow> Inr (if val = [] then ''root'' else val))"

definition SetDefaultSSHPullUser :: "account_env \<Rightarrow> ActorRef \<Rightarrow> string \<Rightarrow> accounts \<Rightarrow> unit account_outcome" where
  "SetDefaultSSHPullUser env actor user s =
     (let user = TrimSpace user in
      if user = [] then (s, Inl EmptyPullUser)
      else save_setting env actor (av_stringCodec env) ''default_ssh_pull_user'' user [(''value'', MetaString user)] s)"

text \<open>The setting is read through a pointer: an absent row and a stored \<open>null\<close> give the default.\<close>

definition GetAskToCopyPublicKey :: "account_env \<Rightarrow> accounts \<Rightarrow> account_error + bool" where
  "GetAskToCopyPublicKey env s =
     (case setting_Get env 0 (av_boolPtrCodec env) None ''ask_to_copy_public_key'' (ac_db s) of
        Inl e \<Rightarrow> Inl e
      | Inr val \<Rightarrow> Inr (UnwrapOr val True))"

definition SetAskToCopyPublicKey :: "account_env \<Rightarrow> ActorRef \<Rightarrow> bool \<Rightarrow> accounts \<Rightarrow> unit account_outcome" where
  "SetAskToCopyPublicKey env actor ask s =
     save_setting env actor (av_boolCodec env) ''ask_to_copy_public_key'' ask [(''value'', MetaBool ask)] s"

definition GetEmailFrequency :: "account_env \<Rightarrow> accounts \<Rightarrow> account_error + string" where
  "GetEmailFrequency env s =
     (case setting_Get env 0 (av_stringCodec env) [] ''email_frequency'' (ac_db s) of
        Inl e \<Rightarrow> Inl e
      | Inr val \<Rightarrow> Inr (if val = [] then ''never'' else val))"

definition SetEmailFrequency :: "account_env \<Rightarrow> ActorRef \<Rightarrow> string \<Rightarrow> accounts \<Rightarrow> unit account_outcome" where
  "SetEmailFrequency env actor frequency s =
     save_setting env actor (av_stringCodec env) ''email_frequency'' frequency [(''value'', MetaString frequency)] s"

section \<open>Mail settings\<close>

record SMTPSettings =
  sm_Host :: string
  sm_Port :: int
  sm_Username :: string
  sm_Password :: string
  sm_From :: string
  sm_ReportHour :: int

definition stored_smtp :: "account_env \<Rightarrow> accounts \<Rightarrow> account_error + smtpSettingsDB" where
  "stored_smtp env s = setting_Get env 0 (av_smtpCodec env)
     \<lparr>sd_Host = [], sd_Port = 0, sd_Username = [], sd_EncryptedPassword = [], sd_From = [], sd_ReportHour = None\<rparr> ''smtp_settings'' (ac_db s)"

definition GetSMTPSettings :: "account_env \<Rightarrow> accounts \<Rightarrow> account_error + SMTPSettings" where
  "GetSMTPSettings env s =
     (case stored_smtp env s of
        Inl e \<Rightarrow> Inl e
      | Inr val \<Rightarrow>
          let res = \<lparr>sm_Host = sd_Host val, sm_Port = sd_Port val, sm_Username = sd_Username val, sm_Password = [], sm_From = sd_From val,
                     sm_ReportHour = UnwrapOr (sd_ReportHour val) 9\<rparr>
          in if sd_EncryptedPassword val = [] then Inr res
             else case Decrypt (av_box env) (sd_EncryptedPassword val) of
               Inl e \<Rightarrow> Inl (AcctCrypto e)
             | Inr dec \<Rightarrow> Inr (res\<lparr>sm_Password := dec\<rparr>))"

text \<open>An empty password keeps the stored one.\<close>

definition new_password :: "account_env \<Rightarrow> string \<Rightarrow> accounts \<Rightarrow> account_error + string" where
  "new_password env password s =
     (if password \<noteq> [] then
        (case Encrypt (av_box env) (av_nonce env) password of Inl e \<Rightarrow> Inl (AcctCrypto e) | Inr enc \<Rightarrow> Inr enc)
      else case stored_smtp env s of Inl e \<Rightarrow> Inl e | Inr oldVal \<Rightarrow> Inr (sd_EncryptedPassword oldVal))"

definition smtp_row :: "SMTPSettings \<Rightarrow> string \<Rightarrow> smtpSettingsDB" where
  "smtp_row v encryptedPass = \<lparr>sd_Host = sm_Host v, sd_Port = sm_Port v, sd_Username = sm_Username v, sd_EncryptedPassword = encryptedPass,
     sd_From = sm_From v, sd_ReportHour = Some (sm_ReportHour v)\<rparr>"

definition SetSMTPSettings :: "account_env \<Rightarrow> ActorRef \<Rightarrow> SMTPSettings \<Rightarrow> accounts \<Rightarrow> unit account_outcome" where
  "SetSMTPSettings env actor v s =
     (if sm_ReportHour v < 0 \<or> sm_ReportHour v > 23 then (s, Inl InvalidReportHour)
      else case new_password env (sm_Password v) s of
        Inl e \<Rightarrow> (s, Inl e)
      | Inr encryptedPass \<Rightarrow>
          save_setting env actor (av_smtpCodec env) ''smtp_settings'' (smtp_row v encryptedPass)
            [(''host'', MetaString (sm_Host v)), (''port'', MetaInt (sm_Port v)), (''username'', MetaString (sm_Username v)),
             (''from'', MetaString (sm_From v)), (''report_hour'', MetaInt (sm_ReportHour v)),
             (''password_updated'', MetaBool (sm_Password v \<noteq> []))] s)"

end
