(* ===== verification/Auth_Service.thy ===== *)
theory Auth_Service
  imports Settings_Service
begin

text \<open>
  Authentication (\<open>internal/services/auth.go\<close>): logging in, access tokens, and changing the profile of a user. A token is
  signed with a key that depends on the password hash of its user.
\<close>

section \<open>Access tokens\<close>

text \<open>Times are in nanoseconds; the claims hold whole seconds.\<close>

definition accessTokenTTL :: int where "accessTokenTTL = 86400000000000"

definition numeric_date :: "int \<Rightarrow> int" where
  "numeric_date t = t div 1000000000 * 1000000000"

definition jwtSigningKey :: "account_env \<Rightarrow> User \<Rightarrow> string" where
  "jwtSigningKey env user = av_hmac env (av_secret env) (us_PasswordHash user)"

definition token_claims :: "int \<Rightarrow> User \<Rightarrow> claims" where
  "token_claims now user = \<lparr>cl_Subject = us_ID user, cl_IssuedAt = numeric_date now, cl_NotBefore = numeric_date now,
     cl_ExpiresAt = numeric_date (now + accessTokenTTL)\<rparr>"

definition signAccessToken :: "account_env \<Rightarrow> User \<Rightarrow> account_error + string" where
  "signAccessToken env user =
     (case av_sign env (jwtSigningKey env user) (token_claims (av_now env) user) of None \<Rightarrow> Inl (AcctCall AcctSign) | Some t \<Rightarrow> Inr t)"

definition verifyAccessToken :: "account_env \<Rightarrow> string \<Rightarrow> User \<Rightarrow> bool" where
  "verifyAccessToken env token user =
     (case av_verify env (av_now env) (jwtSigningKey env user) token of None \<Rightarrow> False | Some c \<Rightarrow> cl_Subject c = us_ID user)"

definition parseAccessTokenSubject :: "account_env \<Rightarrow> string \<Rightarrow> string option" where
  "parseAccessTokenSubject env token =
     (case av_unverified env token of None \<Rightarrow> None | Some c \<Rightarrow> if cl_Subject c = [] then None else Some (cl_Subject c))"

section \<open>Logging in\<close>

record LoginResult =
  lr_AccessToken :: string
  lr_User :: User

definition recordLoginFailure :: "account_env \<Rightarrow> string \<Rightarrow> string \<Rightarrow> string \<Rightarrow> string \<Rightarrow> accounts \<Rightarrow> accounts" where
  "recordLoginFailure env normalizedEmail rawEmail ipAddress userAgent =
     record_audit env \<lparr>ae_ActorID = [], ae_ActorEmail = (if normalizedEmail = [] then rawEmail else normalizedEmail), ae_Action = ''auth.login.failure'',
       ae_TargetType = ''user'', ae_TargetID = [], ae_Metadata = [(''reason'', MetaString ''invalid_credentials'')], ae_IPAddress = ipAddress,
       ae_UserAgent = userAgent\<rparr>"

definition user_event :: "User \<Rightarrow> string \<Rightarrow> (string \<times> metadata) list \<Rightarrow> string \<Rightarrow> string \<Rightarrow> AuditEvent" where
  "user_event user action md ipAddress userAgent =
     \<lparr>ae_ActorID = us_ID user, ae_ActorEmail = us_Email user, ae_Action = action, ae_TargetType = ''user'', ae_TargetID = us_ID user,
      ae_Metadata = md, ae_IPAddress = ipAddress, ae_UserAgent = userAgent\<rparr>"

definition Login :: "account_env \<Rightarrow> string \<Rightarrow> string \<Rightarrow> string \<Rightarrow> string \<Rightarrow> accounts \<Rightarrow> LoginResult account_outcome" where
  "Login env email password ipAddress userAgent s =
     (let normalized = normalizeEmail email;
          failed = recordLoginFailure env normalized email ipAddress userAgent s
      in case required ErrInvalidCredentials (run_stmt env AcctGetUserByEmail (GetUserByEmail normalized) (ac_db s)) of
           Inl e \<Rightarrow> (failed, Inl e)
         | Inr (user, _) \<Rightarrow>
             if \<not> av_check env password (us_PasswordHash user) then (failed, Inl (AcctApp ErrInvalidCredentials))
             else case signAccessToken env user of
               Inl e \<Rightarrow> (s, Inl e)
             | Inr token \<Rightarrow>
                 (record_audit env (user_event user ''auth.login.success'' [] ipAddress userAgent) s, Inr \<lparr>lr_AccessToken = token, lr_User = user\<rparr>))"

definition Authenticate :: "account_env \<Rightarrow> string \<Rightarrow> accounts \<Rightarrow> account_error + User" where
  "Authenticate env token s =
     (case parseAccessTokenSubject env token of
        None \<Rightarrow> Inl (AcctApp ErrUnauthorized)
      | Some userID \<Rightarrow>
          (case required ErrUnauthorized (run_stmt env AcctGetUserByID (get_user_by_id userID) (ac_db s)) of
             Inl e \<Rightarrow> Inl e
           | Inr (user, _) \<Rightarrow> if verifyAccessToken env token user then Inr user else Inl (AcctApp ErrUnauthorized)))"

definition IssueAccessToken :: "account_env \<Rightarrow> string \<Rightarrow> accounts \<Rightarrow> account_error + string" where
  "IssueAccessToken env userID s =
     (case run_stmt env AcctGetUserByID (get_user_by_id userID) (ac_db s) of
        Inl e \<Rightarrow> Inl e
      | Inr (user, _) \<Rightarrow> signAccessToken env user)"

section \<open>\<open>UpdateProfile\<close>\<close>

record UpdateProfileInput =
  up_Email :: "string option"
  up_CurrentPassword :: "string option"
  up_NewPassword :: "string option"

record UpdateProfileResult =
  ur_User :: User
  ur_PasswordChanged :: bool

definition change_email :: "account_env \<Rightarrow> User \<Rightarrow> string option \<Rightarrow> User account_body" where
  "change_email env user email db =
     (case email of
        None \<Rightarrow> Inr (user, db)
      | Some raw \<Rightarrow>
          let email = normalizeEmail raw in
          if email = [] then Inl (AcctApp ErrEmailRequired)
          else on_duplicate ''users_email_active_unique_idx'' ErrEmailAlreadyInUse
            (run_stmt env AcctUpdateUserEmail (UpdateUserEmail (av_dbNow env) (us_ID user) email) db))"

definition change_password :: "account_env \<Rightarrow> User \<Rightarrow> UpdateProfileInput \<Rightarrow> User account_body" where
  "change_password env user input db =
     (case up_NewPassword input of
        None \<Rightarrow> Inr (user, db)
      | Some newPassword \<Rightarrow>
          let currentPassword = UnwrapOr (up_CurrentPassword input) [] in
          if currentPassword = [] then Inl (AcctApp ErrCurrentPasswordRequired)
          else if \<not> av_check env currentPassword (us_PasswordHash user) then Inl (AcctApp ErrCurrentPasswordInvalid)
          else if length newPassword < 12 then Inl (AcctApp ErrPasswordTooShort)
          else case av_hash env newPassword of
            None \<Rightarrow> Inl (AcctCall AcctHashPassword)
          | Some passwordHash \<Rightarrow> run_stmt env AcctUpdateUserPassword (UpdateUserPassword (av_dbNow env) (us_ID user) passwordHash) db)"

definition profile_tx :: "account_env \<Rightarrow> string \<Rightarrow> UpdateProfileInput \<Rightarrow> User account_body" where
  "profile_tx env userID input db =
     and_then (required ErrUnauthorized (run_stmt env AcctGetUserByID (get_user_by_id userID) db)) (\<lambda>user db.
     and_then (change_email env user (up_Email input) db) (\<lambda>user db. change_password env user input db))"

definition UpdateProfile :: "account_env \<Rightarrow> ActorRef \<Rightarrow> string \<Rightarrow> UpdateProfileInput \<Rightarrow> accounts \<Rightarrow> UpdateProfileResult account_outcome" where
  "UpdateProfile env actor userID input s =
     (if av_fault env AcctBeginTx then (s, Inl (AcctCall AcctBeginTx))
      else case profile_tx env userID input (ac_db s) of
        Inl e \<Rightarrow> (s, Inl e)
      | Inr (user, db) \<Rightarrow>
          if av_fault env AcctCommit then (s, Inl (AcctCall AcctCommit))
          else
            let emailChanged = (up_Email input \<noteq> None); passwordChanged = (up_NewPassword input \<noteq> None);
                md = (if emailChanged then [(''email_changed'', MetaBool True)] else []) @
                     (if passwordChanged then [(''password_changed'', MetaBool True)] else []);
                s1 = s\<lparr>ac_db := db\<rparr>
            in (if emailChanged \<or> passwordChanged then record_audit env (user_event user ''auth.profile.update'' md (ar_IP actor) (ar_UserAgent actor)) s1 else s1,
                Inr \<lparr>ur_User = user, ur_PasswordChanged = passwordChanged\<rparr>))"

end
