(* ===== verification/Account_Properties.thy ===== *)
theory Account_Properties
  imports Auth_Service
begin

text \<open>
  What the settings service and the authentication guarantee together: the database of accounts stays consistent, the
  initial setup happens once, the global key pair never changes once it exists, mail settings are read back as they were
  stored, and how long an access token is good for.
\<close>

section \<open>Reading and writing settings\<close>

lemma run_stmt_Inr: "run_stmt env c st db = Inr x \<longleftrightarrow> \<not> av_fault env c \<and> st db = Inr x"
  by (auto simp: run_stmt_def split: sum.splits)

lemma required_Inr [simp]: "required e r = Inr x \<longleftrightarrow> r = Inr x"
  by (auto simp: required_def split: sum.splits account_error.splits sql_error.splits)

lemma on_duplicate_Inr [simp]: "on_duplicate n e r = Inr x \<longleftrightarrow> r = Inr x"
  by (auto simp: on_duplicate_def split: sum.splits account_error.splits sql_error.splits)

lemma record_audit_db [simp]: "ac_db (record_audit env e s) = ac_db s"
  by (simp add: record_audit_def split: prod.split)

lemma setting_SetD:
  assumes "setting_Set env c key v db = Inr (x, db')"
  shows "k \<noteq> key \<Longrightarrow> setting_value k db' = setting_value k db" "accounts_ok db \<Longrightarrow> accounts_ok db'" "ad_users db' = ad_users db"
    "codec_keeps env c v \<Longrightarrow> \<exists>t. setting_value key db' = Some t \<and> cd_unmarshal c t = Some v"
proof -
  from assms obtain raw where raw: "cd_marshal c v = Some raw" "UpsertSetting (av_jsonb env) (av_dbNow env) key raw db = Inr (x, db')"
    by (auto simp: setting_Set_def run_stmt_Inr split: option.splits)
  note put = UpsertSetting_value [OF raw(2)]
  show "k \<noteq> key \<Longrightarrow> setting_value k db' = setting_value k db" "ad_users db' = ad_users db" using put by simp_all
  show "accounts_ok db \<Longrightarrow> accounts_ok db'" using settings_ok(2) raw(2) by blast
  show "codec_keeps env c v \<Longrightarrow> \<exists>t. setting_value key db' = Some t \<and> cd_unmarshal c t = Some v" using raw(1) put(1) [of key] by (auto simp: codec_keeps_def)
qed

lemma setting_EnsureD:
  assumes "setting_Ensure env c key v db = Inr (x, db')"
  shows "k \<noteq> key \<Longrightarrow> setting_value k db' = setting_value k db" "setting_value k db = Some t \<Longrightarrow> setting_value k db' = Some t"
    "accounts_ok db \<Longrightarrow> accounts_ok db'" "ad_users db' = ad_users db"
proof -
  from assms obtain raw where raw: "CreateSettingIfAbsent (av_jsonb env) (av_dbNow env) key raw db = Inr (x, db')"
    by (auto simp: setting_Ensure_def run_stmt_Inr split: option.splits)
  note put = CreateSettingIfAbsent_value [OF raw]
  show "k \<noteq> key \<Longrightarrow> setting_value k db' = setting_value k db" "ad_users db' = ad_users db" using put by simp_all
  show "setting_value k db = Some t \<Longrightarrow> setting_value k db' = Some t" using put(1) [of k] by auto
  show "accounts_ok db \<Longrightarrow> accounts_ok db'" using settings_ok(1) raw by blast
qed

section \<open>Operations on the database\<close>

text \<open>What an operation that saves a setting leaves behind\<close>

lemma save_setting_cases:
  assumes "save_setting env actor c key v md s = (s', r)"
  obtains (fail) e where "r = Inl e" "s' = s"
  | (ok) db where "r = Inr ()" "ac_db s' = db" "setting_Set env c key v (ac_db s) = Inr ((), db)"
  using assms by (auto simp: save_setting_def split: sum.splits)

lemma TryInitialSetup_cases:
  assumes "TryInitialSetup env s = (s', r)"
  obtains (same) "s' = s" "r \<noteq> Inr True"
  | (created) st db u where "r = Inr True" "Status env s = Inr st" "\<not> id_Done st" "GetAdminUser db = Inl ErrNoRows"
      "setting_Ensure env (av_setupCodec env) InitialSetupDoneKey \<lparr>id_Done = False\<rparr> (ac_db s) = Inr ((), db)"
      "CreateAdminUser (av_dbNow env) (id_New ''u'' (av_drawn env)) bootstrapAdminEmail bootstrapAdminName (the (av_hash env (av_random env))) db = Inr (u, ac_db s')"
  using assms unfolding TryInitialSetup_def
  by (auto simp: run_stmt_def split: if_splits sum.splits option.splits)

lemma CompleteInitialSetup_cases:
  assumes "CompleteInitialSetup env userID input s = (s', r)"
  obtains (same) e where "s' = s" "r = Inl e"
  | (finished) st db h u where "r = Inr u" "Status env s = Inr st" "\<not> id_Done st" "length (ci_Password input) \<ge> 12" "normalizeEmail (ci_Email input) \<noteq> []"
      "av_hash env (ci_Password input) = Some h"
      "CompleteInitialSetupForUser (av_dbNow env) userID (normalizeEmail (ci_Email input)) (TrimSpace (ci_Name input)) h (ac_db s) = Inr (u, db)"
      "setting_Set env (av_setupCodec env) InitialSetupDoneKey \<lparr>id_Done = True\<rparr> db = Inr ((), ac_db s')"
  using assms unfolding CompleteInitialSetup_def
  by (auto simp: Let_def run_stmt_Inr split: if_splits sum.splits option.splits)

lemma GetGlobalSSHKeyPair_cases:
  assumes "GetGlobalSSHKeyPair env s = (s', r)"
  obtains (same) "s' = s" "\<forall>k. r = Inr k \<longrightarrow> (\<exists>val n. stored_pair env n (ac_db s) = Inr val \<and> gd_PublicKey val \<noteq> [] \<and> open_pair env val = r)"
  | (stored) v where "setting_Ensure env (av_keyCodec env) ''global_ssh_key'' v (ac_db s) = Inr ((), ac_db s')"
      "\<forall>k. r = Inr k \<longrightarrow> (\<exists>val. stored_pair env 2 (ac_db s') = Inr val \<and> open_pair env val = r)"
  using assms unfolding GetGlobalSSHKeyPair_def
  by (auto simp: Let_def split: if_splits sum.splits option.splits) blast

section \<open>Reachable states\<close>

text \<open>Environments of the same installation agree on the codecs, the column type and the cipher.\<close>

definition same_codecs :: "account_env \<Rightarrow> account_env \<Rightarrow> bool" where
  "same_codecs base env \<longleftrightarrow> av_setupCodec env = av_setupCodec base \<and> av_keyCodec env = av_keyCodec base \<and> av_smtpCodec env = av_smtpCodec base \<and>
     av_jsonb env = av_jsonb base \<and> av_box env = av_box base"

inductive account_run :: "account_env \<Rightarrow> accounts \<Rightarrow> accounts \<Rightarrow> bool" for base where
  here: "account_run base s s"
| try_setup: "account_run base s t \<Longrightarrow> same_codecs base env \<Longrightarrow> account_run base s (fst (TryInitialSetup env t))"
| complete_setup: "account_run base s t \<Longrightarrow> same_codecs base env \<Longrightarrow> account_run base s (fst (CompleteInitialSetup env u input t))"
| global_key: "account_run base s t \<Longrightarrow> same_codecs base env \<Longrightarrow> account_run base s (fst (GetGlobalSSHKeyPair env t))"
| set_user: "account_run base s t \<Longrightarrow> same_codecs base env \<Longrightarrow> account_run base s (fst (SetDefaultSSHPullUser env actor name t))"
| set_ask: "account_run base s t \<Longrightarrow> same_codecs base env \<Longrightarrow> account_run base s (fst (SetAskToCopyPublicKey env actor ask t))"
| set_frequency: "account_run base s t \<Longrightarrow> same_codecs base env \<Longrightarrow> account_run base s (fst (SetEmailFrequency env actor name t))"
| set_smtp: "account_run base s t \<Longrightarrow> same_codecs base env \<Longrightarrow> account_run base s (fst (SetSMTPSettings env actor smtp t))"
| login: "account_run base s t \<Longrightarrow> same_codecs base env \<Longrightarrow> account_run base s (fst (Login env email password ip ua t))"
| profile: "account_run base s t \<Longrightarrow> same_codecs base env \<Longrightarrow> account_run base s (fst (UpdateProfile env actor u profile t))"

text \<open>What every operation keeps: the consistency of the tables, the setup once it is done, and the key pair once it is stored\<close>

definition setup_done :: "account_env \<Rightarrow> account_db \<Rightarrow> bool" where
  "setup_done base db \<longleftrightarrow> (\<exists>t. setting_value InitialSetupDoneKey db = Some t \<and> cd_unmarshal (av_setupCodec base) t = Some \<lparr>id_Done = True\<rparr>)"

definition keeps :: "account_env \<Rightarrow> account_db \<Rightarrow> account_db \<Rightarrow> bool" where
  "keeps base db db' \<longleftrightarrow> (accounts_ok db \<longrightarrow> accounts_ok db') \<and> (setup_done base db \<longrightarrow> setup_done base db') \<and>
     (\<forall>t. setting_value ''global_ssh_key'' db = Some t \<longrightarrow> setting_value ''global_ssh_key'' db' = Some t)"

lemma keeps_refl [simp]: "keeps base db db"
  by (simp add: keeps_def)

lemma keeps_trans: "keeps base a b \<Longrightarrow> keeps base b c \<Longrightarrow> keeps base a c"
  by (auto simp: keeps_def)

lemma save_setting_keeps:
  assumes "key \<noteq> InitialSetupDoneKey" "key \<noteq> ''global_ssh_key''"
  shows "keeps base (ac_db s) (ac_db (fst (save_setting env actor c key v md s)))"
proof -
  obtain s' r where run: "save_setting env actor c key v md s = (s', r)" by (metis surj_pair)
  then show ?thesis
  proof (cases rule: save_setting_cases)
    case (ok db)
    note d = setting_SetD [OF ok(3)]
    have "setting_value InitialSetupDoneKey db = setting_value InitialSetupDoneKey (ac_db s)"
      "setting_value ''global_ssh_key'' db = setting_value ''global_ssh_key'' (ac_db s)" using d(1) assms by metis+
    then show ?thesis using d(2) run ok(2) by (simp add: keeps_def setup_done_def)
  qed (use run in simp)
qed

lemma users_keep:
  assumes "accounts_ok db \<Longrightarrow> accounts_ok db'" "ad_settings db' = ad_settings db"
  shows "keeps base db db'"
  using assms by (simp add: keeps_def setup_done_def setting_value_def)

lemma update_user_keeps:
  assumes "update_user now i f db = Inr (r, db')" "\<And>u. us_ID (f u) = us_ID u" "\<And>u. us_ArchivedAt (f u) = us_ArchivedAt u"
  shows "keeps base db db'"
  by (rule users_keep) (use update_user_ok [OF _ assms] assms(1) in \<open>auto simp: update_user_def split: option.splits if_splits\<close>)

lemma Status_done: "same_codecs base env \<Longrightarrow> setup_done base (ac_db s) \<Longrightarrow> Status env s = Inr st \<Longrightarrow> st = \<lparr>id_Done = True\<rparr>"
  by (auto simp: Status_def setting_Get_value setup_done_def same_codecs_def split: if_splits)

lemma Ensure_keeps: "setting_Ensure env c key v db = Inr (x, db') \<Longrightarrow> keeps base db db'"
  using setting_EnsureD [of env c key v db x db'] by (auto simp: keeps_def setup_done_def)

lemma CreateAdminUser_settings: "CreateAdminUser now i email name h db = Inr (u, db') \<Longrightarrow> ad_settings db' = ad_settings db"
  by (auto simp: CreateAdminUser_def Let_def split: if_splits)

lemma TryInitialSetup_keeps: "keeps base (ac_db s) (ac_db (fst (TryInitialSetup env s)))"
proof -
  obtain s' r where run: "TryInitialSetup env s = (s', r)" by (metis surj_pair)
  then show ?thesis
  proof (cases rule: TryInitialSetup_cases)
    case (created st db u)
    have "ad_settings (ac_db s') = ad_settings db" by (rule CreateAdminUser_settings [OF created(6)])
    then have "keeps base db (ac_db s')" using CreateAdminUser_ok [OF _ created(6)] by (intro users_keep)
    with Ensure_keeps [OF created(5)] run show ?thesis by (auto intro: keeps_trans)
  qed (use run in simp)
qed

lemma CompleteInitialSetup_keeps:
  assumes "same_codecs base env"
  shows "keeps base (ac_db s) (ac_db (fst (CompleteInitialSetup env u input s)))"
proof -
  obtain s' r where run: "CompleteInitialSetup env u input s = (s', r)" by (metis surj_pair)
  then show ?thesis
  proof (cases rule: CompleteInitialSetup_cases)
    case (finished st db h user)
    have "keeps base (ac_db s) db"
      by (rule update_user_keeps [OF finished(7) [unfolded CompleteInitialSetupForUser_def]]) simp_all
    moreover have "\<not> setup_done base (ac_db s)" using Status_done [OF assms _ finished(2)] finished(3) by auto
    moreover have "setting_value ''global_ssh_key'' (ac_db s') = setting_value ''global_ssh_key'' db"
      by (rule setting_SetD(1) [OF finished(8)]) (simp add: InitialSetupDoneKey_def)
    ultimately show ?thesis using setting_SetD(2) [OF finished(8)] run by (simp add: keeps_def)
  qed (use run in simp)
qed

lemma GetGlobalSSHKeyPair_keeps: "keeps base (ac_db s) (ac_db (fst (GetGlobalSSHKeyPair env s)))"
proof -
  obtain s' r where run: "GetGlobalSSHKeyPair env s = (s', r)" by (metis surj_pair)
  then show ?thesis by (cases rule: GetGlobalSSHKeyPair_cases) (use run in \<open>auto dest: Ensure_keeps\<close>)
qed

lemma profile_tx_keeps:
  assumes "profile_tx env i input db = Inr (user, db')"
  shows "keeps base db db'"
proof -
  from assms obtain u1 u2 db2 where 1: "change_email env u1 (up_Email input) db = Inr (u2, db2)" and 2: "change_password env u2 input db2 = Inr (user, db')"
    by (auto simp: profile_tx_def and_then_def run_stmt_Inr get_user_by_id_def one_user_def split: sum.splits option.splits)
  have "keeps base db db2" using 1
    by (auto simp: change_email_def run_stmt_Inr UpdateUserEmail_def Let_def split: option.splits if_splits elim!: update_user_keeps)
  moreover have "keeps base db2 db'" using 2
    by (auto simp: change_password_def run_stmt_Inr UpdateUserPassword_def Let_def split: option.splits if_splits elim!: update_user_keeps)
  ultimately show ?thesis by (rule keeps_trans)
qed

lemma other_keeps:
  "keeps base (ac_db s) (ac_db (fst (SetDefaultSSHPullUser env actor name s)))"
  "keeps base (ac_db s) (ac_db (fst (SetAskToCopyPublicKey env actor ask s)))"
  "keeps base (ac_db s) (ac_db (fst (SetEmailFrequency env actor name s)))"
  "keeps base (ac_db s) (ac_db (fst (SetSMTPSettings env actor smtp s)))"
  "ac_db (fst (Login env email password ip ua s)) = ac_db s"
  "keeps base (ac_db s) (ac_db (fst (UpdateProfile env actor u profile s)))"
  using profile_tx_keeps [of env u profile "ac_db s"]
  by (auto simp: SetDefaultSSHPullUser_def SetAskToCopyPublicKey_def SetEmailFrequency_def SetSMTPSettings_def Login_def recordLoginFailure_def
      UpdateProfile_def Let_def InitialSetupDoneKey_def intro!: save_setting_keeps split: sum.split option.split)

lemma account_run_keeps: "account_run base s t \<Longrightarrow> keeps base (ac_db s) (ac_db t)"
  by (induction rule: account_run.induct)
    (auto intro: keeps_trans TryInitialSetup_keeps CompleteInitialSetup_keeps GetGlobalSSHKeyPair_keeps other_keeps(1-4,6) simp: other_keeps(5))

section \<open>The initial setup\<close>

text \<open>C15: The initial setup is done once. Completing it stores the new name, address and password of the user and marks the
  setup as done, if the codec and the column keep that mark. From then on, whatever operations run in between, no setup
  can be completed again and no bootstrap administrator is created: both leave the state as it is.\<close>

theorem initial_setup_once:
  assumes "CompleteInitialSetup env userID input s = (s1, Inr user)" "codec_keeps env (av_setupCodec env) \<lparr>id_Done = True\<rparr>"
    and "account_run env s1 s2" "same_codecs env env'" "\<not> av_fault env' AcctBeginTx" "\<not> av_fault env' (AcctGetSetting 0)"
  shows "us_ID user = userID \<and> us_Email user = normalizeEmail (ci_Email input) \<and> us_Email user \<noteq> [] \<and> \<not> us_PasswordResetRequired user \<and>
    get_user_by_id userID (ac_db s1) = Inr (user, ac_db s1) \<and>
    CompleteInitialSetup env' userID' input' s2 = (s2, Inl (AcctApp ErrInitialSetupAlreadyComplete)) \<and> TryInitialSetup env' s2 = (s2, Inr False)"
  using assms(1)
proof (cases rule: CompleteInitialSetup_cases)
  case (finished st db h u)
  let ?f = "\<lambda>u. u\<lparr>us_Email := normalizeEmail (ci_Email input), us_Name := TrimSpace (ci_Name input), us_PasswordHash := h, us_PasswordResetRequired := False\<rparr>"
  have u: "u = user" using finished(1) by simp
  have "setup_done env (ac_db s1)" using setting_SetD(4) [OF finished(8) assms(2)] by (auto simp: setup_done_def)
  then have "setup_done env (ac_db s2)" using account_run_keeps [OF assms(3)] by (simp add: keeps_def)
  then have "Status env' s2 = Inr \<lparr>id_Done = True\<rparr>"
    using assms(4,6) by (auto simp: Status_def setting_Get_value setup_done_def same_codecs_def)
  then have "CompleteInitialSetup env' userID' input' s2 = (s2, Inl (AcctApp ErrInitialSetupAlreadyComplete))" "TryInitialSetup env' s2 = (s2, Inr False)"
    using assms(5) by (simp_all add: CompleteInitialSetup_def TryInitialSetup_def)
  moreover have "update_user (av_dbNow env) userID ?f (ac_db s) = Inr (user, db)" using finished(7) u by (simp add: CompleteInitialSetupForUser_def)
  note upd = update_user_get [OF this]
  moreover have "ad_users (ac_db s1) = ad_users db" by (rule setting_SetD(3) [OF finished(8)])
  ultimately show ?thesis using finished(5) by (auto simp: get_user_by_id_def one_user_def split: option.splits)
qed simp

section \<open>The global key pair\<close>

text \<open>C16: Once the global key pair was given out, it stays the same: whatever operations run in between, asking for it again gives
  the same public and private key, if reading the setting does not fail, and stores nothing.\<close>

theorem GetGlobalSSHKeyPair_stable:
  assumes "GetGlobalSSHKeyPair env s = (s1, Inr k)" "gk_PublicKey k \<noteq> []" "account_run env s1 s2" "same_codecs env env'"
    and "\<not> av_fault env' (AcctGetSetting 0)"
  shows "GetGlobalSSHKeyPair env' s2 = (s2, Inr k)"
proof -
  have "\<exists>val n. stored_pair env n (ac_db s1) = Inr val \<and> open_pair env val = Inr k"
    using assms(1) by (cases rule: GetGlobalSSHKeyPair_cases) blast+
  then obtain val n where val: "stored_pair env n (ac_db s1) = Inr val" "open_pair env val = Inr k" by blast
  have pub: "gd_PublicKey val \<noteq> []" using val(2) assms(2) by (auto simp: open_pair_def split: sum.splits)
  then obtain t where t: "setting_value ''global_ssh_key'' (ac_db s1) = Some t" "cd_unmarshal (av_keyCodec env) t = Some val"
    using val(1) by (auto simp: stored_pair_def setting_Get_value split: if_splits option.splits)
  have "setting_value ''global_ssh_key'' (ac_db s2) = Some t" using account_run_keeps [OF assms(3)] t(1) by (simp add: keeps_def)
  then have "stored_pair env' 0 (ac_db s2) = Inr val"
    using assms(4,5) t(2) by (simp add: stored_pair_def setting_Get_value same_codecs_def)
  moreover have "open_pair env' val = Inr k" using val(2) assms(4) by (simp add: open_pair_def same_codecs_def)
  ultimately show ?thesis using pub by (simp add: GetGlobalSSHKeyPair_def)
qed

section \<open>Mail settings\<close>

text \<open>C17: Mail settings are read back as they were stored, and storing them without a password keeps the password that was there.
  The hour of the report is between 0 and 23. The password is stored encrypted: what is needed of the cipher is that it
  opens what it sealed and seals no text to the empty one, of the codec and the column that they keep the value.\<close>

theorem SMTPSettings_roundtrip:
  assumes "SetSMTPSettings env actor v s = (s', Inr ())" "GetSMTPSettings env s = Inr old"
    and "av_nonce env = Some n" "length n = cb_nonceSize (av_box env)" "n \<noteq> []"
    and "cb_open (av_box env) n (cb_seal (av_box env) n (sm_Password v)) = Some (sm_Password v)"
    and "\<forall>enc. new_password env (sm_Password v) s = Inr enc \<longrightarrow> codec_keeps env (av_smtpCodec env) (smtp_row v enc)" "\<not> av_fault env (AcctGetSetting 0)"
  shows "0 \<le> sm_ReportHour v \<and> sm_ReportHour v \<le> 23 \<and>
    GetSMTPSettings env s' = Inr (if sm_Password v = [] then v\<lparr>sm_Password := sm_Password old\<rparr> else v)"
proof -
  obtain enc where hour: "0 \<le> sm_ReportHour v" "sm_ReportHour v \<le> 23" and enc: "new_password env (sm_Password v) s = Inr enc"
    and save: "save_setting env actor (av_smtpCodec env) ''smtp_settings'' (smtp_row v enc)
        [(''host'', MetaString (sm_Host v)), (''port'', MetaInt (sm_Port v)), (''username'', MetaString (sm_Username v)),
         (''from'', MetaString (sm_From v)), (''report_hour'', MetaInt (sm_ReportHour v)), (''password_updated'', MetaBool (sm_Password v \<noteq> []))] s = (s', Inr ())"
    using assms(1) by (auto simp: SetSMTPSettings_def split: if_splits sum.splits)
  from save have "\<exists>db. ac_db s' = db \<and> setting_Set env (av_smtpCodec env) ''smtp_settings'' (smtp_row v enc) (ac_db s) = Inr ((), db)"
    by (cases rule: save_setting_cases) auto
  then have "setting_Set env (av_smtpCodec env) ''smtp_settings'' (smtp_row v enc) (ac_db s) = Inr ((), ac_db s')" by auto
  from setting_SetD(4) [OF this assms(7) [rule_format, OF enc]] have "stored_smtp env s' = Inr (smtp_row v enc)"
    using assms(8) by (auto simp: stored_smtp_def setting_Get_value)
  then have get: "GetSMTPSettings env s' = (if enc = [] then Inr (v\<lparr>sm_Password := []\<rparr>)
      else case Decrypt (av_box env) enc of Inl e \<Rightarrow> Inl (AcctCrypto e) | Inr dec \<Rightarrow> Inr (v\<lparr>sm_Password := dec\<rparr>))"
    by (simp add: GetSMTPSettings_def Let_def smtp_row_def split: sum.split)
  show ?thesis
  proof (cases "sm_Password v = []")
    case True
    then obtain o1 where o1: "stored_smtp env s = Inr o1" "enc = sd_EncryptedPassword o1" using enc by (auto simp: new_password_def split: sum.splits)
    then have "(if enc = [] then Inr [] else case Decrypt (av_box env) enc of Inl e \<Rightarrow> Inl (AcctCrypto e) | Inr dec \<Rightarrow> Inr dec) = Inr (sm_Password old)"
      using assms(2) by (auto simp: GetSMTPSettings_def Let_def split: if_splits sum.splits)
    then show ?thesis using get True hour by (auto split: if_splits sum.splits)
  next
    case False
    then have e: "enc = EncodeToString (n @ cb_seal (av_box env) n (sm_Password v))" using enc assms(3) by (simp add: new_password_def Encrypt_def)
    have "enc \<noteq> []"
    proof
      assume "enc = []"
      then have "DecodeString enc = Some []" by (simp add: DecodeString_def)
      then show False using DecodeString_EncodeToString [of "n @ cb_seal (av_box env) n (sm_Password v)"] assms(5) by (simp add: e)
    qed
    moreover have "Decrypt (av_box env) enc = Inr (sm_Password v)"
      using assms(4,6) by (simp add: e Decrypt_def DecodeString_EncodeToString)
    ultimately show ?thesis using get False hour by simp
  qed
qed

section \<open>Sessions\<close>

text \<open>What the code relies on of JSON web tokens: the claims of a signed token can be read, and the token verifies exactly with
  the key that signed it, from the time it is valid until it expires.\<close>

definition jwt_laws :: "account_env \<Rightarrow> bool" where
  "jwt_laws env \<longleftrightarrow> (\<forall>k c t. av_sign env k c = Some t \<longrightarrow> av_unverified env t = Some c \<and>
     (\<forall>now k'. av_verify env now k' t = (if k' = k \<and> cl_NotBefore c \<le> now \<and> now < cl_ExpiresAt c then Some c else None)))"

lemma get_user_by_id_active:
  assumes "accounts_ok db" "u \<in> set (ad_users db)" "us_ArchivedAt u = None"
  shows "get_user_by_id (us_ID u) db = Inr (u, db)" "us_ID u \<noteq> []"
proof -
  have "v = u" if "v \<in> set (ad_users db)" "active_id (us_ID u) v" for v
    using assms(1,2) that by (auto simp: accounts_ok_def active_id_def distinct_map dest: inj_onD)
  moreover obtain v where v: "first_row (active_id (us_ID u)) (ad_users db) = Some v"
    using assms(2,3) by (cases "first_row (active_id (us_ID u)) (ad_users db)") (auto simp: first_row_None active_id_def)
  ultimately have "v = u" using first_row_Some [OF v] by simp
  then show "get_user_by_id (us_ID u) db = Inr (u, db)" using v by (simp add: get_user_by_id_def one_user_def)
  have "HasPrefix (us_ID u) ''u_''" using assms(1,2) by (simp add: accounts_ok_def)
  then show "us_ID u \<noteq> []" by (auto simp: HasPrefix_iff)
qed

lemma Login_Inr:
  assumes "Login env email password ip ua s = (s1, Inr lr)"
  shows "lr_User lr \<in> set (ad_users (ac_db s))" "us_ArchivedAt (lr_User lr) = None" "us_Email (lr_User lr) = normalizeEmail email"
    "av_check env password (us_PasswordHash (lr_User lr))" "ac_db s1 = ac_db s"
    "av_sign env (jwtSigningKey env (lr_User lr)) (token_claims (av_now env) (lr_User lr)) = Some (lr_AccessToken lr)"
  using assms by (auto simp: Login_def Let_def run_stmt_Inr GetUserByEmail_def one_user_def signAccessToken_def
      split: sum.splits if_splits option.splits dest: first_row_Some)

lemma UpdateProfile_user:
  assumes "accounts_ok (ac_db s)" "UpdateProfile env actor i input s = (s', Inr r)"
  shows "get_user_by_id i (ac_db s') = Inr (ur_User r, ac_db s')"
proof -
  from assms(2) obtain db where tx: "profile_tx env i input (ac_db s) = Inr (ur_User r, db)" "ac_db s' = db"
    by (auto simp: UpdateProfile_def Let_def split: if_splits sum.splits)
  from tx(1) obtain u0 u1 db1 where u0: "get_user_by_id i (ac_db s) = Inr (u0, ac_db s)"
    and 1: "change_email env u0 (up_Email input) (ac_db s) = Inr (u1, db1)" and 2: "change_password env u1 input db1 = Inr (ur_User r, db)"
    by (auto simp: profile_tx_def and_then_def run_stmt_Inr get_user_by_id_def one_user_def split: sum.splits option.splits)
  have id0: "us_ID u0 = i" using u0 by (auto simp: get_user_by_id_def one_user_def active_id_def dest: first_row_Some split: option.splits)
  have "get_user_by_id i db1 = Inr (u1, db1) \<and> us_ID u1 = i"
  proof (cases "up_Email input")
    case None
    then show ?thesis using 1 u0 id0 by (simp add: change_email_def)
  next
    case (Some raw)
    then have "update_user (av_dbNow env) i (\<lambda>u. u\<lparr>us_Email := normalizeEmail raw\<rparr>) (ac_db s) = Inr (u1, db1)"
      using 1 id0 by (auto simp: change_email_def Let_def run_stmt_Inr UpdateUserEmail_def split: if_splits)
    then show ?thesis using update_user_get by simp
  qed
  then have u1: "get_user_by_id i db1 = Inr (u1, db1)" "us_ID u1 = i" by simp_all
  have "get_user_by_id i db = Inr (ur_User r, db)"
  proof (cases "up_NewPassword input")
    case None
    then show ?thesis using 2 u1 by (simp add: change_password_def)
  next
    case (Some pw)
    then obtain h where "update_user (av_dbNow env) i (\<lambda>u. u\<lparr>us_PasswordHash := h, us_PasswordResetRequired := False\<rparr>) db1 = Inr (ur_User r, db)"
      using 2 u1(2) by (auto simp: change_password_def Let_def run_stmt_Inr UpdateUserPassword_def split: if_splits option.splits)
    then show ?thesis using update_user_get(1) by simp
  qed
  then show ?thesis using tx(2) by simp
qed


section \<open>An installation at work\<close>

text \<open>Codecs for the few values that occur, a cipher and token library of the simplest kind that keep their laws\<close>

definition sample_setup_codec :: "InitialSetupDone codec" where
  "sample_setup_codec = \<lparr>cd_marshal = (\<lambda>v. Some (if id_Done v then ''t'' else ''f'')), cd_unmarshal = (\<lambda>t. Some \<lparr>id_Done = (t = ''t'')\<rparr>)\<rparr>"

definition sample_key_codec :: "globalSSHKeyPairDB codec" where
  "sample_key_codec = \<lparr>cd_marshal = (\<lambda>v. Some (gd_EncryptedPrivateKey v)),
     cd_unmarshal = (\<lambda>t. Some \<lparr>gd_PublicKey = ''pub'', gd_EncryptedPrivateKey = t\<rparr>)\<rparr>"

definition sample_smtp_codec :: "smtpSettingsDB codec" where
  "sample_smtp_codec = \<lparr>cd_marshal = (\<lambda>v. Some (sd_EncryptedPassword v)),
     cd_unmarshal = (\<lambda>t. Some \<lparr>sd_Host = ''mail'', sd_Port = 25, sd_Username = ''u'', sd_EncryptedPassword = t, sd_From = ''a@b'', sd_ReportHour = Some 7\<rparr>)\<rparr>"

definition sample_string_codec :: "string codec" where
  "sample_string_codec = \<lparr>cd_marshal = Some, cd_unmarshal = Some\<rparr>"

definition sample_claims :: claims where
  "sample_claims = \<lparr>cl_Subject = ''u_1'', cl_IssuedAt = 5000000000, cl_NotBefore = 5000000000, cl_ExpiresAt = 86405000000000\<rparr>"

definition sample_account_env :: account_env where
  "sample_account_env = \<lparr>av_fault = (\<lambda>_. False), av_dbNow = 4, av_now = 5000000007, av_drawn = ''1'', av_random = ''0000'', av_jsonb = Some,
     av_setupCodec = sample_setup_codec, av_keyCodec = sample_key_codec, av_stringCodec = sample_string_codec,
     av_boolCodec = \<lparr>cd_marshal = (\<lambda>_. None), cd_unmarshal = (\<lambda>_. None)\<rparr>, av_boolPtrCodec = \<lparr>cd_marshal = (\<lambda>_. None), cd_unmarshal = (\<lambda>_. None)\<rparr>,
     av_smtpCodec = sample_smtp_codec, av_newKeyPair = Some (''pub'', ''key''), av_box = sample_box, av_nonce = Some ''ab'', av_hash = (\<lambda>p. Some (''#'' @ p)),
     av_check = (\<lambda>p h. h = ''#'' @ p), av_hmac = (\<lambda>_ h. h), av_secret = ''s'',
     av_sign = (\<lambda>k c. if k = ''#correct horse'' \<and> c = sample_claims then Some ''token'' else None),
     av_unverified = (\<lambda>t. if t = ''token'' then Some sample_claims else None),
     av_verify = (\<lambda>now k t. if t = ''token'' \<and> k = ''#correct horse'' \<and> 5000000000 \<le> now \<and> now < 86405000000000 then Some sample_claims else None),
     av_auditEnv = \<lparr>au_marshal = (\<lambda>_. Some ''m''), au_insertFails = (\<lambda>_. False), au_id = (\<lambda>_. ''1''), au_now = (\<lambda>_. 4)\<rparr>\<rparr>"

definition sample_installed :: accounts where
  "sample_installed = fst (TryInitialSetup sample_account_env \<lparr>ac_db = \<lparr>ad_users = [], ad_settings = []\<rparr>, ac_auditLog = [], ac_published = []\<rparr>)"

definition sample_setup_input :: CompleteInitialSetupInput where
  "sample_setup_input = \<lparr>ci_Name = ''Ann'', ci_Email = '' Ann@b'', ci_Password = ''correct horse''\<rparr>"

definition sample_setup :: accounts where
  "sample_setup = fst (CompleteInitialSetup sample_account_env ''u_1'' sample_setup_input sample_installed)"

definition sample_smtp :: SMTPSettings where
  "sample_smtp = \<lparr>sm_Host = ''mail'', sm_Port = 25, sm_Username = ''u'', sm_Password = ''pw'', sm_From = ''a@b'', sm_ReportHour = 7\<rparr>"

lemma sample_codecs: "same_codecs sample_account_env sample_account_env" "\<not> av_fault sample_account_env c"
  "codec_keeps sample_account_env (av_setupCodec sample_account_env) \<lparr>id_Done = True\<rparr>"
  by (simp_all add: same_codecs_def sample_account_env_def codec_keeps_def sample_setup_codec_def)

lemma sample_setup_ok: "accounts_ok (ac_db sample_setup)"
proof -
  let ?s = "\<lparr>ac_db = \<lparr>ad_users = [], ad_settings = []\<rparr>, ac_auditLog = [], ac_published = []\<rparr>"
  have "account_run sample_account_env ?s sample_setup" unfolding sample_setup_def sample_installed_def
    by (intro account_run.complete_setup account_run.try_setup account_run.here sample_codecs(1))
  then have "keeps sample_account_env (ac_db ?s) (ac_db sample_setup)" by (rule account_run_keeps)
  then show ?thesis by (simp add: keeps_def accounts_ok_def active_emails_def)
qed

lemma sample_jwt: "jwt_laws sample_account_env"
  by (simp add: jwt_laws_def sample_account_env_def) (simp add: sample_claims_def)

theorem initial_setup_once_witness:
  "\<exists>user. CompleteInitialSetup sample_account_env ''u_1'' sample_setup_input sample_installed = (sample_setup, Inr user) \<and> us_Email user = ''ann@b'' \<and>
     CompleteInitialSetup sample_account_env ''u_1'' sample_setup_input sample_setup = (sample_setup, Inl (AcctApp ErrInitialSetupAlreadyComplete)) \<and>
     TryInitialSetup sample_account_env sample_setup = (sample_setup, Inr False)"
proof -
  let ?c = "CompleteInitialSetup sample_account_env ''u_1'' sample_setup_input sample_installed"
  have ev: "(case snd ?c of Inl _ \<Rightarrow> False | Inr _ \<Rightarrow> True)" "normalizeEmail (ci_Email sample_setup_input) = ''ann@b''" by code_simp+
  then obtain user where user: "?c = (sample_setup, Inr user)" by (auto simp: sample_setup_def prod_eq_iff split: sum.splits)
  from initial_setup_once [OF user sample_codecs(3) account_run.here sample_codecs(1) sample_codecs(2) sample_codecs(2)] show ?thesis
    using user ev(2) by auto
qed

theorem GetGlobalSSHKeyPair_stable_witness:
  "\<exists>s1 k. GetGlobalSSHKeyPair sample_account_env sample_setup = (s1, Inr k) \<and> gk_PrivateKey k = ''key'' \<and>
     GetGlobalSSHKeyPair sample_account_env s1 = (s1, Inr k)"
proof -
  let ?g = "GetGlobalSSHKeyPair sample_account_env sample_setup"
  have "(case snd ?g of Inl _ \<Rightarrow> False | Inr k \<Rightarrow> gk_PublicKey k = ''pub'' \<and> gk_PrivateKey k = ''key'')" by code_simp
  then obtain k where k: "?g = (fst ?g, Inr k)" "gk_PublicKey k \<noteq> []" "gk_PrivateKey k = ''key''"
    by (cases "snd ?g") (auto simp: prod_eq_iff)
  from GetGlobalSSHKeyPair_stable [OF k(1,2) account_run.here sample_codecs(1,2)] show ?thesis using k(1,3) by blast
qed

theorem SMTPSettings_roundtrip_witness:
  "\<exists>s'. SetSMTPSettings sample_account_env SystemActorRef sample_smtp sample_setup = (s', Inr ()) \<and> GetSMTPSettings sample_account_env s' = Inr sample_smtp"
proof -
  let ?g = "SetSMTPSettings sample_account_env SystemActorRef sample_smtp sample_setup"
  have ev: "(case snd ?g of Inl _ \<Rightarrow> False | Inr _ \<Rightarrow> True)" "(case GetSMTPSettings sample_account_env sample_setup of Inl _ \<Rightarrow> False | Inr _ \<Rightarrow> True)" by code_simp+
  then obtain old where run: "?g = (fst ?g, Inr ())" "GetSMTPSettings sample_account_env sample_setup = Inr old"
    by (auto simp: prod_eq_iff split: sum.splits)
  have "GetSMTPSettings sample_account_env (fst ?g) = Inr (if sm_Password sample_smtp = [] then sample_smtp\<lparr>sm_Password := sm_Password old\<rparr> else sample_smtp)"
    by (rule SMTPSettings_roundtrip [OF run, where n = "''ab''", THEN conjunct2, THEN conjunct2])
      (simp_all add: sample_account_env_def sample_box_def sample_smtp_def codec_keeps_def sample_smtp_codec_def smtp_row_def)
  then show ?thesis using run(1) by (auto simp: sample_smtp_def)
qed


end
