(* ===== verification/Agent_System.thy ===== *)
theory Agent_System
  imports Agent_Repos
begin

text \<open>
  What the agent finds out about its host: \<open>agent/internal/collector/system.go\<close> (operating system, machine identifier,
  architecture, running kernel, uptime) and \<open>snapshot.go\<close>, which puts a snapshot together. The file system, the commands,
  the clock, the host name, \<open>uname\<close> and the parser of floating point numbers are parameters.
\<close>

section \<open>Environment and errors\<close>

datatype file_result = Contents string | NotExist | ReadError

record agent_env =
  ag_names :: "string \<Rightarrow> string list option"
  ag_read :: "string \<Rightarrow> file_result"
  ag_now :: int
  ag_hostname :: "string option"
  ag_uname :: "(int list \<times> int list) option"
  ag_float :: "string \<Rightarrow> int option"
  ag_rpmKernel :: "string \<Rightarrow> string option"
  ag_installed :: "OsFamily \<Rightarrow> string option"
  ag_dnf :: string
  ag_apt :: "string option"
  ag_sortPackages :: sorter
  ag_sortStrings :: "string list \<Rightarrow> string list"
  ag_range :: "string list \<Rightarrow> string list"
  ag_sortRepos :: "Repo list \<Rightarrow> Repo list"

text \<open>\<open>ag_float\<close> is \<open>fmt.Sscanf\<close> with the verb \<open>%f\<close> followed by the conversion to \<open>int64\<close>, \<open>ag_installed\<close> the output of the command
  that lists the installed packages of a family.\<close>

definition agent_fs :: "agent_env \<Rightarrow> file_system" where
  "agent_fs env = \<lparr>fs_names = ag_names env, fs_read = (\<lambda>p. case ag_read env p of Contents s \<Rightarrow> Some s | _ \<Rightarrow> None)\<rparr>"

datatype system_error =
    ReadFileFailed string
  | MissingID | MissingNAME | MissingVERSION_ID
  | UnsupportedDistro string
  | InvalidMajorVersion string
  | NoMachineID
  | UnsupportedArchitecture string
  | InvalidUptime string
  | HostnameFailed
  | UnameFailed
  | UnsupportedFamily_agent
  | CollectFailed agent_error

section \<open>system.go\<close>

record OsRelease =
  or_ID :: string
  or_Name :: string
  or_VersionID :: string

definition stripQuotes :: "string \<Rightarrow> string" where
  "stripQuotes value =
     (if 2 \<le> length value \<and> hd value = last value \<and> (hd value = CHR 0x22 \<or> hd value = CHR 0x27) then butlast (tl value) else value)"

definition os_release_line :: "string \<Rightarrow> string \<times> string \<times> string \<Rightarrow> string \<times> string \<times> string" where
  "os_release_line line acc =
     (case acc of (i, name, versionID) \<Rightarrow>
        if line = [] \<or> hd line = CHR ''#'' then acc
        else case Index line ''='' of
          None \<Rightarrow> acc
        | Some idx \<Rightarrow>
            let key = TrimSpace (take idx line); value = stripQuotes (TrimSpace (drop (idx + 1) line)) in
            if key = ''ID'' then (value, name, versionID)
            else if key = ''NAME'' then (i, value, versionID)
            else if key = ''VERSION_ID'' then (i, name, value)
            else acc)"

definition ParseOsRelease :: "string \<Rightarrow> system_error + OsRelease" where
  "ParseOsRelease contents =
     (case fold os_release_line (map TrimSpace (scan_lines contents)) ([], [], []) of (i, name, versionID) \<Rightarrow>
        if i = [] then Inl MissingID
        else if name = [] then Inl MissingNAME
        else if versionID = [] then Inl MissingVERSION_ID
        else Inr \<lparr>or_ID = i, or_Name = name, or_VersionID = versionID\<rparr>)"

definition ReadOsRelease :: "agent_env \<Rightarrow> system_error + OsRelease" where
  "ReadOsRelease env = (case ag_read env ''/etc/os-release'' of Contents s \<Rightarrow> ParseOsRelease s | _ \<Rightarrow> Inl (ReadFileFailed ''/etc/os-release''))"

definition NormalizeOsFamily :: "string \<Rightarrow> system_error + OsFamily" where
  "NormalizeOsFamily distroID =
     (let d = ToLower distroID in
      if d \<in> {''rhel'', ''rocky'', ''almalinux'', ''centos'', ''ol''} then Inr OS_FAMILY_RPM
      else if d \<in> {''debian'', ''ubuntu'', ''linuxmint'', ''pop'', ''raspbian''} then Inr OS_FAMILY_APT
      else Inl (UnsupportedDistro distroID))"

text \<open>\<open>fmt.Sscanf(s, "%d", &v)\<close> for an \<open>int32\<close>: blanks that hold no line feed, a sign, and digits; what follows is ignored.\<close>

definition Sscanf_int32 :: "string \<Rightarrow> int option" where
  "Sscanf_int32 s =
     (let t = TrimLeftSpace s; skipped = take (length s - length t) s;
          neg = HasPrefix t ''-''; body = (if HasPrefix t ''-'' \<or> HasPrefix t ''+'' then drop 1 t else t); digits = takeWhile IsDigit body
      in if CHR 0x0A \<in> set skipped \<or> digits = [] then None
         else case digits_val 0 digits of
           None \<Rightarrow> None
         | Some n \<Rightarrow> let v = (if neg then - n else n) in if - (2 ^ 31) \<le> v \<and> v < 2 ^ 31 then Some v else None)"

definition ParseMajorVersion :: "string \<Rightarrow> system_error + int" where
  "ParseMajorVersion versionID =
     (let majorStr = (case Index versionID ''.'' of Some idx \<Rightarrow> take idx versionID | None \<Rightarrow> versionID)
      in case Sscanf_int32 majorStr of None \<Rightarrow> Inl (InvalidMajorVersion versionID) | Some major \<Rightarrow> Inr major)"

fun machine_id_from :: "agent_env \<Rightarrow> string list \<Rightarrow> system_error + string" where
  "machine_id_from env [] = Inl NoMachineID"
| "machine_id_from env (path # rest) =
     (case ag_read env path of
        NotExist \<Rightarrow> machine_id_from env rest
      | ReadError \<Rightarrow> Inl (ReadFileFailed path)
      | Contents s \<Rightarrow> if TrimSpace s \<noteq> [] then Inr (TrimSpace s) else machine_id_from env rest)"

definition ReadMachineID :: "agent_env \<Rightarrow> system_error + string" where
  "ReadMachineID env = machine_id_from env [''/etc/machine-id'', ''/var/lib/dbus/machine-id'']"

definition DetectArchitecture :: "string \<Rightarrow> system_error + Architecture" where
  "DetectArchitecture unameMachine =
     (if unameMachine = ''x86_64'' then Inr ARCHITECTURE_X86_64
      else if unameMachine = ''aarch64'' then Inr ARCHITECTURE_AARCH64
      else if unameMachine = ''riscv64'' then Inr ARCHITECTURE_RISCV64
      else Inl (UnsupportedArchitecture unameMachine))"

definition runningRPMKernelNEVRA :: "agent_env \<Rightarrow> string \<Rightarrow> string" where
  "runningRPMKernelNEVRA env unameRelease =
     (case ag_rpmKernel env (''kernel-uname-r = '' @ unameRelease) of
        None \<Rightarrow> unameRelease
      | Some output \<Rightarrow>
          let line = TrimSpace output in
          if line = [] then unameRelease
          else TrimPrefix (case Index line [CHR 0x0A] of Some idx \<Rightarrow> TrimSpace (take idx line) | None \<Rightarrow> line) ''0:'')"

definition RunningKernelNEVRA :: "agent_env \<Rightarrow> OsFamily \<Rightarrow> string \<Rightarrow> system_error + string" where
  "RunningKernelNEVRA env osFamily unameRelease =
     (case osFamily of
        OS_FAMILY_RPM \<Rightarrow> Inr (runningRPMKernelNEVRA env unameRelease)
      | OS_FAMILY_APT \<Rightarrow> Inr unameRelease
      | OS_FAMILY_UNSPECIFIED \<Rightarrow> Inl UnsupportedFamily_agent)"

definition ReadUptime :: "agent_env \<Rightarrow> system_error + int" where
  "ReadUptime env =
     (case ag_read env ''/proc/uptime'' of
        Contents s \<Rightarrow>
          let contents = TrimSpace s; part = (case Cut contents '' '' of Some (before, _) \<Rightarrow> before | None \<Rightarrow> contents)
          in (case ag_float env part of None \<Rightarrow> Inl (InvalidUptime part) | Some n \<Rightarrow> Inr n)
      | _ \<Rightarrow> Inl (ReadFileFailed ''/proc/uptime''))"

section \<open>snapshot.go\<close>

text \<open>A field of \<open>syscall.Utsname\<close> ends at its first zero.\<close>

definition uname_field :: "int list \<Rightarrow> string" where
  "uname_field cs = map (\<lambda>c. char_of (c mod 256)) (takeWhile (\<lambda>c. c \<noteq> 0) cs)"

definition getUnameInfo :: "agent_env \<Rightarrow> system_error + string \<times> string" where
  "getUnameInfo env = (case ag_uname env of None \<Rightarrow> Inl UnameFailed | Some (machine, release) \<Rightarrow> Inr (uname_field machine, uname_field release))"

definition to_int64 :: "int \<Rightarrow> int" where
  "to_int64 n = (n + 2 ^ 63) mod 2 ^ 64 - 2 ^ 63"

definition bind_sys :: "system_error + 'a \<Rightarrow> ('a \<Rightarrow> system_error + 'b) \<Rightarrow> system_error + 'b" where
  "bind_sys r f = (case r of Inl e \<Rightarrow> Inl e | Inr a \<Rightarrow> f a)"

definition collected :: "agent_error + 'a \<Rightarrow> system_error + 'a" where
  "collected r = (case r of Inl e \<Rightarrow> Inl (CollectFailed e) | Inr a \<Rightarrow> Inr a)"

text \<open>The number of available updates, and the packages; failures leave none.\<close>

definition available_updates :: "agent_env \<Rightarrow> OsFamily \<Rightarrow> int \<times> Package list" where
  "available_updates env osFamily =
     (case CollectUpgradablePackages (ag_dnf env) (ag_apt env) osFamily of
        Inr pkgs \<Rightarrow> (to_int32 (int (length pkgs)), pkgs)
      | Inl _ \<Rightarrow> (case CollectAvailablePackageUpdateCount (ag_dnf env) (ag_apt env) osFamily of Inr n \<Rightarrow> (n, []) | Inl _ \<Rightarrow> (0, [])))"

definition CollectSnapshot :: "agent_env \<Rightarrow> string \<Rightarrow> system_error + AgentSnapshot" where
  "CollectSnapshot env version =
     bind_sys (ReadOsRelease env) (\<lambda>osRelease.
     bind_sys (NormalizeOsFamily (or_ID osRelease)) (\<lambda>osFamily.
     bind_sys (ParseMajorVersion (or_VersionID osRelease)) (\<lambda>osMajor.
     bind_sys (ReadMachineID env) (\<lambda>machineID.
     bind_sys (case ag_hostname env of None \<Rightarrow> Inl HostnameFailed | Some h \<Rightarrow> Inr h) (\<lambda>hostname.
     bind_sys (getUnameInfo env) (\<lambda>(unameMachine, unameRelease).
     bind_sys (DetectArchitecture unameMachine) (\<lambda>arch.
     bind_sys (ReadUptime env) (\<lambda>uptimeSeconds.
       let bootTime = ag_now env + to_int64 (to_int64 (- uptimeSeconds) * 1000000000);
           (availableUpdateCount, upgradablePkgs) = available_updates env osFamily;
           host = \<lparr>ah_MachineId = machineID, ah_Hostname = hostname, ah_OsFamily = osFamily, ah_OsName = or_Name osRelease,
                   ah_OsVersion = or_VersionID osRelease, ah_OsMajor = osMajor, ah_Architecture = arch,
                   ah_AvailablePackageUpdateCount = availableUpdateCount, ah_AgentVersion = version, ah_BootTime = Some bootTime,
                   ah_UptimeSeconds = uptimeSeconds, ah_VirtualizationRole = VIRTUALIZATION_ROLE_UNSPECIFIED, ah_EnvironmentTags = [], ah_IpAddresses = []\<rparr>
       in bind_sys (RunningKernelNEVRA env osFamily unameRelease) (\<lambda>kernelNEVRA.
          bind_sys (collected (CollectInstalledPackages (ag_sortPackages env) (ag_installed env osFamily) osFamily)) (\<lambda>pkgs.
          bind_sys (collected (CollectEnabledRepos (ag_sortStrings env) (ag_range env) (ag_sortRepos env) (agent_fs env) osFamily)) (\<lambda>repos.
            Inr \<lparr>as_SchemaVersion = ''v0'', as_SentAt = Some (ag_now env), as_Host = Some host, as_Repos = repos, as_Packages = pkgs,
                 as_Runtime = Some \<lparr>rt_KernelRunning = kernelNEVRA, rt_Processes = []\<rparr>, as_UpgradablePackages = upgradablePkgs\<rparr>)))))))))))"

end
