(* ===== verification/Agent_Client.thy ===== *)
theory Agent_Client
  imports Agent_System Host_Registration
begin

text \<open>
  The agent as a client: its configuration file (\<open>agent/internal/config/config.go\<close>), the HTTP client
  (\<open>agent/internal/client/http.go\<close>) and the commands \<open>enroll\<close> and \<open>sync\<close> (\<open>agent/internal/cli\<close>). The exchange with the
  server is a step on the state of the server. Codecs, certificates and the addresses of the network interfaces are
  parameters.
\<close>

section \<open>Configuration\<close>

record config_File =
  cf_ServerURL :: string
  cf_HostToken :: string
  cf_CACert :: string
  cf_AllowInsecureHTTP :: bool

datatype config_error = CreateDirFailed | MarshalConfigFailed | WriteConfigFailed | ConfigNotFound string | ReadConfigFailed | ParseConfigFailed

record cli_env =
  cl_agent :: agent_env
  cl_mkdir :: "string \<Rightarrow> bool"
  cl_write :: "string \<Rightarrow> bool"
  cl_marshalConfig :: "config_File \<Rightarrow> string option"
  cl_unmarshalConfig :: "string \<Rightarrow> config_File option"
  cl_certs :: "string \<Rightarrow> bool"
  cl_goos :: string
  cl_goarch :: string
  cl_ips :: "(bool \<times> string option) list option"
  cl_version :: string

text \<open>\<open>filepath.Dir\<close> of a cleaned path: what stands before the last slash\<close>

definition filepath_Dir :: "string \<Rightarrow> string" where
  "filepath_Dir path = (case LastIndex path ''/'' of None \<Rightarrow> ''.'' | Some i \<Rightarrow> if i = 0 then ''/'' else take i path)"

text \<open>The files that the agent writes are a map from paths to contents.\<close>

definition config_Save :: "cli_env \<Rightarrow> string \<Rightarrow> config_File \<Rightarrow> (string \<rightharpoonup> string) \<Rightarrow> (string \<rightharpoonup> string) \<times> config_error option" where
  "config_Save env path cfg files =
     (let dir = filepath_Dir path in
      if dir \<noteq> [] \<and> dir \<noteq> ''.'' \<and> \<not> cl_mkdir env dir then (files, Some CreateDirFailed)
      else case cl_marshalConfig env cfg of
        None \<Rightarrow> (files, Some MarshalConfigFailed)
      | Some data \<Rightarrow> if cl_write env path then (files(path \<mapsto> data @ [CHR 0x0A]), None) else (files, Some WriteConfigFailed))"

text \<open>A file that was written is read back; the others are those of the host.\<close>

definition read_written :: "cli_env \<Rightarrow> (string \<rightharpoonup> string) \<Rightarrow> string \<Rightarrow> file_result" where
  "read_written env files path = (case files path of Some s \<Rightarrow> Contents s | None \<Rightarrow> ag_read (cl_agent env) path)"

definition config_Load :: "cli_env \<Rightarrow> string \<Rightarrow> (string \<rightharpoonup> string) \<Rightarrow> config_error + config_File" where
  "config_Load env path files =
     (case read_written env files path of
        NotExist \<Rightarrow> Inl (ConfigNotFound path)
      | ReadError \<Rightarrow> Inl ReadConfigFailed
      | Contents data \<Rightarrow> (case cl_unmarshalConfig env data of None \<Rightarrow> Inl ParseConfigFailed | Some cfg \<Rightarrow> Inr cfg))"

section \<open>HTTP client\<close>

datatype tls_config = DefaultTLS | RootCAs string | InsecureSkipVerify

record HTTPClient =
  hc_serverURL :: string
  hc_tls :: tls_config

datatype client_error =
    ReadCACertFailed | AppendCACertFailed | PlainHTTPRefused | MarshalRequestFailed | RequestFailed

definition isLoopback :: "string \<Rightarrow> bool" where
  "isLoopback endpoint \<longleftrightarrow> Contains endpoint ''://localhost'' \<or> Contains endpoint ''://127.0.0.1'' \<or> Contains endpoint ''://[::1]''"

text \<open>\<open>strings.TrimRight(s, "/")\<close>\<close>

definition TrimRightSlash :: "string \<Rightarrow> string" where
  "TrimRightSlash s = rev (dropWhile (\<lambda>c. c = CHR ''/'') (rev s))"

definition NewHTTPClient :: "cli_env \<Rightarrow> string \<Rightarrow> string \<Rightarrow> bool \<Rightarrow> client_error + HTTPClient" where
  "NewHTTPClient env serverURL caCertPath allowInsecureHTTP =
     (case (if caCertPath = [] then Inr DefaultTLS
            else case ag_read (cl_agent env) caCertPath of
              Contents data \<Rightarrow> if cl_certs env data then Inr (RootCAs data) else Inl AppendCACertFailed
            | _ \<Rightarrow> Inl ReadCACertFailed) of
        Inl e \<Rightarrow> Inl e
      | Inr tls \<Rightarrow>
          if HasPrefix serverURL ''http://'' \<and> \<not> isLoopback serverURL then Inl PlainHTTPRefused
          else Inr \<lparr>hc_serverURL = TrimRightSlash serverURL, hc_tls = (if allowInsecureHTTP then InsecureSkipVerify else tls)\<rparr>)"

definition snapshotEndpoint :: "HTTPClient \<Rightarrow> string" where
  "snapshotEndpoint c = hc_serverURL c @ ''/api/v1/agent/snapshots''"

definition registerEndpoint :: "HTTPClient \<Rightarrow> string" where
  "registerEndpoint c = hc_serverURL c @ ''/api/v1/agent/register''"

record http_request =
  hq_Method :: string
  hq_URL :: string
  hq_Headers :: "(string \<times> string) list"
  hq_Body :: string

record http_response =
  hp_StatusCode :: int
  hp_RequestID :: string
  hp_Body :: string

text \<open>What the network and the server do with a request: the new state of the server, and its response or none\<close>

type_synonym 's transport = "http_request \<Rightarrow> 's \<Rightarrow> 's \<times> http_response option"

definition doRequest :: "'s transport \<Rightarrow> string \<Rightarrow> string \<Rightarrow> string \<Rightarrow> string \<Rightarrow> 's \<Rightarrow> 's \<times> (client_error + http_response)" where
  "doRequest transport method endpoint body authToken s =
     (case transport \<lparr>hq_Method = method, hq_URL = endpoint,
         hq_Headers = (if authToken \<noteq> [] then [(''Authorization'', ''Bearer '' @ authToken)] else []) @
           [(''Content-Type'', ''application/x-protobuf''), (''Accept'', ''application/x-protobuf'')],
         hq_Body = body\<rparr> s of
        (s1, None) \<Rightarrow> (s1, Inl RequestFailed)
      | (s1, Some resp) \<Rightarrow> (s1, Inr resp))"

record 'r Result =
  re_Endpoint :: string
  re_Status :: int
  re_RequestID :: string
  re_Body :: string
  re_Response :: "'r option"
  re_ErrorCode :: string
  re_ErrorMessage :: string

text \<open>\<open>apiError\<close> decodes an \<open>APIError\<close> into its code and message.\<close>

definition read_result :: "(string \<Rightarrow> (string \<times> string) option) \<Rightarrow> (string \<Rightarrow> 'r option) \<Rightarrow> string \<Rightarrow> http_response \<Rightarrow> 'r Result" where
  "read_result apiError unmarshal endpoint resp =
     (let (code, message) = (if hp_StatusCode resp \<ge> 400 then (case apiError (hp_Body resp) of Some e \<Rightarrow> e | None \<Rightarrow> ([], [])) else ([], []));
          message' = (if hp_StatusCode resp \<ge> 400 \<and> message = [] then if code = [] then hp_Body resp else code else message)
      in \<lparr>re_Endpoint = endpoint, re_Status = hp_StatusCode resp, re_RequestID = hp_RequestID resp, re_Body = hp_Body resp,
          re_Response = (if hp_StatusCode resp \<ge> 400 then None else unmarshal (hp_Body resp)),
          re_ErrorCode = code, re_ErrorMessage = message'\<rparr>)"

definition httpPost :: "'s transport \<Rightarrow> (string \<Rightarrow> (string \<times> string) option) \<Rightarrow> (string \<Rightarrow> 'r option) \<Rightarrow> string \<Rightarrow> string option \<Rightarrow> string \<Rightarrow> 's \<Rightarrow>
    's \<times> (client_error + 'r Result)" where
  "httpPost transport apiError unmarshal endpoint marshalled authToken s =
     (case marshalled of
        None \<Rightarrow> (s, Inl MarshalRequestFailed)
      | Some body \<Rightarrow>
          (case doRequest transport ''POST'' endpoint body authToken s of
             (s1, Inl e) \<Rightarrow> (s1, Inl e)
           | (s1, Inr resp) \<Rightarrow> (s1, Inr (read_result apiError unmarshal endpoint resp))))"

text \<open>The codecs of the messages\<close>

record wire =
  wi_marshalRegister :: "RegisterHostRequest \<Rightarrow> string option"
  wi_marshalSnapshot :: "AgentSnapshot \<Rightarrow> string option"
  wi_registerResponse :: "string \<Rightarrow> RegisterHostResponse option"
  wi_syncResponse :: "string \<Rightarrow> SyncResponse option"
  wi_apiError :: "string \<Rightarrow> (string \<times> string) option"

definition RegisterHost :: "wire \<Rightarrow> 's transport \<Rightarrow> HTTPClient \<Rightarrow> RegisterHostRequest \<Rightarrow> 's \<Rightarrow> 's \<times> (client_error + RegisterHostResponse Result)" where
  "RegisterHost w transport c req = httpPost transport (wi_apiError w) (wi_registerResponse w) (registerEndpoint c) (wi_marshalRegister w req) []"

definition PostSnapshot :: "wire \<Rightarrow> 's transport \<Rightarrow> HTTPClient \<Rightarrow> string \<Rightarrow> AgentSnapshot \<Rightarrow> 's \<Rightarrow> 's \<times> (client_error + SyncResponse Result)" where
  "PostSnapshot w transport c hostToken snapshot =
     httpPost transport (wi_apiError w) (wi_syncResponse w) (snapshotEndpoint c) (wi_marshalSnapshot w snapshot) hostToken"

section \<open>\<open>enroll\<close>\<close>

definition cli_readMachineID :: "cli_env \<Rightarrow> string" where
  "cli_readMachineID env = (case ag_read (cl_agent env) ''/etc/machine-id'' of Contents s \<Rightarrow> TrimSpace s | _ \<Rightarrow> [])"

text \<open>\<open>strings.Trim(s, "\"")\<close>\<close>

definition TrimQuotes :: "string \<Rightarrow> string" where
  "TrimQuotes s = rev (dropWhile (\<lambda>c. c = CHR 0x22) (rev (dropWhile (\<lambda>c. c = CHR 0x22) s)))"

fun os_version_in :: "string list \<Rightarrow> string" where
  "os_version_in [] = ''unknown''"
| "os_version_in (line # rest) =
     (if \<not> HasPrefix line ''VERSION_ID='' then os_version_in rest
      else let value = TrimSpace (TrimQuotes (TrimPrefix line ''VERSION_ID='')) in if value \<noteq> [] then value else os_version_in rest)"

definition readOSVersion :: "cli_env \<Rightarrow> string" where
  "readOSVersion env = (case ag_read (cl_agent env) ''/etc/os-release'' of Contents s \<Rightarrow> os_version_in (Split1 s (CHR 0x0A)) | _ \<Rightarrow> ''unknown'')"

text \<open>An address is given by whether it is a loopback address and by its text if it is one of IPv4.\<close>

definition firstNonLoopbackIP :: "cli_env \<Rightarrow> string" where
  "firstNonLoopbackIP env =
     (case cl_ips env of
        None \<Rightarrow> []
      | Some addrs \<Rightarrow> (case find (\<lambda>a. \<not> fst a \<and> snd a \<noteq> None) addrs of None \<Rightarrow> [] | Some a \<Rightarrow> UnwrapOr (snd a) []))"

definition collectRegistrationMetadata :: "cli_env \<Rightarrow> RegisterHostMetadata" where
  "collectRegistrationMetadata env =
     \<lparr>rm_IpAddress = firstNonLoopbackIP env, rm_OsName = cl_goos env, rm_OsVersion = readOSVersion env, rm_Architecture = cl_goarch env\<rparr>"

datatype cli_error =
    ClientFailed client_error
  | CliHostnameFailed
  | RegisterRejected int string string
  | InvalidRegisterResponse
  | ConfigFailed config_error
  | MissingServerURL | MissingToken
  | SnapshotFailed system_error
  | SyncRejected int string string

definition register_request :: "cli_env \<Rightarrow> string \<Rightarrow> string \<Rightarrow> RegisterHostRequest" where
  "register_request env token hostname =
     \<lparr>rq_RegistrationToken = token, rq_Hostname = hostname, rq_MachineId = cli_readMachineID env, rq_Metadata = Some (collectRegistrationMetadata env)\<rparr>"

text \<open>The state is the state of the server with the files that the agent wrote.\<close>

definition enroll :: "wire \<Rightarrow> 's transport \<Rightarrow> cli_env \<Rightarrow> string \<Rightarrow> string \<Rightarrow> string \<Rightarrow> string \<Rightarrow> bool \<Rightarrow> 's \<times> (string \<rightharpoonup> string) \<Rightarrow>
    ('s \<times> (string \<rightharpoonup> string)) \<times> cli_error option" where
  "enroll w transport env configPath serverURL token caCert allowInsecureHTTP st =
     (case st of (s, files) \<Rightarrow>
      case NewHTTPClient env serverURL caCert allowInsecureHTTP of
        Inl e \<Rightarrow> (st, Some (ClientFailed e))
      | Inr c \<Rightarrow>
          (case ag_hostname (cl_agent env) of
             None \<Rightarrow> (st, Some CliHostnameFailed)
           | Some hostname \<Rightarrow>
               (case RegisterHost w transport c (register_request env token hostname) s of
                  (s1, Inl e) \<Rightarrow> ((s1, files), Some (ClientFailed e))
                | (s1, Inr result) \<Rightarrow>
                    if re_Status result \<ge> 400 then ((s1, files), Some (RegisterRejected (re_Status result) (re_ErrorCode result) (re_ErrorMessage result)))
                    else case re_Response result of
                      None \<Rightarrow> ((s1, files), Some InvalidRegisterResponse)
                    | Some resp \<Rightarrow>
                        if rs_HostAccessToken resp = [] then ((s1, files), Some InvalidRegisterResponse)
                        else
                          (case config_Save env configPath \<lparr>cf_ServerURL = serverURL, cf_HostToken = rs_HostAccessToken resp, cf_CACert = caCert,
                              cf_AllowInsecureHTTP = allowInsecureHTTP\<rparr> files of
                             (files1, err) \<Rightarrow> ((s1, files1), map_option ConfigFailed err)))))"

section \<open>\<open>sync\<close>\<close>

record syncOpts =
  so_configPath :: string
  so_serverURL :: string
  so_hostToken :: string
  so_caCert :: string
  so_allowInsecureHTTP :: bool

definition override :: "string \<Rightarrow> string \<Rightarrow> string" where
  "override option value = (if option \<noteq> [] then option else value)"

definition loadSyncConfig :: "cli_env \<Rightarrow> syncOpts \<Rightarrow> (string \<rightharpoonup> string) \<Rightarrow> cli_error + config_File" where
  "loadSyncConfig env opts files =
     (case config_Load env (so_configPath opts) files of
        Inl _ \<Rightarrow>
          if so_serverURL opts = [] \<and> so_hostToken opts = [] then Inl (ConfigFailed (ConfigNotFound (so_configPath opts)))
          else if so_serverURL opts = [] then Inl MissingServerURL
          else if so_hostToken opts = [] then Inl MissingToken
          else Inr \<lparr>cf_ServerURL = so_serverURL opts, cf_HostToken = so_hostToken opts, cf_CACert = so_caCert opts,
                    cf_AllowInsecureHTTP = so_allowInsecureHTTP opts\<rparr>
      | Inr f \<Rightarrow>
          Inr \<lparr>cf_ServerURL = override (so_serverURL opts) (cf_ServerURL f), cf_HostToken = override (so_hostToken opts) (cf_HostToken f),
               cf_CACert = override (so_caCert opts) (cf_CACert f), cf_AllowInsecureHTTP = so_allowInsecureHTTP opts \<or> cf_AllowInsecureHTTP f\<rparr>)"

text \<open>Printing the snapshot and logging are left out.\<close>

definition runSync :: "wire \<Rightarrow> 's transport \<Rightarrow> cli_env \<Rightarrow> syncOpts \<Rightarrow> 's \<times> (string \<rightharpoonup> string) \<Rightarrow> ('s \<times> (string \<rightharpoonup> string)) \<times> cli_error option" where
  "runSync w transport env opts st =
     (case st of (s, files) \<Rightarrow>
      case loadSyncConfig env opts files of
        Inl e \<Rightarrow> (st, Some e)
      | Inr cfg \<Rightarrow>
          (case CollectSnapshot (cl_agent env) (cl_version env) of
             Inl e \<Rightarrow> (st, Some (SnapshotFailed e))
           | Inr snapshot \<Rightarrow>
               (case NewHTTPClient env (cf_ServerURL cfg) (cf_CACert cfg) (cf_AllowInsecureHTTP cfg) of
                  Inl e \<Rightarrow> (st, Some (ClientFailed e))
                | Inr c \<Rightarrow>
                    (case PostSnapshot w transport c (cf_HostToken cfg) snapshot s of
                       (s1, Inl e) \<Rightarrow> ((s1, files), Some (ClientFailed e))
                     | (s1, Inr result) \<Rightarrow>
                         ((s1, files),
                          if re_Status result < 200 \<or> re_Status result \<ge> 300
                          then Some (SyncRejected (re_Status result) (re_ErrorCode result) (re_ErrorMessage result)) else None)))))"

end
