(* ===== verification/Api_Entities.thy ===== *)
theory Api_Entities
  imports Host_Pull Kernel_Posture Lifecycle_Catalog
begin

text \<open>
  What the API answers: the entities of \<open>internal/api/v1/entities\<close> with the mappers from the views of the services,
  packages that the host itself reports as upgradable (\<open>upgradable.go\<close>), the rows of the decision pages
  (\<open>ListDecisionPageRowsBySnapshot\<close>), and the lifecycle service (\<open>internal/services/lifecycle.go\<close>). An instant is a number
  of nanoseconds; \<open>None\<close> where the code has a \<open>time.Time\<close> is the zero time.
\<close>

section \<open>Time stamps\<close>

text \<open>The civil date of a day: the year whose first day is the last one not after the day, likewise its month. The
  estimate of the year is off by at most one.\<close>

definition year_of :: "int \<Rightarrow> int" where
  "year_of d =
     (let e = (d + 719528) * 400 div 146097 in
      if days_before_year (e + 1) \<le> d then e + 1 else if days_before_year e \<le> d then e else e - 1)"

definition month_of :: "int \<Rightarrow> int \<Rightarrow> int" where
  "month_of y yd = int (length (filter (\<lambda>m. days_before_month m y \<le> yd) [1..12]))"

definition pad :: "nat \<Rightarrow> int \<Rightarrow> string" where
  "pad n v = (let s = Itoa v in replicate (n - length s) CHR ''0'' @ s)"

definition date_string :: "int \<Rightarrow> string" where
  "date_string d =
     (let y = year_of d; yd = d - days_before_year y; m = month_of y yd; md = yd - days_before_month m y + 1
      in pad 4 y @ ''-'' @ pad 2 m @ ''-'' @ pad 2 md)"

text \<open>\<open>TimeToString\<close>, with the layout 2006-01-02T15:04:05.000000Z\<close>

definition clock_string :: "int \<Rightarrow> string" where
  "clock_string r =
     (let sec = r div 1000000000 in pad 2 (sec div 3600) @ '':'' @ pad 2 (sec div 60 mod 60) @ '':'' @ pad 2 (sec mod 60))"

definition TimeToString :: "int \<Rightarrow> string" where
  "TimeToString t = date_string (t div day_ns) @ ''T'' @ clock_string (t mod day_ns) @ ''.'' @ pad 6 (t mod 1000000000 div 1000) @ ''Z''"

definition time_of :: "int option \<Rightarrow> int" where
  "time_of t = UnwrapOr t zero_time"

text \<open>\<open>t.UTC().Format(time.RFC3339)\<close>\<close>

definition rfc3339_string :: "int \<Rightarrow> string" where
  "rfc3339_string t = date_string (t div day_ns) @ ''T'' @ clock_string (t mod day_ns) @ ''Z''"

section \<open>Hosts\<close>

record LifecycleStatus =
  ls_State :: string
  ls_ProductKey :: string
  ls_ProductDisplayName :: string
  ls_Cycle :: string
  ls_StandardSupportEnd :: string
  ls_EOL :: string
  ls_ExtendedCoverageEnd :: string
  ls_ExtendedCoverageNote :: string
  ls_SourceURL :: string
  ls_DaysRemaining :: "int option"

definition NewLifecycleStatus :: "Status \<Rightarrow> LifecycleStatus" where
  "NewLifecycleStatus status =
     \<lparr>ls_State = st_State status, ls_ProductKey = st_ProductKey status, ls_ProductDisplayName = st_ProductDisplayName status,
      ls_Cycle = st_Cycle status, ls_StandardSupportEnd = st_StandardSupportEnd status, ls_EOL = st_EOL status,
      ls_ExtendedCoverageEnd = st_ExtendedCoverageEnd status, ls_ExtendedCoverageNote = st_ExtendedCoverageNote status,
      ls_SourceURL = st_SourceURL status, ls_DaysRemaining = st_DaysRemaining status\<rparr>"

record SSHPullConfigurationEntity =
  pe_Hostname :: string
  pe_SSHUser :: string
  pe_FrequencyMinutes :: int
  pe_Onboarded :: bool
  pe_UsesUniqueKeyPair :: bool

definition NewSSHPullConfiguration :: "SSHPullConfiguration \<Rightarrow> SSHPullConfigurationEntity" where
  "NewSSHPullConfiguration value =
     \<lparr>pe_Hostname = pc_Hostname value, pe_SSHUser = pc_SSHUser value, pe_FrequencyMinutes = pc_FrequencyMinutes value,
      pe_Onboarded = pc_Onboarded value, pe_UsesUniqueKeyPair = pc_UsesUniqueKeyPair value\<rparr>"

record HostEntity =
  he_ID :: string
  he_OnboardingMode :: string
  he_ApprovalStatus :: string
  he_DisplayName :: string
  he_Hostname :: string
  he_IPAddress :: string
  he_OSFamily :: string
  he_OSName :: string
  he_OSMajor :: int
  he_OSVersion :: string
  he_Architecture :: string
  he_Status :: string
  he_OverallAction :: string
  he_CriticalCount :: int
  he_ImportantCount :: int
  he_ModerateCount :: int
  he_ActionableCount :: int
  he_AvailableUpdates :: int
  he_NeedsReboot :: int
  he_NeedsRestart :: int
  he_NoFix :: int
  he_Unknown :: int
  he_LastSeenAt :: "string option"
  he_LastAdvisoryCheckAt :: "string option"
  he_StateUpdatedAt :: "string option"
  he_PullLastRunAt :: "string option"
  he_PullLastRunStatus :: string
  he_PullLastRunError :: string
  he_Notes :: "string option"
  he_Configuration :: "SSHPullConfigurationEntity option"
  he_Lifecycle :: "LifecycleStatus option"
  he_CreatedAt :: string
  he_UpdatedAt :: string

text \<open>The options of \<open>NewHost\<close> are functions that run on the host in turn.\<close>

definition NewHost :: "HostInfo \<Rightarrow> (HostEntity \<Rightarrow> HostEntity) list \<Rightarrow> HostEntity" where
  "NewHost value opts = fold (\<lambda>opt host. opt host) opts
     \<lparr>he_ID = hi_ID value, he_OnboardingMode = hi_OnboardingMode value, he_ApprovalStatus = hi_ApprovalStatus value,
      he_DisplayName = hi_DisplayName value, he_Hostname = hi_Hostname value, he_IPAddress = hi_IPAddress value,
      he_OSFamily = hi_OSFamily value, he_OSName = hi_OSName value, he_OSMajor = hi_OSMajor value, he_OSVersion = hi_OSVersion value,
      he_Architecture = hi_Architecture value, he_Status = hi_Status value, he_OverallAction = hi_OverallAction value,
      he_CriticalCount = hi_CriticalCount value, he_ImportantCount = hi_ImportantCount value, he_ModerateCount = hi_ModerateCount value,
      he_ActionableCount = hi_ActionableCount value, he_AvailableUpdates = hi_AvailableUpdates value, he_NeedsReboot = hi_NeedsReboot value,
      he_NeedsRestart = hi_NeedsRestart value, he_NoFix = hi_NoFix value, he_Unknown = hi_Unknown value,
      he_LastSeenAt = map_option TimeToString (hi_LastSeenAt value),
      he_LastAdvisoryCheckAt = map_option TimeToString (hi_LastAdvisoryCheckAt value),
      he_StateUpdatedAt = map_option TimeToString (hi_StateUpdatedAt value),
      he_PullLastRunAt = map_option TimeToString (hi_PullLastRunAt value),
      he_PullLastRunStatus = hi_PullLastRunStatus value, he_PullLastRunError = hi_PullLastRunError value, he_Notes = hi_Notes value,
      he_Configuration = map_option NewSSHPullConfiguration (hi_Configuration value), he_Lifecycle = None,
      he_CreatedAt = TimeToString (time_of (hi_CreatedAt value)), he_UpdatedAt = TimeToString (time_of (hi_UpdatedAt value))\<rparr>"

definition WithLifecycle :: "LifecycleStatus \<Rightarrow> HostEntity \<Rightarrow> HostEntity" where
  "WithLifecycle status h = h\<lparr>he_Lifecycle := Some status\<rparr>"

definition NewHosts :: "HostInfo list \<Rightarrow> HostEntity list" where
  "NewHosts values = map (\<lambda>value. NewHost value []) values"

record HostSnapshotEntity =
  hse_ID :: string
  hse_HostID :: string
  hse_CollectedAt :: string
  hse_ReceivedAt :: string
  hse_RunningKernelNevra :: string
  hse_BootTime :: "string option"
  hse_HasProcessData :: bool

definition NewHostSnapshot :: "HostSnapshotInfo \<Rightarrow> HostSnapshotEntity" where
  "NewHostSnapshot value =
     \<lparr>hse_ID = Host_Views.si_ID value, hse_HostID = si_HostID value, hse_CollectedAt = TimeToString (time_of (si_CollectedAt value)),
      hse_ReceivedAt = TimeToString (time_of (si_ReceivedAt value)), hse_RunningKernelNevra = si_RunningKernelNevra value,
      hse_BootTime = map_option TimeToString (si_BootTime value), hse_HasProcessData = si_HasProcessData value\<rparr>"

record HostSSHPullJobEntity =
  je_ID :: string
  je_HostID :: string
  je_Status :: string
  je_StartedAt :: string
  je_CompletedAt :: "string option"
  je_Error :: "string option"

definition NewHostSSHPullJob :: "HostSSHPullJobInfo \<Rightarrow> HostSSHPullJobEntity" where
  "NewHostSSHPullJob value =
     \<lparr>je_ID = ji_ID value, je_HostID = ji_HostID value, je_Status = ji_Status value, je_StartedAt = TimeToString (time_of (ji_StartedAt value)),
      je_CompletedAt = map_option TimeToString (ji_CompletedAt value), je_Error = ji_Error value\<rparr>"

definition NewHostSSHPullJobs :: "HostSSHPullJobInfo list \<Rightarrow> HostSSHPullJobEntity list" where
  "NewHostSSHPullJobs values = map NewHostSSHPullJob values"

section \<open>Tokens, audit log, advisories\<close>

record RegistrationTokenEntity =
  te_ID :: string
  te_Name :: string
  te_CreatedByUserID :: string
  te_CreatedAt :: string
  te_RevokedAt :: "string option"
  te_LastUsedAt :: "string option"
  te_AutoApprove :: bool

definition NewRegistrationToken :: "RegistrationTokenInfo \<Rightarrow> RegistrationTokenEntity" where
  "NewRegistrationToken value =
     \<lparr>te_ID = ri_ID value, te_Name = ri_Name value, te_CreatedByUserID = ri_CreatedBy value,
      te_CreatedAt = TimeToString (time_of (ri_CreatedAt value)), te_RevokedAt = map_option TimeToString (ri_RevokedAt value),
      te_LastUsedAt = map_option TimeToString (ri_LastUsedAt value), te_AutoApprove = ri_AutoApprove value\<rparr>"

record CreatedTokenEntity =
  ce_ID :: string
  ce_Name :: string
  ce_Token :: string
  ce_CreatedAt :: string

definition NewCreatedRegistrationToken :: "CreatedRegistrationToken \<Rightarrow> CreatedTokenEntity" where
  "NewCreatedRegistrationToken value =
     \<lparr>ce_ID = cr_ID value, ce_Name = cr_Name value, ce_Token = cr_Token value, ce_CreatedAt = TimeToString (time_of (cr_CreatedAt value))\<rparr>"

record AuditLogEntry =
  ale_ID :: string
  ale_ActorID :: "string option"
  ale_ActorEmail :: string
  ale_Action :: string
  ale_TargetType :: string
  ale_TargetID :: "string option"
  ale_Metadata :: string
  ale_IPAddress :: "string option"
  ale_UserAgent :: "string option"
  ale_CreatedAt :: string

record AuditLogPage =
  alp_Items :: "AuditLogEntry list"
  alp_Total :: int

definition NewAuditLogEntry :: "AuditLogInfo \<Rightarrow> AuditLogEntry" where
  "NewAuditLogEntry value =
     \<lparr>ale_ID = info_ID value, ale_ActorID = info_ActorID value, ale_ActorEmail = info_ActorEmail value, ale_Action = info_Action value,
      ale_TargetType = info_TargetType value, ale_TargetID = info_TargetID value, ale_Metadata = info_Metadata value,
      ale_IPAddress = info_IPAddress value, ale_UserAgent = info_UserAgent value, ale_CreatedAt = info_CreatedAt value\<rparr>"

definition NewAuditLogPage :: "ListAuditLogResult \<Rightarrow> AuditLogPage" where
  "NewAuditLogPage value = \<lparr>alp_Items = map NewAuditLogEntry (res_Items value), alp_Total = res_Total value\<rparr>"

record AdvisoryEntity =
  ade_ID :: string
  ade_SourceSystem :: string
  ade_RawSourceID :: string
  ade_SourceUrl :: "string option"
  ade_Vendor :: string
  ade_AdvisoryType :: string
  ade_Severity :: "string option"
  ade_Summary :: "string option"
  ade_Description :: "string option"
  ade_PublishedAt :: "string option"
  ade_UpdatedAt :: "string option"
  ade_EvidenceTier :: string
  ade_IsSecurity :: bool

definition MapAdvisory :: "Advisory \<Rightarrow> AdvisoryEntity" where
  "MapAdvisory adv =
     \<lparr>ade_ID = adv_ID adv, ade_SourceSystem = adv_SourceSystem adv, ade_RawSourceID = adv_RawSourceID adv, ade_SourceUrl = adv_SourceUrl adv,
      ade_Vendor = adv_Vendor adv, ade_AdvisoryType = adv_AdvisoryType adv, ade_Severity = adv_Severity adv, ade_Summary = adv_Summary adv,
      ade_Description = adv_Description adv, ade_PublishedAt = adv_PublishedAt adv, ade_UpdatedAt = adv_UpdatedAt adv,
      ade_EvidenceTier = adv_EvidenceTier adv, ade_IsSecurity = adv_IsSecurity adv\<rparr>"

text \<open>\<open>GetAdvisory\<close> of the advisory service: the row, or \<open>ErrAdvisoryNotFound\<close>\<close>

definition GetAdvisory :: "string \<Rightarrow> hosts_db \<Rightarrow> Advisory option" where
  "GetAdvisory i db = find (\<lambda>a. adv_ID a = i) (db_advisories (hd_tables db))"

section \<open>Lifecycle service\<close>

record HostLifecycleInfo =
  hl_HostInfo :: HostInfo
  hl_Lifecycle :: Status

text \<open>Looking up an alias may build the index of the catalog, so the catalog is passed on from host to host.\<close>

definition statusAt :: "int \<Rightarrow> HostInfo \<Rightarrow> Catalog \<Rightarrow> Status \<times> Catalog" where
  "statusAt now host c = catalog_Status now 0 (NewStatusInput (hi_OSName host) (hi_OSVersion host) (hi_OSMajor host)) c"

definition StatusFor :: "int \<Rightarrow> HostInfo \<Rightarrow> Catalog \<Rightarrow> Status \<times> Catalog" where
  "StatusFor now host c = statusAt now host c"

fun with_status :: "int \<Rightarrow> HostInfo list \<Rightarrow> Catalog \<Rightarrow> HostLifecycleInfo list \<times> Catalog" where
  "with_status now [] c = ([], c)"
| "with_status now (host # hosts) c =
     (let (status, c1) = statusAt now host c; (rest, c2) = with_status now hosts c1
      in (\<lparr>hl_HostInfo = host, hl_Lifecycle = status\<rparr> # rest, c2))"

definition NewHostsWithLifecycle :: "HostLifecycleInfo list \<Rightarrow> HostEntity list" where
  "NewHostsWithLifecycle values = map (\<lambda>value. NewHost (hl_HostInfo value) [WithLifecycle (NewLifecycleStatus (hl_Lifecycle value))]) values"

end
