(* ===== verification/Api_Web.thy ===== *)
theory Api_Web
  imports Api_Entities Auth_Service "HOL-Library.AList"
begin

text \<open>
  The frame of the HTTP API: requests and responses, the errors of \<open>internal/apperr\<close> with their status and code, the
  helpers of \<open>internal/api/webutil\<close>, the middleware of \<open>internal/api\<close> and \<open>internal/api/auth\<close>, and the state of the server,
  in which the hosts service and the accounts share the audit log and the events. A handler maps a request and the state
  to the state after it and a response. Decoders of JSON and protobuf, the generated validators and the parser of IP
  addresses are parameters.
\<close>

section \<open>Errors\<close>

record Error =
  er_HTTPStatus :: int
  er_Code :: string
  er_Message :: string
  er_Details :: "string option"

definition apperr_New :: "int \<Rightarrow> string \<Rightarrow> string \<Rightarrow> Error" where
  "apperr_New httpStatus code message = \<lparr>er_HTTPStatus = httpStatus, er_Code = code, er_Message = message, er_Details = None\<rparr>"

definition apperr_WithDetails :: "Error \<Rightarrow> string \<Rightarrow> Error" where
  "apperr_WithDetails err details = err\<lparr>er_Details := Some details\<rparr>"

datatype forbidden =
    ForbiddenApproveHost | ForbiddenUpdateHost | ForbiddenUpdateHostNotes | ForbiddenDeleteHost | ForbiddenCreateToken
  | ForbiddenListPendingHosts | ForbiddenListTokens | ForbiddenRevokeToken | ForbiddenRunSSHPull | ForbiddenCreateManualHost
  | ForbiddenOnboardSSHHost | ForbiddenCreateSSHHost | ForbiddenIngestManualReport | ForbiddenAccessSettings | ForbiddenSendReport
  | ForbiddenTestEmail | ForbiddenCompleteSetup | ForbiddenListAuditLog

datatype sentinel =
    HostsApp app_error
  | AccountApp account_app_error
  | Forbidden forbidden
  | ErrAdvisoryNotFound
  | ErrMissingHostID | ErrMissingTokenID | ErrMissingAdvisoryID | ErrMissingScopeKey | ErrInvalidBody | ErrInvalidParams | ErrBodyTooLarge
  | ErrBodyReadFailed | ErrMissingBearer | ErrInternal
  | ErrDisplayNameRequired | ErrHostnameRequired | ErrSSHUserRequired
  | ErrDisplayNameOrHostnameRequired | ErrToAddressRequired | ErrDefaultSSHPullUserEmpty

definition hosts_sentinel :: "app_error \<Rightarrow> Error" where
  "hosts_sentinel e = (case e of
       ErrInvalidRegistrationToken \<Rightarrow> apperr_New 401 ''invalid_registration_token'' ''invalid registration token''
     | ErrInvalidHostAccessToken \<Rightarrow> apperr_New 401 ''invalid_host_access_token'' ''invalid host access token''
     | ErrHostNotApproved \<Rightarrow> apperr_New 403 ''host_not_approved'' ''host pending approval''
     | ErrHostNotFound \<Rightarrow> apperr_New 404 ''host_not_found'' ''host not found''
     | ErrTokenAlreadyRevoked \<Rightarrow> apperr_New 404 ''token_already_revoked'' ''registration token not found or already revoked''
     | ErrHostIdentityMismatch \<Rightarrow> apperr_New 400 ''host_identity_mismatch'' ''snapshot host identity mismatch''
     | ErrSnapshotNotFound \<Rightarrow> apperr_New 404 ''snapshot_not_found'' ''snapshot not found''
     | ErrDuplicateHostDisplayName \<Rightarrow> apperr_New 409 ''duplicate_host_display_name'' ''a host with this display name already exists''
     | ErrDuplicateSSHPullHostname \<Rightarrow> apperr_New 409 ''duplicate_ssh_pull_hostname'' ''an SSH host with this pull hostname already exists''
     | ErrNotesTooLarge \<Rightarrow> apperr_New 413 ''notes_too_large'' ''notes cannot exceed 8192 characters''
     | ErrSSHFieldsForNonSSH \<Rightarrow> apperr_New 400 ''ssh_fields_for_non_ssh_host'' ''SSH configuration can only be updated for SSH hosts''
     | ErrInvalidFrequency \<Rightarrow> apperr_New 400 ''invalid_frequency'' ''invalid frequency'')"

definition account_sentinel :: "account_app_error \<Rightarrow> Error" where
  "account_sentinel e = (case e of
       ErrInvalidCredentials \<Rightarrow> apperr_New 401 ''invalid_credentials'' ''invalid email or password''
     | ErrUnauthorized \<Rightarrow> apperr_New 401 ''unauthorized'' ''invalid access token''
     | ErrInitialSetupAlreadyComplete \<Rightarrow> apperr_New 409 ''initial_setup_already_complete'' ''initial setup already completed''
     | ErrEmailAlreadyInUse \<Rightarrow> apperr_New 409 ''email_already_in_use'' ''email is already in use''
     | ErrEmailRequired \<Rightarrow> apperr_New 400 ''email_required'' ''email is required''
     | ErrCurrentPasswordRequired \<Rightarrow> apperr_New 400 ''current_password_required'' ''current password is required''
     | ErrCurrentPasswordInvalid \<Rightarrow> apperr_New 401 ''current_password_invalid'' ''current password is invalid''
     | ErrPasswordTooShort \<Rightarrow> apperr_New 400 ''password_too_short'' ''password must be at least 12 characters''
     | ErrNameRequired \<Rightarrow> apperr_New 400 ''name_required'' ''name is required'')"

definition forbidden_sentinel :: "forbidden \<Rightarrow> Error" where
  "forbidden_sentinel f = (case f of
       ForbiddenApproveHost \<Rightarrow> apperr_New 403 ''forbidden_approve_host'' ''only admins can approve hosts''
     | ForbiddenUpdateHost \<Rightarrow> apperr_New 403 ''forbidden_update_host'' ''only admins can update hosts''
     | ForbiddenUpdateHostNotes \<Rightarrow> apperr_New 403 ''forbidden_update_host_notes'' ''only admins can update host notes''
     | ForbiddenDeleteHost \<Rightarrow> apperr_New 403 ''forbidden_delete_host'' ''only admins can delete hosts''
     | ForbiddenCreateToken \<Rightarrow> apperr_New 403 ''forbidden_create_token'' ''only admins can create registration tokens''
     | ForbiddenListPendingHosts \<Rightarrow> apperr_New 403 ''forbidden_list_pending_hosts'' ''only admins can list pending hosts''
     | ForbiddenListTokens \<Rightarrow> apperr_New 403 ''forbidden_list_tokens'' ''only admins can list registration tokens''
     | ForbiddenRevokeToken \<Rightarrow> apperr_New 403 ''forbidden_revoke_token'' ''only admins can revoke registration tokens''
     | ForbiddenRunSSHPull \<Rightarrow> apperr_New 403 ''forbidden_run_ssh_pull'' ''only admins can run ssh pull jobs''
     | ForbiddenCreateManualHost \<Rightarrow> apperr_New 403 ''forbidden_create_manual_host'' ''only admins can create manual hosts''
     | ForbiddenOnboardSSHHost \<Rightarrow> apperr_New 403 ''forbidden_onboard_ssh_host'' ''only admins can onboard ssh hosts''
     | ForbiddenCreateSSHHost \<Rightarrow> apperr_New 403 ''forbidden_create_ssh_host'' ''only admins can create ssh hosts''
     | ForbiddenIngestManualReport \<Rightarrow> apperr_New 403 ''forbidden_ingest_manual_report'' ''only admins can upload manual reports''
     | ForbiddenAccessSettings \<Rightarrow> apperr_New 403 ''forbidden_access_settings'' ''only admins can access settings''
     | ForbiddenSendReport \<Rightarrow> apperr_New 403 ''forbidden_send_report'' ''only admins can send report''
     | ForbiddenTestEmail \<Rightarrow> apperr_New 403 ''forbidden_test_email'' ''only admins can test email''
     | ForbiddenCompleteSetup \<Rightarrow> apperr_New 403 ''forbidden_complete_setup'' ''only admins can complete setup''
     | ForbiddenListAuditLog \<Rightarrow> apperr_New 403 ''forbidden_list_audit_log'' ''only admins can view the audit log'')"

definition sentinel_error :: "sentinel \<Rightarrow> Error" where
  "sentinel_error s = (case s of
       HostsApp e \<Rightarrow> hosts_sentinel e
     | AccountApp e \<Rightarrow> account_sentinel e
     | Forbidden f \<Rightarrow> forbidden_sentinel f
     | ErrAdvisoryNotFound \<Rightarrow> apperr_New 404 ''advisory_not_found'' ''advisory not found''
     | ErrMissingHostID \<Rightarrow> apperr_New 400 ''missing_host_id'' ''missing host id''
     | ErrMissingTokenID \<Rightarrow> apperr_New 400 ''missing_token_id'' ''missing token id''
     | ErrMissingAdvisoryID \<Rightarrow> apperr_New 400 ''missing_advisory_id'' ''missing advisory id''
     | ErrMissingScopeKey \<Rightarrow> apperr_New 400 ''missing_scope_key'' ''missing scope key''
     | ErrInvalidBody \<Rightarrow> apperr_New 400 ''invalid_request_body'' ''invalid request body''
     | ErrInvalidParams \<Rightarrow> apperr_New 400 ''invalid_request_parameters'' ''invalid request parameters''
     | ErrBodyTooLarge \<Rightarrow> apperr_New 413 ''request_body_too_large'' ''request body too large''
     | ErrBodyReadFailed \<Rightarrow> apperr_New 400 ''body_read_failed'' ''failed to read request body''
     | ErrMissingBearer \<Rightarrow> apperr_New 401 ''missing_bearer_token'' ''missing bearer token''
     | ErrInternal \<Rightarrow> apperr_New 500 ''internal_error'' ''internal server error''
     | ErrDisplayNameRequired \<Rightarrow> apperr_New 400 ''display_name_required'' ''display name is required''
     | ErrHostnameRequired \<Rightarrow> apperr_New 400 ''hostname_required'' ''hostname is required''
     | ErrSSHUserRequired \<Rightarrow> apperr_New 400 ''ssh_user_required'' ''ssh user is required''
     | ErrDisplayNameOrHostnameRequired \<Rightarrow> apperr_New 400 ''display_name_or_hostname_required'' ''display name or hostname is required''
     | ErrToAddressRequired \<Rightarrow> apperr_New 400 ''to_address_required'' ''to address is required''
     | ErrDefaultSSHPullUserEmpty \<Rightarrow> apperr_New 400 ''default_ssh_pull_user_empty'' ''default ssh pull user cannot be empty'')"

text \<open>An error that reaches \<open>WriteError\<close>: a sentinel, one with details, or one that no sentinel is wrapped in\<close>

datatype api_error = Sentinel sentinel | Detailed sentinel string | Unhandled

text \<open>\<open>errors.AsType\<close> on what the services return; of a failure to restore a schedule only the first error is wrapped.\<close>

fun service_failure :: "service_error \<Rightarrow> api_error" where
  "service_failure (AppErr e) = Sentinel (HostsApp e)"
| "service_failure (UpdateFailed e r) = service_failure e"
| "service_failure _ = Unhandled"

fun account_failure :: "account_error \<Rightarrow> api_error" where
  "account_failure (AcctApp e) = Sentinel (AccountApp e)"
| "account_failure _ = Unhandled"

definition as_error :: "api_error \<Rightarrow> Error option" where
  "as_error e = (case e of Sentinel s \<Rightarrow> Some (sentinel_error s) | Detailed s d \<Rightarrow> Some (apperr_WithDetails (sentinel_error s) d) | Unhandled \<Rightarrow> None)"

section \<open>Requests and responses\<close>

text \<open>A body is what can be read of it, and the error that reading then ends with.\<close>

datatype read_error = MaxBytesError | ReadFailed

type_synonym body_bytes = "string \<times> read_error option"

record request =
  req_Method :: string
  req_Path :: "string list"
  req_PathValue :: "string \<Rightarrow> string"
  req_Query :: "string \<Rightarrow> string"
  req_Header :: "string \<Rightarrow> string"
  req_RemoteAddr :: string
  req_TLS :: bool
  req_Body :: body_bytes

record ResponseUser =
  ru_ID :: string
  ru_Email :: string
  ru_Name :: string
  ru_IsAdmin :: bool

datatype payload =
    NoBody
  | TextBody string
  | ApiErrorProto string string
  | ApiErrorJSON string string "string option"
  | RegisterProto RegisterHostResponse
  | SyncProto SyncResponse
  | HostJSON HostEntity
  | HostListJSON "HostEntity list"
  | SnapshotJSON HostSnapshotEntity
  | PullJobsJSON "HostSSHPullJobEntity list"
  | TokensJSON "RegistrationTokenEntity list"
  | CreatedTokenJSON CreatedTokenEntity
  | CreatedSSHHostJSON string string string string string
  | CreatedManualHostJSON string string
  | ScriptBody pull_script
  | GroupsJSON "DecisionGroup list"
  | PostureJSON HostKernelPosture
  | SettingsJSON string string bool SMTPSettings string
  | SessionJSON string bool bool ResponseUser
  | ProfileJSON string ResponseUser
  | SetupStatusJSON bool
  | AuditPageJSON AuditLogPage
  | AdvisoryJSON AdvisoryEntity
  | ScopeStatusesJSON "AdvisoryScopeStatus list"
  | ScopeOverviewJSON AdvisoryOverview
  | DashboardJSON DashboardOverview
  | CatalogSourceJSON CatalogSource
  | StatusJSON string
  | OkJSON
  | HealthJSON "string option"
  | FileBody string

record response =
  resp_Status :: int
  resp_Headers :: "(string \<times> string) list"
  resp_Body :: payload

definition Header_Set :: "string \<Rightarrow> string \<Rightarrow> response \<Rightarrow> response" where
  "Header_Set k v r = r\<lparr>resp_Headers := AList.update k v (resp_Headers r)\<rparr>"

definition WriteJSON :: "int \<Rightarrow> payload \<Rightarrow> response" where
  "WriteJSON status p = \<lparr>resp_Status = status, resp_Headers = [(''Content-Type'', ''application/json'')], resp_Body = p\<rparr>"

text \<open>Marshalling a message that the server built does not fail.\<close>

definition WriteProto :: "int \<Rightarrow> payload \<Rightarrow> response" where
  "WriteProto status p = \<lparr>resp_Status = status, resp_Headers = [(''Content-Type'', ''application/x-protobuf'')], resp_Body = p\<rparr>"

definition wantsProto :: "request \<Rightarrow> bool" where
  "wantsProto r \<longleftrightarrow> req_Header r ''Content-Type'' = ''application/x-protobuf'' \<or> req_Header r ''Accept'' = ''application/x-protobuf''"

definition visible_error :: "api_error \<Rightarrow> Error" where
  "visible_error err =
     (let ae = (case as_error err of None \<Rightarrow> sentinel_error ErrInternal | Some e \<Rightarrow> e)
      in if er_HTTPStatus ae \<ge> 500
         then \<lparr>er_HTTPStatus = er_HTTPStatus ae, er_Code = er_Code ae, er_Message = ''internal server error'', er_Details = None\<rparr>
         else ae)"

definition WriteError :: "request \<Rightarrow> api_error \<Rightarrow> response" where
  "WriteError r err =
     (let ae = visible_error err in
      if wantsProto r then WriteProto (er_HTTPStatus ae) (ApiErrorProto (er_Code ae) (er_Message ae))
      else WriteJSON (er_HTTPStatus ae) (ApiErrorJSON (er_Code ae) (er_Message ae) (er_Details ae)))"

text \<open>\<open>http.Error\<close>\<close>

definition http_Error :: "string \<Rightarrow> int \<Rightarrow> response" where
  "http_Error message status =
     \<lparr>resp_Status = status, resp_Headers = [(''Content-Type'', ''text/plain; charset=utf-8''), (''X-Content-Type-Options'', ''nosniff'')],
      resp_Body = TextBody message\<rparr>"

definition http_NotFound :: response where
  "http_NotFound = http_Error ''404 page not found'' 404"

definition WriteHeader :: "int \<Rightarrow> response" where
  "WriteHeader status = \<lparr>resp_Status = status, resp_Headers = [], resp_Body = NoBody\<rparr>"

section \<open>The address of the client\<close>

text \<open>\<open>net.SplitHostPort\<close>, of which only the host is used\<close>

definition SplitHostPort :: "string \<Rightarrow> string option" where
  "SplitHostPort hostport =
     (case LastIndex hostport '':'' of
        None \<Rightarrow> None
      | Some i \<Rightarrow>
          if HasPrefix hostport ''['' then
            (case Index hostport '']'' of
               None \<Rightarrow> None
             | Some e \<Rightarrow>
                 if e + 1 \<noteq> i then None
                 else if Contains (drop 1 hostport) ''['' \<or> Contains (drop (e + 1) hostport) '']'' then None
                 else Some (drop 1 (take e hostport)))
          else if Contains (take i hostport) '':'' then None
          else if Contains hostport ''['' \<or> Contains hostport '']'' then None
          else Some (take i hostport))"

text \<open>\<open>parse\<close> is \<open>netip.ParseAddr\<close> with whether the address is a loopback or a private one.\<close>

definition IsLocalAddr :: "(string \<Rightarrow> (bool \<times> bool) option) \<Rightarrow> string \<Rightarrow> bool" where
  "IsLocalAddr parse s = (case parse s of None \<Rightarrow> False | Some (loopback, private) \<Rightarrow> loopback \<or> private)"

definition isRemoteAddrLocal :: "(string \<Rightarrow> (bool \<times> bool) option) \<Rightarrow> request \<Rightarrow> bool" where
  "isRemoteAddrLocal parse r = (case SplitHostPort (req_RemoteAddr r) of None \<Rightarrow> False | Some host \<Rightarrow> IsLocalAddr parse host)"

definition ClientIP :: "(string \<Rightarrow> (bool \<times> bool) option) \<Rightarrow> request \<Rightarrow> string" where
  "ClientIP parse r =
     (let trusted = isRemoteAddrLocal parse r; xff = req_Header r ''X-Forwarded-For''; xri = req_Header r ''X-Real-Ip'' in
      if trusted \<and> xff \<noteq> [] then (case Cut xff '','' of Some (before, _) \<Rightarrow> TrimSpace before | None \<Rightarrow> TrimSpace xff)
      else if trusted \<and> xri \<noteq> [] then TrimSpace xri
      else case SplitHostPort (req_RemoteAddr r) of None \<Rightarrow> req_RemoteAddr r | Some host \<Rightarrow> host)"

section \<open>Parameters of a query\<close>

datatype param_error = InvalidNumber | NegativeNumber | NumberTooLarge | InvalidTimestamp

definition web_ParseInt :: "string \<Rightarrow> int \<Rightarrow> param_error + int" where
  "web_ParseInt raw defaultValue =
     (if raw = [] then Inr defaultValue
      else case ParseInt 64 raw of None \<Rightarrow> Inl InvalidNumber | Some v \<Rightarrow> if v < 0 then Inl NegativeNumber else Inr v)"

definition ParseIntOpt :: "string \<Rightarrow> param_error + int option" where
  "ParseIntOpt raw =
     (if raw = [] then Inr None
      else case ParseInt 64 raw of None \<Rightarrow> Inl InvalidNumber | Some v \<Rightarrow> if v < 0 then Inl NegativeNumber else Inr (Some v))"

definition ParseInt32Opt :: "string \<Rightarrow> param_error + int option" where
  "ParseInt32Opt raw =
     (case ParseIntOpt raw of
        Inl e \<Rightarrow> Inl e
      | Inr None \<Rightarrow> Inr None
      | Inr (Some v) \<Rightarrow> if v > 2147483647 then Inl NumberTooLarge else Inr (Some (to_int32 v)))"

text \<open>\<open>rfc\<close> is \<open>time.Parse\<close> on the layout RFC 3339; the zero time is \<open>None\<close>. The flag says that the input was a bare date.\<close>

definition nonzero_time :: "int \<Rightarrow> int option" where
  "nonzero_time t = (if t = zero_time then None else Some t)"

definition parseTimestamp :: "(string \<Rightarrow> int option) \<Rightarrow> string \<Rightarrow> param_error + int option \<times> bool" where
  "parseTimestamp rfc raw =
     (if raw = [] then Inr (None, False)
      else case rfc raw of
        Some t \<Rightarrow> Inr (nonzero_time t, False)
      | None \<Rightarrow> (case parse_layout raw of
          Some (y, m, d) \<Rightarrow> Inr (nonzero_time (date_days y m d * day_ns), True)
        | None \<Rightarrow> Inl InvalidTimestamp))"

definition startOfDayUTC :: "int \<Rightarrow> int" where
  "startOfDayUTC t = t div day_ns * day_ns"

definition endOfDayUTC :: "int \<Rightarrow> int" where
  "endOfDayUTC t = t div day_ns * day_ns + ((23 * 60 + 59) * 60 + 59) * 1000000000 + 999999999"

definition ParseTimestamp :: "(string \<Rightarrow> int option) \<Rightarrow> string \<Rightarrow> param_error + int option" where
  "ParseTimestamp rfc raw =
     (case parseTimestamp rfc raw of
        Inl e \<Rightarrow> Inl e
      | Inr (None, _) \<Rightarrow> Inr None
      | Inr (Some t, dateOnly) \<Rightarrow> Inr (nonzero_time (if dateOnly then startOfDayUTC t else t)))"

definition ParseTimestampEnd :: "(string \<Rightarrow> int option) \<Rightarrow> string \<Rightarrow> param_error + int option" where
  "ParseTimestampEnd rfc raw =
     (case parseTimestamp rfc raw of
        Inl e \<Rightarrow> Inl e
      | Inr (None, _) \<Rightarrow> Inr None
      | Inr (Some t, dateOnly) \<Rightarrow> Inr (nonzero_time (if dateOnly then endOfDayUTC t else t)))"


section \<open>The server\<close>

record createTokenRequest =
  ct_Name :: string
  ct_AutoApprove :: bool

record createManualHostRequest =
  cm_DisplayName :: string
  cm_Hostname :: string

record createSSHHostRequest =
  cq_DisplayName :: string
  cq_Hostname :: string
  cq_SSHUser :: string
  cq_FrequencyMinutes :: int
  cq_UniqueKeyPair :: bool

record updateHostRequest =
  uq_DisplayName :: "string option"
  uq_PullHostname :: "string option"
  uq_PullSSHUser :: "string option"
  uq_PullFrequencyMinutes :: "int option"

record updateSettingsRequest =
  us_DefaultSSHPullUser :: "string option"
  us_AskToCopyPublicKey :: "bool option"
  us_SMTPSettings :: "SMTPSettings option"
  us_EmailFrequency :: "string option"

text \<open>Decoding fails because the body is too large or otherwise, with an error that is encoded as the given JSON. The field
  \<open>notes\<close> is the raw JSON of the member, \<open>None\<close> when it is absent.\<close>

datatype decode_error = DecodeTooLarge (decode_details: string) | DecodeInvalid (decode_details: string)

type_synonym 'a decoder = "body_bytes \<Rightarrow> decode_error + 'a"

record api_env =
  ap_hosts :: service_env
  ap_accounts :: account_env
  ap_manual :: manual_sync_env
  ap_scopeFails :: bool
  ap_auditFails :: "audit_call \<Rightarrow> bool"
  ap_advisoryFails :: bool
  ap_rowsFail :: bool
  ap_now :: int
  ap_requestID :: string
  ap_parseAddr :: "string \<Rightarrow> (bool \<times> bool) option"
  ap_rfc3339 :: "string \<Rightarrow> int option"
  ap_sorters :: sorters
  ap_cvesUnmarshal :: "string \<Rightarrow> CVEInfo list"
  ap_optionMarshal :: "string option \<Rightarrow> string"
  ap_jsonAgg :: "(string \<times> string) list \<Rightarrow> string"
  ap_unmarshal :: "string \<Rightarrow> bool \<times> AgentSnapshot"
  ap_registerDecoder :: "string \<Rightarrow> RegisterHostRequest option"
  ap_registerValidate :: "RegisterHostRequest \<Rightarrow> string option"
  ap_snapshotDecoder :: "string \<Rightarrow> AgentSnapshot option"
  ap_snapshotValidate :: "AgentSnapshot \<Rightarrow> string option"
  ap_loginDecoder :: "(string \<times> string) decoder"
  ap_setupDecoder :: "CompleteInitialSetupInput decoder"
  ap_profileDecoder :: "UpdateProfileInput decoder"
  ap_tokenDecoder :: "createTokenRequest decoder"
  ap_manualDecoder :: "createManualHostRequest decoder"
  ap_sshDecoder :: "createSSHHostRequest decoder"
  ap_updateDecoder :: "updateHostRequest decoder"
  ap_notesDecoder :: "string option decoder"
  ap_stringDecoder :: "string \<Rightarrow> string option"
  ap_settingsDecoder :: "updateSettingsRequest decoder"
  ap_emailDecoder :: "string decoder"
  ap_sendReport :: "string list \<Rightarrow> bool"
  ap_testConnection :: "SMTPSettings \<Rightarrow> string \<Rightarrow> bool"
  ap_maxBodyBytes :: int
  ap_files :: "string \<Rightarrow> bool"

record server =
  srv_hosts :: service
  srv_accounts :: account_db
  srv_catalog :: Catalog
  srv_jobs :: "string list"

type_synonym handler = "api_env \<Rightarrow> request \<Rightarrow> server \<Rightarrow> server \<times> response"

text \<open>The two services run on one database and one event broker: the accounts see the audit log and the events of the
  hosts service, which sees the users of the accounts.\<close>

definition accounts_of :: "server \<Rightarrow> accounts" where
  "accounts_of srv = \<lparr>ac_db = srv_accounts srv, ac_auditLog = sv_auditLog (srv_hosts srv), ac_published = sv_published (srv_hosts srv)\<rparr>"

definition put_accounts :: "accounts \<Rightarrow> server \<Rightarrow> server" where
  "put_accounts a srv =
     srv\<lparr>srv_accounts := ac_db a, srv_hosts := (srv_hosts srv)\<lparr>sv_auditLog := ac_auditLog a, sv_published := ac_published a\<rparr>\<rparr>"

definition hosts_env :: "api_env \<Rightarrow> server \<Rightarrow> service_env" where
  "hosts_env env srv = (ap_hosts env)\<lparr>sv_users := \<lambda>i. map_option us_Email (first_row (\<lambda>u. us_ID u = i) (ad_users (srv_accounts srv)))\<rparr>"

text \<open>A call of a service, and what the handler answers to its result\<close>

definition call_hosts :: "request \<Rightarrow> 'a outcome \<Rightarrow> server \<Rightarrow> ('a \<Rightarrow> server \<Rightarrow> server \<times> response) \<Rightarrow> server \<times> response" where
  "call_hosts r out srv k =
     (case out of (s, Inl e) \<Rightarrow> (srv\<lparr>srv_hosts := s\<rparr>, WriteError r (service_failure e)) | (s, Inr a) \<Rightarrow> k a (srv\<lparr>srv_hosts := s\<rparr>))"

definition call_accounts :: "request \<Rightarrow> 'a account_outcome \<Rightarrow> server \<Rightarrow> ('a \<Rightarrow> server \<Rightarrow> server \<times> response) \<Rightarrow> server \<times> response" where
  "call_accounts r out srv k =
     (case out of (a, Inl e) \<Rightarrow> (put_accounts a srv, WriteError r (account_failure e)) | (a, Inr v) \<Rightarrow> k v (put_accounts a srv))"

definition read_accounts :: "request \<Rightarrow> account_error + 'a \<Rightarrow> server \<Rightarrow> ('a \<Rightarrow> server \<times> response) \<Rightarrow> server \<times> response" where
  "read_accounts r out srv k = (case out of Inl e \<Rightarrow> (srv, WriteError r (account_failure e)) | Inr v \<Rightarrow> k v)"

section \<open>Middleware\<close>

text \<open>\<open>bearerToken\<close> of the agent API trims the token, the one of the dashboard does not.\<close>

definition agent_bearerToken :: "string \<Rightarrow> string option" where
  "agent_bearerToken header =
     (if \<not> HasPrefix header ''Bearer '' then None
      else let value = TrimSpace (TrimPrefix header ''Bearer '') in if value = [] then None else Some value)"

definition auth_bearerToken :: "string \<Rightarrow> string option" where
  "auth_bearerToken authHeader =
     (if length authHeader \<le> length ''Bearer '' \<or> take (length ''Bearer '') authHeader \<noteq> ''Bearer '' then None
      else Some (drop (length ''Bearer '') authHeader))"

record AuthInfo =
  ai_Token :: string
  ai_User :: User

definition ActorFromRequest :: "api_env \<Rightarrow> request \<Rightarrow> AuthInfo \<Rightarrow> ActorRef" where
  "ActorFromRequest env r a =
     \<lparr>ar_UserID = us_ID (ai_User a), ar_Email = us_Email (ai_User a), ar_IP = ClientIP (ap_parseAddr env) r, ar_UserAgent = req_Header r ''User-Agent''\<rparr>"

type_synonym authenticated = "api_env \<Rightarrow> AuthInfo \<Rightarrow> request \<Rightarrow> server \<Rightarrow> server \<times> response"

definition auth_Required :: "authenticated \<Rightarrow> handler" where
  "auth_Required next env r srv =
     (case auth_bearerToken (req_Header r ''Authorization'') of
        None \<Rightarrow> (srv, WriteError r (Sentinel ErrMissingBearer))
      | Some token \<Rightarrow>
          (case Authenticate (ap_accounts env) token (accounts_of srv) of
             Inl e \<Rightarrow> (srv, WriteError r (account_failure e))
           | Inr user \<Rightarrow> next env \<lparr>ai_Token = token, ai_User = user\<rparr> r srv))"

definition DefaultMaxRequestBodyBytes :: int where "DefaultMaxRequestBodyBytes = 32 * 1024 * 1024"

definition MaxBytesReader :: "int \<Rightarrow> body_bytes \<Rightarrow> body_bytes" where
  "MaxBytesReader n body = (if int (length (fst body)) > n then (take (nat n) (fst body), Some MaxBytesError) else body)"

definition MaxBodyBytesMiddleware :: "int \<Rightarrow> handler \<Rightarrow> handler" where
  "MaxBodyBytesMiddleware maxBytes next env r srv =
     next env (r\<lparr>req_Body := MaxBytesReader (if maxBytes \<le> 0 then DefaultMaxRequestBodyBytes else maxBytes) (req_Body r)\<rparr>) srv"

text \<open>\<open>io.ReadAll\<close> with the answer to its error\<close>

definition ReadAll :: "body_bytes \<Rightarrow> sentinel + string" where
  "ReadAll body = (case snd body of None \<Rightarrow> Inr (fst body) | Some MaxBytesError \<Rightarrow> Inl ErrBodyTooLarge | Some ReadFailed \<Rightarrow> Inl ErrBodyReadFailed)"

text \<open>\<open>valid\<close> gives the details of what \<open>ValidateAll\<close> finds.\<close>

definition ValidateNoAuth :: "(string \<Rightarrow> 'm option) \<Rightarrow> ('m \<Rightarrow> string option) \<Rightarrow> ('m \<Rightarrow> server \<Rightarrow> server \<times> response) \<Rightarrow> request \<Rightarrow> server \<Rightarrow> server \<times> response" where
  "ValidateNoAuth unmarshal valid fn r srv =
     (case ReadAll (req_Body r) of
        Inl e \<Rightarrow> (srv, WriteError r (Sentinel e))
      | Inr body \<Rightarrow>
          (case unmarshal body of
             None \<Rightarrow> (srv, WriteError r (Sentinel ErrInvalidBody))
           | Some req \<Rightarrow>
               (case valid req of
                  Some details \<Rightarrow> (srv, WriteError r (Detailed ErrInvalidParams details))
                | None \<Rightarrow> fn req srv)))"

definition quoted :: "string \<Rightarrow> string" where
  "quoted s = CHR 0x27 # s @ [CHR 0x27]"

definition security_headers :: "(string \<times> string) list" where
  "security_headers =
     [(''Content-Security-Policy'', ''default-src 'self'; script-src 'self' 'unsafe-inline'; style-src 'self' 'unsafe-inline' https://fonts.googleapis.com https://cdnjs.cloudflare.com; font-src 'self' https://fonts.gstatic.com https://cdnjs.cloudflare.com data:; img-src 'self' data: blob:; connect-src 'self'; frame-ancestors '' @ quoted ''none''),
      (''X-Frame-Options'', ''DENY''), (''X-Content-Type-Options'', ''nosniff''), (''Referrer-Policy'', ''strict-origin-when-cross-origin''),
      (''Permissions-Policy'', ''geolocation=(), microphone=(), camera=()'')]"

text \<open>Headers set before the handler runs stay unless it sets them again.\<close>

definition with_headers :: "(string \<times> string) list \<Rightarrow> server \<times> response \<Rightarrow> server \<times> response" where
  "with_headers hs out = (fst out, (snd out)\<lparr>resp_Headers := fold (\<lambda>(k, v). AList.update k v) (resp_Headers (snd out)) hs\<rparr>)"

definition SecurityHeadersMiddleware :: "handler \<Rightarrow> handler" where
  "SecurityHeadersMiddleware next env r srv =
     with_headers (security_headers @
       (if req_TLS r \<or> EqualFold (TrimSpace (req_Header r ''X-Forwarded-Proto'')) ''https''
        then [(''Strict-Transport-Security'', ''max-age=63072000; includeSubDomains'')] else []))
       (next env r srv)"

definition RequestContextMiddleware :: "handler \<Rightarrow> handler" where
  "RequestContextMiddleware next env r srv = with_headers [(''X-Request-Id'', ap_requestID env)] (next env r srv)"

end
