(* ===== verification/Api_Packages.thy ===== *)
theory Api_Packages
  imports Api_Web
begin

text \<open>
  The package pages of a host: the rows of \<open>ListDecisionPageRowsBySnapshot\<close> (\<open>internal/sql/decision_records.sql.go\<close>), the
  packages that the host's package manager reports as upgradable (\<open>internal/api/v1/entities/upgradable.go\<close>), and the
  handlers \<open>vulnerable.go\<close> and \<open>upgradable.go\<close> of \<open>internal/api/v1/hosts\<close>. The two pages together show every decision that
  asks for an action, each on the page of its kind. The query has no ORDER BY; its rows are taken in the order of the table.
\<close>

section \<open>The rows of a page\<close>

definition vendor_rank :: "string option \<Rightarrow> nat" where
  "vendor_rank v =
     (case v of None \<Rightarrow> 0
      | Some s \<Rightarrow> let l = ToLower s in
          if l = ''critical'' then 4 else if l \<in> {''important'', ''high''} then 3 else if l \<in> {''moderate'', ''medium''} then 2
          else if l = ''low'' then 1 else 0)"

text \<open>The subquery: the name of the highest rank among the references, NULL for rank 0 and for no reference\<close>

definition reference_severity :: "AdvisoryReference list \<Rightarrow> string option" where
  "reference_severity refs =
     (let top = fold max (map (\<lambda>r. vendor_rank (ref_SeverityVendor r)) refs) 0
      in if top = 4 then Some ''critical'' else if top = 3 then Some ''important'' else if top = 2 then Some ''moderate''
         else if top = 1 then Some ''low'' else None)"

definition nullif_empty :: "string option \<Rightarrow> string option" where
  "nullif_empty v = (if v = Some [] then None else v)"

definition page_row :: "((string \<times> string) list \<Rightarrow> string) \<Rightarrow> AdvisoryReference list \<Rightarrow> InsertDecisionRecordParams \<Rightarrow> Advisory \<Rightarrow> decision_row" where
  "page_row jsonAgg refs dr a =
     (let own = filter (\<lambda>r. ref_AdvisoryID r = dec_AdvisoryID dr) refs;
          severity = coalesce (coalesce (nullif_empty (dec_Severity dr)) (nullif_empty (adv_Severity a))) (reference_severity own);
          cves = filter (\<lambda>r. ref_RefType r = ''cve'') own
      in \<lparr>row_AdvisoryID = dec_AdvisoryID dr, row_PackageName = dec_PackageName dr, row_InstalledNevra = dec_InstalledNevra dr,
          row_FixedNevra = dec_FixedNevra dr, row_Status = dec_Status dr, row_Action = dec_Action dr,
          row_Severity = (case severity of Some s \<Rightarrow> SqlString s | None \<Rightarrow> SqlOther ''null''),
          row_EvidenceTier = dec_EvidenceTier dr, row_ReasonCode = dec_ReasonCode dr, row_ReasonText = dec_ReasonText dr,
          row_ComputedAt = dec_ComputedAt dr, row_AdvisorySummary = adv_Summary a, row_AdvisoryIsSecurity = adv_IsSecurity a,
          row_AdvisorySourceUrl = adv_SourceUrl a, row_AdvisorySourceSystem = adv_SourceSystem a, row_AdvisoryUpdatedAt = adv_UpdatedAt a,
          row_Cves = Some (SqlOther (if cves = [] then ''[]'' else jsonAgg (map (\<lambda>r. (ref_RefValue r, UnwrapOr (ref_Url r) [])) cves)))\<rparr>)"

definition ListDecisionPageRowsBySnapshot :: "((string \<times> string) list \<Rightarrow> string) \<Rightarrow> string \<Rightarrow> hosts_db \<Rightarrow> decision_row list" where
  "ListDecisionPageRowsBySnapshot jsonAgg snapshotID db =
     (let t = hd_tables db in
      concat (map (\<lambda>dr. map (page_row jsonAgg (db_refs t) dr) (filter (\<lambda>a. adv_ID a = dec_AdvisoryID dr) (db_advisories t)))
        (filter (\<lambda>dr. dec_SnapshotID dr = snapshotID) (db_decisions t))))"

section \<open>Packages that the host reports\<close>

definition observedPackageKey :: "string \<Rightarrow> string \<Rightarrow> string" where
  "observedPackageKey name arch = TrimSpace name @ ''|'' @ TrimSpace arch"

definition observedPackageBuildOrFallback :: "Package option \<Rightarrow> string \<Rightarrow> string" where
  "observedPackageBuildOrFallback pkg fallbackValue =
     (case pkg of
        None \<Rightarrow> fallbackValue
      | Some p \<Rightarrow>
          let nevra = TrimSpace (pkg_Nevra p); version = TrimSpace (pkg_Version p); release = TrimSpace (pkg_Release p); arch = TrimSpace (pkg_Arch p)
          in if nevra \<noteq> [] then nevra
             else if version = [] then fallbackValue
             else if release \<noteq> [] then
               (let build = (if pkg_Epoch p = 0 then version @ ''-'' @ release else Itoa (pkg_Epoch p) @ '':'' @ version @ ''-'' @ release)
                in if arch \<noteq> [] then build @ ''.'' @ arch else build)
             else if arch \<noteq> [] then version @ ''.'' @ arch
             else version)"

definition first_by :: "(Package \<Rightarrow> string) \<Rightarrow> Package list \<Rightarrow> string \<rightharpoonup> Package" where
  "first_by key ps = fold (\<lambda>p m. if pkg_Name p = [] then m else if m (key p) = None then m(key p \<mapsto> p) else m) ps Map.empty"

definition observed_item :: "(string \<rightharpoonup> Package) \<Rightarrow> (string \<rightharpoonup> Package) \<Rightarrow> string \<Rightarrow> Package \<Rightarrow> DecisionItem" where
  "observed_item installedByName installedByNameArch computedAt pkg =
     (let name = TrimSpace (pkg_Name pkg);
          installed = (case installedByNameArch (observedPackageKey name (pkg_Arch pkg)) of Some p \<Rightarrow> Some p | None \<Rightarrow> installedByName name);
          repo = TrimSpace (pkg_RepoOrigin pkg);
          reason = ''Reported by host package manager as upgradable.'';
          reason' = (if repo \<noteq> [] then reason @ '' Repo: '' @ repo @ ''.'' else reason)
      in \<lparr>di_AdvisoryID = ''host-package-manager'', di_Title = ''Host package manager updates'', di_FamilyLabel = packageFamilyLabel name [],
          di_PackageName = name, di_InstalledNevra = observedPackageBuildOrFallback installed ''not captured'',
          di_FixedNevra = observedPackageBuildOrFallback (Some pkg) ''target version not captured'',
          di_PackageStateLabel = ''Update available'', di_PackageStateTone = ''info'', di_PackageStateIcon = ''fa-solid fa-bolt'',
          di_SeverityLabel = ''Unknown'', di_SeverityTone = ''muted'', di_StatusLabel = ''observed upgradable'',
          di_ActionLabel = ''Update available'', di_ActionTone = ''info'', di_EvidenceTier = ''Host package manager'', di_ReasonText = reason',
          di_ComputedAt = computedAt, di_AdvisorySourceSystem = ''Host package manager'', di_AdvisoryURL = [],
          di_AdvisoryUpdatedAt = computedAt, di_CVEs = []\<rparr>)"

definition MapObservedUpgradablePackages :: "Package list \<Rightarrow> Package list \<Rightarrow> string set \<Rightarrow> int \<Rightarrow> DecisionItem list" where
  "MapObservedUpgradablePackages upgradablePkgs installedPackages advisoryBackedPackages collectedAt =
     (let installedByName = first_by pkg_Name installedPackages;
          installedByNameArch = first_by (\<lambda>p. observedPackageKey (pkg_Name p) (pkg_Arch p)) installedPackages
      in map (observed_item installedByName installedByNameArch (rfc3339_string collectedAt))
           (filter (\<lambda>pkg. TrimSpace (pkg_Name pkg) \<noteq> [] \<and> TrimSpace (pkg_Name pkg) \<notin> advisoryBackedPackages) upgradablePkgs))"

section \<open>The handlers\<close>

text \<open>The packages, upgradable packages and source packages of the payload. A message that cannot be decoded keeps what was
  read of it, but gives no source packages.\<close>

definition page_snapshot :: "api_env \<Rightarrow> string \<Rightarrow> AgentSnapshot \<times> (string \<rightharpoonup> string)" where
  "page_snapshot env payload =
     (if payload = [] then
        (\<lparr>as_SchemaVersion = [], as_SentAt = None, as_Host = None, as_Repos = [], as_Packages = [], as_Runtime = None,
          as_UpgradablePackages = []\<rparr>, Map.empty)
      else let (ok, snap) = ap_unmarshal env payload in (snap, if ok then source_rpms (as_Packages snap) else Map.empty))"

definition page_items :: "api_env \<Rightarrow> (string \<rightharpoonup> string) \<Rightarrow> (decision_row \<Rightarrow> bool) \<Rightarrow> decision_row list \<Rightarrow> DecisionItem list" where
  "page_items env sources shown rows =
     map (\<lambda>row. MapDecisionRow (ap_cvesUnmarshal env) (ap_optionMarshal env) row sources) (filter shown rows)"

definition shown_vulnerable :: "decision_row \<Rightarrow> bool" where
  "shown_vulnerable row \<longleftrightarrow> row_AdvisoryIsSecurity row \<and> row_Action row \<noteq> ''none''"

definition shown_upgradable :: "decision_row \<Rightarrow> bool" where
  "shown_upgradable row \<longleftrightarrow> \<not> row_AdvisoryIsSecurity row \<and> row_Action row \<noteq> ''none''"

definition vulnerable_items :: "api_env \<Rightarrow> HostSnapshotInfo \<Rightarrow> decision_row list \<Rightarrow> DecisionItem list" where
  "vulnerable_items env snapshot rows = (let (_, sources) = page_snapshot env (si_Payload snapshot) in page_items env sources shown_vulnerable rows)"

definition upgradable_items :: "api_env \<Rightarrow> HostSnapshotInfo \<Rightarrow> decision_row list \<Rightarrow> DecisionItem list" where
  "upgradable_items env snapshot rows =
     (let (snap, sources) = page_snapshot env (si_Payload snapshot) in
      page_items env sources shown_upgradable rows @
      MapObservedUpgradablePackages (as_UpgradablePackages snap) (as_Packages snap)
        (row_PackageName ` set (filter shown_upgradable rows)) (time_of (si_CollectedAt snapshot)))"

text \<open>Both handlers look up the host, its last snapshot, and the decisions of the snapshot.\<close>

definition package_page :: "(HostSnapshotInfo \<Rightarrow> decision_row list \<Rightarrow> DecisionItem list) \<Rightarrow> authenticated" where
  "package_page items env a r srv =
     (let hostID = req_PathValue r ''hostID'' in
      if hostID = [] then (srv, WriteError r (Sentinel ErrMissingHostID))
      else call_hosts r (GetHost (hosts_env env srv) hostID (srv_hosts srv)) srv (\<lambda>_ srv.
        case GetLatestSnapshot (hosts_env env srv) hostID (srv_hosts srv) of
          (s, Inl e) \<Rightarrow>
            (srv\<lparr>srv_hosts := s\<rparr>,
             if e = AppErr ErrSnapshotNotFound then WriteJSON 200 (GroupsJSON []) else WriteError r (service_failure e))
        | (s, Inr snapshot) \<Rightarrow>
            (srv\<lparr>srv_hosts := s\<rparr>,
             if ap_rowsFail env then WriteError r Unhandled
             else WriteJSON 200 (GroupsJSON (GroupDecisionsByRemediation (ap_sorters env)
               (items snapshot (ListDecisionPageRowsBySnapshot (ap_jsonAgg env) (Host_Views.si_ID snapshot) (sv_db s))))))))"

definition GetVulnerablePackages_handler :: authenticated where
  "GetVulnerablePackages_handler env = package_page (vulnerable_items env) env"

definition GetUpgradablePackages_handler :: authenticated where
  "GetUpgradablePackages_handler env = package_page (upgradable_items env) env"

end
