(* ===== verification/Api_Hosts.thy ===== *)
theory Api_Hosts
  imports Api_Packages
begin

text \<open>
  The handlers of the hosts API (\<open>internal/api/v1/hosts\<close>, one per file) and of the agent API (\<open>internal/api/v1/agent\<close>):
  the check that the user is an administrator, decoding and validation of the request, the call of the hosts service and
  the answer.
\<close>

section \<open>Guards\<close>

definition admin_only :: "forbidden \<Rightarrow> authenticated \<Rightarrow> authenticated" where
  "admin_only f next env a r srv = (if \<not> us_IsAdmin (ai_User a) then (srv, WriteError r (Sentinel (Forbidden f))) else next env a r srv)"

definition with_path_value :: "string \<Rightarrow> sentinel \<Rightarrow> (string \<Rightarrow> authenticated) \<Rightarrow> authenticated" where
  "with_path_value key missing next env a r srv =
     (let v = req_PathValue r key in if v = [] then (srv, WriteError r (Sentinel missing)) else next v env a r srv)"

section \<open>Hosts\<close>

definition Approve_handler :: authenticated where
  "Approve_handler = admin_only ForbiddenApproveHost (with_path_value ''hostID'' ErrMissingHostID (\<lambda>hostID env a r srv.
     call_hosts r (ApproveHost (hosts_env env srv) (ActorFromRequest env r a) hostID (srv_hosts srv)) srv
       (\<lambda>host srv. (srv, WriteJSON 200 (HostJSON (NewHost host []))))))"

definition CreateManualHost_handler :: authenticated where
  "CreateManualHost_handler = admin_only ForbiddenCreateManualHost (\<lambda>env a r srv.
     case ap_manualDecoder env (req_Body r) of
       Inl _ \<Rightarrow> (srv, WriteError r (Sentinel ErrInvalidBody))
     | Inr req \<Rightarrow>
         let displayName = TrimSpace (cm_DisplayName req); hostname = TrimSpace (cm_Hostname req) in
         if displayName = [] \<and> hostname = [] then (srv, WriteError r (Sentinel ErrDisplayNameOrHostnameRequired))
         else call_hosts r (CreateManualHost (hosts_env env srv) (ActorFromRequest env r a) displayName hostname (srv_hosts srv)) srv
           (\<lambda>host srv. (srv, WriteJSON 201 (CreatedManualHostJSON (hi_ID host) (hi_ApprovalStatus host)))))"

text \<open>\<open>createSSHHostRequest.validate\<close>: the request with its strings trimmed and the default user filled in\<close>

definition ssh_user :: "api_env \<Rightarrow> string \<Rightarrow> server \<Rightarrow> api_error + string" where
  "ssh_user env user srv =
     (if user \<noteq> [] then Inr user
      else case GetDefaultSSHPullUser (ap_accounts env) (accounts_of srv) of
        Inl e \<Rightarrow> Inl (account_failure e)
      | Inr defaultUser \<Rightarrow> if defaultUser \<noteq> [] then Inr defaultUser else Inl (Sentinel ErrSSHUserRequired))"

definition createSSHHostRequest_validate :: "api_env \<Rightarrow> createSSHHostRequest \<Rightarrow> server \<Rightarrow> api_error + createSSHHostRequest" where
  "createSSHHostRequest_validate env req srv =
     (let displayName = TrimSpace (cq_DisplayName req); hostname = TrimSpace (cq_Hostname req) in
      if displayName = [] then Inl (Sentinel ErrDisplayNameRequired)
      else if hostname = [] then Inl (Sentinel ErrHostnameRequired)
      else case ssh_user env (TrimSpace (cq_SSHUser req)) srv of
        Inl e \<Rightarrow> Inl e
      | Inr user \<Rightarrow>
          if cq_FrequencyMinutes req \<noteq> 0 \<and> cq_FrequencyMinutes req < 5 then Inl (Sentinel (HostsApp ErrInvalidFrequency))
          else Inr (req\<lparr>cq_DisplayName := displayName, cq_Hostname := hostname, cq_SSHUser := user\<rparr>))"

text \<open>The service first asks the settings service for the global key, which may create it, unless the host gets its own.\<close>

definition call_create_ssh :: "api_env \<Rightarrow> ActorRef \<Rightarrow> CreateSSHHostInput \<Rightarrow> server \<Rightarrow> server \<times> (service_error + CreateSSHHostResult)" where
  "call_create_ssh env actor input srv =
     (if ci_UniqueKeyPair input then
        let (s, out) = CreateSSHHost (hosts_env env srv) actor input (srv_hosts srv) in (srv\<lparr>srv_hosts := s\<rparr>, out)
      else
        let (a, key) = GetGlobalSSHKeyPair (ap_accounts env) (accounts_of srv);
            srv1 = put_accounts a srv;
            globalKey = (case key of Inl _ \<Rightarrow> None | Inr pair \<Rightarrow> Some (gk_PublicKey pair, gk_PrivateKey pair));
            (s, out) = CreateSSHHost ((hosts_env env srv1)\<lparr>sv_globalKey := globalKey\<rparr>) actor input (srv_hosts srv1)
        in (srv1\<lparr>srv_hosts := s\<rparr>, out))"

definition CreateSSHHost_handler :: authenticated where
  "CreateSSHHost_handler = admin_only ForbiddenCreateSSHHost (\<lambda>env a r srv.
     case ap_sshDecoder env (req_Body r) of
       Inl _ \<Rightarrow> (srv, WriteError r (Sentinel ErrInvalidBody))
     | Inr req0 \<Rightarrow>
         (case createSSHHostRequest_validate env req0 srv of
            Inl e \<Rightarrow> (srv, WriteError r e)
          | Inr req \<Rightarrow>
              (case call_create_ssh env (ActorFromRequest env r a)
                 \<lparr>ci_DisplayName = cq_DisplayName req, ci_Hostname = cq_Hostname req, ci_SSHUser = cq_SSHUser req,
                  ci_FrequencyMinutes = cq_FrequencyMinutes req, ci_UniqueKeyPair = cq_UniqueKeyPair req\<rparr> srv of
                 (srv1, Inl e) \<Rightarrow> (srv1, WriteError r (service_failure e))
               | (srv1, Inr result) \<Rightarrow>
                   (srv1, WriteJSON 201 (CreatedSSHHostJSON (cs_HostID result) (cs_PublicKey result) (cs_ApprovalStatus result)
                      (cs_LastRunStatus result) (cs_LastRunError result))))))"

definition CreateToken_handler :: authenticated where
  "CreateToken_handler = admin_only ForbiddenCreateToken (\<lambda>env a r srv.
     case ap_tokenDecoder env (req_Body r) of
       Inl _ \<Rightarrow> (srv, WriteError r (Sentinel ErrInvalidBody))
     | Inr req \<Rightarrow>
         call_hosts r (CreateRegistrationToken (hosts_env env srv) (ActorFromRequest env r a) (us_ID (ai_User a)) (ct_Name req)
             (ct_AutoApprove req) (srv_hosts srv)) srv
           (\<lambda>created srv. (srv, WriteJSON 201 (CreatedTokenJSON (NewCreatedRegistrationToken created)))))"

definition DeleteHost_handler :: authenticated where
  "DeleteHost_handler = admin_only ForbiddenDeleteHost (with_path_value ''hostID'' ErrMissingHostID (\<lambda>hostID env a r srv.
     call_hosts r (DeleteHost (hosts_env env srv) (ActorFromRequest env r a) hostID (srv_hosts srv)) srv
       (\<lambda>_ srv. (srv, WriteJSON 200 OkJSON))))"

definition GetCollectorScript_handler :: authenticated where
  "GetCollectorScript_handler env a r srv =
     (let osFamily = TrimSpace (req_Query r ''os_family'') in
      if osFamily = [] then (srv, http_Error ''missing required query parameter: os_family'' 400)
      else case GetCollectorScript osFamily of
        Inl e \<Rightarrow> (srv, http_Error (sv_message (ap_hosts env) (PullErr e)) 400)
      | Inr script \<Rightarrow> (srv, \<lparr>resp_Status = 200, resp_Headers = [(''Content-Type'', ''text/x-shellscript'')], resp_Body = ScriptBody script\<rparr>))"

definition GetHost_handler :: authenticated where
  "GetHost_handler = with_path_value ''hostID'' ErrMissingHostID (\<lambda>hostID env a r srv.
     call_hosts r (GetHost (hosts_env env srv) hostID (srv_hosts srv)) srv
       (\<lambda>host srv. let (status, c) = StatusFor (ap_now env) host (srv_catalog srv)
          in (srv\<lparr>srv_catalog := c\<rparr>, WriteJSON 200 (HostJSON (NewHost host [WithLifecycle (NewLifecycleStatus status)])))))"

definition GetLatestSnapshot_handler :: authenticated where
  "GetLatestSnapshot_handler = with_path_value ''hostID'' ErrMissingHostID (\<lambda>hostID env a r srv.
     call_hosts r (GetLatestSnapshot (hosts_env env srv) hostID (srv_hosts srv)) srv
       (\<lambda>snapshot srv. (srv, WriteJSON 200 (SnapshotJSON (NewHostSnapshot snapshot)))))"

definition IngestManualReport_handler :: authenticated where
  "IngestManualReport_handler = admin_only ForbiddenIngestManualReport (with_path_value ''hostID'' ErrMissingHostID (\<lambda>hostID env a r srv.
     case ReadAll (req_Body r) of
       Inl e \<Rightarrow> (srv, WriteError r (Sentinel e))
     | Inr body \<Rightarrow>
         call_hosts r (IngestManualReport (hosts_env env srv) (ActorFromRequest env r a) hostID body (srv_hosts srv)) srv
           (\<lambda>_ srv. (srv, WriteJSON 200 (StatusJSON ''success'')))))"

definition ListHosts_handler :: authenticated where
  "ListHosts_handler env a r srv =
     call_hosts r (ListHosts (hosts_env env srv) (srv_hosts srv)) srv (\<lambda>hosts srv. (srv, WriteJSON 200 (HostListJSON (NewHosts hosts))))"

definition ListPending_handler :: authenticated where
  "ListPending_handler = admin_only ForbiddenListPendingHosts (\<lambda>env a r srv.
     call_hosts r (ListPendingHosts (hosts_env env srv) (srv_hosts srv)) srv (\<lambda>hosts srv. (srv, WriteJSON 200 (HostListJSON (NewHosts hosts)))))"

definition ListPullJobs_handler :: authenticated where
  "ListPullJobs_handler = with_path_value ''hostID'' ErrMissingHostID (\<lambda>hostID env a r srv.
     call_hosts r (GetHost (hosts_env env srv) hostID (srv_hosts srv)) srv (\<lambda>_ srv.
       call_hosts r (ListSSHPullJobs (hosts_env env srv) hostID (srv_hosts srv)) srv
         (\<lambda>jobs srv. (srv, WriteJSON 200 (PullJobsJSON (NewHostSSHPullJobs jobs))))))"

definition ListTokens_handler :: authenticated where
  "ListTokens_handler = admin_only ForbiddenListTokens (\<lambda>env a r srv.
     call_hosts r (ListRegistrationTokens (hosts_env env srv) (srv_hosts srv)) srv
       (\<lambda>items srv. (srv, WriteJSON 200 (TokensJSON (map NewRegistrationToken items)))))"

definition OnboardSSH_handler :: authenticated where
  "OnboardSSH_handler = admin_only ForbiddenOnboardSSHHost (with_path_value ''hostID'' ErrMissingHostID (\<lambda>hostID env a r srv.
     call_hosts r (OnboardSSHHost (hosts_env env srv) (ActorFromRequest env r a) hostID (srv_hosts srv)) srv (\<lambda>_ srv. (srv, WriteHeader 204))))"

definition RevokeToken_handler :: authenticated where
  "RevokeToken_handler = admin_only ForbiddenRevokeToken (with_path_value ''tokenID'' ErrMissingTokenID (\<lambda>tokenID env a r srv.
     call_hosts r (RevokeRegistrationToken (hosts_env env srv) (ActorFromRequest env r a) tokenID (srv_hosts srv)) srv
       (\<lambda>_ srv. (srv, WriteJSON 200 OkJSON))))"

text \<open>The global key that a pull uses is a parameter of the hosts service.\<close>

definition RunPullNow_handler :: authenticated where
  "RunPullNow_handler = admin_only ForbiddenRunSSHPull (with_path_value ''hostID'' ErrMissingHostID (\<lambda>hostID env a r srv.
     call_hosts r (RunSSHPull (hosts_env env srv) (ActorFromRequest env r a) hostID (srv_hosts srv)) srv (\<lambda>_ srv. (srv, WriteHeader 204))))"

definition UpdateHost_handler :: authenticated where
  "UpdateHost_handler = admin_only ForbiddenUpdateHost (\<lambda>env a r srv.
     case ap_updateDecoder env (req_Body r) of
       Inl e \<Rightarrow> (srv, WriteError r (Detailed ErrInvalidBody (decode_details e)))
     | Inr req \<Rightarrow>
         let displayName = map_option TrimSpace (uq_DisplayName req); pullHostname = map_option TrimSpace (uq_PullHostname req);
             pullSSHUser = map_option TrimSpace (uq_PullSSHUser req); hostID = req_PathValue r ''hostID'' in
         if displayName = Some [] then (srv, WriteError r (Sentinel ErrDisplayNameRequired))
         else if pullHostname = Some [] then (srv, WriteError r (Sentinel ErrHostnameRequired))
         else if pullSSHUser = Some [] then (srv, WriteError r (Sentinel ErrSSHUserRequired))
         else if (case uq_PullFrequencyMinutes req of None \<Rightarrow> False | Some n \<Rightarrow> n < 5) then (srv, WriteError r (Sentinel (HostsApp ErrInvalidFrequency)))
         else if hostID = [] then (srv, WriteError r (Sentinel (HostsApp ErrHostNotFound)))
         else call_hosts r (UpdateHost (hosts_env env srv) (ActorFromRequest env r a) hostID
             \<lparr>ui_DisplayName = displayName, ui_PullHostname = pullHostname, ui_PullSSHUser = pullSSHUser,
              ui_PullFrequencyMinutes = uq_PullFrequencyMinutes req\<rparr> (srv_hosts srv)) srv
           (\<lambda>host srv. (srv, WriteJSON 200 (HostJSON (NewHost host [])))))"

definition UpdateHostNotes_handler :: authenticated where
  "UpdateHostNotes_handler = admin_only ForbiddenUpdateHostNotes (\<lambda>env a r srv.
     case ap_notesDecoder env (req_Body r) of
       Inl (DecodeTooLarge _) \<Rightarrow> (srv, WriteError r (Sentinel ErrBodyTooLarge))
     | Inl (DecodeInvalid _) \<Rightarrow> (srv, WriteError r (Sentinel ErrInvalidBody))
     | Inr None \<Rightarrow> (srv, WriteError r (Sentinel ErrInvalidBody))
     | Inr (Some raw) \<Rightarrow>
         if raw \<noteq> ''null'' \<and> ap_stringDecoder env raw = None then (srv, WriteError r (Sentinel ErrInvalidBody))
         else call_hosts r (UpdateHostNotes (hosts_env env srv) (req_PathValue r ''hostID'')
             (if raw = ''null'' then None else ap_stringDecoder env raw) (srv_hosts srv)) srv
           (\<lambda>host srv. (srv, WriteJSON 200 (HostJSON (NewHost host [])))))"

text \<open>The kernel posture with the answers of the hosts service and of the query filled in\<close>

definition decoded :: "api_env \<Rightarrow> string \<Rightarrow> decoded_snapshot" where
  "decoded env payload =
     (let (ok, snap) = ap_unmarshal env payload in
      \<lparr>dec_ok = ok, dec_osFamily = (case as_Host snap of None \<Rightarrow> OS_FAMILY_UNSPECIFIED | Some h \<Rightarrow> ah_OsFamily h), dec_packages = as_Packages snap\<rparr>)"

definition posture_answers :: "api_env \<Rightarrow> service_error + HostInfo \<Rightarrow> service_error + HostSnapshotInfo \<Rightarrow> hosts_db \<Rightarrow> posture_env" where
  "posture_answers env host snapshot db =
     \<lparr>pe_host = (case host of Inl _ \<Rightarrow> Inl HostLookupFailed | Inr h \<Rightarrow> Inr (hi_OSFamily h)),
      pe_snapshot = (case snapshot of
          Inl e \<Rightarrow> Inl (if e = AppErr ErrSnapshotNotFound then SnapshotNotFound else SnapshotLookupFailed)
        | Inr x \<Rightarrow> Inr \<lparr>psn_RunningKernelNevra = si_RunningKernelNevra x, psn_Payload = si_Payload x\<rparr>),
      pe_decode = decoded env,
      pe_rows = (case snapshot of
          Inl _ \<Rightarrow> Inl DecisionQueryFailed
        | Inr x \<Rightarrow> if ap_rowsFail env then Inl DecisionQueryFailed
                   else Inr (ListDecisionPageRowsBySnapshot (ap_jsonAgg env) (Host_Views.si_ID x) db)),
      pe_unmarshal = ap_cvesUnmarshal env, pe_marshal = ap_optionMarshal env\<rparr>"

definition failure_of :: "service_error + 'a \<Rightarrow> api_error" where
  "failure_of out = (case out of Inl e \<Rightarrow> service_failure e | Inr _ \<Rightarrow> Unhandled)"

definition GetKernelPosture_handler :: authenticated where
  "GetKernelPosture_handler env a r srv =
     (let hostID = req_PathValue r ''hostID'';
          host = snd (GetHost (hosts_env env srv) hostID (srv_hosts srv));
          snapshot = snd (GetLatestSnapshot (hosts_env env srv) hostID (srv_hosts srv))
      in (srv, case GetKernelPosture (ap_sorters env) (posture_answers env host snapshot (sv_db (srv_hosts srv))) hostID of
             Inr posture \<Rightarrow> WriteJSON 200 (PostureJSON posture)
           | Inl MissingHostID \<Rightarrow> WriteError r (Sentinel ErrMissingHostID)
           | Inl HostLookupFailed \<Rightarrow> WriteError r (failure_of host)
           | Inl SnapshotNotFound \<Rightarrow> WriteError r (failure_of snapshot)
           | Inl SnapshotLookupFailed \<Rightarrow> WriteError r (failure_of snapshot)
           | Inl DecisionQueryFailed \<Rightarrow> WriteError r Unhandled))"

section \<open>Agents\<close>

definition Register_handler :: handler where
  "Register_handler env r = ValidateNoAuth (ap_registerDecoder env) (ap_registerValidate env) (\<lambda>req srv.
     call_hosts r (RegisterAgentHost (hosts_env env srv) req (srv_hosts srv)) srv (\<lambda>result srv. (srv, WriteProto 201 (RegisterProto result)))) r"

definition challenge :: "response \<Rightarrow> response" where
  "challenge = Header_Set ''WWW-Authenticate'' (''Bearer realm='' @ [CHR 0x22] @ ''patchbase-agent'' @ [CHR 0x22])"

definition needs_challenge :: "service_error \<Rightarrow> bool" where
  "needs_challenge e \<longleftrightarrow> service_failure e \<in> {Sentinel (HostsApp ErrInvalidHostAccessToken), Sentinel (HostsApp ErrHostNotFound)}"

definition Snapshots_handler :: handler where
  "Snapshots_handler env r = ValidateNoAuth (ap_snapshotDecoder env) (ap_snapshotValidate env) (\<lambda>req srv.
     case agent_bearerToken (req_Header r ''Authorization'') of
       None \<Rightarrow> (srv, challenge (WriteError r (Sentinel ErrMissingBearer)))
     | Some token \<Rightarrow>
         (case IngestAgentSnapshot (hosts_env env srv) token req (srv_hosts srv) of
            (s, Inl e) \<Rightarrow> (srv\<lparr>srv_hosts := s\<rparr>, (if needs_challenge e then challenge else id) (WriteError r (service_failure e)))
          | (s, Inr result) \<Rightarrow> (srv\<lparr>srv_hosts := s\<rparr>, WriteProto 202 (SyncProto result)))) r"

end
