(* ===== verification/Api_Accounts.thy ===== *)
theory Api_Accounts
  imports Api_Hosts
begin

text \<open>
  The other handlers of \<open>internal/api/v1\<close>: login, initial setup, profile, settings, audit log, advisories, dashboard and
  lifecycle. Sending mail is a parameter.
\<close>

section \<open>Sessions\<close>

definition toResponseUser :: "User \<Rightarrow> ResponseUser" where
  "toResponseUser user = \<lparr>ru_ID = us_ID user, ru_Email = us_Email user, ru_Name = us_Name user, ru_IsAdmin = us_IsAdmin user\<rparr>"

definition Login_handler :: handler where
  "Login_handler env r srv =
     (case ap_loginDecoder env (req_Body r) of
        Inl _ \<Rightarrow> (srv, WriteError r (Sentinel ErrInvalidBody))
      | Inr (email, password) \<Rightarrow>
          call_accounts r (Login (ap_accounts env) email password (ClientIP (ap_parseAddr env) r) (req_Header r ''User-Agent'') (accounts_of srv)) srv
            (\<lambda>result srv. read_accounts r (Settings_Service.Status (ap_accounts env) (accounts_of srv)) srv
               (\<lambda>status. (srv, WriteJSON 200 (SessionJSON (lr_AccessToken result) (id_Done status) (us_PasswordResetRequired (lr_User result))
                  (toResponseUser (lr_User result)))))))"

definition Status_handler :: handler where
  "Status_handler env r srv =
     read_accounts r (Settings_Service.Status (ap_accounts env) (accounts_of srv)) srv (\<lambda>status. (srv, WriteJSON 200 (SetupStatusJSON (id_Done status))))"

definition Complete_handler :: authenticated where
  "Complete_handler = admin_only ForbiddenCompleteSetup (\<lambda>env a r srv.
     case ap_setupDecoder env (req_Body r) of
       Inl _ \<Rightarrow> (srv, WriteError r (Sentinel ErrInvalidBody))
     | Inr input \<Rightarrow>
         call_accounts r (CompleteInitialSetup (ap_accounts env) (us_ID (ai_User a)) input (accounts_of srv)) srv
           (\<lambda>updatedUser srv. read_accounts r (IssueAccessToken (ap_accounts env) (us_ID updatedUser) (accounts_of srv)) srv
              (\<lambda>accessToken. (srv, WriteJSON 200 (SessionJSON accessToken True False (toResponseUser updatedUser))))))"

definition GetProfile_handler :: authenticated where
  "GetProfile_handler env a r srv = (srv, WriteJSON 200 (ProfileJSON (ai_Token a) (toResponseUser (ai_User a))))"

definition UpdateProfile_handler :: authenticated where
  "UpdateProfile_handler env a r srv =
     (case ap_profileDecoder env (req_Body r) of
        Inl _ \<Rightarrow> (srv, WriteError r (Sentinel ErrInvalidBody))
      | Inr req \<Rightarrow>
          call_accounts r (UpdateProfile (ap_accounts env) (ActorFromRequest env r a) (us_ID (ai_User a)) req (accounts_of srv)) srv
            (\<lambda>result srv.
               read_accounts r (if ur_PasswordChanged result then IssueAccessToken (ap_accounts env) (us_ID (ur_User result)) (accounts_of srv)
                                else Inr (ai_Token a)) srv
                 (\<lambda>accessToken. (srv, WriteJSON 200 (ProfileJSON accessToken (toResponseUser (ur_User result)))))))"

section \<open>Settings\<close>

text \<open>The password of the mail server is not shown.\<close>

definition GetSettings_handler :: authenticated where
  "GetSettings_handler = admin_only ForbiddenAccessSettings (\<lambda>env a r srv.
     call_accounts r (GetGlobalSSHKeyPair (ap_accounts env) (accounts_of srv)) srv (\<lambda>globalKey srv.
       read_accounts r (GetDefaultSSHPullUser (ap_accounts env) (accounts_of srv)) srv (\<lambda>defaultUser.
         read_accounts r (GetAskToCopyPublicKey (ap_accounts env) (accounts_of srv)) srv (\<lambda>askToCopyPublicKey.
           read_accounts r (GetSMTPSettings (ap_accounts env) (accounts_of srv)) srv (\<lambda>smtpSettings.
             read_accounts r (GetEmailFrequency (ap_accounts env) (accounts_of srv)) srv (\<lambda>emailFreq.
               (srv, WriteJSON 200 (SettingsJSON (gk_PublicKey globalKey) defaultUser askToCopyPublicKey (smtpSettings\<lparr>sm_Password := []\<rparr>) emailFreq))))))))"

definition set_report_job :: "api_env \<Rightarrow> string \<Rightarrow> server \<Rightarrow> server \<times> periodic_error option" where
  "set_report_job env freq srv =
     (let smtp = (case GetSMTPSettings (ap_accounts env) (accounts_of srv) of Inl _ \<Rightarrow> Inl SMTPSettingsFailed | Inr v \<Rightarrow> Inr (sm_ReportHour v));
          (p, err) = SetEmailReportJob (sv_river (ap_hosts env)) freq smtp (sv_periodic (srv_hosts srv))
      in (srv\<lparr>srv_hosts := (srv_hosts srv)\<lparr>sv_periodic := p\<rparr>\<rparr>, err))"

text \<open>The parts of the request are stored one after the other; a failure leaves the parts before it stored.\<close>

definition store_user :: "api_env \<Rightarrow> AuthInfo \<Rightarrow> request \<Rightarrow> string option \<Rightarrow> server \<Rightarrow> (server \<Rightarrow> server \<times> response) \<Rightarrow> server \<times> response" where
  "store_user env a r v srv k =
     (case v of
        None \<Rightarrow> k srv
      | Some raw \<Rightarrow>
          if TrimSpace raw = [] then (srv, WriteError r (Sentinel ErrDefaultSSHPullUserEmpty))
          else call_accounts r (SetDefaultSSHPullUser (ap_accounts env) (ActorFromRequest env r a) (TrimSpace raw) (accounts_of srv)) srv (\<lambda>_ srv. k srv))"

definition store_ask :: "api_env \<Rightarrow> AuthInfo \<Rightarrow> request \<Rightarrow> bool option \<Rightarrow> server \<Rightarrow> (server \<Rightarrow> server \<times> response) \<Rightarrow> server \<times> response" where
  "store_ask env a r v srv k =
     (case v of
        None \<Rightarrow> k srv
      | Some ask \<Rightarrow> call_accounts r (SetAskToCopyPublicKey (ap_accounts env) (ActorFromRequest env r a) ask (accounts_of srv)) srv (\<lambda>_ srv. k srv))"

definition store_smtp :: "api_env \<Rightarrow> AuthInfo \<Rightarrow> request \<Rightarrow> SMTPSettings option \<Rightarrow> server \<Rightarrow> (server \<Rightarrow> server \<times> response) \<Rightarrow> server \<times> response" where
  "store_smtp env a r v srv k =
     (case v of
        None \<Rightarrow> k srv
      | Some smtp \<Rightarrow>
          call_accounts r (SetSMTPSettings (ap_accounts env) (ActorFromRequest env r a) smtp (accounts_of srv)) srv (\<lambda>_ srv.
            read_accounts r (GetEmailFrequency (ap_accounts env) (accounts_of srv)) srv (\<lambda>freq.
              case set_report_job env freq srv of (srv, Some _) \<Rightarrow> (srv, WriteError r Unhandled) | (srv, None) \<Rightarrow> k srv)))"

definition store_frequency :: "api_env \<Rightarrow> AuthInfo \<Rightarrow> request \<Rightarrow> string option \<Rightarrow> server \<Rightarrow> (server \<Rightarrow> server \<times> response) \<Rightarrow> server \<times> response" where
  "store_frequency env a r v srv k =
     (case v of
        None \<Rightarrow> k srv
      | Some raw \<Rightarrow>
          let freq = TrimSpace raw in
          call_accounts r (SetEmailFrequency (ap_accounts env) (ActorFromRequest env r a) freq (accounts_of srv)) srv (\<lambda>_ srv.
            case set_report_job env freq srv of (srv, Some _) \<Rightarrow> (srv, WriteError r Unhandled) | (srv, None) \<Rightarrow> k srv))"

definition UpdateSettings_handler :: authenticated where
  "UpdateSettings_handler = admin_only ForbiddenAccessSettings (\<lambda>env a r srv.
     case ap_settingsDecoder env (req_Body r) of
       Inl e \<Rightarrow> (srv, WriteError r (Detailed ErrInvalidBody (decode_details e)))
     | Inr req \<Rightarrow>
         store_user env a r (us_DefaultSSHPullUser req) srv (\<lambda>srv.
           store_ask env a r (us_AskToCopyPublicKey req) srv (\<lambda>srv.
             store_smtp env a r (us_SMTPSettings req) srv (\<lambda>srv.
               store_frequency env a r (us_EmailFrequency req) srv (\<lambda>srv. (srv, WriteJSON 200 (StatusJSON ''ok'')))))))"

definition TestEmail_handler :: authenticated where
  "TestEmail_handler = admin_only ForbiddenTestEmail (\<lambda>env a r srv.
     case ap_emailDecoder env (req_Body r) of
       Inl e \<Rightarrow> (srv, WriteError r (Detailed ErrInvalidBody (decode_details e)))
     | Inr to0 \<Rightarrow>
         let to = TrimSpace to0 in
         if to = [] then (srv, WriteError r (Sentinel ErrToAddressRequired))
         else read_accounts r (GetSMTPSettings (ap_accounts env) (accounts_of srv)) srv
           (\<lambda>smtp. (srv, if ap_testConnection env smtp to then WriteJSON 200 (StatusJSON ''ok'') else WriteError r Unhandled)))"

definition SendReport_handler :: authenticated where
  "SendReport_handler = admin_only ForbiddenSendReport (\<lambda>env a r srv.
     (srv, if ap_sendReport env [us_Email (ai_User a)] then WriteJSON 200 (StatusJSON ''ok'') else WriteError r Unhandled))"

section \<open>Audit log\<close>

text \<open>The errors of the parameters have no exported fields, so their encoding is the empty object.\<close>

definition with_param :: "request \<Rightarrow> server \<Rightarrow> param_error + 'a \<Rightarrow> ('a \<Rightarrow> server \<times> response) \<Rightarrow> server \<times> response" where
  "with_param r srv v k = (case v of Inl _ \<Rightarrow> (srv, WriteError r (Detailed ErrInvalidParams ''{}'')) | Inr x \<Rightarrow> k x)"

definition List_handler :: authenticated where
  "List_handler = admin_only ForbiddenListAuditLog (\<lambda>env a r srv.
     with_param r srv (ParseInt32Opt (req_Query r ''limit'')) (\<lambda>limit.
       with_param r srv (ParseInt32Opt (req_Query r ''offset'')) (\<lambda>offset.
         with_param r srv (ParseTimestamp (ap_rfc3339 env) (req_Query r ''from'')) (\<lambda>from.
           with_param r srv (ParseTimestampEnd (ap_rfc3339 env) (req_Query r ''to'')) (\<lambda>to.
             (srv, case list_audit (ap_auditFails env) TimeToString
                 \<lparr>in_Limit = limit, in_Offset = offset, in_Action = req_Query r ''action'', in_Actor = req_Query r ''actor'', in_From = from, in_To = to\<rparr>
                 (sv_auditLog (srv_hosts srv)) of
               Inl _ \<Rightarrow> WriteError r Unhandled
             | Inr result \<Rightarrow> WriteJSON 200 (AuditPageJSON (NewAuditLogPage result))))))))"

section \<open>Advisories, dashboard, lifecycle\<close>

definition GetAdvisory_handler :: authenticated where
  "GetAdvisory_handler = with_path_value ''id'' ErrMissingAdvisoryID (\<lambda>i env a r srv.
     (srv, if ap_advisoryFails env then WriteError r Unhandled
           else case GetAdvisory i (sv_db (srv_hosts srv)) of
             None \<Rightarrow> WriteError r (Sentinel ErrAdvisoryNotFound)
           | Some adv \<Rightarrow> WriteJSON 200 (AdvisoryJSON (MapAdvisory adv))))"

definition GetAdvisoryOverview_handler :: authenticated where
  "GetAdvisoryOverview_handler env a r srv =
     (srv, case GetOverview (ap_scopeFails env) (hd_scopes (sv_db (srv_hosts srv))) of
        Inl _ \<Rightarrow> WriteError r Unhandled
      | Inr overview \<Rightarrow> WriteJSON 200 (ScopeOverviewJSON overview))"

definition GetScopeStatuses_handler :: authenticated where
  "GetScopeStatuses_handler env a r srv =
     (srv, case GetScopeStatuses (ap_scopeFails env) (hosts_of (sv_db (srv_hosts srv))) (hd_scopes (sv_db (srv_hosts srv))) of
        Inl _ \<Rightarrow> WriteError r Unhandled
      | Inr statuses \<Rightarrow> WriteJSON 200 (ScopeStatusesJSON statuses))"

definition TriggerSync_handler :: authenticated where
  "TriggerSync_handler = with_path_value ''scopeKey'' ErrMissingScopeKey (\<lambda>scopeKey env a r srv.
     let s = srv_hosts srv;
         ((scopes, p, jobs), err) = TriggerManualSync (sv_river (ap_hosts env)) (ap_manual env) scopeKey (hd_scopes (sv_db s), sv_periodic s, srv_jobs srv);
         srv1 = srv\<lparr>srv_hosts := s\<lparr>sv_db := (sv_db s)\<lparr>hd_scopes := scopes\<rparr>, sv_periodic := p\<rparr>, srv_jobs := jobs\<rparr>
     in (srv1, case err of None \<Rightarrow> WriteJSON 200 (StatusJSON ''pending'') | Some _ \<Rightarrow> WriteError r Unhandled))"

definition GetDashboardOverview_handler :: authenticated where
  "GetDashboardOverview_handler env a r srv =
     call_hosts r (GetDashboardOverview (hosts_env env srv) (srv_hosts srv)) srv (\<lambda>overview srv. (srv, WriteJSON 200 (DashboardJSON overview)))"

definition ListLifecycleHosts_handler :: authenticated where
  "ListLifecycleHosts_handler env a r srv =
     call_hosts r (ListHosts (hosts_env env srv) (srv_hosts srv)) srv
       (\<lambda>hosts srv. let (infos, c) = with_status (ap_now env) hosts (srv_catalog srv)
          in (srv\<lparr>srv_catalog := c\<rparr>, WriteJSON 200 (HostListJSON (NewHostsWithLifecycle infos))))"

definition GetCatalogSource_handler :: authenticated where
  "GetCatalogSource_handler env a r srv = (srv, WriteJSON 200 (CatalogSourceJSON (catalog_Source (srv_catalog srv))))"

end
