(* ===== verification/Api_Routes.thy ===== *)
theory Api_Routes
  imports Api_Accounts
begin

text \<open>
  The routes of the API (\<open>internal/api/routes.go\<close>), the choice of a route by \<open>http.ServeMux\<close>, the dashboard
  (\<open>internal/api/web.go\<close>) and the whole server with its middleware. A path is the list of its segments after cleaning; a
  trailing slash is an empty last segment, so the root is one empty segment.
\<close>

section \<open>Patterns\<close>

datatype segment = Lit string | Wild string

text \<open>A pattern has a method or none, its segments, and whether it ends with a slash and so matches every longer path.\<close>

record route_pattern =
  rp_Method :: "string option"
  rp_Segments :: "segment list"
  rp_Subtree :: bool

text \<open>A wildcard matches one segment that is not empty; the result binds the names.\<close>

fun match_segments :: "segment list \<Rightarrow> bool \<Rightarrow> string list \<Rightarrow> (string \<times> string) list option" where
  "match_segments [] subtree path = (if (path \<noteq> []) = subtree then Some [] else None)"
| "match_segments (p # ps) subtree [] = None"
| "match_segments (Lit s # ps) subtree (x # xs) = (if s = x then match_segments ps subtree xs else None)"
| "match_segments (Wild n # ps) subtree (x # xs) = (if x = [] then None else map_option ((#) (n, x)) (match_segments ps subtree xs))"

text \<open>A pattern with the method GET matches HEAD too.\<close>

definition match_method :: "string option \<Rightarrow> string \<Rightarrow> bool" where
  "match_method m method \<longleftrightarrow> (case m of None \<Rightarrow> True | Some p \<Rightarrow> p = method \<or> p = ''GET'' \<and> method = ''HEAD'')"

definition match_route :: "route_pattern \<Rightarrow> request \<Rightarrow> (string \<times> string) list option" where
  "match_route p r = (if match_method (rp_Method p) (req_Method r) then match_segments (rp_Segments p) (rp_Subtree p) (req_Path r) else None)"

text \<open>\<open>p\<close> is more specific than \<open>q\<close>: it matches a proper subset of the requests.\<close>

fun covers :: "segment list \<Rightarrow> bool \<Rightarrow> segment list \<Rightarrow> bool \<Rightarrow> bool" where
  "covers [] st ps st' \<longleftrightarrow> (if ps = [] then st' = st else st)"
| "covers (q # qs) st [] st' \<longleftrightarrow> False"
| "covers (Lit s # qs) st (Lit t # ps) st' \<longleftrightarrow> s = t \<and> covers qs st ps st'"
| "covers (Lit s # qs) st (Wild n # ps) st' \<longleftrightarrow> False"
| "covers (Wild n # qs) st (p # ps) st' \<longleftrightarrow> (case p of Lit s \<Rightarrow> s \<noteq> [] | Wild _ \<Rightarrow> True) \<and> covers qs st ps st'"

definition covers_method :: "string option \<Rightarrow> string option \<Rightarrow> bool" where
  "covers_method q p \<longleftrightarrow> (case q of None \<Rightarrow> True | Some m \<Rightarrow> (case p of None \<Rightarrow> False | Some n \<Rightarrow> m = n \<or> m = ''GET'' \<and> n = ''HEAD''))"

definition covers_route :: "route_pattern \<Rightarrow> route_pattern \<Rightarrow> bool" where
  "covers_route q p \<longleftrightarrow> covers_method (rp_Method q) (rp_Method p) \<and> covers (rp_Segments q) (rp_Subtree q) (rp_Segments p) (rp_Subtree p)"

section \<open>The routes\<close>

datatype api_handler = Public handler | Authenticated authenticated

record route =
  ro_Pattern :: route_pattern
  ro_Cap :: "(api_env \<Rightarrow> int) option"
  ro_Handler :: api_handler

definition v1 :: "string \<Rightarrow> segment list \<Rightarrow> route_pattern" where
  "v1 method segments = \<lparr>rp_Method = Some method, rp_Segments = Lit ''api'' # Lit ''v1'' # segments, rp_Subtree = False\<rparr>"

definition plain_route :: "string \<Rightarrow> segment list \<Rightarrow> api_handler \<Rightarrow> route" where
  "plain_route method segments h = \<lparr>ro_Pattern = v1 method segments, ro_Cap = None, ro_Handler = h\<rparr>"

definition capped_route :: "(api_env \<Rightarrow> int) \<Rightarrow> string \<Rightarrow> segment list \<Rightarrow> api_handler \<Rightarrow> route" where
  "capped_route cap method segments h = \<lparr>ro_Pattern = v1 method segments, ro_Cap = Some cap, ro_Handler = h\<rparr>"

definition notesBodyCap :: "api_env \<Rightarrow> int" where "notesBodyCap env = 128 * 1024"

text \<open>A client with a local address is told the time of the server, with its name and version.\<close>

definition Health_handler :: handler where
  "Health_handler env r srv =
     (srv, WriteJSON 200 (HealthJSON (if IsLocalAddr (ap_parseAddr env) (ClientIP (ap_parseAddr env) r) then Some (rfc3339_string (ap_now env)) else None)))"

text \<open>The hub takes over the connection; the server state does not change.\<close>

definition HandleWS_handler :: handler where
  "HandleWS_handler env r srv = (srv, WriteHeader 101)"

definition NotFound_handler :: handler where
  "NotFound_handler env r srv = (srv, http_NotFound)"

text \<open>\<open>ap_files\<close> says which paths are files of the dashboard.\<close>

definition dashboard_ServeHTTP :: handler where
  "dashboard_ServeHTTP env r srv =
     (if req_Method r \<noteq> ''GET'' \<and> req_Method r \<noteq> ''HEAD'' then (srv, http_NotFound)
      else let joined = Join (filter (\<lambda>x. x \<noteq> []) (req_Path r)) ''/''; requestedPath = (if joined = [] then ''index.html'' else joined)
           in if ap_files env requestedPath then (srv, \<lparr>resp_Status = 200, resp_Headers = [], resp_Body = FileBody requestedPath\<rparr>)
              else if HasPrefix requestedPath ''_app/'' then (srv, http_NotFound)
              else (srv, \<lparr>resp_Status = 200, resp_Headers = [], resp_Body = FileBody ''index.html''\<rparr>))"

definition account_routes :: "route list" where
  "account_routes =
     [plain_route ''GET'' [Lit ''health''] (Public Health_handler),
      plain_route ''POST'' [Lit ''auth'', Lit ''login''] (Public Login_handler),
      plain_route ''GET'' [Lit ''setup'', Lit ''status''] (Public Status_handler),
      plain_route ''POST'' [Lit ''setup'', Lit ''complete''] (Authenticated Complete_handler),
      plain_route ''GET'' [Lit ''profile''] (Authenticated GetProfile_handler),
      plain_route ''PATCH'' [Lit ''profile''] (Authenticated UpdateProfile_handler),
      plain_route ''GET'' [Lit ''settings''] (Authenticated GetSettings_handler),
      plain_route ''PATCH'' [Lit ''settings''] (Authenticated UpdateSettings_handler),
      plain_route ''POST'' [Lit ''settings'', Lit ''test-email''] (Authenticated TestEmail_handler),
      plain_route ''POST'' [Lit ''settings'', Lit ''send-report''] (Authenticated SendReport_handler),
      capped_route ap_maxBodyBytes ''POST'' [Lit ''agent'', Lit ''register''] (Public Register_handler),
      capped_route ap_maxBodyBytes ''POST'' [Lit ''agent'', Lit ''snapshots''] (Public Snapshots_handler),
      plain_route ''GET'' [Lit ''advisories'', Lit ''scopes''] (Authenticated GetScopeStatuses_handler),
      plain_route ''POST'' [Lit ''advisories'', Lit ''scopes'', Wild ''scopeKey'', Lit ''sync''] (Authenticated TriggerSync_handler),
      plain_route ''GET'' [Lit ''advisories'', Lit ''overview''] (Authenticated GetAdvisoryOverview_handler),
      plain_route ''GET'' [Lit ''advisories'', Wild ''id''] (Authenticated GetAdvisory_handler),
      plain_route ''GET'' [Lit ''dashboard'', Lit ''overview''] (Authenticated GetDashboardOverview_handler)]"

definition host_routes :: "route list" where
  "host_routes =
     [plain_route ''GET'' [Lit ''hosts''] (Authenticated ListHosts_handler),
      plain_route ''GET'' [Lit ''hosts'', Lit ''pending''] (Authenticated ListPending_handler),
      plain_route ''GET'' [Lit ''hosts'', Lit ''tokens''] (Authenticated ListTokens_handler),
      plain_route ''POST'' [Lit ''hosts'', Lit ''tokens''] (Authenticated CreateToken_handler),
      plain_route ''POST'' [Lit ''hosts'', Lit ''tokens'', Wild ''tokenID'', Lit ''revoke''] (Authenticated RevokeToken_handler),
      plain_route ''POST'' [Lit ''hosts'', Wild ''hostID'', Lit ''approve''] (Authenticated Approve_handler),
      plain_route ''POST'' [Lit ''hosts'', Lit ''ssh''] (Authenticated CreateSSHHost_handler),
      plain_route ''POST'' [Lit ''hosts'', Lit ''manual''] (Authenticated CreateManualHost_handler),
      plain_route ''GET'' [Lit ''hosts'', Lit ''manual'', Lit ''script''] (Authenticated GetCollectorScript_handler),
      plain_route ''POST'' [Lit ''hosts'', Wild ''hostID'', Lit ''onboard-ssh''] (Authenticated OnboardSSH_handler),
      capped_route ap_maxBodyBytes ''POST'' [Lit ''hosts'', Wild ''hostID'', Lit ''report''] (Authenticated IngestManualReport_handler),
      plain_route ''DELETE'' [Lit ''hosts'', Wild ''hostID''] (Authenticated DeleteHost_handler),
      plain_route ''PATCH'' [Lit ''hosts'', Wild ''hostID''] (Authenticated UpdateHost_handler),
      capped_route notesBodyCap ''PUT'' [Lit ''hosts'', Wild ''hostID'', Lit ''notes''] (Authenticated UpdateHostNotes_handler),
      plain_route ''GET'' [Lit ''hosts'', Wild ''hostID''] (Authenticated GetHost_handler),
      plain_route ''GET'' [Lit ''hosts'', Wild ''hostID'', Lit ''snapshot''] (Authenticated GetLatestSnapshot_handler),
      plain_route ''GET'' [Lit ''hosts'', Wild ''hostID'', Lit ''pull-jobs''] (Authenticated ListPullJobs_handler),
      plain_route ''POST'' [Lit ''hosts'', Wild ''hostID'', Lit ''pull-now''] (Authenticated RunPullNow_handler),
      plain_route ''GET'' [Lit ''hosts'', Wild ''hostID'', Lit ''packages'', Lit ''vulnerable''] (Authenticated GetVulnerablePackages_handler),
      plain_route ''GET'' [Lit ''hosts'', Wild ''hostID'', Lit ''packages'', Lit ''upgradable''] (Authenticated GetUpgradablePackages_handler),
      plain_route ''GET'' [Lit ''hosts'', Wild ''hostID'', Lit ''kernel-posture''] (Authenticated GetKernelPosture_handler),
      plain_route ''GET'' [Lit ''lifecycle'', Lit ''hosts''] (Authenticated ListLifecycleHosts_handler),
      plain_route ''GET'' [Lit ''lifecycle'', Lit ''catalog''] (Authenticated GetCatalogSource_handler),
      plain_route ''GET'' [Lit ''audit-logs''] (Authenticated List_handler),
      plain_route ''GET'' [Lit ''ws''] (Public HandleWS_handler)]"

definition fallback_routes :: "route list" where
  "fallback_routes =
     [\<lparr>ro_Pattern = \<lparr>rp_Method = None, rp_Segments = [Lit ''api''], rp_Subtree = True\<rparr>, ro_Cap = None, ro_Handler = Public NotFound_handler\<rparr>,
      \<lparr>ro_Pattern = \<lparr>rp_Method = None, rp_Segments = [], rp_Subtree = True\<rparr>, ro_Cap = None, ro_Handler = Public dashboard_ServeHTTP\<rparr>]"

definition routes :: "route list" where
  "routes = account_routes @ host_routes @ fallback_routes"

section \<open>Dispatch\<close>

text \<open>The route that matches and that covers no other one that matches\<close>

definition choose_route :: "route list \<Rightarrow> request \<Rightarrow> route option" where
  "choose_route rs r =
     (let matching = filter (\<lambda>x. match_route (ro_Pattern x) r \<noteq> None) rs
      in find (\<lambda>x. list_all (\<lambda>y. covers_route (ro_Pattern x) (ro_Pattern y) \<longrightarrow> ro_Pattern y = ro_Pattern x) matching) matching)"

definition with_path :: "route \<Rightarrow> request \<Rightarrow> request" where
  "with_path x r = (case match_route (ro_Pattern x) r of None \<Rightarrow> r | Some values \<Rightarrow> r\<lparr>req_PathValue := \<lambda>k. UnwrapOr (map_of values k) []\<rparr>)"

definition run_handler :: "route \<Rightarrow> handler" where
  "run_handler x =
     (let h = (case ro_Handler x of Public h \<Rightarrow> h | Authenticated h \<Rightarrow> auth_Required h)
      in case ro_Cap x of None \<Rightarrow> h | Some cap \<Rightarrow> (\<lambda>env. MaxBodyBytesMiddleware (cap env) h env))"

text \<open>A path that only lacks the slash at the end of a subtree pattern, and that no other pattern matches exactly, is
  redirected.\<close>

definition lacks_slash :: "route list \<Rightarrow> request \<Rightarrow> bool" where
  "lacks_slash rs r \<longleftrightarrow>
     list_ex (\<lambda>x. rp_Subtree (ro_Pattern x) \<and> match_method (rp_Method (ro_Pattern x)) (req_Method r) \<and>
       match_segments (rp_Segments (ro_Pattern x)) False (req_Path r) \<noteq> None) rs \<and>
     (case choose_route rs r of None \<Rightarrow> True | Some x \<Rightarrow> rp_Subtree (ro_Pattern x))"

definition mux_ServeHTTP :: handler where
  "mux_ServeHTTP env r srv =
     (if lacks_slash routes r then (srv, WriteHeader 301)
      else case choose_route routes r of None \<Rightarrow> (srv, http_NotFound) | Some x \<Rightarrow> run_handler x env (with_path x r) srv)"

text \<open>Logging reads the response only.\<close>

definition serve :: handler where
  "serve = SecurityHeadersMiddleware (RequestContextMiddleware mux_ServeHTTP)"

end
