(* ===== verification/Api_Properties.thy ===== *)
theory Api_Properties
  imports Api_Routes Account_Properties Host_Properties
begin

text \<open>
  What the API as a whole guarantees: the routes are unambiguous, only an administrator changes hosts, tokens and settings,
  a date range of the audit log covers whole days, and the two package pages show every
  decision that asks for an action.
\<close>

section \<open>Who may change what\<close>

text \<open>The catalog only holds an index that is built on demand.\<close>

definition same_state :: "server \<Rightarrow> server \<Rightarrow> bool" where
  "same_state srv srv' \<longleftrightarrow> srv_hosts srv' = srv_hosts srv \<and> srv_accounts srv' = srv_accounts srv \<and> srv_jobs srv' = srv_jobs srv"

definition read_only :: "handler \<Rightarrow> bool" where
  "read_only h \<longleftrightarrow> (\<forall>env r srv. same_state srv (fst (h env r srv)))"

definition admin_guarded :: "authenticated \<Rightarrow> bool" where
  "admin_guarded h \<longleftrightarrow> (\<forall>env a r srv. \<not> us_IsAdmin (ai_User a) \<longrightarrow> same_state srv (fst (h env a r srv)))"

lemma same_state_refl [simp]: "same_state srv srv"
  by (simp add: same_state_def)

lemma same_state_catalog [simp]: "same_state srv (srv\<lparr>srv_catalog := c\<rparr>)"
  by (simp add: same_state_def)

lemma admin_only_guarded [simp]: "admin_guarded (admin_only f h)"
  by (simp add: admin_guarded_def admin_only_def)

lemma always_guarded: "(\<And>env a r srv. same_state srv (fst (h env a r srv))) \<Longrightarrow> admin_guarded h"
  by (simp add: admin_guarded_def)

text \<open>Operations that only read\<close>

lemma GetHost_reads: "fst (GetHost env i s) = s"
  by (auto simp: GetHost_def bind_svc_def on_pool_def exec_def Required_def GetHostWithStateByID_def split: option.splits sum.splits prod.splits if_splits sql_error.splits)

lemma GetLatestSnapshot_reads: "fst (GetLatestSnapshot env i s) = s"
  by (auto simp: GetLatestSnapshot_def bind_svc_def on_pool_def exec_def Required_def GetLatestHostSnapshotByHostID_def
      split: option.splits list.splits sum.splits prod.splits if_splits sql_error.splits)

lemma ListHosts_reads: "fst (ListHosts env s) = s"
  by (simp add: ListHosts_def)

lemma ListSSHPullJobs_reads: "fst (ListSSHPullJobs env i s) = s"
  by (simp add: ListSSHPullJobs_def)

lemma GetDashboardOverview_reads: "fst (GetDashboardOverview env s) = s"
  by (simp add: GetDashboardOverview_def Let_def)

lemmas reads = GetHost_reads GetLatestSnapshot_reads ListHosts_reads ListSSHPullJobs_reads GetDashboardOverview_reads

lemma call_hosts_reads:
  assumes "fst out = srv_hosts srv" "\<And>x. same_state srv (fst (k x srv))"
  shows "same_state srv (fst (call_hosts r out srv k))"
  using assms by (cases out; cases "snd out") (auto simp: call_hosts_def)

lemma with_path_value_reads:
  "(\<And>v env a r srv. same_state srv (fst (h v env a r srv))) \<Longrightarrow> same_state srv (fst (with_path_value key e h env a r srv))"
  by (simp add: with_path_value_def Let_def)

lemma package_page_reads: "same_state srv (fst (package_page items env a r srv))"
proof -
  have "same_state srv (fst (case GetLatestSnapshot e i (srv_hosts srv) of
      (s, Inl x) \<Rightarrow> (srv\<lparr>srv_hosts := s\<rparr>, f s x) | (s, Inr x) \<Rightarrow> (srv\<lparr>srv_hosts := s\<rparr>, g s x)))" for e i f g
    using GetLatestSnapshot_reads [of e i "srv_hosts srv"] by (cases "GetLatestSnapshot e i (srv_hosts srv)") (auto split: sum.split)
  then show ?thesis unfolding package_page_def Let_def by (auto intro!: call_hosts_reads simp: GetHost_reads)
qed

lemma guarded_readers:
  "admin_guarded GetProfile_handler" "admin_guarded GetCollectorScript_handler" "admin_guarded GetHost_handler"
  "admin_guarded GetLatestSnapshot_handler" "admin_guarded ListHosts_handler" "admin_guarded ListPullJobs_handler"
  "admin_guarded GetVulnerablePackages_handler" "admin_guarded GetUpgradablePackages_handler" "admin_guarded GetKernelPosture_handler"
  "admin_guarded GetAdvisory_handler" "admin_guarded GetAdvisoryOverview_handler" "admin_guarded GetScopeStatuses_handler"
  "admin_guarded GetDashboardOverview_handler" "admin_guarded ListLifecycleHosts_handler" "admin_guarded GetCatalogSource_handler"
  unfolding GetProfile_handler_def GetCollectorScript_handler_def GetHost_handler_def GetLatestSnapshot_handler_def ListHosts_handler_def
    ListPullJobs_handler_def GetVulnerablePackages_handler_def GetUpgradablePackages_handler_def GetKernelPosture_handler_def
    GetAdvisory_handler_def GetAdvisoryOverview_handler_def GetScopeStatuses_handler_def GetDashboardOverview_handler_def
    ListLifecycleHosts_handler_def GetCatalogSource_handler_def
  by (rule always_guarded; auto simp: reads package_page_reads Let_def intro!: with_path_value_reads call_hosts_reads split: sum.splits prod.splits)+

lemma guarded_admins:
  "admin_guarded Complete_handler" "admin_guarded GetSettings_handler" "admin_guarded UpdateSettings_handler" "admin_guarded TestEmail_handler"
  "admin_guarded SendReport_handler" "admin_guarded ListPending_handler" "admin_guarded ListTokens_handler" "admin_guarded CreateToken_handler"
  "admin_guarded RevokeToken_handler" "admin_guarded Approve_handler" "admin_guarded CreateSSHHost_handler" "admin_guarded CreateManualHost_handler"
  "admin_guarded OnboardSSH_handler" "admin_guarded IngestManualReport_handler" "admin_guarded DeleteHost_handler"
  "admin_guarded UpdateHost_handler" "admin_guarded UpdateHostNotes_handler" "admin_guarded RunPullNow_handler" "admin_guarded List_handler"
  unfolding Complete_handler_def GetSettings_handler_def UpdateSettings_handler_def TestEmail_handler_def SendReport_handler_def
    ListPending_handler_def ListTokens_handler_def CreateToken_handler_def RevokeToken_handler_def Approve_handler_def CreateSSHHost_handler_def
    CreateManualHost_handler_def OnboardSSH_handler_def IngestManualReport_handler_def DeleteHost_handler_def UpdateHost_handler_def
    UpdateHostNotes_handler_def RunPullNow_handler_def List_handler_def
  by (rule admin_only_guarded)+

lemma public_readers:
  "read_only Health_handler" "read_only Status_handler" "read_only HandleWS_handler" "read_only NotFound_handler" "read_only dashboard_ServeHTTP"
  by (auto simp: read_only_def Health_handler_def Status_handler_def HandleWS_handler_def NotFound_handler_def dashboard_ServeHTTP_def
      read_accounts_def Let_def split: sum.split)

text \<open>Every route is guarded, reads only, or is one of five that are looked at below.\<close>

definition route_guarded :: "route \<Rightarrow> bool" where
  "route_guarded x \<longleftrightarrow> (case ro_Handler x of
       Public h \<Rightarrow> read_only h
         \<or> h = Login_handler \<and> ro_Pattern x = v1 ''POST'' [Lit ''auth'', Lit ''login'']
         \<or> h = Register_handler \<and> ro_Pattern x = v1 ''POST'' [Lit ''agent'', Lit ''register'']
         \<or> h = Snapshots_handler \<and> ro_Pattern x = v1 ''POST'' [Lit ''agent'', Lit ''snapshots'']
     | Authenticated h \<Rightarrow> admin_guarded h
         \<or> h = UpdateProfile_handler \<and> ro_Pattern x = v1 ''PATCH'' [Lit ''profile'']
         \<or> h = TriggerSync_handler \<and> ro_Pattern x = v1 ''POST'' [Lit ''advisories'', Lit ''scopes'', Wild ''scopeKey'', Lit ''sync''])"

lemma routes_guarded: "list_all route_guarded routes"
  by (simp add: routes_def account_routes_def host_routes_def fallback_routes_def plain_route_def capped_route_def route_guarded_def
      guarded_readers guarded_admins public_readers)


text \<open>A change of the own profile: of the users only the one with the identifier may change, and not in its rights.\<close>

definition own_profile :: "string \<Rightarrow> account_db \<Rightarrow> account_db \<Rightarrow> bool" where
  "own_profile i db db' \<longleftrightarrow> ad_settings db' = ad_settings db \<and>
     list_all2 (\<lambda>u v. u = v \<or> us_ID u = i \<and> v = u\<lparr>us_Email := us_Email v, us_PasswordHash := us_PasswordHash v,
       us_PasswordResetRequired := us_PasswordResetRequired v, us_UpdatedAt := us_UpdatedAt v\<rparr>) (ad_users db) (ad_users db')"

lemma own_profile_refl: "own_profile i db db"
  by (simp add: own_profile_def list.rel_refl)

lemma own_profile_trans: "own_profile i a b \<Longrightarrow> own_profile i b c \<Longrightarrow> own_profile i a c"
proof -
  let ?P = "\<lambda>u v. u = v \<or> us_ID u = i \<and> v = u\<lparr>us_Email := us_Email v, us_PasswordHash := us_PasswordHash v,
       us_PasswordResetRequired := us_PasswordResetRequired v, us_UpdatedAt := us_UpdatedAt v\<rparr>"
  have step: "?P u w" if "?P u v" "?P v w" for u v w :: User
    using that by (cases u; cases v; cases w) auto
  assume "own_profile i a b" "own_profile i b c"
  then show ?thesis
    by (auto simp: own_profile_def intro: list_all2_trans [where ?P1.0 = ?P and ?P2.0 = ?P, OF step])
qed

lemma update_user_own:
  assumes "update_user now i f db = Inr (u, db')"
    "\<And>v. f v = v\<lparr>us_Email := us_Email (f v), us_PasswordHash := us_PasswordHash (f v), us_PasswordResetRequired := us_PasswordResetRequired (f v)\<rparr>"
  shows "own_profile i db db'"
proof -
  have f: "(f v)\<lparr>us_UpdatedAt := t\<rparr> = v\<lparr>us_Email := us_Email (f v), us_PasswordHash := us_PasswordHash (f v),
      us_PasswordResetRequired := us_PasswordResetRequired (f v), us_UpdatedAt := t\<rparr>" for v t
    by (subst assms(2)) simp
  have "list_all2 P xs (map g xs) \<longleftrightarrow> (\<forall>x \<in> set xs. P x (g x))" for P :: "User \<Rightarrow> User \<Rightarrow> bool" and g xs
    by (simp add: list_all2_map2 list_all2_same)
  then show ?thesis using assms(1)
    by (auto simp: update_user_def own_profile_def active_id_def f split: option.splits if_splits)
qed

lemma profile_tx_own:
  assumes "profile_tx env i input db = Inr (user, db')"
  shows "own_profile i db db'"
proof -
  from assms obtain u1 u2 db2 where row: "first_row (active_id i) (ad_users db) = Some u1"
    and 1: "change_email env u1 (up_Email input) db = Inr (u2, db2)" and 2: "change_password env u2 input db2 = Inr (user, db')"
    by (auto simp: profile_tx_def and_then_def run_stmt_Inr get_user_by_id_def one_user_def split: sum.splits option.splits)
  have u1: "us_ID u1 = i" using first_row_Some [OF row] by (simp add: active_id_def)
  have "own_profile i db db2 \<and> us_ID u2 = i"
  proof (cases "up_Email input")
    case None
    with 1 u1 show ?thesis by (simp add: change_email_def own_profile_refl)
  next
    case (Some raw)
    with 1 u1 have up: "update_user (av_dbNow env) i (\<lambda>u. u\<lparr>us_Email := normalizeEmail raw\<rparr>) db = Inr (u2, db2)"
      by (auto simp: change_email_def run_stmt_Inr UpdateUserEmail_def Let_def split: if_splits)
    then have "us_ID u2 = i" by (auto simp: update_user_def active_id_def split: option.splits if_splits dest: first_row_Some)
    with up show ?thesis by (auto intro: update_user_own)
  qed
  moreover have "own_profile i db2 db'" if "us_ID u2 = i"
  proof (cases "up_NewPassword input")
    case None
    with 2 show ?thesis by (simp add: change_password_def own_profile_refl)
  next
    case (Some pw)
    with 2 that obtain h where "update_user (av_dbNow env) i (\<lambda>u. u\<lparr>us_PasswordHash := h, us_PasswordResetRequired := False\<rparr>) db2 = Inr (user, db')"
      by (auto simp: change_password_def run_stmt_Inr UpdateUserPassword_def Let_def split: if_splits option.splits)
    then show ?thesis by (auto intro: update_user_own)
  qed
  ultimately show ?thesis by (blast intro: own_profile_trans)
qed

lemma UpdateProfile_own: "own_profile i (ac_db s) (ac_db (fst (UpdateProfile env actor i input s)))"
  by (auto simp: UpdateProfile_def Let_def own_profile_refl split: sum.split dest: profile_tx_own)

text \<open>What the five routes can change, besides the audit log and the events\<close>

definition only_logged :: "server \<Rightarrow> server \<Rightarrow> bool" where
  "only_logged srv srv' \<longleftrightarrow> srv_accounts srv' = srv_accounts srv \<and> srv_jobs srv' = srv_jobs srv \<and>
     sv_db (srv_hosts srv') = sv_db (srv_hosts srv) \<and> sv_periodic (srv_hosts srv') = sv_periodic (srv_hosts srv)"

definition profile_only :: "string \<Rightarrow> server \<Rightarrow> server \<Rightarrow> bool" where
  "profile_only i srv srv' \<longleftrightarrow> own_profile i (srv_accounts srv) (srv_accounts srv') \<and> srv_jobs srv' = srv_jobs srv \<and>
     sv_db (srv_hosts srv') = sv_db (srv_hosts srv) \<and> sv_periodic (srv_hosts srv') = sv_periodic (srv_hosts srv)"

definition scopes_only :: "server \<Rightarrow> server \<Rightarrow> bool" where
  "scopes_only srv srv' \<longleftrightarrow> srv_accounts srv' = srv_accounts srv \<and>
     (\<exists>scopes. sv_db (srv_hosts srv') = (sv_db (srv_hosts srv))\<lparr>hd_scopes := scopes\<rparr>) \<and>
     sv_auditLog (srv_hosts srv') = sv_auditLog (srv_hosts srv) \<and> sv_published (srv_hosts srv') = sv_published (srv_hosts srv)"

lemma call_accounts_fst:
  assumes "\<And>v srv1. srv1 = put_accounts (fst out) srv \<Longrightarrow> fst (k v srv1) = srv1"
  shows "fst (call_accounts r out srv k) = put_accounts (fst out) srv"
  using assms by (cases out; cases "snd out") (auto simp: call_accounts_def)

lemma read_accounts_fst: "(\<And>v. fst (k v) = srv) \<Longrightarrow> fst (read_accounts r out srv k) = srv"
  by (simp add: read_accounts_def split: sum.split)

lemma put_accounts_fields [simp]:
  "srv_accounts (put_accounts a srv) = ac_db a" "srv_jobs (put_accounts a srv) = srv_jobs srv" "sv_db (srv_hosts (put_accounts a srv)) = sv_db (srv_hosts srv)"
  "sv_periodic (srv_hosts (put_accounts a srv)) = sv_periodic (srv_hosts srv)" "ac_db (accounts_of srv) = srv_accounts srv"
  by (simp_all add: put_accounts_def accounts_of_def)

lemma Login_logged: "only_logged srv (fst (Login_handler env r srv))"
proof (cases "ap_loginDecoder env (req_Body r)")
  case (Inr x)
  obtain email password where "x = (email, password)" by (cases x)
  with Inr show ?thesis
    by (simp add: Login_handler_def call_accounts_fst read_accounts_fst only_logged_def other_keeps)
qed (simp add: Login_handler_def only_logged_def)

lemma UpdateProfile_profile: "profile_only (us_ID (ai_User a)) srv (fst (UpdateProfile_handler env a r srv))"
proof (cases "ap_profileDecoder env (req_Body r)")
  case (Inr x)
  then show ?thesis
    using UpdateProfile_own [of "us_ID (ai_User a)" "accounts_of srv" "ap_accounts env" "ActorFromRequest env r a" x]
    by (simp add: UpdateProfile_handler_def call_accounts_fst read_accounts_fst profile_only_def)
qed (simp add: UpdateProfile_handler_def profile_only_def own_profile_refl)

lemma TriggerSync_scopes: "scopes_only srv (fst (TriggerSync_handler env a r srv))"
proof -
  have "\<exists>scopes. db = db\<lparr>hd_scopes := scopes\<rparr>" for db :: hosts_db by (rule exI [of _ "hd_scopes db"]) simp
  then show ?thesis
    by (auto simp: TriggerSync_handler_def with_path_value_def Let_def scopes_only_def split: prod.split)
qed


lemma Register_effect:
  "same_state srv (fst (Register_handler env r srv)) \<or>
   (\<exists>req. fst (Register_handler env r srv) = srv\<lparr>srv_hosts := fst (RegisterAgentHost (hosts_env env srv) req (srv_hosts srv))\<rparr>)"
  by (auto simp: Register_handler_def ValidateNoAuth_def call_hosts_def split: sum.split option.split prod.split) (metis fst_conv)+

lemma Snapshots_effect:
  "same_state srv (fst (Snapshots_handler env r srv)) \<or>
   (\<exists>token req. agent_bearerToken (req_Header r ''Authorization'') = Some token \<and>
      fst (Snapshots_handler env r srv) = srv\<lparr>srv_hosts := fst (IngestAgentSnapshot (hosts_env env srv) token req (srv_hosts srv))\<rparr>)"
  by (auto simp: Snapshots_handler_def ValidateNoAuth_def split: sum.split option.split prod.split) (metis fst_conv)+

lemma serve_fst: "fst (serve env r srv) = fst (mux_ServeHTTP env r srv)"
  by (simp add: serve_def SecurityHeadersMiddleware_def RequestContextMiddleware_def with_headers_def)

lemma choose_route_Some:
  assumes "choose_route rs r = Some x"
  shows "x \<in> set rs" "match_route (ro_Pattern x) r \<noteq> None"
  using assms unfolding choose_route_def Let_def find_Some_iff by (auto dest: nth_mem)

lemma with_path_fields [simp]: "req_Header (with_path x r) = req_Header r" "req_Body (with_path x r) = req_Body r"
  by (simp_all add: with_path_def split: option.split)

lemma match_v1:
  "match_route (v1 m ss) r \<noteq> None \<Longrightarrow> \<exists>rest. req_Path r = ''api'' # ''v1'' # rest \<and> match_segments ss False rest \<noteq> None"
  by (cases "req_Path r"; cases "tl (req_Path r)") (auto simp: match_route_def v1_def split: if_splits)

text \<open>The handler of a route runs on the request with its path values and a body that may be cut.\<close>

lemma run_handler_cases:
  obtains r' where "req_Header r' = req_Header r"
    "run_handler x env (with_path x r) srv = (case ro_Handler x of Public h \<Rightarrow> h | Authenticated h \<Rightarrow> auth_Required h) env r' srv"
proof (cases "ro_Cap x")
  case None
  then show ?thesis by (intro that [of "with_path x r"]) (simp_all add: run_handler_def)
next
  case (Some cap)
  then show ?thesis
    by (intro that [of "(with_path x r)\<lparr>req_Body := MaxBytesReader (if cap env \<le> 0 then DefaultMaxRequestBodyBytes else cap env) (req_Body r)\<rparr>"])
      (simp_all add: run_handler_def MaxBodyBytesMiddleware_def)
qed

lemma auth_Required_cases:
  obtains "fst (auth_Required h env r srv) = srv"
  | token user where "auth_bearerToken (req_Header r ''Authorization'') = Some token"
      "Authenticate (ap_accounts env) token (accounts_of srv) = Inr user"
      "auth_Required h env r srv = h env \<lparr>ai_Token = token, ai_User = user\<rparr> r srv"
proof (cases "auth_bearerToken (req_Header r ''Authorization'')")
  case None
  then show ?thesis by (intro that(1)) (simp add: auth_Required_def)
next
  case (Some token)
  then show ?thesis
    by (cases "Authenticate (ap_accounts env) token (accounts_of srv)") (auto simp: auth_Required_def intro: that)
qed

definition allowed_change :: "api_env \<Rightarrow> request \<Rightarrow> server \<Rightarrow> server \<Rightarrow> bool" where
  "allowed_change env r srv srv' \<longleftrightarrow>
     same_state srv srv' \<or>
     (\<exists>token user. auth_bearerToken (req_Header r ''Authorization'') = Some token \<and> Authenticate (ap_accounts env) token (accounts_of srv) = Inr user \<and>
        (us_IsAdmin user \<or> req_Path r = [''api'', ''v1'', ''profile''] \<and> profile_only (us_ID user) srv srv' \<or>
         (\<exists>key. req_Path r = [''api'', ''v1'', ''advisories'', ''scopes'', key, ''sync''] \<and> scopes_only srv srv'))) \<or>
     req_Path r = [''api'', ''v1'', ''auth'', ''login''] \<and> only_logged srv srv' \<or>
     (\<exists>req. req_Path r = [''api'', ''v1'', ''agent'', ''register''] \<and>
        srv' = srv\<lparr>srv_hosts := fst (RegisterAgentHost (hosts_env env srv) req (srv_hosts srv))\<rparr>) \<or>
     (\<exists>token req. req_Path r = [''api'', ''v1'', ''agent'', ''snapshots''] \<and> agent_bearerToken (req_Header r ''Authorization'') = Some token \<and>
        srv' = srv\<lparr>srv_hosts := fst (IngestAgentSnapshot (hosts_env env srv) token req (srv_hosts srv))\<rparr>)"

lemma path_of:
  "match_route (v1 m [Lit a, Lit b]) r = Some vs \<Longrightarrow> req_Path r = [''api'', ''v1'', a, b]"
  "match_route (v1 m [Lit a]) r = Some vs \<Longrightarrow> req_Path r = [''api'', ''v1'', a]"
  "match_route (v1 m [Lit a, Lit b, Wild n, Lit c]) r = Some vs \<Longrightarrow> \<exists>key. req_Path r = [''api'', ''v1'', a, b, key, c]"
proof -
  have 1: "match_segments (Lit s # ps) False xs \<noteq> None \<longleftrightarrow> (\<exists>rest. xs = s # rest \<and> match_segments ps False rest \<noteq> None)" for s ps xs
    by (cases xs) auto
  have 2: "match_segments (Wild n # ps) False xs \<noteq> None \<longleftrightarrow> (\<exists>y rest. xs = y # rest \<and> y \<noteq> [] \<and> match_segments ps False rest \<noteq> None)" for n ps xs
    by (cases xs) auto
  have 3: "match_segments [] False xs \<noteq> None \<longleftrightarrow> xs = []" for xs by simp
  have path: "\<exists>rest. req_Path r = ''api'' # ''v1'' # rest \<and> match_segments ss False rest \<noteq> None" if "match_route (v1 m ss) r = Some vs" for ss
    using match_v1 [of m ss r] that by simp
  show "match_route (v1 m [Lit a, Lit b]) r = Some vs \<Longrightarrow> req_Path r = [''api'', ''v1'', a, b]"
    by (drule path) (simp only: 1 2 3, blast)
  show "match_route (v1 m [Lit a]) r = Some vs \<Longrightarrow> req_Path r = [''api'', ''v1'', a]"
    by (drule path) (simp only: 1 2 3, blast)
  show "match_route (v1 m [Lit a, Lit b, Wild n, Lit c]) r = Some vs \<Longrightarrow> \<exists>key. req_Path r = [''api'', ''v1'', a, b, key, c]"
    by (drule path) (simp only: 1 2 3, blast)
qed

lemma route_allowed:
  assumes "route_guarded x" "match_route (ro_Pattern x) r \<noteq> None"
  shows "allowed_change env r srv (fst (run_handler x env (with_path x r) srv))"
proof (cases "ro_Handler x")
  case (Public h)
  obtain r' where r': "req_Header r' = req_Header r" "run_handler x env (with_path x r) srv = h env r' srv"
    by (rule run_handler_cases [of r x env srv]) (simp add: Public)
  have p: "read_only h \<or> h = Login_handler \<and> req_Path r = [''api'', ''v1'', ''auth'', ''login''] \<or>
      h = Register_handler \<and> req_Path r = [''api'', ''v1'', ''agent'', ''register''] \<or>
      h = Snapshots_handler \<and> req_Path r = [''api'', ''v1'', ''agent'', ''snapshots'']"
    using assms by (auto simp: route_guarded_def Public dest: path_of)
  show ?thesis
    using p Login_logged [of srv env r'] Register_effect [of srv env r'] Snapshots_effect [of srv env r'] r'
    unfolding allowed_change_def read_only_def by metis
next
  case (Authenticated h)
  obtain r' where r': "req_Header r' = req_Header r" "run_handler x env (with_path x r) srv = auth_Required h env r' srv"
    by (rule run_handler_cases [of r x env srv]) (simp add: Authenticated)
  show ?thesis
  proof (cases rule: auth_Required_cases [of h env r' srv])
    case 1
    with r' show ?thesis by (simp add: allowed_change_def)
  next
    case (2 token user)
    have p: "admin_guarded h \<or> h = UpdateProfile_handler \<and> req_Path r = [''api'', ''v1'', ''profile''] \<or>
        h = TriggerSync_handler \<and> (\<exists>key. req_Path r = [''api'', ''v1'', ''advisories'', ''scopes'', key, ''sync''])"
      using assms path_of(3) [of "''POST''" "''advisories''" "''scopes''" "''scopeKey''" "''sync''" r] by (auto simp: route_guarded_def Authenticated dest: path_of(2))
    have "same_state srv (fst (run_handler x env (with_path x r) srv)) \<or> us_IsAdmin user \<or>
        req_Path r = [''api'', ''v1'', ''profile''] \<and> profile_only (us_ID user) srv (fst (run_handler x env (with_path x r) srv)) \<or>
        (\<exists>key. req_Path r = [''api'', ''v1'', ''advisories'', ''scopes'', key, ''sync'']) \<and> scopes_only srv (fst (run_handler x env (with_path x r) srv))"
      using p UpdateProfile_profile [of "\<lparr>ai_Token = token, ai_User = user\<rparr>" srv env r']
        TriggerSync_scopes [of srv env "\<lparr>ai_Token = token, ai_User = user\<rparr>" r']
      by (auto simp: r'(2) 2(3) admin_guarded_def)
    with 2(1,2) r'(1) show ?thesis unfolding allowed_change_def by metis
  qed
qed



section \<open>Routes\<close>

text \<open>Two patterns are apart when a method or a literal segment tells them apart.\<close>

fun apart_segments :: "segment list \<Rightarrow> bool \<Rightarrow> segment list \<Rightarrow> bool \<Rightarrow> bool" where
  "apart_segments [] st ps st' \<longleftrightarrow> ps \<noteq> [] \<and> \<not> st"
| "apart_segments (q # qs) st [] st' \<longleftrightarrow> \<not> st'"
| "apart_segments (q # qs) st (p # ps) st' \<longleftrightarrow>
     (case (q, p) of (Lit s, Lit t) \<Rightarrow> s \<noteq> t | (Lit s, Wild _) \<Rightarrow> s = [] | (Wild _, Lit t) \<Rightarrow> t = [] | (Wild _, Wild _) \<Rightarrow> False)
     \<or> apart_segments qs st ps st'"

lemma apart_segments_sound: "apart_segments qs st ps st' \<Longrightarrow> match_segments qs st path = None \<or> match_segments ps st' path = None"
proof (induction qs st ps st' arbitrary: path rule: apart_segments.induct)
  case (1 st ps st')
  then show ?case by (cases path; cases ps) auto
next
  case (2 q qs st st')
  then show ?case by (cases path; cases q) auto
next
  case (3 q qs st p ps st')
  show ?case
  proof (cases path)
    case (Cons x xs)
    with 3(2) 3(1) [of xs] show ?thesis by (cases q; cases p) (auto split: if_splits)
  qed simp
qed

definition apart_method :: "string option \<Rightarrow> string option \<Rightarrow> bool" where
  "apart_method q p \<longleftrightarrow> (case (q, p) of (Some m, Some n) \<Rightarrow> m \<noteq> n \<and> \<not> (m = ''GET'' \<and> n = ''HEAD'' \<or> m = ''HEAD'' \<and> n = ''GET'') | _ \<Rightarrow> False)"

definition apart :: "route_pattern \<Rightarrow> route_pattern \<Rightarrow> bool" where
  "apart q p \<longleftrightarrow> apart_method (rp_Method q) (rp_Method p) \<or> apart_segments (rp_Segments q) (rp_Subtree q) (rp_Segments p) (rp_Subtree p)"

lemma apart_sound: "apart q p \<Longrightarrow> match_route q r = None \<or> match_route p r = None"
  using apart_segments_sound [of "rp_Segments q" "rp_Subtree q" "rp_Segments p" "rp_Subtree p" "req_Path r"]
  by (auto simp: apart_def match_route_def apart_method_def match_method_def split: option.splits)

text \<open>The check of every pair that \<open>http.ServeMux\<close> makes when a pattern is registered\<close>

fun no_conflict :: "route_pattern list \<Rightarrow> bool" where
  "no_conflict [] \<longleftrightarrow> True"
| "no_conflict (p # ps) \<longleftrightarrow> list_all (\<lambda>q. apart p q \<or> covers_route p q \<noteq> covers_route q p) ps \<and> no_conflict ps"

lemma routes_no_conflict: "no_conflict (map ro_Pattern routes)"
  unfolding routes_def account_routes_def host_routes_def fallback_routes_def plain_route_def capped_route_def v1_def
    list.map append.simps route.simps
  by code_simp


lemma covers_trans: "covers as s bs t \<Longrightarrow> covers bs t cs u \<Longrightarrow> covers as s cs u"
proof (induction as arbitrary: bs cs)
  case Nil
  then show ?case by (cases bs; cases cs) (auto split: if_splits)
next
  case (Cons a as)
  then obtain b bs' c cs' where bc: "bs = b # bs'" "cs = c # cs'" by (cases bs; cases cs) auto
  show ?case using Cons.prems Cons.IH [of bs' cs'] unfolding bc by (cases a; cases b; cases c) auto
qed

lemma covers_route_trans: "covers_route p q \<Longrightarrow> covers_route q r \<Longrightarrow> covers_route p r"
  by (auto simp: covers_route_def covers_method_def elim: covers_trans split: option.splits)

definition more_specific :: "route_pattern \<Rightarrow> route_pattern \<Rightarrow> bool" where
  "more_specific p q \<longleftrightarrow> covers_route q p \<and> \<not> covers_route p q"

lemma more_specific_trans: "more_specific p q \<Longrightarrow> more_specific q r \<Longrightarrow> more_specific p r"
  unfolding more_specific_def by (blast intro: covers_route_trans)

lemma chain_least:
  assumes "xs \<noteq> []" "\<And>x y z. R x y \<Longrightarrow> R y z \<Longrightarrow> R x z" "\<And>x y. x \<in> set xs \<Longrightarrow> y \<in> set xs \<Longrightarrow> x = y \<or> R x y \<or> R y x"
  shows "\<exists>m \<in> set xs. \<forall>y \<in> set xs. y = m \<or> R m y"
  using assms(1,3)
proof (induction xs rule: list_nonempty_induct)
  case (cons x xs)
  then obtain m where m: "m \<in> set xs" "\<forall>y \<in> set xs. y = m \<or> R m y" by (meson list.set_intros(2))
  from cons.prems m(1) consider "x = m" | "R x m" | "R m x" by (metis list.set_intros)
  then show ?case
  proof cases
    case 2
    then show ?thesis using m assms(2) by (intro bexI [of _ x]) auto
  qed (use m in auto)
qed simp

lemma no_conflict_pairs:
  "no_conflict ps \<Longrightarrow> p \<in> set ps \<Longrightarrow> q \<in> set ps \<Longrightarrow> p = q \<or> apart p q \<or> apart q p \<or> more_specific p q \<or> more_specific q p"
  by (induction ps) (auto simp: list_all_iff more_specific_def)

lemma distinct_patterns: "distinct (map ro_Pattern routes)"
  unfolding routes_def account_routes_def host_routes_def fallback_routes_def plain_route_def capped_route_def v1_def
    list.map append.simps route.simps
  by code_simp



section \<open>The audit log of some days\<close>

lemma within_days:
  "startOfDayUTC (d1 * day_ns) \<le> t \<and> t \<le> endOfDayUTC (d2 * day_ns) \<longleftrightarrow> d1 \<le> t div day_ns \<and> t div day_ns \<le> d2"
proof -
  have "endOfDayUTC (d2 * day_ns) = (d2 + 1) * day_ns - 1" by (simp add: endOfDayUTC_def day_ns_def)
  moreover have "startOfDayUTC (d1 * day_ns) = d1 * day_ns" by (simp add: startOfDayUTC_def day_ns_def)
  moreover have "d1 * day_ns \<le> t \<longleftrightarrow> d1 \<le> t div day_ns" by (simp add: day_ns_def) linarith
  moreover have "t < (d2 + 1) * day_ns \<longleftrightarrow> t div day_ns < d2 + 1" by (simp add: day_ns_def) linarith
  ultimately show ?thesis by auto
qed

lemma bare_date:
  assumes "parse_layout s = Some (y, m, d)" "rfc s = None" "date_days y m d * day_ns \<noteq> zero_time"
  shows "ParseTimestamp rfc s = Inr (Some (startOfDayUTC (date_days y m d * day_ns)))"
    "ParseTimestampEnd rfc s = Inr (Some (endOfDayUTC (date_days y m d * day_ns)))"
proof -
  have "s \<noteq> []" using assms(1) by auto
  then have p: "parseTimestamp rfc s = Inr (Some (date_days y m d * day_ns), True)"
    using assms by (simp add: parseTimestamp_def nonzero_time_def)
  have "endOfDayUTC t \<noteq> zero_time" for t
  proof
    assume "endOfDayUTC t = zero_time"
    then have "(t div day_ns + 719163) * day_ns = 1" by (simp add: endOfDayUTC_def zero_time_def day_ns_def algebra_simps)
    then show False using zmult_eq_1_iff [of "t div day_ns + 719163" day_ns] by (simp add: day_ns_def)
  qed
  moreover have "startOfDayUTC (date_days y m d * day_ns) = date_days y m d * day_ns" using day_ns_pos by (simp add: startOfDayUTC_def)
  ultimately show "ParseTimestamp rfc s = Inr (Some (startOfDayUTC (date_days y m d * day_ns)))"
    "ParseTimestampEnd rfc s = Inr (Some (endOfDayUTC (date_days y m d * day_ns)))"
    using assms(3) by (simp_all add: ParseTimestamp_def ParseTimestampEnd_def p nonzero_time_def)
qed

definition made_between :: "int \<Rightarrow> int \<Rightarrow> AuditLog list \<Rightarrow> AuditLog list" where
  "made_between firstDay lastDay rows = filter (\<lambda>row. firstDay \<le> al_CreatedAt row div day_ns \<and> al_CreatedAt row div day_ns \<le> lastDay) rows"

text \<open>C19: an administrator who asks for the audit log from one date to another is told how many entries were made in those days
  of UTC, both included to their last nanosecond, and sees the newest fifty of them, newest first.\<close>

theorem audit_log_of_days:
  assumes "us_IsAdmin (ai_User a)" "parse_layout (req_Query r ''from'') = Some (y1, m1, d1)" "parse_layout (req_Query r ''to'') = Some (y2, m2, d2)"
    and "ap_rfc3339 env (req_Query r ''from'') = None" "ap_rfc3339 env (req_Query r ''to'') = None"
    and "date_days y1 m1 d1 * day_ns \<noteq> zero_time" "date_days y2 m2 d2 * day_ns \<noteq> zero_time"
    and "\<forall>k \<in> {''limit'', ''offset'', ''action'', ''actor''}. req_Query r k = []"
    and "\<not> ap_auditFails env CallCountAuditLogsFiltered" "\<not> ap_auditFails env CallListAuditLogsFiltered"
  shows "let made = made_between (date_days y1 m1 d1) (date_days y2 m2 d2) (sv_auditLog (srv_hosts srv)) in List_handler env a r srv = (srv, WriteJSON 200 (AuditPageJSON
    \<lparr>alp_Items = map (\<lambda>row. NewAuditLogEntry (audit_info TimeToString row)) (take 50 (newest_first made)), alp_Total = int (length made)\<rparr>))"
proof -
  note d1 = bare_date(1) [where rfc = "ap_rfc3339 env" and s = "req_Query r ''from''", OF assms(2,4,6)]
    and d2 = bare_date(2) [where rfc = "ap_rfc3339 env" and s = "req_Query r ''to''", OF assms(3,5,7)]
  have q: "req_Query r ''limit'' = []" "req_Query r ''offset'' = []" "req_Query r ''action'' = []" "req_Query r ''actor'' = []" using assms(8) by simp_all
  have f: "audit_filter None None (Some (startOfDayUTC (date_days y1 m1 d1 * day_ns))) (Some (endOfDayUTC (date_days y2 m2 d2 * day_ns))) =
      (\<lambda>row. date_days y1 m1 d1 \<le> al_CreatedAt row div day_ns \<and> al_CreatedAt row div day_ns \<le> date_days y2 m2 d2)"
    using within_days by (auto simp: audit_filter_def fun_eq_iff)
  show ?thesis
    using assms(1,9,10)
    by (simp add: List_handler_def admin_only_def with_param_def q d1 d2 ParseInt32Opt_def ParseIntOpt_def list_audit_def hasFilters_def
        nonzero_def ListAuditLogsFiltered_def CountAuditLogsFiltered_def f made_between_def Let_def sql_page_def defaultAuditLogListLimit_def
        maxAuditLogListLimit_def NewAuditLogPage_def comp_def)
qed

section \<open>The package pages\<close>

definition listed :: "DecisionGroup list \<Rightarrow> DecisionItem set" where
  "listed gs = {item. \<exists>g \<in> set gs. \<exists>a \<in> set (dg_Advisories g). item \<in> set (dag_Items a)}"

lemma listed_groups:
  assumes "sorters_ok ss"
  shows "listed (GroupDecisionsByRemediation ss ds) = set ds"
proof -
  let ?gs = "GroupDecisionsByRemediation ss ds"
  have labels: "set (map dg_FamilyLabel ?gs) = di_FamilyLabel ` set ds" and ok: "\<And>g. g \<in> set ?gs \<Longrightarrow> group_ok ds g"
    using GroupDecisions_groups [OF assms, of ds] by (simp_all add: Let_def)
  have items: "set (dag_Items a) = set (of_advisory (dag_AdvisoryID a) (of_family (dg_FamilyLabel g) ds))"
    if "g \<in> set ?gs" "a \<in> set (dg_Advisories g)" for g a
    using ok [OF that(1)] that(2) by (auto simp: group_ok_def advisory_ok_def Let_def dest!: mset_eq_setD)
  have "item \<in> listed ?gs" if item: "item \<in> set ds" for item
  proof -
    from labels item obtain g where g: "g \<in> set ?gs" "dg_FamilyLabel g = di_FamilyLabel item" by force
    have "item \<in> set (of_family (dg_FamilyLabel g) ds)" using g(2) item by (simp add: of_family_def)
    moreover from this ok [OF g(1)] obtain a where a: "a \<in> set (dg_Advisories g)" "dag_AdvisoryID a = di_AdvisoryID item"
      by (force simp: group_ok_def Let_def)
    ultimately have "item \<in> set (dag_Items a)" using items [OF g(1) a(1)] by (simp add: of_advisory_def)
    with g a show ?thesis by (auto simp: listed_def)
  qed
  moreover have "item \<in> set ds" if "item \<in> listed ?gs" for item
    using that items by (auto simp: listed_def of_advisory_def of_family_def)
  ultimately show ?thesis by blast
qed


definition page_rows :: "api_env \<Rightarrow> HostSnapshotInfo \<Rightarrow> server \<Rightarrow> decision_row list" where
  "page_rows env snapshot srv = ListDecisionPageRowsBySnapshot (ap_jsonAgg env) (Host_Views.si_ID snapshot) (sv_db (srv_hosts srv))"

lemma page_rows_decision:
  assumes "dr \<in> set (db_decisions (hd_tables (sv_db (srv_hosts srv))))" "dec_SnapshotID dr = Host_Views.si_ID snapshot"
    "a \<in> set (db_advisories (hd_tables (sv_db (srv_hosts srv))))" "adv_ID a = dec_AdvisoryID dr"
  shows "\<exists>row \<in> set (page_rows env snapshot srv). row_PackageName row = dec_PackageName dr \<and> row_AdvisoryID row = dec_AdvisoryID dr \<and>
    row_Action row = dec_Action dr \<and> row_AdvisoryIsSecurity row = adv_IsSecurity a"
proof -
  let ?row = "page_row (ap_jsonAgg env) (db_refs (hd_tables (sv_db (srv_hosts srv)))) dr a"
  have "?row \<in> set (page_rows env snapshot srv)" using assms by (auto simp: page_rows_def ListDecisionPageRowsBySnapshot_def Let_def)
  then show ?thesis by (rule rev_bexI) (simp add: page_row_def Let_def)
qed

lemma package_page_answer:
  assumes "req_PathValue r ''hostID'' \<noteq> []" "snd (GetHost (hosts_env env srv) (req_PathValue r ''hostID'') (srv_hosts srv)) = Inr host"
    "snd (GetLatestSnapshot (hosts_env env srv) (req_PathValue r ''hostID'') (srv_hosts srv)) = Inr snapshot" "\<not> ap_rowsFail env"
  shows "package_page items env a r srv =
    (srv, WriteJSON 200 (GroupsJSON (GroupDecisionsByRemediation (ap_sorters env) (items snapshot (page_rows env snapshot srv)))))"
proof -
  have "GetHost (hosts_env env srv) (req_PathValue r ''hostID'') (srv_hosts srv) = (srv_hosts srv, Inr host)"
    using GetHost_reads assms(2) by (metis prod.collapse)
  moreover have "GetLatestSnapshot (hosts_env env srv) (req_PathValue r ''hostID'') (srv_hosts srv) = (srv_hosts srv, Inr snapshot)"
    using GetLatestSnapshot_reads assms(3) by (metis prod.collapse)
  ultimately show ?thesis using assms(1,4) by (simp add: package_page_def call_hosts_def page_rows_def)
qed

lemma vulnerable_set:
  "set (vulnerable_items env snapshot rows) =
     {MapDecisionRow (ap_cvesUnmarshal env) (ap_optionMarshal env) row (snd (page_snapshot env (si_Payload snapshot))) | row. row \<in> set rows \<and> shown_vulnerable row}"
  by (auto simp: vulnerable_items_def page_items_def case_prod_beta)

lemma upgradable_set:
  "set (upgradable_items env snapshot rows) =
     {MapDecisionRow (ap_cvesUnmarshal env) (ap_optionMarshal env) row (snd (page_snapshot env (si_Payload snapshot))) | row. row \<in> set rows \<and> shown_upgradable row} \<union>
     set (MapObservedUpgradablePackages (as_UpgradablePackages (fst (page_snapshot env (si_Payload snapshot)))) (as_Packages (fst (page_snapshot env (si_Payload snapshot))))
        (row_PackageName ` set (filter shown_upgradable rows)) (time_of (si_CollectedAt snapshot)))"
  by (auto simp: upgradable_items_def page_items_def case_prod_beta)

lemma MapDecisionRow_names [simp]:
  "di_PackageName (MapDecisionRow u m row sources) = row_PackageName row" "di_AdvisoryID (MapDecisionRow u m row sources) = row_AdvisoryID row"
  by (simp_all add: MapDecisionRow_def Let_def)

lemma observed_set:
  "item \<in> set (MapObservedUpgradablePackages ups ins backed t) \<Longrightarrow>
     \<exists>pkg \<in> set ups. di_PackageName item = TrimSpace (pkg_Name pkg) \<and> di_PackageName item \<notin> backed \<and> di_AdvisoryID item = ''host-package-manager''"
  by (auto simp: MapObservedUpgradablePackages_def observed_item_def Let_def)

text \<open>C20: the two package pages of a host show, for the last snapshot, every decision that asks for an action and whose advisory
  exists: those of security advisories as vulnerable and the others as upgradable. Nothing else is shown as vulnerable;
  as upgradable only packages that the host itself reported and that no decision on the page is about.\<close>

theorem package_pages_complete:
  assumes "sorters_ok (ap_sorters env)" "\<not> ap_rowsFail env" "req_PathValue r ''hostID'' \<noteq> []"
    and "snd (GetHost (hosts_env env srv) (req_PathValue r ''hostID'') (srv_hosts srv)) = Inr host"
    and "snd (GetLatestSnapshot (hosts_env env srv) (req_PathValue r ''hostID'') (srv_hosts srv)) = Inr snapshot"
  shows "\<exists>vulnerable upgradable.
    GetVulnerablePackages_handler env a r srv = (srv, WriteJSON 200 (GroupsJSON vulnerable)) \<and>
    GetUpgradablePackages_handler env a r srv = (srv, WriteJSON 200 (GroupsJSON upgradable)) \<and>
    (\<forall>dr \<in> set (db_decisions (hd_tables (sv_db (srv_hosts srv)))). \<forall>adv \<in> set (db_advisories (hd_tables (sv_db (srv_hosts srv)))).
       dec_SnapshotID dr = Host_Views.si_ID snapshot \<and> adv_ID adv = dec_AdvisoryID dr \<and> dec_Action dr \<noteq> ''none'' \<longrightarrow>
       (\<exists>item \<in> listed (if adv_IsSecurity adv then vulnerable else upgradable).
          di_PackageName item = dec_PackageName dr \<and> di_AdvisoryID item = dec_AdvisoryID dr)) \<and>
    (\<forall>item \<in> listed vulnerable. \<exists>row \<in> set (page_rows env snapshot srv). shown_vulnerable row \<and>
       di_PackageName item = row_PackageName row \<and> di_AdvisoryID item = row_AdvisoryID row) \<and>
    (\<forall>item \<in> listed upgradable.
       (\<exists>row \<in> set (page_rows env snapshot srv). shown_upgradable row \<and> di_PackageName item = row_PackageName row \<and> di_AdvisoryID item = row_AdvisoryID row) \<or>
       (\<exists>pkg \<in> set (as_UpgradablePackages (fst (page_snapshot env (si_Payload snapshot)))). di_PackageName item = TrimSpace (pkg_Name pkg) \<and>
          di_AdvisoryID item = ''host-package-manager'' \<and>
          (\<forall>row \<in> set (page_rows env snapshot srv). shown_upgradable row \<longrightarrow> row_PackageName row \<noteq> di_PackageName item)))"
proof -
  let ?rows = "page_rows env snapshot srv"
  let ?v = "GroupDecisionsByRemediation (ap_sorters env) (vulnerable_items env snapshot ?rows)"
  let ?u = "GroupDecisionsByRemediation (ap_sorters env) (upgradable_items env snapshot ?rows)"
  have v: "listed ?v = set (vulnerable_items env snapshot ?rows)" and u: "listed ?u = set (upgradable_items env snapshot ?rows)"
    using assms(1) by (simp_all add: listed_groups)
  have shown: "\<exists>item \<in> listed (if adv_IsSecurity adv then ?v else ?u). di_PackageName item = dec_PackageName dr \<and> di_AdvisoryID item = dec_AdvisoryID dr"
    if "dr \<in> set (db_decisions (hd_tables (sv_db (srv_hosts srv))))" "adv \<in> set (db_advisories (hd_tables (sv_db (srv_hosts srv))))"
      "dec_SnapshotID dr = Host_Views.si_ID snapshot" "adv_ID adv = dec_AdvisoryID dr" "dec_Action dr \<noteq> ''none''" for dr adv
  proof -
    note dr = that
    obtain row where row: "row \<in> set ?rows" "row_PackageName row = dec_PackageName dr" "row_AdvisoryID row = dec_AdvisoryID dr"
      "row_Action row = dec_Action dr" "row_AdvisoryIsSecurity row = adv_IsSecurity adv"
      using page_rows_decision [OF dr(1,3,2,4)] by blast
    let ?item = "MapDecisionRow (ap_cvesUnmarshal env) (ap_optionMarshal env) row (snd (page_snapshot env (si_Payload snapshot)))"
    have "?item \<in> listed (if adv_IsSecurity adv then ?v else ?u)"
      using row dr(5) by (cases "adv_IsSecurity adv") (auto simp: v u vulnerable_set upgradable_set shown_vulnerable_def shown_upgradable_def)
    with row show ?thesis by (intro bexI [of _ ?item]) simp_all
  qed
  have "\<exists>row \<in> set ?rows. shown_vulnerable row \<and> di_PackageName item = row_PackageName row \<and> di_AdvisoryID item = row_AdvisoryID row"
    if "item \<in> listed ?v" for item
    using that by (auto simp: v vulnerable_set)
  moreover have "(\<exists>row \<in> set ?rows. shown_upgradable row \<and> di_PackageName item = row_PackageName row \<and> di_AdvisoryID item = row_AdvisoryID row) \<or>
       (\<exists>pkg \<in> set (as_UpgradablePackages (fst (page_snapshot env (si_Payload snapshot)))). di_PackageName item = TrimSpace (pkg_Name pkg) \<and>
          di_AdvisoryID item = ''host-package-manager'' \<and> (\<forall>row \<in> set ?rows. shown_upgradable row \<longrightarrow> row_PackageName row \<noteq> di_PackageName item))"
    if "item \<in> listed ?u" for item
    using that by (auto simp: u upgradable_set dest!: observed_set) (metis (mono_tags, lifting) imageI mem_Collect_eq)
  ultimately show ?thesis
    using shown package_page_answer [OF assms(3,4,5,2)]
    unfolding GetVulnerablePackages_handler_def GetUpgradablePackages_handler_def by (intro exI [of _ ?v] exI [of _ ?u]) auto
qed


section \<open>A server at work\<close>

definition sample_api_env :: api_env where
  "sample_api_env = \<lparr>ap_hosts = sample_service_env, ap_accounts = sample_account_env,
     ap_manual = \<lparr>ms_client = True, ms_beginFails = False, ms_upsertFails = False, ms_insertJobFails = False, ms_commitFails = False\<rparr>,
     ap_scopeFails = False, ap_auditFails = (\<lambda>_. False), ap_advisoryFails = False, ap_rowsFail = False, ap_now = 0, ap_requestID = ''r1'',
     ap_parseAddr = (\<lambda>s. if s = ''127.0.0.1'' then Some (True, False) else None), ap_rfc3339 = (\<lambda>_. None), ap_sorters = sample_sorters,
     ap_cvesUnmarshal = (\<lambda>_. []), ap_optionMarshal = (\<lambda>_. []), ap_jsonAgg = (\<lambda>_. []), ap_unmarshal = (\<lambda>_. (True, sample_snapshot)),
     ap_registerDecoder = (\<lambda>_. Some sample_request), ap_registerValidate = (\<lambda>_. None), ap_snapshotDecoder = (\<lambda>_. Some sample_snapshot),
     ap_snapshotValidate = (\<lambda>_. None), ap_loginDecoder = (\<lambda>_. Inr (''ann@b'', ''correct horse'')), ap_setupDecoder = (\<lambda>_. Inr sample_setup_input),
     ap_profileDecoder = (\<lambda>_. Inr \<lparr>up_Email = None, up_CurrentPassword = None, up_NewPassword = None\<rparr>),
     ap_tokenDecoder = (\<lambda>_. Inr \<lparr>ct_Name = [], ct_AutoApprove = False\<rparr>), ap_manualDecoder = (\<lambda>_. Inl (DecodeInvalid [])),
     ap_sshDecoder = (\<lambda>_. Inl (DecodeInvalid [])), ap_updateDecoder = (\<lambda>_. Inl (DecodeInvalid [])), ap_notesDecoder = (\<lambda>_. Inr None),
     ap_stringDecoder = (\<lambda>_. None), ap_settingsDecoder = (\<lambda>_. Inl (DecodeInvalid [])), ap_emailDecoder = (\<lambda>_. Inr []),
     ap_sendReport = (\<lambda>_. True), ap_testConnection = (\<lambda>_ _. True), ap_maxBodyBytes = 0, ap_files = (\<lambda>_. False)\<rparr>"

definition sample_http :: "string \<Rightarrow> string list \<Rightarrow> request" where
  "sample_http method path = \<lparr>req_Method = method, req_Path = path, req_PathValue = (\<lambda>k. if k = ''hostID'' then ''h_1'' else []),
     req_Query = (\<lambda>k. if k = ''from'' then ''2026-02-28'' else if k = ''to'' then ''2026-03-01'' else []), req_Header = (\<lambda>_. []),
     req_RemoteAddr = ''127.0.0.1:4000'', req_TLS = False, req_Body = ([], None)\<rparr>"

text \<open>A host with a snapshot and a decision about a security advisory, and an audit log with an entry of 2026-03-01\<close>

definition sample_server :: server where
  "sample_server = \<lparr>srv_hosts = \<lparr>sv_db = \<lparr>hd_tables = empty_tables\<lparr>db_hosts := [zero_Host\<lparr>host_ID := ''h_1''\<rparr>],
       db_snapshots := [zero_HostSnapshot\<lparr>snap_ID := ''s_1'', snap_HostID := ''h_1''\<rparr>],
       db_advisories := [zero_Advisory\<lparr>adv_ID := ''A'', adv_IsSecurity := True\<rparr>],
       db_decisions := [zero_InsertDecisionRecordParams\<lparr>dec_SnapshotID := ''s_1'', dec_AdvisoryID := ''A'', dec_PackageName := ''curl'',
         dec_Action := ''update_package''\<rparr>]\<rparr>,
       hd_regTokens = [], hd_accessTokens = [], hd_pulls = [], hd_jobs = [], hd_scopes = []\<rparr>,
     sv_published = [], sv_auditLog = [sample_audit ''a_1'' ''host.create'' (20513 * 86400000000000 + 5)], sv_periodic = NewPeriodicJobManager\<rparr>,
     srv_accounts = \<lparr>ad_users = [], ad_settings = []\<rparr>, srv_catalog = sample_catalog, srv_jobs = []\<rparr>"

definition sample_admin :: "bool \<Rightarrow> AuthInfo" where
  "sample_admin admin = \<lparr>ai_Token = ''token'', ai_User = \<lparr>us_ID = ''u_1'', us_Email = ''a@b'', us_Name = [], us_PasswordHash = [], us_IsAdmin = admin,
     us_PasswordResetRequired = False, us_LastLoginAt = None, us_ArchivedAt = None, us_CreatedAt = None, us_UpdatedAt = None\<rparr>\<rparr>"


theorem audit_log_of_days_witness:
  "\<exists>page. List_handler sample_api_env (sample_admin True) (sample_http ''GET'' [''api'', ''v1'', ''audit-logs'']) sample_server =
     (sample_server, WriteJSON 200 (AuditPageJSON page)) \<and> alp_Total page = 1"
proof -
  let ?r = "sample_http ''GET'' [''api'', ''v1'', ''audit-logs'']"
  have d: "parse_layout (req_Query ?r ''from'') = Some (2026, 2, 28)" "parse_layout (req_Query ?r ''to'') = Some (2026, 3, 1)"
    "date_days 2026 2 28 = 20512" "date_days 2026 3 1 = 20513"
    by code_simp+
  have "length (made_between 20512 20513 (sv_auditLog (srv_hosts sample_server))) = 1" by code_simp
  moreover have "20512 * day_ns \<noteq> zero_time" "20513 * day_ns \<noteq> zero_time" by (simp_all add: day_ns_def zero_time_def)
  moreover have "us_IsAdmin (ai_User (sample_admin True))" "\<not> ap_auditFails sample_api_env c" "ap_rfc3339 sample_api_env x = None" for c x
    by (simp_all add: sample_admin_def sample_api_env_def)
  moreover have "\<forall>k \<in> {''limit'', ''offset'', ''action'', ''actor''}. req_Query ?r k = []" by (simp add: sample_http_def)
  ultimately show ?thesis
    using audit_log_of_days [of "sample_admin True" ?r 2026 2 28 2026 3 1 sample_api_env sample_server] d
    by (simp add: Let_def) (rule exI, rule conjI, rule refl, simp)
qed

theorem package_pages_complete_witness:
  "\<exists>vulnerable. GetVulnerablePackages_handler sample_api_env (sample_admin False) (sample_http ''GET'' []) sample_server =
       (sample_server, WriteJSON 200 (GroupsJSON vulnerable)) \<and> (\<exists>item \<in> listed vulnerable. di_PackageName item = ''curl'')"
proof -
  let ?r = "sample_http ''GET'' []"
  let ?env = "hosts_env sample_api_env sample_server"
  have ev: "(case snd (GetHost ?env ''h_1'' (srv_hosts sample_server)) of Inl _ \<Rightarrow> False | Inr _ \<Rightarrow> True)"
    "(case snd (GetLatestSnapshot ?env ''h_1'' (srv_hosts sample_server)) of Inl _ \<Rightarrow> False | Inr s \<Rightarrow> Host_Views.si_ID s = ''s_1'')" by code_simp+
  have v: "req_PathValue ?r ''hostID'' = ''h_1''" by (simp add: sample_http_def)
  from ev obtain host snapshot where hs: "snd (GetHost ?env (req_PathValue ?r ''hostID'') (srv_hosts sample_server)) = Inr host"
    "snd (GetLatestSnapshot ?env (req_PathValue ?r ''hostID'') (srv_hosts sample_server)) = Inr snapshot" "Host_Views.si_ID snapshot = ''s_1''"
    unfolding v by (auto split: sum.splits)
  have env: "sorters_ok (ap_sorters sample_api_env)" "\<not> ap_rowsFail sample_api_env" "req_PathValue ?r ''hostID'' \<noteq> []"
    using sample_sorters_ok by (simp_all add: sample_api_env_def v)
  have "\<exists>dr \<in> set (db_decisions (hd_tables (sv_db (srv_hosts sample_server)))). \<exists>adv \<in> set (db_advisories (hd_tables (sv_db (srv_hosts sample_server)))).
      dec_SnapshotID dr = ''s_1'' \<and> adv_ID adv = dec_AdvisoryID dr \<and> dec_Action dr \<noteq> ''none'' \<and> adv_IsSecurity adv \<and> dec_PackageName dr = ''curl''"
    by (simp add: sample_server_def)
  with package_pages_complete [OF env hs(1,2), of "sample_admin False"] show ?thesis using hs(3) by fastforce
qed

end
