(* ===== verification/Agent_Properties.thy ===== *)
theory Agent_Properties
  imports Agent_Client Api_Properties
begin

text \<open>
  The agent and the server together. A request of the HTTP client runs through the routes of the server, and its response
  comes back encoded. The commands of the agent then amount to calls of the hosts service, which gives the life of a host
  from its enrolment to its first snapshot.
\<close>

section \<open>The network\<close>

text \<open>The request that arrives for one that was sent: the path is what follows the address of the server.\<close>

definition incoming :: "string \<Rightarrow> http_request \<Rightarrow> request" where
  "incoming base q =
     \<lparr>req_Method = hq_Method q, req_Path = Split1 (drop (length base + 1) (hq_URL q)) (CHR ''/''), req_PathValue = (\<lambda>_. []), req_Query = (\<lambda>_. []),
      req_Header = (\<lambda>k. UnwrapOr (map_of (hq_Headers q) k) []), req_RemoteAddr = [], req_TLS = HasPrefix base ''https://'', req_Body = (hq_Body q, None)\<rparr>"

definition deliver :: "api_env \<Rightarrow> (payload \<Rightarrow> string) \<Rightarrow> string \<Rightarrow> server transport" where
  "deliver env encode base q srv =
     (if HasPrefix (hq_URL q) base then
        case serve env (incoming base q) srv of (srv1, resp) \<Rightarrow>
          (srv1, Some \<lparr>hp_StatusCode = resp_Status resp, hp_RequestID = UnwrapOr (map_of (resp_Headers resp) ''X-Request-Id'') [],
                       hp_Body = encode (resp_Body resp)\<rparr>)
      else (srv, None))"

text \<open>What one side marshals, the other reads.\<close>

definition codecs_agree :: "wire \<Rightarrow> api_env \<Rightarrow> (payload \<Rightarrow> string) \<Rightarrow> bool" where
  "codecs_agree w env encode \<longleftrightarrow>
     (\<forall>m b. wi_marshalRegister w m = Some b \<longrightarrow> ap_registerDecoder env b = Some m) \<and>
     (\<forall>m b. wi_marshalSnapshot w m = Some b \<longrightarrow> ap_snapshotDecoder env b = Some m) \<and>
     (\<forall>v. wi_registerResponse w (encode (RegisterProto v)) = Some v) \<and>
     (\<forall>v. wi_syncResponse w (encode (SyncProto v)) = Some v) \<and>
     (\<forall>c m. wi_apiError w (encode (ApiErrorProto c m)) = Some (c, m))"

definition config_codec :: "cli_env \<Rightarrow> cli_env \<Rightarrow> bool" where
  "config_codec cenv cenv' \<longleftrightarrow> (\<forall>cfg b. cl_marshalConfig cenv cfg = Some b \<longrightarrow> cl_unmarshalConfig cenv' (b @ [CHR 0x0A]) = Some cfg)"

text \<open>A message can be marshalled, its bytes are within the limit of the server, and it is valid.\<close>

definition body_limit :: "api_env \<Rightarrow> int" where
  "body_limit env = (if ap_maxBodyBytes env \<le> 0 then DefaultMaxRequestBodyBytes else ap_maxBodyBytes env)"

definition sendable :: "api_env \<Rightarrow> string option \<Rightarrow> string option \<Rightarrow> bool" where
  "sendable env marshalled invalid \<longleftrightarrow> (\<exists>b. marshalled = Some b \<and> int (length b) \<le> body_limit env) \<and> invalid = None"

section \<open>The routes of the agent\<close>

lemma serve_response:
  "resp_Status (snd (serve env r srv)) = resp_Status (snd (mux_ServeHTTP env r srv))"
  "resp_Body (snd (serve env r srv)) = resp_Body (snd (mux_ServeHTTP env r srv))"
  by (simp_all add: serve_def SecurityHeadersMiddleware_def RequestContextMiddleware_def with_headers_def)

lemma agent_route:
  assumes "req_Method r = ''POST''" "req_Path r = [''api'', ''v1'', ''agent'', ''register'']"
  shows "choose_route routes r = Some (capped_route ap_maxBodyBytes ''POST'' [Lit ''agent'', Lit ''register''] (Public Register_handler))"
  by (simp add: choose_route_def routes_def account_routes_def host_routes_def fallback_routes_def plain_route_def capped_route_def v1_def
      match_route_def match_method_def covers_route_def covers_method_def assms)

lemma snapshot_route:
  assumes "req_Method r = ''POST''" "req_Path r = [''api'', ''v1'', ''agent'', ''snapshots'']"
  shows "choose_route routes r = Some (capped_route ap_maxBodyBytes ''POST'' [Lit ''agent'', Lit ''snapshots''] (Public Snapshots_handler))"
  by (simp add: choose_route_def routes_def account_routes_def host_routes_def fallback_routes_def plain_route_def capped_route_def v1_def
      match_route_def match_method_def covers_route_def covers_method_def assms)

text \<open>A capped public route is served by its handler, on a body within the limit.\<close>

lemma mux_capped:
  assumes "choose_route routes r = Some (capped_route ap_maxBodyBytes m ss (Public h))" "int (length (fst (req_Body r))) \<le> body_limit env"
  shows "mux_ServeHTTP env r srv = h env (with_path (capped_route ap_maxBodyBytes m ss (Public h)) r) srv"
proof -
  let ?x = "capped_route ap_maxBodyBytes m ss (Public h)"
  have "\<not> lacks_slash routes r" using assms(1) by (simp add: lacks_slash_def) (simp add: capped_route_def v1_def)
  moreover have same: "(with_path x r)\<lparr>req_Body := req_Body r\<rparr> = with_path x r" for x by (simp add: with_path_def split: option.split)
  have "run_handler ?x env (with_path ?x r) srv = h env (with_path ?x r) srv"
    using assms(2) by (simp add: run_handler_def capped_route_def MaxBodyBytesMiddleware_def MaxBytesReader_def body_limit_def same)
  ultimately show ?thesis using assms(1) by (simp add: mux_ServeHTTP_def)
qed

section \<open>Responses\<close>

lemma sentinel_refuses: "400 \<le> er_HTTPStatus (sentinel_error s) \<and> er_Message (sentinel_error s) \<noteq> []"
  by (cases s)
    (simp_all add: sentinel_error_def hosts_sentinel_def account_sentinel_def forbidden_sentinel_def apperr_New_def
      split: app_error.split account_app_error.split forbidden.split)

lemma visible_refuses: "400 \<le> er_HTTPStatus (visible_error e) \<and> er_Message (visible_error e) \<noteq> []"
  using sentinel_refuses by (cases e) (auto simp: visible_error_def as_error_def apperr_WithDetails_def Let_def)

lemma WriteError_proto:
  "wantsProto r \<Longrightarrow> WriteError r e = WriteProto (er_HTTPStatus (visible_error e)) (ApiErrorProto (er_Code (visible_error e)) (er_Message (visible_error e)))"
  by (simp add: WriteError_def Let_def)

text \<open>The request that the agent posts\<close>

definition agent_post :: "string \<Rightarrow> string \<Rightarrow> string \<Rightarrow> http_request" where
  "agent_post url body tok =
     \<lparr>hq_Method = ''POST'', hq_URL = url,
      hq_Headers = (if tok \<noteq> [] then [(''Authorization'', ''Bearer '' @ tok)] else []) @
        [(''Content-Type'', ''application/x-protobuf''), (''Accept'', ''application/x-protobuf'')],
      hq_Body = body\<rparr>"

lemma agent_post_arrives:
  "req_Method (incoming base (agent_post url body tok)) = ''POST''" "req_Body (incoming base (agent_post url body tok)) = (body, None)"
  "wantsProto (with_path x (incoming base (agent_post url body tok)))"
  "tok \<noteq> [] \<Longrightarrow> req_Header (incoming base (agent_post url body tok)) ''Authorization'' = ''Bearer '' @ tok"
  "req_Path (incoming base (agent_post (base @ ''/'' @ p) body tok)) = Split1 p (CHR ''/'')"
  by (simp_all add: incoming_def agent_post_def wantsProto_def with_path_def split: option.split)

text \<open>What the client makes of a response: a message when it succeeds, the code and the text of the error otherwise\<close>

lemma httpPost_delivered:
  assumes "mux_ServeHTTP env (incoming base (agent_post (base @ p) body tok)) srv = (srv1, resp)"
  obtains result where "httpPost (deliver env encode base) ae um (base @ p) (Some body) tok srv = (srv1, Inr result)"
    "re_Status result = resp_Status resp" "resp_Status resp < 400 \<Longrightarrow> re_Response result = um (encode (resp_Body resp))"
    "\<And>c m. 400 \<le> resp_Status resp \<Longrightarrow> ae (encode (resp_Body resp)) = Some (c, m) \<Longrightarrow> m \<noteq> [] \<Longrightarrow> re_ErrorCode result = c \<and> re_ErrorMessage result = m"
proof -
  let ?r = "incoming base (agent_post (base @ p) body tok)"
  let ?h = "\<lparr>hp_StatusCode = resp_Status resp, hp_RequestID = UnwrapOr (map_of (resp_Headers (snd (serve env ?r srv))) ''X-Request-Id'') [],
    hp_Body = encode (resp_Body resp)\<rparr>"
  have "deliver env encode base (agent_post (base @ p) body tok) srv = (srv1, Some ?h)"
    using assms serve_response [of env ?r srv] serve_fst [of env ?r srv]
    by (simp add: deliver_def HasPrefix_def prod.case_eq_if) (simp add: agent_post_def)
  then have "httpPost (deliver env encode base) ae um (base @ p) (Some body) tok srv = (srv1, Inr (read_result ae um (base @ p) ?h))"
    by (simp add: httpPost_def doRequest_def agent_post_def)
  then show thesis by (rule that) (auto simp: read_result_def Let_def split: prod.split)
qed

section \<open>The commands over the network\<close>

lemma register_served:
  assumes "codecs_agree w env encode" "wi_marshalRegister w req = Some body" "int (length body) \<le> body_limit env" "ap_registerValidate env req = None"
  shows "\<exists>resp. mux_ServeHTTP env (incoming base (agent_post (base @ ''/api/v1/agent/register'') body tok)) srv =
      (srv\<lparr>srv_hosts := fst (RegisterAgentHost (hosts_env env srv) req (srv_hosts srv))\<rparr>, resp) \<and>
    (case snd (RegisterAgentHost (hosts_env env srv) req (srv_hosts srv)) of
       Inl e \<Rightarrow> let v = visible_error (service_failure e) in resp = WriteProto (er_HTTPStatus v) (ApiErrorProto (er_Code v) (er_Message v))
     | Inr x \<Rightarrow> resp = WriteProto 201 (RegisterProto x))"
proof -
  let ?r = "incoming base (agent_post (base @ ''/'' @ ''api/v1/agent/register'') body tok)"
  have "Split1 ''api/v1/agent/register'' (CHR ''/'') = [''api'', ''v1'', ''agent'', ''register'']" by code_simp
  then have "choose_route routes ?r = Some (capped_route ap_maxBodyBytes ''POST'' [Lit ''agent'', Lit ''register''] (Public Register_handler))"
    by (intro agent_route) (simp_all only: agent_post_arrives)
  from mux_capped [OF this, of env srv] have m: "mux_ServeHTTP env ?r srv =
      Register_handler env (with_path (capped_route ap_maxBodyBytes ''POST'' [Lit ''agent'', Lit ''register''] (Public Register_handler)) ?r) srv"
    using assms(3) by (simp only: agent_post_arrives fst_conv)
  have d: "ap_registerDecoder env body = Some req" using assms(1,2) by (simp add: codecs_agree_def)
  show ?thesis using m
    by (simp add: Register_handler_def ValidateNoAuth_def agent_post_arrives(2,3) ReadAll_def d assms(4) call_hosts_def WriteError_proto Let_def
        split: prod.split sum.split)
qed

lemma snapshot_served:
  assumes "codecs_agree w env encode" "wi_marshalSnapshot w req = Some body" "int (length body) \<le> body_limit env" "ap_snapshotValidate env req = None"
    and "TrimSpace tok = tok" "tok \<noteq> []"
  shows "\<exists>resp. mux_ServeHTTP env (incoming base (agent_post (base @ ''/api/v1/agent/snapshots'') body tok)) srv =
      (srv\<lparr>srv_hosts := fst (IngestAgentSnapshot (hosts_env env srv) tok req (srv_hosts srv))\<rparr>, resp) \<and>
    (case snd (IngestAgentSnapshot (hosts_env env srv) tok req (srv_hosts srv)) of
       Inl e \<Rightarrow> let v = visible_error (service_failure e) in resp_Status resp = er_HTTPStatus v \<and> resp_Body resp = ApiErrorProto (er_Code v) (er_Message v)
     | Inr x \<Rightarrow> resp = WriteProto 202 (SyncProto x))"
proof -
  let ?r = "incoming base (agent_post (base @ ''/'' @ ''api/v1/agent/snapshots'') body tok)"
  have "Split1 ''api/v1/agent/snapshots'' (CHR ''/'') = [''api'', ''v1'', ''agent'', ''snapshots'']" by code_simp
  then have "choose_route routes ?r = Some (capped_route ap_maxBodyBytes ''POST'' [Lit ''agent'', Lit ''snapshots''] (Public Snapshots_handler))"
    by (intro snapshot_route) (simp_all only: agent_post_arrives)
  from mux_capped [OF this, of env srv] have m: "mux_ServeHTTP env ?r srv =
      Snapshots_handler env (with_path (capped_route ap_maxBodyBytes ''POST'' [Lit ''agent'', Lit ''snapshots''] (Public Snapshots_handler)) ?r) srv"
    using assms(3) by (simp only: agent_post_arrives fst_conv)
  have d: "ap_snapshotDecoder env body = Some req" using assms(1,2) by (simp add: codecs_agree_def)
  have b: "agent_bearerToken (''Bearer '' @ tok) = Some tok"
    using assms(5,6) by (simp add: agent_bearerToken_def HasPrefix_def TrimPrefix_def)
  obtain s out where "IngestAgentSnapshot (hosts_env env srv) tok req (srv_hosts srv) = (s, out)" by fastforce
  then show ?thesis using m
    by (cases out) (simp_all add: Snapshots_handler_def ValidateNoAuth_def agent_post_arrives(2,3) agent_post_arrives(4) [OF assms(6)] b [simplified] ReadAll_def d
        assms(4) WriteError_proto WriteProto_def challenge_def Header_Set_def Let_def)
qed

text \<open>\<open>enroll\<close> is a registration with the hosts service, whose access token is saved.\<close>

lemma enroll_registers:
  assumes "codecs_agree w env encode" "NewHTTPClient cenv url ca insecure = Inr c" "ag_hostname (cl_agent cenv) = Some hostname"
    and "sendable env (wi_marshalRegister w (register_request cenv token hostname)) (ap_registerValidate env (register_request cenv token hostname))"
    and "RegisterAgentHost (hosts_env env srv) (register_request cenv token hostname) (srv_hosts srv) = (s, out)"
  shows "enroll w (deliver env encode (hc_serverURL c)) cenv path url token ca insecure (srv, files) =
    (case out of
       Inl e \<Rightarrow> (let v = visible_error (service_failure e) in
                ((srv\<lparr>srv_hosts := s\<rparr>, files), Some (RegisterRejected (er_HTTPStatus v) (er_Code v) (er_Message v))))
     | Inr resp \<Rightarrow>
         if rs_HostAccessToken resp = [] then ((srv\<lparr>srv_hosts := s\<rparr>, files), Some InvalidRegisterResponse)
         else case config_Save cenv path \<lparr>cf_ServerURL = url, cf_HostToken = rs_HostAccessToken resp, cf_CACert = ca, cf_AllowInsecureHTTP = insecure\<rparr> files of
             (files1, err) \<Rightarrow> ((srv\<lparr>srv_hosts := s\<rparr>, files1), map_option ConfigFailed err))"
proof -
  let ?req = "register_request cenv token hostname"
  obtain body where body: "wi_marshalRegister w ?req = Some body" "int (length body) \<le> body_limit env" "ap_registerValidate env ?req = None"
    using assms(4) by (auto simp: sendable_def)
  obtain resp where resp: "mux_ServeHTTP env (incoming (hc_serverURL c) (agent_post (hc_serverURL c @ ''/api/v1/agent/register'') body [])) srv =
      (srv\<lparr>srv_hosts := s\<rparr>, resp)"
    "case out of Inl e \<Rightarrow> let v = visible_error (service_failure e) in resp = WriteProto (er_HTTPStatus v) (ApiErrorProto (er_Code v) (er_Message v))
       | Inr x \<Rightarrow> resp = WriteProto 201 (RegisterProto x)"
    using register_served [OF assms(1) body, of "hc_serverURL c" "[]" srv] assms(5) by auto
  note codecs = assms(1) [unfolded codecs_agree_def]
  show ?thesis
  proof (rule httpPost_delivered [OF resp(1), of encode "wi_apiError w" "wi_registerResponse w"])
    fix result
    assume post: "httpPost (deliver env encode (hc_serverURL c)) (wi_apiError w) (wi_registerResponse w) (hc_serverURL c @ ''/api/v1/agent/register'') (Some body) [] srv =
        (srv\<lparr>srv_hosts := s\<rparr>, Inr result)"
      and result: "re_Status result = resp_Status resp" "resp_Status resp < 400 \<Longrightarrow> re_Response result = wi_registerResponse w (encode (resp_Body resp))"
        "\<And>c m. 400 \<le> resp_Status resp \<Longrightarrow> wi_apiError w (encode (resp_Body resp)) = Some (c, m) \<Longrightarrow> m \<noteq> [] \<Longrightarrow> re_ErrorCode result = c \<and> re_ErrorMessage result = m"
    have "RegisterHost w (deliver env encode (hc_serverURL c)) c ?req srv = (srv\<lparr>srv_hosts := s\<rparr>, Inr result)"
      using post body(1) by (simp add: RegisterHost_def registerEndpoint_def)
    then show ?thesis
      using assms(2,3) resp(2) result visible_refuses codecs
      by (cases out) (auto simp: enroll_def WriteProto_def Let_def)
  qed
qed

text \<open>\<open>sync\<close> is the ingestion of the collected snapshot.\<close>

lemma runSync_ingests:
  assumes "codecs_agree w env encode" "loadSyncConfig cenv opts files = Inr cfg" "CollectSnapshot (cl_agent cenv) (cl_version cenv) = Inr snapshot"
    and "NewHTTPClient cenv (cf_ServerURL cfg) (cf_CACert cfg) (cf_AllowInsecureHTTP cfg) = Inr c"
    and "sendable env (wi_marshalSnapshot w snapshot) (ap_snapshotValidate env snapshot)" "TrimSpace (cf_HostToken cfg) = cf_HostToken cfg" "cf_HostToken cfg \<noteq> []"
    and "IngestAgentSnapshot (hosts_env env srv) (cf_HostToken cfg) snapshot (srv_hosts srv) = (s, out)"
  shows "runSync w (deliver env encode (hc_serverURL c)) cenv opts (srv, files) =
    ((srv\<lparr>srv_hosts := s\<rparr>, files),
     case out of Inl e \<Rightarrow> (let v = visible_error (service_failure e) in Some (SyncRejected (er_HTTPStatus v) (er_Code v) (er_Message v))) | Inr _ \<Rightarrow> None)"
proof -
  let ?tok = "cf_HostToken cfg"
  obtain body where body: "wi_marshalSnapshot w snapshot = Some body" "int (length body) \<le> body_limit env" "ap_snapshotValidate env snapshot = None"
    using assms(5) by (auto simp: sendable_def)
  obtain resp where resp: "mux_ServeHTTP env (incoming (hc_serverURL c) (agent_post (hc_serverURL c @ ''/api/v1/agent/snapshots'') body ?tok)) srv =
      (srv\<lparr>srv_hosts := s\<rparr>, resp)"
    "case out of Inl e \<Rightarrow> let v = visible_error (service_failure e) in resp_Status resp = er_HTTPStatus v \<and> resp_Body resp = ApiErrorProto (er_Code v) (er_Message v)
       | Inr x \<Rightarrow> resp = WriteProto 202 (SyncProto x)"
    using snapshot_served [OF assms(1) body assms(6,7), of "hc_serverURL c" srv] assms(8) by auto
  note codecs = assms(1) [unfolded codecs_agree_def]
  show ?thesis
  proof (rule httpPost_delivered [OF resp(1), of encode "wi_apiError w" "wi_syncResponse w"])
    fix result
    assume post: "httpPost (deliver env encode (hc_serverURL c)) (wi_apiError w) (wi_syncResponse w) (hc_serverURL c @ ''/api/v1/agent/snapshots'') (Some body) ?tok srv =
        (srv\<lparr>srv_hosts := s\<rparr>, Inr result)"
      and result: "re_Status result = resp_Status resp"
        "\<And>c m. 400 \<le> resp_Status resp \<Longrightarrow> wi_apiError w (encode (resp_Body resp)) = Some (c, m) \<Longrightarrow> m \<noteq> [] \<Longrightarrow> re_ErrorCode result = c \<and> re_ErrorMessage result = m"
    have "PostSnapshot w (deliver env encode (hc_serverURL c)) c ?tok snapshot srv = (srv\<lparr>srv_hosts := s\<rparr>, Inr result)"
      using post body(1) by (simp add: PostSnapshot_def snapshotEndpoint_def)
    then have run: "runSync w (deliver env encode (hc_serverURL c)) cenv opts (srv, files) = ((srv\<lparr>srv_hosts := s\<rparr>, files),
        if re_Status result < 200 \<or> re_Status result \<ge> 300
        then Some (SyncRejected (re_Status result) (re_ErrorCode result) (re_ErrorMessage result)) else None)"
      by (simp add: runSync_def assms(2-4))
    show ?thesis
    proof (cases out)
      case (Inl e)
      have "400 \<le> resp_Status resp" "er_Message (visible_error (service_failure e)) \<noteq> []"
        using resp(2) Inl visible_refuses [of "service_failure e"] by (simp_all add: Let_def)
      then show ?thesis
        using run Inl resp(2) result(1) result(2) [of "er_Code (visible_error (service_failure e))" "er_Message (visible_error (service_failure e))"] codecs
        by (simp add: Let_def)
    next
      case (Inr x)
      then show ?thesis using run resp(2) result(1) by (simp add: WriteProto_def)
    qed
  qed
qed

section \<open>From enrolment to the first snapshot\<close>

definition no_overrides :: "string \<Rightarrow> syncOpts" where
  "no_overrides path = \<lparr>so_configPath = path, so_serverURL = [], so_hostToken = [], so_caCert = [], so_allowInsecureHTTP = False\<rparr>"

lemma config_saved:
  assumes "config_Save cenv path cfg files = (files1, None)" "config_codec cenv cenv'"
  shows "loadSyncConfig cenv' (no_overrides path) files1 = Inr cfg"
proof -
  obtain b where b: "cl_marshalConfig cenv cfg = Some b" "files1 = files(path \<mapsto> b @ [CHR 0x0A])"
    using assms(1) by (auto simp: config_Save_def Let_def split: if_splits option.splits)
  then have "config_Load cenv' path files1 = Inr cfg" using assms(2) by (simp add: config_Load_def read_written_def config_codec_def)
  then show ?thesis by (simp add: loadSyncConfig_def no_overrides_def override_def)
qed

lemma bind_sys_ok [simp]: "bind_sys (Inr x) f = f x"
  by (simp add: bind_sys_def)

lemma bind_sys_Inr: "bind_sys r f = Inr y \<longleftrightarrow> (\<exists>x. r = Inr x \<and> f x = Inr y)"
  by (cases r) (simp_all add: bind_sys_def)

lemma CollectSnapshot_facts:
  assumes "CollectSnapshot env version = Inr snapshot"
  shows "\<exists>p. as_Host snapshot = Some p \<and> ReadMachineID env = Inr (ah_MachineId p) \<and> as_SentAt snapshot = Some (ag_now env)"
  using assms unfolding CollectSnapshot_def Let_def prod.case_eq_if bind_sys_Inr by auto

text \<open>The machine that enrolled is the machine that reports.\<close>

lemma same_machine:
  assumes "ag_read (cl_agent cenv') ''/etc/machine-id'' = ag_read (cl_agent cenv) ''/etc/machine-id''" "ReadMachineID (cl_agent cenv') = Inr (ah_MachineId p)"
    and "host_MachineID h = nonzero (TrimSpace (cli_readMachineID cenv))"
  shows "\<not> identity_mismatch h (Some p)"
  using assms
  by (auto simp: identity_mismatch_def ReadMachineID_def cli_readMachineID_def nonzero_def split: file_result.splits if_splits option.splits)

text \<open>A registration with the request of the agent: the host, and the access token that authenticates it\<close>

lemma registered_host:
  assumes "RegisterAgentHost env (register_request cenv token hostname) s = (s', Inr resp)" "list_all plain (sv_hex env)"
  obtains h t where "hosts_of (sv_db s') = hosts_of (sv_db s) @ [h]" "get_host (host_ID h) (sv_db s') = Inr (h, sv_db s')" "ht_HostID t = host_ID h"
    "GetActiveHostAccessTokenByHash (sv_sha256 env (rs_HostAccessToken resp)) (sv_db s') = Inr (t, sv_db s')"
    "TrimSpace (rs_HostAccessToken resp) = rs_HostAccessToken resp" "rs_HostAccessToken resp \<noteq> []"
    "host_MachineID h = nonzero (TrimSpace (cli_readMachineID cenv))" "host_ID h \<noteq> []"
proof (rule RegisterAgentHost_Inr [OF assms(1)])
  fix rt h tok
  assume tx: "register_tx env (register_request cenv token hostname) (sv_db s) = Inr ((rt, h, tok), sv_db s')" and resp: "rs_HostAccessToken resp = tok"
  from tx show thesis
  proof (rule register_tx_Inr)
    fix m row
    assume h: "hosts_of (sv_db s') = hosts_of (sv_db s) @ [h]" "\<not> has_host (host_ID h) (sv_db s)"
        "h = agent_host (sv_dbNow env) (host_ApprovalStatus h) (if rt_AutoApprove rt then Some (sv_dbNow env) else None)
           (agent_params env (register_request cenv token hostname) m)"
      and tok: "tok = ''pb_host_'' @ sv_hex env"
      and row: "hd_accessTokens (sv_db s') = hd_accessTokens (sv_db s) @ [row]" "ht_HostID row = host_ID h" "ht_TokenHash row = sv_sha256 env tok"
        "ht_RevokedAt row = None" "\<forall>r \<in> set (hd_accessTokens (sv_db s)). ht_TokenHash r \<noteq> sv_sha256 env tok"
    have "first_row (\<lambda>x. ht_TokenHash x = sv_sha256 env tok \<and> ht_RevokedAt x = None) (hd_accessTokens (sv_db s')) = Some row"
      using row by (intro first_row_unique) auto
    then have t: "GetActiveHostAccessTokenByHash (sv_sha256 env tok) (sv_db s') = Inr (row, sv_db s')"
      by (simp add: GetActiveHostAccessTokenByHash_def select_one_def)
    have "first_row (\<lambda>x. host_ID x = host_ID h) (hosts_of (sv_db s')) = Some h"
      using h(1,2) by (intro first_row_unique) (auto simp: has_host_def)
    then have g: "get_host (host_ID h) (sv_db s') = Inr (h, sv_db s')" by (simp add: get_host_def select_one_def)
    have "list_all plain tok" using assms(2) by (simp add: tok plain_def)
    then have "TrimSpace tok = tok" by (intro TrimSpace_id trimmed_all_plain)
    moreover have "host_MachineID h = nonzero (TrimSpace (cli_readMachineID cenv))" "host_ID h \<noteq> []"
      by (subst h(3), simp add: agent_host_def agent_params_def register_request_def Let_def)
        (subst h(3), simp add: agent_host_def new_host_def agent_params_def id_New_def Let_def)
    ultimately show thesis using that [of h row] h(1) g row(2) t tok resp by simp
  qed
qed

lemma hosts_env_hosts [simp]: "hosts_env env (srv\<lparr>srv_hosts := s\<rparr>) = hosts_env env srv"
  by (simp add: hosts_env_def)

text \<open>Approval, and then a snapshot of the same machine\<close>

lemma approved_ingests:
  assumes "db_ok (sv_db s)" "\<And>k. \<not> sv_fault env k" "ranges_ok (env_ranges (sv_match env))" "get_host (ht_HostID t) (sv_db s) = Inr (h, sv_db s)"
    and "TrimSpace token \<noteq> []" "GetActiveHostAccessTokenByHash (sv_sha256 env (TrimSpace token)) (sv_db s) = Inr (t, sv_db s)"
    and "\<not> identity_mismatch h (as_Host snapshot)" "\<not> has_snapshot (id_New ''snap'' (sv_draw env ''snap'')) (sv_db s)"
    and "sv_bytes env snapshot \<noteq> None" "UnwrapOr (as_SentAt snapshot) (sv_now env) \<noteq> zero_time"
  shows "\<exists>s2 info s3 resp. ApproveHost env actor (ht_HostID t) s = (s2, Inr info) \<and> IngestAgentSnapshot env token snapshot s2 = (s3, Inr resp) \<and>
    owns (ht_HostID t) (sr_SnapshotId resp) (sv_db s3) \<and> last_is (ht_HostID t) (sr_SnapshotId resp) (sv_db s3)"
proof (rule ApproveHost_ok [OF assms(1,2,4)])
  let ?h2 = "h\<lparr>host_ApprovalStatus := ''approved'', host_ApprovedAt := Some (sv_dbNow env), host_UpdatedAt := Some (sv_dbNow env)\<rparr>"
  fix s2 info
  assume s2: "ApproveHost env actor (ht_HostID t) s = (s2, Inr info)" "get_host (ht_HostID t) (sv_db s2) = Inr (?h2, sv_db s2)"
    "hd_accessTokens (sv_db s2) = hd_accessTokens (sv_db s)" "\<And>j. has_snapshot j (sv_db s2) = has_snapshot j (sv_db s)"
  have "GetActiveHostAccessTokenByHash (sv_sha256 env (TrimSpace token)) (sv_db s2) = Inr (t, sv_db s2)"
    using assms(6) by (simp add: GetActiveHostAccessTokenByHash_def select_one_def s2(3) split: option.splits)
  moreover have "\<not> identity_mismatch ?h2 (as_Host snapshot)" using assms(7) by (simp add: identity_mismatch_def)
  ultimately have "\<exists>s3 resp. IngestAgentSnapshot env token snapshot s2 = (s3, Inr resp) \<and> sr_Accepted resp \<and> sr_HostId resp = ht_HostID t"
    using assms(8-10) s2(4) by (intro IngestAgentSnapshot_ok [OF assms(2,5) _ s2(2)]) simp_all
  then obtain s3 resp where s3: "IngestAgentSnapshot env token snapshot s2 = (s3, Inr resp)" "sr_HostId resp = ht_HostID t" by blast
  from IngestAgentSnapshot_stored [OF s3(1) assms(3)] have "owns (ht_HostID t) (sr_SnapshotId resp) (sv_db s3)" "last_is (ht_HostID t) (sr_SnapshotId resp) (sv_db s3)"
    by (simp_all add: s3(2))
  then show ?thesis using s2(1) s3(1) by blast
qed

text \<open>C10: From enrolment to the first snapshot, over the network. An agent whose \<open>enroll\<close> succeeded is a new host of the server, and
  the configuration it saved holds the access token of that host. While the host waits for approval, \<open>sync\<close> reports the
  refusal with its status and code, and changes nothing on either side. Once an administrator approves the host, \<open>sync\<close>
  succeeds: the machine is recognised as the one that enrolled, and its snapshot becomes the last one of the host.\<close>

theorem agent_admitted:
  assumes codecs: "codecs_agree w env encode" "codecs_agree w env' encode" "config_codec cenv cenv'"
    and server: "service_reach river (srv_hosts srv)" "sv_sha256 (ap_hosts env') = sv_sha256 (ap_hosts env)" "\<forall>c. \<not> sv_fault (ap_hosts env') c"
      "ranges_ok (env_ranges (sv_match (ap_hosts env')))" "list_all plain (sv_hex (ap_hosts env))"
    and client: "NewHTTPClient cenv url ca insecure = Inr c" "NewHTTPClient cenv' url ca insecure = Inr c" "ag_hostname (cl_agent cenv) = Some hostname"
      "ag_read (cl_agent cenv') ''/etc/machine-id'' = ag_read (cl_agent cenv) ''/etc/machine-id''"
      "sendable env (wi_marshalRegister w (register_request cenv token hostname)) (ap_registerValidate env (register_request cenv token hostname))"
    and enrolled: "enroll w (deliver env encode (hc_serverURL c)) cenv path url token ca insecure (srv, files) = ((srv1, files1), None)"
    and snapshot: "CollectSnapshot (cl_agent cenv') (cl_version cenv') = Inr snapshot" "ag_now (cl_agent cenv') \<noteq> zero_time"
      "sendable env' (wi_marshalSnapshot w snapshot) (ap_snapshotValidate env' snapshot)" "sv_bytes (ap_hosts env') snapshot \<noteq> None"
      "\<not> has_snapshot (id_New ''snap'' (sv_draw (ap_hosts env') ''snap'')) (sv_db (srv_hosts srv1))"
    and admin: "us_IsAdmin (ai_User a)"
  shows "\<exists>h. hosts_of (sv_db (srv_hosts srv1)) = hosts_of (sv_db (srv_hosts srv)) @ [h] \<and>
    (host_ApprovalStatus h \<noteq> ''approved'' \<longrightarrow>
       runSync w (deliver env' encode (hc_serverURL c)) cenv' (no_overrides path) (srv1, files1) =
         ((srv1, files1), Some (SyncRejected 403 ''host_not_approved'' ''host pending approval''))) \<and>
    (req_PathValue r ''hostID'' = host_ID h \<longrightarrow>
       (\<exists>srv2 info srv3 sid. Approve_handler env' a r srv1 = (srv2, WriteJSON 200 (HostJSON info)) \<and>
          runSync w (deliver env' encode (hc_serverURL c)) cenv' (no_overrides path) (srv2, files1) = ((srv3, files1), None) \<and>
          owns (host_ID h) sid (sv_db (srv_hosts srv3)) \<and> last_is (host_ID h) sid (sv_db (srv_hosts srv3))))"
proof -
  let ?req = "register_request cenv token hostname"
  obtain s out where reg: "RegisterAgentHost (hosts_env env srv) ?req (srv_hosts srv) = (s, out)" by fastforce
  from enrolled [unfolded enroll_registers [OF codecs(1) client(1,3,5) reg]] obtain resp where out: "out = Inr resp"
    and saved: "config_Save cenv path \<lparr>cf_ServerURL = url, cf_HostToken = rs_HostAccessToken resp, cf_CACert = ca, cf_AllowInsecureHTTP = insecure\<rparr> files =
      (files1, None)" and srv1: "srv1 = srv\<lparr>srv_hosts := s\<rparr>"
    by (auto simp: Let_def split: sum.splits if_splits prod.splits)
  let ?cfg = "\<lparr>cf_ServerURL = url, cf_HostToken = rs_HostAccessToken resp, cf_CACert = ca, cf_AllowInsecureHTTP = insecure\<rparr>"
  let ?tok = "rs_HostAccessToken resp"
  note load = config_saved [OF saved codecs(3)]
  obtain h t where h: "hosts_of (sv_db s) = hosts_of (sv_db (srv_hosts srv)) @ [h]" "get_host (host_ID h) (sv_db s) = Inr (h, sv_db s)" "ht_HostID t = host_ID h"
    "GetActiveHostAccessTokenByHash (sv_sha256 (hosts_env env srv) ?tok) (sv_db s) = Inr (t, sv_db s)" "TrimSpace ?tok = ?tok" "?tok \<noteq> []"
    "host_MachineID h = nonzero (TrimSpace (cli_readMachineID cenv))" "host_ID h \<noteq> []"
    using registered_host [OF reg [unfolded out]] server(5) by (auto simp: hosts_env_def)
  have run: "runSync w (deliver env' encode (hc_serverURL c)) cenv' (no_overrides path) (srv', files1) =
      ((srv'\<lparr>srv_hosts := s1\<rparr>, files1),
       case o1 of Inl e \<Rightarrow> (let v = visible_error (service_failure e) in Some (SyncRejected (er_HTTPStatus v) (er_Code v) (er_Message v))) | Inr _ \<Rightarrow> None)"
    if "IngestAgentSnapshot (hosts_env env' srv') ?tok snapshot (srv_hosts srv') = (s1, o1)" for srv' s1 o1
    using runSync_ingests [OF codecs(2) load snapshot(1) _ snapshot(3)] client(2) h(5,6) that by simp
  let ?env = "hosts_env env' srv1"
  have env: "\<not> sv_fault ?env k" "ranges_ok (env_ranges (sv_match ?env))" "sv_sha256 ?env = sv_sha256 (hosts_env env srv)" for k
    using server(2,3,4) by (simp_all add: hosts_env_def)
  have tok: "TrimSpace ?tok \<noteq> []" "GetActiveHostAccessTokenByHash (sv_sha256 ?env (TrimSpace ?tok)) (sv_db s) = Inr (t, sv_db s)"
    using h(4,5,6) env(3) by simp_all
  have host: "get_host (ht_HostID t) (sv_db s) = Inr (h, sv_db s)" "srv_hosts srv1 = s" by (simp_all add: h(2,3) srv1)
  have pending: "runSync w (deliver env' encode (hc_serverURL c)) cenv' (no_overrides path) (srv1, files1) =
      ((srv1, files1), Some (SyncRejected 403 ''host_not_approved'' ''host pending approval''))" if "host_ApprovalStatus h \<noteq> ''approved''"
    using run [of srv1] IngestAgentSnapshot_unapproved [OF env(1) tok host(1) that]
    by (simp add: host(2) visible_error_def as_error_def sentinel_error_def hosts_sentinel_def apperr_New_def Let_def)
  obtain p where p: "as_Host snapshot = Some p" "ReadMachineID (cl_agent cenv') = Inr (ah_MachineId p)" "as_SentAt snapshot = Some (ag_now (cl_agent cenv'))"
    using CollectSnapshot_facts [OF snapshot(1)] by blast
  have "\<not> identity_mismatch h (as_Host snapshot)" unfolding p(1) by (rule same_machine [OF client(4) p(2) h(7)])
  moreover have "db_ok (sv_db s)" using service_reach_ok(1) [OF service_reach.register [OF server(1)], of "hosts_env env srv" ?req] reg by simp
  moreover have "\<not> has_snapshot (id_New ''snap'' (sv_draw ?env ''snap'')) (sv_db s)" "sv_bytes ?env snapshot \<noteq> None"
      "UnwrapOr (as_SentAt snapshot) (sv_now ?env) \<noteq> zero_time"
    using snapshot(2,4,5) p(3) by (simp_all add: hosts_env_def host(2))
  ultimately obtain s2 info s3 resp' where s2: "ApproveHost ?env (ActorFromRequest env' r a) (ht_HostID t) s = (s2, Inr info)"
      "IngestAgentSnapshot ?env ?tok snapshot s2 = (s3, Inr resp')" "owns (ht_HostID t) (sr_SnapshotId resp') (sv_db s3)"
      "last_is (ht_HostID t) (sr_SnapshotId resp') (sv_db s3)"
    using approved_ingests [OF _ env(1,2) host(1) tok] by blast
  have "Approve_handler env' a r srv1 = (srv1\<lparr>srv_hosts := s2\<rparr>, WriteJSON 200 (HostJSON (NewHost info [])))" if "req_PathValue r ''hostID'' = host_ID h"
    using admin that h(3,8) s2(1) by (simp add: Approve_handler_def admin_only_def with_path_value_def call_hosts_def host(2))
  with h(1,3) pending s2(2-4) run [of "srv1\<lparr>srv_hosts := s2\<rparr>" s3 "Inr resp'"] show ?thesis
    by (intro exI [of _ h]) (auto simp: host(2) intro!: exI [of _ "srv1\<lparr>srv_hosts := s3\<rparr>"])
qed

section \<open>A host at work\<close>

text \<open>A codec of the messages: each character is marked, each string ended\<close>

definition mark_text :: "string \<Rightarrow> string" where
  "mark_text s = concat (map (\<lambda>c. [CHR 0x01, c]) s) @ [CHR 0x00]"

fun read_text :: "string \<Rightarrow> string \<times> string" where
  "read_text (x # c # s) = (if x = CHR 0x01 then (c # fst (read_text s), snd (read_text s)) else ([], c # s))"
| "read_text s = ([], [])"

lemma read_mark [simp]: "read_text (mark_text s @ r) = (s, r)"
  by (induction s) (simp_all add: mark_text_def, cases r, simp_all)

definition read_three :: "string \<Rightarrow> string \<times> string \<times> string \<times> string" where
  "read_three b = (let (x, r1) = read_text b; (y, r2) = read_text r1; (z, r3) = read_text r2 in (x, y, z, r3))"

definition sample_encode :: "payload \<Rightarrow> string" where
  "sample_encode p = (case p of
       RegisterProto v \<Rightarrow> mark_text (rs_HostId v) @ mark_text (rs_HostAccessToken v) @ mark_text (rs_ApprovalStatus v) @ []
     | SyncProto v \<Rightarrow> mark_text (if sr_Accepted v then ''1'' else []) @ mark_text (sr_HostId v) @ mark_text (sr_SnapshotId v) @
         mark_text (replicate (nat (sr_NextCheckInSeconds v)) CHR ''+'') @ mark_text (replicate (nat (- sr_NextCheckInSeconds v)) CHR ''-'') @ []
     | ApiErrorProto c m \<Rightarrow> mark_text c @ mark_text m @ []
     | _ \<Rightarrow> [])"

definition sample_agent :: agent_env where
  "sample_agent = \<lparr>ag_names = (\<lambda>_. None),
     ag_read = (\<lambda>p. if p = ''/etc/os-release'' then Contents (''ID=debian'' @ [CHR 0x0A] @ ''NAME=Debian'' @ [CHR 0x0A] @ ''VERSION_ID=12'')
       else if p = ''/etc/machine-id'' then Contents ''m1'' else if p = ''/proc/uptime'' then Contents ''10.0 5.0'' else NotExist),
     ag_now = 7, ag_hostname = Some ''web'', ag_uname = Some (map of_char ''x86_64'', map of_char ''6.1.0''), ag_float = (\<lambda>_. Some 10),
     ag_rpmKernel = (\<lambda>_. None), ag_installed = (\<lambda>_. Some []), ag_dnf = [], ag_apt = None, ag_sortPackages = (\<lambda>xs. xs), ag_sortStrings = (\<lambda>xs. xs),
     ag_range = (\<lambda>xs. xs), ag_sortRepos = (\<lambda>xs. xs)\<rparr>"

definition sample_cli :: cli_env where
  "sample_cli = \<lparr>cl_agent = sample_agent, cl_mkdir = (\<lambda>_. True), cl_write = (\<lambda>_. True),
     cl_marshalConfig = (\<lambda>cfg. Some (mark_text (cf_ServerURL cfg) @ mark_text (cf_HostToken cfg) @ mark_text (cf_CACert cfg) @
       (if cf_AllowInsecureHTTP cfg then ''1'' else ''0''))),
     cl_unmarshalConfig = (\<lambda>b. let (url, token, ca, r) = read_three b in
       Some \<lparr>cf_ServerURL = url, cf_HostToken = token, cf_CACert = ca, cf_AllowInsecureHTTP = (take 1 r = ''1'')\<rparr>),
     cl_certs = (\<lambda>_. True), cl_goos = ''linux'', cl_goarch = ''amd64'', cl_ips = Some [(True, Some ''127.0.0.1''), (False, Some ''10.0.0.2'')], cl_version = ''v1''\<rparr>"

definition sample_enrolment :: RegisterHostRequest where
  "sample_enrolment = \<lparr>rq_RegistrationToken = ''pb_reg_ab'', rq_Hostname = ''web'', rq_MachineId = ''m1'',
     rq_Metadata = Some \<lparr>rm_IpAddress = ''10.0.0.2'', rm_OsName = ''linux'', rm_OsVersion = ''12'', rm_Architecture = ''amd64''\<rparr>\<rparr>"

definition sample_collected :: AgentSnapshot where
  "sample_collected = (case CollectSnapshot sample_agent ''v1'' of Inr s \<Rightarrow> s | Inl _ \<Rightarrow> sample_snapshot)"

definition sample_wire :: wire where
  "sample_wire = \<lparr>wi_marshalRegister = (\<lambda>m. if m = sample_enrolment then Some ''r'' else None),
     wi_marshalSnapshot = (\<lambda>m. if m = sample_collected then Some ''s'' else None),
     wi_registerResponse = (\<lambda>b. let (x, y, z, _) = read_three b in Some \<lparr>rs_HostId = x, rs_HostAccessToken = y, rs_ApprovalStatus = z\<rparr>),
     wi_syncResponse = (\<lambda>b. let (x, y, z, r) = read_three b; (p, r1) = read_text r; (n, _) = read_text r1
       in Some \<lparr>sr_Accepted = (x = ''1''), sr_HostId = y, sr_SnapshotId = z, sr_NextCheckInSeconds = int (length p) - int (length n)\<rparr>),
     wi_apiError = (\<lambda>b. let (c, r) = read_text b; (m, _) = read_text r in Some (c, m))\<rparr>"

definition sample_link_env :: api_env where
  "sample_link_env = sample_api_env\<lparr>ap_registerDecoder := \<lambda>_. Some sample_enrolment, ap_snapshotDecoder := \<lambda>_. Some sample_collected\<rparr>"

definition sample_fleet :: server where
  "sample_fleet = \<lparr>srv_hosts = sample_with_token, srv_accounts = \<lparr>ad_users = [], ad_settings = []\<rparr>, srv_catalog = sample_catalog, srv_jobs = []\<rparr>"

lemma sample_codecs_agree: "codecs_agree sample_wire sample_link_env sample_encode" "config_codec sample_cli sample_cli"
proof -
  have "n = int (length (replicate (nat n) c)) - int (length (replicate (nat (- n)) d))" for n :: int and c d :: char by simp
  then show "codecs_agree sample_wire sample_link_env sample_encode"
    by (auto simp: codecs_agree_def sample_wire_def sample_link_env_def sample_encode_def read_three_def Let_def simp del: append_Nil2)
  show "config_codec sample_cli sample_cli"
    by (auto simp: config_codec_def sample_cli_def read_three_def Let_def)
qed

lemma sample_link_facts:
  "service_reach sample_river (srv_hosts sample_fleet)" "\<forall>k. \<not> sv_fault (ap_hosts sample_link_env) k"
  "ranges_ok (env_ranges (sv_match (ap_hosts sample_link_env)))" "list_all plain (sv_hex (ap_hosts sample_link_env))"
  "ag_hostname (cl_agent sample_cli) = Some ''web''" "NewHTTPClient sample_cli ''https://pb/'' [] False = Inr \<lparr>hc_serverURL = ''https://pb'', hc_tls = DefaultTLS\<rparr>"
  using sample_reach(1) sample_faults(1,2)
  by (simp_all add: sample_fleet_def sample_link_env_def sample_api_env_def sample_service_env_def plain_def sample_cli_def sample_agent_def
      NewHTTPClient_def HasPrefix_def TrimRightSlash_def)

lemma sample_enrolment_sent: "register_request sample_cli ''pb_reg_ab'' ''web'' = sample_enrolment"
  by code_simp

lemma sample_sendable:
  "sendable sample_link_env (wi_marshalRegister sample_wire (register_request sample_cli ''pb_reg_ab'' ''web''))
     (ap_registerValidate sample_link_env (register_request sample_cli ''pb_reg_ab'' ''web''))"
  "sendable sample_link_env (wi_marshalSnapshot sample_wire sample_collected) (ap_snapshotValidate sample_link_env sample_collected)"
  unfolding sample_enrolment_sent
  by (simp_all add: sendable_def body_limit_def DefaultMaxRequestBodyBytes_def sample_wire_def sample_link_env_def sample_api_env_def)

lemma sample_os_release: "ReadOsRelease sample_agent = Inr \<lparr>or_ID = ''debian'', or_Name = ''Debian'', or_VersionID = ''12''\<rparr>"
proof -
  let ?lines = "[''ID=debian'', ''NAME=Debian'', ''VERSION_ID=12'']"
  have "Split1 (''ID=debian'' @ [CHR 0x0A] @ ''NAME=Debian'' @ [CHR 0x0A] @ ''VERSION_ID=12'') (CHR 0x0A) = ?lines" by code_simp
  then have "scan_lines (''ID=debian'' @ [CHR 0x0A] @ ''NAME=Debian'' @ [CHR 0x0A] @ ''VERSION_ID=12'') = ?lines"
    by (simp add: scan_lines_def Let_def dropCR_def)
  moreover have "fold os_release_line (map TrimSpace ?lines) ([], [], []) = (''debian'', ''Debian'', ''12'')" by code_simp
  ultimately show ?thesis by (simp add: ReadOsRelease_def ParseOsRelease_def sample_agent_def del: append.simps)
qed

lemma sample_collected_ok: "CollectSnapshot (cl_agent sample_cli) (cl_version sample_cli) = Inr sample_collected"
proof -
  have facts: "NormalizeOsFamily ''debian'' = Inr OS_FAMILY_APT" "ParseMajorVersion ''12'' = Inr 12" "ReadMachineID sample_agent = Inr ''m1''"
    "getUnameInfo sample_agent = Inr (''x86_64'', ''6.1.0'')" "DetectArchitecture ''x86_64'' = Inr ARCHITECTURE_X86_64" "ReadUptime sample_agent = Inr 10"
    "available_updates sample_agent OS_FAMILY_APT = (0, [])" by code_simp+
  have "ag_hostname sample_agent = Some ''web''" "ag_installed sample_agent OS_FAMILY_APT = Some []" by (simp_all add: sample_agent_def)
  then have "\<exists>x. CollectSnapshot sample_agent ''v1'' = Inr x"
    by (simp add: CollectSnapshot_def sample_os_release facts RunningKernelNEVRA_def Agent_System.collected_def CollectInstalledPackages_def
        collectInstalledAPTPackages_def CollectEnabledRepos_def)
  then show ?thesis by (auto simp: sample_collected_def sample_cli_def)
qed

lemma sample_registers:
  obtains s resp where "RegisterAgentHost (hosts_env sample_link_env sample_fleet) (register_request sample_cli ''pb_reg_ab'' ''web'') (srv_hosts sample_fleet) = (s, Inr resp)"
    "rs_HostAccessToken resp \<noteq> []" "map (\<lambda>h. (host_ID h, host_ApprovalStatus h)) (hosts_of (sv_db s)) = [(''h_1'', ''waiting_approval'')]"
    "db_snapshots (hd_tables (sv_db s)) = []"
proof -
  let ?out = "RegisterAgentHost (sample_service_env\<lparr>sv_users := \<lambda>_. None\<rparr>) sample_enrolment sample_with_token"
  have "case ?out of (s, Inl _) \<Rightarrow> False | (s, Inr v) \<Rightarrow> rs_HostAccessToken v \<noteq> [] \<and>
      map (\<lambda>h. (host_ID h, host_ApprovalStatus h)) (hosts_of (sv_db s)) = [(''h_1'', ''waiting_approval'')] \<and> db_snapshots (hd_tables (sv_db s)) = []"
    by code_simp
  moreover have "hosts_env sample_link_env sample_fleet = sample_service_env\<lparr>sv_users := \<lambda>_. None\<rparr>" "srv_hosts sample_fleet = sample_with_token"
    by (simp_all add: hosts_env_def sample_link_env_def sample_api_env_def sample_fleet_def)
  ultimately show thesis
    unfolding sample_enrolment_sent using that by (auto simp: sample_enrolment_sent split: prod.splits sum.splits)
qed

theorem agent_admitted_witness:
  "\<exists>srv1 files1 srv2 info srv3. let net = deliver sample_link_env sample_encode ''https://pb'' in
     enroll sample_wire net sample_cli ''/etc/agent.json'' ''https://pb/'' ''pb_reg_ab'' [] False (sample_fleet, Map.empty) = ((srv1, files1), None) \<and>
     runSync sample_wire net sample_cli (no_overrides ''/etc/agent.json'') (srv1, files1) =
       ((srv1, files1), Some (SyncRejected 403 ''host_not_approved'' ''host pending approval'')) \<and>
     Approve_handler sample_link_env (sample_admin True) (sample_http ''POST'' []) srv1 = (srv2, WriteJSON 200 (HostJSON info)) \<and>
     runSync sample_wire net sample_cli (no_overrides ''/etc/agent.json'') (srv2, files1) = ((srv3, files1), None)"
proof (rule sample_registers)
  fix s resp
  assume reg: "RegisterAgentHost (hosts_env sample_link_env sample_fleet) (register_request sample_cli ''pb_reg_ab'' ''web'') (srv_hosts sample_fleet) = (s, Inr resp)"
    "rs_HostAccessToken resp \<noteq> []" and hosts: "map (\<lambda>h. (host_ID h, host_ApprovalStatus h)) (hosts_of (sv_db s)) = [(''h_1'', ''waiting_approval'')]"
    and snaps: "db_snapshots (hd_tables (sv_db s)) = []"
  obtain files1 where "config_Save sample_cli ''/etc/agent.json'' \<lparr>cf_ServerURL = ''https://pb/'', cf_HostToken = rs_HostAccessToken resp, cf_CACert = [],
      cf_AllowInsecureHTTP = False\<rparr> Map.empty = (files1, None)" by (simp add: config_Save_def sample_cli_def Let_def)
  with enroll_registers [OF sample_codecs_agree(1) sample_link_facts(6,5) sample_sendable(1) reg(1), of "''/etc/agent.json''" Map.empty] reg(2)
  have enrolled: "enroll sample_wire (deliver sample_link_env sample_encode (hc_serverURL \<lparr>hc_serverURL = ''https://pb'', hc_tls = DefaultTLS\<rparr>)) sample_cli
      ''/etc/agent.json'' ''https://pb/'' ''pb_reg_ab'' [] False (sample_fleet, Map.empty) = ((sample_fleet\<lparr>srv_hosts := s\<rparr>, files1), None)" by simp
  have "\<not> has_snapshot i (sv_db (srv_hosts (sample_fleet\<lparr>srv_hosts := s\<rparr>)))" for i using snaps by (simp add: has_snapshot_def)
  moreover have "sv_bytes (ap_hosts sample_link_env) sample_collected \<noteq> None" "ag_now (cl_agent sample_cli) \<noteq> zero_time" "us_IsAdmin (ai_User (sample_admin True))"
    by (simp_all add: sample_link_env_def sample_api_env_def sample_service_env_def sample_cli_def sample_agent_def zero_time_def sample_admin_def)
  ultimately obtain h where "hosts_of (sv_db s) = hosts_of (sv_db (srv_hosts sample_fleet)) @ [h]" and h:
    "host_ApprovalStatus h \<noteq> ''approved'' \<longrightarrow> runSync sample_wire (deliver sample_link_env sample_encode ''https://pb'') sample_cli (no_overrides ''/etc/agent.json'')
       (sample_fleet\<lparr>srv_hosts := s\<rparr>, files1) = ((sample_fleet\<lparr>srv_hosts := s\<rparr>, files1), Some (SyncRejected 403 ''host_not_approved'' ''host pending approval''))"
    "req_PathValue (sample_http ''POST'' []) ''hostID'' = host_ID h \<longrightarrow> (\<exists>srv2 info srv3. Approve_handler sample_link_env (sample_admin True) (sample_http ''POST'' [])
         (sample_fleet\<lparr>srv_hosts := s\<rparr>) = (srv2, WriteJSON 200 (HostJSON info)) \<and>
       runSync sample_wire (deliver sample_link_env sample_encode ''https://pb'') sample_cli (no_overrides ''/etc/agent.json'') (srv2, files1) = ((srv3, files1), None))"
    using agent_admitted [OF sample_codecs_agree(1,1,2) sample_link_facts(1) refl sample_link_facts(2-4) sample_link_facts(6,6,5) refl sample_sendable(1) enrolled
        sample_collected_ok _ sample_sendable(2), of "sample_admin True" "sample_http ''POST'' []"] by auto
  then have "host_ID h = ''h_1''" "host_ApprovalStatus h = ''waiting_approval''" using hosts by auto
  then show ?thesis using enrolled h by (auto simp: Let_def sample_http_def)
qed

end
