(* ===== verification/Queue_Workers.thy ===== *)
theory Queue_Workers
  imports Api_Web Advisory_Sync
begin

text \<open>
  The workers of the queue (\<open>internal/queue/ssh_pull_worker.go\<close>, \<open>advisory_sync_worker.go\<close>, \<open>email_report.go\<close>) and the mailer
  (\<open>internal/mailer/mailer.go\<close>). River, the templates, \<open>sort.Slice\<close> and the SMTP connection are parameters; what the queue does
  with a job follows from what its worker returns.
\<close>

section \<open>Retries\<close>

text \<open>\<open>10 * time.Second * (1 << uint(job.Attempt-1))\<close> in 64 bits, and the cap of ten minutes. Both workers compute it.\<close>

definition retry_backoff :: "int \<Rightarrow> int" where
  "retry_backoff attempt =
     (let backoff = sint (10000000000 * push_bit (unat (word_of_int (attempt - 1) :: 64 word)) 1 :: 64 word)
      in if backoff > 600000000000 \<or> backoff \<le> 0 then 600000000000 else backoff)"

definition NextRetry :: "int \<Rightarrow> int \<Rightarrow> int" where
  "NextRetry now attempt = now + retry_backoff attempt"

section \<open>The workers\<close>

datatype 'e work_result = JobDone | JobCancel 'e | JobError 'e

text \<open>The exit status of an \<open>SSHPullError\<close> in the chain of wrapped errors. A failed update of the job hides the error of the
  collection, and only a failed script gives such an error.\<close>

fun ssh_exit :: "(string \<Rightarrow> int) \<Rightarrow> service_error \<Rightarrow> int option" where
  "ssh_exit status (PullErr (ScriptFailed message)) = Some (status message)"
| "ssh_exit status _ = None"

definition SSHPullWorker_Work :: "(string \<Rightarrow> int) \<Rightarrow> service_env \<Rightarrow> string \<Rightarrow> service \<Rightarrow> service \<times> service_error work_result" where
  "SSHPullWorker_Work status env hostID s =
     (case RunSSHPull env SystemActorRef hostID s of
        (s1, Inr _) \<Rightarrow> (s1, JobDone)
      | (s1, Inl e) \<Rightarrow>
          (s1, if e = AppErr ErrHostNotFound then JobCancel e
               else case ssh_exit status e of
                 Some code \<Rightarrow> if code \<noteq> -1 \<and> code \<noteq> 255 then JobCancel e else JobError e
               | None \<Rightarrow> JobError e))"

definition AdvisorySyncWorker_Work :: "sync_env \<Rightarrow> string \<Rightarrow> sync_state \<Rightarrow> sync_state \<times> sync_error work_result" where
  "AdvisorySyncWorker_Work env scopeKey s =
     (case SyncScope env scopeKey s of (s1, None) \<Rightarrow> (s1, JobDone) | (s1, Some e) \<Rightarrow> (s1, JobError e))"

section \<open>The mailer\<close>

record ReportData =
  rd_TotalHosts :: int
  rd_WithCritical :: int
  rd_WithImportant :: int
  rd_WithMedium :: int
  rd_TopHosts :: "HostInfo list"

definition count_host :: "HostInfo \<Rightarrow> ReportData \<Rightarrow> ReportData" where
  "count_host h data =
     data\<lparr>rd_TotalHosts := rd_TotalHosts data + 1,
          rd_WithCritical := rd_WithCritical data + (if hi_CriticalCount h > 0 then 1 else 0),
          rd_WithImportant := rd_WithImportant data + (if hi_ImportantCount h > 0 then 1 else 0),
          rd_WithMedium := rd_WithMedium data + (if hi_ModerateCount h > 0 then 1 else 0)\<rparr>"

definition report_less :: "HostInfo \<Rightarrow> HostInfo \<Rightarrow> bool" where
  "report_less a b =
     (if hi_CriticalCount a \<noteq> hi_CriticalCount b then hi_CriticalCount a > hi_CriticalCount b
      else if hi_ImportantCount a \<noteq> hi_ImportantCount b then hi_ImportantCount a > hi_ImportantCount b
      else hi_ModerateCount a > hi_ModerateCount b)"

definition report_data :: "(HostInfo list \<Rightarrow> HostInfo list) \<Rightarrow> HostInfo list \<Rightarrow> ReportData" where
  "report_data srt allHosts =
     (fold count_host allHosts \<lparr>rd_TotalHosts = 0, rd_WithCritical = 0, rd_WithImportant = 0, rd_WithMedium = 0, rd_TopHosts = []\<rparr>)
       \<lparr>rd_TopHosts := take 5 (srt allHosts)\<rparr>"

text \<open>A mail as it is handed to the SMTP server\<close>

record mail =
  ml_Addr :: string
  ml_Auth :: "string \<times> string \<times> string"
  ml_From :: string
  ml_To :: "string list"
  ml_Msg :: string

record mail_env =
  me_sort :: "HostInfo list \<Rightarrow> HostInfo list"
  me_txt :: "ReportData \<Rightarrow> string option"
  me_html :: "ReportData \<Rightarrow> string option"
  me_listAdminsFails :: bool
  me_sendMail :: "mail \<Rightarrow> bool"

datatype mail_error =
    SMTPSettingsError account_error | SMTPNotConfigured | ListAdminsFailed | ListHostsFailed service_error | TxtTemplateFailed | HtmlTemplateFailed
  | SendMailFailed

definition crlf :: string where "crlf = [CHR 0x0D, CHR 0x0A]"

definition smtp_mail :: "SMTPSettings \<Rightarrow> string list \<Rightarrow> string \<Rightarrow> mail" where
  "smtp_mail s to msg =
     \<lparr>ml_Addr = sm_Host s @ '':'' @ Itoa (sm_Port s), ml_Auth = (sm_Username s, sm_Password s, sm_Host s), ml_From = sm_From s, ml_To = to, ml_Msg = msg\<rparr>"

text \<open>The mails that were sent, and the error\<close>

definition send_mail :: "mail_env \<Rightarrow> mail \<Rightarrow> mail list \<times> mail_error option" where
  "send_mail env m = (if me_sendMail env m then ([m], None) else ([], Some SendMailFailed))"

definition TestConnection :: "mail_env \<Rightarrow> SMTPSettings \<Rightarrow> string \<Rightarrow> mail list \<times> mail_error option" where
  "TestConnection env s to =
     send_mail env (smtp_mail s [to]
       (''To: '' @ to @ crlf @ ''From: '' @ sm_From s @ crlf @ ''Subject: Test Email from PatchBase'' @ crlf @ crlf @
        ''This is a test email to verify your SMTP settings.'' @ crlf))"

definition report_message :: "string \<Rightarrow> string list \<Rightarrow> string \<Rightarrow> string \<Rightarrow> string" where
  "report_message from to txt html =
     (let boundary = ''patchbase-boundary-'' @ Itoa 123456789; q = [CHR 0x22] in
      ''From: '' @ from @ crlf @ ''To: '' @ Join to '', '' @ crlf @ ''Subject: PatchBase Daily Report'' @ crlf @ ''MIME-Version: 1.0'' @ crlf @
      ''Content-Type: multipart/alternative; boundary='' @ q @ boundary @ q @ crlf @ crlf @
      ''--'' @ boundary @ crlf @ ''Content-Type: text/plain; charset='' @ q @ ''utf-8'' @ q @ crlf @ crlf @ txt @ crlf @ crlf @
      ''--'' @ boundary @ crlf @ ''Content-Type: text/html; charset='' @ q @ ''utf-8'' @ q @ crlf @ crlf @ html @ crlf @ crlf @
      ''--'' @ boundary @ ''--'' @ crlf)"

definition SendReport :: "mail_env \<Rightarrow> account_env \<Rightarrow> service_env \<Rightarrow> string list \<Rightarrow> server \<Rightarrow> mail list \<times> mail_error option" where
  "SendReport env aenv henv to srv =
     (case GetSMTPSettings aenv (accounts_of srv) of
        Inl e \<Rightarrow> ([], Some (SMTPSettingsError e))
      | Inr s \<Rightarrow>
          if sm_Host s = [] then ([], Some SMTPNotConfigured)
          else if to = [] \<and> me_listAdminsFails env then ([], Some ListAdminsFailed)
          else let to = (if to = [] then map us_Email (ListAdminUsers (srv_accounts srv)) else to) in
            if to = [] then ([], None)
            else case snd (ListHosts henv (srv_hosts srv)) of
              Inl e \<Rightarrow> ([], Some (ListHostsFailed e))
            | Inr allHosts \<Rightarrow>
                let data = report_data (me_sort env) allHosts in
                case me_txt env data of
                  None \<Rightarrow> ([], Some TxtTemplateFailed)
                | Some txt \<Rightarrow>
                    (case me_html env data of
                       None \<Rightarrow> ([], Some HtmlTemplateFailed)
                     | Some html \<Rightarrow> send_mail env (smtp_mail s to (report_message (sm_From s) to txt html))))"

definition EmailReportWorker_Work :: "mail_env \<Rightarrow> account_env \<Rightarrow> service_env \<Rightarrow> server \<Rightarrow> mail list \<times> mail_error work_result" where
  "EmailReportWorker_Work env aenv henv srv =
     (case SendReport env aenv henv [] srv of (sent, None) \<Rightarrow> (sent, JobDone) | (sent, Some e) \<Rightarrow> (sent, JobError e))"

end
