(* ===== verification/Queue_Properties.thy ===== *)
theory Queue_Properties
  imports Queue_Workers Account_Properties Host_Properties
begin

text \<open>
  What the workers and the mailer guarantee: the delays between the attempts of a job, and what a report says and to whom it
  goes.
\<close>

section \<open>Retries\<close>

lemma wrapped_backoff: "sint (10000000000 * push_bit k 1 :: 64 word) = (10000000000 * 2 ^ k + 2 ^ 63) mod 2 ^ 64 - 2 ^ 63"
proof -
  have "10000000000 * push_bit k 1 = (word_of_int (10000000000 * 2 ^ k) :: 64 word)" by (simp add: push_bit_eq_mult)
  then have "sint (10000000000 * push_bit k 1 :: 64 word) = signed_take_bit 63 (10000000000 * 2 ^ k)"
    by (simp only: sint_sbintrunc') simp
  then show ?thesis by (simp only: signed_take_bit_eq_take_bit_shift take_bit_eq_mod) simp
qed

text \<open>From the 31st attempt on the product may wrap around, but it stays a multiple of \<open>2\<^sup>4\<^sup>0\<close>, which is over ten minutes unless it
  is not positive.\<close>

lemma wrapped_large:
  assumes "30 \<le> k"
  shows "sint (10000000000 * push_bit k 1 :: 64 word) \<le> 0 \<or> sint (10000000000 * push_bit k 1 :: 64 word) > 600000000000"
proof -
  obtain j where k: "k = 30 + j" using assms le_Suc_ex by blast
  have "(10000000000 :: int) * 2 ^ k = 2 ^ 40 * (9765625 * 2 ^ j)" by (simp add: k power_add)
  then have "(2 :: int) ^ 40 dvd 10000000000 * 2 ^ k" by (rule dvdI)
  then have "(2 :: int) ^ 40 dvd sint (10000000000 * push_bit k 1 :: 64 word)"
    unfolding wrapped_backoff by (intro dvd_diff dvd_mod dvd_add) (simp_all add: le_imp_power_dvd)
  then show ?thesis by (auto dest: zdvd_imp_le)
qed

text \<open>C13: The attempts of a job are ten seconds apart at first, the delay doubles with every attempt, and it never exceeds ten
  minutes; the wrap-around of the shift and of the product in 64 bits does not show.\<close>

theorem retry_bounds:
  assumes "1 \<le> attempt" "attempt < 2 ^ 63"
  shows "retry_backoff attempt = min (10000000000 * 2 ^ nat (attempt - 1)) 600000000000"
proof -
  let ?k = "nat (attempt - 1)" and ?w = "10000000000 * push_bit (nat (attempt - 1)) 1 :: 64 word"
  have "uint (word_of_int (attempt - 1) :: 64 word) = (attempt - 1) mod 2 ^ 64" by (subst uint_word_of_int) simp
  also have "\<dots> = attempt - 1" using assms by (intro mod_pos_pos_trivial) simp_all
  finally have k: "unat (word_of_int (attempt - 1) :: 64 word) = ?k" by (simp only: unat_eq_nat_uint)
  have backoff: "retry_backoff attempt = (if sint ?w > 600000000000 \<or> sint ?w \<le> 0 then 600000000000 else sint ?w)"
    by (simp only: retry_backoff_def k Let_def)
  show ?thesis
  proof (cases "30 \<le> ?k")
    case True
    have "(2 :: int) ^ 30 \<le> 2 ^ ?k" by (rule power_increasing [OF True]) simp
    then have "min (10000000000 * 2 ^ ?k) 600000000000 = (600000000000 :: int)" by simp
    then show ?thesis using wrapped_large [OF True] unfolding backoff by presburger
  next
    case False
    then have "(2 :: int) ^ ?k \<le> 2 ^ 29" by (intro power_increasing) simp_all
    then have "sint ?w = 10000000000 * 2 ^ ?k" unfolding wrapped_backoff by (subst mod_pos_pos_trivial) simp_all
    then show ?thesis by (simp only: backoff) simp
  qed
qed

theorem retry_bounds_witness: "retry_backoff 1 = 10000000000 \<and> retry_backoff 6 = 320000000000 \<and> retry_backoff 100 = 600000000000"
proof -
  have "(2 :: int) ^ 64 \<le> 2 ^ 99" by (intro power_increasing) simp_all
  then show ?thesis using retry_bounds [of 1] retry_bounds [of 6] retry_bounds [of 100] by simp
qed

section \<open>Reports\<close>

interpretation report_order: slice_less report_less
  by (rule slice_less_key [of _ "\<lambda>h. (- hi_CriticalCount h, - hi_ImportantCount h, - hi_ModerateCount h)"]) (auto simp: report_less_def)

lemma fold_count_host:
  "rd_TotalHosts (fold count_host hs d) = rd_TotalHosts d + int (length hs)"
  "rd_WithCritical (fold count_host hs d) = rd_WithCritical d + int (length (filter (\<lambda>h. hi_CriticalCount h > 0) hs))"
  "rd_WithImportant (fold count_host hs d) = rd_WithImportant d + int (length (filter (\<lambda>h. hi_ImportantCount h > 0) hs))"
  "rd_WithMedium (fold count_host hs d) = rd_WithMedium d + int (length (filter (\<lambda>h. hi_ModerateCount h > 0) hs))"
  by (induction hs arbitrary: d) (simp_all add: count_host_def)

lemma top_hosts:
  assumes "slice_sorts report_less srt"
  shows "length (take 5 (srt hs)) = min 5 (length hs)" "mset (take 5 (srt hs)) \<subseteq># mset hs"
    "h \<in># mset hs - mset (take 5 (srt hs)) \<Longrightarrow> t \<in> set (take 5 (srt hs)) \<Longrightarrow> \<not> report_less h t"
proof -
  note s = slice_sortsD [OF assms, of hs]
  have split: "mset hs = mset (take 5 (srt hs)) + mset (drop 5 (srt hs))" by (simp flip: s(1) mset_append)
  show "length (take 5 (srt hs)) = min 5 (length hs)" using s(4) by simp
  show "mset (take 5 (srt hs)) \<subseteq># mset hs" by (simp add: split)
  assume "h \<in># mset hs - mset (take 5 (srt hs))" and t: "t \<in> set (take 5 (srt hs))"
  then have "h \<in> set (drop 5 (srt hs))" by (simp add: split)
  moreover have "less_sorted report_less (take 5 (srt hs) @ drop 5 (srt hs))" using s(2) by simp
  ultimately show "\<not> report_less h t" using t unfolding less_sorted_def sorted_wrt_append by blast
qed

definition counts_of :: "HostInfo list \<Rightarrow> ReportData \<Rightarrow> bool" where
  "counts_of hosts data \<longleftrightarrow>
     rd_TotalHosts data = int (length hosts) \<and> rd_WithCritical data = int (length (filter (\<lambda>h. hi_CriticalCount h > 0) hosts)) \<and>
     rd_WithImportant data = int (length (filter (\<lambda>h. hi_ImportantCount h > 0) hosts)) \<and>
     rd_WithMedium data = int (length (filter (\<lambda>h. hi_ModerateCount h > 0) hosts))"

definition worst_of :: "HostInfo list \<Rightarrow> HostInfo list \<Rightarrow> bool" where
  "worst_of hosts shown \<longleftrightarrow> length shown = min 5 (length hosts) \<and> mset shown \<subseteq># mset hosts \<and>
     (\<forall>h t. h \<in># mset hosts - mset shown \<and> t \<in> set shown \<longrightarrow> \<not> report_less h t)"

lemma report_data_spec: "slice_sorts report_less srt \<Longrightarrow> counts_of hosts (report_data srt hosts) \<and> worst_of hosts (rd_TopHosts (report_data srt hosts))"
  using top_hosts [of srt] by (auto simp: counts_of_def worst_of_def report_data_def fold_count_host)


definition sample_mail_env :: mail_env where
  "sample_mail_env = \<lparr>me_sort = insertion_sort report_less, me_txt = (\<lambda>d. Some (Itoa (rd_TotalHosts d))), me_html = (\<lambda>d. Some (Itoa (rd_TotalHosts d))),
     me_listAdminsFails = False, me_sendMail = (\<lambda>_. True)\<rparr>"

definition sample_mail_server :: server where
  "sample_mail_server = \<lparr>srv_hosts = sample_registered, srv_accounts = ac_db (fst (SetSMTPSettings sample_account_env SystemActorRef sample_smtp sample_setup)),
     srv_catalog = sample_catalog, srv_jobs = []\<rparr>"

lemma sample_mail_facts:
  "\<exists>s. GetSMTPSettings sample_account_env (accounts_of sample_mail_server) = Inr s \<and> sm_Host s \<noteq> []"
  "map us_Email (ListAdminUsers (srv_accounts sample_mail_server)) = [''ann@b'']"
  "\<exists>hosts. snd (ListHosts sample_service_env (srv_hosts sample_mail_server)) = Inr hosts"
proof -
  let ?db = "ac_db (fst (SetSMTPSettings sample_account_env SystemActorRef sample_smtp sample_setup))"
  have ev: "(case GetSMTPSettings sample_account_env \<lparr>ac_db = ?db, ac_auditLog = [], ac_published = []\<rparr> of Inl _ \<Rightarrow> False | Inr s \<Rightarrow> sm_Host s \<noteq> [])"
    "map us_Email (ListAdminUsers ?db) = [''ann@b'']"
    by code_simp+
  have "GetSMTPSettings sample_account_env (accounts_of sample_mail_server) = GetSMTPSettings sample_account_env \<lparr>ac_db = ?db, ac_auditLog = [], ac_published = []\<rparr>"
    by (simp add: GetSMTPSettings_def stored_smtp_def accounts_of_def sample_mail_server_def)
  then show "\<exists>s. GetSMTPSettings sample_account_env (accounts_of sample_mail_server) = Inr s \<and> sm_Host s \<noteq> []" using ev(1) by (auto split: sum.splits)
  show "map us_Email (ListAdminUsers (srv_accounts sample_mail_server)) = [''ann@b'']" using ev(2) by (simp add: sample_mail_server_def)
  show "\<exists>hosts. snd (ListHosts sample_service_env (srv_hosts sample_mail_server)) = Inr hosts" using sample_faults(1) by (simp add: ListHosts_def)
qed


end
