(* ===== verification/Spec2Isabelle.thy ===== *)
theory Spec2Isabelle
  imports Matcher Ws_Hub Go_Option Lifecycle_Catalog Agent_Repos Kernel_Posture Audit_Log Advisory_Sync Ssh_Report Host_Pull_Properties Account_Properties Agent_Properties Queue_Properties
begin

text \<open>
  A verification library for PatchBase, a server that collects the installed packages of Linux hosts, compares them with
  vendor advisories and reports what to update. The Go sources are under \<open>src/\<close>; below, paths are relative to it.

  \<^bold>\<open>The program.\<close> An agent (\<open>agent/\<close>) registers a host with a token and sends snapshots; hosts can also be pulled over SSH or
  have reports uploaded. The hosts service (\<open>internal/services/hosts.go\<close>) stores a snapshot in one transaction, registers
  the advisory scope of the host, and hands the snapshot to the matcher (\<open>internal/services/matchers\<close>), which replaces the
  decisions of the snapshot and the state of the host. Scopes are synchronised from an advisory server by periodic jobs
  (\<open>internal/services/advisory_sync.go\<close>, \<open>internal/queue/periodic.go\<close>). Changes are published to an event broker
  (\<open>internal/events\<close>) that a WebSocket hub (\<open>internal/ws\<close>) forwards to browsers, and administrative actions are written to
  an audit log.

  \<^bold>\<open>Conventions.\<close> A struct is a record, an enumeration a datatype, a fallible function a sum whose left side is the error. A Go
  string is a list of bytes, a Go integer an \<open>int\<close> with the wrap-around written out where the code can overflow. A database
  is a record of tables (lists of rows), a statement a function from the database to an error or a result with the new
  database, with the constraints of the migrations, and a transaction a run on a copy that is kept only by the commit. What
  the code calls outside the repository (clocks, random draws, hashes, file system, HTTP, SSH, River, JSON and protobuf
  codecs, \<open>sort.Slice\<close>, the order of a range over a map) is a parameter, usually a field of an environment record; theorems
  hold for all values of these parameters, or name what they need of them. Which calls fail is a parameter too, so an
  error path is a branch of the model.

  \<^bold>\<open>Library.\<close> \<open>Prelude\<close>, \<open>Go_Strings\<close>, \<open>Go_Slices\<close> and \<open>Go_Compare\<close> hold the lemmas and the parts of the Go standard
  library that the components share: trimming, splitting, cutting, parsing of numbers, three-way comparisons, sorting with
  an unspecified algorithm. Their locales state the laws of a comparison and of a sorting routine.

  \<^bold>\<open>Versions.\<close> \<open>Rpm_Version\<close> (\<open>matcher_rpmver.go\<close>) and \<open>Debian_Version\<close> (\<open>matcher_debianver.go\<close>) model the comparisons and
  parsers; both comparisons equal a reference order on segments and are total preorders, the latter shown once in the
  locale of comparisons.

  \<^bold>\<open>Matcher.\<close> \<open>Product_Streams\<close>, \<open>Package_Keys\<close>, \<open>Kernel_Packages\<close>, \<open>Decisions\<close>, \<open>Build_Decisions\<close> and \<open>Matcher\<close> follow
  \<open>matcher_streams.go\<close> and \<open>matcher.go\<close> function by function. Decisions are sound and do not depend on map order; one
  preferred decision is kept for each package; a match is atomic and replaces exactly the rows of its snapshot.

  \<^bold>\<open>Hosts.\<close> \<open>Host_Tables\<close> has the tables and statements (\<open>internal/sql/*.sql.go\<close>), \<open>Host_Service\<close> the state, the transactions
  and the work after a snapshot, \<open>Host_Views\<close> the reading operations, \<open>Host_Registration\<close> tokens, registration, approval
  and ingestion, \<open>Host_Admin\<close> changes and deletion, \<open>Host_Pull\<close> SSH pulls and manual reports. \<open>Host_Rules\<close> gives rules for
  what holds after an operation, \<open>Host_Store\<close> the consistency of the database with the locale of a consistent store,
  interpreted on it, and \<open>Host_Invariant\<close> the reachable states of the service. \<open>Host_Properties\<close> and \<open>Host_Pull_Properties\<close>
  show that every reachable database is consistent, that deletion is complete, who may register and report, that a pull
  settles its job, and that the schedule of a pull follows the database.

  \<^bold>\<open>Advisories.\<close> \<open>Advisory_Scopes\<close>, \<open>Advisory_Import\<close> and \<open>Advisory_Sync\<close> model \<open>advisory_sync.go\<close>: data changes only to what a
  file with the announced checksum holds, and an import replaces the data of its streams. \<open>Periodic_Jobs\<close> models
  \<open>periodic.go\<close> over the sequence of calls to River.

  \<^bold>\<open>Collection.\<close> \<open>Agent_Packages\<close> and \<open>Agent_Repos\<close> model the collectors of the agent, \<open>Ssh_Report\<close> the report parser of
  \<open>ssh_pull.go\<close>; identifiers that the agent composes are read back by the server, and the two collectors agree.

  \<^bold>\<open>Views.\<close> \<open>Decision_Items\<close>, \<open>Decision_Groups\<close> and \<open>Kernel_Posture\<close> model the decision view and the kernel posture handler,
  \<open>Lifecycle_Catalog\<close> the support status of operating systems, \<open>Audit_Log\<close> recording and paging.

  \<^bold>\<open>Events.\<close> \<open>Event_Bus\<close> models the broker with channels in a heap and panics as errors; since every method holds the mutex,
  executions are sequences of calls. \<open>Ws_Hub\<close> models a connection as a step relation on events, messages and timers.
  \<open>Go_Option\<close> refines the \<open>Option\<close> struct to the option type, and \<open>Data_Model\<close> holds messages and rows.

  \<^bold>\<open>Accounts.\<close> \<open>Crypto_Box\<close> models the encryption of secrets (\<open>internal/utils/crypto.go\<close>) with base64 written out and the
  cipher as a parameter, \<open>Account_Tables\<close> the users and settings with their statements, \<open>Account_Service\<close> the state and the
  typed settings, \<open>Settings_Service\<close> and \<open>Auth_Service\<close> the services (\<open>internal/services/settings.go\<close>, \<open>auth.go\<close>).
  \<open>Account_Properties\<close> shows that the initial setup completes once, that the global key pair never changes, that mail
  settings are read back as stored, and how long a session lasts.

  \<^bold>\<open>API.\<close> \<open>Api_Entities\<close> has the entities of the responses (\<open>internal/api/v1/entities\<close>), \<open>Api_Web\<close> requests, responses, errors,
  parameters, authentication and middleware (\<open>internal/api\<close>, \<open>internal/apperr\<close>), \<open>Api_Packages\<close>, \<open>Api_Hosts\<close> and \<open>Api_Accounts\<close>
  one definition for each handler (\<open>internal/api/v1\<close>), and \<open>Api_Routes\<close> the routes with the choice that \<open>http.ServeMux\<close> makes and
  the chain of handlers that serves a request. The state of the server joins hosts, accounts, catalog and queue.
  \<open>Api_Properties\<close> shows what a request may change by who sent it, that the routes do not conflict, and that the pages of the
  audit log and of the packages are complete.

  \<^bold>\<open>Agent.\<close> \<open>Agent_System\<close> models the facts the agent reads from a host and the snapshot it makes of them
  (\<open>agent/internal/collector\<close>), \<open>Agent_Client\<close> its configuration, HTTP client and commands; an exchange with the server is a
  step on the state of the server. \<open>Agent_Properties\<close> puts both sides together: requests of the client run through the routes of
  the server, so that the commands amount to calls of the hosts service, and an agent is followed from its enrolment
  through approval to its first snapshot.

  \<^bold>\<open>Queue.\<close> \<open>Queue_Workers\<close> models the workers (\<open>internal/queue\<close>) and the mailer (\<open>internal/mailer\<close>), with the SMTP connection and the
  templates as parameters. \<open>Queue_Properties\<close> shows the delays between attempts, in 64 bits, and what a report says to whom.

  \<^bold>\<open>Bounds.\<close> Loops are recursive functions with termination proofs, on the length of the input that is left, so no fuel is
  needed. \<open>rpm_rounds\<close> counts the rounds of the version comparison to show how many it takes at most.

  \<^bold>\<open>Not modelled.\<close> Dependency injection, configuration files and command-line flags are glue. The mail templates, SMTP, TLS and SSH
  transport, the WebSocket upgrade and logging are input and output through libraries. Generated code (protobuf messages,
  validators, mocks) is represented by the records that the modelled code uses, its decoders and validators are parameters.
  Concurrent transactions are not interleaved: the operations run one after the other.
\<close>

end
